(* ===== verification/Prelude.thy ===== *)
theory Prelude
  imports Main "HOL-Library.Char_ord"
begin

text \<open>
  What every component shares: Go error values, the world a request handler runs in (the
  tables it touches, the clock, the outcome of the next database calls and of the random
  generators), the state-and-error monad handlers are written in, its weakest-precondition
  calculus, SQL table operations on lists of rows, and the contract of a service whose
  operations keep an invariant.
\<close>

named_theorems wp_simps "equations that compute the weakest precondition of a handler"
named_theorems clock_intros "the clock stands still while a handler runs"
named_theorems fails_intros "what errors a handler may return"
named_theorems calm_intros "handlers that succeed when no call fails"
named_theorems steady_intros "what a handler keeps of its tables, whatever it returns"
named_theorems tbl_simps "facts on updates, selections and counts over tables"

section \<open>Identifiers\<close>

text \<open>A UUID is its canonical text, so that \<open>id.String()\<close> is the identity.\<close>

type_synonym uuid = string

definition uuid_nil :: uuid where
  "uuid_nil = ''00000000-0000-0000-0000-000000000000''"

section \<open>Go errors\<close>

text \<open>
  The sentinel errors of the program (\<open>internal/apiresponse/errors.go\<close>,
  \<open>internal/repository\<close>) and of the code it calls: a failed database call, a violated
  table constraint, a missing row, a failed random read, a failed remote call.
\<close>

datatype sentinel =
    ErrValidation | ErrNotFound | ErrUnauthorized | ErrForbidden | ErrConflict
  | ErrNotImplemented | ErrInternal
  | ErrNoActiveRM | ErrNoConsent
  | ErrNoRows | ErrDB | ErrConstraint | ErrRand | ErrRemote

text \<open>
  \<open>Wrap m e\<close> is \<open>fmt.Errorf("m: %w", e)\<close>; \<open>Plain m\<close> is an error that wraps nothing.
\<close>

datatype goerr = Sent sentinel | Wrap string goerr | Plain string

text \<open>\<open>errors.Is\<close> along the wrapping chain.\<close>

fun errors_is :: "goerr \<Rightarrow> sentinel \<Rightarrow> bool" where
  "errors_is (Sent s) t = (s = t)"
| "errors_is (Wrap m e) t = errors_is e t"
| "errors_is (Plain m) t = False"

section \<open>The world of a handler\<close>

text \<open>
  \<open>wdb\<close>: the tables; \<open>wfaults\<close>: for each coming database call, whether it fails (the
  list is arbitrary, so a theorem holds for every pattern of failures; past its end calls
  succeed); \<open>wnow\<close>: the clock in nanoseconds since the Unix epoch, fixed while one handler
  runs; \<open>wrand\<close>: the coming values of \<open>crypto/rand\<close>; \<open>wuuids\<close>: the coming values of
  the database's \<open>gen_random_uuid()\<close>.
\<close>

record 'd world =
  wdb :: 'd
  wfaults :: "bool list"
  wnow :: int
  wrand :: "nat list"
  wuuids :: "uuid list"

definition faulty :: "'d world \<Rightarrow> bool" where
  "faulty w \<longleftrightarrow> wfaults w \<noteq> [] \<and> hd (wfaults w)"

definition tick :: "'d world \<Rightarrow> 'd world" where
  "tick w = w\<lparr>wfaults := tl (wfaults w)\<rparr>"

lemma tick_sel [simp]:
  "wdb (tick w) = wdb w" "wnow (tick w) = wnow w" "wrand (tick w) = wrand w"
  "wuuids (tick w) = wuuids w" "wfaults (tick w) = tl (wfaults w)"
  by (simp_all add: tick_def)

lemma tick_upd [simp]:
  "tick (w\<lparr>wdb := d\<rparr>) = (tick w)\<lparr>wdb := d\<rparr>"
  "tick (w\<lparr>wrand := r\<rparr>) = (tick w)\<lparr>wrand := r\<rparr>"
  "tick (w\<lparr>wuuids := u\<rparr>) = (tick w)\<lparr>wuuids := u\<rparr>"
  by (simp_all add: tick_def)

lemma faulty_upd [simp]:
  "faulty (w\<lparr>wdb := d\<rparr>) = faulty w"
  "faulty (w\<lparr>wrand := r\<rparr>) = faulty w"
  "faulty (w\<lparr>wuuids := u\<rparr>) = faulty w"
  by (simp_all add: faulty_def)

lemma tick_same [simp]: "(tick w)\<lparr>wdb := wdb w\<rparr> = tick w"
  by (simp add: tick_def)

lemma tick_no_faults: "wfaults w = [] \<Longrightarrow> tick w = w"
  by (simp add: tick_def)

lemma no_faults [simp]:
  "wfaults w = [] \<Longrightarrow> \<not> faulty w"
  by (simp add: faulty_def)

section \<open>Handlers: state, errors, early returns\<close>

type_synonym ('d, 'a) act = "'d world \<Rightarrow> (goerr + 'a) \<times> 'd world"

definition ret :: "'a \<Rightarrow> ('d, 'a) act" where
  "ret a = (\<lambda>w. (Inr a, w))"

definition fail :: "goerr \<Rightarrow> ('d, 'a) act" where
  "fail e = (\<lambda>w. (Inl e, w))"

text \<open>Sequencing: an error of the first call is returned at once.\<close>

definition bind :: "('d, 'a) act \<Rightarrow> ('a \<Rightarrow> ('d, 'b) act) \<Rightarrow> ('d, 'b) act" where
  "bind m f = (\<lambda>w. case m w of (Inl e, w') \<Rightarrow> (Inl e, w') | (Inr a, w') \<Rightarrow> f a w')"

text \<open>A call whose error is inspected (or dropped) instead of returned.\<close>

definition attempt :: "('d, 'a) act \<Rightarrow> ('d, goerr + 'a) act" where
  "attempt m = (\<lambda>w. case m w of (r, w') \<Rightarrow> (Inr r, w'))"

text \<open>\<open>if err != nil { return fmt.Errorf("msg: %w", err) }\<close>\<close>

definition wrapping :: "string \<Rightarrow> ('d, 'a) act \<Rightarrow> ('d, 'a) act" where
  "wrapping msg m = (\<lambda>w. case m w of (Inl e, w') \<Rightarrow> (Inl (Wrap msg e), w') | (Inr a, w') \<Rightarrow> (Inr a, w'))"

definition time_now :: "('d, int) act" where
  "time_now = (\<lambda>w. (Inr (wnow w), w))"

definition rand_nat :: "('d, nat) act" where
  "rand_nat = (\<lambda>w. case wrand w of [] \<Rightarrow> (Inl (Sent ErrRand), w)
                   | n # ns \<Rightarrow> (Inr n, w\<lparr>wrand := ns\<rparr>))"

text \<open>
  A later reading of the clock within one handler: the nanoseconds elapsed since the handler
  began are the next value of \<open>wrand\<close> (the sources a component reads from outside share it).
\<close>

definition later :: "('d, int) act" where
  "later = (\<lambda>w. case wrand w of [] \<Rightarrow> (Inr (wnow w), w)
                | n # ns \<Rightarrow> (Inr (wnow w + int n), w\<lparr>wrand := ns\<rparr>))"

text \<open>
  One database call: it may fail, leaving the tables alone; otherwise the statement runs,
  and a statement that violates a constraint is an error that leaves the tables alone.
\<close>

definition query :: "(int \<Rightarrow> 'd \<Rightarrow> 'a) \<Rightarrow> ('d, 'a) act" where
  "query q = (\<lambda>w. if faulty w then (Inl (Sent ErrDB), tick w)
                  else (Inr (q (wnow w) (wdb w)), tick w))"

definition exec :: "(int \<Rightarrow> 'd \<Rightarrow> goerr + ('a \<times> 'd)) \<Rightarrow> ('d, 'a) act" where
  "exec s = (\<lambda>w. if faulty w then (Inl (Sent ErrDB), tick w)
     else (case s (wnow w) (wdb w) of Inl e \<Rightarrow> (Inl e, tick w)
           | Inr (a, d) \<Rightarrow> (Inr a, (tick w)\<lparr>wdb := d\<rparr>)))"

text \<open>An INSERT whose primary key is \<open>gen_random_uuid()\<close>.\<close>

definition exec_id :: "(uuid \<Rightarrow> int \<Rightarrow> 'd \<Rightarrow> goerr + ('a \<times> 'd)) \<Rightarrow> ('d, 'a) act" where
  "exec_id s = (\<lambda>w. case wuuids w of [] \<Rightarrow> (Inl (Sent ErrDB), tick w)
     | u # us \<Rightarrow> exec (s u) (w\<lparr>wuuids := us\<rparr>))"

text \<open>
  \<open>QueryRow(...).Scan(...)\<close>: no row is the error \<open>pgx.ErrNoRows\<close>. \<open>get_row\<close> is the
  repositories' idiom around it: no row becomes a nil result, any other error is wrapped.
\<close>

definition query_row :: "(int \<Rightarrow> 'd \<Rightarrow> 'a option) \<Rightarrow> ('d, 'a) act" where
  "query_row q = exec (\<lambda>t d. case q t d of None \<Rightarrow> Inl (Sent ErrNoRows) | Some a \<Rightarrow> Inr (a, d))"

definition get_row :: "string \<Rightarrow> (int \<Rightarrow> 'd \<Rightarrow> 'a option) \<Rightarrow> ('d, 'a option) act" where
  "get_row msg q = bind (attempt (query_row q)) (\<lambda>r. case r of
      Inl e \<Rightarrow> (if errors_is e ErrNoRows then ret None else fail (Wrap msg e))
    | Inr a \<Rightarrow> ret (Some a))"

text \<open>A statement that cannot violate a constraint, and one that may.\<close>

definition exec_upd :: "(int \<Rightarrow> 'd \<Rightarrow> 'd) \<Rightarrow> ('d, unit) act" where
  "exec_upd f = exec (\<lambda>t d. Inr ((), f t d))"

definition exec_check :: "(int \<Rightarrow> 'd \<Rightarrow> bool) \<Rightarrow> (int \<Rightarrow> 'd \<Rightarrow> 'd) \<Rightarrow> ('d, unit) act" where
  "exec_check ok f = exec (\<lambda>t d. if ok t d then Inr ((), f t d) else Inl (Sent ErrConstraint))"

text \<open>
  A transaction: BEGIN may fail; an error of the body, or of COMMIT, restores the tables.
  \<open>bw\<close> and \<open>cw a\<close> are how the code wraps an error of BEGIN and of COMMIT.
\<close>

definition tx :: "(goerr \<Rightarrow> goerr) \<Rightarrow> ('a \<Rightarrow> goerr \<Rightarrow> goerr) \<Rightarrow> ('d, 'a) act \<Rightarrow> ('d, 'a) act" where
  "tx bw cw m = (\<lambda>w. if faulty w then (Inl (bw (Sent ErrDB)), tick w)
     else (case m (tick w) of
        (Inl e, w') \<Rightarrow> (Inl e, w'\<lparr>wdb := wdb w\<rparr>)
      | (Inr a, w') \<Rightarrow> (if faulty w' then (Inl (cw a (Sent ErrDB)), (tick w')\<lparr>wdb := wdb w\<rparr>)
                       else (Inr a, tick w'))))"

text \<open>
  A transaction whose body may find nothing to do: the code then returns without COMMIT, and
  the deferred ROLLBACK drops whatever the body did.
\<close>

definition txo :: "(goerr \<Rightarrow> goerr) \<Rightarrow> (goerr \<Rightarrow> goerr) \<Rightarrow> ('d, 'a option) act \<Rightarrow> ('d, 'a option) act" where
  "txo bw cw m = (\<lambda>w. if faulty w then (Inl (bw (Sent ErrDB)), tick w)
     else (case m (tick w) of
        (Inl e, w') \<Rightarrow> (Inl e, w'\<lparr>wdb := wdb w\<rparr>)
      | (Inr None, w') \<Rightarrow> (Inr None, w'\<lparr>wdb := wdb w\<rparr>)
      | (Inr (Some a), w') \<Rightarrow> (if faulty w' then (Inl (cw (Sent ErrDB)), (tick w')\<lparr>wdb := wdb w\<rparr>)
                       else (Inr (Some a), tick w'))))"

text \<open>
  A transaction whose body says whether to commit what it returns: a return before COMMIT
  rolls back.
\<close>

definition txc :: "(goerr \<Rightarrow> goerr) \<Rightarrow> (goerr \<Rightarrow> goerr) \<Rightarrow> ('d, bool \<times> 'a) act \<Rightarrow> ('d, 'a) act" where
  "txc bw cw m = (\<lambda>w. if faulty w then (Inl (bw (Sent ErrDB)), tick w)
     else (case m (tick w) of
        (Inl e, w') \<Rightarrow> (Inl e, w'\<lparr>wdb := wdb w\<rparr>)
      | (Inr (False, a), w') \<Rightarrow> (Inr a, w'\<lparr>wdb := wdb w\<rparr>)
      | (Inr (True, a), w') \<Rightarrow> (if faulty w' then (Inl (cw (Sent ErrDB)), (tick w')\<lparr>wdb := wdb w\<rparr>)
                       else (Inr a, tick w'))))"

text \<open>A loop whose body may return early with an error.\<close>

fun foreach :: "('x \<Rightarrow> ('d, unit) act) \<Rightarrow> 'x list \<Rightarrow> ('d, unit) act" where
  "foreach f [] = ret ()"
| "foreach f (x # xs) = bind (f x) (\<lambda>_. foreach f xs)"

text \<open>Reading and writing the process's own memory: no database call, so nothing can fail.\<close>

definition mem :: "('d \<Rightarrow> 'a) \<Rightarrow> ('d, 'a) act" where
  "mem f = (\<lambda>w. (Inr (f (wdb w)), w))"

definition set_mem :: "('d \<Rightarrow> 'd) \<Rightarrow> ('d, unit) act" where
  "set_mem f = (\<lambda>w. (Inr (), w\<lparr>wdb := f (wdb w)\<rparr>))"

text \<open>A call whose error is dropped: the value it then leaves is \<open>dflt\<close>.\<close>

definition ignoring :: "'a \<Rightarrow> ('d, 'a) act \<Rightarrow> ('d, 'a) act" where
  "ignoring dflt m = bind (attempt m) (\<lambda>r. ret (case r of Inl _ \<Rightarrow> dflt | Inr a \<Rightarrow> a))"

text \<open>The answer of a remote call.\<close>

definition given :: "goerr + 'a \<Rightarrow> ('d, 'a) act" where
  "given r = (case r of Inl e \<Rightarrow> fail e | Inr a \<Rightarrow> ret a)"

section \<open>Weakest preconditions\<close>

text \<open>\<open>wp m Q E w\<close>: run from \<open>w\<close>, \<open>m\<close> ends in \<open>Q\<close> if it returns and in \<open>E\<close> if it fails.\<close>

definition wp :: "('d, 'a) act \<Rightarrow> ('a \<Rightarrow> 'd world \<Rightarrow> bool) \<Rightarrow> (goerr \<Rightarrow> 'd world \<Rightarrow> bool) \<Rightarrow>
    'd world \<Rightarrow> bool" where
  "wp m Q E w = (case m w of (Inl e, w') \<Rightarrow> E e w' | (Inr a, w') \<Rightarrow> Q a w')"

lemma wp_ret [wp_simps]: "wp (ret a) Q E w = Q a w"
  by (simp add: wp_def ret_def)

lemma wp_fail [wp_simps]: "wp (fail e) Q E w = E e w"
  by (simp add: wp_def fail_def)

lemma wp_bind [wp_simps]: "wp (bind m f) Q E w = wp m (\<lambda>a. wp (f a) Q E) E w"
  by (auto simp: wp_def bind_def split: prod.splits sum.splits)

lemma wp_attempt [wp_simps]: "wp (attempt m) Q E w = wp m (\<lambda>a. Q (Inr a)) (\<lambda>e. Q (Inl e)) w"
  by (auto simp: wp_def attempt_def split: prod.splits sum.splits)

lemma wp_wrapping [wp_simps]: "wp (wrapping msg m) Q E w = wp m Q (\<lambda>e. E (Wrap msg e)) w"
  by (auto simp: wp_def wrapping_def split: prod.splits sum.splits)

lemma wp_mem [wp_simps]: "wp (mem f) Q E w = Q (f (wdb w)) w"
  by (simp add: wp_def mem_def)

lemma wp_set_mem [wp_simps]: "wp (set_mem f) Q E w = Q () (w\<lparr>wdb := f (wdb w)\<rparr>)"
  by (simp add: wp_def set_mem_def)

lemma wp_given [wp_simps]: "wp (given r) Q E w = (case r of Inl e \<Rightarrow> E e w | Inr a \<Rightarrow> Q a w)"
  by (simp add: wp_def given_def fail_def ret_def split: sum.split)

lemma wp_time_now [wp_simps]: "wp time_now Q E w = Q (wnow w) w"
  by (simp add: wp_def time_now_def)

lemma wp_rand_nat [wp_simps]:
  "wp rand_nat Q E w = (case wrand w of [] \<Rightarrow> E (Sent ErrRand) w | n # ns \<Rightarrow> Q n (w\<lparr>wrand := ns\<rparr>))"
  by (simp add: wp_def rand_nat_def split: list.splits)

lemma wp_query [wp_simps]:
  "wp (query q) Q E w \<longleftrightarrow> (faulty w \<longrightarrow> E (Sent ErrDB) (tick w)) \<and>
     (\<not> faulty w \<longrightarrow> Q (q (wnow w) (wdb w)) (tick w))"
  by (simp add: wp_def query_def)

lemma wp_exec [wp_simps]:
  "wp (exec s) Q E w \<longleftrightarrow> (faulty w \<longrightarrow> E (Sent ErrDB) (tick w)) \<and>
     (\<not> faulty w \<longrightarrow> (case s (wnow w) (wdb w) of Inl e \<Rightarrow> E e (tick w)
        | Inr (a, d) \<Rightarrow> Q a ((tick w)\<lparr>wdb := d\<rparr>)))"
  by (auto simp: wp_def exec_def split: sum.splits prod.splits)

lemma wp_query_row [wp_simps]:
  "wp (query_row q) Q E w \<longleftrightarrow> (faulty w \<longrightarrow> E (Sent ErrDB) (tick w)) \<and>
     (\<not> faulty w \<longrightarrow> (case q (wnow w) (wdb w) of None \<Rightarrow> E (Sent ErrNoRows) (tick w)
        | Some a \<Rightarrow> Q a (tick w)))"
  by (auto simp: query_row_def wp_exec split: option.splits)

lemma wp_get_row [wp_simps]:
  "wp (get_row msg q) Q E w \<longleftrightarrow> (faulty w \<longrightarrow> E (Wrap msg (Sent ErrDB)) (tick w)) \<and>
     (\<not> faulty w \<longrightarrow> Q (q (wnow w) (wdb w)) (tick w))"
  by (auto simp: get_row_def wp_bind wp_attempt wp_query_row wp_ret wp_fail split: option.splits)

lemma wp_exec_upd [wp_simps]:
  "wp (exec_upd f) Q E w \<longleftrightarrow> (faulty w \<longrightarrow> E (Sent ErrDB) (tick w)) \<and>
     (\<not> faulty w \<longrightarrow> Q () ((tick w)\<lparr>wdb := f (wnow w) (wdb w)\<rparr>))"
  by (auto simp: exec_upd_def wp_exec)

lemma wp_exec_check [wp_simps]:
  "wp (exec_check ok f) Q E w \<longleftrightarrow> (faulty w \<longrightarrow> E (Sent ErrDB) (tick w)) \<and>
     (\<not> faulty w \<longrightarrow> (if ok (wnow w) (wdb w) then Q () ((tick w)\<lparr>wdb := f (wnow w) (wdb w)\<rparr>)
        else E (Sent ErrConstraint) (tick w)))"
  by (auto simp: exec_check_def wp_exec)

lemma wp_exec_id [wp_simps]:
  "wp (exec_id s) Q E w = (case wuuids w of [] \<Rightarrow> E (Sent ErrDB) (tick w)
     | u # us \<Rightarrow> wp (exec (s u)) Q E (w\<lparr>wuuids := us\<rparr>))"
  by (auto simp: wp_def exec_id_def split: list.splits)

lemma wp_tx [wp_simps]:
  "wp (tx bw cw m) Q E w \<longleftrightarrow>
     (faulty w \<longrightarrow> E (bw (Sent ErrDB)) (tick w)) \<and>
     (\<not> faulty w \<longrightarrow> wp m
        (\<lambda>a w'. (faulty w' \<longrightarrow> E (cw a (Sent ErrDB)) ((tick w')\<lparr>wdb := wdb w\<rparr>)) \<and>
                (\<not> faulty w' \<longrightarrow> Q a (tick w')))
        (\<lambda>e w'. E e (w'\<lparr>wdb := wdb w\<rparr>)) (tick w))"
  by (auto simp: wp_def tx_def split: sum.splits prod.splits)

text \<open>A transaction that fails leaves the tables alone.\<close>

lemma tx_atomic: "wp (tx bw cw m) (\<lambda>_ _. True) (\<lambda>_ w'. wdb w' = wdb w) w"
  by (auto simp: wp_def tx_def split: sum.splits prod.splits)

text \<open>What a transaction's body establishes and ticking keeps, the transaction establishes.\<close>

lemma tx_returns:
  assumes "\<not> faulty w \<Longrightarrow> wp m (\<lambda>a w'. Q a (tick w')) (\<lambda>_ _. True) (tick w)"
  shows "wp (tx bw cw m) Q (\<lambda>_ w'. wdb w' = wdb w) w"
  using assms by (auto simp: wp_def tx_def split: sum.splits prod.splits)

lemma wp_txo [wp_simps]:
  "wp (txo bw cw m) Q E w \<longleftrightarrow>
     (faulty w \<longrightarrow> E (bw (Sent ErrDB)) (tick w)) \<and>
     (\<not> faulty w \<longrightarrow> wp m
        (\<lambda>r w'. case r of None \<Rightarrow> Q None (w'\<lparr>wdb := wdb w\<rparr>)
           | Some a \<Rightarrow> (faulty w' \<longrightarrow> E (cw (Sent ErrDB)) ((tick w')\<lparr>wdb := wdb w\<rparr>)) \<and>
                (\<not> faulty w' \<longrightarrow> Q (Some a) (tick w')))
        (\<lambda>e w'. E e (w'\<lparr>wdb := wdb w\<rparr>)) (tick w))"
  by (auto simp: wp_def txo_def split: sum.splits prod.splits option.splits)

lemma wp_txc [wp_simps]:
  "wp (txc bw cw m) Q E w \<longleftrightarrow>
     (faulty w \<longrightarrow> E (bw (Sent ErrDB)) (tick w)) \<and>
     (\<not> faulty w \<longrightarrow> wp m
        (\<lambda>(b, a) w'. (\<not> b \<longrightarrow> Q a (w'\<lparr>wdb := wdb w\<rparr>)) \<and>
           (b \<longrightarrow> (faulty w' \<longrightarrow> E (cw (Sent ErrDB)) ((tick w')\<lparr>wdb := wdb w\<rparr>)) \<and>
                  (\<not> faulty w' \<longrightarrow> Q a (tick w'))))
        (\<lambda>e w'. E e (w'\<lparr>wdb := wdb w\<rparr>)) (tick w))"
  by (auto simp: wp_def txc_def split: sum.splits prod.splits bool.splits)

lemma wp_later [wp_simps]:
  "wp later Q E w = (case wrand w of [] \<Rightarrow> Q (wnow w) w | n # ns \<Rightarrow> Q (wnow w + int n) (w\<lparr>wrand := ns\<rparr>))"
  by (simp add: wp_def later_def split: list.splits)

lemma wp_if [wp_simps]:
  "wp (if b then m else n) Q E w = (if b then wp m Q E w else wp n Q E w)"
  by simp

lemma wp_option [wp_simps]:
  "wp (case x of None \<Rightarrow> m | Some y \<Rightarrow> f y) Q E w =
     (case x of None \<Rightarrow> wp m Q E w | Some y \<Rightarrow> wp (f y) Q E w)"
  by (simp split: option.splits)

lemma wp_list [wp_simps]:
  "wp (case x of [] \<Rightarrow> m | y # ys \<Rightarrow> f y ys) Q E w =
     (case x of [] \<Rightarrow> wp m Q E w | y # ys \<Rightarrow> wp (f y ys) Q E w)"
  by (simp split: list.splits)

lemma wp_prod [wp_simps]:
  "wp (case x of (a, b) \<Rightarrow> f a b) Q E w = (case x of (a, b) \<Rightarrow> wp (f a b) Q E w)"
  by (simp split: prod.splits)

lemma wp_sum [wp_simps]:
  "wp (case x of Inl a \<Rightarrow> f a | Inr b \<Rightarrow> g b) Q E w =
     (case x of Inl a \<Rightarrow> wp (f a) Q E w | Inr b \<Rightarrow> wp (g b) Q E w)"
  by (simp split: sum.splits)

lemma wp_foreach_Nil [wp_simps]: "wp (foreach f []) Q E w = Q () w"
  by (simp add: wp_simps)

lemma wp_foreach_Cons [wp_simps]:
  "wp (foreach f (x # xs)) Q E w = wp (f x) (\<lambda>_. wp (foreach f xs) Q E) E w"
  by (simp add: wp_simps)

text \<open>The same equations before the world is supplied, for continuations.\<close>

lemma wp_fun [wp_simps]:
  "wp (ret a) Q E = Q a"
  "wp (fail e) Q E = E e"
  "wp (bind m f) Q' E = wp m (\<lambda>a. wp (f a) Q' E) E"
  "wp (wrapping msg m'') Q E = wp m'' Q (\<lambda>e. E (Wrap msg e))"
  "wp time_now Q'' E = (\<lambda>w. Q'' (wnow w) w)"
  by (simp_all add: fun_eq_iff wp_ret wp_fail wp_bind wp_wrapping wp_time_now)

lemma wp_ignoring [wp_simps]: "wp (ignoring a m) Q E w = wp m Q (\<lambda>_. Q a) w"
  by (simp add: ignoring_def wp_simps)

lemma wp_True [simp]: "wp m (\<lambda>_ _. True) (\<lambda>_ _. True) w"
  by (simp add: wp_def split: prod.splits sum.splits)

lemma wp_mono:
  assumes "wp m Q E w" "\<And>a w'. Q a w' \<Longrightarrow> Q' a w'" "\<And>e w'. E e w' \<Longrightarrow> E' e w'"
  shows "wp m Q' E' w"
  using assms by (auto simp: wp_def split: prod.splits sum.splits)

lemma wp_seq:
  "wp m (\<lambda>_. I) E w \<Longrightarrow> (\<And>a w'. I w' \<Longrightarrow> wp (f a) Q E w') \<Longrightarrow> wp (bind m f) Q E w"
  by (auto simp: wp_bind intro: wp_mono)

lemma wp_conj:
  "wp m Q E w \<Longrightarrow> wp m Q' E' w \<Longrightarrow> wp m (\<lambda>a w'. Q a w' \<and> Q' a w') (\<lambda>e w'. E e w' \<and> E' e w') w"
  by (auto simp: wp_def split: prod.splits sum.splits)

text \<open>\<open>timed m\<close>: the clock reads the same before and after \<open>m\<close>.\<close>

definition timed :: "('d, 'a) act \<Rightarrow> bool" where
  "timed m \<longleftrightarrow> (\<forall>w. wnow (snd (m w)) = wnow w)"

lemma timed_prims [clock_intros]:
  "timed (ret a)" "timed (fail e)" "timed time_now" "timed rand_nat" "timed (query q)" "timed (exec s)" "timed (exec_id s')"
  by (auto simp: timed_def ret_def fail_def time_now_def rand_nat_def query_def exec_def exec_id_def
      split: list.splits sum.splits prod.splits)

lemma timedD: "timed m \<Longrightarrow> m w = (r, w') \<Longrightarrow> wnow w' = wnow w"
  unfolding timed_def by (metis snd_conv)

lemma timedI: "(\<And>w r w'. m w = (r, w') \<Longrightarrow> wnow w' = wnow w) \<Longrightarrow> timed m"
  unfolding timed_def by (metis surjective_pairing)

lemma timed_bind [clock_intros]: "timed m \<Longrightarrow> (\<And>a. timed (f a)) \<Longrightarrow> timed (bind m f)"
  by (rule timedI) (force simp: bind_def split: prod.splits sum.splits dest: timedD)

lemma timed_attempt [clock_intros]: "timed m \<Longrightarrow> timed (attempt m)"
  by (rule timedI) (auto simp: attempt_def split: prod.splits dest: timedD)

lemma timed_wrapping [clock_intros]: "timed m \<Longrightarrow> timed (wrapping msg m)"
  by (rule timedI) (auto simp: wrapping_def split: prod.splits sum.splits dest: timedD)

lemma timed_derived [clock_intros]:
  "timed (query_row q)" "timed (exec_upd f)" "timed (exec_check ok f)" "timed (get_row msg q')"
  by (auto simp: query_row_def exec_upd_def exec_check_def get_row_def intro!: clock_intros split: sum.split)

lemma timed_tx [clock_intros]: "timed m \<Longrightarrow> timed (tx bw cw m)"
  by (rule timedI) (auto simp: tx_def split: prod.splits sum.splits if_splits dest: timedD)

lemma timed_txo [clock_intros]: "timed m \<Longrightarrow> timed (txo bw cw m)"
  by (rule timedI) (auto simp: txo_def split: prod.splits sum.splits option.splits if_splits dest: timedD)

lemma timed_txc [clock_intros]: "timed m \<Longrightarrow> timed (txc bw cw m)"
  by (rule timedI) (auto simp: txc_def split: prod.splits sum.splits bool.splits if_splits dest: timedD)

lemma timed_later [clock_intros]: "timed later"
  by (rule timedI) (auto simp: later_def split: list.splits)

lemma timed_split [clock_intros]:
  "(b \<Longrightarrow> timed m) \<Longrightarrow> (\<not> b \<Longrightarrow> timed n) \<Longrightarrow> timed (if b then m else n)"
  "timed k \<Longrightarrow> (\<And>x. timed (f x)) \<Longrightarrow> timed (case y of None \<Rightarrow> k | Some x \<Rightarrow> f x)"
  "(\<And>x. timed (g x)) \<Longrightarrow> (\<And>x. timed (h x)) \<Longrightarrow> timed (case z of Inl x \<Rightarrow> g x | Inr x \<Rightarrow> h x)"
  "(\<And>x1 x2. timed (l x1 x2)) \<Longrightarrow> timed (case p of (x1, x2) \<Rightarrow> l x1 x2)"
  by (auto split: option.split sum.split prod.split)

lemma timed_foreach [clock_intros]: "(\<And>x. timed (f x)) \<Longrightarrow> timed (foreach f xs)"
  by (induction xs) (auto intro!: clock_intros)

lemma wp_timed: "timed m \<Longrightarrow> wp m Q E w \<Longrightarrow> wp m (\<lambda>a w'. Q a w' \<and> wnow w' = wnow w) (\<lambda>e w'. E e w' \<and> wnow w' = wnow w) w"
  by (auto simp: timed_def wp_def split: prod.splits sum.splits dest: spec[of _ w])

text \<open>\<open>fails_with P m\<close>: every error \<open>m\<close> returns satisfies \<open>P\<close>.\<close>

definition fails_with :: "(goerr \<Rightarrow> bool) \<Rightarrow> ('d, 'a) act \<Rightarrow> bool" where
  "fails_with P m \<longleftrightarrow> (\<forall>w. wp m (\<lambda>_ _. True) (\<lambda>e _. P e) w)"

lemma fails_withD: "fails_with P m \<Longrightarrow> wp m (\<lambda>_ _. True) (\<lambda>e _. P e) w"
  by (simp add: fails_with_def)

lemma fails_with_err: "fails_with P m \<Longrightarrow> m w = (Inl e, w') \<Longrightarrow> P e"
  by (drule fails_withD[where w = w]) (simp add: wp_def)

lemma fails_with_wp: "fails_with P m \<Longrightarrow> wp m Q E w \<Longrightarrow> wp m Q (\<lambda>e w'. E e w' \<and> P e) w"
  by (drule fails_withD) (rule wp_mono[OF wp_conj], assumption+, auto)

lemma fails_ret [fails_intros]: "fails_with P (ret a)" "fails_with P time_now" "fails_with P later" "fails_with P (attempt m)"
  by (auto simp: fails_with_def wp_simps wp_def later_def attempt_def split: list.split prod.split sum.split)

lemma fails_fail [fails_intros]: "P e \<Longrightarrow> fails_with P (fail e)"
  by (simp add: fails_with_def wp_simps)

lemma fails_bind [fails_intros]: "fails_with P m \<Longrightarrow> (\<And>a. fails_with P (f a)) \<Longrightarrow> fails_with P (bind m f)"
  unfolding fails_with_def wp_bind by (blast intro: wp_mono)

lemma fails_wrapping [fails_intros]: "fails_with (\<lambda>e. P (Wrap s e)) m \<Longrightarrow> fails_with P (wrapping s m)"
  by (simp add: fails_with_def wp_simps)

lemma fails_db [fails_intros]:
  "P (Sent ErrDB) \<Longrightarrow> fails_with P (query q)"
  "P (Sent ErrDB) \<Longrightarrow> fails_with P (exec_upd f)"
  "P (Sent ErrDB) \<Longrightarrow> P (Sent ErrConstraint) \<Longrightarrow> fails_with P (exec_check ok f)"
  "P (Wrap s (Sent ErrDB)) \<Longrightarrow> fails_with P (get_row s q')"
  "P (Sent ErrDB) \<Longrightarrow> P (Sent ErrNoRows) \<Longrightarrow> fails_with P (query_row q')"
  "P (Sent ErrRand) \<Longrightarrow> fails_with P rand_nat"
  by (auto simp: fails_with_def wp_simps split: option.split list.split)

lemma fails_tx [fails_intros]:
  "P (b (Sent ErrDB)) \<Longrightarrow> (\<And>a. P (c a (Sent ErrDB))) \<Longrightarrow> fails_with P m \<Longrightarrow> fails_with P (tx b c m)"
  "P (b (Sent ErrDB)) \<Longrightarrow> P (c' (Sent ErrDB)) \<Longrightarrow> fails_with P m1 \<Longrightarrow> fails_with P (txo b c' m1)"
  "P (b (Sent ErrDB)) \<Longrightarrow> P (c' (Sent ErrDB)) \<Longrightarrow> fails_with P m2 \<Longrightarrow> fails_with P (txc b c' m2)"
  unfolding fails_with_def wp_def tx_def txo_def txc_def
  by (auto split: prod.splits sum.splits option.splits bool.splits)

lemma fails_split [fails_intros]:
  "(b \<Longrightarrow> fails_with P m) \<Longrightarrow> (\<not> b \<Longrightarrow> fails_with P n) \<Longrightarrow> fails_with P (if b then m else n)"
  "(y = None \<Longrightarrow> fails_with P k) \<Longrightarrow> (\<And>x. y = Some x \<Longrightarrow> fails_with P (f x)) \<Longrightarrow> fails_with P (case y of None \<Rightarrow> k | Some x \<Rightarrow> f x)"
  "(\<And>x. z = Inl x \<Longrightarrow> fails_with P (g x)) \<Longrightarrow> (\<And>x. z = Inr x \<Longrightarrow> fails_with P (h x)) \<Longrightarrow> fails_with P (case z of Inl x \<Rightarrow> g x | Inr x \<Rightarrow> h x)"
  "(\<And>x1 x2. p = (x1, x2) \<Longrightarrow> fails_with P (l x1 x2)) \<Longrightarrow> fails_with P (case p of (x1, x2) \<Rightarrow> l x1 x2)"
  by (auto split: option.split sum.split prod.split)

lemma fails_foreach [fails_intros]: "(\<And>x. fails_with P (f x)) \<Longrightarrow> fails_with P (foreach f xs)"
  by (induction xs) (auto intro!: fails_intros)

lemma timed_memory [clock_intros]: "timed (mem f)" "timed (set_mem g)" "timed (given r)"
  by (simp_all add: timed_def mem_def set_mem_def given_def ret_def fail_def split: sum.split)

lemma timed_ignoring [clock_intros]: "timed m \<Longrightarrow> timed (ignoring a m)"
  unfolding ignoring_def by (intro clock_intros)

lemma timed_let [clock_intros]: "(\<And>x. timed (f x)) \<Longrightarrow> timed (let x = e in f x)"
  by (simp add: Let_def)

text \<open>\<open>steady I m\<close>: whatever \<open>m\<close> returns, tables that satisfied \<open>I\<close> still do.\<close>

definition steady :: "('d \<Rightarrow> bool) \<Rightarrow> ('d, 'a) act \<Rightarrow> bool" where
  "steady I m \<longleftrightarrow> (\<forall>w. I (wdb w) \<longrightarrow> I (wdb (snd (m w))))"

lemma steadyI: "(\<And>w. I (wdb w) \<Longrightarrow> wp m (\<lambda>_ w'. I (wdb w')) (\<lambda>_ w'. I (wdb w')) w) \<Longrightarrow> steady I m"
proof (unfold steady_def, intro allI impI)
  fix w :: "'a world"
  assume s: "\<And>w. I (wdb w) \<Longrightarrow> wp m (\<lambda>_ w'. I (wdb w')) (\<lambda>_ w'. I (wdb w')) w" and "I (wdb w)"
  then show "I (wdb (snd (m w)))" using s[of w] by (cases "m w") (auto simp: wp_def split: sum.splits)
qed

lemma steady_wp: "steady I m \<Longrightarrow> I (wdb w) \<Longrightarrow> wp m (\<lambda>_ w'. I (wdb w')) (\<lambda>_ w'. I (wdb w')) w"
  by (auto simp: steady_def wp_def dest: spec[of _ w] split: prod.splits sum.splits)

lemma steady_prims [steady_intros]:
  "steady I (ret a)" "steady I (fail e)" "steady I time_now" "steady I rand_nat" "steady I later"
  "steady I (query q)" "steady I (query_row q')" "steady I (get_row msg q')"
  by (auto intro!: steadyI simp: wp_simps split: list.split option.split)

lemma steady_bind [steady_intros]: "steady I m \<Longrightarrow> (\<And>a. steady I (f a)) \<Longrightarrow> steady I (bind m f)"
  by (rule steadyI) (auto simp: wp_bind intro!: wp_mono[OF steady_wp] elim: steady_wp)

lemma steady_attempt [steady_intros]: "steady I m \<Longrightarrow> steady I (attempt m)"
  by (rule steadyI) (auto simp: wp_attempt intro!: wp_mono[OF steady_wp])

lemma steady_wrapping [steady_intros]: "steady I m \<Longrightarrow> steady I (wrapping msg m)"
  by (rule steadyI) (auto simp: wp_wrapping intro!: wp_mono[OF steady_wp])

lemma steady_exec [steady_intros]:
  "(\<And>t d a d'. I d \<Longrightarrow> s t d = Inr (a, d') \<Longrightarrow> I d') \<Longrightarrow> steady I (exec s)"
  "(\<And>u t d a d'. I d \<Longrightarrow> s' u t d = Inr (a, d') \<Longrightarrow> I d') \<Longrightarrow> steady I (exec_id s')"
  "(\<And>t d. I d \<Longrightarrow> I (f t d)) \<Longrightarrow> steady I (exec_upd f)"
  "(\<And>t d. I d \<Longrightarrow> ok t d \<Longrightarrow> I (f t d)) \<Longrightarrow> steady I (exec_check ok f)"
  by (auto intro!: steadyI simp: wp_simps split: list.split sum.split prod.split)

lemma steady_tx [steady_intros]: "steady I m \<Longrightarrow> steady I (tx bw cw m)"
  unfolding steady_def tx_def by (auto split: prod.splits sum.splits dest: spec[of _ "tick w" for w])

lemma steady_split [steady_intros]:
  "(b \<Longrightarrow> steady I m) \<Longrightarrow> (\<not> b \<Longrightarrow> steady I n) \<Longrightarrow> steady I (if b then m else n)"
  "steady I k \<Longrightarrow> (\<And>x. steady I (f x)) \<Longrightarrow> steady I (case y of None \<Rightarrow> k | Some x \<Rightarrow> f x)"
  "(\<And>x. steady I (g x)) \<Longrightarrow> (\<And>x. steady I (h x)) \<Longrightarrow> steady I (case z of Inl x \<Rightarrow> g x | Inr x \<Rightarrow> h x)"
  "(\<And>x1 x2. steady I (l x1 x2)) \<Longrightarrow> steady I (case p of (x1, x2) \<Rightarrow> l x1 x2)"
  "steady I k \<Longrightarrow> (\<And>x xs. steady I (c x xs)) \<Longrightarrow> steady I (case ys of [] \<Rightarrow> k | x # xs \<Rightarrow> c x xs)"
  by (auto split: option.split sum.split prod.split list.split)

lemma steady_let [steady_intros]: "(\<And>x. steady I (f x)) \<Longrightarrow> steady I (let x = e in f x)"
  by (simp add: Let_def)

lemma steady_mem [steady_intros]: "steady I (mem f)" "(\<And>d. I d \<Longrightarrow> I (g d)) \<Longrightarrow> steady I (set_mem g)" "steady I (given r)"
  by (auto simp: steady_def mem_def set_mem_def given_def ret_def fail_def split: sum.split)

lemma steady_ignoring [steady_intros]: "steady I m \<Longrightarrow> steady I (ignoring a m)"
  unfolding ignoring_def by (intro steady_intros)

lemma steady_foreach [steady_intros]: "(\<And>x. steady I (f x)) \<Longrightarrow> steady I (foreach f xs)"
  by (induction xs) (auto intro!: steady_intros)

text \<open>
  \<open>tame m\<close>: without failing calls ahead there are none left over; \<open>calm m\<close>: then \<open>m\<close> returns,
  too. An inspected call need only be tame.
\<close>

definition tame :: "('d, 'a) act \<Rightarrow> bool" where
  "tame m \<longleftrightarrow> (\<forall>w. wfaults w = [] \<longrightarrow> wfaults (snd (m w)) = [])"

definition calm :: "('d, 'a) act \<Rightarrow> bool" where
  "calm m \<longleftrightarrow> (\<forall>w. wfaults w = [] \<longrightarrow> (\<exists>a w'. m w = (Inr a, w') \<and> wfaults w' = []))"

lemma calm_tame: "calm m \<Longrightarrow> tame m"
  unfolding calm_def tame_def by (metis snd_conv)

lemma calmD: "calm m \<Longrightarrow> wfaults w = [] \<Longrightarrow> \<exists>a w'. m w = (Inr a, w') \<and> wfaults w' = []"
  by (simp add: calm_def)

lemma calm_prims [calm_intros]:
  "calm (ret a)" "calm time_now" "calm (query q)" "calm (exec_upd f)" "calm (get_row msg q')"
  by (auto simp: calm_def ret_def time_now_def query_def exec_upd_def exec_def get_row_def query_row_def bind_def attempt_def
      split: option.split)

lemma calm_bind [calm_intros]: "calm m \<Longrightarrow> (\<And>a. calm (f a)) \<Longrightarrow> calm (bind m f)"
  unfolding calm_def bind_def by (metis (no_types, lifting) old.prod.case sum.case(2))

lemma calm_attempt [calm_intros]: "tame m \<Longrightarrow> calm (attempt m)"
  unfolding calm_def tame_def attempt_def by (auto split: prod.split)

lemma calm_wrapping [calm_intros]: "calm m \<Longrightarrow> calm (wrapping msg m)"
  unfolding calm_def wrapping_def by fastforce

lemma calm_split [calm_intros]:
  "(b \<Longrightarrow> calm m) \<Longrightarrow> (\<not> b \<Longrightarrow> calm n) \<Longrightarrow> calm (if b then m else n)"
  "calm k \<Longrightarrow> (\<And>x. calm (f x)) \<Longrightarrow> calm (case y of None \<Rightarrow> k | Some x \<Rightarrow> f x)"
  "(\<And>x. calm (g x)) \<Longrightarrow> (\<And>x. calm (h x)) \<Longrightarrow> calm (case z of Inl x \<Rightarrow> g x | Inr x \<Rightarrow> h x)"
  "(\<And>x1 x2. calm (l x1 x2)) \<Longrightarrow> calm (case p of (x1, x2) \<Rightarrow> l x1 x2)"
  "(\<And>x. calm (e x)) \<Longrightarrow> calm (let x = v in e x)"
  by (auto simp: Let_def split: option.split sum.split prod.split)

text \<open>From a precondition to the outcome of a run, and back.\<close>

lemma wp_returns: "wp m Q E w \<Longrightarrow> m w = (Inr a, w') \<Longrightarrow> Q a w'"
  by (simp add: wp_def)

lemma wp_fails: "wp m Q E w \<Longrightarrow> m w = (Inl e, w') \<Longrightarrow> E e w'"
  by (simp add: wp_def)

lemma wp_result: "wp m (\<lambda>_. P) (\<lambda>_. P) w \<Longrightarrow> P (snd (m w))"
  by (auto simp: wp_def split: prod.splits sum.splits)

lemma not_islD: "\<not> isl (fst x) \<Longrightarrow> \<exists>a v. x = (Inr a, v)"
  by (cases x; cases "fst x") auto

lemma wp_eq_returns: "m w = (Inr a, w') \<longleftrightarrow> wp m (\<lambda>b v. b = a \<and> v = w') (\<lambda>_ _. False) w"
  by (auto simp: wp_def split: prod.splits sum.splits)

lemma wp_eq_fails: "m w = (Inl e, w') \<longleftrightarrow> wp m (\<lambda>_ _. False) (\<lambda>b v. b = e \<and> v = w') w"
  by (auto simp: wp_def split: prod.splits sum.splits)

text \<open>A loop keeps what every iteration keeps, whether it ends or stops at an error.\<close>

lemma wp_foreach_inv:
  assumes "\<And>x w. x \<in> set xs \<Longrightarrow> I w \<Longrightarrow> wp (f x) (\<lambda>_. I) E w"
    and "I w"
  shows "wp (foreach f xs) (\<lambda>_. I) E w"
  using assms
proof (induction xs arbitrary: w)
  case Nil
  then show ?case by (simp add: wp_simps)
next
  case (Cons x xs)
  have "wp (f x) (\<lambda>_. I) E w" using Cons.prems by simp
  moreover have "wp (foreach f xs) (\<lambda>_. I) E v" if "I v" for v
    using that by (rule Cons.IH[rotated]) (use Cons.prems in auto)
  ultimately show ?case by (auto simp: wp_simps intro: wp_mono)
qed

text \<open>A loop over a list with an element whose iteration never returns does not return.\<close>

lemma wp_foreach_stuck:
  assumes "\<And>y w. y \<in> set xs \<Longrightarrow> I w \<Longrightarrow> wp (f y) (\<lambda>_ v. I v \<and> y \<noteq> x) E w" "x \<in> set xs" "I w"
  shows "wp (foreach f xs) (\<lambda>_ _. False) E w"
  using assms
proof (induction xs arbitrary: w)
  case Nil
  then show ?case by simp
next
  case (Cons y ys)
  have "wp (foreach f ys) (\<lambda>_ _. False) E v" if "I v \<and> y \<noteq> x" for v
    by (rule Cons.IH) (use Cons.prems that in auto)
  moreover have "wp (f y) (\<lambda>_ v. I v \<and> y \<noteq> x) E w" using Cons.prems by simp
  ultimately show ?case by (auto simp: wp_simps intro: wp_mono)
qed

section \<open>Tables\<close>

text \<open>UPDATE ... WHERE, the number of rows it touches, ORDER BY ... DESC.\<close>

definition update_where :: "('r \<Rightarrow> bool) \<Rightarrow> ('r \<Rightarrow> 'r) \<Rightarrow> 'r list \<Rightarrow> 'r list" where
  "update_where p f xs = map (\<lambda>r. if p r then f r else r) xs"

definition count_where :: "('r \<Rightarrow> bool) \<Rightarrow> 'r list \<Rightarrow> nat" where
  "count_where p xs = length (filter p xs)"

definition order_desc :: "('r \<Rightarrow> int) \<Rightarrow> 'r list \<Rightarrow> 'r list" where
  "order_desc k xs = sort_key (\<lambda>r. - k r) xs"

definition first_row :: "'r list \<Rightarrow> 'r option" where
  "first_row xs = (case xs of [] \<Rightarrow> None | r # _ \<Rightarrow> Some r)"

lemma update_where_simps [simp]:
  "update_where p f [] = []"
  "update_where p f (x # xs) = (if p x then f x else x) # update_where p f xs"
  "update_where p f (xs @ ys) = update_where p f xs @ update_where p f ys"
  "length (update_where p f xs) = length xs"
  by (simp_all add: update_where_def)

lemma set_update_where [tbl_simps]:
  "set (update_where p f xs) = {if p r then f r else r | r. r \<in> set xs}"
  by (auto simp: update_where_def)

lemma in_update_where:
  "x \<in> set (update_where p f xs) \<longleftrightarrow> (\<exists>r \<in> set xs. x = (if p r then f r else r))"
  by (auto simp: update_where_def)

lemma map_update_where [tbl_simps]:
  "(\<And>r. k (f r) = k r) \<Longrightarrow> map k (update_where p f xs) = map k xs"
  by (induction xs) auto

lemma image_update_where: "(\<And>r. k (f r) = k r) \<Longrightarrow> k ` set (update_where p f xs) = k ` set xs"
  by (metis list.set_map map_update_where)

lemma bex_update_where: "(\<exists>b \<in> set (update_where p f bs). P b) \<longleftrightarrow> (\<exists>b \<in> set bs. if p b then P (f b) else P b)"
  by (induction bs) auto

lemma ball_update_where: "(\<forall>b \<in> set (update_where p f bs). P b) \<longleftrightarrow> (\<forall>b \<in> set bs. if p b then P (f b) else P b)"
  by (induction bs) auto

lemma filter_update_where_other [tbl_simps]:
  "(\<And>r. p r \<Longrightarrow> q (f r) = q r \<and> \<not> q r) \<Longrightarrow> filter q (update_where p f xs) = filter q xs"
  by (induction xs) auto

lemma filter_update_where_Nil:
  "filter q xs = [] \<Longrightarrow> (\<And>r. q (f r) = q r) \<Longrightarrow> filter q (update_where p f xs) = []"
  by (induction xs) (auto split: if_splits)

lemma update_where_none [tbl_simps]:
  "(\<And>r. r \<in> set xs \<Longrightarrow> \<not> p r) \<Longrightarrow> update_where p f xs = xs"
  by (induction xs) auto

lemma update_where_key_none: "v \<notin> k ` set xs \<Longrightarrow> update_where (\<lambda>r. k r = v) f xs = xs"
  by (rule update_where_none) blast

lemma update_where_cong_on:
  "(\<And>r. r \<in> set xs \<Longrightarrow> p r = q r) \<Longrightarrow> (\<And>r. r \<in> set xs \<Longrightarrow> p r \<Longrightarrow> f r = g r) \<Longrightarrow>
   update_where p f xs = update_where q g xs"
  by (induction xs) auto

lemma count_where_simps [simp]:
  "count_where p [] = 0"
  "count_where p (x # xs) = (if p x then Suc (count_where p xs) else count_where p xs)"
  "count_where p (xs @ ys) = count_where p xs + count_where p ys"
  by (simp_all add: count_where_def)

lemma count_where_update_same:
  "(\<And>c. p c \<Longrightarrow> q (f c) = q c) \<Longrightarrow> count_where q (update_where p f xs) = count_where q xs"
  by (induction xs) auto

lemma count_where_0 [tbl_simps]: "count_where p xs = 0 \<longleftrightarrow> (\<forall>r \<in> set xs. \<not> p r)"
  by (induction xs) auto

lemma first_row_simps [simp]:
  "first_row [] = None" "first_row (x # xs) = Some x"
  by (simp_all add: first_row_def)

lemma first_row_None [simp]: "first_row xs = None \<longleftrightarrow> xs = []"
  by (cases xs) auto

lemma first_row_SomeD: "first_row xs = Some r \<Longrightarrow> r \<in> set xs"
  by (cases xs) auto

lemma set_order_desc [simp]: "set (order_desc k xs) = set xs"
  by (simp add: order_desc_def)

lemma length_order_desc [simp]: "length (order_desc k xs) = length xs"
  by (simp add: order_desc_def)

lemma order_desc_Nil [simp]: "order_desc k [] = []" "order_desc k [x] = [x]"
  by (simp_all add: order_desc_def)

lemma order_desc_eq_Nil [simp]: "order_desc k xs = [] \<longleftrightarrow> xs = []"
  by (metis length_order_desc length_0_conv)

lemma first_row_filterD:
  "first_row (filter p xs) = Some r \<Longrightarrow> r \<in> set xs \<and> p r"
  by (auto dest: first_row_SomeD)

lemma first_row_orderD:
  "first_row (order_desc k (filter p xs)) = Some r \<Longrightarrow> r \<in> set xs \<and> p r"
  by (auto dest: first_row_SomeD)

lemma map_key_unique:
  "distinct (map k xs) \<Longrightarrow> r \<in> set xs \<Longrightarrow> s \<in> set xs \<Longrightarrow> k r = k s \<Longrightarrow> r = s"
  by (auto simp: distinct_map inj_on_def)

lemma filter_key_single:
  "distinct (map k xs) \<Longrightarrow> r \<in> set xs \<Longrightarrow> k r = v \<Longrightarrow> filter (\<lambda>s. k s = v) xs = [r]"
proof (induction xs)
  case Nil
  then show ?case by simp
next
  case (Cons x xs)
  show ?case
  proof (cases "x = r")
    case True
    moreover have "filter (\<lambda>s. k s = v) xs = []"
      using Cons.prems True by (auto simp: filter_empty_conv) (metis image_eqI)
    ultimately show ?thesis using Cons.prems by simp
  next
    case False
    with Cons.prems have "k x \<noteq> v" by auto
    with False Cons show ?thesis by auto
  qed
qed

section \<open>Services that keep an invariant\<close>

text \<open>
  The contract several components share: every operation, whatever its result and whatever
  database calls fail, keeps the invariant of the tables. Between two operations the world
  outside may advance the clock and supply new random values, but not touch the tables.
\<close>

definition next_world :: "'d world \<Rightarrow> int \<times> bool list \<times> nat list \<times> uuid list \<Rightarrow> 'd world" where
  "next_world w e = (case e of (dt, fs, rs, us) \<Rightarrow>
     w\<lparr>wnow := wnow w + \<bar>dt\<bar>, wfaults := fs, wrand := rs, wuuids := us\<rparr>)"

lemma next_world_wdb [simp]: "wdb (next_world w e) = wdb w"
  by (simp add: next_world_def split: prod.splits)

lemma next_world_wnow [simp]: "wnow (next_world w (dt, fs, rs, us)) = wnow w + \<bar>dt\<bar>"
  by (simp add: next_world_def)

fun run_ops :: "('op \<Rightarrow> ('d, 'r) act) \<Rightarrow> 'd world \<Rightarrow>
    ('op \<times> int \<times> bool list \<times> nat list \<times> uuid list) list \<Rightarrow> 'd world" where
  "run_ops step w [] = w"
| "run_ops step w ((oper, e) # es) = run_ops step (snd (step oper (next_world w e))) es"

text \<open>The results a list of calls gives, in order.\<close>

fun results :: "('op \<Rightarrow> ('d, 'r) act) \<Rightarrow> 'd world \<Rightarrow>
    ('op \<times> int \<times> bool list \<times> nat list \<times> uuid list) list \<Rightarrow> ('op \<times> (goerr + 'r)) list" where
  "results step w [] = []"
| "results step w ((oper, e) # es) =
     (case step oper (next_world w e) of (r, w') \<Rightarrow> (oper, r) # results step w' es)"

text \<open>A service whose operations keep the invariant when the operation satisfies \<open>ok\<close>.\<close>

locale guarded_service =
  fixes step :: "'op \<Rightarrow> ('d, 'r) act"
    and ok :: "'op \<Rightarrow> bool"
    and inv :: "'d \<Rightarrow> bool"
  assumes guarded_step: "ok oper \<Longrightarrow> inv (wdb w) \<Longrightarrow> wp (step oper) (\<lambda>_ w'. inv (wdb w')) (\<lambda>_ w'. inv (wdb w')) w"
begin

lemma step_keeps: "ok oper \<Longrightarrow> inv (wdb w) \<Longrightarrow> inv (wdb (snd (step oper w)))"
  using guarded_step [of oper w] wp_result [of "step oper" "\<lambda>w. inv (wdb w)" w] by simp

lemma run_keeps: "list_all (\<lambda>x. ok (fst x)) es \<Longrightarrow> inv (wdb w) \<Longrightarrow> inv (wdb (run_ops step w es))"
proof (induction es arbitrary: w)
  case Nil
  then show ?case by simp
next
  case (Cons x es)
  obtain oper e where x: "x = (oper, e)" by (cases x)
  have "inv (wdb (snd (step oper (next_world w e))))"
    by (rule step_keeps) (use Cons.prems x in simp_all)
  then show ?case using Cons.prems by (simp add: x Cons.IH)
qed

end

text \<open>The contract without a guard.\<close>

locale invariant_service =
  fixes step :: "'op \<Rightarrow> ('d, 'r) act"
    and inv :: "'d \<Rightarrow> bool"
  assumes step_inv: "inv (wdb w) \<Longrightarrow> wp (step oper) (\<lambda>_ w'. inv (wdb w')) (\<lambda>_ w'. inv (wdb w')) w"

sublocale invariant_service \<subseteq> guarded: guarded_service step "\<lambda>_. True" inv
  by unfold_locales (rule step_inv)

context invariant_service
begin

lemma step_keeps: "inv (wdb w) \<Longrightarrow> inv (wdb (snd (step oper w)))"
  by (rule guarded.step_keeps) simp_all

lemma run_keeps: "inv (wdb w) \<Longrightarrow> inv (wdb (run_ops step w es))"
  by (rule guarded.run_keeps) (simp_all add: list_all_iff)

end

end
