(* ===== verification/GoStrings.thy ===== *)
theory GoStrings
  imports Prelude
begin

text \<open>
  The functions of Go's \<open>strings\<close>, \<open>strconv\<close> and \<open>fmt\<close> packages that the program
  calls, on ASCII text: \<open>TrimSpace\<close>, \<open>ToLower\<close>, \<open>ToUpper\<close>, \<open>EqualFold\<close>,
  \<open>Contains\<close>, \<open>HasPrefix\<close>, \<open>TrimPrefix\<close>, decimal formatting with and without padding.
\<close>

section \<open>Characters\<close>

definition code_of :: "char \<Rightarrow> nat" where
  "code_of c = of_char c"

definition is_space :: "char \<Rightarrow> bool" where
  "is_space c \<longleftrightarrow> code_of c \<in> {9, 10, 11, 12, 13, 32}"

definition lower_char :: "char \<Rightarrow> char" where
  "lower_char c = (if 65 \<le> code_of c \<and> code_of c \<le> 90 then char_of (code_of c + 32) else c)"

definition upper_char :: "char \<Rightarrow> char" where
  "upper_char c = (if 97 \<le> code_of c \<and> code_of c \<le> 122 then char_of (code_of c - 32) else c)"

definition digit_char :: "nat \<Rightarrow> char" where
  "digit_char n = char_of (48 + n mod 10)"

definition is_digit :: "char \<Rightarrow> bool" where
  "is_digit c \<longleftrightarrow> 48 \<le> code_of c \<and> code_of c \<le> 57"

section \<open>Strings\<close>

definition trim_left :: "string \<Rightarrow> string" where
  "trim_left s = dropWhile is_space s"

definition trim_space :: "string \<Rightarrow> string" where
  "trim_space s = rev (trim_left (rev (trim_left s)))"

definition to_lower :: "string \<Rightarrow> string" where
  "to_lower s = map lower_char s"

definition to_upper :: "string \<Rightarrow> string" where
  "to_upper s = map upper_char s"

definition equal_fold :: "string \<Rightarrow> string \<Rightarrow> bool" where
  "equal_fold s t \<longleftrightarrow> to_lower s = to_lower t"

fun has_prefix :: "string \<Rightarrow> string \<Rightarrow> bool" where
  "has_prefix s [] = True"
| "has_prefix [] (p # ps) = False"
| "has_prefix (c # s) (p # ps) = (c = p \<and> has_prefix s ps)"

definition trim_prefix :: "string \<Rightarrow> string \<Rightarrow> string" where
  "trim_prefix s p = (if has_prefix s p then drop (length p) s else s)"

fun contains :: "string \<Rightarrow> string \<Rightarrow> bool" where
  "contains [] p = (p = [])"
| "contains (c # s) p = (has_prefix (c # s) p \<or> contains s p)"

fun first_non_empty :: "string list \<Rightarrow> string" where
  "first_non_empty [] = []"
| "first_non_empty (s # ss) = (if trim_space s \<noteq> [] then s else first_non_empty ss)"

text \<open>\<open>strings.Split\<close> at a one-character separator.\<close>

fun split_on :: "char \<Rightarrow> string \<Rightarrow> string list" where
  "split_on sep [] = [[]]"
| "split_on sep (c # s) = (if c = sep then [] # split_on sep s
     else (case split_on sep s of [] \<Rightarrow> [[c]] | p # ps \<Rightarrow> (c # p) # ps))"

text \<open>\<open>strconv.Itoa\<close> on a natural number, and \<open>fmt.Sprintf("%0wd", n)\<close>.\<close>

fun itoa_nat :: "nat \<Rightarrow> string" where
  "itoa_nat n = (if n < 10 then [digit_char n] else itoa_nat (n div 10) @ [digit_char n])"

declare itoa_nat.simps [simp del]

definition itoa :: "int \<Rightarrow> string" where
  "itoa i = (if i < 0 then CHR ''-'' # itoa_nat (nat (- i)) else itoa_nat (nat i))"

definition pad_zero :: "nat \<Rightarrow> string \<Rightarrow> string" where
  "pad_zero w s = replicate (w - length s) (CHR ''0'') @ s"

text \<open>The UTF-8 bytes of the em dash and of the bullet.\<close>

definition em_dash :: string where
  "em_dash = [CHR 0xE2, CHR 0x80, CHR 0x94]"

definition bullet :: string where
  "bullet = [CHR 0xE2, CHR 0x80, CHR 0xA2]"

section \<open>Facts\<close>

lemma trim_left_hd: "trim_left s \<noteq> [] \<Longrightarrow> \<not> is_space (hd (trim_left s))"
  by (simp add: trim_left_def hd_dropWhile)

lemma trim_left_id: "s = [] \<or> \<not> is_space (hd s) \<Longrightarrow> trim_left s = s"
  by (cases s) (auto simp: trim_left_def)

lemma trim_left_suffix: "\<exists>p. s = p @ trim_left s"
  by (metis takeWhile_dropWhile_id trim_left_def)

lemma trim_left_idem [simp]: "trim_left (trim_left s) = trim_left s"
  by (metis trim_left_hd trim_left_id)

lemma trim_space_nil [simp]: "trim_space [] = []"
  by (simp add: trim_space_def trim_left_def)

lemma trim_space_idem [simp]: "trim_space (trim_space s) = trim_space s"
proof -
  let ?l = "trim_left s"
  have "trim_left (trim_space s) = trim_space s"
  proof (cases "trim_space s = []")
    case False
    obtain p where p: "rev ?l = p @ trim_left (rev ?l)" using trim_left_suffix by blast
    then have "?l = trim_space s @ rev p"
      by (metis rev_append rev_rev_ident trim_space_def)
    then have "hd ?l = hd (trim_space s)" "?l \<noteq> []" using False by (auto simp: hd_append)
    then have "\<not> is_space (hd (trim_space s))" by (metis trim_left_hd)
    then show ?thesis by (simp add: trim_left_id)
  qed (simp add: trim_left_def)
  then show ?thesis by (simp add: trim_space_def)
qed

lemma code_char_of: "n < 256 \<Longrightarrow> code_of (char_of n) = n"
  by (simp add: code_of_def)

lemma lower_char_idem [simp]: "lower_char (lower_char c) = lower_char c"
  by (simp add: lower_char_def code_char_of)

lemma upper_char_idem [simp]: "upper_char (upper_char c) = upper_char c"
  by (auto simp: upper_char_def code_char_of)

lemma to_lower_idem [simp]: "to_lower (to_lower s) = to_lower s"
  by (simp add: to_lower_def)

lemma to_upper_idem [simp]: "to_upper (to_upper s) = to_upper s"
  by (simp add: to_upper_def)

lemma is_space_lower [simp]: "is_space (lower_char c) = is_space c"
  by (auto simp: is_space_def lower_char_def code_char_of)

lemma is_space_upper [simp]: "is_space (upper_char c) = is_space c"
  by (auto simp: is_space_def upper_char_def code_char_of)

lemma trim_left_map:
  "(\<And>c. is_space (f c) = is_space c) \<Longrightarrow> trim_left (map f s) = map f (trim_left s)"
  by (induction s) (auto simp: trim_left_def)

lemma trim_space_lower: "trim_space (to_lower s) = to_lower (trim_space s)"
  by (simp add: trim_space_def to_lower_def trim_left_map rev_map)

lemma trim_space_upper: "trim_space (to_upper s) = to_upper (trim_space s)"
  by (simp add: trim_space_def to_upper_def trim_left_map rev_map)

lemma equal_fold_refl [simp]: "equal_fold s s"
  by (simp add: equal_fold_def)

lemma has_prefix_iff: "has_prefix s p \<longleftrightarrow> (\<exists>t. s = p @ t)"
  by (induction s p rule: has_prefix.induct) auto

lemma contains_iff: "contains s p \<longleftrightarrow> (\<exists>u v. s = u @ p @ v)"
proof (induction s)
  case Nil
  then show ?case by auto
next
  case (Cons c s)
  show ?case
  proof
    assume "contains (c # s) p"
    then consider "has_prefix (c # s) p" | "contains s p" by auto
    then show "\<exists>u v. c # s = u @ p @ v"
    proof cases
      case 1
      then show ?thesis by (metis append_Nil has_prefix_iff)
    next
      case 2
      then show ?thesis using Cons by (metis append_Cons)
    qed
  next
    assume "\<exists>u v. c # s = u @ p @ v"
    then obtain u v where uv: "c # s = u @ p @ v" by blast
    show "contains (c # s) p"
    proof (cases u)
      case Nil
      then have "has_prefix (c # s) p" using uv by (metis append_Nil has_prefix_iff)
      then show ?thesis by simp
    next
      case (Cons a u')
      then have "s = u' @ p @ v" using uv by simp
      then show ?thesis using Cons.IH by auto
    qed
  qed
qed

lemma digit_char_is_digit [simp]: "is_digit (digit_char n)"
proof -
  have "n mod 10 < 10" by simp
  then have "48 + n mod 10 < 256" by linarith
  then have "code_of (digit_char n) = 48 + n mod 10"
    unfolding digit_char_def by (rule code_char_of)
  then show ?thesis using \<open>n mod 10 < 10\<close> unfolding is_digit_def by linarith
qed

lemma itoa_nat_digits: "\<forall>c \<in> set (itoa_nat n). is_digit c"
  by (induction n rule: itoa_nat.induct) (subst itoa_nat.simps, auto)

lemma length_itoa_nat: "n < 10 ^ k \<Longrightarrow> 0 < k \<Longrightarrow> length (itoa_nat n) \<le> k"
proof (induction k arbitrary: n)
  case 0
  then show ?case by simp
next
  case (Suc k)
  show ?case
  proof (cases "n < 10")
    case True
    then show ?thesis by (simp add: itoa_nat.simps)
  next
    case False
    then have "0 < k" using Suc.prems(1) by (cases k) auto
    moreover have "n div 10 < 10 ^ k" using Suc.prems(1) by (simp add: less_mult_imp_div_less mult.commute)
    ultimately have "length (itoa_nat (n div 10)) \<le> k" by (simp add: Suc.IH)
    then show ?thesis using False by (simp add: itoa_nat.simps)
  qed
qed

lemma length_pad_zero [simp]: "length s \<le> w \<Longrightarrow> length (pad_zero w s) = w"
  by (simp add: pad_zero_def)

lemma split_on_not_Nil [simp]: "split_on sep s \<noteq> []"
  by (cases s) (simp_all split: list.split)

lemma split_on_Cons_other:
  "c \<noteq> sep \<Longrightarrow> split_on sep (c # s) = (c # hd (split_on sep s)) # tl (split_on sep s)"
  by (simp split: list.split)

declare split_on.simps(2) [simp del]

lemma split_on_Cons_sep [simp]: "split_on sep (sep # s) = [] # split_on sep s"
  by (simp add: split_on.simps(2))

lemma split_on_one: "split_on sep s = [p] \<longleftrightarrow> s = p \<and> sep \<notin> set s"
proof (induction s arbitrary: p)
  case Nil
  then show ?case by auto
next
  case (Cons c s)
  show ?case
  proof (cases "c = sep")
    case False
    have "split_on sep (c # s) = [p] \<longleftrightarrow> p = c # hd (split_on sep s) \<and> split_on sep s = [hd (split_on sep s)]"
      by (subst split_on_Cons_other[OF False]) (metis list.collapse list.inject split_on_not_Nil)
    also have "\<dots> \<longleftrightarrow> c # s = p \<and> sep \<notin> set (c # s)"
      using False Cons.IH by (metis list.sel(1) list.set_intros(2) set_ConsD)
    finally show ?thesis .
  qed auto
qed

lemma split_on_two:
  "split_on sep s = [p, q] \<longleftrightarrow> s = p @ sep # q \<and> sep \<notin> set p \<and> sep \<notin> set q"
proof (induction s arbitrary: p)
  case Nil
  then show ?case by simp
next
  case (Cons c s)
  show ?case
  proof (cases "c = sep")
    case True
    have "split_on sep (c # s) = [p, q] \<longleftrightarrow> p = [] \<and> split_on sep s = [q]" using True by auto
    also have "\<dots> \<longleftrightarrow> c # s = p @ sep # q \<and> sep \<notin> set p \<and> sep \<notin> set q"
      using True by (cases p) (auto simp: split_on_one)
    finally show ?thesis .
  next
    case False
    have "split_on sep (c # s) = [p, q] \<longleftrightarrow> (\<exists>p'. p = c # p' \<and> split_on sep s = [p', q])"
      by (subst split_on_Cons_other[OF False]) (metis list.collapse list.inject list.sel(1) list.sel(3) split_on_not_Nil)
    also have "\<dots> \<longleftrightarrow> c # s = p @ sep # q \<and> sep \<notin> set p \<and> sep \<notin> set q"
      using False by (cases p) (auto simp: Cons.IH)
    finally show ?thesis .
  qed
qed
end
