(* ===== verification/GoTime.thy ===== *)
theory GoTime
  imports Main
begin

text \<open>
  The part of Go's \<open>time\<close> package the program uses. An instant is the nanoseconds since the
  Unix epoch (UTC), a DATE of the database the days since it. \<open>civil\<close> and \<open>date_days\<close> are
  the proleptic Gregorian calendar the way the package computes it: the year by cycles of 400,
  100, 4 and 1 years, months and days out of range carried over.
\<close>

section \<open>Instants and days\<close>

definition second :: int where "second = 1000000000"
abbreviation day_ns :: int where "day_ns \<equiv> 86400000000000"

definition day_of :: "int \<Rightarrow> int" where
  "day_of t = t div day_ns"

definition Epoch :: "int \<Rightarrow> int" where
  "Epoch t = t div second"

definition FromEpoch :: "int \<Rightarrow> int" where
  "FromEpoch s = s * second"

text \<open>The wire format of a DATE: the epoch second of its midnight.\<close>

definition date_epoch :: "int \<Rightarrow> int" where
  "date_epoch d = d * 86400"

text \<open>\<open>t.After(u)\<close> for a DATE read as an instant, against an instant.\<close>

lemma date_after: "d * day_ns > t \<longleftrightarrow> d > day_of t"
proof -
  have "t = day_ns * day_of t + t mod day_ns" "0 \<le> t mod day_ns" "t mod day_ns < day_ns"
    by (simp_all add: day_of_def)
  then show ?thesis by linarith
qed

lemma Epoch_FromEpoch [simp]: "Epoch (FromEpoch s) = s"
  by (simp add: Epoch_def FromEpoch_def second_def)

section \<open>The calendar\<close>

definition leap :: "int \<Rightarrow> bool" where
  "leap y \<longleftrightarrow> y mod 4 = 0 \<and> (y mod 100 \<noteq> 0 \<or> y mod 400 = 0)"

text \<open>Months count from 0.\<close>

definition month_lengths :: "int \<Rightarrow> int list" where
  "month_lengths y = [31, if leap y then 29 else 28, 31, 30, 31, 30, 31, 31, 30, 31, 30, 31]"

definition month_len :: "int \<Rightarrow> nat \<Rightarrow> int" where
  "month_len y m = month_lengths y ! m"

definition year_start :: "int \<Rightarrow> int" where
  "year_start y = 365 * (y - 1970) + (y - 1) div 4 - (y - 1) div 100 + (y - 1) div 400 - 477"

definition month_start :: "int \<Rightarrow> nat \<Rightarrow> int" where
  "month_start y m = sum_list (take m (month_lengths y))"

text \<open>\<open>time.Date(y, m, d)\<close> as a day: a month outside the year moves the year, a day outside the month runs on.\<close>

definition date_days :: "int \<Rightarrow> int \<Rightarrow> int \<Rightarrow> int" where
  "date_days y m d = (let y' = y + m div 12 in year_start y' + month_start y' (nat (m mod 12)) + (d - 1))"

fun find_month :: "int list \<Rightarrow> int \<Rightarrow> nat \<times> int" where
  "find_month [] d = (0, d)"
| "find_month (l # ls) d = (if d < l then (0, d) else (case find_month ls (d - l) of (m, r) \<Rightarrow> (Suc m, r)))"

definition civil_year :: "int \<Rightarrow> int" where
  "civil_year n = (let z = n + 719162;
       n400 = z div 146097; r = z mod 146097;
       n100 = min 3 (r div 36524); r = r - 36524 * n100;
       n4 = r div 1461; r = r mod 1461;
       n1 = min 3 (r div 365)
     in 400 * n400 + 100 * n100 + 4 * n4 + n1 + 1)"

definition civil :: "int \<Rightarrow> int \<times> nat \<times> int" where
  "civil n = (let y = civil_year n in case find_month (month_lengths y) (n - year_start y) of (m, d) \<Rightarrow> (y, m, d + 1))"

text \<open>\<open>t.AddDate(years, months, days)\<close>, on days and on instants.\<close>

definition add_date :: "int \<Rightarrow> int \<Rightarrow> int \<Rightarrow> int \<Rightarrow> int" where
  "add_date years months days n = (case civil n of (y, m, d) \<Rightarrow> date_days (y + years) (int m + months) (d + days))"

definition AddDate :: "int \<Rightarrow> int \<Rightarrow> int \<Rightarrow> int \<Rightarrow> int" where
  "AddDate years months days t = add_date years months days (day_of t) * day_ns + t mod day_ns"

section \<open>Facts\<close>

lemma div_mod_pred:
  fixes y k :: int
  assumes "0 < k"
  shows "y mod k = 0 \<longleftrightarrow> (y - 1) mod k = k - 1"
    and "y div k = (y - 1) div k + (if y mod k = 0 then 1 else 0)"
proof -
  define q r where "q = (y - 1) div k" and "r = (y - 1) mod k"
  have y: "y - 1 = k * q + r" and r: "0 \<le> r" "r < k" using assms by (simp_all add: q_def r_def)
  show 1: "y mod k = 0 \<longleftrightarrow> (y - 1) mod k = k - 1"
  proof (cases "r = k - 1")
    case True
    then have "y = k * (q + 1)" using y by (simp add: algebra_simps)
    then show ?thesis using True r_def by simp
  next
    case False
    then have "y mod k = r + 1" using y r by (intro int_mod_pos_eq[of y k q]) auto
    then show ?thesis using False r r_def by simp
  qed
  have "y div k = q + (if r = k - 1 then 1 else 0)"
  proof (cases "r = k - 1")
    case True
    then have "y = k * (q + 1)" using y by (simp add: algebra_simps)
    then show ?thesis using True assms by simp
  next
    case False
    then show ?thesis using y r by (auto intro!: int_div_pos_eq[of y k q "r + 1"])
  qed
  then show "y div k = (y - 1) div k + (if y mod k = 0 then 1 else 0)"
    unfolding 1 by (simp add: q_def r_def)
qed

lemma year_start_Suc: "year_start (y + 1) = year_start y + (if leap y then 366 else 365)"
proof -
  have "(4::int) dvd 100" "(100::int) dvd 400" by simp_all
  then have dvd: "y mod 400 = 0 \<longrightarrow> y mod 100 = 0" "y mod 100 = 0 \<longrightarrow> y mod 4 = 0"
    unfolding mod_eq_0_iff_dvd by (blast intro: dvd_trans)+
  have pred: "y div 4 = (y - 1) div 4 + (if y mod 4 = 0 then 1 else 0)"
    "y div 100 = (y - 1) div 100 + (if y mod 100 = 0 then 1 else 0)"
    "y div 400 = (y - 1) div 400 + (if y mod 400 = 0 then 1 else 0)"
    by (rule div_mod_pred(2), simp)+
  show ?thesis
    unfolding year_start_def leap_def add_diff_cancel_right' pred
    using dvd by (cases "y mod 400 = 0"; cases "y mod 100 = 0"; cases "y mod 4 = 0") simp_all
qed

text \<open>The year as 400-, 100-, 4- and 1-year cycles.\<close>

lemma cycles:
  fixes a b c e :: int
  assumes "y = 400 * a + 100 * b + 4 * c + e + 1" "0 \<le> b" "b \<le> 3" "0 \<le> c" "c \<le> 24" "0 \<le> e" "e \<le> 3"
  shows "year_start y = 146097 * a + 36524 * b + 1461 * c + 365 * e - 719162"
    and "leap y \<longleftrightarrow> e = 3 \<and> (c < 24 \<or> b = 3)"
proof -
  have d4: "(y - 1) div 4 = 100 * a + 25 * b + c" using assms by (intro int_div_pos_eq[where r = e]) simp_all
  have d100: "(y - 1) div 100 = 4 * a + b" using assms by (intro int_div_pos_eq[where r = "4 * c + e"]) simp_all
  have d400: "(y - 1) div 400 = a" using assms by (intro int_div_pos_eq[where r = "100 * b + 4 * c + e"]) simp_all
  show "year_start y = 146097 * a + 36524 * b + 1461 * c + 365 * e - 719162"
    unfolding year_start_def d4 d100 d400 using assms(1) by simp
  have m4: "(y - 1) mod 4 = e" using assms by (intro int_mod_pos_eq[where q = "100 * a + 25 * b + c"]) simp_all
  have m100: "(y - 1) mod 100 = 4 * c + e" using assms by (intro int_mod_pos_eq[where q = "4 * a + b"]) simp_all
  have m400: "(y - 1) mod 400 = 100 * b + 4 * c + e" using assms by (intro int_mod_pos_eq[where q = a]) simp_all
  have "leap y \<longleftrightarrow> e = 3 \<and> (4 * c + e \<noteq> 99 \<or> 100 * b + 4 * c + e = 399)"
    unfolding leap_def div_mod_pred(1)[of 4, simplified] div_mod_pred(1)[of 100, simplified] div_mod_pred(1)[of 400, simplified]
      m4 m100 m400 ..
  then show "leap y \<longleftrightarrow> e = 3 \<and> (c < 24 \<or> b = 3)"
    using assms(2-7) by (cases "e = 3") auto
qed

lemma civil_year_bounds: "year_start (civil_year n) \<le> n" "n < year_start (civil_year n + 1)"
proof -
  define z where "z = n + 719162"
  define a r where "a = z div 146097" and "r = z mod 146097"
  define b r1 where "b = min 3 (r div 36524)" and "r1 = r - 36524 * b"
  define c r2 where "c = r1 div 1461" and "r2 = r1 mod 1461"
  define e where "e = min 3 (r2 div 365)"
  have y: "civil_year n = 400 * a + 100 * b + 4 * c + e + 1"
    by (simp only: civil_year_def Let_def z_def a_def r_def b_def r1_def c_def r2_def e_def)
  have z: "z = 146097 * a + r" by (simp add: a_def r_def)
  have r: "0 \<le> r" "r < 146097" by (simp_all add: r_def)
  have "r = 36524 * (r div 36524) + r mod 36524" "0 \<le> r mod 36524" "r mod 36524 < 36524" "0 \<le> r div 36524"
    using r by simp_all
  then have b: "0 \<le> b" "b \<le> 3" "0 \<le> r1" "r1 < 36525" "b < 3 \<Longrightarrow> r1 < 36524"
    using r unfolding b_def r1_def by linarith+
  have c: "r1 = 1461 * c + r2" "0 \<le> r2" "r2 < 1461" by (simp_all add: c_def r2_def)
  have c2: "0 \<le> c" "c \<le> 24" using b(3,4) c by linarith+
  have c3: "r2 < 1460" if "c = 24" "b \<noteq> 3"
    using b(2,5) c(1) that by linarith
  have "r2 = 365 * (r2 div 365) + r2 mod 365" "0 \<le> r2 mod 365" "r2 mod 365 < 365" "0 \<le> r2 div 365"
    using c by simp_all
  then have e: "0 \<le> e" "e \<le> 3" "365 * e \<le> r2" "e < 3 \<Longrightarrow> r2 < 365 * e + 365" "r2 < 365 * e + 366"
    using c unfolding e_def by linarith+
  note * = cycles[OF y b(1,2) c2(1,2) e(1,2)]
  have n: "n = 146097 * a + 36524 * b + 1461 * c + r2 - 719162" using z c(1) z_def r1_def by linarith
  show "year_start (civil_year n) \<le> n" unfolding *(1) using e(3) n by linarith
  have "r2 < 365 * e + (if leap (civil_year n) then 366 else 365)"
  proof (cases "e = 3 \<and> c = 24 \<and> b \<noteq> 3")
    case True
    then have "r2 < 1460" using c3 by simp
    then show ?thesis using True *(2) by simp
  next
    case False
    then show ?thesis using e b(2) c2(2) unfolding *(2) by (cases "e = 3") auto
  qed
  then show "n < year_start (civil_year n + 1)" unfolding year_start_Suc *(1) using n by linarith
qed

lemma length_month_lengths [simp]: "length (month_lengths y) = 12"
  by (simp add: month_lengths_def)

lemma sum_month_lengths: "sum_list (month_lengths y) = (if leap y then 366 else 365)"
  by (simp add: month_lengths_def)

lemma find_month_sum:
  "0 \<le> d \<Longrightarrow> d < sum_list ls \<Longrightarrow> find_month ls d = (m, r) \<Longrightarrow>
   m < length ls \<and> 0 \<le> r \<and> r < ls ! m \<and> d = sum_list (take m ls) + r"
  by (induction ls d arbitrary: m r rule: find_month.induct) (auto split: if_splits prod.splits)

lemma civil_props:
  assumes "civil n = (y, m, d)"
  shows "m < 12" "1 \<le> d" "d \<le> month_len y m" "year_start y + month_start y m + (d - 1) = n"
proof -
  let ?f = "find_month (month_lengths (civil_year n)) (n - year_start (civil_year n))"
  have y: "y = civil_year n" and f: "?f = (m, d - 1)"
    using assms by (auto simp: civil_def Let_def split: prod.splits)
  have "n - year_start (civil_year n) < sum_list (month_lengths (civil_year n))"
    using civil_year_bounds[of n] by (auto simp: sum_month_lengths year_start_Suc)
  from find_month_sum[OF _ this f] civil_year_bounds(1)[of n]
  show "m < 12" "1 \<le> d" "d \<le> month_len y m" "year_start y + month_start y m + (d - 1) = n"
    by (auto simp: y month_len_def month_start_def)
qed

lemma date_days_in_year: "m < 12 \<Longrightarrow> date_days y (int m) d = year_start y + month_start y m + (d - 1)"
  by (simp add: date_days_def)

lemma date_days_civil: "civil n = (y, m, d) \<Longrightarrow> date_days y (int m) d = n"
  using civil_props[of n y m d] by (simp add: date_days_in_year)

lemma month_start_Suc: "m < 12 \<Longrightarrow> month_start y (Suc m) = month_start y m + month_len y m"
  by (simp add: month_start_def month_len_def take_Suc_conv_app_nth)

lemma month_start_12: "month_start y 12 = (if leap y then 366 else 365)"
  by (simp add: month_start_def sum_month_lengths)

lemma month_start_0 [simp]: "month_start y 0 = 0"
  by (simp add: month_start_def)

text \<open>One month later is the length of the month later, whatever the day.\<close>

definition month_after :: "int \<times> nat \<Rightarrow> int \<times> nat" where
  "month_after = (\<lambda>(y, m). if m = 11 then (y + 1, 0) else (y, Suc m))"

lemma date_days_next_month:
  assumes "m < 12"
  shows "date_days y (int m + 1) d = date_days y (int m) d + month_len y m"
proof (cases "m = 11")
  case True
  have "month_start y 12 = month_start y 11 + month_len y 11"
    using month_start_Suc[of 11 y] by (simp add: eval_nat_numeral)
  then show ?thesis using True by (simp add: date_days_def Let_def year_start_Suc month_start_12 split: if_splits)
next
  case False
  then have *: "(int m + 1) div 12 = 0" "(int m + 1) mod 12 = int (Suc m)" using assms by auto
  show ?thesis using assms False
    by (simp add: date_days_def Let_def * month_start_Suc nat_int_add del: of_nat_Suc)
qed

lemma date_days_shift_year: "date_days (y + 1) m d = date_days y (m + 12) d"
proof -
  have "(m + 12) div 12 = m div 12 + 1" "(m + 12) mod 12 = m mod 12" by simp_all
  then have "y + (m + 12) div 12 = y + 1 + m div 12" "(m + 12) mod 12 = m mod 12" by linarith+
  then show ?thesis unfolding date_days_def Let_def by metis
qed

lemma date_days_month_after:
  "m < 12 \<Longrightarrow> month_after (y, m) = (y', m') \<Longrightarrow> date_days y (int m + 1 + k) d = date_days y' (int m' + k) d"
  by (cases "m = 11") (auto simp: month_after_def date_days_shift_year add.commute[of 12] algebra_simps
      simp flip: date_days_shift_year)

lemma month_after_less: "m < 12 \<Longrightarrow> snd (month_after (y, m)) < 12"
  by (auto simp: month_after_def)

text \<open>The days of \<open>k\<close> successive months, beginning with a given one.\<close>

fun months_span :: "nat \<Rightarrow> int \<times> nat \<Rightarrow> int" where
  "months_span 0 ym = 0"
| "months_span (Suc k) ym = month_len (fst ym) (snd ym) + months_span k (month_after ym)"

lemma date_days_add_months:
  "m < 12 \<Longrightarrow> date_days y (int m + int k) d = date_days y (int m) d + months_span k (y, m)"
proof (induction k arbitrary: y m)
  case 0
  then show ?case by simp
next
  case (Suc k)
  obtain y' m' where a: "month_after (y, m) = (y', m')" by fastforce
  then have "m' < 12" using month_after_less[OF Suc.prems, of y] by simp
  have "date_days y (int m + int (Suc k)) d = date_days y (int m + 1 + int k) d" by (simp add: algebra_simps)
  also have "\<dots> = date_days y' (int m') d + months_span k (y', m')"
    using date_days_month_after[OF Suc.prems a] Suc.IH[OF \<open>m' < 12\<close>] by simp
  also have "date_days y' (int m') d = date_days y (int m) d + month_len y m"
    using date_days_month_after[OF Suc.prems a, of 0] date_days_next_month[OF Suc.prems] by simp
  finally show ?case by (simp add: a)
qed

lemma add_months_span:
  "civil n = (y, m, d) \<Longrightarrow> add_date 0 (int k) 0 n = n + months_span k (y, m)"
  using civil_props[of n y m d] by (simp add: add_date_def date_days_add_months date_days_civil)

lemma add_year_span: "civil n = (y, m, d) \<Longrightarrow> add_date 1 0 0 n = n + months_span 12 (y, m)"
  using add_months_span[of n y m d 12] by (simp add: add_date_def date_days_shift_year)

lemma month_12_cases:
  assumes "m < (12::nat)"
  obtains "m = 0" | "m = 1" | "m = 2" | "m = 3" | "m = 4" | "m = 5" | "m = 6" | "m = 7" | "m = 8" | "m = 9" | "m = 10" | "m = 11"
proof -
  have "m = 0 \<or> m = 1 \<or> m = 2 \<or> m = 3 \<or> m = 4 \<or> m = 5 \<or> m = 6 \<or> m = 7 \<or> m = 8 \<or> m = 9 \<or> m = 10 \<or> m = 11"
    using assms by presburger
  then show ?thesis using that by blast
qed

lemma leap_apart: "leap y \<Longrightarrow> \<not> leap (y + 1)"
proof -
  have "y mod 4 = 0 \<Longrightarrow> (y + 1) mod 4 \<noteq> 0" by presburger
  then show "leap y \<Longrightarrow> \<not> leap (y + 1)" by (simp add: leap_def)
qed

lemma months_span_bounds:
  assumes "m < 12"
  shows "28 \<le> months_span 1 (y, m) \<and> months_span 1 (y, m) \<le> 31"
    and "89 \<le> months_span 3 (y, m) \<and> months_span 3 (y, m) \<le> 92"
    and "365 \<le> months_span 12 (y, m) \<and> months_span 12 (y, m) \<le> 366"
proof -
  note s = month_after_def month_len_def month_lengths_def eval_nat_numeral
  show "28 \<le> months_span 1 (y, m) \<and> months_span 1 (y, m) \<le> 31"
    using assms by (cases rule: month_12_cases) (simp_all add: s)
  show "89 \<le> months_span 3 (y, m) \<and> months_span 3 (y, m) \<le> 92"
    using assms leap_apart[of y] by (cases rule: month_12_cases) (simp_all add: s)
  show "365 \<le> months_span 12 (y, m) \<and> months_span 12 (y, m) \<le> 366"
    using assms leap_apart[of y] by (cases rule: month_12_cases) (simp_all add: s)
qed

end
