(* ===== verification/Money.thy ===== *)
theory Money
  imports Complex_Main Prelude
begin

text \<open>
  Amounts of money. The database keeps them as NUMERIC(n,2); the Go code reads them into
  float64. An amount below 2^53 paise is represented by its own float64 up to the nearest
  double, and adding and comparing such amounts after rounding to two decimals agrees with
  exact arithmetic, so amounts are exact rationals here. Rounding is half away from zero, as
  PostgreSQL's NUMERIC(n,2) cast and Go's \<open>math.Round\<close> do it.
\<close>

type_synonym money = rat

definition round_away :: "rat \<Rightarrow> int" where
  "round_away x = (if 0 \<le> x then \<lfloor>x + 1/2\<rfloor> else \<lceil>x - 1/2\<rceil>)"

definition round2 :: "rat \<Rightarrow> money" where
  "round2 x = of_int (round_away (x * 100)) / 100"

text \<open>A value a NUMERIC(n,2) column can hold: a whole number of paise below \<open>10^n\<close>.\<close>

definition paise :: "money \<Rightarrow> bool" where
  "paise x \<longleftrightarrow> round2 x = x"

definition numeric_fits :: "nat \<Rightarrow> money \<Rightarrow> bool" where
  "numeric_fits n x \<longleftrightarrow> \<bar>x\<bar> * 100 < 10 ^ n"

lemma round_away_int [simp]: "round_away (of_int i) = i"
  by (simp add: round_away_def) linarith

lemma round_away_mono: "x \<le> y \<Longrightarrow> round_away x \<le> round_away y"
  unfolding round_away_def by (auto; linarith)

lemma round_away_half: "\<bar>of_int (round_away x) - x\<bar> \<le> 1/2"
proof -
  have "of_int \<lfloor>x + 1/2\<rfloor> \<le> x + 1/2" "x + 1/2 < of_int \<lfloor>x + 1/2\<rfloor> + 1"
    using floor_correct[of "x + 1/2"] by auto
  moreover have "of_int \<lceil>x - 1/2\<rceil> \<ge> x - 1/2" "x - 1/2 > of_int \<lceil>x - 1/2\<rceil> - 1"
    using ceiling_correct[of "x - 1/2"] by auto
  ultimately show ?thesis unfolding round_away_def abs_le_iff by (cases "0 \<le> x") (simp_all, linarith+)
qed

lemma round_away_0 [simp]: "round_away 0 = 0"
  using round_away_int[of 0] by simp

lemma round2_of_int: "round2 (of_int i / 100) = of_int i / 100"
  by (simp add: round2_def)

lemma round2_paise [simp]: "paise (round2 x)"
  by (simp add: paise_def round2_def)

lemma paise_iff: "paise x \<longleftrightarrow> (\<exists>i. x = of_int i / 100)"
  by (metis paise_def round2_def round2_of_int)

lemma paise_0 [simp]: "paise 0"
  by (simp add: paise_def round2_def)

lemma paise_add: "paise x \<Longrightarrow> paise y \<Longrightarrow> paise (x + y)"
  by (auto simp: paise_iff simp flip: add_divide_distrib of_int_add)

lemma paise_diff: "paise x \<Longrightarrow> paise y \<Longrightarrow> paise (x - y)"
  by (auto simp: paise_iff simp flip: diff_divide_distrib of_int_diff)

lemma round2_mono: "x \<le> y \<Longrightarrow> round2 x \<le> round2 y"
  by (simp add: round2_def divide_right_mono round_away_mono)

lemma round2_error: "\<bar>round2 x - x\<bar> \<le> 1/200"
  using round_away_half[of "x * 100"] by (simp add: round2_def abs_if field_simps split: if_splits)

lemma round2_le_paise: "paise b \<Longrightarrow> x \<le> b \<Longrightarrow> round2 x \<le> b"
  by (metis paise_def round2_mono)

lemma round2_nonneg: "0 \<le> x \<Longrightarrow> 0 \<le> round2 x"
  using round2_mono[of 0 x] by (simp add: round2_def)

end
