(* ===== verification/RmSchema.thy ===== *)
theory RmSchema
  imports GoStrings GoTime Money
begin

text \<open>
  The tables the relationship-manager side of the program works on
  (\<open>internal/database/migrations\<close> 1, 10, 17, 19, 20 and 22; \<open>internal/domain/rm/models.go\<close>):
  staff, clients, the assignment history, the round-robin pointer, login codes, refresh
  tokens and the interaction log. A nullable column is an option, an instant is in
  nanoseconds, a row list is in insertion order.
\<close>

section \<open>Staff\<close>

definition RoleRM :: string where "RoleRM = ''rm''"
definition RoleAdmin :: string where "RoleAdmin = ''admin''"
definition StatusActive :: string where "StatusActive = ''active''"
definition StatusInactive :: string where "StatusInactive = ''inactive''"
definition ActionAutoAssign :: string where "ActionAutoAssign = ''auto_assign''"
definition ActionAssign :: string where "ActionAssign = ''assign''"
definition ActionTransfer :: string where "ActionTransfer = ''transfer''"
definition ActionRemove :: string where "ActionRemove = ''remove''"

lemmas rm_consts = RoleRM_def RoleAdmin_def StatusActive_def StatusInactive_def
  ActionAutoAssign_def ActionAssign_def ActionTransfer_def ActionRemove_def

record StaffUser =
  st_id :: uuid
  st_code :: string
  st_email :: string
  st_name :: string
  st_phone :: "string option"
  st_role :: string
  st_status :: string
  st_max :: int
  st_created :: int
  st_updated :: int

text \<open>The client-safe projection of a staff row.\<close>

record Public =
  pub_id :: uuid
  pub_code :: string
  pub_email :: string
  pub_name :: string
  pub_phone :: "string option"
  pub_role :: string
  pub_status :: string
  pub_max :: int
  pub_created :: int

definition staff_public :: "StaffUser \<Rightarrow> Public" where
  "staff_public s = \<lparr>pub_id = st_id s, pub_code = st_code s, pub_email = st_email s,
     pub_name = st_name s, pub_phone = st_phone s, pub_role = st_role s,
     pub_status = st_status s, pub_max = st_max s, pub_created = st_created s\<rparr>"

section \<open>Clients and the book\<close>

record client =
  us_id :: uuid
  us_astra :: string
  us_phone :: string
  us_name :: "string option"
  us_wants :: bool
  us_rm :: "uuid option"
  us_created :: int

record hist_row =
  h_id :: uuid
  h_user :: uuid
  h_from :: "uuid option"
  h_to :: "uuid option"
  h_action :: string
  h_reason :: "string option"
  h_actor :: "uuid option"
  h_created :: int

record queue_row =
  q_last :: "uuid option"
  q_seq :: int
  q_updated :: int

section \<open>Login codes, refresh tokens, interactions\<close>

record otp_row =
  otp_id :: uuid
  otp_rm :: uuid
  otp_hash :: string
  otp_expires :: int
  otp_consumed :: "int option"
  otp_attempts :: int
  otp_created :: int

record token_row =
  tok_id :: uuid
  tok_owner :: uuid
  tok_hash :: string
  tok_expires :: int
  tok_revoked :: "int option"

record inter_row =
  in_id :: uuid
  in_user :: uuid
  in_rm :: uuid
  in_kind :: string
  in_body :: string
  in_follow :: "int option"
  in_done :: "int option"
  in_created :: int

text \<open>A row of \<open>portfolio_snapshots\<close>: the user, the day, the total wealth.\<close>

record snap_row =
  sn_user :: uuid
  sn_date :: int
  sn_total :: money

record rm_db =
  rm_users :: "StaffUser list"
  users :: "client list"
  history :: "hist_row list"
  queue_state :: queue_row
  otp_codes :: "otp_row list"
  rm_tokens :: "token_row list"
  user_tokens :: "token_row list"
  interactions :: "inter_row list"
  snapshots :: "snap_row list"

section \<open>Look-ups\<close>

definition staff_ids :: "rm_db \<Rightarrow> uuid set" where
  "staff_ids d = set (map st_id (rm_users d))"

definition find_user :: "uuid \<Rightarrow> rm_db \<Rightarrow> client option" where
  "find_user u d = first_row (filter (\<lambda>r. us_id r = u) (users d))"

definition find_staff :: "uuid \<Rightarrow> rm_db \<Rightarrow> StaffUser option" where
  "find_staff i d = first_row (filter (\<lambda>s. st_id s = i) (rm_users d))"

text \<open>A foreign key to \<open>rm_users\<close>: null, or the id of a row.\<close>

definition fk_staff :: "uuid option \<Rightarrow> rm_db \<Rightarrow> bool" where
  "fk_staff x d \<longleftrightarrow> (case x of None \<Rightarrow> True | Some i \<Rightarrow> list_ex (\<lambda>s. st_id s = i) (rm_users d))"

definition fk_user :: "uuid \<Rightarrow> rm_db \<Rightarrow> bool" where
  "fk_user u d \<longleftrightarrow> list_ex (\<lambda>r. us_id r = u) (users d)"

lemma fk_staff_iff: "fk_staff x d \<longleftrightarrow> (\<forall>i. x = Some i \<longrightarrow> i \<in> staff_ids d)"
  by (auto simp: fk_staff_def staff_ids_def list_ex_iff split: option.splits)

lemma fk_user_iff: "fk_user u d \<longleftrightarrow> u \<in> us_id ` set (users d)"
  by (auto simp: fk_user_def list_ex_iff)

lemma find_user_SomeD: "find_user u d = Some r \<Longrightarrow> r \<in> set (users d) \<and> us_id r = u"
  by (auto simp: find_user_def dest: first_row_filterD)

lemma find_staff_SomeD: "find_staff u d = Some r \<Longrightarrow> r \<in> set (rm_users d) \<and> st_id r = u"
  by (auto simp: find_staff_def dest: first_row_filterD)

lemma find_user_None: "find_user u d = None \<longleftrightarrow> u \<notin> us_id ` set (users d)"
  by (auto simp: find_user_def filter_empty_conv)

lemma find_user_unique:
  "distinct (map us_id (users d)) \<Longrightarrow> r \<in> set (users d) \<Longrightarrow> find_user (us_id r) d = Some r"
  by (simp add: find_user_def filter_key_single)

lemma find_staff_unique:
  "distinct (map st_id (rm_users d)) \<Longrightarrow> r \<in> set (rm_users d) \<Longrightarrow> find_staff (st_id r) d = Some r"
  by (simp add: find_staff_def filter_key_single)

end
