(* ===== verification/RmStaff.thy ===== *)
theory RmStaff
  imports RmSchema
begin

text \<open>
  The staff half of \<open>internal/repository/rm_repo.go\<close>: creating, looking up, listing and
  updating relationship managers and admins. The table's constraints (unique e-mail, unique
  employee code, role and status checks, column widths) are checked by every statement that
  writes it.
\<close>

record UpdateRMRequest =
  up_name :: "string option"
  up_email :: "string option"
  up_phone :: "string option"
  up_status :: "string option"
  up_max :: "int option"

definition opt_len :: "nat \<Rightarrow> string option \<Rightarrow> bool" where
  "opt_len n x \<longleftrightarrow> (case x of None \<Rightarrow> True | Some s \<Rightarrow> length s \<le> n)"

text \<open>The row constraints of \<open>rm_users\<close>, and its two unique indexes.\<close>

definition staff_row_ok :: "StaffUser \<Rightarrow> bool" where
  "staff_row_ok s \<longleftrightarrow> st_role s \<in> {RoleRM, RoleAdmin} \<and> st_status s \<in> {StatusActive, StatusInactive} \<and>
     length (st_email s) \<le> 255 \<and> length (st_name s) \<le> 255 \<and> opt_len 50 (st_phone s) \<and>
     length (st_code s) \<le> 50"

definition staff_unique :: "StaffUser \<Rightarrow> StaffUser list \<Rightarrow> bool" where
  "staff_unique s others \<longleftrightarrow> list_all (\<lambda>o'. st_id o' \<noteq> st_id s \<and> st_email o' \<noteq> st_email s \<and>
     st_code o' \<noteq> st_code s) others"

definition staff_table_ok :: "StaffUser list \<Rightarrow> bool" where
  "staff_table_ok ss \<longleftrightarrow> distinct (map st_id ss) \<and> distinct (map st_email ss) \<and> distinct (map st_code ss) \<and>
     list_all staff_row_ok ss"

definition new_staff :: "string \<Rightarrow> string \<Rightarrow> string \<Rightarrow> string \<Rightarrow> string \<Rightarrow> int \<Rightarrow> uuid \<Rightarrow> int \<Rightarrow> StaffUser" where
  "new_staff employeeCode email name phone role maxPortfolios i t =
     \<lparr>st_id = i, st_code = to_upper (trim_space employeeCode),
      st_email = to_lower (trim_space email), st_name = name,
      st_phone = (if phone \<noteq> [] then Some phone else None),
      st_role = role, st_status = StatusActive,
      st_max = (if maxPortfolios \<le> 0 then 150 else maxPortfolios),
      st_created = t, st_updated = t\<rparr>"

definition staff_Create :: "string \<Rightarrow> string \<Rightarrow> string \<Rightarrow> string \<Rightarrow> string \<Rightarrow> int \<Rightarrow> (rm_db, StaffUser) act" where
  "staff_Create employeeCode email name phone role maxPortfolios =
     wrapping ''create rm user'' (exec_id (\<lambda>i t d.
       let s = new_staff employeeCode email name phone role maxPortfolios i t
       in if staff_row_ok s \<and> staff_unique s (rm_users d)
          then Inr (s, d\<lparr>rm_users := rm_users d @ [s]\<rparr>)
          else Inl (Sent ErrConstraint)))"

definition find_email :: "string \<Rightarrow> rm_db \<Rightarrow> StaffUser option" where
  "find_email email d = first_row (filter (\<lambda>s. st_email s = to_lower (trim_space email)) (rm_users d))"

definition find_identifier :: "string \<Rightarrow> rm_db \<Rightarrow> StaffUser option" where
  "find_identifier identifier d = (let id = trim_space identifier in
     first_row (filter (\<lambda>s. st_email s = to_lower id \<or> st_code s = to_upper id) (rm_users d)))"

definition GetByEmail :: "string \<Rightarrow> (rm_db, StaffUser option) act" where
  "GetByEmail email = get_row ''get rm user by email'' (\<lambda>_. find_email email)"

definition GetByIdentifier :: "string \<Rightarrow> (rm_db, StaffUser option) act" where
  "GetByIdentifier identifier = get_row ''get rm user by identifier'' (\<lambda>_. find_identifier identifier)"

definition staff_GetByID :: "uuid \<Rightarrow> (rm_db, StaffUser option) act" where
  "staff_GetByID i = get_row ''get rm user by id'' (\<lambda>_. find_staff i)"

text \<open>ORDER BY role DESC, created_at: there are two roles, and "rm" sorts after "admin".\<close>

definition staff_list :: "rm_db \<Rightarrow> StaffUser list" where
  "staff_list d = (let byTime = sort_key st_created (rm_users d)
     in filter (\<lambda>s. st_role s = RoleRM) byTime @ filter (\<lambda>s. st_role s \<noteq> RoleRM) byTime)"

definition staff_List :: "(rm_db, StaffUser list) act" where
  "staff_List = wrapping ''list rm users'' (query (\<lambda>_. staff_list))"

definition set_if :: "'a option \<Rightarrow> 'a \<Rightarrow> 'a" where
  "set_if x old = (case x of None \<Rightarrow> old | Some v \<Rightarrow> v)"

definition updated_staff :: "UpdateRMRequest \<Rightarrow> int \<Rightarrow> StaffUser \<Rightarrow> StaffUser" where
  "updated_staff req t s = s\<lparr>st_name := set_if (up_name req) (st_name s),
     st_email := set_if (map_option (\<lambda>e. to_lower (trim_space e)) (up_email req)) (st_email s),
     st_phone := (case up_phone req of None \<Rightarrow> st_phone s | Some p \<Rightarrow> Some p),
     st_status := set_if (up_status req) (st_status s),
     st_max := set_if (up_max req) (st_max s),
     st_updated := t\<rparr>"

definition staff_Update :: "uuid \<Rightarrow> UpdateRMRequest \<Rightarrow> (rm_db, StaffUser option) act" where
  "staff_Update i req =
     (if up_name req = None \<and> up_email req = None \<and> up_phone req = None \<and> up_status req = None \<and>
         up_max req = None
      then staff_GetByID i
      else bind (attempt (exec (\<lambda>t d. case find_staff i d of
               None \<Rightarrow> Inl (Sent ErrNoRows)
             | Some s \<Rightarrow> let s' = updated_staff req t s in
                 if staff_row_ok s' \<and> staff_unique s' (filter (\<lambda>o'. st_id o' \<noteq> i) (rm_users d))
                 then Inr (s', d\<lparr>rm_users := update_where (\<lambda>o'. st_id o' = i) (updated_staff req t) (rm_users d)\<rparr>)
                 else Inl (Sent ErrConstraint))))
           (\<lambda>r. case r of
              Inl e \<Rightarrow> (if errors_is e ErrNoRows then ret None else fail (Wrap ''update rm user'' e))
            | Inr s \<Rightarrow> ret (Some s)))"

section \<open>Facts\<close>

lemma updated_staff_id [simp]: "st_id (updated_staff req t s) = st_id s" "st_role (updated_staff req t s) = st_role s"
  "st_code (updated_staff req t s) = st_code s" "st_created (updated_staff req t s) = st_created s"
  by (simp_all add: updated_staff_def)

lemma set_staff_list [simp]: "set (staff_list d) = set (rm_users d)"
  by (auto simp: staff_list_def Let_def)

lemma find_emailD: "find_email e d = Some s \<Longrightarrow> s \<in> set (rm_users d) \<and> st_email s = to_lower (trim_space e)"
  by (auto simp: find_email_def dest: first_row_filterD)

lemma find_email_None: "find_email e d = None \<longleftrightarrow> (\<forall>s \<in> set (rm_users d). st_email s \<noteq> to_lower (trim_space e))"
  by (auto simp: find_email_def filter_empty_conv)

lemma find_identifierD: "find_identifier e d = Some s \<Longrightarrow> s \<in> set (rm_users d) \<and>
    (st_email s = to_lower (trim_space e) \<or> st_code s = to_upper (trim_space e))"
  by (auto simp: find_identifier_def Let_def dest: first_row_filterD)

text \<open>Creating and updating keep the table's constraints.\<close>

lemma staff_table_ok_add:
  "staff_table_ok ss \<Longrightarrow> staff_row_ok s \<Longrightarrow> staff_unique s ss \<Longrightarrow> staff_table_ok (ss @ [s])"
  by (auto simp: staff_table_ok_def staff_unique_def list_all_iff)

lemma distinct_update_where:
  assumes "distinct (map k xs)" "distinct (map key xs)" "\<And>r. r \<in> set xs \<Longrightarrow> key r \<noteq> i \<Longrightarrow> k r \<noteq> v"
    "\<And>r. key r = i \<Longrightarrow> r \<in> set xs \<Longrightarrow> k (f r) = v"
  shows "distinct (map k (update_where (\<lambda>r. key r = i) f xs))"
  using assms
proof (induction xs)
  case (Cons x xs)
  have IH: "distinct (map k (update_where (\<lambda>r. key r = i) f xs))"
    using Cons by simp
  show ?case
  proof (cases "key x = i")
    case True
    then have i: "i \<notin> key ` set xs" using Cons.prems(2) by auto
    then have none: "\<forall>r \<in> set xs. key r \<noteq> i" by blast
    have "update_where (\<lambda>r. key r = i) f xs = xs" using i by (rule update_where_key_none)
    then show ?thesis using IH True none Cons.prems(3,4) by auto
  next
    case False
    have "k x \<notin> k ` set (update_where (\<lambda>r. key r = i) f xs)"
      using Cons.prems False by (auto simp: set_update_where split: if_splits)
    then show ?thesis using IH False by simp
  qed
qed simp

lemma staff_table_ok_update:
  assumes ok: "staff_table_ok (rm_users d)" and f: "find_staff i d = Some s"
    and row: "staff_row_ok (updated_staff req t s)"
    and un: "staff_unique (updated_staff req t s) (filter (\<lambda>o'. st_id o' \<noteq> i) (rm_users d))"
  shows "staff_table_ok (update_where (\<lambda>o'. st_id o' = i) (updated_staff req t) (rm_users d))"
proof -
  have s: "s \<in> set (rm_users d)" "st_id s = i" using f find_staff_SomeD by auto
  have dist: "distinct (map st_id (rm_users d))" using ok by (simp add: staff_table_ok_def)
  have only: "r = s" if "r \<in> set (rm_users d)" "st_id r = i" for r
    using map_key_unique[OF dist] that s by metis
  let ?u = "update_where (\<lambda>o'. st_id o' = i) (updated_staff req t) (rm_users d)"
  have "distinct (map st_email ?u)"
    using ok un only dist
    by (intro distinct_update_where[where v = "st_email (updated_staff req t s)"])
       (auto simp: staff_table_ok_def staff_unique_def list_all_iff)
  moreover have "map st_id ?u = map st_id (rm_users d)" "map st_code ?u = map st_code (rm_users d)"
    by (simp_all add: map_update_where)
  moreover have "list_all staff_row_ok ?u"
    using ok row only by (auto simp: staff_table_ok_def list_all_iff set_update_where)
  ultimately show ?thesis using ok by (simp add: staff_table_ok_def)
qed

lemma wp_staff_GetByID [wp_simps]:
  "wp (staff_GetByID i) Q E w \<longleftrightarrow> (faulty w \<longrightarrow> E (Wrap ''get rm user by id'' (Sent ErrDB)) (tick w)) \<and>
     (\<not> faulty w \<longrightarrow> Q (find_staff i (wdb w)) (tick w))"
  by (simp add: staff_GetByID_def wp_simps)

lemma wp_GetByEmail [wp_simps]:
  "wp (GetByEmail e) Q E w \<longleftrightarrow> (faulty w \<longrightarrow> E (Wrap ''get rm user by email'' (Sent ErrDB)) (tick w)) \<and>
     (\<not> faulty w \<longrightarrow> Q (find_email e (wdb w)) (tick w))"
  by (simp add: GetByEmail_def wp_simps)

lemma wp_GetByIdentifier [wp_simps]:
  "wp (GetByIdentifier e) Q E w \<longleftrightarrow>
     (faulty w \<longrightarrow> E (Wrap ''get rm user by identifier'' (Sent ErrDB)) (tick w)) \<and>
     (\<not> faulty w \<longrightarrow> Q (find_identifier e (wdb w)) (tick w))"
  by (simp add: GetByIdentifier_def wp_simps)

text \<open>Whatever happens, the staff table satisfies its constraints and no other table moves.\<close>

definition only_staff :: "rm_db \<Rightarrow> rm_db \<Rightarrow> bool" where
  "only_staff d d' \<longleftrightarrow> staff_table_ok (rm_users d') \<and>
     (\<exists>new. map st_id (rm_users d') = map st_id (rm_users d) @ new) \<and> d' = d\<lparr>rm_users := rm_users d'\<rparr>"

lemma wp_staff_Create:
  assumes "\<And>i s w'. \<lbrakk>s = new_staff code email name phone role maxP i (wnow w);
        wdb w' = (wdb w)\<lparr>rm_users := rm_users (wdb w) @ [s]\<rparr>; staff_row_ok s;
        staff_unique s (rm_users (wdb w))\<rbrakk> \<Longrightarrow> Q s w'"
    "\<And>e w'. wdb w' = wdb w \<Longrightarrow> E (Wrap ''create rm user'' e) w'"
  shows "wp (staff_Create code email name phone role maxP) Q E w"
  unfolding staff_Create_def
  by (auto simp: wp_simps Let_def assms(2) split: list.splits) (rule assms(1); simp)

lemma wp_staff_Update:
  assumes "staff_table_ok (rm_users (wdb w))"
  shows "wp (staff_Update i req) (\<lambda>r w'. only_staff (wdb w) (wdb w') \<and> (r = None \<longrightarrow> wdb w' = wdb w) \<and>
           (\<forall>s. r = Some s \<longrightarrow> st_id s = i))
         (\<lambda>_ w'. wdb w' = wdb w) w"
  using assms staff_table_ok_update
  by (auto simp: staff_Update_def wp_simps only_staff_def Let_def map_update_where
      split: option.splits dest: find_staff_SomeD)

end
