(* ===== verification/ApiResponse.thy ===== *)
theory ApiResponse
  imports GoStrings
begin

text \<open>
  \<open>internal/apiresponse\<close>: the JSON envelope and the mapping of Go errors to HTTP statuses.
  The text of an error that comes from the database driver or from another library is the
  parameter \<open>drv\<close>; the texts of the program's own sentinels are those of the source.
\<close>

record envelope =
  env_error :: bool
  env_message :: string

text \<open>A response: the status and the envelope (its data apart).\<close>

type_synonym response = "int \<times> envelope"

definition api_ok :: response where
  "api_ok = (200, \<lparr>env_error = False, env_message = ''''\<rparr>)"

definition api_created :: response where
  "api_created = (201, \<lparr>env_error = False, env_message = ''''\<rparr>)"

fun sentinel_text :: "(sentinel \<Rightarrow> string) \<Rightarrow> sentinel \<Rightarrow> string" where
  "sentinel_text drv ErrValidation = ''validation failed''"
| "sentinel_text drv ErrNotFound = ''resource not found''"
| "sentinel_text drv ErrUnauthorized = ''unauthorized''"
| "sentinel_text drv ErrForbidden = ''forbidden''"
| "sentinel_text drv ErrConflict = ''conflict''"
| "sentinel_text drv ErrNotImplemented = ''not implemented''"
| "sentinel_text drv ErrInternal = ''internal error''"
| "sentinel_text drv s = drv s"

text \<open>\<open>err.Error()\<close>\<close>

fun err_text :: "(sentinel \<Rightarrow> string) \<Rightarrow> goerr \<Rightarrow> string" where
  "err_text drv (Sent s) = sentinel_text drv s"
| "err_text drv (Wrap m e) = m @ '': '' @ err_text drv e"
| "err_text drv (Plain m) = m"

definition mapped :: "(sentinel \<times> int) list" where
  "mapped = [(ErrValidation, 400), (ErrUnauthorized, 401), (ErrForbidden, 403),
     (ErrNotFound, 404), (ErrConflict, 409), (ErrNotImplemented, 501)]"

definition Validation :: "string \<Rightarrow> goerr" where
  "Validation msg = Wrap msg (Sent ErrValidation)"

definition NotFound :: "string \<Rightarrow> goerr" where
  "NotFound msg = Wrap msg (Sent ErrNotFound)"

definition NotImplemented :: "string \<Rightarrow> goerr" where
  "NotImplemented msg = Wrap msg (Sent ErrNotImplemented)"

definition internal_response :: response where
  "internal_response = (500, \<lparr>env_error = True, env_message = ''internal server error''\<rparr>)"

text \<open>\<open>Error(w, err)\<close>; \<open>None\<close> is a nil error.\<close>

fun error_scan :: "(sentinel \<Rightarrow> string) \<Rightarrow> (sentinel \<times> int) list \<Rightarrow> goerr \<Rightarrow> response" where
  "error_scan drv [] e = internal_response"
| "error_scan drv ((s, st) # ms) e =
     (if errors_is e s then (st, \<lparr>env_error = True, env_message = err_text drv e\<rparr>)
      else error_scan drv ms e)"

definition api_error :: "(sentinel \<Rightarrow> string) \<Rightarrow> goerr option \<Rightarrow> response" where
  "api_error drv err = (case err of None \<Rightarrow> internal_response | Some e \<Rightarrow> error_scan drv mapped e)"

section \<open>What the mapping gives\<close>

text \<open>An error chain has one root, so it matches at most one sentinel.\<close>

fun root :: "goerr \<Rightarrow> sentinel option" where
  "root (Sent s) = Some s"
| "root (Wrap m e) = root e"
| "root (Plain m) = None"

lemma errors_is_root: "errors_is e s \<longleftrightarrow> root e = Some s"
  by (induction e) auto

definition client_errors :: "sentinel set" where
  "client_errors = {ErrValidation, ErrUnauthorized, ErrForbidden, ErrNotFound, ErrConflict,
     ErrNotImplemented}"

lemma error_scan_map_of:
  "error_scan drv ms e = (case Option.bind (root e) (map_of ms) of
     None \<Rightarrow> internal_response
   | Some st \<Rightarrow> (st, \<lparr>env_error = True, env_message = err_text drv e\<rparr>))"
  by (induction drv ms e rule: error_scan.induct) (auto simp: errors_is_root split: option.splits Option.bind_splits)

lemma map_of_mapped: "map_of mapped s = None \<longleftrightarrow> s \<notin> client_errors"
  by (simp add: mapped_def client_errors_def)

lemma errors_is_Validation [simp]: "errors_is (Validation m) s \<longleftrightarrow> s = ErrValidation"
  by (auto simp: Validation_def)

lemma errors_is_NotFound [simp]: "errors_is (NotFound m) s \<longleftrightarrow> s = ErrNotFound"
  by (auto simp: NotFound_def)

text \<open>
  Internal errors never leak: an error that does not wrap one of the six client-safe
  sentinels gives the same generic 500 response as every other such error, whatever messages
  were wrapped around it and whatever the driver says; an error that wraps one is answered
  with exactly that sentinel's status and the full text of the chain.
\<close>

theorem api_error_no_leak:
  "api_error drv (Some e) =
     (case root e of
        Some ErrValidation \<Rightarrow> (400, \<lparr>env_error = True, env_message = err_text drv e\<rparr>)
      | Some ErrUnauthorized \<Rightarrow> (401, \<lparr>env_error = True, env_message = err_text drv e\<rparr>)
      | Some ErrForbidden \<Rightarrow> (403, \<lparr>env_error = True, env_message = err_text drv e\<rparr>)
      | Some ErrNotFound \<Rightarrow> (404, \<lparr>env_error = True, env_message = err_text drv e\<rparr>)
      | Some ErrConflict \<Rightarrow> (409, \<lparr>env_error = True, env_message = err_text drv e\<rparr>)
      | Some ErrNotImplemented \<Rightarrow> (501, \<lparr>env_error = True, env_message = err_text drv e\<rparr>)
      | _ \<Rightarrow> (500, \<lparr>env_error = True, env_message = ''internal server error''\<rparr>))"
  by (auto simp: api_error_def error_scan_map_of mapped_def internal_response_def
      split: option.splits sentinel.splits)

end
