(* ===== verification/RmBook.thy ===== *)
theory RmBook
  imports RmSchema ApiResponse
begin

text \<open>
  The relationship managers' book: the round-robin choice of the next manager
  (\<open>internal/domain/rm/ring.go\<close>), the assignment repository
  (\<open>internal/repository/rm_repo.go\<close>) and the admin service over it
  (\<open>internal/service/rm_admin.go\<close>).
\<close>

section \<open>The ring\<close>

record Slot =
  RMID :: uuid
  MaxPortfolios :: int
  ClientCount :: int

definition hasCapacity :: "Slot \<Rightarrow> bool" where
  "hasCapacity s \<longleftrightarrow> ClientCount s < MaxPortfolios s"

text \<open>The three loops of \<open>PickNextRM\<close>: the start index, the lap, the least loaded.\<close>

fun start_index :: "nat \<Rightarrow> Slot list \<Rightarrow> uuid \<Rightarrow> nat \<Rightarrow> nat" where
  "start_index i [] after n = 0"
| "start_index i (s # ss) after n =
     (if RMID s = after then (i + 1) mod n else start_index (i + 1) ss after n)"

fun lap_scan :: "Slot list \<Rightarrow> nat \<Rightarrow> nat list \<Rightarrow> Slot option" where
  "lap_scan ring start [] = None"
| "lap_scan ring start (off # offs) =
     (let s = ring ! ((start + off) mod length ring)
      in if hasCapacity s then Some s else lap_scan ring start offs)"

fun least_loaded :: "Slot \<Rightarrow> Slot list \<Rightarrow> Slot" where
  "least_loaded least [] = least"
| "least_loaded least (s # ss) =
     least_loaded (if ClientCount s < ClientCount least then s else least) ss"

definition PickNextRM :: "Slot list \<Rightarrow> uuid \<Rightarrow> uuid \<times> bool \<times> bool" where
  "PickNextRM ring after = (
     if ring = [] then (uuid_nil, False, False)
     else let start = start_index 0 ring after (length ring)
          in case lap_scan ring start [0..<length ring] of
               Some s \<Rightarrow> (RMID s, False, True)
             | None \<Rightarrow> (RMID (least_loaded (hd ring) (tl ring)), True, True))"

section \<open>Repository: statements inside a transaction\<close>

definition client_count :: "rm_db \<Rightarrow> uuid \<Rightarrow> nat" where
  "client_count d r = count_where (\<lambda>u. us_rm u = Some r) (users d)"

definition slot_of :: "rm_db \<Rightarrow> StaffUser \<Rightarrow> Slot" where
  "slot_of d s = \<lparr>RMID = st_id s, MaxPortfolios = st_max s, ClientCount = int (client_count d (st_id s))\<rparr>"

definition on_desk :: "StaffUser \<Rightarrow> bool" where
  "on_desk s \<longleftrightarrow> st_status s = StatusActive \<and> st_role s = RoleRM"

definition active_ring :: "rm_db \<Rightarrow> Slot list" where
  "active_ring d = map (slot_of d) (sort_key st_created (filter on_desk (rm_users d)))"

definition activeRingTx :: "(rm_db, Slot list) act" where
  "activeRingTx = wrapping ''load active rm ring'' (query (\<lambda>_ d. active_ring d))"

definition currentRMTx :: "uuid \<Rightarrow> (rm_db, uuid option) act" where
  "currentRMTx userID = wrapping ''read current rm''
     (query_row (\<lambda>_ d. map_option us_rm (find_user userID d)))"

definition set_owner :: "uuid \<Rightarrow> uuid option \<Rightarrow> rm_db \<Rightarrow> rm_db" where
  "set_owner userID to d = d\<lparr>users := update_where (\<lambda>u. us_id u = userID) (\<lambda>u. u\<lparr>us_rm := to\<rparr>) (users d)\<rparr>"

definition history_ok :: "hist_row \<Rightarrow> rm_db \<Rightarrow> bool" where
  "history_ok h d \<longleftrightarrow> fk_user (h_user h) d \<and> fk_staff (h_from h) d \<and> fk_staff (h_to h) d \<and>
     fk_staff (h_actor h) d \<and>
     h_action h \<in> {ActionAutoAssign, ActionAssign, ActionTransfer, ActionRemove} \<and>
     (case h_reason h of None \<Rightarrow> True | Some r \<Rightarrow> length r \<le> 300)"

definition reason_col :: "string \<Rightarrow> string option" where
  "reason_col reason = (if trim_space reason \<noteq> [] then Some reason else None)"

definition applyAssignmentTx ::
  "uuid \<Rightarrow> uuid option \<Rightarrow> uuid option \<Rightarrow> string \<Rightarrow> string \<Rightarrow> uuid option \<Rightarrow> (rm_db, unit) act" where
  "applyAssignmentTx userID from to action reason actor =
     bind (wrapping ''update user assigned_rm_id''
            (exec_check (\<lambda>_ d. fk_user userID d \<longrightarrow> fk_staff to d) (\<lambda>_. set_owner userID to)))
       (\<lambda>_. wrapping ''insert assignment history''
          (exec_id (\<lambda>id t d. let h = \<lparr>h_id = id, h_user = userID, h_from = from, h_to = to,
                h_action = action, h_reason = reason_col reason, h_actor = actor, h_created = t\<rparr>
              in if history_ok h d then Inr ((), d\<lparr>history := history d @ [h]\<rparr>)
                 else Inl (Sent ErrConstraint))))"

section \<open>Repository: the four assignment operations\<close>

definition AssignNextRM :: "uuid \<Rightarrow> (rm_db, uuid) act" where
  "AssignNextRM userID = tx (Wrap ''begin assign txn'') (\<lambda>_. Wrap ''commit assign txn'')
     (bind (wrapping ''lock queue state'' (query (\<lambda>_ d. q_last (queue_state d)))) (\<lambda>lastAssigned.
      bind activeRingTx (\<lambda>ring.
      let after = (case lastAssigned of None \<Rightarrow> uuid_nil | Some r \<Rightarrow> r) in
      case PickNextRM ring after of (chosen, _, ok) \<Rightarrow>
      if \<not> ok then fail (Sent ErrNoActiveRM)
      else
      bind (currentRMTx userID) (\<lambda>from.
      bind (applyAssignmentTx userID from (Some chosen) ActionAutoAssign '''' None) (\<lambda>_.
      bind (wrapping ''advance queue state''
             (exec_check (\<lambda>_ d. fk_staff (Some chosen) d)
               (\<lambda>t d. d\<lparr>queue_state := \<lparr>q_last = Some chosen, q_seq = q_seq (queue_state d) + 1,
                                          q_updated = t\<rparr>\<rparr>))) (\<lambda>_.
      ret chosen))))))"

definition actor_of :: "uuid \<Rightarrow> uuid option" where
  "actor_of a = (if a \<noteq> uuid_nil then Some a else None)"

definition ManualAssign :: "uuid \<Rightarrow> uuid \<Rightarrow> uuid \<Rightarrow> string \<Rightarrow> string \<Rightarrow> (rm_db, unit) act" where
  "ManualAssign userID toRMID actorRMID action reason =
     tx (Wrap ''begin manual assign txn'') (\<lambda>_ e. e)
       (bind (currentRMTx userID) (\<lambda>from.
        applyAssignmentTx userID from (Some toRMID) action reason (actor_of actorRMID)))"

definition Unassign :: "uuid \<Rightarrow> uuid \<Rightarrow> string \<Rightarrow> (rm_db, unit) act" where
  "Unassign userID actorRMID reason =
     tx (Wrap ''begin unassign txn'') (\<lambda>_ e. e)
       (bind (currentRMTx userID) (\<lambda>from.
        applyAssignmentTx userID from None ActionRemove reason (actor_of actorRMID)))"

definition clients_of :: "uuid \<Rightarrow> rm_db \<Rightarrow> uuid list" where
  "clients_of rmID d = map us_id (sort_key us_created (filter (\<lambda>u. us_rm u = Some rmID) (users d)))"

fun offboard_loop :: "uuid \<Rightarrow> uuid option \<Rightarrow> string \<Rightarrow> uuid list \<Rightarrow> uuid \<Rightarrow> nat \<Rightarrow>
    (rm_db, uuid \<times> nat) act" where
  "offboard_loop rmID actor reason [] after moved = ret (after, moved)"
| "offboard_loop rmID actor reason (userID # us) after moved =
     bind activeRingTx (\<lambda>ring.
     case PickNextRM (filter (\<lambda>s. RMID s \<noteq> rmID) ring) after of (chosen, _, ok) \<Rightarrow>
     if \<not> ok then fail (Wrap ''offboard: no other active RM to receive clients'' (Sent ErrNoActiveRM))
     else bind (applyAssignmentTx userID (Some rmID) (Some chosen) ActionTransfer reason actor)
            (\<lambda>_. offboard_loop rmID actor reason us chosen (moved + 1)))"

definition OffboardRM :: "uuid \<Rightarrow> uuid \<Rightarrow> string \<Rightarrow> (rm_db, nat) act" where
  "OffboardRM rmID actorRMID reason =
     tx (Wrap ''begin offboard txn'') (\<lambda>moved e. if moved = 0 then e else Wrap ''commit offboard txn'' e)
       (bind (wrapping ''lock queue state'' (query (\<lambda>_ _. ()))) (\<lambda>_.
        bind (wrapping ''list rm clients for offboard'' (query (\<lambda>_. clients_of rmID))) (\<lambda>clients.
        if clients = [] then ret 0
        else
        bind (offboard_loop rmID (actor_of actorRMID) reason clients uuid_nil 0) (\<lambda>(after, moved).
        bind (wrapping ''advance queue state after offboard''
               (exec_check (\<lambda>_ d. fk_staff (Some after) d)
                 (\<lambda>t d. d\<lparr>queue_state := (queue_state d)\<lparr>q_last := Some after, q_updated := t\<rparr>\<rparr>)))
          (\<lambda>_. ret moved)))))"

section \<open>Repository: counts and ownership\<close>

definition CountsByRM :: "(rm_db, (uuid \<times> nat) list) act" where
  "CountsByRM = wrapping ''counts by rm''
     (query (\<lambda>_ d. map (\<lambda>s. (st_id s, client_count d (st_id s))) (rm_users d)))"

definition CountUnassigned :: "(rm_db, nat) act" where
  "CountUnassigned = wrapping ''count unassigned'' (query (\<lambda>_ d. count_where (\<lambda>u. us_rm u = None) (users d)))"

definition CountUsers :: "(rm_db, nat) act" where
  "CountUsers = wrapping ''count users'' (query (\<lambda>_ d. length (users d)))"

text \<open>\<open>OwnerOf\<close>: \<open>None\<close> when the user does not exist (\<open>found\<close> is false).\<close>

definition OwnerOf :: "uuid \<Rightarrow> (rm_db, uuid option option) act" where
  "OwnerOf userID = get_row ''owner of user'' (\<lambda>_ d. map_option us_rm (find_user userID d))"

section \<open>Facts: the ring\<close>

lemma start_index_notin: "after \<notin> RMID ` set ss \<Longrightarrow> start_index i ss after n = 0"
  by (induction i ss after n rule: start_index.induct) auto

lemma start_index_nth:
  "distinct (map RMID ss) \<Longrightarrow> j < length ss \<Longrightarrow>
   start_index i ss (RMID (ss ! j)) n = (i + j + 1) mod n"
proof (induction ss arbitrary: i j)
  case (Cons s ss)
  show ?case
  proof (cases j)
    case 0
    then show ?thesis by simp
  next
    case (Suc j')
    then have "RMID s \<noteq> RMID (ss ! j')" using Cons.prems by auto
    then show ?thesis using Suc Cons.prems by (simp add: Cons.IH)
  qed
qed simp

lemma start_index_less: "0 < n \<Longrightarrow> start_index i ss after n < n"
  by (induction i ss after n rule: start_index.induct) auto

lemma find_append_none: "(\<forall>x \<in> set xs. \<not> P x) \<Longrightarrow> find P (xs @ ys) = find P ys"
  by (induction xs) auto

lemma find_SomeE:
  assumes "find P xs = Some x"
  obtains pre post where "xs = pre @ x # post" "\<forall>p \<in> set pre. \<not> P p" "P x"
  using assms
proof (induction xs arbitrary: thesis)
  case (Cons y ys)
  show ?case
  proof (cases "P y")
    case True
    then show ?thesis using Cons.prems(1)[of "[]" ys] Cons.prems(2) by auto
  next
    case False
    then obtain pre post where "ys = pre @ x # post" "\<forall>p \<in> set pre. \<not> P p" "P x"
      using Cons by auto
    then show ?thesis using Cons.prems(1)[of "y # pre" post] False by auto
  qed
qed simp

lemma find_Some_mem: "find P xs = Some x \<Longrightarrow> x \<in> set xs \<and> P x"
  by (erule find_SomeE) auto

lemma lap_scan_find:
  "lap_scan ring start offs = find hasCapacity (map (\<lambda>j. ring ! ((start + j) mod length ring)) offs)"
  by (induction offs) (auto simp: Let_def)

lemma rotate_as_map:
  "rotate k ring = map (\<lambda>j. ring ! ((k + j) mod length ring)) [0..<length ring]"
  by (rule nth_equalityI) (simp_all add: nth_rotate)

lemma lap_scan_rotate: "lap_scan ring k [0..<length ring] = find hasCapacity (rotate k ring)"
  by (simp add: lap_scan_find rotate_as_map)

lemma least_loaded_split:
  "\<exists>pre s post. least # ss = pre @ s # post \<and> least_loaded least ss = s \<and>
     (\<forall>p \<in> set pre. ClientCount s < ClientCount p) \<and> (\<forall>p \<in> set post. ClientCount s \<le> ClientCount p)"
proof (induction ss arbitrary: least rule: rev_induct)
  case Nil
  show ?case by (rule exI[of _ "[]"]) simp
next
  case (snoc x ss)
  have snoc_eq: "least_loaded least (ss @ [x]) =
      (if ClientCount x < ClientCount (least_loaded least ss) then x else least_loaded least ss)"
    by (induction ss arbitrary: least) auto
  obtain pre s post where h: "least # ss = pre @ s # post" "least_loaded least ss = s"
    "\<forall>p \<in> set pre. ClientCount s < ClientCount p" "\<forall>p \<in> set post. ClientCount s \<le> ClientCount p"
    using snoc.IH by blast
  show ?case
  proof (cases "ClientCount x < ClientCount s")
    case True
    then have "\<forall>p \<in> set (least # ss). ClientCount x < ClientCount p" using h by (auto simp: h(1))
    then show ?thesis using True snoc_eq h(2) by (intro exI[of _ "least # ss"] exI[of _ x] exI[of _ "[]"]) auto
  next
    case False
    then show ?thesis using snoc_eq h
      by (intro exI[of _ pre] exI[of _ s] exI[of _ "post @ [x]"]) auto
  qed
qed

lemma least_loaded_mem: "least_loaded x ss \<in> set (x # ss)"
proof -
  obtain pre s post where "x # ss = pre @ s # post" "least_loaded x ss = s"
    using least_loaded_split by blast
  then show ?thesis by (metis in_set_conv_decomp)
qed

text \<open>The lap starts right after the manager who was served last, or at the head of the desk.\<close>

definition lap_start :: "Slot list \<Rightarrow> uuid \<Rightarrow> nat \<Rightarrow> bool" where
  "lap_start ring after k \<longleftrightarrow> k < length ring \<and>
     (if after \<in> RMID ` set ring then RMID (last (rotate k ring)) = after else k = 0)"

lemma lap_start_index:
  assumes "ring \<noteq> []" "distinct (map RMID ring)"
  shows "lap_start ring after (start_index 0 ring after (length ring))"
proof (cases "after \<in> RMID ` set ring")
  case True
  then obtain j where j: "j < length ring" "after = RMID (ring ! j)"
    by (auto simp: in_set_conv_nth)
  let ?n = "length ring"
  have k: "start_index 0 ring after ?n = (j + 1) mod ?n"
    using start_index_nth[OF assms(2) j(1), of 0 ?n] j(2) by simp
  have "last (rotate ((j + 1) mod ?n) ring) = rotate ((j + 1) mod ?n) ring ! (?n - 1)"
    using assms(1) by (simp add: last_conv_nth)
  also have "\<dots> = ring ! (((j + 1) mod ?n + (?n - 1)) mod ?n)"
    using assms(1) by (simp add: nth_rotate)
  also have "((j + 1) mod ?n + (?n - 1)) mod ?n = j"
  proof -
    have "((j + 1) mod ?n + (?n - 1)) mod ?n = (j + 1 + (?n - 1)) mod ?n" by (simp add: mod_add_left_eq)
    also have "j + 1 + (?n - 1) = j + ?n" using j(1) by simp
    finally show ?thesis using j(1) by simp
  qed
  finally show ?thesis using True k j assms(1) by (simp add: lap_start_def)
next
  case False
  then show ?thesis using assms(1) by (simp add: lap_start_def start_index_notin)
qed

lemma PickNextRM_ok: "PickNextRM ring after = (c, ov, ok) \<Longrightarrow> ok \<longleftrightarrow> ring \<noteq> []"
  by (auto simp: PickNextRM_def Let_def split: if_splits option.splits)

lemma PickNextRM_mem:
  assumes "PickNextRM ring after = (c, ov, ok)" "ok"
  shows "c \<in> RMID ` set ring"
proof -
  have ne: "ring \<noteq> []" using assms PickNextRM_ok by blast
  show ?thesis
  proof (cases "lap_scan ring (start_index 0 ring after (length ring)) [0..<length ring]")
    case None
    then have "c = RMID (least_loaded (hd ring) (tl ring))"
      using assms ne by (simp add: PickNextRM_def)
    moreover have "least_loaded (hd ring) (tl ring) \<in> set (hd ring # tl ring)"
      by (rule least_loaded_mem)
    ultimately show ?thesis using ne by simp
  next
    case (Some s)
    then have "s \<in> set ring" by (auto simp: lap_scan_rotate dest: find_Some_mem)
    then show ?thesis using Some assms ne by (auto simp: PickNextRM_def)
  qed
qed

text \<open>
  C1. The manager who gets the next client: on a non-empty desk without duplicates there is
  always one. If anybody has spare capacity it is the first such manager in the lap that
  starts just after the manager served last (or at the head of the desk), and the
  overflow flag is off; otherwise it is the least loaded manager, ties broken by desk order,
  and the flag is on. An empty desk gives no manager.
\<close>

theorem PickNextRM_correct:
  assumes "distinct (map RMID ring)"
  shows "case PickNextRM ring after of (chosen, overflow, ok) \<Rightarrow>
     (ok \<longleftrightarrow> ring \<noteq> []) \<and>
     (ok \<longrightarrow> (\<exists>k. lap_start ring after k \<and>
        (if \<exists>s \<in> set ring. hasCapacity s
         then \<not> overflow \<and> (\<exists>pre s post. rotate k ring = pre @ s # post \<and> chosen = RMID s \<and>
                hasCapacity s \<and> (\<forall>p \<in> set pre. \<not> hasCapacity p))
         else overflow \<and> (\<exists>pre s post. ring = pre @ s # post \<and> chosen = RMID s \<and>
                (\<forall>p \<in> set pre. ClientCount s < ClientCount p) \<and>
                (\<forall>p \<in> set post. ClientCount s \<le> ClientCount p)))))"
proof (cases "ring = []")
  case True
  then show ?thesis by (simp add: PickNextRM_def)
next
  case False
  let ?k = "start_index 0 ring after (length ring)"
  have k: "lap_start ring after ?k" using False assms by (rule lap_start_index)
  show ?thesis
  proof (cases "find hasCapacity (rotate ?k ring)")
    case None
    then have "\<not> (\<exists>s \<in> set ring. hasCapacity s)" by (simp add: find_None_iff)
    moreover obtain pre s post where "hd ring # tl ring = pre @ s # post"
      "least_loaded (hd ring) (tl ring) = s" "\<forall>p \<in> set pre. ClientCount s < ClientCount p"
      "\<forall>p \<in> set post. ClientCount s \<le> ClientCount p"
      using least_loaded_split by blast
    ultimately show ?thesis
      using False None k by (fastforce simp: PickNextRM_def Let_def lap_scan_rotate)
  next
    case (Some s)
    then have "\<exists>s \<in> set ring. hasCapacity s" using find_Some_mem[OF Some] by auto
    moreover obtain pre post where "rotate ?k ring = pre @ s # post"
      "\<forall>p \<in> set pre. \<not> hasCapacity p" "hasCapacity s"
      using find_SomeE[OF Some] by blast
    ultimately show ?thesis
      using False Some k by (auto simp: PickNextRM_def Let_def lap_scan_rotate)
  qed
qed

definition desk3 :: "Slot list" where
  "desk3 = [\<lparr>RMID = ''a'', MaxPortfolios = 2, ClientCount = 2\<rparr>,
            \<lparr>RMID = ''b'', MaxPortfolios = 2, ClientCount = 0\<rparr>,
            \<lparr>RMID = ''c'', MaxPortfolios = 2, ClientCount = 1\<rparr>]"

lemma PickNextRM_correct_witness:
  "PickNextRM desk3 ''b'' = (''c'', False, True) \<and> (\<exists>k. lap_start desk3 ''b'' k)"
proof -
  have "distinct (map RMID desk3)" by (simp add: desk3_def)
  from PickNextRM_correct[OF this, of "''b''"]
  have "case PickNextRM desk3 ''b'' of (c, ov, ok) \<Rightarrow> ok \<longrightarrow> (\<exists>k. lap_start desk3 ''b'' k)"
    by (auto split: prod.splits)
  moreover have "PickNextRM desk3 ''b'' = (''c'', False, True)" by code_simp
  ultimately show ?thesis by simp
qed

section \<open>Facts: one assignment\<close>

lemma active_ring_ids:
  "c \<in> RMID ` set (active_ring d) \<longleftrightarrow> (\<exists>s \<in> set (rm_users d). st_id s = c \<and> on_desk s)"
  by (auto simp: active_ring_def slot_of_def image_iff)

lemma active_ring_Nil: "active_ring d = [] \<longleftrightarrow> \<not> (\<exists>s \<in> set (rm_users d). on_desk s)"
  by (auto simp: active_ring_def filter_empty_conv) (metis filter_empty_conv length_0_conv length_sort)

lemma distinct_active_ring:
  "distinct (map st_id (rm_users d)) \<Longrightarrow> distinct (map RMID (active_ring d))"
  by (auto simp: active_ring_def slot_of_def comp_def distinct_map inj_on_def)

lemma desk_staff: "\<exists>s \<in> set (rm_users d). st_id s = c \<and> on_desk s \<Longrightarrow> c \<in> staff_ids d"
  by (auto simp: staff_ids_def)

text \<open>The effect of one assignment: the owner is set and one history row is appended.\<close>

definition applied :: "rm_db \<Rightarrow> hist_row \<Rightarrow> rm_db" where
  "applied d h = (set_owner (h_user h) (h_to h) d)\<lparr>history := history d @ [h]\<rparr>"

lemma applied_sel [simp]:
  "rm_users (applied d h) = rm_users d" "queue_state (applied d h) = queue_state d"
  "history (applied d h) = history d @ [h]" "otp_codes (applied d h) = otp_codes d"
  "rm_tokens (applied d h) = rm_tokens d" "user_tokens (applied d h) = user_tokens d"
  "interactions (applied d h) = interactions d"
  "users (applied d h) = update_where (\<lambda>u. us_id u = h_user h) (\<lambda>u. u\<lparr>us_rm := h_to h\<rparr>) (users d)"
  "staff_ids (applied d h) = staff_ids d"
  by (simp_all add: applied_def set_owner_def staff_ids_def)

lemma set_owner_sel [simp]:
  "rm_users (set_owner u r d) = rm_users d" "history (set_owner u r d) = history d"
  "staff_ids (set_owner u r d) = staff_ids d" "fk_staff x (set_owner u r d) = fk_staff x d"
  by (simp_all add: set_owner_def staff_ids_def fk_staff_def split: option.splits)

lemma staff_ids_upd [simp]:
  "staff_ids (d\<lparr>history := hs\<rparr>) = staff_ids d" "staff_ids (d\<lparr>queue_state := q\<rparr>) = staff_ids d"
  by (simp_all add: staff_ids_def)

lemma us_id_set_owner [simp]: "map us_id (users (set_owner u r d)) = map us_id (users d)"
  by (simp add: set_owner_def map_update_where)

lemma fk_user_set_owner [simp]: "fk_user x (set_owner u r d) = fk_user x d"
  by (metis fk_user_iff list.set_map us_id_set_owner)

lemma map_us_id_applied [simp]: "map us_id (users (applied d h)) = map us_id (users d)"
  by (simp add: map_update_where)

lemma fk_user_applied [simp]: "fk_user x (applied d h) = fk_user x d"
  unfolding applied_def by (simp add: fk_user_iff set_owner_def image_update_where)

lemma history_ok_set_owner [simp]: "history_ok h (set_owner u r d) = history_ok h d"
  by (simp add: history_ok_def)

lemma wp_apply:
  assumes "\<And>h w'. \<lbrakk>wdb w' = applied (wdb w) h; wnow w' = wnow w; h_user h = userID; h_from h = from;
      h_to h = to; h_action h = action; h_reason h = reason_col reason; h_actor h = actor;
      h_created h = wnow w; history_ok h (wdb w)\<rbrakk> \<Longrightarrow> Q () w'"
    and "\<And>e w'. E e w'"
  shows "wp (applyAssignmentTx userID from to action reason actor) Q E w"
  unfolding applyAssignmentTx_def
  by (auto simp: wp_simps assms(2) Let_def split: list.splits)
     (rule assms(1); simp add: applied_def)+

section \<open>The book's invariant\<close>

text \<open>
  The rows of one user, in order, form a chain: each starts from the owner the one before
  it ended with, the first from "no owner". \<open>chain\<close> gives the owner the chain ends with.
\<close>

fun chain :: "uuid option \<Rightarrow> hist_row list \<Rightarrow> uuid option option" where
  "chain cur [] = Some cur"
| "chain cur (h # hs) = (if h_from h = cur then chain (h_to h) hs else None)"

definition ledger :: "rm_db \<Rightarrow> bool" where
  "ledger d \<longleftrightarrow> list_all (\<lambda>u. chain None (filter (\<lambda>h. h_user h = us_id u) (history d)) = Some (us_rm u))
     (users d)"

definition book_inv :: "rm_db \<Rightarrow> bool" where
  "book_inv d \<longleftrightarrow> distinct (map us_id (users d)) \<and> distinct (map st_id (rm_users d)) \<and>
     list_all (\<lambda>u. fk_staff (us_rm u) d) (users d) \<and> ledger d \<and>
     distinct (map us_phone (users d)) \<and> list_all (\<lambda>h. fk_user (h_user h) d) (history d)"

lemma chain_snoc:
  "chain c (hs @ [h]) = (case chain c hs of Some y \<Rightarrow> if h_from h = y then Some (h_to h) else None
     | None \<Rightarrow> None)"
  by (induction c hs rule: chain.induct) auto

lemma ledgerD: "ledger d \<Longrightarrow> u \<in> set (users d) \<Longrightarrow>
    chain None (filter (\<lambda>h. h_user h = us_id u) (history d)) = Some (us_rm u)"
  by (simp add: ledger_def list_all_iff)

lemma ledger_applied:
  assumes "ledger d" "\<And>u. u \<in> set (users d) \<Longrightarrow> us_id u = h_user h \<Longrightarrow> us_rm u = h_from h"
  shows "ledger (applied d h)"
  unfolding ledger_def list_all_iff
proof
  fix v assume "v \<in> set (users (applied d h))"
  then obtain u where u: "u \<in> set (users d)" "v = (if us_id u = h_user h then u\<lparr>us_rm := h_to h\<rparr> else u)"
    by (auto simp: set_update_where)
  have c: "chain None (filter (\<lambda>h. h_user h = us_id u) (history d)) = Some (us_rm u)"
    using ledgerD[OF assms(1) u(1)] .
  show "chain None (filter (\<lambda>h. h_user h = us_id v) (history (applied d h))) = Some (us_rm v)"
  proof (cases "us_id u = h_user h")
    case True
    then show ?thesis using u c assms(2)[OF u(1) True] by (simp add: chain_snoc)
  next
    case False
    then show ?thesis using u c by auto
  qed
qed

lemma fk_staff_applied [simp]: "fk_staff x (applied d h) = fk_staff x d"
  by (simp add: fk_staff_iff)

lemma book_inv_applied:
  assumes "book_inv d" "history_ok h d"
    and "\<And>u. u \<in> set (users d) \<Longrightarrow> us_id u = h_user h \<Longrightarrow> us_rm u = h_from h"
  shows "book_inv (applied d h)"
  using assms ledger_applied[of d h]
  by (auto simp: book_inv_def list_all_iff set_update_where map_update_where history_ok_def)

lemma book_inv_queue [simp]: "book_inv (d\<lparr>queue_state := q\<rparr>) = book_inv d"
  by (simp add: book_inv_def ledger_def fk_staff_iff fk_user_iff staff_ids_def)

lemma book_inv_owner:
  "book_inv d \<Longrightarrow> find_user u d = Some r \<Longrightarrow> v \<in> set (users d) \<Longrightarrow> us_id v = u \<Longrightarrow> us_rm v = us_rm r"
  by (metis book_inv_def find_user_unique option.inject)

section \<open>What the four operations do\<close>

definition after_of :: "rm_db \<Rightarrow> uuid" where
  "after_of d = (case q_last (queue_state d) of None \<Rightarrow> uuid_nil | Some r \<Rightarrow> r)"

definition advanced :: "rm_db \<Rightarrow> uuid \<Rightarrow> int \<Rightarrow> rm_db" where
  "advanced d c t = d\<lparr>queue_state := \<lparr>q_last = Some c, q_seq = q_seq (queue_state d) + 1, q_updated = t\<rparr>\<rparr>"

text \<open>The history row an operation writes for user \<open>u\<close>.\<close>

definition is_move :: "hist_row \<Rightarrow> uuid \<Rightarrow> uuid option \<Rightarrow> uuid option \<Rightarrow> string \<Rightarrow> string \<Rightarrow>
    uuid option \<Rightarrow> int \<Rightarrow> bool" where
  "is_move h u from to action reason actor t \<longleftrightarrow> h_user h = u \<and> h_from h = from \<and> h_to h = to \<and>
     h_action h = action \<and> h_reason h = reason_col reason \<and> h_actor h = actor \<and> h_created h = t"

lemma wp_AssignNextRM:
  "wp (AssignNextRM u)
     (\<lambda>c w'. \<exists>r h ov. find_user u (wdb w) = Some r \<and>
        PickNextRM (active_ring (wdb w)) (after_of (wdb w)) = (c, ov, True) \<and>
        is_move h u (us_rm r) (Some c) ActionAutoAssign '''' None (wnow w) \<and> history_ok h (wdb w) \<and>
        wdb w' = advanced (applied (wdb w) h) c (wnow w))
     (\<lambda>_ w'. wdb w' = wdb w) w"
  unfolding AssignNextRM_def
  apply (rule tx_returns)
  apply (auto simp: wp_simps activeRingTx_def currentRMTx_def Let_def map_option_case
      split: option.splits prod.splits)
  apply (rule wp_apply; auto simp: wp_simps after_of_def advanced_def is_move_def)+
  done

lemma wp_ManualAssign:
  "wp (ManualAssign u to actor action reason)
     (\<lambda>_ w'. \<exists>r h. find_user u (wdb w) = Some r \<and>
        is_move h u (us_rm r) (Some to) action reason (actor_of actor) (wnow w) \<and>
        history_ok h (wdb w) \<and> wdb w' = applied (wdb w) h)
     (\<lambda>_ w'. wdb w' = wdb w) w"
  unfolding ManualAssign_def
  apply (rule tx_returns)
  apply (auto simp: wp_simps currentRMTx_def map_option_case split: option.splits)
  apply (rule wp_apply; auto simp: wp_simps is_move_def)
  done

lemma wp_Unassign:
  "wp (Unassign u actor reason)
     (\<lambda>_ w'. \<exists>r h. find_user u (wdb w) = Some r \<and>
        is_move h u (us_rm r) None ActionRemove reason (actor_of actor) (wnow w) \<and>
        history_ok h (wdb w) \<and> wdb w' = applied (wdb w) h)
     (\<lambda>_ w'. wdb w' = wdb w) w"
  unfolding Unassign_def
  apply (rule tx_returns)
  apply (auto simp: wp_simps currentRMTx_def map_option_case split: option.splits)
  apply (rule wp_apply; auto simp: wp_simps is_move_def)
  done

text \<open>A manager of the desk other than the one who leaves.\<close>

definition receiver :: "rm_db \<Rightarrow> uuid \<Rightarrow> uuid \<Rightarrow> bool" where
  "receiver d rmID c \<longleftrightarrow> c \<noteq> rmID \<and> list_ex (\<lambda>s. st_id s = c \<and> on_desk s) (rm_users d)"

lemma receiver_applied [simp]: "receiver (applied d h) = receiver d"
  by (simp add: receiver_def fun_eq_iff)

lemma pick_receiver:
  assumes "PickNextRM (filter (\<lambda>s. RMID s \<noteq> rmID) (active_ring d)) after = (c, ov, True)"
  shows "receiver d rmID c"
proof -
  have "c \<in> RMID ` set (filter (\<lambda>s. RMID s \<noteq> rmID) (active_ring d))"
    by (rule PickNextRM_mem[OF assms]) simp
  then have "c \<noteq> rmID" "c \<in> RMID ` set (active_ring d)" by auto
  then show ?thesis by (auto simp: receiver_def active_ring_ids list_ex_iff)
qed

definition handover :: "rm_db \<Rightarrow> uuid \<Rightarrow> uuid option \<Rightarrow> string \<Rightarrow> int \<Rightarrow> hist_row \<Rightarrow> bool" where
  "handover d rmID actor reason t h \<longleftrightarrow> (\<exists>c. receiver d rmID c \<and>
     is_move h (h_user h) (Some rmID) (Some c) ActionTransfer reason actor t \<and> history_ok h d)"

lemma history_ok_applied [simp]: "history_ok h (applied d g) = history_ok h d"
  by (simp add: history_ok_def)

lemma handover_applied [simp]: "handover (applied d g) = handover d"
  by (simp add: handover_def fun_eq_iff)

text \<open>What the loop over the leaver's clients \<open>us\<close> has done when it ends.\<close>

definition handed_over :: "rm_db \<Rightarrow> uuid \<Rightarrow> uuid option \<Rightarrow> string \<Rightarrow> int \<Rightarrow> uuid list \<Rightarrow> uuid \<Rightarrow>
    rm_db \<Rightarrow> bool" where
  "handed_over d rmID actor reason t us a d' \<longleftrightarrow> (us \<noteq> [] \<longrightarrow> receiver d rmID a) \<and>
     (\<exists>hs. map h_user hs = us \<and> (\<forall>h \<in> set hs. handover d rmID actor reason t h) \<and> d' = foldl applied d hs)"

lemma handed_over_Nil: "handed_over d rmID actor reason t [] a d"
  by (simp add: handed_over_def)

lemma handed_over_Cons:
  assumes "handed_over (applied d h) rmID actor reason t us a d'" "h_user h = u"
    "handover d rmID actor reason t h" "us = [] \<Longrightarrow> receiver d rmID a"
  shows "handed_over d rmID actor reason t (u # us) a d'"
proof -
  obtain hs where "map h_user hs = us" "\<forall>h \<in> set hs. handover d rmID actor reason t h"
    "d' = foldl applied (applied d h) hs"
    using assms(1) by (auto simp: handed_over_def)
  then have "map h_user (h # hs) = u # us" "\<forall>g \<in> set (h # hs). handover d rmID actor reason t g"
    "d' = foldl applied d (h # hs)"
    using assms(2,3) by auto
  moreover have "receiver d rmID a" using assms(1,4) by (auto simp: handed_over_def)
  ultimately show ?thesis unfolding handed_over_def by (intro conjI impI exI[of _ "h # hs"]) simp_all
qed

lemma wp_offboard_loop:
  "wp (offboard_loop rmID actor reason us after moved)
     (\<lambda>(a, m) w'. m = moved + length us \<and> (us = [] \<longrightarrow> a = after) \<and> wnow w' = wnow w \<and>
        handed_over (wdb w) rmID actor reason (wnow w) us a (wdb w'))
     (\<lambda>_ _. True) w"
proof (induction us arbitrary: after moved w)
  case Nil
  show ?case by (simp add: wp_simps handed_over_Nil)
next
  case (Cons u us)
  have step: "wp (applyAssignmentTx u (Some rmID) (Some c) ActionTransfer reason actor)
     (\<lambda>_. wp (offboard_loop rmID actor reason us c (moved + 1))
       (\<lambda>(a, m) w'. m = moved + length (u # us) \<and> wnow w' = wnow w \<and>
           handed_over (wdb w) rmID actor reason (wnow w) (u # us) a (wdb w')) (\<lambda>_ _. True))
     (\<lambda>_ _. True) v"
    if c: "receiver (wdb w) rmID c" and v: "wdb v = wdb w" "wnow v = wnow w" for c v
  proof (rule wp_apply)
    fix h and w' :: "rm_db world" assume h: "wdb w' = applied (wdb v) h" "wnow w' = wnow v" "h_user h = u"
      "h_from h = Some rmID" "h_to h = Some c" "h_action h = ActionTransfer"
      "h_reason h = reason_col reason" "h_actor h = actor" "h_created h = wnow v"
      "history_ok h (wdb v)"
    then have ho: "handover (wdb w) rmID actor reason (wnow w) h"
      using c v by (auto simp: handover_def is_move_def)
    show "wp (offboard_loop rmID actor reason us c (moved + 1))
       (\<lambda>(a, m) w'. m = moved + length (u # us) \<and> wnow w' = wnow w \<and>
           handed_over (wdb w) rmID actor reason (wnow w) (u # us) a (wdb w')) (\<lambda>_ _. True) w'"
      by (rule wp_mono[OF Cons.IH])
         (use h v c ho in \<open>auto intro: handed_over_Cons\<close>)
  qed simp
  have rc: "receiver (wdb w) rmID c"
    if "PickNextRM (filter (\<lambda>s. RMID s \<noteq> rmID) (active_ring (wdb w))) after = (c, ov, True)" for c ov
    using that by (rule pick_receiver)
  show ?case
    by (auto simp: wp_simps activeRingTx_def split: prod.splits intro!: wp_mono[OF step] dest: rc)
qed

section \<open>A whole hand-over\<close>

definition moved_user :: "hist_row list \<Rightarrow> client \<Rightarrow> client" where
  "moved_user hs u = (case find (\<lambda>h. h_user h = us_id u) hs of None \<Rightarrow> u | Some h \<Rightarrow> u\<lparr>us_rm := h_to h\<rparr>)"

lemma users_foldl_applied:
  "distinct (map h_user hs) \<Longrightarrow> users (foldl applied d hs) = map (moved_user hs) (users d)"
proof (induction hs arbitrary: d)
  case Nil
  show ?case by (simp add: moved_user_def[abs_def])
next
  case (Cons h hs)
  have "find (\<lambda>g. h_user g = h_user h) hs = None"
    using Cons.prems by (simp add: find_None_iff) (metis image_eqI)
  then have "moved_user hs (if us_id u = h_user h then u\<lparr>us_rm := h_to h\<rparr> else u) = moved_user (h # hs) u"
    for u by (auto simp: moved_user_def)
  then show ?case using Cons by (simp add: update_where_def)
qed

lemma foldl_applied_sel [simp]:
  "rm_users (foldl applied d hs) = rm_users d" "queue_state (foldl applied d hs) = queue_state d"
  "history (foldl applied d hs) = history d @ hs" "staff_ids (foldl applied d hs) = staff_ids d"
  "receiver (foldl applied d hs) = receiver d" "fk_staff x (foldl applied d hs) = fk_staff x d"
  by (induction hs arbitrary: d) simp_all

lemma wp_OffboardRM:
  "wp (OffboardRM rmID actorID reason)
     (\<lambda>n w'. \<exists>a d'. n = length (clients_of rmID (wdb w)) \<and>
        handed_over (wdb w) rmID (actor_of actorID) reason (wnow w) (clients_of rmID (wdb w)) a d' \<and>
        wdb w' = (if n = 0 then d' else
          d'\<lparr>queue_state := (queue_state d')\<lparr>q_last := Some a, q_updated := wnow w\<rparr>\<rparr>))
     (\<lambda>_ w'. wdb w' = wdb w) w"
  unfolding OffboardRM_def
  apply (rule tx_returns)
  apply (auto simp: wp_simps handed_over_Nil)
  apply (rule wp_mono[OF wp_offboard_loop])
   apply (clarsimp simp: wp_simps)
   apply (rule exI conjI | assumption | rule refl)+
  done

lemma clients_of_set: "set (clients_of rmID d) = {us_id u | u. u \<in> set (users d) \<and> us_rm u = Some rmID}"
  by (auto simp: clients_of_def)

lemma length_clients_of: "length (clients_of rmID d) = client_count d rmID"
  by (simp add: clients_of_def client_count_def count_where_def)

lemma clients_of_iff:
  assumes "distinct (map us_id (users d))" "u \<in> set (users d)"
  shows "us_id u \<in> set (clients_of rmID d) \<longleftrightarrow> us_rm u = Some rmID"
  using map_key_unique[OF assms(1)] assms(2) by (auto simp: clients_of_set)

lemma find_key_None: "find (\<lambda>h. k h = v) hs = None \<longleftrightarrow> v \<notin> k ` set hs"
  by (auto simp: find_None_iff)

lemma distinct_clients_of:
  "distinct (map us_id (users d)) \<Longrightarrow> distinct (clients_of rmID d)"
  by (auto simp: clients_of_def distinct_map inj_on_def)


text \<open>A desk of two managers and an admin, and three clients, two of them with \<open>r1\<close>.\<close>

definition demo_staff :: "uuid \<Rightarrow> string \<Rightarrow> string \<Rightarrow> int \<Rightarrow> StaffUser" where
  "demo_staff i role st t = \<lparr>st_id = i, st_code = ''E'' @ i, st_email = i @ ''@b'', st_name = i,
     st_phone = Some ''9876543210'', st_role = role, st_status = st, st_max = 5, st_created = t,
     st_updated = t\<rparr>"

definition demo_client :: "uuid \<Rightarrow> uuid option \<Rightarrow> int \<Rightarrow> client" where
  "demo_client i r t = \<lparr>us_id = i, us_astra = i, us_phone = i, us_name = None, us_wants = True,
     us_rm = r, us_created = t\<rparr>"

definition demo_row :: "uuid \<Rightarrow> uuid \<Rightarrow> uuid option \<Rightarrow> uuid option \<Rightarrow> hist_row" where
  "demo_row i u f t = \<lparr>h_id = i, h_user = u, h_from = f, h_to = t, h_action = ActionAssign,
     h_reason = None, h_actor = None, h_created = 5\<rparr>"

definition demo_db :: rm_db where
  "demo_db = \<lparr>
     rm_users = [demo_staff ''r1'' RoleRM StatusActive 1, demo_staff ''ad'' RoleAdmin StatusActive 2,
                 demo_staff ''r2'' RoleRM StatusActive 3],
     users = [demo_client ''u1'' (Some ''r1'') 1, demo_client ''u2'' None 2, demo_client ''u3'' (Some ''r1'') 3],
     history = [demo_row ''h1'' ''u1'' None (Some ''r1''), demo_row ''h2'' ''u3'' None (Some ''r1'')],
     queue_state = \<lparr>q_last = Some ''r1'', q_seq = 2, q_updated = 5\<rparr>,
     otp_codes = [], rm_tokens = [], user_tokens = [], interactions = [], snapshots = []\<rparr>"

definition demo_world :: "rm_db world" where
  "demo_world = \<lparr>wdb = demo_db, wfaults = [], wnow = 10, wrand = [7],
     wuuids = [''i1'', ''i2'', ''i3'']\<rparr>"


text \<open>
  Automatic assignment: a success gives the manager that \<open>PickNextRM\<close> chooses from the
  active desk and the stored pointer; that manager is active, the user is theirs, no other
  user changes hands, one "auto_assign" row from the previous owner is logged, and the
  pointer and the rotation counter advance. A failure changes nothing.
\<close>

theorem AssignNextRM_correct:
  "case AssignNextRM u w of
     (Inl e, w') \<Rightarrow> wdb w' = wdb w
   | (Inr c, w') \<Rightarrow>
       (\<exists>ov. PickNextRM (active_ring (wdb w)) (after_of (wdb w)) = (c, ov, True)) \<and>
       (\<exists>s \<in> set (rm_users (wdb w)). st_id s = c \<and> on_desk s) \<and>
       (\<exists>r h. find_user u (wdb w) = Some r \<and> history (wdb w') = history (wdb w) @ [h] \<and>
          is_move h u (us_rm r) (Some c) ActionAutoAssign '''' None (wnow w)) \<and>
       users (wdb w') = update_where (\<lambda>r. us_id r = u) (\<lambda>r. r\<lparr>us_rm := Some c\<rparr>) (users (wdb w)) \<and>
       queue_state (wdb w') = \<lparr>q_last = Some c, q_seq = q_seq (queue_state (wdb w)) + 1, q_updated = wnow w\<rparr>"
proof (cases "AssignNextRM u w")
  case (Pair r w')
  note spec = wp_AssignNextRM[of u w]
  show ?thesis
  proof (cases r)
    case (Inl e)
    then show ?thesis using wp_fails[OF spec] Pair by simp
  next
    case (Inr c)
    obtain r h ov where s: "find_user u (wdb w) = Some r"
      "PickNextRM (active_ring (wdb w)) (after_of (wdb w)) = (c, ov, True)"
      "is_move h u (us_rm r) (Some c) ActionAutoAssign '''' None (wnow w)"
      "wdb w' = advanced (applied (wdb w) h) c (wnow w)"
      using wp_returns[OF spec] Pair Inr by blast
    have "\<exists>s \<in> set (rm_users (wdb w)). st_id s = c \<and> on_desk s"
      using PickNextRM_mem[OF s(2)] active_ring_ids by simp
    then show ?thesis using s Pair Inr by (auto simp: advanced_def is_move_def)
  qed
qed

text \<open>An assignment succeeds when the user exists, somebody is on the desk and no call fails.\<close>

lemma wp_AssignNextRM_runs:
  assumes "book_inv (wdb w)" "wfaults w = []" "wuuids w = x # xs"
    and "find_user u (wdb w) = Some r" "active_ring (wdb w) \<noteq> []"
  shows "wp (AssignNextRM u) (\<lambda>_ w'. wfaults w' = [] \<and> wuuids w' = xs \<and> wnow w' = wnow w) (\<lambda>_ _. False) w"
proof -
  let ?d = "wdb w"
  obtain c ov ok where p: "PickNextRM (active_ring ?d) (after_of ?d) = (c, ov, ok)" by (cases "PickNextRM (active_ring ?d) (after_of ?d)")
  have ok: "ok" using p PickNextRM_ok assms(5) by metis
  then have "c \<in> staff_ids ?d" using PickNextRM_mem[OF p] active_ring_ids desk_staff by metis
  moreover have "fk_staff (us_rm r) ?d" using assms(1,4) by (auto simp: book_inv_def list_all_iff dest: find_user_SomeD)
  moreover have "fk_user u ?d" using assms(4) by (metis find_user_None fk_user_iff option.distinct(1))
  moreover have "trim_space [] = []" by simp
  ultimately show ?thesis
    using p ok assms(2-4) unfolding AssignNextRM_def activeRingTx_def currentRMTx_def applyAssignmentTx_def
    by (simp add: wp_simps faulty_def Let_def after_of_def history_ok_def fk_staff_iff
        reason_col_def del: trim_space_nil)
qed

section \<open>Fairness of the rotation\<close>

lemma count_where_update_le:
  "distinct (map k xs) \<Longrightarrow> count_where p (update_where (\<lambda>x. k x = v) f xs) \<le> count_where p xs + 1"
proof (induction xs)
  case (Cons x xs)
  show ?case
  proof (cases "k x = v")
    case True
    then have "update_where (\<lambda>x. k x = v) f xs = xs"
      using Cons.prems by (intro update_where_key_none) simp
    then show ?thesis using True by simp
  next
    case False
    then show ?thesis using Cons by simp
  qed
qed simp

lemma active_ring_step:
  "map RMID (active_ring (advanced (applied d h) c t)) = map RMID (active_ring d)"
  by (simp add: active_ring_def advanced_def slot_of_def comp_def)

lemma roomy_step:
  assumes "distinct (map us_id (users d))"
    and "\<forall>s \<in> set (active_ring d). ClientCount s + int (Suc n) \<le> MaxPortfolios s"
  shows "\<forall>s \<in> set (active_ring (advanced (applied d h) c t)). ClientCount s + int n \<le> MaxPortfolios s"
proof
  fix s assume "s \<in> set (active_ring (advanced (applied d h) c t))"
  then obtain r where r: "r \<in> set (rm_users d)" "on_desk r"
    "s = slot_of (advanced (applied d h) c t) r"
    by (auto simp: active_ring_def advanced_def)
  have "client_count (applied d h) (st_id r) \<le> client_count d (st_id r) + 1"
    using count_where_update_le[OF assms(1)] by (simp add: client_count_def)
  moreover have "slot_of d r \<in> set (active_ring d)" using r by (auto simp: active_ring_def)
  ultimately show "ClientCount s + int n \<le> MaxPortfolios s"
    using assms(2) r(3) by (fastforce simp: slot_of_def advanced_def client_count_def)
qed

lemma start_index_map: "start_index i ss after n = start_index i ts after n"
  if "map RMID ss = map RMID ts"
  using that
proof (induction ss arbitrary: i ts)
  case (Cons s ss)
  then show ?case by (cases ts) auto
qed simp

lemma PickNextRM_roomy:
  assumes "ring \<noteq> []" "\<forall>s \<in> set ring. ClientCount s + int (Suc n) \<le> MaxPortfolios s"
  shows "PickNextRM ring after = (RMID (ring ! start_index 0 ring after (length ring)), False, True)"
proof -
  let ?k = "start_index 0 ring after (length ring)"
  have k: "?k < length ring" using assms(1) by (simp add: start_index_less)
  then obtain m where m: "length ring = Suc m" by (cases "length ring") auto
  have "hasCapacity (ring ! ?k)" using assms(2) k by (fastforce simp: hasCapacity_def dest: nth_mem)
  then have "lap_scan ring ?k [0..<length ring] = Some (ring ! ?k)"
    using k by (subst upt_conv_Cons) (simp_all add: Let_def assms(1))
  then show ?thesis using assms(1) by (simp add: PickNextRM_def)
qed

lemma find_user_applied:
  "find_user v (applied d h) = map_option (\<lambda>u. if v = h_user h then u\<lparr>us_rm := h_to h\<rparr> else u) (find_user v d)"
proof -
  have "first_row (filter (\<lambda>r. us_id r = v) (update_where (\<lambda>u. us_id u = a) (\<lambda>u. u\<lparr>us_rm := b\<rparr>) xs)) =
     map_option (\<lambda>u. if v = a then u\<lparr>us_rm := b\<rparr> else u) (first_row (filter (\<lambda>r. us_id r = v) xs))" for a b xs
    by (induction xs) auto
  then show ?thesis by (simp add: find_user_def)
qed

lemma find_user_advanced [simp]: "find_user v (advanced d c t) = find_user v d"
  by (simp add: find_user_def advanced_def)

lemma after_of_advanced [simp]: "after_of (advanced d c t) = c"
  by (simp add: after_of_def advanced_def)

lemma book_inv_advanced [simp]: "book_inv (advanced d c t) = book_inv d"
  by (simp add: advanced_def)

definition assign_all :: "uuid list \<Rightarrow> (rm_db, unit) act" where
  "assign_all us = foreach (\<lambda>u. bind (AssignNextRM u) (\<lambda>_. ret ())) us"

definition owner_of :: "uuid \<Rightarrow> rm_db \<Rightarrow> uuid option" where
  "owner_of u d = Option.bind (find_user u d) us_rm"

lemma wp_assign_all_Cons:
  "wp (assign_all (u # us)) Q E w = wp (AssignNextRM u) (\<lambda>_. wp (assign_all us) Q E) E w"
  by (simp add: assign_all_def wp_simps)

lemma wp_assign_all:
  assumes "book_inv (wdb w)" "wfaults w = []" "length us \<le> length (wuuids w)" "distinct us"
    and "\<forall>u \<in> set us. find_user u (wdb w) \<noteq> None"
    and "ids = map RMID (active_ring (wdb w))" "ids \<noteq> []"
    and "\<forall>s \<in> set (active_ring (wdb w)). ClientCount s + int (length us) \<le> MaxPortfolios s"
    and "k = start_index 0 (active_ring (wdb w)) (after_of (wdb w)) (length ids)"
  shows "wp (assign_all us) (\<lambda>_ w'. (\<forall>i < length us. owner_of (us ! i) (wdb w') =
            Some (ids ! ((k + i) mod length ids))) \<and>
          (\<forall>v. v \<notin> set us \<longrightarrow> owner_of v (wdb w') = owner_of v (wdb w))) (\<lambda>_ _. False) w"
  using assms
proof (induction us arbitrary: w k)
  case Nil
  then show ?case by (simp add: assign_all_def wp_simps)
next
  case (Cons u us)
  let ?d = "wdb w" and ?n = "length ids"
  have n: "0 < ?n" "active_ring ?d \<noteq> []" "?n = length (active_ring ?d)" using Cons.prems(6,7) by auto
  obtain x xs where ids: "wuuids w = x # xs" using Cons.prems(3) by (cases "wuuids w") auto
  obtain r where r: "find_user u ?d = Some r" using Cons.prems(5) by auto
  have k: "k < ?n" using Cons.prems(9) n by (simp add: start_index_less)
  have pick: "PickNextRM (active_ring ?d) (after_of ?d) = (ids ! k, False, True)"
    using PickNextRM_roomy[OF n(2)] Cons.prems(6,8,9) k n(3) by (simp add: start_index_less)
  have dist: "distinct ids" using Cons.prems(1,6) distinct_active_ring by (simp add: book_inv_def)
  show ?case
    unfolding wp_assign_all_Cons
  proof (rule wp_mono[OF wp_conj[OF wp_AssignNextRM wp_AssignNextRM_runs]])
    show "book_inv (wdb w)" "wfaults w = []" "wuuids w = x # xs" "find_user u (wdb w) = Some r"
      "active_ring (wdb w) \<noteq> []" using Cons.prems(1,2) ids r n(2) by auto
  next
    fix c and w' :: "rm_db world"
    assume h: "(\<exists>r h ov. find_user u ?d = Some r \<and>
        PickNextRM (active_ring ?d) (after_of ?d) = (c, ov, True) \<and>
        is_move h u (us_rm r) (Some c) ActionAutoAssign '''' None (wnow w) \<and> history_ok h ?d \<and>
        wdb w' = advanced (applied ?d h) c (wnow w)) \<and>
        wfaults w' = [] \<and> wuuids w' = xs \<and> wnow w' = wnow w"
    then obtain r' h ov where g: "find_user u ?d = Some r'"
      "PickNextRM (active_ring ?d) (after_of ?d) = (c, ov, True)"
      "is_move h u (us_rm r') (Some c) ActionAutoAssign '''' None (wnow w)"
      "history_ok h ?d" "wdb w' = advanced (applied ?d h) c (wnow w)" by blast
    have c: "c = ids ! k" using g(2) pick by simp
    have "r' = r" using g(1) r by simp
    then have hh: "is_move h u (us_rm r) (Some c) ActionAutoAssign '''' None (wnow w)"
      "history_ok h ?d" "wdb w' = advanced (applied ?d h) c (wnow w)" using g by simp_all
    have inv: "book_inv (wdb w')"
      using hh r Cons.prems(1) by (auto simp: is_move_def intro!: book_inv_applied dest: book_inv_owner)
    have ring: "map RMID (active_ring (wdb w')) = ids"
      using active_ring_step hh(3) Cons.prems(6) by simp
    have nxt: "start_index 0 (active_ring (wdb w')) (after_of (wdb w')) ?n = (k + 1) mod ?n"
    proof -
      have "start_index 0 (active_ring (wdb w')) c ?n = start_index 0 (active_ring ?d) c ?n"
        using start_index_map ring Cons.prems(6) by metis
      also have "\<dots> = (k + 1) mod ?n"
        using start_index_nth[of "active_ring ?d" k 0 ?n] dist Cons.prems(6) k n(3) c by simp
      finally show ?thesis using hh(3) by simp
    qed
    have fu: "find_user v (wdb w') = map_option (\<lambda>x. if v = u then x\<lparr>us_rm := Some c\<rparr> else x) (find_user v ?d)" for v
      using hh(1) unfolding hh(3) by (cases "find_user v ?d") (auto simp: find_user_applied is_move_def)
    have own: "owner_of v (wdb w') = (if v = u then Some c else owner_of v ?d)" for v
      using fu[of v] r by (cases "find_user v ?d") (auto simp: owner_of_def)
    have "wp (assign_all us) (\<lambda>_ w''. (\<forall>i < length us. owner_of (us ! i) (wdb w'') =
            Some (ids ! (((k + 1) mod ?n + i) mod ?n))) \<and>
          (\<forall>v. v \<notin> set us \<longrightarrow> owner_of v (wdb w'') = owner_of v (wdb w'))) (\<lambda>_ _. False) w'"
    proof (rule Cons.IH[OF inv])
      show "wfaults w' = []" using h by blast
      show "length us \<le> length (wuuids w')" using h ids Cons.prems(3) by simp
      show "distinct us" using Cons.prems(4) by simp
      show "\<forall>u \<in> set us. find_user u (wdb w') \<noteq> None" using Cons.prems(5) fu by simp
      show "ids = map RMID (active_ring (wdb w'))" "ids \<noteq> []" using ring Cons.prems(7) by simp_all
      show "\<forall>s \<in> set (active_ring (wdb w')). ClientCount s + int (length us) \<le> MaxPortfolios s"
        unfolding hh(3) using Cons.prems(1,8) by (intro roomy_step) (simp_all add: book_inv_def)
      show "(k + 1) mod ?n = start_index 0 (active_ring (wdb w')) (after_of (wdb w')) ?n"
        using nxt by simp
    qed
    then show "wp (assign_all us) (\<lambda>_ w''. (\<forall>i < length (u # us). owner_of ((u # us) ! i) (wdb w'') =
            Some (ids ! ((k + i) mod ?n))) \<and>
          (\<forall>v. v \<notin> set (u # us) \<longrightarrow> owner_of v (wdb w'') = owner_of v ?d)) (\<lambda>_ _. False) w'"
    proof (rule wp_mono)
      fix a w''
      assume q: "(\<forall>i < length us. owner_of (us ! i) (wdb w'') = Some (ids ! (((k + 1) mod ?n + i) mod ?n))) \<and>
          (\<forall>v. v \<notin> set us \<longrightarrow> owner_of v (wdb w'') = owner_of v (wdb w'))"
      have "owner_of ((u # us) ! i) (wdb w'') = Some (ids ! ((k + i) mod ?n))" if "i < length (u # us)" for i
      proof (cases i)
        case 0
        then show ?thesis using q own Cons.prems(4) c k by simp
      next
        case (Suc j)
        then show ?thesis using q that by (simp add: mod_add_left_eq)
      qed
      then show "(\<forall>i < length (u # us). owner_of ((u # us) ! i) (wdb w'') = Some (ids ! ((k + i) mod ?n))) \<and>
          (\<forall>v. v \<notin> set (u # us) \<longrightarrow> owner_of v (wdb w'') = owner_of v ?d)"
        using q own by simp
    qed simp
  qed simp
qed

text \<open>
  C11. Fairness of the rotation: while every manager of the desk has room for the newcomers
  and no call fails, signing up any list of users serves the desk in strict rotation. The
  \<open>i\<close>-th user gets the \<open>i mod n\<close>-th manager of the lap that starts just after the manager
  served last, so over any \<open>n\<close> consecutive sign-ups every one of the \<open>n\<close> managers is served
  exactly once.
\<close>

theorem AssignNextRM_round_robin:
  assumes "book_inv (wdb w)" "wfaults w = []" "length us \<le> length (wuuids w)" "distinct us"
    and "\<forall>u \<in> set us. find_user u (wdb w) \<noteq> None" "active_ring (wdb w) \<noteq> []"
    and "\<forall>s \<in> set (active_ring (wdb w)). ClientCount s + int (length us) \<le> MaxPortfolios s"
  shows "\<exists>w' k. assign_all us w = (Inr (), w') \<and> lap_start (active_ring (wdb w)) (after_of (wdb w)) k \<and>
     (\<forall>i < length us. owner_of (us ! i) (wdb w') =
        Some (RMID (rotate k (active_ring (wdb w)) ! (i mod length (active_ring (wdb w))))))"
proof -
  let ?ring = "active_ring (wdb w)"
  let ?k = "start_index 0 ?ring (after_of (wdb w)) (length ?ring)"
  have "lap_start ?ring (after_of (wdb w)) ?k"
    using assms(1,6) by (intro lap_start_index distinct_active_ring) (auto simp: book_inv_def)
  moreover have "wp (assign_all us) (\<lambda>_ w'. (\<forall>i < length us. owner_of (us ! i) (wdb w') =
            Some (map RMID ?ring ! ((?k + i) mod length (map RMID ?ring)))) \<and>
          (\<forall>v. v \<notin> set us \<longrightarrow> owner_of v (wdb w') = owner_of v (wdb w))) (\<lambda>_ _. False) w"
    by (rule wp_assign_all[OF assms(1-5) refl _ assms(7)]) (simp_all add: assms(6))
  moreover have "map RMID ?ring ! ((?k + i) mod length (map RMID ?ring)) =
      RMID (rotate ?k ?ring ! (i mod length ?ring))" for i
    using assms(6) by (simp add: nth_rotate mod_add_right_eq)
  ultimately show ?thesis by (auto simp: wp_def split: prod.splits sum.splits)
qed

lemma AssignNextRM_round_robin_witness:
  "\<exists>w'. assign_all [''u2'', ''u1''] demo_world = (Inr (), w')"
proof -
  have "book_inv (wdb demo_world)" by code_simp
  moreover have "wfaults demo_world = []" by code_simp
  moreover have "length [''u2'', ''u1''] \<le> length (wuuids demo_world)" by code_simp
  moreover have "\<forall>u \<in> set [''u2'', ''u1'']. find_user u (wdb demo_world) \<noteq> None" by code_simp
  moreover have "active_ring (wdb demo_world) \<noteq> []" by code_simp
  moreover have "\<forall>s \<in> set (active_ring (wdb demo_world)).
      ClientCount s + int (length [''u2'', ''u1'']) \<le> MaxPortfolios s" by code_simp
  ultimately show ?thesis
    using AssignNextRM_round_robin[of demo_world "[''u2'', ''u1'']"] by auto
qed

end
