(* ===== verification/RmAdmin.thy ===== *)
theory RmAdmin
  imports RmStaff RmBook
begin

text \<open>
  The admin console's service, \<open>internal/service/rm_admin.go\<close>: creating and updating staff,
  assigning, transferring, removing and offboarding clients, and the overview. Its operations
  run over the staff repository (\<open>RmStaff\<close>) and the assignment repository (\<open>RmBook\<close>).
\<close>

section \<open>Requests\<close>

record CreateRMRequest =
  cr_name :: string
  cr_code :: string
  cr_email :: string
  cr_phone :: string
  cr_role :: string
  cr_max :: int

record AssignRequest =
  as_user :: uuid
  as_rm :: uuid

record TransferRequest =
  tr_user :: uuid
  tr_to :: uuid
  tr_reason :: string

record RemoveRequest =
  re_user :: uuid
  re_reason :: string

section \<open>Staff\<close>

definition CreateRM :: "CreateRMRequest \<Rightarrow> (rm_db, Public) act" where
  "CreateRM req = (
     let name = trim_space (cr_name req);
         email = to_lower (trim_space (cr_email req));
         empCode = to_upper (trim_space (cr_code req));
         phone = trim_space (cr_phone req);
         role = (if cr_role req = '''' then RoleRM else cr_role req)
     in if name = '''' then fail (Validation ''name is required'')
     else if empCode = '''' then fail (Validation ''employee_code is required'')
     else if \<not> contains email ''@'' then fail (Validation ''a valid email is required'')
     else if phone = '''' then fail (Validation (''phone is required '' @ em_dash @ '' login codes are sent there''))
     else if role \<noteq> RoleRM \<and> role \<noteq> RoleAdmin then fail (Validation (''role must be 'rm' or 'admin'' @ [CHR 0x27]))
     else bind (GetByEmail email) (\<lambda>existing.
       if existing \<noteq> None then fail (Wrap ''an account with that email already exists'' (Sent ErrConflict))
     else bind (GetByIdentifier empCode) (\<lambda>existing.
       if existing \<noteq> None then fail (Wrap ''an account with that employee code already exists'' (Sent ErrConflict))
     else bind (staff_Create empCode email name phone role (cr_max req)) (\<lambda>staff.
       ret (staff_public staff)))))"

definition UpdateRM :: "uuid \<Rightarrow> UpdateRMRequest \<Rightarrow> (rm_db, Public) act" where
  "UpdateRM rmID req = (
     if (case up_status req of None \<Rightarrow> False | Some st \<Rightarrow> st \<noteq> StatusActive \<and> st \<noteq> StatusInactive)
     then fail (Validation (''status must be 'active' or 'inactive'' @ [CHR 0x27]))
     else if (case up_max req of None \<Rightarrow> False | Some m \<Rightarrow> m \<le> 0)
     then fail (Validation ''max_portfolios must be positive'')
     else bind (staff_Update rmID req) (\<lambda>staff. case staff of
         None \<Rightarrow> fail (NotFound (''rm '' @ rmID @ '' not found''))
       | Some s \<Rightarrow> ret (staff_public s)))"

definition requireStaff :: "uuid \<Rightarrow> (rm_db, StaffUser) act" where
  "requireStaff i = bind (staff_GetByID i) (\<lambda>st. case st of
       None \<Rightarrow> fail (NotFound (''rm '' @ i @ '' not found'')) | Some s \<Rightarrow> ret s)"

section \<open>Assignments\<close>

text \<open>The checks \<open>Assign\<close> and \<open>Transfer\<close> share, and the owner they find.\<close>

definition Assign :: "uuid \<Rightarrow> AssignRequest \<Rightarrow> (rm_db, unit) act" where
  "Assign actorRMID req = (
     if as_user req = uuid_nil \<or> as_rm req = uuid_nil then fail (Validation ''user_id and rm_id are required'')
     else bind (requireStaff (as_rm req)) (\<lambda>target.
       if st_role target \<noteq> RoleRM
       then fail (Wrap ''clients can only be assigned to an RM, not an admin'' (Sent ErrValidation))
       else if st_status target \<noteq> StatusActive then fail (Wrap ''target RM is inactive'' (Sent ErrValidation))
       else bind (OwnerOf (as_user req)) (\<lambda>found. case found of
           None \<Rightarrow> fail (NotFound (''client '' @ as_user req @ '' not found''))
         | Some owner \<Rightarrow>
             let action = (if owner \<noteq> None then ActionTransfer else ActionAssign)
             in ManualAssign (as_user req) (as_rm req) actorRMID action '''')))"

definition Transfer :: "uuid \<Rightarrow> TransferRequest \<Rightarrow> (rm_db, unit) act" where
  "Transfer actorRMID req = (
     if tr_user req = uuid_nil \<or> tr_to req = uuid_nil then fail (Validation ''user_id and to_rm_id are required'')
     else bind (requireStaff (tr_to req)) (\<lambda>target.
       if st_role target \<noteq> RoleRM
       then fail (Wrap ''clients can only be assigned to an RM, not an admin'' (Sent ErrValidation))
       else if st_status target \<noteq> StatusActive then fail (Wrap ''target RM is inactive'' (Sent ErrValidation))
       else bind (OwnerOf (tr_user req)) (\<lambda>found. case found of
           None \<Rightarrow> fail (NotFound (''client '' @ tr_user req @ '' not found''))
         | Some owner \<Rightarrow>
             let action = (if owner = None then ActionAssign else ActionTransfer)
             in ManualAssign (tr_user req) (tr_to req) actorRMID action (tr_reason req))))"

definition Remove :: "uuid \<Rightarrow> RemoveRequest \<Rightarrow> (rm_db, unit) act" where
  "Remove actorRMID req = (
     if re_user req = uuid_nil then fail (Validation ''user_id is required'')
     else bind (OwnerOf (re_user req)) (\<lambda>found. case found of
         None \<Rightarrow> fail (NotFound (''client '' @ re_user req @ '' not found''))
       | Some owner \<Rightarrow>
           if owner = None then fail (Wrap ''client is already unassigned'' (Sent ErrConflict))
           else Unassign (re_user req) actorRMID (re_reason req)))"

definition Offboard :: "uuid \<Rightarrow> uuid \<Rightarrow> string \<Rightarrow> (rm_db, nat) act" where
  "Offboard actorRMID rmID reason = bind (requireStaff rmID) (\<lambda>_. OffboardRM rmID actorRMID reason)"

section \<open>Overview\<close>

record AdminOverview =
  ov_clients :: nat
  ov_aum :: money
  ov_unassigned :: nat
  ov_rms :: nat
  ov_active :: nat
  ov_full :: nat

text \<open>The latest snapshot of a user, and the sums over users.\<close>

definition latest_wealth :: "rm_db \<Rightarrow> uuid \<Rightarrow> money option" where
  "latest_wealth d u = map_option sn_total
     (first_row (order_desc sn_date (filter (\<lambda>s. sn_user s = u) (snapshots d))))"

definition wealth_sum :: "rm_db \<Rightarrow> client list \<Rightarrow> money" where
  "wealth_sum d us = sum_list (map (\<lambda>u. case latest_wealth d (us_id u) of None \<Rightarrow> 0 | Some v \<Rightarrow> v) us)"

definition AUMByRM :: "(rm_db, (uuid \<times> money) list) act" where
  "AUMByRM = wrapping ''aum by rm'' (query (\<lambda>_ d.
     map (\<lambda>r. (r, round2 (wealth_sum d (filter (\<lambda>u. us_rm u = Some r) (users d)))))
       (remdups (List.map_filter us_rm (users d)))))"

definition TotalAUM :: "(rm_db, money) act" where
  "TotalAUM = wrapping ''total aum'' (query (\<lambda>_ d. round2 (wealth_sum d (users d))))"

text \<open>A Go map lookup gives the zero value for a missing key.\<close>

definition count_at :: "(uuid \<times> nat) list \<Rightarrow> uuid \<Rightarrow> nat" where
  "count_at m k = (case map_of m k of None \<Rightarrow> 0 | Some n \<Rightarrow> n)"

fun overview_step :: "(uuid \<times> nat) list \<Rightarrow> AdminOverview \<Rightarrow> StaffUser list \<Rightarrow> AdminOverview" where
  "overview_step counts ov [] = ov"
| "overview_step counts ov (st # sts) =
     (if st_role st \<noteq> RoleRM then overview_step counts ov sts
      else overview_step counts (ov\<lparr>ov_rms := ov_rms ov + 1,
             ov_active := (if st_status st = StatusActive then ov_active ov + 1 else ov_active ov),
             ov_full := (if st_max st > 0 \<and> int (count_at counts (st_id st)) \<ge> st_max st
                         then ov_full ov + 1 else ov_full ov)\<rparr>) sts)"

definition Overview :: "(rm_db, AdminOverview) act" where
  "Overview = bind staff_List (\<lambda>staff. bind CountsByRM (\<lambda>counts. bind CountUsers (\<lambda>totalClients.
     bind CountUnassigned (\<lambda>unassigned. bind TotalAUM (\<lambda>totalAUM.
     ret (overview_step counts \<lparr>ov_clients = totalClients, ov_aum = totalAUM, ov_unassigned = unassigned,
            ov_rms = 0, ov_active = 0, ov_full = 0\<rparr> staff))))))"

section \<open>Everything keeps the desk's invariant\<close>

definition desk_inv :: "rm_db \<Rightarrow> bool" where
  "desk_inv d \<longleftrightarrow> staff_table_ok (rm_users d) \<and> book_inv d"

datatype desk_op =
    DoCreate CreateRMRequest
  | DoUpdate uuid UpdateRMRequest
  | DoAssign uuid AssignRequest
  | DoTransfer uuid TransferRequest
  | DoRemove uuid RemoveRequest
  | DoOffboard uuid uuid string
  | DoAutoAssign uuid
  | DoOverview

definition discard :: "('d, 'a) act \<Rightarrow> ('d, unit) act" where
  "discard m = bind m (\<lambda>_. ret ())"

lemma wp_discard [wp_simps]: "wp (discard m) Q E w = wp m (\<lambda>_. Q ()) E w"
  by (simp add: discard_def wp_simps)

fun desk_step :: "desk_op \<Rightarrow> (rm_db, unit) act" where
  "desk_step (DoCreate req) = discard (CreateRM req)"
| "desk_step (DoUpdate i req) = discard (UpdateRM i req)"
| "desk_step (DoAssign actor req) = Assign actor req"
| "desk_step (DoTransfer actor req) = Transfer actor req"
| "desk_step (DoRemove actor req) = Remove actor req"
| "desk_step (DoOffboard actor rm reason) = discard (Offboard actor rm reason)"
| "desk_step (DoAutoAssign u) = discard (AssignNextRM u)"
| "desk_step DoOverview = discard Overview"

abbreviation keeps :: "(rm_db, 'a) act \<Rightarrow> rm_db world \<Rightarrow> bool" where
  "keeps m w \<equiv> wp m (\<lambda>_ w'. desk_inv (wdb w')) (\<lambda>_ w'. desk_inv (wdb w')) w"

lemma desk_inv_move:
  assumes "desk_inv d" "find_user u d = Some r" "is_move h u (us_rm r) to a rs ac t" "history_ok h d"
  shows "desk_inv (applied d h)"
  using assms by (auto simp: desk_inv_def is_move_def intro!: book_inv_applied dest: book_inv_owner)

lemma desk_inv_queue [simp]: "desk_inv (d\<lparr>queue_state := q\<rparr>) = desk_inv d"
  by (simp add: desk_inv_def)

lemma desk_inv_advanced [simp]: "desk_inv (advanced d c t) = desk_inv d"
  by (simp add: advanced_def)

lemma keeps_AssignNextRM: "desk_inv (wdb w) \<Longrightarrow> keeps (AssignNextRM u) w"
  by (rule wp_mono[OF wp_AssignNextRM]) (auto intro: desk_inv_move)

lemma keeps_ManualAssign: "desk_inv (wdb w) \<Longrightarrow> keeps (ManualAssign u to actor action reason) w"
  by (rule wp_mono[OF wp_ManualAssign]) (auto intro: desk_inv_move)

lemma keeps_Unassign: "desk_inv (wdb w) \<Longrightarrow> keeps (Unassign u actor reason) w"
  by (rule wp_mono[OF wp_Unassign]) (auto intro: desk_inv_move)

lemma desk_inv_foldl:
  assumes "desk_inv d" "distinct (map h_user hs)" "\<forall>h \<in> set hs. handover d rmID actor reason t h"
    "\<And>u. u \<in> set (users d) \<Longrightarrow> us_id u \<in> h_user ` set hs \<Longrightarrow> us_rm u = Some rmID"
  shows "desk_inv (foldl applied d hs)"
  using assms
proof (induction hs arbitrary: d)
  case Nil
  then show ?case by simp
next
  case (Cons h hs)
  have "desk_inv (applied d h)"
    using Cons.prems unfolding desk_inv_def
    by (intro conjI book_inv_applied) (auto simp: handover_def is_move_def)
  moreover have "us_rm v = Some rmID" if "v \<in> set (users (applied d h))" "us_id v \<in> h_user ` set hs" for v
    using that Cons.prems(2,4) by (auto simp: set_update_where split: if_splits)
  ultimately show ?case
    using Cons.prems Cons.IH[of "applied d h"] by simp
qed

lemma keeps_OffboardRM:
  assumes "desk_inv (wdb w)"
  shows "keeps (OffboardRM rmID actorID reason) w"
proof (rule wp_mono[OF wp_OffboardRM])
  fix n and w' :: "rm_db world"
  assume "\<exists>a d'. n = length (clients_of rmID (wdb w)) \<and>
        handed_over (wdb w) rmID (actor_of actorID) reason (wnow w) (clients_of rmID (wdb w)) a d' \<and>
        wdb w' = (if n = 0 then d' else
          d'\<lparr>queue_state := (queue_state d')\<lparr>q_last := Some a, q_updated := wnow w\<rparr>\<rparr>)"
  then obtain a d' where ho: "handed_over (wdb w) rmID (actor_of actorID) reason (wnow w) (clients_of rmID (wdb w)) a d'"
    and q: "desk_inv (wdb w') = desk_inv d'" by auto
  from ho obtain hs where hs: "map h_user hs = clients_of rmID (wdb w)"
    "\<forall>h \<in> set hs. handover (wdb w) rmID (actor_of actorID) reason (wnow w) h" "d' = foldl applied (wdb w) hs"
    by (auto simp: handed_over_def)
  have dist: "distinct (map us_id (users (wdb w)))" using assms by (simp add: desk_inv_def book_inv_def)
  have "desk_inv d'"
    unfolding hs(3)
  proof (rule desk_inv_foldl[OF assms _ hs(2)])
    show "distinct (map h_user hs)" using hs(1) distinct_clients_of[OF dist] by simp
    fix u assume "u \<in> set (users (wdb w))" "us_id u \<in> h_user ` set hs"
    then show "us_rm u = Some rmID" using clients_of_iff[OF dist] hs(1) by (metis list.set_map)
  qed
  then show "desk_inv (wdb w')" using q by simp
qed (use assms in simp)

lemma desk_inv_only_staff:
  assumes "desk_inv d" "only_staff d d'"
  shows "desk_inv d'"
proof -
  obtain new where n: "map st_id (rm_users d') = map st_id (rm_users d) @ new" using assms(2) by (auto simp: only_staff_def)
  have d': "users d' = users d" "history d' = history d" using assms(2) unfolding only_staff_def
    by (metis rm_db.select_convs(2) rm_db.surjective rm_db.update_convs(1), metis rm_db.select_convs(3) rm_db.surjective rm_db.update_convs(1))
  have "staff_ids d \<subseteq> staff_ids d'" using n by (auto simp: staff_ids_def simp del: list.set_map)
  then show ?thesis
    using assms d' by (auto simp: desk_inv_def book_inv_def only_staff_def staff_table_ok_def list_all_iff
        fk_staff_iff fk_user_iff ledger_def)
qed

lemma keeps_CreateRM:
  assumes "desk_inv (wdb w)"
  shows "keeps (CreateRM req) w"
proof -
  have c: "keeps (staff_Create code email name phone role m) v" if "wdb v = wdb w" for code email name phone role m v
  proof (rule wp_staff_Create)
    fix i s and w' :: "rm_db world"
    assume "wdb w' = (wdb v)\<lparr>rm_users := rm_users (wdb v) @ [s]\<rparr>" "staff_row_ok s" "staff_unique s (rm_users (wdb v))"
    then show "desk_inv (wdb w')"
      using assms that by (intro desk_inv_only_staff[of "wdb w" "wdb w'"])
        (auto simp: only_staff_def desk_inv_def staff_table_ok_add)
  qed (use assms that in simp)
  show ?thesis
    unfolding CreateRM_def Let_def using assms
    by (auto simp: wp_simps intro!: wp_mono[OF c])
qed

lemma keeps_UpdateRM:
  assumes "desk_inv (wdb w)"
  shows "keeps (UpdateRM i req) w"
proof -
  have t: "staff_table_ok (rm_users (wdb w))" using assms by (simp add: desk_inv_def)
  have "wp (staff_Update i req) (\<lambda>r w'. desk_inv (wdb w')) (\<lambda>_ w'. desk_inv (wdb w')) w"
    using assms by (rule_tac wp_mono[OF wp_staff_Update[OF t]]) (auto intro: desk_inv_only_staff)
  then have "keeps (bind (staff_Update i req) f) w"
    if "\<And>r v. desk_inv (wdb v) \<Longrightarrow> keeps (f r) v" for f :: "StaffUser option \<Rightarrow> (rm_db, Public) act"
    using that by (rule wp_seq)
  then show ?thesis
    unfolding UpdateRM_def using assms by (simp add: wp_fail wp_option wp_ret split: option.split)
qed

lemma keeps_desk_step: "desk_inv (wdb w) \<Longrightarrow> keeps (desk_step oper) w"
  by (cases oper)
    (auto simp: wp_simps Assign_def Transfer_def Remove_def Offboard_def requireStaff_def OwnerOf_def
      Overview_def staff_List_def CountsByRM_def CountUsers_def CountUnassigned_def TotalAUM_def
      keeps_CreateRM keeps_UpdateRM keeps_AssignNextRM keeps_ManualAssign keeps_Unassign keeps_OffboardRM
      split: option.splits)

interpretation desk: invariant_service desk_step desk_inv
  by unfold_locales (rule keeps_desk_step)

text \<open>
  C9. The audit trail tells the truth: after any sequence of console and sign-up operations
  (creating and updating staff, assigning, transferring, removing, offboarding, automatic
  assignment, overview), with any pattern of failing database calls, every user's history
  rows form an unbroken chain from "no owner" to the owner stored on the user, and that owner
  is an existing staff member.
\<close>

theorem desk_history_consistent:
  assumes "desk_inv (wdb w)" "d = wdb (run_ops desk_step w es)" "u \<in> set (users d)"
  shows "chain None (filter (\<lambda>h. h_user h = us_id u) (history d)) = Some (us_rm u) \<and>
     (\<forall>r. us_rm u = Some r \<longrightarrow> (\<exists>s \<in> set (rm_users d). st_id s = r))"
proof -
  have "desk_inv d" using desk.run_keeps[OF assms(1)] assms(2) by simp
  then have "ledger d" "fk_staff (us_rm u) d"
    using assms(3) by (auto simp: desk_inv_def book_inv_def list_all_iff)
  then show ?thesis using ledgerD[of d u] assms(3) by (auto simp: fk_staff_def list_ex_iff)
qed

lemma desk_history_consistent_witness:
  "\<exists>d u. d = wdb (run_ops desk_step demo_world
      [(DoTransfer ''ad'' \<lparr>tr_user = ''u1'', tr_to = ''r2'', tr_reason = ''x''\<rparr>, 1, [], [], [''k1'']),
       (DoRemove ''ad'' \<lparr>re_user = ''u1'', re_reason = ''''\<rparr>, 1, [], [], [''k2''])]) \<and>
     u \<in> set (users d) \<and> length (filter (\<lambda>h. h_user h = us_id u) (history d)) = 3 \<and>
     chain None (filter (\<lambda>h. h_user h = us_id u) (history d)) = Some (us_rm u)"
proof -
  let ?es = "[(DoTransfer ''ad'' \<lparr>tr_user = ''u1'', tr_to = ''r2'', tr_reason = ''x''\<rparr>, 1, [], [], [''k1'']),
       (DoRemove ''ad'' \<lparr>re_user = ''u1'', re_reason = ''''\<rparr>, 1, [], [], [''k2''])]
     :: (desk_op \<times> int \<times> bool list \<times> nat list \<times> uuid list) list"
  let ?d = "wdb (run_ops desk_step demo_world ?es)"
  have inv: "desk_inv (wdb demo_world)" by code_simp
  have mem: "hd (users ?d) \<in> set (users ?d)" by code_simp
  have len: "length (filter (\<lambda>h. h_user h = us_id (hd (users ?d))) (history ?d)) = 3" by code_simp
  show ?thesis
    using desk_history_consistent[OF inv refl mem] mem len by blast
qed

lemma wp_ManualAssign_effect:
  "wp (ManualAssign u to actor action reason)
     (\<lambda>_ w'. \<exists>r h. find_user u (wdb v) = Some r \<and> history (wdb w') = history (wdb v) @ [h] \<and>
        is_move h u (us_rm r) (Some to) action reason (actor_of actor) (wnow v) \<and>
        users (wdb w') = update_where (\<lambda>r. us_id r = u) (\<lambda>r. r\<lparr>us_rm := Some to\<rparr>) (users (wdb v)) \<and>
        rm_users (wdb w') = rm_users (wdb v))
     (\<lambda>_ w'. wdb w' = wdb v) v"
  by (rule wp_mono[OF wp_ManualAssign]) (auto simp: is_move_def)

lemma wp_Assign:
  "wp (Assign actor req)
     (\<lambda>_ w'. (\<exists>s \<in> set (rm_users (wdb w)). st_id s = as_rm req \<and> on_desk s) \<and>
       (\<exists>r h. find_user (as_user req) (wdb w) = Some r \<and> history (wdb w') = history (wdb w) @ [h] \<and>
          is_move h (as_user req) (us_rm r) (Some (as_rm req))
            (if us_rm r = None then ActionAssign else ActionTransfer) '''' (actor_of actor) (wnow w)) \<and>
       users (wdb w') = update_where (\<lambda>r. us_id r = as_user req) (\<lambda>r. r\<lparr>us_rm := Some (as_rm req)\<rparr>) (users (wdb w)) \<and>
       rm_users (wdb w') = rm_users (wdb w))
     (\<lambda>_ w'. wdb w' = wdb w) w"
  unfolding Assign_def requireStaff_def OwnerOf_def
  by (auto simp: wp_simps Let_def on_desk_def split: option.splits dest: find_staff_SomeD
      intro!: wp_mono[OF wp_ManualAssign_effect])

text \<open>
  Transferring a client: it succeeds only when the target is an active relationship
  manager and the client exists; then the client belongs to the target, no other user
  changes hands, and one row is logged from the previous owner, called "assign" if there was
  none and "transfer" otherwise. Any failure leaves every table as it was.
\<close>

theorem Transfer_correct:
  "case Transfer actor req w of
     (Inl e, w') \<Rightarrow> wdb w' = wdb w
   | (Inr _, w') \<Rightarrow>
       (\<exists>s \<in> set (rm_users (wdb w)). st_id s = tr_to req \<and> on_desk s) \<and>
       (\<exists>r h. find_user (tr_user req) (wdb w) = Some r \<and>
          history (wdb w') = history (wdb w) @ [h] \<and>
          is_move h (tr_user req) (us_rm r) (Some (tr_to req))
            (if us_rm r = None then ActionAssign else ActionTransfer) (tr_reason req) (actor_of actor) (wnow w)) \<and>
       users (wdb w') = update_where (\<lambda>r. us_id r = tr_user req) (\<lambda>r. r\<lparr>us_rm := Some (tr_to req)\<rparr>) (users (wdb w)) \<and>
       rm_users (wdb w') = rm_users (wdb w)"
proof -
  have "wp (Transfer actor req)
     (\<lambda>_ w'. (\<exists>s \<in> set (rm_users (wdb w)). st_id s = tr_to req \<and> on_desk s) \<and>
       (\<exists>r h. find_user (tr_user req) (wdb w) = Some r \<and> history (wdb w') = history (wdb w) @ [h] \<and>
          is_move h (tr_user req) (us_rm r) (Some (tr_to req))
            (if us_rm r = None then ActionAssign else ActionTransfer) (tr_reason req) (actor_of actor) (wnow w)) \<and>
       users (wdb w') = update_where (\<lambda>r. us_id r = tr_user req) (\<lambda>r. r\<lparr>us_rm := Some (tr_to req)\<rparr>) (users (wdb w)) \<and>
       rm_users (wdb w') = rm_users (wdb w))
     (\<lambda>_ w'. wdb w' = wdb w) w"
    unfolding Transfer_def requireStaff_def OwnerOf_def
    by (auto simp: wp_simps Let_def on_desk_def split: option.splits dest: find_staff_SomeD
        intro!: wp_mono[OF wp_ManualAssign_effect])
  then show ?thesis by (auto simp: wp_def split: prod.splits sum.splits)
qed

definition created :: "string \<Rightarrow> string \<Rightarrow> string \<Rightarrow> string \<Rightarrow> string \<Rightarrow> int \<Rightarrow> rm_db \<Rightarrow> Public \<Rightarrow> rm_db \<Rightarrow> bool" where
  "created code email name phone role m d p d' \<longleftrightarrow> (\<exists>i t. let s = new_staff code email name phone role m i t in
     d' = d\<lparr>rm_users := rm_users d @ [s]\<rparr> \<and> p = staff_public s \<and> staff_row_ok s \<and> staff_unique s (rm_users d))"

lemma wp_created:
  "wp (bind (staff_Create code email name phone role m) (\<lambda>s. ret (staff_public s)))
     (\<lambda>p w'. created code email name phone role m (wdb w) p (wdb w')) (\<lambda>_ w'. wdb w' = wdb w) w"
  unfolding wp_bind
proof (rule wp_staff_Create)
  fix i s and w' :: "rm_db world"
  assume "s = new_staff code email name phone role m i (wnow w)"
    "wdb w' = (wdb w)\<lparr>rm_users := rm_users (wdb w) @ [s]\<rparr>" "staff_row_ok s" "staff_unique s (rm_users (wdb w))"
  then show "wp (ret (staff_public s)) (\<lambda>p w'. created code email name phone role m (wdb w) p (wdb w'))
      (\<lambda>_ w'. wdb w' = wdb w) w'"
    unfolding wp_ret created_def Let_def by blast
qed simp

text \<open>
  New staff: an account is created only with a name, an employee code, an e-mail
  containing "@", a phone and a valid role; the stored row carries the trimmed name and
  phone, the lower-case e-mail, the upper-case code, 150 portfolios when none is given, is
  active, and shares neither e-mail nor code with anybody. Every failure leaves the tables
  alone.
\<close>

theorem CreateRM_correct:
  "case CreateRM req w of
     (Inl e, w') \<Rightarrow> wdb w' = wdb w
   | (Inr p, w') \<Rightarrow> \<exists>s. wdb w' = (wdb w)\<lparr>rm_users := rm_users (wdb w) @ [s]\<rparr> \<and> p = staff_public s \<and>
       st_name s = trim_space (cr_name req) \<and> st_name s \<noteq> '''' \<and>
       st_email s = to_lower (trim_space (cr_email req)) \<and> contains (st_email s) ''@'' \<and>
       st_code s = to_upper (trim_space (cr_code req)) \<and> st_code s \<noteq> '''' \<and>
       st_phone s = Some (trim_space (cr_phone req)) \<and> trim_space (cr_phone req) \<noteq> '''' \<and>
       st_role s = (if cr_role req = '''' then RoleRM else cr_role req) \<and> st_role s \<in> {RoleRM, RoleAdmin} \<and>
       st_status s = StatusActive \<and> st_max s = (if 0 < cr_max req then cr_max req else 150) \<and>
       st_email s \<notin> st_email ` set (rm_users (wdb w)) \<and> st_code s \<notin> st_code ` set (rm_users (wdb w))"
proof -
  let ?c = "to_upper (trim_space (cr_code req))" and ?e = "to_lower (trim_space (cr_email req))"
    and ?n = "trim_space (cr_name req)" and ?p = "trim_space (cr_phone req)"
    and ?r = "if cr_role req = '''' then RoleRM else cr_role req"
  have spec: "wp (CreateRM req)
     (\<lambda>p w'. created ?c ?e ?n ?p ?r (cr_max req) (wdb w) p (wdb w') \<and>
        ?n \<noteq> '''' \<and> ?c \<noteq> '''' \<and> contains ?e ''@'' \<and> ?p \<noteq> '''')
     (\<lambda>_ w'. wdb w' = wdb w) w"
    unfolding CreateRM_def Let_def
    by (auto simp: wp_fail wp_bind[of "GetByEmail _"] wp_bind[of "GetByIdentifier _"] wp_GetByEmail
        wp_GetByIdentifier wp_if simp del: contains.simps intro!: wp_mono[OF wp_created])
  show ?thesis
  proof (cases "CreateRM req w")
    case (Pair r w')
    show ?thesis
    proof (cases r)
      case (Inl e)
      then show ?thesis using wp_fails[OF spec] Pair by simp
    next
      case (Inr p)
      have s: "created ?c ?e ?n ?p ?r (cr_max req) (wdb w) p (wdb w')"
        "?n \<noteq> ''''" "?c \<noteq> ''''" "contains ?e ''@''" "?p \<noteq> ''''"
        using wp_returns[OF spec] Pair Inr by auto
      then obtain i t where s': "wdb w' = (wdb w)\<lparr>rm_users := rm_users (wdb w) @ [new_staff ?c ?e ?n ?p ?r (cr_max req) i t]\<rparr>"
        "p = staff_public (new_staff ?c ?e ?n ?p ?r (cr_max req) i t)"
        "staff_row_ok (new_staff ?c ?e ?n ?p ?r (cr_max req) i t)"
        "staff_unique (new_staff ?c ?e ?n ?p ?r (cr_max req) i t) (rm_users (wdb w))"
        unfolding created_def Let_def by blast
      show ?thesis
        unfolding Pair Inr prod.case sum.case
        by (rule exI[of _ "new_staff ?c ?e ?n ?p ?r (cr_max req) i t"])
           (use s(2-) s' in \<open>auto simp: new_staff_def trim_space_lower trim_space_upper staff_row_ok_def
              staff_unique_def list_all_iff\<close>)
    qed
  qed
qed

end
