(* ===== verification/UserSignup.thy ===== *)
theory UserSignup
  imports RmAdmin
begin

text \<open>
  App users (\<open>internal/repository/user_repo.go\<close>): look-up by phone and id, sign-up with its
  upsert, its demo data and its best-effort assignment of a relationship manager, the advisory
  opt-in, the display name and deletion. Statements on tables outside \<open>rm_db\<close> (holdings,
  orders, folios, goals, spending) are calls that may fail and change nothing here.
\<close>

section \<open>Users and look-ups\<close>

record User =
  usr_id :: uuid
  usr_astra :: string
  usr_phone :: string
  usr_name :: "string option"
  usr_wants :: bool
  usr_created :: int

definition user_view :: "client \<Rightarrow> User" where
  "user_view c = \<lparr>usr_id = us_id c, usr_astra = us_astra c, usr_phone = us_phone c,
     usr_name = us_name c, usr_wants = us_wants c, usr_created = us_created c\<rparr>"

definition phone_row :: "string \<Rightarrow> rm_db \<Rightarrow> client option" where
  "phone_row phone d = first_row (filter (\<lambda>c. us_phone c = phone) (users d))"

definition findByPhone :: "string \<Rightarrow> (rm_db, User option) act" where
  "findByPhone phoneNumber = get_row ''lookup user by phone'' (\<lambda>_ d. map_option user_view (phone_row phoneNumber d))"
    \<comment> \<open>no row is a nil user\<close>

text \<open>\<open>GetByID\<close> keeps \<open>pgx.ErrNoRows\<close> in its error, unlike the other look-ups.\<close>

definition GetByID :: "uuid \<Rightarrow> (rm_db, User) act" where
  "GetByID userID =
     bind (attempt (query_row (\<lambda>_ d. map_option user_view (find_user userID d)))) (\<lambda>r. case r of
       Inl e \<Rightarrow> (if errors_is e ErrNoRows then fail (Wrap (''user '' @ userID @ '' not found'') (Sent ErrNoRows))
                 else fail (Wrap ''get user by id'' e))
     | Inr u \<Rightarrow> ret u)"

definition edit_user :: "uuid \<Rightarrow> (client \<Rightarrow> client) \<Rightarrow> rm_db \<Rightarrow> rm_db" where
  "edit_user u f d = d\<lparr>users := update_where (\<lambda>c. us_id c = u) f (users d)\<rparr>"

text \<open>\<open>UPDATE users SET name = ...\<close>: \<open>VARCHAR(255)\<close>; the number of rows it touched.\<close>

definition UpdateUserName :: "uuid \<Rightarrow> string \<Rightarrow> (rm_db, unit) act" where
  "UpdateUserName userID name = (let trimmed = trim_space name in
     if trimmed = [] then fail (Plain ''name is required'')
     else bind (wrapping ''update user name'' (exec (\<lambda>_ d.
            if length trimmed \<le> 255 \<or> \<not> fk_user userID d
            then Inr (count_where (\<lambda>c. us_id c = userID) (users d), edit_user userID (\<lambda>c. c\<lparr>us_name := Some trimmed\<rparr>) d)
            else Inl (Sent ErrConstraint)))) (\<lambda>n.
          if n = 0 then fail (Wrap (''user '' @ userID @ '' not found'') (Sent ErrNoRows)) else ret ()))"

text \<open>\<open>DELETE FROM users WHERE phone_number = $1\<close>, with the tables that cascade.\<close>

definition delete_phone :: "string \<Rightarrow> rm_db \<Rightarrow> rm_db" where
  "delete_phone phone d = (let gone = (\<lambda>u. list_ex (\<lambda>c. us_id c = u \<and> us_phone c = phone) (users d)) in
     d\<lparr>users := filter (\<lambda>c. us_phone c \<noteq> phone) (users d),
       history := filter (\<lambda>h. \<not> gone (h_user h)) (history d),
       user_tokens := filter (\<lambda>t. \<not> gone (tok_owner t)) (user_tokens d),
       interactions := filter (\<lambda>i. \<not> gone (in_user i)) (interactions d),
       snapshots := filter (\<lambda>s. \<not> gone (sn_user s)) (snapshots d)\<rparr>)"

definition DeleteUserByPhone :: "string \<Rightarrow> (rm_db, unit) act" where
  "DeleteUserByPhone phoneNumber = exec_upd (\<lambda>_. delete_phone phoneNumber)"

section \<open>The demo data of a new user\<close>

text \<open>A statement on a table outside the model, its error kept as a value.\<close>

definition aux_call :: "(rm_db, goerr + unit) act" where
  "aux_call = attempt (query (\<lambda>_ _. ()))"

definition insert_snapshot :: "uuid \<Rightarrow> int \<Rightarrow> money \<Rightarrow> (rm_db, unit) act" where
  "insert_snapshot userID day v = exec (\<lambda>_ d.
     if list_ex (\<lambda>s. sn_user s = userID \<and> sn_date s = day) (snapshots d) then Inr ((), d)
     else if fk_user userID d \<and> numeric_fits 18 v
     then Inr ((), d\<lparr>snapshots := snapshots d @ [\<lparr>sn_user = userID, sn_date = day, sn_total = v\<rparr>]\<rparr>)
     else Inl (Sent ErrConstraint))"

text \<open>The value of the \<open>k\<close>-th of \<open>days\<close> snapshots, rounded to paise.\<close>

definition snapshot_value :: "nat \<Rightarrow> rat \<Rightarrow> rat \<Rightarrow> nat \<Rightarrow> money" where
  "snapshot_value days startValue endValue k =
     round2 (startValue + (of_nat k / of_nat (max (days - 1) 1)) * (endValue - startValue))"

definition seedPortfolioSnapshots :: "uuid \<Rightarrow> nat \<Rightarrow> rat \<Rightarrow> rat \<Rightarrow> (rm_db, unit) act" where
  "seedPortfolioSnapshots userID days startValue endValue = bind time_now (\<lambda>t.
     foreach (\<lambda>i. wrapping (''seed portfolio snapshot day '' @ itoa (int i))
         (insert_snapshot userID (day_of t - int i) (snapshot_value days startValue endValue (days - 1 - i))))
       (rev [0..<days]))"

text \<open>
  The holdings, orders, folios, SIPs and goals: every error is dropped, a folio whose insert
  failed gets no transactions. Only an error of the snapshots stops the sign-up.
\<close>

definition seed_sip :: "goerr + unit \<Rightarrow> (rm_db, unit) act" where
  "seed_sip folio = (case folio of Inl _ \<Rightarrow> ret () | Inr _ \<Rightarrow> bind aux_call (\<lambda>_. ret ()))"

definition seedGoodInvestorArchetype :: "uuid \<Rightarrow> (rm_db, unit) act" where
  "seedGoodInvestorArchetype userID =
     bind aux_call (\<lambda>_. bind aux_call (\<lambda>_.
     bind aux_call (\<lambda>f1. bind aux_call (\<lambda>f2. bind aux_call (\<lambda>f3.
     bind (foreach (\<lambda>_. bind (seed_sip f1) (\<lambda>_. bind (seed_sip f2) (\<lambda>_. seed_sip f3))) [0..<12]) (\<lambda>_.
     bind aux_call (\<lambda>_. seedPortfolioSnapshots userID 180 1650000 2480000)))))))"

text \<open>
  Six months of spending in one batch: a new user has no spending yet, and an error of the
  look-up or of the batch never blocks the sign-up.
\<close>

definition seedSpendHistory :: "uuid \<Rightarrow> (rm_db, unit) act" where
  "seedSpendHistory userID = bind aux_call (\<lambda>r. case r of Inl _ \<Rightarrow> ret () | Inr _ \<Rightarrow> bind aux_call (\<lambda>_. ret ()))"

definition seedInitialUserData :: "uuid \<Rightarrow> (rm_db, unit) act" where
  "seedInitialUserData userID = bind (seedGoodInvestorArchetype userID) (\<lambda>_. seedSpendHistory userID)"

section \<open>Sign-up and the advisory opt-in\<close>

definition opt_out_reason :: string where
  "opt_out_reason = ''user opted out of relationship manager''"

text \<open>\<open>assigner\<close>: whether the assignment engine is wired in (\<open>SetAssigner\<close>).\<close>

definition syncRMAssignment :: "bool \<Rightarrow> uuid \<Rightarrow> bool \<Rightarrow> (rm_db, unit) act" where
  "syncRMAssignment assigner userID wantsRM =
     (if \<not> assigner then ret ()
      else if wantsRM then bind (attempt (AssignNextRM userID)) (\<lambda>_. ret ())
      else bind (attempt (Unassign userID uuid_nil opt_out_reason)) (\<lambda>_. ret ()))"

definition new_user :: "string \<Rightarrow> string \<Rightarrow> string \<Rightarrow> bool \<Rightarrow> uuid \<Rightarrow> int \<Rightarrow> client" where
  "new_user astra phone name wants i t = \<lparr>us_id = i, us_astra = astra, us_phone = phone,
     us_name = Some name, us_wants = wants, us_rm = None, us_created = t\<rparr>"

text \<open>
  \<open>INSERT ... ON CONFLICT (phone_number) DO UPDATE ... RETURNING\<close>: the row, and whether it is
  new. A clash of \<open>astra_user_id\<close> or a value too long is a constraint error.
\<close>

definition upsert_user :: "string \<Rightarrow> string \<Rightarrow> string \<Rightarrow> bool \<Rightarrow> (rm_db, User \<times> bool) act" where
  "upsert_user astra phone name wants = wrapping ''create user'' (exec_id (\<lambda>i t d.
     if length astra > 255 \<or> length phone > 50 \<or> length name > 255 then Inl (Sent ErrConstraint)
     else case phone_row phone d of
       Some c \<Rightarrow> Inr ((user_view c, False), d)
     | None \<Rightarrow>
         (if list_ex (\<lambda>c. us_astra c = astra \<or> us_id c = i) (users d) then Inl (Sent ErrConstraint)
          else let c = new_user astra phone name wants i t
               in Inr ((user_view c, True), d\<lparr>users := users d @ [c]\<rparr>))))"

text \<open>The two steps for a returning user: fill in a name that is still missing, follow the opt-in.\<close>

definition backfill_name :: "string \<Rightarrow> User \<Rightarrow> (rm_db, User) act" where
  "backfill_name name existing = (let trimmed = trim_space name in
     if trimmed \<noteq> [] \<and> (usr_name existing = None \<or> usr_name existing = Some [])
     then bind (wrapping ''update user name'' (exec_check (\<lambda>_ d. length trimmed \<le> 255 \<or> \<not> fk_user (usr_id existing) d)
                 (\<lambda>_. edit_user (usr_id existing) (\<lambda>c. c\<lparr>us_name := Some trimmed\<rparr>)))) (\<lambda>_.
          ret (existing\<lparr>usr_name := Some trimmed\<rparr>))
     else ret existing)"

definition honour_opt_in :: "bool \<Rightarrow> bool option \<Rightarrow> User \<Rightarrow> (rm_db, User) act" where
  "honour_opt_in assigner wantsRM existing = (case wantsRM of
       None \<Rightarrow> ret existing
     | Some b \<Rightarrow>
         if b \<noteq> usr_wants existing
         then bind (wrapping ''update user wants_rm'' (exec_upd (\<lambda>_. edit_user (usr_id existing) (\<lambda>c. c\<lparr>us_wants := b\<rparr>)))) (\<lambda>_.
              bind (syncRMAssignment assigner (usr_id existing) b) (\<lambda>_.
              ret (existing\<lparr>usr_wants := b\<rparr>)))
         else ret existing)"

definition returning_user :: "bool \<Rightarrow> string \<Rightarrow> bool option \<Rightarrow> User \<Rightarrow> (rm_db, User \<times> bool) act" where
  "returning_user assigner name wantsRM existing =
     bind (backfill_name name existing) (\<lambda>existing.
     bind (honour_opt_in assigner wantsRM existing) (\<lambda>existing.
     ret (existing, False)))"

definition route_to_rm :: "bool \<Rightarrow> uuid \<Rightarrow> (rm_db, unit) act" where
  "route_to_rm wanted userID = (if wanted then bind (attempt (AssignNextRM userID)) (\<lambda>_. ret ()) else ret ())"

definition register_user :: "bool \<Rightarrow> string \<Rightarrow> string \<Rightarrow> string \<Rightarrow> bool option \<Rightarrow> (rm_db, User \<times> bool) act" where
  "register_user assigner astraUserID phoneNumber name wantsRM =
     (let newUserWantsRM = (wantsRM = Some True) in
      bind (upsert_user astraUserID phoneNumber name newUserWantsRM) (\<lambda>(user, isNew).
      if \<not> isNew then ret (user, False)
      else bind (seedInitialUserData (usr_id user)) (\<lambda>_.
           bind (route_to_rm (newUserWantsRM \<and> assigner) (usr_id user)) (\<lambda>_.
           ret (user, True)))))"

definition FindOrCreateUser :: "bool \<Rightarrow> string \<Rightarrow> string \<Rightarrow> string \<Rightarrow> bool option \<Rightarrow> (rm_db, User \<times> bool) act" where
  "FindOrCreateUser assigner astraUserID phoneNumber name wantsRM =
     bind (findByPhone phoneNumber) (\<lambda>ex. case ex of
       Some existing \<Rightarrow> returning_user assigner name wantsRM existing
     | None \<Rightarrow> register_user assigner astraUserID phoneNumber name wantsRM)"

section \<open>One user's row, and everybody else's\<close>
section \<open>One user's row, and everybody else's\<close>

definition others :: "string \<Rightarrow> rm_db \<Rightarrow> client list" where
  "others phone d = filter (\<lambda>c. us_phone c \<noteq> phone) (users d)"

text \<open>
  \<open>at_phone phone d0 c d\<close>: the tables \<open>d\<close> are consistent, \<open>c\<close> is the row with this phone,
  and every other user is as in \<open>d0\<close>.
\<close>

definition at_phone :: "string \<Rightarrow> rm_db \<Rightarrow> client \<Rightarrow> rm_db \<Rightarrow> bool" where
  "at_phone phone d0 c d \<longleftrightarrow> desk_inv d \<and> phone_row phone d = Some c \<and> others phone d = others phone d0"

lemma phone_row_SomeD: "phone_row p d = Some c \<Longrightarrow> c \<in> set (users d) \<and> us_phone c = p"
  unfolding phone_row_def by (drule first_row_filterD) simp

lemma phone_row_None: "phone_row p d = None \<longleftrightarrow> p \<notin> us_phone ` set (users d)"
  by (auto simp: phone_row_def filter_empty_conv)

lemma desk_inv_ids: "desk_inv d \<Longrightarrow> distinct (map us_id (users d)) \<and> distinct (map us_phone (users d))"
  by (simp add: desk_inv_def book_inv_def)

lemma desk_inv_find: "desk_inv d \<Longrightarrow> phone_row p d = Some c \<Longrightarrow> find_user (us_id c) d = Some c"
  using desk_inv_ids phone_row_SomeD find_user_unique by blast

lemma first_row_filter_update:
  "(\<And>r. p (f r) = p r) \<Longrightarrow>
   first_row (filter p (update_where q f xs)) = map_option (\<lambda>r. if q r then f r else r) (first_row (filter p xs))"
  by (induction xs) auto

lemma filter_update_outside:
  "(\<And>r. r \<in> set xs \<Longrightarrow> q r \<Longrightarrow> \<not> p r \<and> \<not> p (f r)) \<Longrightarrow> filter p (update_where q f xs) = filter p xs"
  by (induction xs) auto

lemma edit_user_sel [simp]:
  "users (edit_user i f d) = update_where (\<lambda>c. us_id c = i) f (users d)"
  "history (edit_user i f d) = history d" "rm_users (edit_user i f d) = rm_users d"
  by (simp_all add: edit_user_def)

lemma desk_inv_edit:
  assumes "desk_inv d" "\<And>c. us_id (f c) = us_id c" "\<And>c. us_phone (f c) = us_phone c" "\<And>c. us_rm (f c) = us_rm c"
  shows "desk_inv (edit_user i f d)"
proof -
  have fk: "fk_user u (edit_user i f d) = fk_user u d" for u
    by (simp add: fk_user_iff image_update_where assms(2))
  have st: "fk_staff r (edit_user i f d) = fk_staff r d" for r by (simp add: fk_staff_iff staff_ids_def)
  show ?thesis
    using assms(1) unfolding desk_inv_def book_inv_def ledger_def list_all_iff st fk edit_user_sel
    by (auto simp: map_update_where assms(2-4) in_update_where)
qed

lemma at_phone_update:
  assumes "at_phone phone d0 c d" "desk_inv d'" "users d' = update_where (\<lambda>u. us_id u = us_id c) f (users d)"
    and "\<And>c. us_phone (f c) = us_phone c"
  shows "at_phone phone d0 (f c) d'"
proof -
  have c: "phone_row phone d = Some c" "desk_inv d" using assms(1) by (simp_all add: at_phone_def)
  have "phone_row phone d' = Some (f c)"
    using c(1) by (simp add: phone_row_def assms(3) first_row_filter_update assms(4))
  moreover have "others phone d' = others phone d"
    unfolding others_def assms(3)
  proof (rule filter_update_outside)
    fix r assume "r \<in> set (users d)" "us_id r = us_id c"
    then have "r = c" using map_key_unique desk_inv_ids[OF c(2)] phone_row_SomeD[OF c(1)] by metis
    then show "\<not> us_phone r \<noteq> phone \<and> \<not> us_phone (f r) \<noteq> phone"
      using phone_row_SomeD[OF c(1)] assms(4) by simp
  qed
  ultimately show ?thesis using assms(1,2) by (simp add: at_phone_def)
qed

lemma at_phone_edit:
  assumes "at_phone phone d0 c d" "\<And>c. us_id (f c) = us_id c" "\<And>c. us_phone (f c) = us_phone c"
    "\<And>c. us_rm (f c) = us_rm c"
  shows "at_phone phone d0 (f c) (edit_user (us_id c) f d)"
  by (rule at_phone_update[OF assms(1)]) (use assms in \<open>simp_all add: at_phone_def desk_inv_edit\<close>)

lemma at_phone_applied:
  assumes "at_phone phone d0 c d" "is_move h (us_id c) (us_rm c) to a rs ac t" "history_ok h d"
  shows "at_phone phone d0 (c\<lparr>us_rm := to\<rparr>) (applied d h)"
proof (rule at_phone_update[OF assms(1)])
  show "desk_inv (applied d h)"
    using assms desk_inv_find by (auto simp: at_phone_def intro!: desk_inv_move)
qed (use assms(2) in \<open>simp_all add: is_move_def\<close>)

lemma at_phone_queue [simp]: "at_phone p d0 c (d\<lparr>queue_state := q\<rparr>) = at_phone p d0 c d"
  by (simp add: at_phone_def phone_row_def others_def)

lemma at_phone_advanced [simp]: "at_phone p d0 c (advanced d m t) = at_phone p d0 c d"
  by (simp add: advanced_def)

lemma at_phone_find: "at_phone phone d0 c d \<Longrightarrow> find_user (us_id c) d = Some c"
  using desk_inv_find by (auto simp: at_phone_def)

lemma desk_inv_snapshots [simp]: "desk_inv (d\<lparr>snapshots := s\<rparr>) = desk_inv d"
  by (simp add: desk_inv_def book_inv_def ledger_def fk_staff_def fk_user_def cong: option.case_cong)

lemma at_phone_snapshots [simp]: "at_phone p d0 c (d\<lparr>snapshots := s\<rparr>) = at_phone p d0 c d"
  by (simp add: at_phone_def phone_row_def others_def)

lemma at_phone_refl: "desk_inv d \<Longrightarrow> phone_row p d = Some c \<Longrightarrow> at_phone p d c d"
  by (simp add: at_phone_def)

lemma desk_inv_new_user:
  assumes "desk_inv d" "us_id c \<notin> us_id ` set (users d)" "us_phone c \<notin> us_phone ` set (users d)" "us_rm c = None"
  shows "desk_inv (d\<lparr>users := users d @ [c]\<rparr>)"
proof -
  have n: "filter (\<lambda>h. h_user h = us_id c) (history d) = []"
    using assms(1,2) unfolding desk_inv_def book_inv_def list_all_iff filter_empty_conv fk_user_iff by metis
  show ?thesis
    using assms n by (auto simp: desk_inv_def book_inv_def list_all_iff fk_user_iff fk_staff_iff staff_ids_def ledger_def)
qed

lemma at_phone_new:
  assumes "desk_inv d" "phone_row phone d = None" "us_id c \<notin> us_id ` set (users d)" "us_phone c = phone" "us_rm c = None"
  shows "at_phone phone d c (d\<lparr>users := users d @ [c]\<rparr>)"
  using assms desk_inv_new_user[of d c] phone_row_None[of phone d]
  by (auto simp: at_phone_def phone_row_def others_def)

section \<open>What the steps do\<close>

lemma wp_aux_call [wp_simps]:
  "wp aux_call Q E w \<longleftrightarrow> (if faulty w then Q (Inl (Sent ErrDB)) (tick w) else Q (Inr ()) (tick w))"
  by (simp add: aux_call_def wp_simps)

text \<open>Seeding writes snapshots only.\<close>

definition seeded :: "rm_db \<Rightarrow> rm_db \<Rightarrow> bool" where
  "seeded d d' \<longleftrightarrow> (\<exists>ss. d' = d\<lparr>snapshots := ss\<rparr>)"

lemma seeded_refl [simp]: "seeded d d"
  by (auto simp: seeded_def intro: exI[of _ "snapshots d"])

lemma seeded_trans: "seeded a b \<Longrightarrow> seeded b c \<Longrightarrow> seeded a c"
  by (auto simp: seeded_def)

abbreviation seeds :: "rm_db \<Rightarrow> (rm_db, 'a) act \<Rightarrow> rm_db world \<Rightarrow> bool" where
  "seeds d m w \<equiv> wp m (\<lambda>_ w'. seeded d (wdb w')) (\<lambda>_ w'. seeded d (wdb w')) w"

lemma seeds_insert: "seeded d (wdb w) \<Longrightarrow> seeds d (insert_snapshot u day v) w"
  by (auto simp: insert_snapshot_def wp_simps seeded_def)

lemma seeds_snapshots: "seeded d (wdb w) \<Longrightarrow> seeds d (seedPortfolioSnapshots u n a b) w"
  unfolding seedPortfolioSnapshots_def wp_bind wp_time_now
  by (rule wp_foreach_inv) (auto simp: wp_wrapping intro: seeds_insert)

lemma seeds_aux: "seeded d (wdb w) \<Longrightarrow> (\<And>r w'. seeded d (wdb w') \<Longrightarrow> seeds d (f r) w') \<Longrightarrow>
   seeds d (bind aux_call f) w"
  by (simp add: wp_simps)

lemma seeds_sip: "seeded d (wdb w) \<Longrightarrow> seeds d (seed_sip f) w"
  by (auto simp: seed_sip_def wp_simps split: sum.splits)

lemma seeds_archetype: "seeded d (wdb w) \<Longrightarrow> seeds d (seedGoodInvestorArchetype u) w"
  unfolding seedGoodInvestorArchetype_def
  apply (intro seeds_aux, assumption+)
  apply (rule wp_seq[where I = "\<lambda>w'. seeded d (wdb w')"])
   apply (rule wp_foreach_inv)
    apply (rule wp_seq[where I = "\<lambda>w'. seeded d (wdb w')"], erule seeds_sip)+
    apply (erule seeds_sip)
   apply assumption
  apply (rule seeds_aux, assumption)
  apply (erule seeds_snapshots)
  done

lemma seeds_seed: "seeded d (wdb w) \<Longrightarrow> seeds d (seedInitialUserData u) w"
  unfolding seedInitialUserData_def
  by (rule wp_seq[OF seeds_archetype]) (auto simp: seedSpendHistory_def wp_simps split: sum.splits)

lemma at_phone_seeded: "at_phone p d0 c d \<Longrightarrow> seeded d d' \<Longrightarrow> at_phone p d0 c d'"
  by (auto simp: seeded_def)

lemma wp_seed_at_phone:
  assumes "at_phone p d0 c (wdb w)" "\<And>w'. at_phone p d0 c (wdb w') \<Longrightarrow> Q () w'"
    "\<And>e w'. at_phone p d0 c (wdb w') \<Longrightarrow> E e w'"
  shows "wp (seedInitialUserData u) Q E w"
  by (rule wp_mono[OF seeds_seed[of "wdb w"]]) (use assms in \<open>auto intro: at_phone_seeded\<close>)

text \<open>Assignment after sign-up, and after the opt-in flips: it never fails the caller.\<close>

lemma wp_assign_at_phone:
  assumes "at_phone p d0 c (wdb w)" "\<And>w' r. at_phone p d0 (c\<lparr>us_rm := r\<rparr>) (wdb w') \<Longrightarrow> Q () w'"
  shows "wp (bind (attempt (AssignNextRM (us_id c))) (\<lambda>_. ret ())) Q E w"
  unfolding wp_bind wp_attempt wp_fun
proof (rule wp_mono[OF wp_AssignNextRM])
  fix m and w' :: "rm_db world" assume "\<exists>r h ov. find_user (us_id c) (wdb w) = Some r \<and>
     PickNextRM (active_ring (wdb w)) (after_of (wdb w)) = (m, ov, True) \<and>
     is_move h (us_id c) (us_rm r) (Some m) ActionAutoAssign '''' None (wnow w) \<and> history_ok h (wdb w) \<and>
     wdb w' = advanced (applied (wdb w) h) m (wnow w)"
  then show "Q () w'" using assms(1) at_phone_find[OF assms(1)]
    by (auto intro!: assms(2) at_phone_applied)
next
  fix e and w' :: "rm_db world" assume "wdb w' = wdb w"
  then show "Q () w'" using assms(1) by (intro assms(2)[of "us_rm c"]) simp
qed

lemma wp_unassign_at_phone:
  assumes "at_phone p d0 c (wdb w)" "\<And>w' r. at_phone p d0 (c\<lparr>us_rm := r\<rparr>) (wdb w') \<Longrightarrow> Q () w'"
  shows "wp (bind (attempt (Unassign (us_id c) a reason)) (\<lambda>_. ret ())) Q E w"
  unfolding wp_bind wp_attempt wp_fun
proof (rule wp_mono[OF wp_Unassign])
  fix x and w' :: "rm_db world" assume "\<exists>r h. find_user (us_id c) (wdb w) = Some r \<and>
     is_move h (us_id c) (us_rm r) None ActionRemove reason (actor_of a) (wnow w) \<and>
     history_ok h (wdb w) \<and> wdb w' = applied (wdb w) h"
  then show "Q () w'" using assms(1) at_phone_find[OF assms(1)]
    by (auto intro!: assms(2) at_phone_applied)
next
  fix e and w' :: "rm_db world" assume "wdb w' = wdb w"
  then show "Q () w'" using assms(1) by (intro assms(2)[of "us_rm c"]) simp
qed

lemma wp_sync_at_phone:
  assumes "at_phone p d0 c (wdb w)" "\<And>w' r. at_phone p d0 (c\<lparr>us_rm := r\<rparr>) (wdb w') \<Longrightarrow> Q () w'"
  shows "wp (syncRMAssignment assigner (us_id c) b) Q E w"
proof -
  have "Q () w" using assms(2)[of "us_rm c" w] assms(1) by simp
  moreover have "wp (bind (attempt (AssignNextRM (us_id c))) (\<lambda>_. ret ())) Q E w"
    by (rule wp_assign_at_phone[where p = p and ?d0.0 = d0]) (use assms in blast)+
  moreover have "wp (bind (attempt (Unassign (us_id c) uuid_nil opt_out_reason)) (\<lambda>_. ret ())) Q E w"
    by (rule wp_unassign_at_phone[where p = p and ?d0.0 = d0]) (use assms in blast)+
  ultimately show ?thesis by (simp add: syncRMAssignment_def wp_if wp_ret)
qed

section \<open>Sign-in, branch by branch\<close>

definition named :: "string \<Rightarrow> client \<Rightarrow> client" where
  "named name c = (if trim_space name \<noteq> [] \<and> (us_name c = None \<or> us_name c = Some [])
     then c\<lparr>us_name := Some (trim_space name)\<rparr> else c)"

lemma user_view_simps [simp]:
  "usr_id (user_view c) = us_id c" "usr_name (user_view c) = us_name c" "usr_wants (user_view c) = us_wants c"
  "usr_phone (user_view c) = us_phone c" "usr_astra (user_view c) = us_astra c"
  "user_view (c\<lparr>us_rm := r\<rparr>) = user_view c"
  "user_view (c\<lparr>us_name := n\<rparr>) = (user_view c)\<lparr>usr_name := n\<rparr>"
  "user_view (c\<lparr>us_wants := b\<rparr>) = (user_view c)\<lparr>usr_wants := b\<rparr>"
  by (simp_all add: user_view_def)

lemma named_sel [simp]:
  "us_id (named n c) = us_id c" "us_wants (named n c) = us_wants c" "us_rm (named n c) = us_rm c"
  "us_phone (named n c) = us_phone c" "us_astra (named n c) = us_astra c"
  by (simp_all add: named_def)

lemma wp_backfill_name:
  assumes "at_phone p d0 c (wdb w)" "\<And>w'. at_phone p d0 (named name c) (wdb w') \<Longrightarrow> Q (user_view (named name c)) w'"
    and "\<And>e w'. at_phone p d0 c (wdb w') \<Longrightarrow> E e w'"
  shows "wp (backfill_name name (user_view c)) Q E w"
proof -
  have "at_phone p d0 (c\<lparr>us_name := n\<rparr>) (edit_user (us_id c) (\<lambda>c. c\<lparr>us_name := n\<rparr>) (wdb w))" for n
    by (rule at_phone_edit[OF assms(1)]) simp_all
  then show ?thesis
    using assms by (auto simp: backfill_name_def named_def wp_simps Let_def)
qed

definition owner_kept :: "bool option \<Rightarrow> client \<Rightarrow> client \<Rightarrow> bool" where
  "owner_kept wants c0 c \<longleftrightarrow> wants \<noteq> None \<and> wants \<noteq> Some (us_wants c0) \<or> us_rm c = us_rm c0"

lemma wp_honour_opt_in:
  assumes "at_phone p d0 c (wdb w)"
    and "\<And>w' c'. at_phone p d0 c' (wdb w') \<Longrightarrow> owner_kept wants c c' \<Longrightarrow>
      user_view c' = (user_view c)\<lparr>usr_wants := (case wants of None \<Rightarrow> us_wants c | Some b \<Rightarrow> b)\<rparr> \<Longrightarrow> Q (user_view c') w'"
    and "\<And>e w'. at_phone p d0 c (wdb w') \<Longrightarrow> E e w'"
  shows "wp (honour_opt_in a wants (user_view c)) Q E w"
proof (cases "wants = None \<or> wants = Some (us_wants c)")
  case True
  have "Q (user_view c) w" using True by (intro assms(2)) (auto simp: assms(1) owner_kept_def user_view_def)
  then show ?thesis using True by (auto simp: honour_opt_in_def wp_ret)
next
  case False
  then obtain b where b: "wants = Some b" "b \<noteq> us_wants c" by auto
  let ?c = "c\<lparr>us_wants := b\<rparr>" and ?d = "edit_user (us_id c) (\<lambda>c. c\<lparr>us_wants := b\<rparr>) (wdb w)"
  have p: "at_phone p d0 ?c ?d" by (rule at_phone_edit[OF assms(1)]) simp_all
  have "wp (syncRMAssignment a (us_id ?c) b) (\<lambda>_. Q ((user_view c)\<lparr>usr_wants := b\<rparr>)) E (tick w\<lparr>wdb := ?d\<rparr>)"
  proof (rule wp_sync_at_phone[where p = p and ?d0.0 = d0])
    fix r and w' :: "rm_db world" assume "at_phone p d0 (?c\<lparr>us_rm := r\<rparr>) (wdb w')"
    from assms(2)[OF this] show "Q ((user_view c)\<lparr>usr_wants := b\<rparr>) w'"
      using b by (simp add: owner_kept_def)
  qed (use p in simp)
  then show ?thesis using b assms(1,3) by (simp add: honour_opt_in_def wp_simps)
qed

lemma wp_upsert_new:
  assumes "phone_row phone (wdb w) = None" "desk_inv (wdb w)"
    and "\<And>i w' c. c = new_user astra phone name b i (wnow w) \<Longrightarrow> at_phone phone (wdb w) c (wdb w') \<Longrightarrow>
        wdb w' = (wdb w)\<lparr>users := users (wdb w) @ [c]\<rparr> \<Longrightarrow> Q (user_view c, True) w'"
    and "\<And>e w'. wdb w' = wdb w \<Longrightarrow> E e w'"
  shows "wp (upsert_user astra phone name b) Q E w"
proof -
  have p: "at_phone phone (wdb w) (new_user astra phone name b i t)
      ((wdb w)\<lparr>users := users (wdb w) @ [new_user astra phone name b i t]\<rparr>)"
    if "\<forall>c \<in> set (users (wdb w)). us_id c \<noteq> i" for i t
    by (rule at_phone_new) (use assms(1,2) that in \<open>auto simp: new_user_def\<close>)
  show ?thesis
    unfolding upsert_user_def wp_wrapping wp_exec_id
    using assms(1,4) p assms(3)
    by (auto simp: wp_exec Let_def list_ex_iff split: list.split sum.split)
qed

definition signed_in :: "string \<Rightarrow> string \<Rightarrow> string \<Rightarrow> bool option \<Rightarrow> rm_db \<Rightarrow> User \<times> bool \<Rightarrow> rm_db \<Rightarrow> bool" where
  "signed_in astra phone name wants d res d' \<longleftrightarrow> (\<exists>c. at_phone phone d c d' \<and> user_view c = fst res \<and>
     (case phone_row phone d of
        None \<Rightarrow> snd res \<and> us_astra c = astra \<and> us_name c = Some name \<and> us_wants c = (wants = Some True)
      | Some c0 \<Rightarrow> \<not> snd res \<and> us_id c = us_id c0 \<and> us_astra c = us_astra c0 \<and> us_name c = us_name (named name c0) \<and>
          us_wants c = (case wants of None \<Rightarrow> us_wants c0 | Some b \<Rightarrow> b) \<and> owner_kept wants c0 c))"

lemma signed_inD:
  assumes "signed_in astra phone name wants d res d'"
  shows "\<exists>c. phone_row phone d' = Some c \<and> user_view c = fst res \<and> snd res = (phone_row phone d = None)"
  using assms by (cases "phone_row phone d") (auto simp: signed_in_def at_phone_def)

definition undisturbed :: "string \<Rightarrow> rm_db \<Rightarrow> rm_db \<Rightarrow> bool" where
  "undisturbed phone d d' \<longleftrightarrow> desk_inv d' \<and> others phone d' = others phone d"

lemma at_phone_undisturbed: "at_phone phone d c d' \<Longrightarrow> undisturbed phone d d'"
  by (simp add: at_phone_def undisturbed_def)

lemma wp_returning_user:
  assumes "desk_inv (wdb w)" "phone_row phone (wdb w) = Some c"
  shows "wp (returning_user a name wants (user_view c))
     (\<lambda>res w'. signed_in astra phone name wants (wdb w) res (wdb w'))
     (\<lambda>_ w'. undisturbed phone (wdb w) (wdb w')) w" (is "wp _ ?Q ?E w")
  unfolding returning_user_def wp_bind
proof (rule wp_backfill_name[where p = phone and ?d0.0 = "wdb w"])
  show "at_phone phone (wdb w) c (wdb w)" using assms by (rule at_phone_refl)
next
  fix w1 :: "rm_db world" assume 1: "at_phone phone (wdb w) (named name c) (wdb w1)"
  show "wp (honour_opt_in a wants (user_view (named name c))) (\<lambda>u. wp (ret (u, False)) ?Q ?E) ?E w1"
  proof (rule wp_honour_opt_in[where p = phone and ?d0.0 = "wdb w", OF 1])
    fix c' and w2 :: "rm_db world"
    assume 2: "at_phone phone (wdb w) c' (wdb w2)" "owner_kept wants (named name c) c'"
      "user_view c' = (user_view (named name c))\<lparr>usr_wants := case wants of None \<Rightarrow> us_wants (named name c) | Some b \<Rightarrow> b\<rparr>"
    have f: "us_id c' = us_id c" "us_astra c' = us_astra c" "us_name c' = us_name (named name c)"
      "us_wants c' = (case wants of None \<Rightarrow> us_wants c | Some b \<Rightarrow> b)"
      using arg_cong[OF 2(3), of usr_id] arg_cong[OF 2(3), of usr_astra] arg_cong[OF 2(3), of usr_name]
        arg_cong[OF 2(3), of usr_wants] by (simp_all cong: option.case_cong)
    show "wp (ret (user_view c', False)) ?Q ?E w2"
      unfolding wp_ret signed_in_def assms(2) option.case fst_conv snd_conv
      by (rule exI[of _ c']) (use 2(1,2) f in \<open>simp add: owner_kept_def\<close>)
  qed (rule at_phone_undisturbed)
qed (rule at_phone_undisturbed)

lemma wp_route_to_rm:
  assumes "at_phone p d0 c (wdb w)" "\<And>w' r. at_phone p d0 (c\<lparr>us_rm := r\<rparr>) (wdb w') \<Longrightarrow> Q () w'"
  shows "wp (route_to_rm b (us_id c)) Q E w"
proof (cases b)
  case True
  have "wp (bind (attempt (AssignNextRM (us_id c))) (\<lambda>_. ret ())) Q E w"
    by (rule wp_assign_at_phone[where p = p and ?d0.0 = d0]) (use assms in blast)+
  then show ?thesis using True by (simp add: route_to_rm_def)
next
  case False
  have "Q () w" using assms(2)[of "us_rm c" w] assms(1) by simp
  then show ?thesis using False by (simp add: route_to_rm_def wp_ret)
qed

lemma wp_register_user:
  assumes "desk_inv (wdb w)" "phone_row phone (wdb w) = None"
  shows "wp (register_user a astra phone name wants)
     (\<lambda>res w'. signed_in astra phone name wants (wdb w) res (wdb w'))
     (\<lambda>_ w'. undisturbed phone (wdb w) (wdb w')) w" (is "wp _ ?Q ?E w")
  unfolding register_user_def Let_def wp_bind[of "upsert_user _ _ _ _"]
proof (rule wp_upsert_new)
  fix i c and w1 :: "rm_db world"
  assume c: "c = new_user astra phone name (wants = Some True) i (wnow w)" and 1: "at_phone phone (wdb w) c (wdb w1)"
  have fin: "?Q (user_view c, True) w'" if "at_phone phone (wdb w) (c\<lparr>us_rm := r\<rparr>) (wdb w')" for r and w' :: "rm_db world"
    unfolding signed_in_def assms(2) option.case fst_conv snd_conv
    by (rule exI[of _ "c\<lparr>us_rm := r\<rparr>"]) (use that in \<open>simp add: c new_user_def user_view_def\<close>)
  have "wp (seedInitialUserData (us_id c)) (\<lambda>_. wp (route_to_rm b (us_id c)) (\<lambda>_. ?Q (user_view c, True)) ?E) ?E w1" for b
  proof (rule wp_seed_at_phone[OF 1])
    fix w2 :: "rm_db world" assume 2: "at_phone phone (wdb w) c (wdb w2)"
    show "wp (route_to_rm b (us_id c)) (\<lambda>_. ?Q (user_view c, True)) ?E w2"
      by (rule wp_route_to_rm[OF 2]) (rule fin)
  qed (rule at_phone_undisturbed)
  then show "wp (case (user_view c, True) of (user, isNew) \<Rightarrow> if \<not> isNew then ret (user, False)
         else bind (seedInitialUserData (usr_id user)) (\<lambda>_.
              bind (route_to_rm (wants = Some True \<and> a) (usr_id user)) (\<lambda>_. ret (user, True)))) ?Q ?E w1"
    by (simp add: wp_fun)
qed (use assms in \<open>simp_all add: undisturbed_def\<close>)

lemma wp_FindOrCreateUser:
  assumes "desk_inv (wdb w)"
  shows "wp (FindOrCreateUser a astra phone name wants)
     (\<lambda>res w'. signed_in astra phone name wants (wdb w) res (wdb w'))
     (\<lambda>_ w'. undisturbed phone (wdb w) (wdb w')) w"
  unfolding FindOrCreateUser_def findByPhone_def wp_bind[of "get_row _ _"] wp_get_row
  using assms wp_returning_user[of "tick w"] wp_register_user[of "tick w"]
  by (cases "phone_row phone (wdb w)") (simp_all add: undisturbed_def)

text \<open>
  Signing in: with consistent tables, a success returns the user with the given phone as
  it is stored afterwards; a returning user keeps id, account and - unless it was still
  missing - name, changes the opt-in only when the caller states one, and keeps their manager
  unless the opt-in changed; a new user is stored with the given name and opt-in. Whatever
  happens, failures included, every other user's row stays as it was and the audit trail
  stays consistent.
\<close>

theorem FindOrCreateUser_correct:
  assumes "desk_inv (wdb w)"
  shows "case FindOrCreateUser assigner astra phone name wants w of
     (Inr res, w') \<Rightarrow> signed_in astra phone name wants (wdb w) res (wdb w')
   | (Inl e, w') \<Rightarrow> undisturbed phone (wdb w) (wdb w')"
  using wp_FindOrCreateUser[OF assms] by (simp add: wp_def split: prod.splits sum.splits)

definition signup_world :: "rm_db world" where
  "signup_world = demo_world\<lparr>wuuids := [''u9'', ''h9'', ''h8'', ''h7'']\<rparr>"

lemma desk_inv_demo: "desk_inv (wdb signup_world)"
  by code_simp

lemma FindOrCreateUser_correct_witness:
  "\<exists>res w'. FindOrCreateUser True ''a9'' ''u2'' '' Asha '' (Some False) signup_world = (Inr res, w') \<and>
     signed_in ''a9'' ''u2'' '' Asha '' (Some False) (wdb signup_world) res (wdb w')"
proof -
  have "\<not> isl (fst (FindOrCreateUser True ''a9'' ''u2'' '' Asha '' (Some False) signup_world))" by code_simp
  then obtain res w' where "FindOrCreateUser True ''a9'' ''u2'' '' Asha '' (Some False) signup_world = (Inr res, w')"
    by (blast dest: not_islD)
  then show ?thesis
    using FindOrCreateUser_correct[OF desk_inv_demo, where assigner = True and astra = "''a9''"
        and phone = "''u2''" and name = "'' Asha ''" and wants = "Some False"] by auto
qed

section \<open>Consistency under every operation on users\<close>

datatype user_op =
    SignIn bool string string string "bool option"
  | Rename uuid string
  | DeletePhone string
  | Desk desk_op

fun user_step :: "user_op \<Rightarrow> (rm_db, unit) act" where
  "user_step (SignIn assigner astra phone name wants) = discard (FindOrCreateUser assigner astra phone name wants)"
| "user_step (Rename u name) = UpdateUserName u name"
| "user_step (DeletePhone phone) = DeleteUserByPhone phone"
| "user_step (Desk oper) = desk_step oper"

lemma desk_inv_delete:
  assumes "desk_inv d"
  shows "desk_inv (delete_phone phone d)"
proof -
  have gone: "list_ex (\<lambda>c. us_id c = u \<and> us_phone c = phone) (users d) \<longleftrightarrow> us_phone v = phone"
    if "v \<in> set (users d)" "us_id v = u" for u v
    using that desk_inv_ids[OF assms] by (auto simp: list_ex_iff dest: map_key_unique)
  have h: "filter (\<lambda>h. h_user h = us_id v) (filter (\<lambda>h. \<not> list_ex (\<lambda>c. us_id c = h_user h \<and> us_phone c = phone) (users d)) (history d)) =
      filter (\<lambda>h. h_user h = us_id v) (history d)" if "v \<in> set (users d)" "us_phone v \<noteq> phone" for v
    unfolding filter_filter using gone[OF that(1)] that(2) by (intro filter_cong) auto
  have l: "ledger (delete_phone phone d)"
    using assms h by (auto simp: ledger_def delete_phone_def Let_def list_all_iff desk_inv_def book_inv_def)
  have "fk_user (h_user x) (delete_phone phone d)" if "x \<in> set (history (delete_phone phone d))" for x
  proof -
    from that have x: "x \<in> set (history d)" "\<not> list_ex (\<lambda>c. us_id c = h_user x \<and> us_phone c = phone) (users d)"
      by (auto simp: delete_phone_def Let_def)
    then obtain v where "v \<in> set (users d)" "us_id v = h_user x"
      using assms by (auto simp: desk_inv_def book_inv_def list_all_iff fk_user_iff)
    with x(2) show ?thesis by (auto simp: fk_user_def list_ex_iff delete_phone_def Let_def)
  qed
  then show ?thesis
    using assms l
    by (auto simp: desk_inv_def book_inv_def list_all_iff delete_phone_def Let_def fk_staff_iff staff_ids_def
        distinct_map_filter)
qed

lemma keeps_user_step: "desk_inv (wdb w) \<Longrightarrow> keeps (user_step oper) w"
proof (cases oper)
  case (SignIn a astra phone name wants)
  assume "desk_inv (wdb w)"
  from wp_FindOrCreateUser[OF this] show ?thesis
    unfolding SignIn user_step.simps wp_discard
    by (rule wp_mono) (auto simp: signed_in_def at_phone_def undisturbed_def)
next
  case (Rename u name)
  assume "desk_inv (wdb w)"
  then show ?thesis
    by (auto simp: Rename UpdateUserName_def wp_simps Let_def intro!: desk_inv_edit)
next
  case (DeletePhone phone)
  assume "desk_inv (wdb w)"
  then show ?thesis by (simp add: DeletePhone DeleteUserByPhone_def wp_simps desk_inv_delete)
next
  case (Desk oper')
  assume "desk_inv (wdb w)"
  then show ?thesis by (simp add: Desk keeps_desk_step)
qed

interpretation accounts: invariant_service user_step desk_inv
  by unfold_locales (rule keeps_user_step)

text \<open>
  C14. No operation breaks the user tables: after any sequence of sign-ins, renamings,
  deletions and desk operations, with any pattern of failing calls, phone numbers are unique,
  the log only mentions users that exist, and the rows of each user chain from "no owner" to
  the manager stored on the user.
\<close>

theorem accounts_consistent:
  assumes "desk_inv (wdb w)" "d = wdb (run_ops user_step w es)"
  shows "distinct (map us_phone (users d)) \<and> h_user ` set (history d) \<subseteq> us_id ` set (users d) \<and>
     (\<forall>u \<in> set (users d). chain None (filter (\<lambda>h. h_user h = us_id u) (history d)) = Some (us_rm u))"
proof -
  have "book_inv d" using accounts.run_keeps[OF assms(1)] assms(2) by (simp add: desk_inv_def)
  then show ?thesis using ledgerD by (auto simp: book_inv_def list_all_iff fk_user_iff)
qed

lemma accounts_consistent_witness:
  "\<exists>d. d = wdb (run_ops user_step signup_world
       [(DeletePhone ''u1'', 1, [], [], []),
        (SignIn True ''a9'' ''u2'' '''' (Some False), 1, [], [], [''h1'']),
        (Desk (DoOffboard ''ad'' ''r1'' ''left''), 2, [], [], [''h2'', ''h3''])]) \<and>
     distinct (map us_phone (users d)) \<and> length (users d) = 2"
proof -
  let ?es = "[(DeletePhone ''u1'', 1, [], [], []),
        (SignIn True ''a9'' ''u2'' '''' (Some False), 1, [], [], [''h1'']),
        (Desk (DoOffboard ''ad'' ''r1'' ''left''), 2, [], [], [''h2'', ''h3''])]"
  have "length (users (wdb (run_ops user_step signup_world ?es))) = 2" by code_simp
  then show ?thesis using accounts_consistent[OF desk_inv_demo refl, of ?es] by auto
qed

section \<open>A sign-up that fails half way\<close>

lemma wp_register_error:
  "wp (register_user a astra phone name wants) (\<lambda>_ _. True)
     (\<lambda>_ w'. wdb w' = wdb w \<or> (\<exists>i. seeded ((wdb w)\<lparr>users := users (wdb w) @
        [new_user astra phone name (wants = Some True) i (wnow w)]\<rparr>) (wdb w'))) w"
proof -
  let ?c = "\<lambda>i. new_user astra phone name (wants = Some True) i (wnow w)"
  have s: "wp (seedInitialUserData u) (\<lambda>_ _. True) (\<lambda>_ w'. wdb w' = wdb w \<or> (\<exists>i. seeded ((wdb w)\<lparr>users := users (wdb w) @ [?c i]\<rparr>) (wdb w'))) w1"
    if "wdb w1 = (wdb w)\<lparr>users := users (wdb w) @ [?c i]\<rparr>" for u i w1
    by (rule wp_mono[OF seeds_seed[of "wdb w1"]]) (use that in auto)
  have r: "wp (route_to_rm b u) (\<lambda>_ _. True) E w1" for b u E and w1 :: "rm_db world"
    by (auto simp: route_to_rm_def wp_simps intro: wp_mono[OF wp_True])
  have "wp (bind (seedInitialUserData u) (\<lambda>_. bind (route_to_rm b u') (\<lambda>_. ret x))) (\<lambda>_ _. True)
      (\<lambda>_ w'. wdb w' = wdb w \<or> (\<exists>i. seeded ((wdb w)\<lparr>users := users (wdb w) @ [?c i]\<rparr>) (wdb w'))) w1"
    if "wdb w1 = (wdb w)\<lparr>users := users (wdb w) @ [?c i]\<rparr>" for u u' i w1 b and x :: "User \<times> bool"
    unfolding wp_bind by (rule wp_mono[OF s[OF that]]) (simp_all add: wp_fun r)
  then show ?thesis
    by (auto simp: register_user_def upsert_user_def wp_bind[of "wrapping _ _"] wp_wrapping wp_exec_id wp_exec Let_def
        wp_if wp_ret split: list.split sum.split option.split prod.split)
qed

text \<open>
  A sign-up that fails while its demo data is written strands the user: the row stays, and
  the next sign-in - with every call working - takes them for a returning user, so a user who
  asked for a relationship manager has none, and gets none by signing in again.
\<close>

theorem failed_signup_strands:
  assumes "desk_inv (wdb w)" "phone_row phone (wdb w) = None"
    and "FindOrCreateUser a astra phone name (Some True) w = (Inl e, w')"
    and "phone_row phone (wdb w') = Some c" "wdb v = wdb w'" "wfaults v = []"
  shows "us_wants c \<and> us_rm c = None \<and>
     FindOrCreateUser a astra phone name (Some True) v = (Inr (user_view c, False), v)"
proof -
  have "wp (FindOrCreateUser a astra phone name (Some True)) (\<lambda>_ _. True)
     (\<lambda>_ w'. wdb w' = wdb w \<or> (\<exists>i. seeded ((wdb w)\<lparr>users := users (wdb w) @ [new_user astra phone name True i (wnow w)]\<rparr>) (wdb w'))) w"
    unfolding FindOrCreateUser_def findByPhone_def wp_bind[of "get_row _ _"] wp_get_row
    using assms(2) wp_register_error[of a astra phone name "Some True" "tick w"] by simp
  from wp_fails[OF this assms(3)] assms(2,4) obtain i
    where "seeded ((wdb w)\<lparr>users := users (wdb w) @ [new_user astra phone name True i (wnow w)]\<rparr>) (wdb w')" by auto
  then have "users (wdb w') = users (wdb w) @ [new_user astra phone name True i (wnow w)]" by (auto simp: seeded_def)
  then have c: "c = new_user astra phone name True i (wnow w)"
    using assms(2,4) by (auto simp: phone_row_def new_user_def)
  have "wp (FindOrCreateUser a astra phone name (Some True)) (\<lambda>r v'. r = (user_view c, False) \<and> v' = v) (\<lambda>_ _. False) v"
    using assms(4-6) c
    by (auto simp: FindOrCreateUser_def findByPhone_def returning_user_def backfill_name_def honour_opt_in_def wp_simps
        faulty_def tick_no_faults new_user_def Let_def)
  then have "FindOrCreateUser a astra phone name (Some True) v = (Inr (user_view c, False), v)"
    by (simp add: wp_eq_returns)
  then show ?thesis using c by (simp add: new_user_def)
qed

text \<open>The look-up, the insert and the 42 demo statements work, then the first snapshot fails.\<close>

lemma failed_signup_strands_witness:
  "\<exists>c v. us_wants c \<and> us_rm c = None \<and>
     FindOrCreateUser True ''a9'' ''p9'' ''Asha'' (Some True) v = (Inr (user_view c, False), v)"
proof -
  let ?w = "signup_world\<lparr>wfaults := replicate 44 False @ [True]\<rparr>"
  let ?run = "FindOrCreateUser True ''a9'' ''p9'' ''Asha'' (Some True) ?w"
  have run: "(case ?run of (r, w') \<Rightarrow> isl r \<and> phone_row ''p9'' (wdb w') \<noteq> None)" by code_simp
  then obtain e w' where r: "?run = (Inl e, w')" by (cases ?run; cases "fst ?run") auto
  have n: "phone_row ''p9'' (wdb ?w) = None" by code_simp
  obtain c where c: "phone_row ''p9'' (wdb w') = Some c" using run r by auto
  have "desk_inv (wdb ?w)" using desk_inv_demo by simp
  from failed_signup_strands[OF this n r c, of "w'\<lparr>wfaults := []\<rparr>"] show ?thesis by auto
qed

section \<open>Turning the opt-in on\<close>

lemma active_ring_edit:
  assumes "\<And>c. us_rm (f c) = us_rm c"
  shows "active_ring (edit_user i f d) = active_ring d"
proof -
  have "client_count (edit_user i f d) r = client_count d r" for r
    by (simp add: client_count_def count_where_update_same assms)
  then show ?thesis by (simp add: active_ring_def slot_of_def)
qed

lemma find_user_edit:
  "find_user i d = Some c \<Longrightarrow> us_id (f c) = i \<Longrightarrow> (\<And>c. us_id (f c) = us_id c) \<Longrightarrow>
   find_user i (edit_user i f d) = Some (f c)"
  by (auto simp: find_user_def first_row_filter_update dest: first_row_filterD)

lemma find_user_moved:
  "find_user u d = Some c \<Longrightarrow> h_user h = u \<Longrightarrow> find_user u (applied d h) = Some (c\<lparr>us_rm := h_to h\<rparr>)"
  by (frule find_user_SomeD) (auto simp: find_user_def first_row_filter_update)

text \<open>
  Turning the advisory opt-in on re-deals the client: when no call fails and the desk is not
  empty, a returning user who already has a manager (assigned by an admin) and now opts in is
  given to whoever the rotation serves next, and the log says they were taken from the
  manager they had.
\<close>

theorem opt_in_reassigns:
  assumes "desk_inv (wdb w)" "wfaults w = []" "wuuids w = x # xs"
    and "phone_row phone (wdb w) = Some c" "\<not> us_wants c" "us_rm c = Some old" "active_ring (wdb w) \<noteq> []"
  shows "\<exists>w'. FindOrCreateUser True astra phone '''' (Some True) w =
       (Inr ((user_view c)\<lparr>usr_wants := True\<rparr>, False), w') \<and>
     owner_of (us_id c) (wdb w') = Some (fst (PickNextRM (active_ring (wdb w)) (after_of (wdb w)))) \<and>
     (\<exists>h. history (wdb w') = history (wdb w) @ [h] \<and> h_from h = Some old \<and> h_action h = ActionAutoAssign)"
proof -
  let ?d = "edit_user (us_id c) (\<lambda>c. c\<lparr>us_wants := True\<rparr>) (wdb w)" and ?c = "c\<lparr>us_wants := True\<rparr>"
  let ?Q = "\<lambda>w'. owner_of (us_id c) (wdb w') = Some (fst (PickNextRM (active_ring (wdb w)) (after_of (wdb w)))) \<and>
     (\<exists>h. history (wdb w') = history (wdb w) @ [h] \<and> h_from h = Some old \<and> h_action h = ActionAutoAssign)"
  have f: "find_user (us_id c) ?d = Some ?c"
    by (rule find_user_edit) (use assms(1,4) desk_inv_find in auto)
  have ring: "active_ring ?d = active_ring (wdb w)" by (rule active_ring_edit) simp
  have inv: "book_inv ?d" using desk_inv_edit[OF assms(1), of "\<lambda>c. c\<lparr>us_wants := True\<rparr>"] by (simp add: desk_inv_def)
  have "wp (AssignNextRM (us_id c)) (\<lambda>_ w'. ?Q w') (\<lambda>_ _. False) (w\<lparr>wdb := ?d\<rparr>)"
  proof (rule wp_mono[OF wp_conj[OF wp_AssignNextRM wp_AssignNextRM_runs]])
    fix m and w' :: "rm_db world"
    assume "(\<exists>r h ov. find_user (us_id c) (wdb (w\<lparr>wdb := ?d\<rparr>)) = Some r \<and>
        PickNextRM (active_ring (wdb (w\<lparr>wdb := ?d\<rparr>))) (after_of (wdb (w\<lparr>wdb := ?d\<rparr>))) = (m, ov, True) \<and>
        is_move h (us_id c) (us_rm r) (Some m) ActionAutoAssign '''' None (wnow (w\<lparr>wdb := ?d\<rparr>)) \<and>
        history_ok h (wdb (w\<lparr>wdb := ?d\<rparr>)) \<and> wdb w' = advanced (applied (wdb (w\<lparr>wdb := ?d\<rparr>)) h) m (wnow (w\<lparr>wdb := ?d\<rparr>))) \<and>
        wfaults w' = [] \<and> wuuids w' = xs \<and> wnow w' = wnow (w\<lparr>wdb := ?d\<rparr>)"
    moreover have "after_of ?d = after_of (wdb w)" by (simp add: after_of_def edit_user_def)
    ultimately obtain h ov where h: "PickNextRM (active_ring (wdb w)) (after_of (wdb w)) = (m, ov, True)"
      "is_move h (us_id c) (Some old) (Some m) ActionAutoAssign '''' None (wnow w)"
      "wdb w' = advanced (applied ?d h) m (wnow w)"
      using f ring assms(6) by auto
    have "find_user (us_id c) (applied ?d h) = Some (?c\<lparr>us_rm := Some m\<rparr>)"
      using find_user_moved[OF f] h(2) by (simp add: is_move_def)
    then show "?Q w'" using h by (simp add: owner_of_def is_move_def) (simp add: advanced_def)
  qed (use assms inv f ring in simp_all)
  then have "wp (FindOrCreateUser True astra phone '''' (Some True)) (\<lambda>r w'. r = ((user_view c)\<lparr>usr_wants := True\<rparr>, False) \<and> ?Q w')
     (\<lambda>_ _. False) w"
    using assms(2,4,5)
    by (simp add: FindOrCreateUser_def findByPhone_def returning_user_def backfill_name_def honour_opt_in_def
        syncRMAssignment_def wp_simps faulty_def tick_no_faults)
      (auto elim!: wp_mono)
  then show ?thesis by (auto simp: wp_def split: prod.splits sum.splits)
qed

definition opted_out :: "rm_db world" where
  "opted_out = signup_world\<lparr>wdb := edit_user ''u1'' (\<lambda>c. c\<lparr>us_wants := False\<rparr>) demo_db\<rparr>"

lemma opt_in_reassigns_witness:
  "\<exists>w'. FindOrCreateUser True ''u1'' ''u1'' '''' (Some True) opted_out =
       (Inr ((user_view (demo_client ''u1'' (Some ''r1'') 1)), False), w') \<and>
     owner_of ''u1'' (wdb w') = Some ''r2''"
proof -
  let ?c = "(demo_client ''u1'' (Some ''r1'') 1)\<lparr>us_wants := False\<rparr>"
  have a: "desk_inv (wdb opted_out)" by code_simp
  have b: "wfaults opted_out = []" "wuuids opted_out = ''u9'' # [''h9'', ''h8'', ''h7'']" by code_simp+
  have c: "phone_row ''u1'' (wdb opted_out) = Some ?c" by code_simp
  have d: "\<not> us_wants ?c" "us_rm ?c = Some ''r1''" "active_ring (wdb opted_out) \<noteq> []" by code_simp+
  have e: "fst (PickNextRM (active_ring (wdb opted_out)) (after_of (wdb opted_out))) = ''r2''" by code_simp
  have g: "(user_view ?c)\<lparr>usr_wants := True\<rparr> = user_view (demo_client ''u1'' (Some ''r1'') 1)" "us_id ?c = ''u1''"
    by code_simp+
  from opt_in_reassigns[OF a b c d, of "''u1''"] show ?thesis unfolding e g by auto
qed

end
