(* ===== verification/RefreshTokens.thy ===== *)
theory RefreshTokens
  imports RmSchema
begin

text \<open>
  The rotating refresh tokens, on both sides of the program: \<open>rm_refresh_tokens\<close> for staff
  (\<open>internal/repository/rm_repo.go\<close>) and \<open>refresh_tokens\<close> for app users
  (\<open>internal/repository/user_repo.go\<close>). Both keep only a hash of the token. What a client of
  either store relies on is stated once, as the locale \<open>refresh_store\<close>, proved for its own
  lemmas there and interpreted on both repositories. \<open>UPDATE\<close> on a row and the transaction
  around it are atomic, so concurrent rotations of one token take effect one after the other.
\<close>

section \<open>Statements on a token table\<close>

definition usable :: "int \<Rightarrow> string \<Rightarrow> token_row \<Rightarrow> bool" where
  "usable t h r \<longleftrightarrow> tok_hash r = h \<and> tok_revoked r = None \<and> tok_expires r > t"

definition new_token :: "uuid \<Rightarrow> uuid \<Rightarrow> string \<Rightarrow> int \<Rightarrow> token_row" where
  "new_token i owner h ex = \<lparr>tok_id = i, tok_owner = owner, tok_hash = h, tok_expires = ex, tok_revoked = None\<rparr>"

text \<open>Primary key, UNIQUE (token_hash) and VARCHAR(64).\<close>

definition token_ok :: "token_row \<Rightarrow> token_row list \<Rightarrow> bool" where
  "token_ok r rs \<longleftrightarrow> length (tok_hash r) \<le> 64 \<and> list_all (\<lambda>o'. tok_hash o' \<noteq> tok_hash r \<and> tok_id o' \<noteq> tok_id r) rs"

definition revoke_usable :: "int \<Rightarrow> string \<Rightarrow> token_row list \<Rightarrow> token_row list" where
  "revoke_usable t h rs = update_where (usable t h) (\<lambda>r. r\<lparr>tok_revoked := Some t\<rparr>) rs"

definition revoke_hash :: "int \<Rightarrow> string \<Rightarrow> token_row list \<Rightarrow> token_row list" where
  "revoke_hash t h rs = update_where (\<lambda>r. tok_hash r = h \<and> tok_revoked r = None) (\<lambda>r. r\<lparr>tok_revoked := Some t\<rparr>) rs"

section \<open>Staff tokens\<close>

definition rm_insert_token :: "string \<Rightarrow> uuid \<Rightarrow> string \<Rightarrow> int \<Rightarrow> (rm_db, unit) act" where
  "rm_insert_token msg rmID tokenHash expiresAt = wrapping msg
     (exec_id (\<lambda>i t d. let r = new_token i rmID tokenHash expiresAt in
        if fk_staff (Some rmID) d \<and> token_ok r (rm_tokens d)
        then Inr ((), d\<lparr>rm_tokens := rm_tokens d @ [r]\<rparr>) else Inl (Sent ErrConstraint)))"

definition rm_CreateRefreshToken :: "uuid \<Rightarrow> string \<Rightarrow> int \<Rightarrow> (rm_db, unit) act" where
  "rm_CreateRefreshToken rmID tokenHash expiresAt =
     rm_insert_token ''create rm refresh token'' rmID tokenHash expiresAt"

definition rm_GetRefreshToken :: "string \<Rightarrow> (rm_db, token_row option) act" where
  "rm_GetRefreshToken tokenHash = get_row ''get rm refresh token''
     (\<lambda>_ d. first_row (filter (\<lambda>r. tok_hash r = tokenHash) (rm_tokens d)))"

definition rm_RevokeRefreshToken :: "string \<Rightarrow> (rm_db, unit) act" where
  "rm_RevokeRefreshToken tokenHash = wrapping ''revoke rm refresh token''
     (exec_upd (\<lambda>t d. d\<lparr>rm_tokens := revoke_hash t tokenHash (rm_tokens d)\<rparr>))"

text \<open>The UPDATE ... RETURNING both consumers start with: no usable row is no row.\<close>

definition rm_consume :: "string \<Rightarrow> (rm_db, uuid option) act" where
  "rm_consume tokenHash =
     bind (attempt (exec (\<lambda>t d. case first_row (filter (usable t tokenHash) (rm_tokens d)) of
             None \<Rightarrow> Inl (Sent ErrNoRows)
           | Some r \<Rightarrow> Inr (tok_owner r, d\<lparr>rm_tokens := revoke_usable t tokenHash (rm_tokens d)\<rparr>))))
       (\<lambda>res. case res of
          Inl e \<Rightarrow> (if errors_is e ErrNoRows then ret None else fail (Wrap ''consume rm refresh token'' e))
        | Inr rmID \<Rightarrow> ret (Some rmID))"

definition rm_RotateRefreshToken :: "string \<Rightarrow> string \<Rightarrow> int \<Rightarrow> (rm_db, uuid option) act" where
  "rm_RotateRefreshToken oldHash newHash newExpiresAt =
     txo (Wrap ''begin rm refresh rotation'') (Wrap ''commit rm refresh rotation'')
       (bind (rm_consume oldHash) (\<lambda>got. case got of
            None \<Rightarrow> ret None
          | Some rmID \<Rightarrow> bind (rm_insert_token ''create rm refresh token'' rmID newHash newExpiresAt)
                           (\<lambda>_. ret (Some rmID))))"

definition rm_ConsumeRefreshToken :: "string \<Rightarrow> (rm_db, uuid option) act" where
  "rm_ConsumeRefreshToken tokenHash = rm_consume tokenHash"

section \<open>App user tokens\<close>

definition user_insert_token :: "string \<Rightarrow> uuid \<Rightarrow> string \<Rightarrow> int \<Rightarrow> (rm_db, unit) act" where
  "user_insert_token msg userID tokenHash expiresAt = wrapping msg
     (exec_id (\<lambda>i t d. let r = new_token i userID tokenHash expiresAt in
        if fk_user userID d \<and> token_ok r (user_tokens d)
        then Inr ((), d\<lparr>user_tokens := user_tokens d @ [r]\<rparr>) else Inl (Sent ErrConstraint)))"

definition user_CreateRefreshToken :: "uuid \<Rightarrow> string \<Rightarrow> int \<Rightarrow> (rm_db, unit) act" where
  "user_CreateRefreshToken userID tokenHash expiresAt =
     user_insert_token ''create refresh token'' userID tokenHash expiresAt"

definition user_GetRefreshToken :: "string \<Rightarrow> (rm_db, token_row option) act" where
  "user_GetRefreshToken tokenHash = get_row ''get refresh token''
     (\<lambda>_ d. first_row (filter (\<lambda>r. tok_hash r = tokenHash) (user_tokens d)))"

definition user_RevokeRefreshToken :: "string \<Rightarrow> (rm_db, unit) act" where
  "user_RevokeRefreshToken tokenHash = wrapping ''revoke refresh token''
     (exec_upd (\<lambda>t d. d\<lparr>user_tokens := revoke_hash t tokenHash (user_tokens d)\<rparr>))"

definition user_consume :: "string \<Rightarrow> (rm_db, uuid option) act" where
  "user_consume tokenHash =
     bind (attempt (exec (\<lambda>t d. case first_row (filter (usable t tokenHash) (user_tokens d)) of
             None \<Rightarrow> Inl (Sent ErrNoRows)
           | Some r \<Rightarrow> Inr (tok_owner r, d\<lparr>user_tokens := revoke_usable t tokenHash (user_tokens d)\<rparr>))))
       (\<lambda>res. case res of
          Inl e \<Rightarrow> (if errors_is e ErrNoRows then ret None else fail (Wrap ''consume refresh token'' e))
        | Inr userID \<Rightarrow> ret (Some userID))"

definition user_RotateRefreshToken :: "string \<Rightarrow> string \<Rightarrow> int \<Rightarrow> (rm_db, uuid option) act" where
  "user_RotateRefreshToken oldHash newHash newExpiresAt =
     txo (Wrap ''begin refresh rotation'') (Wrap ''commit refresh rotation'')
       (bind (user_consume oldHash) (\<lambda>got. case got of
            None \<Rightarrow> ret None
          | Some userID \<Rightarrow> bind (user_insert_token ''create refresh token'' userID newHash newExpiresAt)
                             (\<lambda>_. ret (Some userID))))"

definition user_ConsumeRefreshToken :: "string \<Rightarrow> (rm_db, uuid option) act" where
  "user_ConsumeRefreshToken tokenHash = user_consume tokenHash"

section \<open>What a rotation does to the table\<close>

definition tokens_ok :: "token_row list \<Rightarrow> bool" where
  "tokens_ok rs \<longleftrightarrow> distinct (map tok_hash rs) \<and> distinct (map tok_id rs)"

definition live_owner :: "int \<Rightarrow> string \<Rightarrow> token_row list \<Rightarrow> uuid option" where
  "live_owner t h rs = map_option tok_owner (first_row (filter (usable t h) rs))"

text \<open>Presented and retired: a row with this hash exists and is revoked.\<close>

definition used :: "string \<Rightarrow> token_row list \<Rightarrow> bool" where
  "used h rs \<longleftrightarrow> list_ex (\<lambda>r. tok_hash r = h \<and> tok_revoked r \<noteq> None) rs"

definition issued :: "uuid \<Rightarrow> string \<Rightarrow> int \<Rightarrow> token_row list \<Rightarrow> token_row list \<Rightarrow> bool" where
  "issued u h ex rs rs' \<longleftrightarrow> h \<notin> tok_hash ` set rs \<and> (\<exists>i. i \<notin> tok_id ` set rs \<and> rs' = rs @ [new_token i u h ex])"

definition rotated :: "int \<Rightarrow> string \<Rightarrow> string \<Rightarrow> int \<Rightarrow> uuid option \<Rightarrow> token_row list \<Rightarrow> token_row list \<Rightarrow> bool" where
  "rotated t old new ex r rs rs' \<longleftrightarrow> (case r of
      None \<Rightarrow> rs' = rs \<and> live_owner t old rs = None
    | Some u \<Rightarrow> live_owner t old rs = Some u \<and> issued u new ex (revoke_usable t old rs) rs')"

lemma map_revoke [simp]:
  "map tok_hash (revoke_usable t h rs) = map tok_hash rs" "map tok_id (revoke_usable t h rs) = map tok_id rs"
  "map tok_hash (revoke_hash t h rs) = map tok_hash rs" "map tok_id (revoke_hash t h rs) = map tok_id rs"
  "map tok_owner (revoke_usable t h rs) = map tok_owner rs" "map tok_owner (revoke_hash t h rs) = map tok_owner rs"
  by (simp_all add: revoke_usable_def revoke_hash_def map_update_where)

lemma tokens_ok_revoke [simp]:
  "tokens_ok (revoke_usable t h rs) = tokens_ok rs" "tokens_ok (revoke_hash t h rs) = tokens_ok rs"
  by (simp_all add: tokens_ok_def)

lemma tokens_ok_issued: "tokens_ok rs \<Longrightarrow> issued u h ex rs rs' \<Longrightarrow> tokens_ok rs'"
  by (auto simp: tokens_ok_def issued_def new_token_def)

lemma tokens_ok_rotated: "tokens_ok rs \<Longrightarrow> rotated t old new ex r rs rs' \<Longrightarrow> tokens_ok rs'"
  by (auto simp: rotated_def split: option.splits intro: tokens_ok_issued[of "revoke_usable t old rs"])

lemma used_update: "used h rs \<Longrightarrow> (\<And>r. tok_hash (f r) = tok_hash r \<and> (tok_revoked r \<noteq> None \<longrightarrow> tok_revoked (f r) \<noteq> None)) \<Longrightarrow>
    used h (update_where p f rs)"
  by (induction rs) (auto simp: used_def)

lemma used_revoke: "used h rs \<Longrightarrow> used h (revoke_usable t g rs)" "used h rs \<Longrightarrow> used h (revoke_hash t g rs)"
  by (simp_all add: revoke_usable_def revoke_hash_def used_update)

lemma used_issued: "used h rs \<Longrightarrow> issued u g ex rs rs' \<Longrightarrow> used h rs'"
  by (auto simp: used_def issued_def)

lemma used_rotated: "used h rs \<Longrightarrow> rotated t old new ex r rs rs' \<Longrightarrow> used h rs'"
  by (auto simp: rotated_def split: option.splits intro: used_issued used_revoke)

lemma live_revoked: "live_owner t h rs = Some u \<Longrightarrow> used h (revoke_usable t h rs)"
  by (induction rs) (auto simp: live_owner_def used_def revoke_usable_def usable_def split: if_splits)

lemma rotated_used: "rotated t old new ex (Some u) rs rs' \<Longrightarrow> used old rs'"
  by (auto simp: rotated_def intro: used_issued live_revoked)

lemma hash_revoked: "h \<in> tok_hash ` set rs \<Longrightarrow> used h (revoke_hash t h rs)"
  by (induction rs) (auto simp: used_def revoke_hash_def)

lemma used_not_live:
  assumes "tokens_ok rs" "used h rs"
  shows "live_owner t h rs = None"
proof -
  obtain r where r: "r \<in> set rs" "tok_hash r = h" "tok_revoked r \<noteq> None"
    using assms(2) by (auto simp: used_def list_ex_iff)
  have "\<not> usable t h s" if "s \<in> set rs" for s
    using map_key_unique[of tok_hash rs s r] that r assms(1) by (auto simp: usable_def tokens_ok_def)
  then show ?thesis by (simp add: live_owner_def filter_empty_conv)
qed

section \<open>The contract of a refresh-token store\<close>

datatype token_call = Rotate string string int | Issue uuid string int | Revoke string

fun token_step :: "(string \<Rightarrow> string \<Rightarrow> int \<Rightarrow> ('d, uuid option) act) \<Rightarrow> (uuid \<Rightarrow> string \<Rightarrow> int \<Rightarrow> ('d, unit) act) \<Rightarrow>
    (string \<Rightarrow> ('d, unit) act) \<Rightarrow> token_call \<Rightarrow> ('d, uuid option) act" where
  "token_step rot cre rvk (Rotate old new ex) = rot old new ex"
| "token_step rot cre rvk (Issue u h ex) = bind (cre u h ex) (\<lambda>_. ret None)"
| "token_step rot cre rvk (Revoke h) = bind (rvk h) (\<lambda>_. ret None)"

text \<open>A call that presented \<open>h\<close> for rotation and got a session for it.\<close>

definition accepted :: "string \<Rightarrow> token_call \<times> (goerr + uuid option) \<Rightarrow> bool" where
  "accepted h x \<longleftrightarrow> (case x of (Rotate old new ex, Inr (Some u)) \<Rightarrow> old = h | _ \<Rightarrow> False)"

locale refresh_store =
  fixes rotate :: "string \<Rightarrow> string \<Rightarrow> int \<Rightarrow> ('d, uuid option) act"
    and create :: "uuid \<Rightarrow> string \<Rightarrow> int \<Rightarrow> ('d, unit) act"
    and revoke :: "string \<Rightarrow> ('d, unit) act"
    and tokens :: "'d \<Rightarrow> token_row list"
  assumes rotate_law:
    "wp (rotate old new ex)
       (\<lambda>r w'. rotated (wnow w) old new ex r (tokens (wdb w)) (tokens (wdb w')))
       (\<lambda>_ w'. tokens (wdb w') = tokens (wdb w)) w"
    and create_law:
    "wp (create u h ex) (\<lambda>_ w'. issued u h ex (tokens (wdb w)) (tokens (wdb w')))
       (\<lambda>_ w'. tokens (wdb w') = tokens (wdb w)) w"
    and revoke_law:
    "wp (revoke h) (\<lambda>_ w'. tokens (wdb w') = revoke_hash (wnow w) h (tokens (wdb w)))
       (\<lambda>_ w'. tokens (wdb w') = tokens (wdb w)) w"
begin

abbreviation call :: "token_call \<Rightarrow> ('d, uuid option) act" where
  "call \<equiv> token_step rotate create revoke"

lemma call_keeps:
  assumes rot: "\<And>t old new ex r rs rs'. P rs \<Longrightarrow> rotated t old new ex r rs rs' \<Longrightarrow> P rs'"
    and iss: "\<And>u h ex rs rs'. P rs \<Longrightarrow> issued u h ex rs rs' \<Longrightarrow> P rs'"
    and rev: "\<And>t h rs. P rs \<Longrightarrow> P (revoke_hash t h rs)"
    and P: "P (tokens (wdb w))"
  shows "P (tokens (wdb (snd (call c w))))"
proof (rule wp_result)
  have "wp (rotate old new ex) (\<lambda>_ w'. P (tokens (wdb w'))) (\<lambda>_ w'. P (tokens (wdb w'))) w" for old new ex
    by (rule wp_mono[OF rotate_law]) (use P in \<open>auto intro: rot\<close>)
  moreover have "wp (create u h ex) (\<lambda>_ w'. P (tokens (wdb w'))) (\<lambda>_ w'. P (tokens (wdb w'))) w" for u h ex
    by (rule wp_mono[OF create_law]) (use P in \<open>auto intro: iss\<close>)
  moreover have "wp (revoke h) (\<lambda>_ w'. P (tokens (wdb w'))) (\<lambda>_ w'. P (tokens (wdb w'))) w" for h
    by (rule wp_mono[OF revoke_law]) (use P in \<open>auto intro: rev\<close>)
  ultimately show "wp (call c) (\<lambda>_ w'. P (tokens (wdb w'))) (\<lambda>_ w'. P (tokens (wdb w'))) w"
    by (cases c) (simp_all add: wp_simps)
qed

lemma call_ok: "tokens_ok (tokens (wdb w)) \<Longrightarrow> tokens_ok (tokens (wdb (snd (call c w))))"
  by (rule call_keeps[where P = tokens_ok]) (auto intro: tokens_ok_rotated tokens_ok_issued)

lemma call_used: "used g (tokens (wdb w)) \<Longrightarrow> used g (tokens (wdb (snd (call c w))))"
  by (rule call_keeps[where P = "used g"]) (auto intro: used_rotated used_issued used_revoke)

lemma rotate_success:
  assumes "rotate old new ex w = (Inr (Some u), w')"
  shows "live_owner (wnow w) old (tokens (wdb w)) = Some u" "used old (tokens (wdb w'))"
  using wp_returns[OF rotate_law assms] by (auto simp: rotated_used) (simp add: rotated_def)

lemma used_never_accepted:
  "tokens_ok (tokens (wdb w)) \<Longrightarrow> used h (tokens (wdb w)) \<Longrightarrow> count_where (accepted h) (results call w es) = 0"
proof (induction es arbitrary: w)
  case Nil
  then show ?case by simp
next
  case (Cons x es)
  obtain c e where x: "x = (c, e)" by (cases x)
  let ?v = "next_world w e"
  obtain r w' where r: "call c ?v = (r, w')" by (cases "call c ?v")
  have "tokens_ok (tokens (wdb w'))" "used h (tokens (wdb w'))"
    using call_ok[of ?v c] call_used[of h ?v c] Cons.prems r by simp_all
  then have rest: "count_where (accepted h) (results call w' es) = 0" by (rule Cons.IH)
  have "\<not> accepted h (c, r)"
  proof
    assume "accepted h (c, r)"
    then obtain new ex u where "c = Rotate h new ex" "r = Inr (Some u)"
      by (auto simp: accepted_def split: token_call.splits sum.splits option.splits)
    then have "live_owner (wnow ?v) h (tokens (wdb ?v)) = Some u"
      using rotate_success(1)[of h new ex ?v u w'] r by simp
    then show False using used_not_live Cons.prems by simp
  qed
  then show ?case using rest r by (simp add: x)
qed

lemma single_use:
  "tokens_ok (tokens (wdb w)) \<Longrightarrow> count_where (accepted h) (results call w es) \<le> 1"
proof (induction es arbitrary: w)
  case Nil
  then show ?case by simp
next
  case (Cons x es)
  obtain c e where x: "x = (c, e)" by (cases x)
  let ?v = "next_world w e"
  obtain r w' where r: "call c ?v = (r, w')" by (cases "call c ?v")
  have ok: "tokens_ok (tokens (wdb w'))" using call_ok[of ?v c] Cons.prems r by simp
  show ?case
  proof (cases "accepted h (c, r)")
    case True
    then obtain new ex u where "c = Rotate h new ex" "r = Inr (Some u)"
      by (auto simp: accepted_def split: token_call.splits sum.splits option.splits)
    then have "used h (tokens (wdb w'))" using rotate_success(2)[of h new ex ?v u w'] r by simp
    then show ?thesis using used_never_accepted[OF ok] r by (simp add: x)
  next
    case False
    then show ?thesis using Cons.IH[OF ok] r by (simp add: x)
  qed
qed

end

section \<open>Both repositories satisfy it\<close>

lemma issued_insert:
  "token_ok (new_token i u h ex) rs \<Longrightarrow> issued u h ex rs (rs @ [new_token i u h ex])"
  by (auto simp: issued_def token_ok_def list_all_iff new_token_def)

lemma rm_tokens_upd [simp]: "rm_tokens (d\<lparr>rm_tokens := ts\<rparr>) = ts" by simp

lemma rm_insert_law:
  "wp (rm_insert_token msg u h ex)
     (\<lambda>_ w'. issued u h ex (rm_tokens (wdb w)) (rm_tokens (wdb w')) \<and>
        wdb w' = (wdb w)\<lparr>rm_tokens := rm_tokens (wdb w')\<rparr>)
     (\<lambda>_ w'. wdb w' = wdb w) w"
  by (auto simp: rm_insert_token_def wp_simps Let_def split: list.splits intro: issued_insert)

lemma rm_consume_law:
  "wp (rm_consume h)
     (\<lambda>r w'. r = live_owner (wnow w) h (rm_tokens (wdb w)) \<and> wnow w' = wnow w \<and>
        wdb w' = (if r = None then wdb w
                  else (wdb w)\<lparr>rm_tokens := revoke_usable (wnow w) h (rm_tokens (wdb w))\<rparr>))
     (\<lambda>_ w'. wdb w' = wdb w) w"
  by (auto simp: rm_consume_def wp_simps live_owner_def split: option.splits)

lemma rm_rotate_law:
  "wp (rm_RotateRefreshToken old new ex)
     (\<lambda>r w'. rotated (wnow w) old new ex r (rm_tokens (wdb w)) (rm_tokens (wdb w')) \<and>
        wdb w' = (wdb w)\<lparr>rm_tokens := rm_tokens (wdb w')\<rparr>)
     (\<lambda>_ w'. wdb w' = wdb w) w"
  unfolding rm_RotateRefreshToken_def
  apply (simp add: wp_txo)
  apply (rule impI)
  apply (simp add: wp_bind)
  apply (rule wp_mono[OF rm_consume_law])
   apply (auto simp: wp_simps rotated_def split: option.splits intro!: wp_mono[OF rm_insert_law])
  done

interpretation rm_store: refresh_store rm_RotateRefreshToken rm_CreateRefreshToken rm_RevokeRefreshToken rm_tokens
proof unfold_locales
  show "wp (rm_RotateRefreshToken old new ex)
       (\<lambda>r w'. rotated (wnow w) old new ex r (rm_tokens (wdb w)) (rm_tokens (wdb w')))
       (\<lambda>_ w'. rm_tokens (wdb w') = rm_tokens (wdb w)) w" for old new ex w
    by (rule wp_mono[OF rm_rotate_law]) auto
  show "wp (rm_CreateRefreshToken u h ex) (\<lambda>_ w'. issued u h ex (rm_tokens (wdb w)) (rm_tokens (wdb w')))
       (\<lambda>_ w'. rm_tokens (wdb w') = rm_tokens (wdb w)) w" for u h ex w
    unfolding rm_CreateRefreshToken_def by (rule wp_mono[OF rm_insert_law]) auto
  show "wp (rm_RevokeRefreshToken h) (\<lambda>_ w'. rm_tokens (wdb w') = revoke_hash (wnow w) h (rm_tokens (wdb w)))
       (\<lambda>_ w'. rm_tokens (wdb w') = rm_tokens (wdb w)) w" for h w
    by (simp add: rm_RevokeRefreshToken_def wp_simps)
qed

lemma user_insert_law:
  "wp (user_insert_token msg u h ex)
     (\<lambda>_ w'. issued u h ex (user_tokens (wdb w)) (user_tokens (wdb w')) \<and>
        wdb w' = (wdb w)\<lparr>user_tokens := user_tokens (wdb w')\<rparr>)
     (\<lambda>_ w'. wdb w' = wdb w) w"
  by (auto simp: user_insert_token_def wp_simps Let_def split: list.splits intro: issued_insert)

lemma user_consume_law:
  "wp (user_consume h)
     (\<lambda>r w'. r = live_owner (wnow w) h (user_tokens (wdb w)) \<and> wnow w' = wnow w \<and>
        wdb w' = (if r = None then wdb w
                  else (wdb w)\<lparr>user_tokens := revoke_usable (wnow w) h (user_tokens (wdb w))\<rparr>))
     (\<lambda>_ w'. wdb w' = wdb w) w"
  by (auto simp: user_consume_def wp_simps live_owner_def split: option.splits)

lemma user_rotate_law:
  "wp (user_RotateRefreshToken old new ex)
     (\<lambda>r w'. rotated (wnow w) old new ex r (user_tokens (wdb w)) (user_tokens (wdb w')) \<and>
        wdb w' = (wdb w)\<lparr>user_tokens := user_tokens (wdb w')\<rparr>)
     (\<lambda>_ w'. wdb w' = wdb w) w"
  unfolding user_RotateRefreshToken_def
  apply (simp add: wp_txo)
  apply (rule impI)
  apply (simp add: wp_bind)
  apply (rule wp_mono[OF user_consume_law])
   apply (auto simp: wp_simps rotated_def split: option.splits intro!: wp_mono[OF user_insert_law])
  done

interpretation user_store: refresh_store user_RotateRefreshToken user_CreateRefreshToken
  user_RevokeRefreshToken user_tokens
proof unfold_locales
  show "wp (user_RotateRefreshToken old new ex)
       (\<lambda>r w'. rotated (wnow w) old new ex r (user_tokens (wdb w)) (user_tokens (wdb w')))
       (\<lambda>_ w'. user_tokens (wdb w') = user_tokens (wdb w)) w" for old new ex w
    by (rule wp_mono[OF user_rotate_law]) auto
  show "wp (user_CreateRefreshToken u h ex) (\<lambda>_ w'. issued u h ex (user_tokens (wdb w)) (user_tokens (wdb w')))
       (\<lambda>_ w'. user_tokens (wdb w') = user_tokens (wdb w)) w" for u h ex w
    unfolding user_CreateRefreshToken_def by (rule wp_mono[OF user_insert_law]) auto
  show "wp (user_RevokeRefreshToken h) (\<lambda>_ w'. user_tokens (wdb w') = revoke_hash (wnow w) h (user_tokens (wdb w)))
       (\<lambda>_ w'. user_tokens (wdb w') = user_tokens (wdb w)) w" for h w
    by (simp add: user_RevokeRefreshToken_def wp_simps)
qed

section \<open>What a client may rely on\<close>

text \<open>
  C4. A refresh token of the staff console is good for one rotation: in any sequence of
  rotations, logins and log-outs, at any times and with any pattern of failing database
  calls, at most one presentation of a given token is answered with a session.
\<close>

theorem rm_refresh_single_use:
  assumes "tokens_ok (rm_tokens (wdb w))"
  shows "count_where (accepted h)
     (results (token_step rm_RotateRefreshToken rm_CreateRefreshToken rm_RevokeRefreshToken) w es) \<le> 1"
  using assms by (rule rm_store.single_use)

text \<open>One usable token \<open>t1\<close> of staff member \<open>s1\<close>, presented twice.\<close>

definition token_demo :: "rm_db world" where
  "token_demo = \<lparr>wdb = \<lparr>
     rm_users = [\<lparr>st_id = ''s1'', st_code = ''E1'', st_email = ''a@b'', st_name = ''A'', st_phone = None,
                  st_role = RoleRM, st_status = StatusActive, st_max = 5, st_created = 0, st_updated = 0\<rparr>],
     users = [\<lparr>us_id = ''u1'', us_astra = ''a'', us_phone = ''1'', us_name = None, us_wants = False,
               us_rm = None, us_created = 0\<rparr>],
     history = [], queue_state = \<lparr>q_last = None, q_seq = 0, q_updated = 0\<rparr>, otp_codes = [],
     rm_tokens = [new_token ''i1'' ''s1'' ''t1'' 100], user_tokens = [new_token ''i2'' ''u1'' ''t1'' 100],
     interactions = [], snapshots = []\<rparr>,
     wfaults = [], wnow = 10, wrand = [], wuuids = []\<rparr>"

definition replay :: "(token_call \<times> int \<times> bool list \<times> nat list \<times> uuid list) list" where
  "replay = [(Rotate ''t1'' ''t2'' 200, 1, [], [], [''i3'']), (Rotate ''t1'' ''t3'' 200, 1, [], [], [''i4''])]"

lemma rm_refresh_single_use_witness:
  "count_where (accepted ''t1'')
     (results (token_step rm_RotateRefreshToken rm_CreateRefreshToken rm_RevokeRefreshToken) token_demo replay) = 1"
proof -
  let ?n = "count_where (accepted ''t1'')
     (results (token_step rm_RotateRefreshToken rm_CreateRefreshToken rm_RevokeRefreshToken) token_demo replay)"
  have "tokens_ok (rm_tokens (wdb token_demo))" by code_simp
  then have "?n \<le> 1" by (rule rm_refresh_single_use)
  moreover have "?n > 0" by code_simp
  ultimately show ?thesis by simp
qed

text \<open>
  Rotation on the app's side is all or nothing: a success means the presented token was
  usable, retires it for good, and stores exactly the replacement for the same user; a
  refusal means no usable token had that hash and changes nothing; an error, at whatever call
  of the transaction, changes nothing either, so the old token can be presented again.
\<close>

theorem user_rotation_atomic:
  "case user_RotateRefreshToken old new ex w of
     (Inl e, w') \<Rightarrow> wdb w' = wdb w
   | (Inr None, w') \<Rightarrow> wdb w' = wdb w \<and> live_owner (wnow w) old (user_tokens (wdb w)) = None
   | (Inr (Some u), w') \<Rightarrow> live_owner (wnow w) old (user_tokens (wdb w)) = Some u \<and>
       used old (user_tokens (wdb w')) \<and>
       issued u new ex (revoke_usable (wnow w) old (user_tokens (wdb w))) (user_tokens (wdb w')) \<and>
       wdb w' = (wdb w)\<lparr>user_tokens := user_tokens (wdb w')\<rparr>"
proof (cases "user_RotateRefreshToken old new ex w")
  case (Pair r w')
  note spec = user_rotate_law[of old new ex w]
  show ?thesis
  proof (cases r)
    case (Inl e)
    then show ?thesis using wp_fails[OF spec] Pair by simp
  next
    case (Inr x)
    then have "rotated (wnow w) old new ex x (user_tokens (wdb w)) (user_tokens (wdb w'))"
      "wdb w' = (wdb w)\<lparr>user_tokens := user_tokens (wdb w')\<rparr>"
      using wp_returns[OF spec] Pair by simp_all
    then show ?thesis using Pair Inr rotated_used by (cases x) (auto simp: rotated_def)
  qed
qed

end
