(* ===== verification/RmAuth.thy ===== *)
theory RmAuth
  imports RmStaff RefreshTokens ApiResponse
begin

text \<open>
  Staff login: \<open>internal/service/rmauth.go\<close> over the one-time-code half of
  \<open>internal/repository/rm_repo.go\<close> and the refresh-token store. The SHA-256 of a text is the
  parameter \<open>hash\<close>, the JWT library's signing is the parameter \<open>sign\<close>, and the optional HRMS
  check is the interface value \<open>hrms\<close> the service holds.
\<close>

section \<open>Constants and claims\<close>

definition RefreshTokenTTL :: int where "RefreshTokenTTL = 30 * 24 * 3600 * second"
definition RMAccessTokenTTL :: int where "RMAccessTokenTTL = 24 * 3600 * second"
definition rmOTPTTL :: int where "rmOTPTTL = 10 * 60 * second"
definition rmOTPMaxAttempts :: int where "rmOTPMaxAttempts = 5"

record RMClaims =
  cl_rm :: uuid
  cl_role :: string
  cl_expires :: int
  cl_issued :: int
  cl_audience :: "string list"

record TokenPair =
  tp_access :: string
  tp_refresh :: string
  tp_role :: string
  tp_rm :: Public

record OTPSendResponse =
  os_sent :: bool
  os_masked :: string

record UpdateProfileRequest =
  pr_name :: "string option"
  pr_email :: "string option"
  pr_phone :: "string option"

text \<open>The service: its secrets, its development code, its collaborators.\<close>

record auth_env =
  hash :: "string \<Rightarrow> string"
  sign :: "RMClaims \<Rightarrow> goerr + string"
  otpDevCode :: string
  hrms :: "(string \<Rightarrow> goerr + bool) option"

section \<open>Random tokens and codes\<close>

text \<open>\<open>base64.RawURLEncoding\<close> of 32 random bytes, read as a 256-bit number: 43 digits.\<close>

definition b64_char :: "nat \<Rightarrow> char" where
  "b64_char n = (if n < 26 then char_of (65 + n) else if n < 52 then char_of (71 + n)
     else if n < 62 then char_of (n - 4) else if n = 62 then CHR ''-'' else CHR ''_'')"

definition raw_url32 :: "nat \<Rightarrow> string" where
  "raw_url32 n = map (\<lambda>i. b64_char ((4 * (n mod 2 ^ 256)) div 64 ^ (42 - i) mod 64)) [0..<43]"

definition generateOpaqueToken :: "auth_env \<Rightarrow> (rm_db, string \<times> string) act" where
  "generateOpaqueToken env = bind (wrapping ''generate refresh token'' rand_nat)
     (\<lambda>n. let plaintext = raw_url32 n in ret (plaintext, hash env plaintext))"

definition generateNumericOTP :: "(rm_db, string) act" where
  "generateNumericOTP = bind (wrapping ''generate otp'' rand_nat)
     (\<lambda>n. ret (pad_zero 6 (itoa_nat (n mod 1000000))))"

definition maskPhone :: "string \<Rightarrow> string" where
  "maskPhone phone = (let p = trim_space phone in
     if length p \<le> 4 then concat (replicate 4 bullet)
     else concat (replicate 6 bullet) @ drop (length p - 4) p)"

definition generateAccessToken :: "auth_env \<Rightarrow> uuid \<Rightarrow> string \<Rightarrow> (rm_db, string) act" where
  "generateAccessToken env rmID role = bind time_now (\<lambda>t.
     case sign env \<lparr>cl_rm = rmID, cl_role = role, cl_expires = (t + RMAccessTokenTTL) div second,
             cl_issued = t div second, cl_audience = [''rm-console'']\<rparr> of
       Inl e \<Rightarrow> fail (Wrap ''sign rm token'' e) | Inr s \<Rightarrow> ret s)"

section \<open>One-time codes: the repository\<close>

definition CreateOTP :: "uuid \<Rightarrow> string \<Rightarrow> int \<Rightarrow> (rm_db, unit) act" where
  "CreateOTP rmID codeHash expiresAt = wrapping ''create rm otp''
     (exec_id (\<lambda>i t d.
        if fk_staff (Some rmID) d \<and> length codeHash \<le> 64 \<and> list_all (\<lambda>c. otp_id c \<noteq> i) (otp_codes d)
        then Inr ((), d\<lparr>otp_codes := otp_codes d @
               [\<lparr>otp_id = i, otp_rm = rmID, otp_hash = codeHash, otp_expires = expiresAt,
                 otp_consumed = None, otp_attempts = 0, otp_created = t\<rparr>]\<rparr>)
        else Inl (Sent ErrConstraint)))"

definition active_otp :: "uuid \<Rightarrow> int \<Rightarrow> otp_row \<Rightarrow> bool" where
  "active_otp rmID t c \<longleftrightarrow> otp_rm c = rmID \<and> otp_consumed c = None \<and> otp_expires c > t"

definition latest_otp :: "uuid \<Rightarrow> int \<Rightarrow> rm_db \<Rightarrow> otp_row option" where
  "latest_otp rmID t d = first_row (order_desc otp_created (filter (active_otp rmID t) (otp_codes d)))"

definition LatestActiveOTP :: "uuid \<Rightarrow> (rm_db, otp_row option) act" where
  "LatestActiveOTP rmID = get_row ''latest active rm otp'' (latest_otp rmID)"

definition otp_where :: "(otp_row \<Rightarrow> bool) \<Rightarrow> (otp_row \<Rightarrow> otp_row) \<Rightarrow> rm_db \<Rightarrow> rm_db" where
  "otp_where p f d = d\<lparr>otp_codes := update_where p f (otp_codes d)\<rparr>"

definition IncrementOTPAttempts :: "uuid \<Rightarrow> (rm_db, unit) act" where
  "IncrementOTPAttempts i = wrapping ''increment rm otp attempts''
     (exec_upd (\<lambda>_. otp_where (\<lambda>c. otp_id c = i) (\<lambda>c. c\<lparr>otp_attempts := otp_attempts c + 1\<rparr>)))"

definition ConsumeOTP :: "uuid \<Rightarrow> (rm_db, unit) act" where
  "ConsumeOTP i = wrapping ''consume rm otp''
     (exec_upd (\<lambda>t. otp_where (\<lambda>c. otp_id c = i \<and> otp_consumed c = None) (\<lambda>c. c\<lparr>otp_consumed := Some t\<rparr>)))"

definition InvalidateOTPs :: "uuid \<Rightarrow> (rm_db, unit) act" where
  "InvalidateOTPs rmID = wrapping ''invalidate rm otps''
     (exec_upd (\<lambda>t. otp_where (\<lambda>c. otp_rm c = rmID \<and> otp_consumed c = None) (\<lambda>c. c\<lparr>otp_consumed := Some t\<rparr>)))"

section \<open>The service\<close>

definition issueTokenPair :: "auth_env \<Rightarrow> StaffUser \<Rightarrow> (rm_db, TokenPair) act" where
  "issueTokenPair env staff =
     bind (generateAccessToken env (st_id staff) (st_role staff)) (\<lambda>access.
     bind (generateOpaqueToken env) (\<lambda>(refreshPlain, refreshHash).
     bind time_now (\<lambda>t.
     bind (rm_CreateRefreshToken (st_id staff) refreshHash (t + RefreshTokenTTL)) (\<lambda>_.
     ret \<lparr>tp_access = access, tp_refresh = refreshPlain, tp_role = st_role staff, tp_rm = staff_public staff\<rparr>))))"

definition sent :: OTPSendResponse where
  "sent = \<lparr>os_sent = True, os_masked = ''''\<rparr>"

definition has_phone :: "StaffUser \<Rightarrow> bool" where
  "has_phone s \<longleftrightarrow> (case st_phone s of None \<Rightarrow> False | Some p \<Rightarrow> trim_space p \<noteq> [])"

text \<open>HRMS blocks a relationship manager only on a positive "not active"; an error does not.\<close>

definition hrms_blocks :: "auth_env \<Rightarrow> StaffUser \<Rightarrow> bool" where
  "hrms_blocks env s \<longleftrightarrow> (case hrms env of None \<Rightarrow> False
     | Some verify \<Rightarrow> st_role s = RoleRM \<and>
         (case verify (st_code s) of Inl _ \<Rightarrow> False | Inr ok \<Rightarrow> \<not> ok))"

text \<open>The code to send: the development code when one is set.\<close>

definition login_code :: "auth_env \<Rightarrow> (rm_db, string) act" where
  "login_code env = (if otpDevCode env = [] then generateNumericOTP else ret (otpDevCode env))"

definition SendOTP :: "auth_env \<Rightarrow> string \<Rightarrow> (rm_db, OTPSendResponse) act" where
  "SendOTP env ident = (let identifier = trim_space ident in
     if identifier = [] then fail (Validation ''identifier (employee code or email) is required'')
     else bind (GetByIdentifier identifier) (\<lambda>found. case found of
         None \<Rightarrow> ret sent
       | Some staff \<Rightarrow>
           if st_status staff \<noteq> StatusActive \<or> \<not> has_phone staff then ret sent
           else if hrms_blocks env staff then ret sent
           else bind (login_code env) (\<lambda>code.
                bind (InvalidateOTPs (st_id staff)) (\<lambda>_.
                bind time_now (\<lambda>t.
                bind (CreateOTP (st_id staff) (hash env code) (t + rmOTPTTL)) (\<lambda>_.
                ret (sent\<lparr>os_masked := maskPhone (the (st_phone staff))\<rparr>)))))))"

text \<open>
  \<open>VerifyOTP\<close> in two stages, so that two requests can be interleaved between them: reading the
  account and its newest code, then judging the guess and writing the outcome.
\<close>

definition verify_load :: "auth_env \<Rightarrow> string \<Rightarrow> string \<Rightarrow> (rm_db, StaffUser \<times> otp_row) act" where
  "verify_load env ident otp0 = (let identifier = trim_space ident; otp = trim_space otp0 in
     if identifier = [] \<or> otp = [] then fail (Validation ''identifier and otp are required'')
     else bind (GetByIdentifier identifier) (\<lambda>found. case found of
         None \<Rightarrow> fail (Wrap ''invalid code'' (Sent ErrUnauthorized))
       | Some staff \<Rightarrow>
           if st_status staff \<noteq> StatusActive then fail (Wrap ''account is inactive'' (Sent ErrForbidden))
           else bind (LatestActiveOTP (st_id staff)) (\<lambda>code. case code of
               None \<Rightarrow> fail (Wrap (''no active code '' @ em_dash @ '' request a new one'') (Sent ErrUnauthorized))
             | Some c \<Rightarrow> ret (staff, c))))"

definition verify_judge :: "auth_env \<Rightarrow> string \<Rightarrow> StaffUser \<times> otp_row \<Rightarrow> (rm_db, TokenPair) act" where
  "verify_judge env otp0 = (\<lambda>(staff, code).
     if otp_attempts code \<ge> rmOTPMaxAttempts
     then fail (Wrap (''too many attempts '' @ em_dash @ '' request a new code'') (Sent ErrUnauthorized))
     else if hash env (trim_space otp0) \<noteq> otp_hash code
     then bind (IncrementOTPAttempts (otp_id code)) (\<lambda>_. fail (Wrap ''invalid code'' (Sent ErrUnauthorized)))
     else bind (ConsumeOTP (otp_id code)) (\<lambda>_. issueTokenPair env staff))"

definition VerifyOTP :: "auth_env \<Rightarrow> string \<Rightarrow> string \<Rightarrow> (rm_db, TokenPair) act" where
  "VerifyOTP env identifier otp = bind (verify_load env identifier otp) (verify_judge env otp)"

definition Refresh :: "auth_env \<Rightarrow> string \<Rightarrow> (rm_db, TokenPair) act" where
  "Refresh env refreshToken = (
     if refreshToken = [] then fail (Validation ''refresh_token is required'')
     else bind (generateOpaqueToken env) (\<lambda>(refreshPlain, refreshHash).
     bind time_now (\<lambda>t.
     bind (rm_RotateRefreshToken (hash env refreshToken) refreshHash (t + RefreshTokenTTL)) (\<lambda>got. case got of
         None \<Rightarrow> fail (Wrap ''invalid or expired refresh token'' (Sent ErrUnauthorized))
       | Some rmID \<Rightarrow> bind (staff_GetByID rmID) (\<lambda>found. case found of
           None \<Rightarrow> fail (Wrap ''staff account no longer exists'' (Sent ErrUnauthorized))
         | Some staff \<Rightarrow>
             if st_status staff \<noteq> StatusActive then fail (Wrap ''account is inactive'' (Sent ErrForbidden))
             else bind (generateAccessToken env (st_id staff) (st_role staff)) (\<lambda>access.
               ret \<lparr>tp_access = access, tp_refresh = refreshPlain, tp_role = st_role staff,
                    tp_rm = staff_public staff\<rparr>))))))"

definition Logout :: "auth_env \<Rightarrow> string \<Rightarrow> (rm_db, unit) act" where
  "Logout env refreshToken = (if refreshToken = [] then ret () else rm_RevokeRefreshToken (hash env refreshToken))"

definition UpdateProfile :: "uuid \<Rightarrow> UpdateProfileRequest \<Rightarrow> (rm_db, Public) act" where
  "UpdateProfile rmID req = (
     let n = map_option trim_space (pr_name req);
         e = map_option (\<lambda>x. to_lower (trim_space x)) (pr_email req);
         p = map_option trim_space (pr_phone req)
     in if n = Some [] then fail (Validation ''name cannot be empty'')
     else bind (case e of None \<Rightarrow> ret ()
         | Some em \<Rightarrow> if \<not> contains em ''@'' then fail (Validation ''a valid email is required'')
             else bind (GetByEmail em) (\<lambda>existing. case existing of
                 None \<Rightarrow> ret ()
               | Some s \<Rightarrow> if st_id s \<noteq> rmID then fail (Wrap ''that email is already in use'' (Sent ErrConflict))
                           else ret ())) (\<lambda>_.
     if p = Some [] then fail (Validation (''phone cannot be empty '' @ em_dash @ '' login codes are sent there''))
     else bind (staff_Update rmID \<lparr>up_name = n, up_email = e, up_phone = p, up_status = None, up_max = None\<rparr>) (\<lambda>staff.
       case staff of None \<Rightarrow> fail (Wrap ''staff account not found'' (Sent ErrUnauthorized))
       | Some s \<Rightarrow> ret (staff_public s))))"

definition Me :: "uuid \<Rightarrow> (rm_db, Public) act" where
  "Me rmID = bind (staff_GetByID rmID) (\<lambda>staff. case staff of
       None \<Rightarrow> fail (Wrap ''staff account not found'' (Sent ErrUnauthorized))
     | Some s \<Rightarrow> ret (staff_public s))"

section \<open>At most one open code per staff member\<close>

definition open_codes :: "uuid \<Rightarrow> rm_db \<Rightarrow> nat" where
  "open_codes r d = count_where (\<lambda>c. otp_rm c = r \<and> otp_consumed c = None) (otp_codes d)"

definition otp_inv :: "rm_db \<Rightarrow> bool" where
  "otp_inv d \<longleftrightarrow> list_all (\<lambda>c. open_codes (otp_rm c) d \<le> 1 \<and> 0 \<le> otp_attempts c) (otp_codes d) \<and>
     distinct (map otp_id (otp_codes d))"

lemma open_codes_le: "otp_inv d \<Longrightarrow> open_codes r d \<le> 1"
proof (cases "\<exists>c \<in> set (otp_codes d). otp_rm c = r")
  case True
  then show "otp_inv d \<Longrightarrow> open_codes r d \<le> 1" by (auto simp: otp_inv_def list_all_iff)
next
  case False
  then have "open_codes r d = 0" by (auto simp: open_codes_def count_where_0)
  then show ?thesis by simp
qed

lemma otp_where_sel [simp]:
  "otp_codes (otp_where p f d) = update_where p f (otp_codes d)" "rm_users (otp_where p f d) = rm_users d"
  "rm_tokens (otp_where p f d) = rm_tokens d" "user_tokens (otp_where p f d) = user_tokens d"
  "users (otp_where p f d) = users d" "history (otp_where p f d) = history d"
  by (simp_all add: otp_where_def)

lemma count_where_update_le2:
  "(\<And>c. p c \<Longrightarrow> q (f c) \<Longrightarrow> q c) \<Longrightarrow> count_where q (update_where p f xs) \<le> count_where q xs"
  by (induction xs) auto

text \<open>Consuming or counting an attempt opens no code.\<close>

lemma otp_inv_where:
  assumes "otp_inv d" and f: "\<And>c. otp_id (f c) = otp_id c \<and> otp_rm (f c) = otp_rm c \<and>
      otp_attempts c \<le> otp_attempts (f c) \<and> (otp_consumed (f c) = None \<longrightarrow> otp_consumed c = None)"
  shows "otp_inv (otp_where p f d)"
proof -
  have le: "open_codes r (otp_where p f d) \<le> 1" for r
  proof -
    have "open_codes r (otp_where p f d) \<le> open_codes r d"
      unfolding open_codes_def otp_where_sel by (rule count_where_update_le2) (use f in auto)
    then show ?thesis using open_codes_le[OF assms(1), of r] by simp
  qed
  have "map otp_id (update_where p f (otp_codes d)) = map otp_id (otp_codes d)"
    by (rule map_update_where) (use f in simp)
  moreover have "0 \<le> otp_attempts c'" if c': "c' \<in> set (update_where p f (otp_codes d))" for c'
  proof -
    obtain c where "c \<in> set (otp_codes d)" "c' = (if p c then f c else c)"
      using c' unfolding in_update_where by blast
    moreover have "0 \<le> otp_attempts c" using assms(1) \<open>c \<in> set (otp_codes d)\<close>
      by (auto simp: otp_inv_def list_all_iff)
    moreover have "otp_attempts c \<le> otp_attempts (f c)" using f by blast
    ultimately show ?thesis by (cases "p c") simp_all
  qed
  ultimately show ?thesis using le assms(1) by (simp add: otp_inv_def list_all_iff)
qed

lemma otp_inv_same: "otp_codes d' = otp_codes d \<Longrightarrow> otp_inv d' = otp_inv d"
  by (simp add: otp_inv_def open_codes_def)

lemma otp_inv_new:
  assumes "otp_inv d" "open_codes r d = 0" "list_all (\<lambda>c. otp_id c \<noteq> i) (otp_codes d)"
    "otp_codes d' = otp_codes d @ [\<lparr>otp_id = i, otp_rm = r, otp_hash = h, otp_expires = ex,
       otp_consumed = None, otp_attempts = 0, otp_created = t\<rparr>]"
  shows "otp_inv d'"
proof -
  have "open_codes x d' = open_codes x d + (if x = r then 1 else 0)" for x
    using assms(4) by (simp add: open_codes_def)
  then have "open_codes x d' \<le> 1" for x using assms(2) open_codes_le[OF assms(1), of x] by auto
  then show ?thesis using assms(1,3,4) by (auto simp: otp_inv_def list_all_iff)
qed

lemma count_invalidated:
  "count_where (\<lambda>c. otp_rm c = r \<and> otp_consumed c = None)
     (update_where (\<lambda>c. otp_rm c = r \<and> otp_consumed c = None) (\<lambda>c. c\<lparr>otp_consumed := Some t\<rparr>) xs) = 0"
  by (induction xs) auto

lemma open_codes_invalidated:
  "open_codes r (otp_where (\<lambda>c. otp_rm c = r \<and> otp_consumed c = None) (\<lambda>c. c\<lparr>otp_consumed := Some t\<rparr>) d) = 0"
  by (simp add: open_codes_def count_invalidated)

section \<open>Specifications of the login operations\<close>

text \<open>What a call of the repository that touches only login codes leaves alone.\<close>

definition otp_only :: "rm_db \<Rightarrow> rm_db \<Rightarrow> bool" where
  "otp_only d d' \<longleftrightarrow> d' = d\<lparr>otp_codes := otp_codes d'\<rparr>"

definition token_only :: "rm_db \<Rightarrow> rm_db \<Rightarrow> bool" where
  "token_only d d' \<longleftrightarrow> d' = d\<lparr>rm_tokens := rm_tokens d'\<rparr>"

lemma otp_onlyD: "otp_only d d' \<Longrightarrow> rm_users d' = rm_users d \<and> rm_tokens d' = rm_tokens d"
  by (metis otp_only_def rm_db.select_convs(1,6) rm_db.surjective rm_db.update_convs(5))

lemma token_onlyD: "token_only d d' \<Longrightarrow> rm_users d' = rm_users d \<and> otp_codes d' = otp_codes d"
  by (metis token_only_def rm_db.select_convs(1,5) rm_db.surjective rm_db.update_convs(6))

lemma token_only_refl [simp]: "token_only d d"
  by (simp add: token_only_def)

definition otp_row_for :: "auth_env \<Rightarrow> StaffUser \<Rightarrow> string \<Rightarrow> int \<Rightarrow> uuid \<Rightarrow> otp_row" where
  "otp_row_for env s code t i = \<lparr>otp_id = i, otp_rm = st_id s, otp_hash = hash env code,
     otp_expires = t + rmOTPTTL, otp_consumed = None, otp_attempts = 0, otp_created = t\<rparr>"

definition closed_for :: "uuid \<Rightarrow> int \<Rightarrow> rm_db \<Rightarrow> rm_db" where
  "closed_for r t d = otp_where (\<lambda>c. otp_rm c = r \<and> otp_consumed c = None) (\<lambda>c. c\<lparr>otp_consumed := Some t\<rparr>) d"

text \<open>A code goes out to an active member with a phone whom HRMS does not block.\<close>

definition reachable_staff :: "auth_env \<Rightarrow> StaffUser \<Rightarrow> bool" where
  "reachable_staff env s \<longleftrightarrow> st_status s = StatusActive \<and> has_phone s \<and> \<not> hrms_blocks env s"

lemma wp_generateNumericOTP:
  "(\<And>n w'. wdb w' = wdb w \<Longrightarrow> wnow w' = wnow w \<Longrightarrow> Q (pad_zero 6 (itoa_nat (n mod 1000000))) w') \<Longrightarrow>
   (\<And>e w'. wdb w' = wdb w \<Longrightarrow> E (Wrap ''generate otp'' e) w') \<Longrightarrow> wp generateNumericOTP Q E w"
  by (auto simp: generateNumericOTP_def wp_simps split: list.splits)

lemma wp_generateOpaqueToken:
  "(\<And>n w'. wdb w' = wdb w \<Longrightarrow> wnow w' = wnow w \<Longrightarrow> Q (raw_url32 n, hash env (raw_url32 n)) w') \<Longrightarrow>
   (\<And>e w'. wdb w' = wdb w \<Longrightarrow> wnow w' = wnow w \<Longrightarrow> E (Wrap ''generate refresh token'' e) w') \<Longrightarrow>
   wp (generateOpaqueToken env) Q E w"
  by (auto simp: generateOpaqueToken_def wp_simps Let_def split: list.splits)

lemma wp_CreateOTP:
  assumes "\<And>i w'. \<lbrakk>wdb w' = (wdb w)\<lparr>otp_codes := otp_codes (wdb w) @ [\<lparr>otp_id = i, otp_rm = r, otp_hash = h,
        otp_expires = ex, otp_consumed = None, otp_attempts = 0, otp_created = wnow w\<rparr>]\<rparr>;
        list_all (\<lambda>c. otp_id c \<noteq> i) (otp_codes (wdb w))\<rbrakk> \<Longrightarrow> Q () w'"
    "\<And>e w'. wdb w' = wdb w \<Longrightarrow> E (Wrap ''create rm otp'' e) w'"
  shows "wp (CreateOTP r h ex) Q E w"
  unfolding CreateOTP_def
  by (auto simp: wp_simps assms(2) split: list.splits) (rule assms(1); simp)

definition sent_code :: "auth_env \<Rightarrow> int \<Rightarrow> StaffUser \<Rightarrow> rm_db \<Rightarrow> rm_db \<Rightarrow> bool" where
  "sent_code env t s d d' \<longleftrightarrow> (\<exists>i code. list_all (\<lambda>c. otp_id c \<noteq> i) (otp_codes d) \<and>
     d' = (closed_for (st_id s) t d)\<lparr>otp_codes := otp_codes (closed_for (st_id s) t d) @ [otp_row_for env s code t i]\<rparr>)"

lemma ids_closed_for: "list_all (\<lambda>c. otp_id c \<noteq> i) (otp_codes (closed_for r t d)) = list_all (\<lambda>c. otp_id c \<noteq> i) (otp_codes d)"
proof -
  have "list_all (\<lambda>c. otp_id c \<noteq> i) xs \<longleftrightarrow> i \<notin> set (map otp_id xs)" for xs by (induction xs) auto
  moreover have "map otp_id (otp_codes (closed_for r t d)) = map otp_id (otp_codes d)"
    by (simp add: closed_for_def map_update_where)
  ultimately show ?thesis by metis
qed

lemma wp_send:
  assumes "wnow w = t"
  shows "wp (bind (InvalidateOTPs (st_id s)) (\<lambda>_. bind time_now (\<lambda>t.
      bind (CreateOTP (st_id s) (hash env code) (t + rmOTPTTL)) (\<lambda>_. ret x))))
     (\<lambda>r w'. r = x \<and> sent_code env t s (wdb w) (wdb w'))
     (\<lambda>_ w'. wdb w' = wdb w \<or> wdb w' = closed_for (st_id s) t (wdb w)) w"
proof -
  have c: "wp (CreateOTP (st_id s) (hash env code) (t + rmOTPTTL))
      (\<lambda>_ w'. sent_code env t s (wdb w) (wdb w')) (\<lambda>_ w'. wdb w' = wdb w \<or> wdb w' = closed_for (st_id s) t (wdb w)) v"
    if "wdb v = closed_for (st_id s) t (wdb w)" "wnow v = t" for v
    by (rule wp_CreateOTP) (use that in \<open>auto simp: sent_code_def otp_row_for_def ids_closed_for\<close>)
  show ?thesis
    by (simp add: wp_simps InvalidateOTPs_def assms c flip: closed_for_def)
qed

lemma wp_SendOTP:
  "wp (SendOTP env ident)
     (\<lambda>r w'. (case find_identifier (trim_space ident) (wdb w) of
         None \<Rightarrow> r = sent \<and> wdb w' = wdb w
       | Some s \<Rightarrow> if reachable_staff env s
           then r = sent\<lparr>os_masked := maskPhone (the (st_phone s))\<rparr> \<and> sent_code env (wnow w) s (wdb w) (wdb w')
           else r = sent \<and> wdb w' = wdb w))
     (\<lambda>_ w'. wdb w' = wdb w \<or> (\<exists>s. find_identifier (trim_space ident) (wdb w) = Some s \<and>
         wdb w' = closed_for (st_id s) (wnow w) (wdb w))) w"
proof -
  have s1: "wp (bind (login_code env) (\<lambda>code.
         bind (InvalidateOTPs (st_id s)) (\<lambda>_. bind time_now (\<lambda>t.
         bind (CreateOTP (st_id s) (hash env code) (t + rmOTPTTL)) (\<lambda>_. ret x)))))
     (\<lambda>r w'. r = x \<and> sent_code env (wnow v) s (wdb v) (wdb w'))
     (\<lambda>_ w'. wdb w' = wdb v \<or> wdb w' = closed_for (st_id s) (wnow v) (wdb v)) v" for s x v
  proof (cases "otpDevCode env = []")
    case True
    show ?thesis
      unfolding login_code_def if_P[OF True]
      apply (subst wp_bind)
      apply (rule wp_generateNumericOTP)
      subgoal for n w' using wp_send[where w = w' and t = "wnow v" and s = s and env = env and x = x] by simp
      subgoal by simp
      done
  next
    case False
    then show ?thesis using wp_send[where w = v and t = "wnow v" and s = s and env = env and x = x and code = "otpDevCode env"] by (simp add: login_code_def wp_bind wp_ret wp_fun)
  qed
  show ?thesis
    unfolding SendOTP_def Let_def
    by (auto simp: wp_fail wp_bind[of "GetByIdentifier _"] wp_GetByIdentifier wp_option wp_ret wp_if reachable_staff_def
        split: option.splits intro!: wp_mono[OF s1])
qed

text \<open>
  Only the newest code counts: a code that goes out is the member's single open code,
  carries the hash of the code sent, allows five attempts and lives ten minutes, and every
  code sent to them before is closed. Nothing is sent, stored or closed for an unknown
  identifier, an inactive account, an account without a phone, or a relationship manager
  whom HRMS reports inactive, and all of these get the same answer.
\<close>

theorem SendOTP_newest_only:
  assumes "otp_inv (wdb w)" "SendOTP env ident w = (Inr r, w')"
  shows "case find_identifier (trim_space ident) (wdb w) of
     None \<Rightarrow> r = sent \<and> wdb w' = wdb w
   | Some s \<Rightarrow> if reachable_staff env s
       then os_masked r = maskPhone (the (st_phone s)) \<and> open_codes (st_id s) (wdb w') = 1 \<and>
         (\<exists>i code. latest_otp (st_id s) (wnow w) (wdb w') = Some (otp_row_for env s code (wnow w) i)) \<and>
         (\<forall>x. x \<noteq> st_id s \<longrightarrow> open_codes x (wdb w') = open_codes x (wdb w))
       else r = sent \<and> wdb w' = wdb w"
proof (cases "find_identifier (trim_space ident) (wdb w)")
  case None
  then show ?thesis using wp_returns[OF wp_SendOTP assms(2)] by simp
next
  case (Some s)
  show ?thesis
  proof (cases "reachable_staff env s")
    case False
    then show ?thesis using wp_returns[OF wp_SendOTP assms(2)] Some by simp
  next
    case True
    have r: "r = sent\<lparr>os_masked := maskPhone (the (st_phone s))\<rparr>" "sent_code env (wnow w) s (wdb w) (wdb w')"
      using wp_returns[OF wp_SendOTP assms(2)] Some True by auto
    let ?d = "closed_for (st_id s) (wnow w) (wdb w)"
    obtain i code where d: "wdb w' = ?d\<lparr>otp_codes := otp_codes ?d @ [otp_row_for env s code (wnow w) i]\<rparr>"
      using r(2) by (auto simp: sent_code_def)
    have cl: "open_codes (st_id s) ?d = 0" unfolding closed_for_def by (rule open_codes_invalidated)
    then have none: "filter (active_otp (st_id s) (wnow w)) (otp_codes ?d) = []"
      by (auto simp: open_codes_def count_where_0 active_otp_def filter_empty_conv)
    have "latest_otp (st_id s) (wnow w) (wdb w') = Some (otp_row_for env s code (wnow w) i)"
      unfolding latest_otp_def using none
      by (simp add: d active_otp_def otp_row_for_def rmOTPTTL_def second_def)
    moreover have "open_codes (st_id s) (wdb w') = 1"
      using cl by (simp add: d open_codes_def otp_row_for_def)
    moreover have "open_codes x (wdb w') = open_codes x (wdb w)" if "x \<noteq> st_id s" for x
    proof -
      have "open_codes x ?d = open_codes x (wdb w)"
        unfolding open_codes_def closed_for_def otp_where_sel
        by (rule count_where_update_same) (use that in simp)
      then show ?thesis using that by (simp add: d open_codes_def otp_row_for_def)
    qed
    ultimately show ?thesis using Some True r by auto
  qed
qed

section \<open>Judging a guess\<close>

definition invalid_code :: goerr where
  "invalid_code = Wrap ''invalid code'' (Sent ErrUnauthorized)"

definition bumped :: "uuid \<Rightarrow> rm_db \<Rightarrow> rm_db" where
  "bumped i d = otp_where (\<lambda>c. otp_id c = i) (\<lambda>c. c\<lparr>otp_attempts := otp_attempts c + 1\<rparr>) d"

definition burnt :: "uuid \<Rightarrow> int \<Rightarrow> rm_db \<Rightarrow> rm_db" where
  "burnt i t d = otp_where (\<lambda>c. otp_id c = i \<and> otp_consumed c = None) (\<lambda>c. c\<lparr>otp_consumed := Some t\<rparr>) d"

text \<open>A session for \<open>s\<close>: a signed access token, and a stored refresh token for 30 days.\<close>

definition session_for :: "auth_env \<Rightarrow> StaffUser \<Rightarrow> int \<Rightarrow> TokenPair \<Rightarrow> rm_db \<Rightarrow> rm_db \<Rightarrow> bool" where
  "session_for env s t p d d' \<longleftrightarrow> tp_rm p = staff_public s \<and> tp_role p = st_role s \<and>
     sign env \<lparr>cl_rm = st_id s, cl_role = st_role s, cl_expires = (t + RMAccessTokenTTL) div second,
        cl_issued = t div second, cl_audience = [''rm-console'']\<rparr> = Inr (tp_access p) \<and>
     issued (st_id s) (hash env (tp_refresh p)) (t + RefreshTokenTTL) (rm_tokens d) (rm_tokens d') \<and>
     token_only d d'"

lemma wp_issueTokenPair:
  "wp (issueTokenPair env s) (\<lambda>p w'. session_for env s (wnow w) p (wdb w) (wdb w'))
     (\<lambda>e w'. wdb w' = wdb w \<and> e \<noteq> invalid_code) w"
proof -
  have c: "wp (rm_CreateRefreshToken u h ex)
      (\<lambda>_ w'. issued u h ex (rm_tokens (wdb v)) (rm_tokens (wdb w')) \<and> token_only (wdb v) (wdb w'))
      (\<lambda>e w'. wdb w' = wdb v \<and> e \<noteq> invalid_code) v" for u h ex v
    by (auto simp: rm_CreateRefreshToken_def rm_insert_token_def wp_simps Let_def invalid_code_def token_only_def
        split: list.splits intro: issued_insert)
  show ?thesis
    unfolding issueTokenPair_def generateAccessToken_def generateOpaqueToken_def
    by (auto simp: wp_simps Let_def invalid_code_def[symmetric] session_for_def split: sum.splits list.splits
        intro!: wp_mono[OF c]) (auto simp: invalid_code_def)
qed

text \<open>The code a guess of \<open>ident\<close> is judged against.\<close>

definition judged :: "string \<Rightarrow> int \<Rightarrow> rm_db \<Rightarrow> StaffUser \<Rightarrow> otp_row \<Rightarrow> bool" where
  "judged ident t d s c \<longleftrightarrow> find_identifier (trim_space ident) d = Some s \<and> st_status s = StatusActive \<and>
     latest_otp (st_id s) t d = Some c"

lemma wp_verify_load:
  "wp (verify_load env ident otp)
     (\<lambda>(s, c) w'. judged ident (wnow w) (wdb w) s c \<and> wdb w' = wdb w \<and> wnow w' = wnow w)
     (\<lambda>e w'. wdb w' = wdb w \<and> (e = invalid_code \<longrightarrow> find_identifier (trim_space ident) (wdb w) = None)) w"
  by (auto simp: verify_load_def wp_simps Let_def LatestActiveOTP_def judged_def invalid_code_def Validation_def
      split: option.splits)

lemma wp_verify_judge:
  "wp (verify_judge env otp (s, c))
     (\<lambda>p w'. otp_attempts c < rmOTPMaxAttempts \<and> hash env (trim_space otp) = otp_hash c \<and>
        session_for env s (wnow w) p (burnt (otp_id c) (wnow w) (wdb w)) (wdb w'))
     (\<lambda>e w'. if e = invalid_code
        then otp_attempts c < rmOTPMaxAttempts \<and> hash env (trim_space otp) \<noteq> otp_hash c \<and>
             wdb w' = bumped (otp_id c) (wdb w)
        else wdb w' = wdb w \<or> wdb w' = burnt (otp_id c) (wnow w) (wdb w)) w"
proof -
  have too: "Wrap (''too many attempts '' @ x) e \<noteq> invalid_code" "Wrap ''increment rm otp attempts'' e \<noteq> invalid_code"
    "Wrap ''consume rm otp'' e \<noteq> invalid_code" for x e by (auto simp: invalid_code_def)
  show ?thesis
    unfolding verify_judge_def prod.case invalid_code_def[symmetric]
    by (auto simp: wp_simps IncrementOTPAttempts_def ConsumeOTP_def too not_le simp flip: burnt_def bumped_def
        simp del: append.simps intro!: wp_mono[OF wp_issueTokenPair])
qed

lemma wp_VerifyOTP:
  "wp (VerifyOTP env ident otp)
     (\<lambda>p w'. \<exists>s c. judged ident (wnow w) (wdb w) s c \<and> otp_attempts c < rmOTPMaxAttempts \<and>
        hash env (trim_space otp) = otp_hash c \<and>
        session_for env s (wnow w) p (burnt (otp_id c) (wnow w) (wdb w)) (wdb w'))
     (\<lambda>e w'. if e = invalid_code
        then (find_identifier (trim_space ident) (wdb w) = None \<and> wdb w' = wdb w) \<or>
          (\<exists>s c. judged ident (wnow w) (wdb w) s c \<and> otp_attempts c < rmOTPMaxAttempts \<and>
             hash env (trim_space otp) \<noteq> otp_hash c \<and> wdb w' = bumped (otp_id c) (wdb w))
        else wdb w' = wdb w \<or>
          (\<exists>s c. judged ident (wnow w) (wdb w) s c \<and> wdb w' = burnt (otp_id c) (wnow w) (wdb w))) w"
  unfolding VerifyOTP_def wp_bind
  apply (rule wp_mono[OF wp_verify_load])
  subgoal for x v
    by (cases x, rule wp_mono[OF wp_verify_judge[of env otp "fst x" "snd x" v, simplified]])
       (auto split: if_splits)
  subgoal by auto
  done

section \<open>The guesses an attacker has\<close>

text \<open>Guesses left on the open codes of member \<open>r\<close>.\<close>

definition weight :: "uuid \<Rightarrow> otp_row \<Rightarrow> nat" where
  "weight r c = (if otp_rm c = r \<and> otp_consumed c = None then nat (rmOTPMaxAttempts - otp_attempts c) else 0)"

definition guesses_left :: "uuid \<Rightarrow> rm_db \<Rightarrow> nat" where
  "guesses_left r d = sum_list (map (weight r) (otp_codes d))"

lemma sum_update_le:
  fixes g :: "'a \<Rightarrow> nat"
  assumes "\<And>c. p c \<Longrightarrow> g (f c) \<le> g c"
  shows "sum_list (map g (update_where p f xs)) \<le> sum_list (map g xs)"
  using assms by (induction xs) (auto intro: add_mono)

lemma sum_update_less:
  fixes g :: "'a \<Rightarrow> nat"
  assumes "\<And>c. p c \<Longrightarrow> g (f c) \<le> g c" "c \<in> set xs" "p c" "g (f c) < g c"
  shows "sum_list (map g (update_where p f xs)) < sum_list (map g xs)"
  using assms(2)
proof (induction xs)
  case Nil
  then show ?case by simp
next
  case (Cons x xs)
  have le: "sum_list (map g (update_where p f xs)) \<le> sum_list (map g xs)"
    by (rule sum_update_le) (rule assms(1))
  show ?case
  proof (cases "x = c")
    case True
    then show ?thesis using le assms(3,4) by simp
  next
    case False
    then have "sum_list (map g (update_where p f xs)) < sum_list (map g xs)" using Cons by simp
    then show ?thesis using assms(1)[of x] by (auto simp: add_le_less_mono)
  qed
qed

lemma guesses_left_le: "otp_inv d \<Longrightarrow> guesses_left r d \<le> nat rmOTPMaxAttempts"
proof -
  assume inv: "otp_inv d"
  have bound: "sum_list (map (weight r) xs) \<le> nat rmOTPMaxAttempts * count_where (\<lambda>c. otp_rm c = r \<and> otp_consumed c = None) xs"
    if "\<forall>c \<in> set xs. 0 \<le> otp_attempts c" for xs
    using that
  proof (induction xs)
    case (Cons c xs)
    have "nat (rmOTPMaxAttempts - otp_attempts c) \<le> nat rmOTPMaxAttempts"
      using Cons.prems by (intro nat_mono) simp
    then show ?case using Cons by (simp add: weight_def)
  qed simp
  have "guesses_left r d \<le> nat rmOTPMaxAttempts * open_codes r d"
    unfolding guesses_left_def open_codes_def by (rule bound) (use inv in \<open>simp add: otp_inv_def list_all_iff\<close>)
  also have "\<dots> \<le> nat rmOTPMaxAttempts" using open_codes_le[OF inv, of r] by (cases "open_codes r d") auto
  finally show ?thesis .
qed

lemma latest_otpD: "latest_otp r t d = Some c \<Longrightarrow> c \<in> set (otp_codes d) \<and> active_otp r t c"
  by (auto simp: latest_otp_def dest: first_row_orderD)

lemma guesses_bumped: "guesses_left r (bumped i d) \<le> guesses_left r d"
  unfolding guesses_left_def bumped_def otp_where_sel
  by (rule sum_update_le) (auto simp: weight_def intro!: nat_mono)

lemma guesses_burnt: "guesses_left r (burnt i t d) \<le> guesses_left r d"
  unfolding guesses_left_def burnt_def otp_where_sel by (rule sum_update_le) (simp add: weight_def)

lemma guesses_bumped_less:
  "latest_otp r t d = Some c \<Longrightarrow> otp_attempts c < rmOTPMaxAttempts \<Longrightarrow> guesses_left r (bumped (otp_id c) d) < guesses_left r d"
  unfolding guesses_left_def bumped_def otp_where_sel
  by (rule sum_update_less[where c = c]) (auto dest!: latest_otpD simp: weight_def active_otp_def intro!: nat_mono)

lemma guesses_burnt_less:
  "latest_otp r t d = Some c \<Longrightarrow> otp_attempts c < rmOTPMaxAttempts \<Longrightarrow> guesses_left r (burnt (otp_id c) u d) < guesses_left r d"
  unfolding guesses_left_def burnt_def otp_where_sel
  by (rule sum_update_less[where c = c]) (auto dest!: latest_otpD simp: weight_def active_otp_def intro!: nat_mono)

lemma otp_inv_bumped: "otp_inv d \<Longrightarrow> otp_inv (bumped i d)"
  unfolding bumped_def by (rule otp_inv_where) auto

lemma otp_inv_burnt: "otp_inv d \<Longrightarrow> otp_inv (burnt i t d)"
  unfolding burnt_def by (rule otp_inv_where) auto

lemma session_for_same: "session_for env s t p d d' \<Longrightarrow> rm_users d' = rm_users d \<and> otp_codes d' = otp_codes d"
  by (auto simp: session_for_def dest: token_onlyD)

lemma guesses_same: "otp_codes d' = otp_codes d \<Longrightarrow> guesses_left r d' = guesses_left r d"
  by (simp add: guesses_left_def)

lemma find_identifier_same: "rm_users d' = rm_users d \<Longrightarrow> find_identifier i d' = find_identifier i d"
  by (simp add: find_identifier_def)

text \<open>The answer tells the caller whether a guess on \<open>r\<close>'s account was right.\<close>

definition guess_answered :: "rm_db \<Rightarrow> uuid \<Rightarrow> (string \<times> string) \<times> (goerr + TokenPair) \<Rightarrow> bool" where
  "guess_answered d r x \<longleftrightarrow> (case x of ((ident, otp), res) \<Rightarrow>
     (case find_identifier (trim_space ident) d of None \<Rightarrow> False | Some s \<Rightarrow> st_id s = r) \<and>
     (case res of Inr _ \<Rightarrow> True | Inl e \<Rightarrow> e = invalid_code))"

lemma verify_step:
  "wp (VerifyOTP env ident otp)
     (\<lambda>p w'. rm_users (wdb w') = rm_users (wdb w) \<and>
        guesses_left r (wdb w') + (if guess_answered (wdb w) r ((ident, otp), Inr p) then 1 else 0) \<le> guesses_left r (wdb w))
     (\<lambda>e w'. rm_users (wdb w') = rm_users (wdb w) \<and>
        guesses_left r (wdb w') + (if guess_answered (wdb w) r ((ident, otp), Inl e) then 1 else 0) \<le> guesses_left r (wdb w)) w"
proof (rule wp_mono[OF wp_VerifyOTP], goal_cases)
  case (1 p w')
  then obtain s c where h: "judged ident (wnow w) (wdb w) s c" "otp_attempts c < rmOTPMaxAttempts"
    "session_for env s (wnow w) p (burnt (otp_id c) (wnow w) (wdb w)) (wdb w')" by blast
  have g: "guesses_left r (wdb w') = guesses_left r (burnt (otp_id c) (wnow w) (wdb w))"
    "rm_users (wdb w') = rm_users (wdb w)"
    using session_for_same[OF h(3)] by (simp_all add: guesses_same burnt_def)
  have "guesses_left r (burnt (otp_id c) (wnow w) (wdb w)) < guesses_left r (wdb w)" if "st_id s = r"
    by (rule guesses_burnt_less) (use h(1,2) that in \<open>auto simp: judged_def\<close>)
  then show ?case using g h(1) guesses_burnt[of r "otp_id c" "wnow w" "wdb w"]
    by (auto simp: guess_answered_def judged_def)
next
  case (2 e w')
  show ?case
  proof (cases "e = invalid_code")
    case False
    then show ?thesis using 2 guesses_burnt by (auto simp: guess_answered_def burnt_def)
  next
    case True
    then consider "find_identifier (trim_space ident) (wdb w) = None" "wdb w' = wdb w"
      | s c where "judged ident (wnow w) (wdb w) s c" "otp_attempts c < rmOTPMaxAttempts" "wdb w' = bumped (otp_id c) (wdb w)"
      using 2 by auto
    then show ?thesis
    proof cases
      case 1
      then show ?thesis by (simp add: guess_answered_def)
    next
      case (2 s c)
      have "guesses_left r (bumped (otp_id c) (wdb w)) < guesses_left r (wdb w)" if "st_id s = r"
        by (rule guesses_bumped_less) (use 2 that in \<open>auto simp: judged_def\<close>)
      then show ?thesis using 2 guesses_bumped[of r "otp_id c" "wdb w"]
        by (auto simp: guess_answered_def judged_def bumped_def[of _ "wdb w"])
    qed
  qed
qed

definition verify_call :: "auth_env \<Rightarrow> string \<times> string \<Rightarrow> (rm_db, TokenPair) act" where
  "verify_call env x = (case x of (ident, otp) \<Rightarrow> VerifyOTP env ident otp)"

lemma guess_answered_same:
  "rm_users d' = rm_users d \<Longrightarrow> guess_answered d' r = guess_answered d r"
proof -
  assume "rm_users d' = rm_users d"
  then have "find_identifier i d' = find_identifier i d" for i by (rule find_identifier_same)
  then show ?thesis by (simp add: guess_answered_def fun_eq_iff)
qed

lemma guesses_bound:
  "rm_users (wdb w) = us \<Longrightarrow> d0 = wdb w \<Longrightarrow>
   count_where (guess_answered d0 r) (results (verify_call env) w es) \<le> guesses_left r (wdb w)"
proof (induction es arbitrary: w d0)
  case Nil
  then show ?case by simp
next
  case (Cons x es)
  obtain ident otp e where x: "x = ((ident, otp), e)" by (metis prod.exhaust)
  let ?v = "next_world w e"
  obtain res w' where r: "verify_call env (ident, otp) ?v = (res, w')" by fastforce
  have st: "rm_users (wdb w') = rm_users (wdb w) \<and>
      guesses_left r (wdb w') + (if guess_answered (wdb w) r ((ident, otp), res) then 1 else 0) \<le> guesses_left r (wdb w)"
    using verify_step[where env = env and ident = ident and otp = otp and r = r and w = ?v] r
    by (cases res) (simp_all add: wp_def verify_call_def)
  then have same: "guess_answered (wdb w') r = guess_answered d0 r"
    using Cons.prems guess_answered_same by simp
  have "count_where (guess_answered (wdb w') r) (results (verify_call env) w' es) \<le> guesses_left r (wdb w')"
    using Cons.IH st Cons.prems by simp
  then show ?case using st r Cons.prems by (auto simp: x same split: if_splits)
qed


text \<open>A service whose hash is the text itself, and a member \<open>s1\<close> with one open code "000007".\<close>

definition demo_env :: auth_env where
  "demo_env = \<lparr>hash = (\<lambda>s. s), sign = (\<lambda>c. Inr (''jwt:'' @ cl_rm c)), otpDevCode = '''', hrms = None\<rparr>"

definition demo_staff1 :: StaffUser where
  "demo_staff1 = \<lparr>st_id = ''s1'', st_code = ''E1'', st_email = ''a@b'', st_name = ''A'', st_phone = Some ''9876543210'',
     st_role = RoleRM, st_status = StatusActive, st_max = 5, st_created = 0, st_updated = 0\<rparr>"

definition login_demo :: "rm_db world" where
  "login_demo = \<lparr>wdb = \<lparr>rm_users = [demo_staff1], users = [], history = [],
     queue_state = \<lparr>q_last = None, q_seq = 0, q_updated = 0\<rparr>,
     otp_codes = [otp_row_for demo_env demo_staff1 ''000007'' 0 ''o1''],
     rm_tokens = [new_token ''i1'' ''s1'' ''t1'' 100], user_tokens = [], interactions = [], snapshots = []\<rparr>,
     wfaults = [], wnow = 10, wrand = [77, 78], wuuids = [''k1'', ''k2'']\<rparr>"

definition guess_run :: "((string \<times> string) \<times> int \<times> bool list \<times> nat list \<times> uuid list) list" where
  "guess_run = replicate 6 ((''e1'', ''123456''), 1, [], [], []) @ [((''e1'', ''000007''), 1, [], [5], [''k1''])]"


text \<open>
  C10. A login is earned: a session is issued only to the active member the identifier names,
  for a guess whose hash is that of the member's newest open code with fewer than five wrong
  guesses; the code is closed by it, the access token is signed for that member and role for
  24 hours, and exactly one refresh token, expiring in 30 days, is stored for them. A request
  that fails stores no token.
\<close>

theorem VerifyOTP_correct:
  "case VerifyOTP env ident otp w of
     (Inl e, w') \<Rightarrow> rm_tokens (wdb w') = rm_tokens (wdb w) \<and> rm_users (wdb w') = rm_users (wdb w)
   | (Inr p, w') \<Rightarrow> \<exists>s c. find_identifier (trim_space ident) (wdb w) = Some s \<and> st_status s = StatusActive \<and>
       latest_otp (st_id s) (wnow w) (wdb w) = Some c \<and> otp_attempts c < 5 \<and>
       hash env (trim_space otp) = otp_hash c \<and>
       session_for env s (wnow w) p (burnt (otp_id c) (wnow w) (wdb w)) (wdb w')"
proof (cases "VerifyOTP env ident otp w")
  case (Pair res w')
  note spec = wp_VerifyOTP[of env ident otp w]
  show ?thesis
  proof (cases res)
    case (Inl e)
    then show ?thesis using wp_fails[OF spec, of e w'] Pair
      by (auto simp: burnt_def bumped_def split: if_splits)
  next
    case (Inr p)
    then show ?thesis using wp_returns[OF spec, of p w'] Pair
      by (auto simp: judged_def rmOTPMaxAttempts_def)
  qed
qed

lemma verify_judge_ok:
  assumes "wfaults w = []" "otp_attempts c < 5" "hash env (trim_space otp) = otp_hash c"
    and "wrand w = n # ns" "wuuids w = u # us"
    and "\<And>cl. \<exists>a. sign env cl = Inr a" "st_id s \<in> st_id ` set (rm_users (wdb w))"
    and "token_ok (new_token u (st_id s) (hash env (raw_url32 n)) (wnow w + RefreshTokenTTL)) (rm_tokens (wdb w))"
  shows "\<exists>p w'. verify_judge env otp (s, c) w = (Inr p, w') \<and> wfaults w' = [] \<and> wrand w' = ns \<and> wuuids w' = us \<and>
     wnow w' = wnow w \<and> rm_users (wdb w') = rm_users (wdb w) \<and>
     rm_tokens (wdb w') = rm_tokens (wdb w) @
       [new_token u (st_id s) (hash env (raw_url32 n)) (wnow w + RefreshTokenTTL)] \<and>
     length (otp_codes (wdb w')) = length (otp_codes (wdb w))"
proof -
  obtain a where a: "sign env \<lparr>cl_rm = st_id s, cl_role = st_role s, cl_expires = (wnow w + RMAccessTokenTTL) div second,
      cl_issued = wnow w div second, cl_audience = [''rm-console'']\<rparr> = Inr a" using assms(6) by blast
  have "fk_staff (Some (st_id s)) (burnt i t (wdb w))" for i t
    using assms(7) by (auto simp: fk_staff_def burnt_def list_ex_iff)
  then have "wp (verify_judge env otp (s, c)) (\<lambda>p w'. wfaults w' = [] \<and> wrand w' = ns \<and> wuuids w' = us \<and>
     wnow w' = wnow w \<and> rm_users (wdb w') = rm_users (wdb w) \<and>
     rm_tokens (wdb w') = rm_tokens (wdb w) @
       [new_token u (st_id s) (hash env (raw_url32 n)) (wnow w + RefreshTokenTTL)] \<and>
     length (otp_codes (wdb w')) = length (otp_codes (wdb w))) (\<lambda>_ _. False) w"
    using assms a
    by (simp add: verify_judge_def wp_simps ConsumeOTP_def issueTokenPair_def generateAccessToken_def generateOpaqueToken_def
        rm_CreateRefreshToken_def rm_insert_token_def rmOTPMaxAttempts_def Let_def tick_no_faults faulty_def
        burnt_def[symmetric]) (simp add: burnt_def)
  then show ?thesis by (auto simp: wp_def split: prod.splits sum.splits)
qed


section \<open>Every login operation keeps the invariant\<close>

definition login_inv :: "rm_db \<Rightarrow> bool" where
  "login_inv d \<longleftrightarrow> otp_inv d \<and> tokens_ok (rm_tokens d) \<and> staff_table_ok (rm_users d)"

datatype login_op =
    SendOp string
  | VerifyOp string string
  | RefreshOp string
  | LogoutOp string
  | ProfileOp uuid UpdateProfileRequest
  | MeOp uuid

fun login_step :: "auth_env \<Rightarrow> login_op \<Rightarrow> (rm_db, unit) act" where
  "login_step env (SendOp ident) = bind (SendOTP env ident) (\<lambda>_. ret ())"
| "login_step env (VerifyOp ident otp) = bind (VerifyOTP env ident otp) (\<lambda>_. ret ())"
| "login_step env (RefreshOp t) = bind (Refresh env t) (\<lambda>_. ret ())"
| "login_step env (LogoutOp t) = Logout env t"
| "login_step env (ProfileOp r req) = bind (UpdateProfile r req) (\<lambda>_. ret ())"
| "login_step env (MeOp r) = bind (Me r) (\<lambda>_. ret ())"

abbreviation keeps_login :: "(rm_db, 'a) act \<Rightarrow> rm_db world \<Rightarrow> bool" where
  "keeps_login m w \<equiv> wp m (\<lambda>_ w'. login_inv (wdb w')) (\<lambda>_ w'. login_inv (wdb w')) w"

lemma otp_inv_closed: "otp_inv d \<Longrightarrow> otp_inv (closed_for r t d)"
  unfolding closed_for_def by (rule otp_inv_where) auto

lemma login_inv_closed: "login_inv d \<Longrightarrow> login_inv (closed_for r t d)"
  by (simp add: login_inv_def otp_inv_closed) (simp add: closed_for_def)

lemma login_inv_burnt: "login_inv d \<Longrightarrow> login_inv (burnt i t d)"
  by (simp add: login_inv_def otp_inv_burnt) (simp add: burnt_def)

lemma login_inv_bumped: "login_inv d \<Longrightarrow> login_inv (bumped i d)"
  by (simp add: login_inv_def otp_inv_bumped) (simp add: bumped_def)

lemma login_inv_sent: "login_inv d \<Longrightarrow> sent_code env t s d d' \<Longrightarrow> login_inv d'"
proof -
  assume inv: "login_inv d" and "sent_code env t s d d'"
  then obtain i code where i: "list_all (\<lambda>c. otp_id c \<noteq> i) (otp_codes d)"
    and d': "d' = (closed_for (st_id s) t d)\<lparr>otp_codes := otp_codes (closed_for (st_id s) t d) @ [otp_row_for env s code t i]\<rparr>"
    by (auto simp: sent_code_def)
  have "otp_inv d'"
  proof (rule otp_inv_new)
    show "otp_inv (closed_for (st_id s) t d)" using inv by (simp add: login_inv_def otp_inv_closed)
    show "open_codes (st_id s) (closed_for (st_id s) t d) = 0" unfolding closed_for_def by (rule open_codes_invalidated)
    show "list_all (\<lambda>c. otp_id c \<noteq> i) (otp_codes (closed_for (st_id s) t d))" using i by (simp add: ids_closed_for)
    show "otp_codes d' = otp_codes (closed_for (st_id s) t d) @ [\<lparr>otp_id = i, otp_rm = st_id s, otp_hash = hash env code,
        otp_expires = t + rmOTPTTL, otp_consumed = None, otp_attempts = 0, otp_created = t\<rparr>]"
      by (simp add: d' otp_row_for_def)
  qed
  then show ?thesis using inv by (simp add: login_inv_def d' closed_for_def)
qed

lemma login_inv_session: "login_inv d \<Longrightarrow> session_for env s t p d d' \<Longrightarrow> login_inv d'"
  using session_for_same[of env s t p d d'] otp_inv_same[of d' d] tokens_ok_issued
  by (auto simp: login_inv_def session_for_def)

lemma keeps_SendOTP: "login_inv (wdb w) \<Longrightarrow> keeps_login (SendOTP env ident) w"
  by (rule wp_mono[OF wp_SendOTP])
     (auto split: option.splits if_splits intro: login_inv_closed login_inv_sent)

lemma keeps_VerifyOTP: "login_inv (wdb w) \<Longrightarrow> keeps_login (VerifyOTP env ident otp) w"
  by (rule wp_mono[OF wp_VerifyOTP])
     (auto split: if_splits intro: login_inv_session login_inv_burnt login_inv_bumped)

text \<open>
  What \<open>Refresh\<close> does: the presented token is rotated or nothing changes; after a rotation the
  request may still be refused, if the account is gone or inactive.
\<close>

lemma wp_Refresh:
  "wp (Refresh env tok)
     (\<lambda>p w'. \<exists>s. rotated (wnow w) (hash env tok) (hash env (tp_refresh p)) (wnow w + RefreshTokenTTL) (Some (st_id s))
           (rm_tokens (wdb w)) (rm_tokens (wdb w')) \<and> token_only (wdb w) (wdb w') \<and>
         s \<in> set (rm_users (wdb w)) \<and> st_status s = StatusActive \<and> tp_rm p = staff_public s \<and> tp_role p = st_role s \<and>
         sign env \<lparr>cl_rm = st_id s, cl_role = st_role s, cl_expires = (wnow w + RMAccessTokenTTL) div second,
           cl_issued = wnow w div second, cl_audience = [''rm-console'']\<rparr> = Inr (tp_access p))
     (\<lambda>_ w'. wdb w' = wdb w \<or> (\<exists>new u. rotated (wnow w) (hash env tok) new (wnow w + RefreshTokenTTL) (Some u)
           (rm_tokens (wdb w)) (rm_tokens (wdb w')) \<and> token_only (wdb w) (wdb w'))) w"
proof -
  have now: "wp (rm_RotateRefreshToken old new ex) (\<lambda>_ w'. wnow w' = wnow v) (\<lambda>_ w'. True) v" for old new ex v
    by (auto simp: rm_RotateRefreshToken_def rm_consume_def rm_insert_token_def wp_simps Let_def
        split: option.splits list.splits)
  have rot: "wp (rm_RotateRefreshToken old new ex)
      (\<lambda>r w'. rotated (wnow v) old new ex r (rm_tokens (wdb v)) (rm_tokens (wdb w')) \<and> token_only (wdb v) (wdb w') \<and>
         wnow w' = wnow v) (\<lambda>_ w'. wdb w' = wdb v) v" for old new ex v
    by (rule wp_mono[OF wp_conj[OF rm_rotate_law now]]) (auto simp: token_only_def)
  have find: "find_staff u d' = Some s \<Longrightarrow> token_only d d' \<Longrightarrow> s \<in> set (rm_users d) \<and> st_id s = u" for u d d' s
    by (metis find_staff_SomeD token_onlyD)
  have same: "rotated t old new ex None rs rs' \<Longrightarrow> token_only d d' \<Longrightarrow> rm_tokens d = rs \<Longrightarrow> rm_tokens d' = rs' \<Longrightarrow> d' = d"
    for t old new ex rs rs' d d'
    by (auto simp: rotated_def token_only_def)
  show ?thesis
    unfolding Refresh_def
    apply (auto simp: wp_fail)
    apply (subst wp_bind)
    apply (rule wp_generateOpaqueToken)
    subgoal for n v
      apply (simp add: wp_simps)
      apply (rule wp_mono[OF rot])
      subgoal for r v'
        apply (cases r)
        subgoal by (auto simp: wp_simps dest: same)
        subgoal for u
          by (auto simp: wp_simps generateAccessToken_def split: option.splits sum.splits dest!: find)
        done
      subgoal by simp
      done
    subgoal by simp
    done
qed

lemma login_inv_rotated:
  "login_inv d \<Longrightarrow> rotated t old new ex (Some u) (rm_tokens d) (rm_tokens d') \<Longrightarrow> token_only d d' \<Longrightarrow> login_inv d'"
  using token_onlyD[of d d'] otp_inv_same[of d' d] tokens_ok_rotated by (auto simp: login_inv_def)

lemma keeps_Refresh: "login_inv (wdb w) \<Longrightarrow> keeps_login (Refresh env tok) w"
  by (rule wp_mono[OF wp_Refresh]) (auto intro: login_inv_rotated)

lemma keeps_Logout: "login_inv (wdb w) \<Longrightarrow> keeps_login (Logout env tok) w"
  by (auto simp: Logout_def wp_simps rm_RevokeRefreshToken_def login_inv_def otp_inv_def open_codes_def)

lemma login_inv_only_staff: "login_inv d \<Longrightarrow> only_staff d d' \<Longrightarrow> login_inv d'"
proof -
  assume inv: "login_inv d" and o: "only_staff d d'"
  then have d': "d' = d\<lparr>rm_users := rm_users d'\<rparr>" "staff_table_ok (rm_users d')" by (auto simp: only_staff_def)
  have "otp_codes d' = otp_codes d" "rm_tokens d' = rm_tokens d" by (subst d'(1), simp)+
  then show ?thesis using inv d'(2) otp_inv_same[of d' d] by (simp add: login_inv_def)
qed

lemma keeps_staff_Update:
  assumes "login_inv (wdb w)"
  shows "keeps_login (staff_Update i req) w"
proof (rule wp_mono[OF wp_staff_Update])
  show "staff_table_ok (rm_users (wdb w))" using assms by (simp add: login_inv_def)
qed (use assms in \<open>auto intro: login_inv_only_staff\<close>)

lemma keeps_UpdateProfile: "login_inv (wdb w) \<Longrightarrow> keeps_login (UpdateProfile i req) w"
  unfolding UpdateProfile_def Let_def
  by (auto simp: wp_fail wp_option wp_ret wp_if wp_bind[of "GetByEmail _"] wp_GetByEmail split: option.splits
      intro!: wp_seq[of _ "\<lambda>w'. login_inv (wdb w')"] keeps_staff_Update)

lemma keeps_login_step: "login_inv (wdb w) \<Longrightarrow> keeps_login (login_step env oper) w"
  by (cases oper)
     (auto simp: wp_simps Me_def keeps_SendOTP keeps_VerifyOTP keeps_Refresh keeps_Logout keeps_UpdateProfile
      split: option.splits)

interpretation login: invariant_service "login_step env" login_inv for env
  by unfold_locales (rule keeps_login_step)

text \<open>
  C12. One open code per member, always: after any sequence of code requests, guesses,
  refreshes, log-outs and profile edits, with any failing database calls, no member has two
  unconsumed codes, and every stored refresh-token hash is unique.
\<close>

theorem one_open_code:
  assumes "login_inv (wdb w)"
  shows "open_codes r (wdb (run_ops (login_step env) w es)) \<le> 1 \<and>
    distinct (map tok_hash (rm_tokens (wdb (run_ops (login_step env) w es))))"
proof -
  have "login_inv (wdb (run_ops (login_step env) w es))" by (rule login.run_keeps[OF assms])
  then show ?thesis using open_codes_le by (simp add: login_inv_def tokens_ok_def)
qed

lemma one_open_code_witness:
  "open_codes ''s1'' (wdb (run_ops (login_step demo_env) login_demo
     [(SendOp ''a@b'', 5, [], [42], [''k9'']), (SendOp ''E1'', 5, [False, False, True], [43], [''k8''])])) \<le> 1"
proof -
  have "login_inv (wdb login_demo)" by code_simp
  then show ?thesis using one_open_code by blast
qed

text \<open>
  A console session is renewed only for its owner: a successful refresh presented a token
  whose hash was stored, unexpired and unrevoked, belongs to an active member, retires that
  token and stores exactly one replacement for the same member; the new access token is
  signed for them. If it fails, either nothing changed or the old token was rotated out.
\<close>

theorem Refresh_correct:
  assumes "Refresh env tok w = (Inr p, w')"
  shows "\<exists>s \<in> set (rm_users (wdb w)). live_owner (wnow w) (hash env tok) (rm_tokens (wdb w)) = Some (st_id s) \<and>
     st_status s = StatusActive \<and> tp_rm p = staff_public s \<and> tp_role p = st_role s \<and>
     used (hash env tok) (rm_tokens (wdb w')) \<and>
     issued (st_id s) (hash env (tp_refresh p)) (wnow w + 30 * 24 * 3600 * 1000000000)
       (revoke_usable (wnow w) (hash env tok) (rm_tokens (wdb w))) (rm_tokens (wdb w'))"
proof -
  obtain s where s: "rotated (wnow w) (hash env tok) (hash env (tp_refresh p)) (wnow w + RefreshTokenTTL) (Some (st_id s))
           (rm_tokens (wdb w)) (rm_tokens (wdb w'))" "s \<in> set (rm_users (wdb w))" "st_status s = StatusActive"
      "tp_rm p = staff_public s" "tp_role p = st_role s"
    using wp_returns[OF wp_Refresh assms] by blast
  have "used (hash env tok) (rm_tokens (wdb w'))" by (rule rotated_used[OF s(1)])
  then show ?thesis using s by (auto simp: rotated_def RefreshTokenTTL_def second_def)
qed

lemma Refresh_correct_witness:
  "\<exists>p w'. Refresh demo_env ''t1'' login_demo = (Inr p, w') \<and> used ''t1'' (rm_tokens (wdb w'))"
proof -
  have h: "hash demo_env x = x" for x by (simp add: demo_env_def)
  have "wp (Refresh demo_env ''t1'') (\<lambda>_ _. True) (\<lambda>_ _. False) login_demo"
  proof -
    have len: "length (raw_url32 77) = 43" by (simp add: raw_url32_def)
    then have "raw_url32 77 \<noteq> ''t1''" by auto
    then have ne: "raw_url32 77 \<noteq> ''t1''" "''t1'' \<noteq> raw_url32 77" by metis+
    show ?thesis
      by (simp add: Refresh_def generateOpaqueToken_def generateAccessToken_def rm_RotateRefreshToken_def rm_consume_def
          rm_insert_token_def wp_simps login_demo_def demo_env_def demo_staff1_def faulty_def Let_def usable_def
          new_token_def token_ok_def fk_staff_def find_staff_def revoke_usable_def len ne tick_def)
  qed
  then obtain p w' where r: "Refresh demo_env ''t1'' login_demo = (Inr p, w')"
    by (auto simp: wp_def split: prod.splits sum.splits)
  then show ?thesis using Refresh_correct[OF r] h by auto
qed

lemma SendOTP_newest_only_witness:
  "\<exists>r w'. SendOTP (demo_env\<lparr>otpDevCode := ''123456''\<rparr>) '' e1 '' login_demo = (Inr r, w') \<and>
     open_codes ''s1'' (wdb w') = 1 \<and> os_masked r \<noteq> ''''"
proof -
  let ?env = "demo_env\<lparr>otpDevCode := ''123456''\<rparr>"
  have inv: "otp_inv (wdb login_demo)" by code_simp
  have "\<not> isl (fst (SendOTP ?env '' e1 '' login_demo))" by code_simp
  then obtain r w' where r: "SendOTP ?env '' e1 '' login_demo = (Inr r, w')"
    by (blast dest: not_islD)
  have f: "find_identifier (trim_space '' e1 '') (wdb login_demo) = Some demo_staff1" by code_simp
  have a: "reachable_staff ?env demo_staff1" by code_simp
  have m: "maskPhone (the (st_phone demo_staff1)) \<noteq> ''''" by code_simp
  have "st_id demo_staff1 = ''s1''" by (simp add: demo_staff1_def)
  then show ?thesis using SendOTP_newest_only[OF inv r] r f a m by simp
qed

end
