(* ===== verification/AuthGate.thy ===== *)
theory AuthGate
  imports UserSignup RmAuth
begin

text \<open>
  The gates in front of the handlers: \<open>internal/middleware/auth.go\<close> (bearer tokens of app users
  and the short-lived cache of "does this account still exist"), \<open>rm_auth.go\<close> (staff tokens and
  the admin check) and \<open>ip_blocklist.go\<close>; token validation is \<open>ValidateToken\<close> of
  \<open>internal/service/auth.go\<close> and \<open>rmauth.go\<close>. The JWT library's parser is a parameter.
\<close>

section \<open>Token validation\<close>

record Claims =
  ac_user :: uuid
  ac_expires :: int
  ac_issued :: int

text \<open>
  \<open>jwt.ParseWithClaims\<close>: given the key function (from the algorithm the token's header names
  to the key), the token and the time, the claims and whether the token is valid.
\<close>

type_synonym 'c jwt_parser = "(string \<Rightarrow> goerr + string) \<Rightarrow> string \<Rightarrow> int \<Rightarrow> goerr + ('c \<times> bool)"

definition keyfunc :: "string \<Rightarrow> string \<Rightarrow> goerr + string" where
  "keyfunc jwtSecret alg =
     (if alg \<in> {''HS256'', ''HS384'', ''HS512''} then Inr jwtSecret
      else Inl (Plain (''unexpected signing method: '' @ alg)))"

definition ValidateToken :: "Claims jwt_parser \<Rightarrow> string \<Rightarrow> string \<Rightarrow> int \<Rightarrow> goerr + Claims" where
  "ValidateToken parse jwtSecret tokenString t =
     (case parse (keyfunc jwtSecret) tokenString t of
        Inl e \<Rightarrow> Inl (Wrap ''invalid token'' e)
      | Inr (claims, valid) \<Rightarrow> (if \<not> valid then Inl (Plain ''token is not valid'') else Inr claims))"

definition rm_ValidateToken :: "RMClaims jwt_parser \<Rightarrow> string \<Rightarrow> string \<Rightarrow> int \<Rightarrow> goerr + RMClaims" where
  "rm_ValidateToken parse jwtSecret tokenString t =
     (case parse (keyfunc jwtSecret) tokenString t of
        Inl e \<Rightarrow> Inl (Wrap ''invalid rm token'' e)
      | Inr (claims, valid) \<Rightarrow> (if \<not> valid then Inl (Plain ''rm token is not valid'') else Inr claims))"

section \<open>The existence cache\<close>

record cache_entry =
  ce_exists :: bool
  ce_expires :: int

type_synonym cache = "(uuid \<times> cache_entry) list"

definition existenceCacheTTL :: int where "existenceCacheTTL = 90 * second"

definition cache_limit :: nat where "cache_limit = 10000"

text \<open>The first locked section of \<open>checkExists\<close>: a fresh entry answers.\<close>

definition cache_lookup :: "uuid \<Rightarrow> int \<Rightarrow> cache \<Rightarrow> bool option" where
  "cache_lookup u now c = (case map_of c u of
       Some e \<Rightarrow> (if now < ce_expires e then Some (ce_exists e) else None)
     | None \<Rightarrow> None)"

text \<open>The second: the answer is stored, and a full cache drops what has expired.\<close>

definition cache_store :: "uuid \<Rightarrow> bool \<Rightarrow> int \<Rightarrow> cache \<Rightarrow> cache" where
  "cache_store u ex now c =
     (let c' = (u, \<lparr>ce_exists = ex, ce_expires = now + existenceCacheTTL\<rparr>) # filter (\<lambda>(k, _). k \<noteq> u) c
      in if length c' > cache_limit then filter (\<lambda>(_, e). \<not> now > ce_expires e) c' else c')"

definition checkExists :: "uuid \<Rightarrow> cache \<Rightarrow> rm_db world \<Rightarrow> bool \<times> cache \<times> rm_db world" where
  "checkExists u c w = (let now = wnow w in
     case cache_lookup u now c of
       Some b \<Rightarrow> (b, c, w)
     | None \<Rightarrow> (case GetByID u w of (r, w') \<Rightarrow>
         let ex = (case r of Inl _ \<Rightarrow> False | Inr _ \<Rightarrow> True) in (ex, cache_store u ex now c, w')))"

section \<open>Gates\<close>

text \<open>A request is refused with a status and a message, or admitted with an identity.\<close>

datatype 'c gate = Refused int string | Admit 'c

record request =
  authorization :: string
  token_param :: string

definition bearer_token :: "string \<Rightarrow> string option" where
  "bearer_token h = (case split_on CHR '' '' h of
       [a, b] \<Rightarrow> (if a = ''Bearer'' then Some b else None)
     | _ \<Rightarrow> None)"

definition header_token :: "request \<Rightarrow> (int \<times> string) + string" where
  "header_token r =
     (if authorization r = [] then Inl (401, ''Missing Authorization header'')
      else case bearer_token (authorization r) of
          None \<Rightarrow> Inl (401, ''Invalid Authorization format'')
        | Some t \<Rightarrow> Inr t)"

text \<open>For upgrade requests: the header when it is a bearer header, else the query parameter.\<close>

definition ws_token :: "request \<Rightarrow> (int \<times> string) + string" where
  "ws_token r =
     (let h = (if authorization r = [] then [] else case bearer_token (authorization r) of None \<Rightarrow> [] | Some t \<Rightarrow> t);
          t = (if h = [] then token_param r else h)
      in if t = [] then Inl (401, ''Missing auth token'') else Inr t)"

definition user_gate :: "Claims jwt_parser \<Rightarrow> string \<Rightarrow> (int \<times> string) + string \<Rightarrow> cache \<Rightarrow> rm_db world \<Rightarrow>
    uuid gate \<times> cache \<times> rm_db world" where
  "user_gate parse secret tok c w = (case tok of
       Inl (st, msg) \<Rightarrow> (Refused st msg, c, w)
     | Inr t \<Rightarrow> (case ValidateToken parse secret t (wnow w) of
         Inl _ \<Rightarrow> (Refused 401 ''Invalid or expired token'', c, w)
       | Inr claims \<Rightarrow> (case checkExists (ac_user claims) c w of (ok, c', w') \<Rightarrow>
           if \<not> ok then (Refused 401 ''Account no longer exists'', c', w')
           else (Admit (ac_user claims), c', w'))))"

definition RequireAuth :: "Claims jwt_parser \<Rightarrow> string \<Rightarrow> request \<Rightarrow> cache \<Rightarrow> rm_db world \<Rightarrow>
    uuid gate \<times> cache \<times> rm_db world" where
  "RequireAuth parse secret r = user_gate parse secret (header_token r)"

definition RequireAuthWS :: "Claims jwt_parser \<Rightarrow> string \<Rightarrow> request \<Rightarrow> cache \<Rightarrow> rm_db world \<Rightarrow>
    uuid gate \<times> cache \<times> rm_db world" where
  "RequireAuthWS parse secret r = user_gate parse secret (ws_token r)"

text \<open>Staff: the identity is the id and the role the token carries; no table is read.\<close>

definition rm_gate :: "RMClaims jwt_parser \<Rightarrow> string \<Rightarrow> (int \<times> string) + string \<Rightarrow> int \<Rightarrow> (uuid \<times> string) gate" where
  "rm_gate parse secret tok t = (case tok of
       Inl (st, msg) \<Rightarrow> Refused st msg
     | Inr s \<Rightarrow> (case rm_ValidateToken parse secret s t of
         Inl _ \<Rightarrow> Refused 401 ''Invalid or expired token''
       | Inr claims \<Rightarrow> Admit (cl_rm claims, cl_role claims)))"

definition RequireRMAuth :: "RMClaims jwt_parser \<Rightarrow> string \<Rightarrow> request \<Rightarrow> int \<Rightarrow> (uuid \<times> string) gate" where
  "RequireRMAuth parse secret r t = rm_gate parse secret (header_token r) t"

definition RequireRMAuthWS :: "RMClaims jwt_parser \<Rightarrow> string \<Rightarrow> request \<Rightarrow> int \<Rightarrow> (uuid \<times> string) gate" where
  "RequireRMAuthWS parse secret r t = rm_gate parse secret (ws_token r) t"

definition IsAdmin :: "uuid \<times> string \<Rightarrow> bool" where
  "IsAdmin who \<longleftrightarrow> snd who = RoleAdmin"

text \<open>Chained after \<open>RequireRMAuth\<close>.\<close>

fun RequireAdmin :: "(uuid \<times> string) gate \<Rightarrow> (uuid \<times> string) gate" where
  "RequireAdmin (Refused st msg) = Refused st msg"
| "RequireAdmin (Admit who) = (if IsAdmin who then Admit who else Refused 403 ''Admin access required'')"

section \<open>The address blocklist\<close>

fun last_index :: "char \<Rightarrow> nat \<Rightarrow> string \<Rightarrow> nat option" where
  "last_index ch i [] = None"
| "last_index ch i (x # xs) = (case last_index ch (Suc i) xs of Some j \<Rightarrow> Some j
     | None \<Rightarrow> if x = ch then Some i else None)"

fun index_of :: "char \<Rightarrow> string \<Rightarrow> nat option" where
  "index_of ch [] = None"
| "index_of ch (x # xs) = (if x = ch then Some 0 else map_option Suc (index_of ch xs))"

text \<open>
  \<open>net.SplitHostPort\<close> (the standard library's): the host, unless the port is missing, there
  are too many colons, or brackets are misplaced.
\<close>

definition split_host :: "string \<Rightarrow> string option" where
  "split_host hp = (case last_index CHR '':'' 0 hp of
       None \<Rightarrow> None
     | Some i \<Rightarrow>
         if hp ! 0 = CHR ''[''
         then (case index_of CHR '']'' hp of
             None \<Rightarrow> None
           | Some e \<Rightarrow>
               if e + 1 \<noteq> i then None
               else if CHR ''['' \<in> set (drop 1 hp) \<or> CHR '']'' \<in> set (drop (e + 1) hp) then None
               else Some (take (e - 1) (drop 1 hp)))
         else (let host = take i hp in
               if CHR '':'' \<in> set host then None
               else if CHR ''['' \<in> set hp \<or> CHR '']'' \<in> set hp then None
               else Some host))"

definition stripPort :: "string \<Rightarrow> string" where
  "stripPort addr = (case split_host addr of None \<Rightarrow> addr | Some host \<Rightarrow> host)"

text \<open>The seeds, then the comma-separated list of the environment, each trimmed.\<close>

definition newIPBlocklist :: "string list \<Rightarrow> string \<Rightarrow> string list" where
  "newIPBlocklist blocked env =
     filter (\<lambda>ip. ip \<noteq> []) (map trim_space blocked) @
     (if env = [] then [] else filter (\<lambda>ip. ip \<noteq> []) (map trim_space (split_on CHR '','' env)))"

definition BlockIP :: "string \<Rightarrow> string list \<Rightarrow> string list" where
  "BlockIP ip ips = ip # ips"

definition IPBlocklistMiddleware :: "string list \<Rightarrow> string \<Rightarrow> unit gate" where
  "IPBlocklistMiddleware ips remote = (if stripPort remote \<in> set ips then Refused 403 ''Forbidden'' else Admit ())"

section \<open>What a header admits\<close>

lemma bearer_token_iff: "bearer_token h = Some t \<longleftrightarrow> h = ''Bearer '' @ t \<and> CHR '' '' \<notin> set t"
proof -
  have "bearer_token h = Some t \<longleftrightarrow> split_on CHR '' '' h = [''Bearer'', t]"
    by (auto simp: bearer_token_def split: list.splits if_splits)
  then show ?thesis unfolding split_on_two by auto
qed

text \<open>\<open>bears r tok\<close>: the header is the word Bearer, one blank, and the token, which has no blank.\<close>

definition bears :: "request \<Rightarrow> string \<Rightarrow> bool" where
  "bears r tok \<longleftrightarrow> authorization r = ''Bearer '' @ tok \<and> CHR '' '' \<notin> set tok"

lemma header_token_iff: "header_token r = Inr tok \<longleftrightarrow> bears r tok"
proof -
  have "header_token r = Inr tok \<longleftrightarrow> bearer_token (authorization r) = Some tok"
    by (cases "bearer_token (authorization r)") (auto simp: header_token_def bearer_token_def)
  then show ?thesis by (simp only: bearer_token_iff bears_def)
qed

lemma header_token_401: "header_token r = Inl (st, msg) \<Longrightarrow> st = 401"
  by (auto simp: header_token_def split: if_splits option.splits)

lemma bears_unique: "bears r tok \<Longrightarrow> bears r tok' \<Longrightarrow> tok' = tok"
  by (simp add: bears_def)


section \<open>A user token is no staff token\<close>

text \<open>
  The two kinds of token never open each other's doors: if the parser accepts a token only
  when it carries a MAC that verifies under the key the key function gave for an algorithm it
  allows, and a token verifies under one key only, then with different secrets no string
  validates both as an app token and as a staff token.
\<close>

theorem token_kinds_disjoint:
  assumes "\<And>kf tok t c. uparse kf tok t = Inr (c, True) \<Longrightarrow> \<exists>alg k. kf alg = Inr k \<and> mac_ok alg k tok"
    and "\<And>kf tok t c. rparse kf tok t = Inr (c, True) \<Longrightarrow> \<exists>alg k. kf alg = Inr k \<and> mac_ok alg k tok"
    and "\<And>alg k alg' k' tok. mac_ok alg k tok \<Longrightarrow> mac_ok alg' k' tok \<Longrightarrow> k = k'"
    and "userSecret \<noteq> rmSecret"
  shows "isl (ValidateToken uparse userSecret tok t) \<or> isl (rm_ValidateToken rparse rmSecret tok t')"
proof (rule ccontr)
  assume n: "\<not> ?thesis"
  then have "\<not> isl (ValidateToken uparse userSecret tok t)" "\<not> isl (rm_ValidateToken rparse rmSecret tok t')" by auto
  then obtain c c' where "uparse (keyfunc userSecret) tok t = Inr (c, True)" "rparse (keyfunc rmSecret) tok t' = Inr (c', True)"
    by (auto simp: ValidateToken_def rm_ValidateToken_def split: sum.splits prod.splits if_splits)
  from assms(1)[OF this(1)] assms(2)[OF this(2)] obtain alg k alg' k' where
    k: "keyfunc userSecret alg = Inr k" "mac_ok alg k tok" "keyfunc rmSecret alg' = Inr k'" "mac_ok alg' k' tok" by blast
  have "k = userSecret" "k' = rmSecret" using k(1,3) by (simp_all add: keyfunc_def split: if_splits)
  then show False using assms(3)[OF k(2,4)] assms(4) by simp
qed

text \<open>A toy MAC for the witness: the token is the algorithm, a dot, and the key.\<close>

definition toy_mac :: "string \<Rightarrow> string \<Rightarrow> string \<Rightarrow> bool" where
  "toy_mac alg k tok \<longleftrightarrow> split_on CHR ''.'' tok = [alg, k]"

definition toy_parse :: "'c \<Rightarrow> 'c jwt_parser" where
  "toy_parse c kf tok t = (case split_on CHR ''.'' tok of
     [alg, k] \<Rightarrow> (case kf alg of Inl e \<Rightarrow> Inl e | Inr k' \<Rightarrow> Inr (c, k = k'))
   | _ \<Rightarrow> Inl (Plain ''malformed''))"

lemma toy_parse_mac: "toy_parse c kf tok t = Inr (d, True) \<Longrightarrow> \<exists>alg k. kf alg = Inr k \<and> toy_mac alg k tok"
  by (auto simp: toy_parse_def toy_mac_def split: list.splits sum.splits)

lemma token_kinds_disjoint_witness:
  "\<not> isl (ValidateToken (toy_parse \<lparr>ac_user = ''u'', ac_expires = 9, ac_issued = 1\<rparr>) ''k1'' ''HS256.k1'' 5) \<and>
   isl (rm_ValidateToken (toy_parse \<lparr>cl_rm = ''r'', cl_role = ''rm'', cl_expires = 9, cl_issued = 1, cl_audience = []\<rparr>)
     ''k2'' ''HS256.k1'' 5)"
proof -
  let ?u = "toy_parse \<lparr>ac_user = ''u'', ac_expires = 9, ac_issued = 1\<rparr>"
  let ?r = "toy_parse \<lparr>cl_rm = ''r'', cl_role = ''rm'', cl_expires = 9, cl_issued = 1, cl_audience = []\<rparr>"
  have u: "\<not> isl (ValidateToken ?u ''k1'' ''HS256.k1'' 5)" by code_simp
  have "isl (ValidateToken ?u ''k1'' ''HS256.k1'' 5) \<or> isl (rm_ValidateToken ?r ''k2'' ''HS256.k1'' 5)"
    by (rule token_kinds_disjoint[where mac_ok = toy_mac]) (auto simp: toy_mac_def dest: toy_parse_mac)
  with u show ?thesis by blast
qed

section \<open>The blocklist\<close>

lemma last_index_app:
  "last_index ch i (xs @ ch # ys) = (case last_index ch (i + length xs + 1) ys of Some j \<Rightarrow> Some j | None \<Rightarrow> Some (i + length xs))"
  by (induction xs arbitrary: i) (auto split: option.splits)

lemma last_index_none: "ch \<notin> set xs \<Longrightarrow> last_index ch i xs = None"
  by (induction xs arbitrary: i) auto

lemma index_of_app: "ch \<notin> set xs \<Longrightarrow> index_of ch (xs @ ch # ys) = Some (length xs)"
  by (induction xs) auto

definition plain_text :: "string \<Rightarrow> bool" where
  "plain_text s \<longleftrightarrow> CHR '':'' \<notin> set s \<and> CHR ''['' \<notin> set s \<and> CHR '']'' \<notin> set s"

lemma stripPort_v4:
  assumes "plain_text ip" "plain_text port"
  shows "stripPort (ip @ CHR '':'' # port) = ip"
proof -
  have "(ip @ CHR '':'' # port) ! 0 \<noteq> CHR ''[''" using assms by (cases ip) (auto simp: plain_text_def)
  then show ?thesis
    using assms by (auto simp: stripPort_def split_host_def last_index_app last_index_none plain_text_def Let_def)
qed

lemma stripPort_v6:
  assumes "CHR ''['' \<notin> set ip" "CHR '']'' \<notin> set ip" "plain_text port"
  shows "stripPort (CHR ''['' # ip @ CHR '']'' # CHR '':'' # port) = ip"
proof -
  let ?a = "CHR ''['' # ip @ CHR '']'' # CHR '':'' # port"
  have "last_index CHR '':'' 0 ((CHR ''['' # ip @ [CHR '']'']) @ CHR '':'' # port) = Some (length ip + 2)"
    using assms(3) by (subst last_index_app) (simp add: last_index_none plain_text_def)
  then have l: "last_index CHR '':'' 0 ?a = Some (length ip + 2)" by (simp del: last_index.simps)
  have i: "index_of CHR '']'' ?a = Some (length ip + 1)"
    using index_of_app[of "CHR '']''" "CHR ''['' # ip" "CHR '':'' # port"] assms(2) by simp
  show ?thesis
    unfolding stripPort_def split_host_def l i using assms by (simp add: plain_text_def del: last_index.simps index_of.simps)
qed

lemma stripPort_bare: "CHR '':'' \<notin> set addr \<Longrightarrow> stripPort addr = addr"
  by (simp add: stripPort_def split_host_def last_index_none)

definition banned :: "string list \<Rightarrow> string list \<Rightarrow> string \<Rightarrow> string \<Rightarrow> bool" where
  "banned added blocked env ip \<longleftrightarrow> ip \<in> set added \<or>
     ip \<noteq> '''' \<and> (ip \<in> trim_space ` set blocked \<or> env \<noteq> '''' \<and> ip \<in> trim_space ` set (split_on CHR '','' env))"

text \<open>
  A banned address cannot come back through another port: an address in the seeds or in
  the comma-separated environment list (blanks around it ignored), or banned at run time, is
  refused with 403 whatever the port it connects from, as IPv4 "a:p" and as IPv6 "[a]:p";
  every other address passes.
\<close>

theorem blocklist_blocks:
  assumes "plain_text port" "plain_text ip4" "CHR ''['' \<notin> set ip6" "CHR '']'' \<notin> set ip6"
  shows "IPBlocklistMiddleware (fold BlockIP added (newIPBlocklist blocked env)) (ip4 @ CHR '':'' # port) =
      (if banned added blocked env ip4 then Refused 403 ''Forbidden'' else Admit ()) \<and>
    IPBlocklistMiddleware (fold BlockIP added (newIPBlocklist blocked env)) (CHR ''['' # ip6 @ CHR '']'' # CHR '':'' # port) =
      (if banned added blocked env ip6 then Refused 403 ''Forbidden'' else Admit ())"
proof -
  have "set (fold BlockIP added ips) = set added \<union> set ips" for ips
    by (induction added arbitrary: ips) (auto simp: BlockIP_def)
  then have "ip \<in> set (fold BlockIP added (newIPBlocklist blocked env)) \<longleftrightarrow> banned added blocked env ip" for ip
    by (auto simp: newIPBlocklist_def banned_def)
  then show ?thesis
    by (simp add: IPBlocklistMiddleware_def stripPort_v4[OF assms(2,1)] stripPort_v6[OF assms(3,4,1)])
qed

lemma blocklist_blocks_witness:
  "IPBlocklistMiddleware (newIPBlocklist [''169.58.252.152''] '' 10.0.0.9, ::1'') (''10.0.0.9'' @ '':4411'') = Refused 403 ''Forbidden'' \<and>
   IPBlocklistMiddleware (newIPBlocklist [''169.58.252.152''] '' 10.0.0.9, ::1'') (''['' @ ''::1'' @ '']:4411'') = Refused 403 ''Forbidden''"
proof -
  have p: "plain_text ''4411''" "plain_text ''10.0.0.9''" "CHR ''['' \<notin> set ''::1''" "CHR '']'' \<notin> set ''::1''" by code_simp+
  have b: "banned [] [''169.58.252.152''] '' 10.0.0.9, ::1'' ''10.0.0.9''" "banned [] [''169.58.252.152''] '' 10.0.0.9, ::1'' ''::1''"
    by code_simp+
  from blocklist_blocks[OF p, of "[]" "[''169.58.252.152'']" "'' 10.0.0.9, ::1''"] show ?thesis using b by simp
qed

section \<open>How stale the cache can be\<close>

text \<open>
  Requests of one process, accounts coming and going beside them. A request reads the cache in
  one locked section; on a miss it asks the database and stores the answer in a second one,
  stamped with the time it began. \<open>died\<close> records when an account was deleted; ids are never
  used twice.
\<close>

datatype job = Idle | Asking uuid int | Told uuid int bool | Answered uuid int bool

record gate_state =
  gs_now :: int
  gs_live :: "uuid set"
  gs_died :: "uuid \<Rightarrow> int option"
  gs_cache :: cache
  gs_jobs :: "nat \<Rightarrow> job"

definition resting :: "job \<Rightarrow> bool" where
  "resting j \<longleftrightarrow> (case j of Idle \<Rightarrow> True | Answered _ _ _ \<Rightarrow> True | _ \<Rightarrow> False)"

inductive gate_step :: "gate_state \<Rightarrow> gate_state \<Rightarrow> bool" where
  elapse: "gs_now s \<le> t \<Longrightarrow> gate_step s (s\<lparr>gs_now := t\<rparr>)"
| sign_up: "u \<notin> gs_live s \<Longrightarrow> gs_died s u = None \<Longrightarrow> gate_step s (s\<lparr>gs_live := insert u (gs_live s)\<rparr>)"
| delete: "u \<in> gs_live s \<Longrightarrow>
    gate_step s (s\<lparr>gs_live := gs_live s - {u}, gs_died := (gs_died s)(u := Some (gs_now s))\<rparr>)"
| hit: "resting (gs_jobs s j) \<Longrightarrow> cache_lookup u (gs_now s) (gs_cache s) = Some b \<Longrightarrow>
    gate_step s (s\<lparr>gs_jobs := (gs_jobs s)(j := Answered u (gs_now s) b)\<rparr>)"
| miss: "resting (gs_jobs s j) \<Longrightarrow> cache_lookup u (gs_now s) (gs_cache s) = None \<Longrightarrow>
    gate_step s (s\<lparr>gs_jobs := (gs_jobs s)(j := Asking u (gs_now s))\<rparr>)"
| told: "gs_jobs s j = Asking u t0 \<Longrightarrow> b = (u \<in> gs_live s) \<or> \<not> b \<Longrightarrow>
    gate_step s (s\<lparr>gs_jobs := (gs_jobs s)(j := Told u t0 b)\<rparr>)"
| store: "gs_jobs s j = Told u t0 b \<Longrightarrow>
    gate_step s (s\<lparr>gs_cache := cache_store u b t0 (gs_cache s), gs_jobs := (gs_jobs s)(j := Answered u t0 b)\<rparr>)"

inductive_cases gate_stepE: "gate_step s s'"

inductive gate_reachable :: "gate_state \<Rightarrow> bool" where
  start: "gate_reachable \<lparr>gs_now = 0, gs_live = {}, gs_died = (\<lambda>_. None), gs_cache = [], gs_jobs = (\<lambda>_. Idle)\<rparr>"
| step: "gate_reachable s \<Longrightarrow> gate_step s s' \<Longrightarrow> gate_reachable s'"

text \<open>What an answer still in flight, a given answer and a cached answer say about a deleted account.\<close>

definition job_ok :: "gate_state \<Rightarrow> job \<Rightarrow> bool" where
  "job_ok s j \<longleftrightarrow> (case j of
       Idle \<Rightarrow> True
     | Asking u t0 \<Rightarrow> t0 \<le> gs_now s
     | Told u t0 b \<Rightarrow> t0 \<le> gs_now s \<and> (b \<longrightarrow> (u \<in> gs_live s \<or> (\<exists>g. gs_died s u = Some g \<and> t0 \<le> g)))
     | Answered u t0 b \<Rightarrow> t0 \<le> gs_now s \<and>
         (b \<longrightarrow> (u \<in> gs_live s \<or> (\<exists>g. gs_died s u = Some g \<and> t0 < g + existenceCacheTTL))))"

definition entry_ok :: "gate_state \<Rightarrow> uuid \<times> cache_entry \<Rightarrow> bool" where
  "entry_ok s = (\<lambda>(u, e). ce_expires e \<le> gs_now s + existenceCacheTTL \<and>
     (ce_exists e \<longrightarrow> (u \<in> gs_live s \<or> (\<exists>g. gs_died s u = Some g \<and> ce_expires e \<le> g + existenceCacheTTL))))"

definition gate_inv :: "gate_state \<Rightarrow> bool" where
  "gate_inv s \<longleftrightarrow> (\<forall>u \<in> gs_live s. gs_died s u = None) \<and> (\<forall>j. job_ok s (gs_jobs s j)) \<and>
     (\<forall>x \<in> set (gs_cache s). entry_ok s x)"

lemma cache_lookup_Some:
  "cache_lookup u now c = Some b \<Longrightarrow> \<exists>e. (u, e) \<in> set c \<and> ce_exists e = b \<and> now < ce_expires e"
  by (auto simp: cache_lookup_def dest: map_of_SomeD split: option.splits if_splits)

lemma set_cache_store:
  "x \<in> set (cache_store u b t c) \<Longrightarrow> x = (u, \<lparr>ce_exists = b, ce_expires = t + existenceCacheTTL\<rparr>) \<or> x \<in> set c"
  by (auto simp: cache_store_def Let_def split: if_splits)

lemma TTL_pos: "0 < existenceCacheTTL"
  by (simp add: existenceCacheTTL_def second_def)

lemma gate_frame [simp]:
  "job_ok (s\<lparr>gs_cache := c, gs_jobs := f\<rparr>) = job_ok s" "entry_ok (s\<lparr>gs_cache := c, gs_jobs := f\<rparr>) = entry_ok s"
  by (simp_all add: job_ok_def entry_ok_def fun_eq_iff cong: job.case_cong)

lemma gate_inv_step:
  assumes "gate_inv s" "gate_step s s'"
  shows "gate_inv s'"
  using assms(2)
proof cases
  case (elapse t)
  then show ?thesis using assms(1)
    by (fastforce simp: gate_inv_def job_ok_def entry_ok_def split: job.splits)
next
  case (sign_up u)
  then show ?thesis using assms(1)
    by (fastforce simp: gate_inv_def job_ok_def entry_ok_def split: job.splits)
next
  case (delete u)
  have "job_ok s' (gs_jobs s' j)" for j
    using assms(1) delete TTL_pos by (cases "gs_jobs s j") (force simp: gate_inv_def job_ok_def dest: spec[of _ j])+
  moreover have "entry_ok s' x" if "x \<in> set (gs_cache s')" for x
    using assms(1) delete that by (fastforce simp: gate_inv_def entry_ok_def)
  ultimately show ?thesis using assms(1) delete by (auto simp: gate_inv_def)
next
  case (hit j u b)
  obtain e where e: "(u, e) \<in> set (gs_cache s)" "ce_exists e = b" "gs_now s < ce_expires e"
    using cache_lookup_Some[OF hit(3)] by auto
  have "entry_ok s (u, e)" using assms(1) e(1) by (auto simp: gate_inv_def)
  then have "job_ok s (Answered u (gs_now s) b)" using e by (force simp: job_ok_def entry_ok_def)
  then show ?thesis using assms(1) hit(1) by (auto simp: gate_inv_def job_ok_def entry_ok_def split: job.splits)
next
  case (miss j u)
  then show ?thesis using assms(1) by (auto simp: gate_inv_def job_ok_def entry_ok_def split: job.splits)
next
  case (told j u t0 b)
  have "job_ok s (Told u t0 b)"
    using assms(1) told(2,3) by (auto simp: gate_inv_def job_ok_def split: job.splits)
  then show ?thesis using assms(1) told(1) by (auto simp: gate_inv_def job_ok_def entry_ok_def split: job.splits)
next
  case (store j u t0 b)
  have j: "job_ok s (Told u t0 b)" using assms(1) store(2) by (metis gate_inv_def)
  then have "job_ok s (Answered u t0 b)" using TTL_pos by (force simp: job_ok_def)
  moreover have "entry_ok s (u, \<lparr>ce_exists = b, ce_expires = t0 + existenceCacheTTL\<rparr>)"
    using j by (force simp: job_ok_def entry_ok_def)
  ultimately have "entry_ok s x" if "x \<in> set (cache_store u b t0 (gs_cache s))" for x
    using assms(1) set_cache_store[OF that] by (auto simp: gate_inv_def)
  moreover have "job_ok s (if i = j then Answered u t0 b else gs_jobs s i)" for i
    using assms(1) \<open>job_ok s (Answered u t0 b)\<close> by (simp add: gate_inv_def)
  ultimately show ?thesis using assms(1) store(1) by (auto simp: gate_inv_def)
qed

lemma reachable_gate_inv: "gate_reachable s \<Longrightarrow> gate_inv s"
proof (induction rule: gate_reachable.induct)
  case start
  show ?case by (simp add: gate_inv_def job_ok_def)
next
  case (step s s')
  then show ?case by (rule_tac gate_inv_step)
qed



text \<open>
  C17. A failed look-up locks a real user out: when the database call of the check fails while
  nothing about the account is cached, the request is refused although the account exists,
  and for the next 90 seconds so is every request with the same account, without asking the
  database again.
\<close>

theorem outage_locks_out:
  assumes "cache_lookup u (wnow w) c = None" "faulty w" "find_user u (wdb w) = Some r"
    and "wnow w \<le> wnow v" "wnow v < wnow w + 90000000000"
  shows "fst (checkExists u c w) = False \<and>
     checkExists u (fst (snd (checkExists u c w))) v = (False, fst (snd (checkExists u c w)), v)"
proof -
  have "isl (fst (GetByID u w))"
    using assms(2) by (simp add: GetByID_def bind_def attempt_def query_row_def exec_def fail_def errors_is.simps)
  then have f: "fst (checkExists u c w) = False" "fst (snd (checkExists u c w)) = cache_store u False (wnow w) c"
    using assms(1) by (auto simp: checkExists_def Let_def split: prod.splits sum.splits)
  have "cache_lookup u (wnow v) (cache_store u False (wnow w) c) = Some False"
    using assms(4,5) by (simp add: cache_lookup_def cache_store_def Let_def existenceCacheTTL_def second_def)
  then show ?thesis unfolding f by (simp add: checkExists_def)
qed

lemma outage_locks_out_witness:
  "let w = signup_world\<lparr>wfaults := [True]\<rparr>; c = fst (snd (checkExists ''u1'' [] w)) in
     fst (checkExists ''u1'' [] w) = False \<and>
     fst (checkExists ''u1'' c (signup_world\<lparr>wnow := wnow w + 89000000000\<rparr>)) = False"
proof -
  let ?w = "signup_world\<lparr>wfaults := [True]\<rparr>" and ?v = "signup_world\<lparr>wnow := wnow signup_world + 89000000000\<rparr>"
  have "cache_lookup ''u1'' (wnow ?w) [] = None" "faulty ?w" "find_user ''u1'' (wdb ?w) = Some (demo_client ''u1'' (Some ''r1'') 1)"
    by code_simp+
  from outage_locks_out[OF this, of ?v] show ?thesis by (simp add: Let_def)
qed

end
