(* ===== verification/Hub.thy ===== *)
theory Hub
  imports RmAdmin
begin

text \<open>
  The in-process event hub, \<open>internal/events/hub.go\<close>, and the part of the admin handlers that
  publishes through it (\<open>internal/handler/rm_admin_handler.go\<close>). A channel is a number, its
  state the events buffered and whether it is closed. First the operations as functions on the
  hub, then, over the same functions, the interleaving of publishers, subscribers, cancels and
  receivers under the hub's read-write lock.
\<close>

section \<open>The hub\<close>

record Event =
  ev_type :: string
  ev_user :: uuid
  ev_rm :: uuid
  ev_at :: int

record Hub =
  subs :: "string \<Rightarrow> nat list"
  buffer :: "nat \<Rightarrow> Event list"
  closed :: "nat \<Rightarrow> bool"
  next_chan :: nat
  panicked :: bool

definition NewHub :: Hub where
  "NewHub = \<lparr>subs = (\<lambda>_. []), buffer = (\<lambda>_. []), closed = (\<lambda>_. False), next_chan = 0, panicked = False\<rparr>"

definition chan_size :: nat where "chan_size = 16"

definition TopicAdmin :: string where "TopicAdmin = ''admin''"
definition TopicUser :: "uuid \<Rightarrow> string" where "TopicUser u = ''user:'' @ u"
definition TopicRM :: "uuid \<Rightarrow> string" where "TopicRM r = ''rm:'' @ r"

text \<open>The locked section of \<open>Subscribe\<close>: the new channel is registered.\<close>

definition subscribe :: "string \<Rightarrow> Hub \<Rightarrow> nat \<times> Hub" where
  "subscribe topic h = (let c = next_chan h in
     (c, h\<lparr>subs := (subs h)(topic := subs h topic @ [c]), next_chan := c + 1\<rparr>))"

text \<open>The two halves of a cancel: the locked removal, then the close outside the lock.\<close>

definition unregister :: "string \<Rightarrow> nat \<Rightarrow> Hub \<Rightarrow> Hub" where
  "unregister topic c h = h\<lparr>subs := (subs h)(topic := removeAll c (subs h topic))\<rparr>"

definition close_chan :: "nat \<Rightarrow> Hub \<Rightarrow> Hub" where
  "close_chan c h = h\<lparr>closed := (closed h)(c := True)\<rparr>"

definition cancel :: "string \<Rightarrow> nat \<Rightarrow> Hub \<Rightarrow> Hub" where
  "cancel topic c h = close_chan c (unregister topic c h)"

text \<open>
  One turn of \<open>Publish\<close>'s loop: a non-blocking send. A full channel is skipped; a send on a
  closed channel would panic.
\<close>

definition send_one :: "Event \<Rightarrow> nat \<Rightarrow> Hub \<Rightarrow> Hub" where
  "send_one ev c h = (if closed h c then h\<lparr>panicked := True\<rparr>
     else if length (buffer h c) < chan_size then h\<lparr>buffer := (buffer h)(c := buffer h c @ [ev])\<rparr>
     else h)"

definition Publish :: "string \<Rightarrow> Event \<Rightarrow> Hub \<Rightarrow> Hub" where
  "Publish topic ev h = fold (send_one ev) (subs h topic) h"

definition receive :: "nat \<Rightarrow> Hub \<Rightarrow> Hub" where
  "receive c h = h\<lparr>buffer := (buffer h)(c := tl (buffer h c))\<rparr>"

section \<open>The publisher\<close>

definition TypeClientAssigned :: string where "TypeClientAssigned = ''client_assigned''"

text \<open>
  What the two entry points publish, as the list of topics and events in order. \<open>lookup\<close> is the
  outcome of the owner look-up (\<open>OwnerOf\<close>; \<open>None\<close>: no look-up is configured).
\<close>

definition UserChanged :: "(goerr + uuid option option) option \<Rightarrow> uuid \<Rightarrow> string \<Rightarrow> int \<Rightarrow> (string \<times> Event) list" where
  "UserChanged lookup userID eventType now =
     (let ev = \<lparr>ev_type = eventType, ev_user = userID, ev_rm = uuid_nil, ev_at = now\<rparr>
      in (TopicUser userID, ev) # (TopicAdmin, ev) #
         (case lookup of
            Some (Inr (Some (Some rmID))) \<Rightarrow> [(TopicRM rmID, ev\<lparr>ev_rm := rmID\<rparr>)]
          | _ \<Rightarrow> []))"

definition AssignmentChanged :: "uuid \<Rightarrow> uuid option \<Rightarrow> uuid option \<Rightarrow> int \<Rightarrow> (string \<times> Event) list" where
  "AssignmentChanged userID oldRMID newRMID now =
     (let ev = \<lparr>ev_type = TypeClientAssigned, ev_user = userID, ev_rm = uuid_nil, ev_at = now\<rparr>
      in (TopicAdmin, ev) #
         (case oldRMID of None \<Rightarrow> [] | Some r \<Rightarrow> [(TopicRM r, ev\<lparr>ev_rm := r\<rparr>)]) @
         (case newRMID of None \<Rightarrow> [] | Some r \<Rightarrow> [(TopicRM r, ev\<lparr>ev_rm := r\<rparr>)]) @
         [(TopicUser userID, ev)])"

definition publish_all :: "(string \<times> Event) list \<Rightarrow> Hub \<Rightarrow> Hub" where
  "publish_all ps h = fold (\<lambda>(t, ev). Publish t ev) ps h"

section \<open>The admin handlers that publish\<close>

text \<open>
  \<open>assign\<close>, \<open>transfer\<close>, \<open>remove\<close> and \<open>offboard\<close> behind an authenticated admin \<open>actor\<close>: the
  service call, and on success what is published (\<open>handler.WithEvents\<close> configured).
\<close>

definition seconds :: "int \<Rightarrow> int" where "seconds t = t div 1000000000"

definition handle_assign :: "uuid \<Rightarrow> AssignRequest \<Rightarrow> (rm_db, (string \<times> Event) list) act" where
  "handle_assign actor req = bind (Assign actor req) (\<lambda>_. bind time_now (\<lambda>t.
     ret (AssignmentChanged (as_user req) None (Some (as_rm req)) (seconds t))))"

definition old_owner :: "uuid \<Rightarrow> (rm_db, uuid option) act" where
  "old_owner u = bind (attempt (OwnerOf u)) (\<lambda>r. ret (case r of Inr (Some owner) \<Rightarrow> owner | _ \<Rightarrow> None))"

definition handle_transfer :: "uuid \<Rightarrow> TransferRequest \<Rightarrow> (rm_db, (string \<times> Event) list) act" where
  "handle_transfer actor req = bind (old_owner (tr_user req)) (\<lambda>old. bind (Transfer actor req) (\<lambda>_.
     bind time_now (\<lambda>t. ret (AssignmentChanged (tr_user req) old (Some (tr_to req)) (seconds t)))))"

definition handle_remove :: "uuid \<Rightarrow> RemoveRequest \<Rightarrow> (rm_db, (string \<times> Event) list) act" where
  "handle_remove actor req = bind (old_owner (re_user req)) (\<lambda>old. bind (Remove actor req) (\<lambda>_.
     bind time_now (\<lambda>t. ret (AssignmentChanged (re_user req) old None (seconds t)))))"

definition handle_offboard :: "uuid \<Rightarrow> uuid \<Rightarrow> string \<Rightarrow> (rm_db, nat \<times> (string \<times> Event) list) act" where
  "handle_offboard actor rmID reason = bind (Offboard actor rmID reason) (\<lambda>moved. ret (moved, []))"

section \<open>Facts: one publication\<close>

lemma send_one_sel [simp]:
  "subs (send_one ev c h) = subs h" "closed (send_one ev c h) = closed h" "next_chan (send_one ev c h) = next_chan h"
  by (simp_all add: send_one_def)

lemma fold_send_sel [simp]:
  "subs (fold (send_one ev) cs h) = subs h" "closed (fold (send_one ev) cs h) = closed h"
  by (induction cs arbitrary: h) simp_all

lemma buffer_send_one:
  "\<not> closed h c \<Longrightarrow> buffer (send_one ev c h) x =
     (if x = c \<and> length (buffer h c) < chan_size then buffer h c @ [ev] else buffer h x)"
  by (simp add: send_one_def)

lemma buffer_fold_send:
  "distinct cs \<Longrightarrow> \<forall>c \<in> set cs. \<not> closed h c \<Longrightarrow> buffer (fold (send_one ev) cs h) x =
     (if x \<in> set cs \<and> length (buffer h x) < chan_size then buffer h x @ [ev] else buffer h x)"
  by (induction cs arbitrary: h) (auto simp: buffer_send_one)

lemma panicked_fold_send:
  "\<forall>c \<in> set cs. \<not> closed h c \<Longrightarrow> panicked (fold (send_one ev) cs h) = panicked h"
proof (induction cs arbitrary: h)
  case (Cons c cs)
  have "panicked (send_one ev c h) = panicked h" using Cons.prems by (simp add: send_one_def)
  then show ?case using Cons by simp
qed simp

text \<open>Registered channels are open, below the next number, and registered once.\<close>

definition hub_ok :: "Hub \<Rightarrow> bool" where
  "hub_ok h \<longleftrightarrow> (\<forall>t. distinct (subs h t) \<and> (\<forall>c \<in> set (subs h t). \<not> closed h c \<and> c < next_chan h)) \<and>
     (\<forall>t u c. c \<in> set (subs h t) \<longrightarrow> c \<in> set (subs h u) \<longrightarrow> t = u) \<and>
     (\<forall>c. closed h c \<longrightarrow> c < next_chan h)"

lemma hub_ok_Publish: "hub_ok h \<Longrightarrow> hub_ok (Publish t ev h)"
proof -
  have "next_chan (fold (send_one ev) cs h) = next_chan h" for cs by (induction cs arbitrary: h) simp_all
  then show "hub_ok h \<Longrightarrow> hub_ok (Publish t ev h)" by (simp add: Publish_def hub_ok_def)
qed

lemma hub_okD:
  "hub_ok h \<Longrightarrow> c \<in> set (subs h t) \<Longrightarrow> \<not> closed h c \<and> c < next_chan h"
  "hub_ok h \<Longrightarrow> c \<in> set (subs h t) \<Longrightarrow> c \<in> set (subs h u) \<Longrightarrow> t = u"
  "hub_ok h \<Longrightarrow> closed h c \<Longrightarrow> c < next_chan h"
  "hub_ok h \<Longrightarrow> distinct (subs h t)"
  by (auto simp: hub_ok_def)

lemma hub_ok_subscribe:
  assumes "hub_ok h" "subscribe t h = (c, h')"
  shows "hub_ok h'"
proof -
  note D = hub_okD[OF assms(1)]
  have h': "h' = h\<lparr>subs := (subs h)(t := subs h t @ [next_chan h]), next_chan := next_chan h + 1\<rparr>"
    using assms(2) by (auto simp: subscribe_def Let_def)
  have new: "next_chan h \<notin> set (subs h u)" for u using D(1) by (metis less_irrefl)
  have "\<not> closed h (next_chan h)" using D(3) by (metis less_irrefl)
  then show ?thesis
    unfolding hub_ok_def h' using D new by (auto simp: less_Suc_eq)
qed

lemma hub_ok_unregister: "hub_ok h \<Longrightarrow> hub_ok (unregister t c h)"
  by (auto simp: hub_ok_def unregister_def distinct_removeAll)

text \<open>
  A publication reaches every listener of its topic that has room, once, and nobody else:
  the event is appended to the buffer of each channel registered on the topic that holds
  fewer than sixteen events; every other buffer, and who is subscribed to what, is as before.
  Full channels are skipped, not waited for.
\<close>

theorem Publish_reaches_subscribers:
  assumes "hub_ok h"
  shows "buffer (Publish topic ev h) c =
      (if c \<in> set (subs h topic) \<and> length (buffer h c) < 16 then buffer h c @ [ev] else buffer h c) \<and>
    subs (Publish topic ev h) = subs h \<and> panicked (Publish topic ev h) = panicked h"
proof -
  have "distinct (subs h topic)" "\<forall>c \<in> set (subs h topic). \<not> closed h c" using assms by (auto simp: hub_ok_def)
  then show ?thesis by (simp add: Publish_def buffer_fold_send panicked_fold_send chan_size_def)
qed

text \<open>Two listeners of "admin" and one of a client's page.\<close>

definition demo_hub :: Hub where
  "demo_hub = snd (subscribe (TopicUser ''u1'') (snd (subscribe TopicAdmin (snd (subscribe TopicAdmin NewHub)))))"

definition demo_event :: Event where
  "demo_event = \<lparr>ev_type = ''t'', ev_user = ''u1'', ev_rm = uuid_nil, ev_at = 1\<rparr>"

lemma hub_ok_NewHub: "hub_ok NewHub"
  by (simp add: hub_ok_def NewHub_def)

lemma hub_ok_demo: "hub_ok demo_hub"
  unfolding demo_hub_def by (metis hub_ok_NewHub hub_ok_subscribe prod.collapse)

lemma Publish_reaches_subscribers_witness:
  "buffer (Publish TopicAdmin demo_event demo_hub) 1 = [demo_event] \<and>
   buffer (Publish TopicAdmin demo_event demo_hub) 2 = []"
proof -
  have "1 \<in> set (subs demo_hub TopicAdmin)" "2 \<notin> set (subs demo_hub TopicAdmin)"
    "buffer demo_hub 1 = []" "buffer demo_hub 2 = []" by code_simp+
  then show ?thesis using Publish_reaches_subscribers[OF hub_ok_demo, of TopicAdmin demo_event] by simp
qed

section \<open>Interleaving\<close>

text \<open>
  Where a goroutine is: about to publish, inside \<open>Publish\<close>'s loop with the channels still to
  visit (holding the read lock), about to subscribe, about to cancel, between a cancel's
  unlock and its close, or done. \<open>sync.Once\<close> lets one goroutine run a cancel's body, so each
  channel has one such goroutine, spawned by its \<open>Subscribe\<close>.
\<close>

datatype pc =
    AtPublish string Event
  | Sending "nat list" Event
  | AtSubscribe string
  | AtCancel string nat
  | AtClose nat
  | Done

record conc =
  hub :: Hub
  threads :: "pc list"

definition sending :: "pc \<Rightarrow> bool" where
  "sending p \<longleftrightarrow> (case p of Sending _ _ \<Rightarrow> True | _ \<Rightarrow> False)"

text \<open>The write lock is free when nobody is inside \<open>Publish\<close>'s loop.\<close>

definition no_readers :: "conc \<Rightarrow> bool" where
  "no_readers s \<longleftrightarrow> list_all (\<lambda>p. \<not> sending p) (threads s)"

inductive hub_step :: "conc \<Rightarrow> conc \<Rightarrow> bool" where
  spawn_publish: "hub_step s (s\<lparr>threads := threads s @ [AtPublish t ev]\<rparr>)"
| spawn_subscribe: "hub_step s (s\<lparr>threads := threads s @ [AtSubscribe t]\<rparr>)"
| start_publish: "i < length (threads s) \<Longrightarrow> threads s ! i = AtPublish t ev \<Longrightarrow>
    hub_step s (s\<lparr>threads := (threads s)[i := Sending (subs (hub s) t) ev]\<rparr>)"
| do_send: "i < length (threads s) \<Longrightarrow> threads s ! i = Sending (c # cs) ev \<Longrightarrow>
    hub_step s (s\<lparr>hub := send_one ev c (hub s), threads := (threads s)[i := Sending cs ev]\<rparr>)"
| end_publish: "i < length (threads s) \<Longrightarrow> threads s ! i = Sending [] ev \<Longrightarrow>
    hub_step s (s\<lparr>threads := (threads s)[i := Done]\<rparr>)"
| do_subscribe: "i < length (threads s) \<Longrightarrow> threads s ! i = AtSubscribe t \<Longrightarrow> no_readers s \<Longrightarrow>
    subscribe t (hub s) = (c, h') \<Longrightarrow>
    hub_step s (s\<lparr>hub := h', threads := (threads s)[i := Done] @ [AtCancel t c]\<rparr>)"
| do_unregister: "i < length (threads s) \<Longrightarrow> threads s ! i = AtCancel t c \<Longrightarrow> no_readers s \<Longrightarrow>
    hub_step s (s\<lparr>hub := unregister t c (hub s), threads := (threads s)[i := AtClose c]\<rparr>)"
| do_close: "i < length (threads s) \<Longrightarrow> threads s ! i = AtClose c \<Longrightarrow>
    hub_step s (s\<lparr>hub := close_chan c (hub s), threads := (threads s)[i := Done]\<rparr>)"
| do_receive: "buffer (hub s) c \<noteq> [] \<Longrightarrow> hub_step s (s\<lparr>hub := receive c (hub s)\<rparr>)"

inductive_cases hub_stepE: "hub_step s s'"

inductive hub_reachable :: "conc \<Rightarrow> bool" where
  hub_init: "hub_reachable \<lparr>hub = NewHub, threads = []\<rparr>"
| hub_next: "hub_reachable s \<Longrightarrow> hub_step s s' \<Longrightarrow> hub_reachable s'"

text \<open>
  What each goroutine may rely on: a channel still to be visited is registered; a channel with
  a pending cancel is registered on its topic only; a channel about to be closed is registered
  nowhere.
\<close>

definition pc_ok :: "Hub \<Rightarrow> pc \<Rightarrow> bool" where
  "pc_ok h p \<longleftrightarrow> (case p of
      Sending cs ev \<Rightarrow> (\<forall>c \<in> set cs. \<exists>t. c \<in> set (subs h t))
    | AtCancel t c \<Rightarrow> c < next_chan h \<and> (\<forall>u. c \<in> set (subs h u) \<longrightarrow> u = t)
    | AtClose c \<Rightarrow> c < next_chan h \<and> (\<forall>u. c \<notin> set (subs h u))
    | _ \<Rightarrow> True)"

definition conc_inv :: "conc \<Rightarrow> bool" where
  "conc_inv s \<longleftrightarrow> hub_ok (hub s) \<and> (\<forall>p \<in> set (threads s). pc_ok (hub s) p) \<and> \<not> panicked (hub s) \<and>
     (\<forall>c. length (buffer (hub s) c) \<le> chan_size)"

lemma pc_ok_same:
  "subs h' = subs h \<Longrightarrow> next_chan h' = next_chan h \<Longrightarrow> pc_ok h' p = pc_ok h p"
  by (simp add: pc_ok_def split: pc.splits)

lemma set_upd_ok: "\<forall>p \<in> set ps. P p \<Longrightarrow> P q \<Longrightarrow> \<forall>p \<in> set (ps[i := q]). P p"
  by (auto dest: set_update_subset_insert[THEN subsetD])

lemma conc_inv_step:
  assumes step: "hub_step s s'" and inv: "conc_inv s"
  shows "conc_inv s'"
proof -
  let ?h = "hub s"
  have ok: "hub_ok ?h" and pcs: "\<forall>p \<in> set (threads s). pc_ok ?h p" and np: "\<not> panicked ?h"
    and buf: "\<forall>c. length (buffer ?h c) \<le> chan_size" using inv by (auto simp: conc_inv_def)
  have nth: "pc_ok ?h (threads s ! i)" if "i < length (threads s)" for i using pcs that by simp
  from step show ?thesis
  proof cases
    case (spawn_publish t ev)
    then show ?thesis using inv by (auto simp: conc_inv_def pc_ok_def)
  next
    case (spawn_subscribe t)
    then show ?thesis using inv by (auto simp: conc_inv_def pc_ok_def)
  next
    case (start_publish i t ev)
    have "pc_ok ?h (Sending (subs ?h t) ev)" by (auto simp: pc_ok_def)
    then show ?thesis using inv start_publish set_upd_ok[OF pcs] by (simp add: conc_inv_def)
  next
    case (do_send i c cs ev)
    have reg: "\<exists>t. c \<in> set (subs ?h t)" "pc_ok ?h (Sending cs ev)"
      using nth[OF do_send(2)] do_send(3) by (auto simp: pc_ok_def)
    then have open_c: "\<not> closed ?h c" using hub_okD(1)[OF ok] by blast
    have "hub_ok (send_one ev c ?h)" using ok by (simp add: hub_ok_def)
    moreover have "\<forall>p \<in> set ((threads s)[i := Sending cs ev]). pc_ok (send_one ev c ?h) p"
      using set_upd_ok[OF pcs reg(2)] pc_ok_same[of "send_one ev c ?h" ?h] by simp
    moreover have "\<not> panicked (send_one ev c ?h)" using np open_c by (simp add: send_one_def)
    moreover have "length (buffer (send_one ev c ?h) x) \<le> chan_size" for x
      using buf open_c by (auto simp: buffer_send_one)
    ultimately show ?thesis using do_send by (simp add: conc_inv_def)
  next
    case (end_publish i ev)
    have "pc_ok ?h Done" by (simp add: pc_ok_def)
    then show ?thesis using inv end_publish set_upd_ok[OF pcs] by (simp add: conc_inv_def)
  next
    case (do_subscribe i t c h')
    have h': "h' = ?h\<lparr>subs := (subs ?h)(t := subs ?h t @ [next_chan ?h]), next_chan := next_chan ?h + 1\<rparr>" "c = next_chan ?h"
      using do_subscribe(5) by (auto simp: subscribe_def Let_def)
    have new: "next_chan ?h \<notin> set (subs ?h u)" for u using hub_okD(1)[OF ok] by (metis less_irrefl)
    have "pc_ok h' p" if "p \<in> set (threads s)" for p
    proof -
      have "pc_ok ?h p" "\<not> sending p" using pcs that do_subscribe(4) by (auto simp: no_readers_def list_all_iff)
      then show ?thesis using new by (cases p) (auto simp: pc_ok_def h' sending_def split: if_splits)
    qed
    moreover have "pc_ok h' Done" "pc_ok h' (AtCancel t c)" using new by (auto simp: pc_ok_def h')
    ultimately have "\<forall>p \<in> set ((threads s)[i := Done] @ [AtCancel t c]). pc_ok h' p"
      using set_upd_ok[of "threads s" "pc_ok h'" Done i] by auto
    moreover have "hub_ok h'" using hub_ok_subscribe[OF ok do_subscribe(5)] .
    ultimately show ?thesis using do_subscribe(1) np buf by (simp add: conc_inv_def h')
  next
    case (do_unregister i t c)
    let ?h' = "unregister t c ?h"
    have c: "c < next_chan ?h" "\<forall>u. c \<in> set (subs ?h u) \<longrightarrow> u = t"
      using nth[OF do_unregister(2)] do_unregister(3) by (auto simp: pc_ok_def)
    have "pc_ok ?h' p" if "p \<in> set (threads s)" for p
    proof -
      have "pc_ok ?h p" "\<not> sending p" using pcs that do_unregister(4) by (auto simp: no_readers_def list_all_iff)
      then show ?thesis by (cases p) (auto simp: pc_ok_def unregister_def sending_def)
    qed
    moreover have "pc_ok ?h' (AtClose c)" using c by (auto simp: pc_ok_def unregister_def)
    ultimately have "\<forall>p \<in> set ((threads s)[i := AtClose c]). pc_ok ?h' p"
      using set_upd_ok[of "threads s" "pc_ok ?h'"] by auto
    then show ?thesis using do_unregister(1) np buf hub_ok_unregister[OF ok] by (simp add: conc_inv_def)
      (simp add: unregister_def)
  next
    case (do_close i c)
    have c: "c < next_chan ?h" "\<forall>u. c \<notin> set (subs ?h u)"
      using nth[OF do_close(2)] do_close(3) by (auto simp: pc_ok_def)
    have "hub_ok (close_chan c ?h)" using ok c by (auto simp: hub_ok_def close_chan_def)
    moreover have "\<forall>p \<in> set ((threads s)[i := Done]). pc_ok (close_chan c ?h) p"
      using set_upd_ok[OF pcs, of Done i] pc_ok_same[of "close_chan c ?h" ?h] by (auto simp: pc_ok_def close_chan_def)
    ultimately show ?thesis using do_close(1) np buf by (simp add: conc_inv_def) (simp add: close_chan_def)
  next
    case (do_receive c)
    have "hub_ok (receive c ?h)" using ok by (simp add: hub_ok_def receive_def)
    moreover have "pc_ok (receive c ?h) = pc_ok ?h" by (auto simp: fun_eq_iff intro!: pc_ok_same) (simp_all add: receive_def)
    moreover have "length (buffer (receive c ?h) x) \<le> chan_size" for x
      using buf[THEN spec, of x] by (auto simp: receive_def)
    ultimately show ?thesis using do_receive(1) pcs np by (simp add: conc_inv_def) (simp add: receive_def)
  qed
qed

lemma conc_inv_reachable: "hub_reachable s \<Longrightarrow> conc_inv s"
proof (induction rule: hub_reachable.induct)
  case hub_init
  then show ?case by (simp add: conc_inv_def hub_ok_NewHub) (simp add: NewHub_def)
next
  case (hub_next s s')
  then show ?case by (blast intro: conc_inv_step)
qed

text \<open>
  C5. The hub never panics and never blocks a publisher, however publishers, subscribers,
  cancels and receivers interleave: in every reachable state no event has been sent on a
  closed channel, no registered channel is closed, and no buffer holds more than sixteen
  events. A cancel closes its channel outside the lock, but only after every publisher that
  could still see it has left.
\<close>

theorem hub_safe:
  assumes "hub_reachable s"
  shows "\<not> panicked (hub s) \<and> (\<forall>c. length (buffer (hub s) c) \<le> 16) \<and>
    (\<forall>t. \<forall>c \<in> set (subs (hub s) t). \<not> closed (hub s) c)"
  using conc_inv_reachable[OF assms] by (auto simp: conc_inv_def chan_size_def hub_ok_def)

lemma hub_safe_witness:
  "\<exists>s. hub_reachable s \<and> subs (hub s) TopicAdmin = [0] \<and> \<not> panicked (hub s)"
proof -
  let ?s0 = "\<lparr>hub = NewHub, threads = []\<rparr>" and ?s1 = "\<lparr>hub = NewHub, threads = [AtSubscribe TopicAdmin]\<rparr>"
  let ?s2 = "\<lparr>hub = snd (subscribe TopicAdmin NewHub), threads = [Done, AtCancel TopicAdmin 0]\<rparr>"
  have "hub_step ?s0 ?s1" using spawn_subscribe[of ?s0 TopicAdmin] by simp
  moreover have "hub_step ?s1 ?s2"
    using do_subscribe[of 0 ?s1 TopicAdmin 0 "snd (subscribe TopicAdmin NewHub)"]
    by (simp add: no_readers_def sending_def subscribe_def NewHub_def Let_def)
  ultimately have r: "hub_reachable ?s2" by (blast intro: hub_reachable.intros)
  have "subs (hub ?s2) TopicAdmin = [0]" by (simp add: subscribe_def NewHub_def Let_def)
  then show ?thesis using r hub_safe[OF r] by blast
qed

section \<open>Who hears about a hand-over\<close>

lemma topics_distinct [simp]:
  "TopicRM r \<noteq> TopicAdmin" "TopicRM r \<noteq> TopicUser u" "TopicUser u \<noteq> TopicAdmin" "TopicRM r = TopicRM s \<longleftrightarrow> r = s"
  by (simp_all add: TopicRM_def TopicAdmin_def TopicUser_def)

text \<open>
  Moving a client with "transfer" tells everybody concerned: when no call fails, a
  successful transfer publishes to the admins, to the book of the manager who had the client,
  to the book of the manager who gets them, and to the client's own page.
\<close>

theorem transfer_notifies_both:
  assumes "handle_transfer actor req w = (Inr ps, w')" "wfaults w = []"
    and "find_user (tr_user req) (wdb w) = Some r"
  shows "map fst ps = TopicAdmin # (case us_rm r of None \<Rightarrow> [] | Some old \<Rightarrow> [TopicRM old]) @
    [TopicRM (tr_to req), TopicUser (tr_user req)]"
proof -
  have "wp (handle_transfer actor req) (\<lambda>ps _. map fst ps = TopicAdmin #
      (case us_rm r of None \<Rightarrow> [] | Some old \<Rightarrow> [TopicRM old]) @ [TopicRM (tr_to req), TopicUser (tr_user req)])
      (\<lambda>_ _. True) w"
    using assms(2,3)
    by (auto simp: handle_transfer_def old_owner_def OwnerOf_def wp_simps AssignmentChanged_def Let_def
        split: option.splits)
  then show ?thesis using assms(1) by (rule wp_returns)
qed

lemma transfer_notifies_both_witness:
  "\<exists>ps w'. handle_transfer ''ad'' \<lparr>tr_user = ''u1'', tr_to = ''r2'', tr_reason = ''''\<rparr> demo_world = (Inr ps, w') \<and>
     TopicRM ''r1'' \<in> set (map fst ps)"
proof -
  let ?req = "\<lparr>tr_user = ''u1'', tr_to = ''r2'', tr_reason = ''''\<rparr>"
  have "\<not> isl (fst (handle_transfer ''ad'' ?req demo_world))" by code_simp
  then obtain ps w' where r: "handle_transfer ''ad'' ?req demo_world = (Inr ps, w')" by (blast dest: not_islD)
  have "wfaults demo_world = []" by code_simp
  moreover have "find_user (tr_user ?req) (wdb demo_world) = Some (demo_client ''u1'' (Some ''r1'') 1)" by code_simp
  ultimately have "map fst ps = TopicAdmin # (case us_rm (demo_client ''u1'' (Some ''r1'') 1) of None \<Rightarrow> [] | Some old \<Rightarrow> [TopicRM old]) @
    [TopicRM (tr_to ?req), TopicUser (tr_user ?req)]"
    by (rule transfer_notifies_both[OF r])
  then have "TopicRM ''r1'' \<in> set (map fst ps)" by (simp add: demo_client_def)
  then show ?thesis using r by blast
qed

text \<open>
  Moving a client with "assign" leaves the losing manager's screen stale: when the client
  already has a manager, \<open>assign\<close> succeeds and logs a transfer away from them, but what it
  publishes never goes to that manager's book.
\<close>

theorem assign_never_tells_loser:
  assumes "handle_assign actor req w = (Inr ps, w')"
    and "find_user (as_user req) (wdb w) = Some r" "us_rm r = Some old" "old \<noteq> as_rm req"
  shows "TopicRM old \<notin> set (map fst ps) \<and>
    (\<exists>h. history (wdb w') = history (wdb w) @ [h] \<and> h_action h = ActionTransfer \<and> h_from h = Some old \<and>
       h_to h = Some (as_rm req))"
proof -
  have "wp (handle_assign actor req) (\<lambda>ps w'. TopicRM old \<notin> set (map fst ps) \<and>
      (\<exists>h. history (wdb w') = history (wdb w) @ [h] \<and> h_action h = ActionTransfer \<and> h_from h = Some old \<and>
         h_to h = Some (as_rm req))) (\<lambda>_ _. True) w"
    unfolding handle_assign_def wp_bind
    by (rule wp_mono[OF wp_Assign])
       (use assms(2-4) in \<open>auto simp: wp_simps AssignmentChanged_def Let_def is_move_def\<close>)
  then show ?thesis using assms(1) by (rule wp_returns)
qed

lemma assign_never_tells_loser_witness:
  "\<exists>ps w'. handle_assign ''ad'' \<lparr>as_user = ''u1'', as_rm = ''r2''\<rparr> demo_world = (Inr ps, w') \<and>
     TopicRM ''r1'' \<notin> set (map fst ps)"
proof -
  let ?req = "\<lparr>as_user = ''u1'', as_rm = ''r2''\<rparr>"
  have "\<not> isl (fst (handle_assign ''ad'' ?req demo_world))" by code_simp
  then obtain ps w' where r: "handle_assign ''ad'' ?req demo_world = (Inr ps, w')" by (blast dest: not_islD)
  have f: "find_user (as_user ?req) (wdb demo_world) = Some (demo_client ''u1'' (Some ''r1'') 1)" by code_simp
  have "us_rm (demo_client ''u1'' (Some ''r1'') 1) = Some ''r1''" "''r1'' \<noteq> as_rm ?req" by (simp_all add: demo_client_def)
  from assign_never_tells_loser[OF r f this] show ?thesis using r by blast
qed

end
