(* ===== verification/AppAuth.thy ===== *)
theory AppAuth
  imports AuthGate Hub
begin

text \<open>
  The app's own login: \<open>internal/handler/auth.go\<close> over \<open>internal/service/auth.go\<close>, the user
  repository and the refresh-token store. A request body is \<open>None\<close> when it does not decode.
  The SHA-256 of a text and the JWT library's signing are parameters; the codes sent are a
  stub in the source: any non-empty code is accepted.
\<close>

section \<open>Requests and replies\<close>

record VerifyRequest =
  vr_astra :: string
  vr_phone :: string
  vr_otp :: string
  vr_name :: string
  vr_wants :: "bool option"

record Session =
  se_token :: string
  se_refresh :: string
  se_new :: bool
  se_name :: "string option"

record Profile =
  pf_user :: User
  pf_pan :: string

datatype 'a reply = Refuse int string | Reply 'a

text \<open>The service and what is wired into the handler.\<close>

record app_env =
  app_hash :: "string \<Rightarrow> string"
  app_sign :: "Claims \<Rightarrow> goerr + string"
  app_assigner :: bool
  app_events :: bool

text \<open>\<open>if err != nil { respondAuthError(w, code, msg); return }\<close>\<close>

definition reply_on :: "int \<Rightarrow> string \<Rightarrow> ('d, 'a) act \<Rightarrow> ('a \<Rightarrow> ('d, 'b reply) act) \<Rightarrow> ('d, 'b reply) act" where
  "reply_on code msg m k = bind (attempt m) (\<lambda>r. case r of Inl _ \<Rightarrow> ret (Refuse code msg) | Inr a \<Rightarrow> k a)"

lemma wp_reply_on [wp_simps]:
  "wp (reply_on code msg m k) Q E w = wp m (\<lambda>a. wp (k a) Q E) (\<lambda>_. Q (Refuse code msg)) w"
  by (simp add: reply_on_def wp_simps)

lemma timed_reply_on [clock_intros]: "timed m \<Longrightarrow> (\<And>a. timed (k a)) \<Longrightarrow> timed (reply_on code msg m k)"
  unfolding reply_on_def by (intro clock_intros)

section \<open>Tokens\<close>

definition AccessTokenTTL :: int where "AccessTokenTTL = 24 * 3600 * second"

definition user_claims :: "uuid \<Rightarrow> int \<Rightarrow> Claims" where
  "user_claims userID t = \<lparr>ac_user = userID, ac_expires = (t + AccessTokenTTL) div second, ac_issued = t div second\<rparr>"

definition GenerateToken :: "app_env \<Rightarrow> uuid \<Rightarrow> (rm_db, string) act" where
  "GenerateToken env userID = bind time_now (\<lambda>t. case app_sign env (user_claims userID t) of
       Inl e \<Rightarrow> fail (Wrap ''failed to sign token'' e) | Inr s \<Rightarrow> ret s)"

definition GenerateRefreshToken :: "app_env \<Rightarrow> (rm_db, string \<times> string) act" where
  "GenerateRefreshToken env = bind (wrapping ''generate refresh token'' rand_nat)
     (\<lambda>n. let plaintext = raw_url32 n in ret (plaintext, app_hash env plaintext))"

section \<open>Handlers\<close>

definition app_SendOTP :: "string option \<Rightarrow> string reply" where
  "app_SendOTP body = (case body of
       None \<Rightarrow> Refuse 400 ''Invalid request payload''
     | Some phone \<Rightarrow> if phone = [] then Refuse 400 ''Missing phone_number'' else Reply ''OTP sent successfully'')"

definition issue_session :: "app_env \<Rightarrow> User \<times> bool \<Rightarrow> (rm_db, Session reply) act" where
  "issue_session env = (\<lambda>(user, isNewUser).
     reply_on 500 ''Error generating token'' (GenerateToken env (usr_id user)) (\<lambda>tokenString.
     reply_on 500 ''Error generating refresh token'' (GenerateRefreshToken env) (\<lambda>(refreshToken, refreshHash).
     bind time_now (\<lambda>t.
     reply_on 500 ''Error persisting refresh token''
       (user_CreateRefreshToken (usr_id user) refreshHash (t + RefreshTokenTTL)) (\<lambda>_.
     ret (Reply \<lparr>se_token = tokenString, se_refresh = refreshToken, se_new = isNewUser, se_name = usr_name user\<rparr>))))))"

definition app_VerifyOTP :: "app_env \<Rightarrow> VerifyRequest option \<Rightarrow> (rm_db, Session reply) act" where
  "app_VerifyOTP env body = (case body of
       None \<Rightarrow> ret (Refuse 400 ''Invalid request payload'')
     | Some req \<Rightarrow>
         if vr_astra req = [] \<or> vr_phone req = [] then ret (Refuse 400 ''Missing astra_user_id or phone_number'')
         else if vr_otp req = [] then ret (Refuse 400 ''Missing otp'')
         else reply_on 500 ''Error identifying user''
                (FindOrCreateUser (app_assigner env) (vr_astra req) (vr_phone req) (vr_name req) (vr_wants req))
                (issue_session env))"

text \<open>
  What a login publishes: once the user is stored, and whether or not the session can then be
  issued, a new user is announced as a change of assignment (the publisher looks the owner up
  itself, \<open>Hub.UserChanged\<close>).
\<close>

definition login_event :: "app_env \<Rightarrow> User \<times> bool \<Rightarrow> (uuid \<times> string) list" where
  "login_event env = (\<lambda>(user, isNewUser). if isNewUser \<and> app_events env then [(usr_id user, TypeClientAssigned)] else [])"

definition login_events :: "app_env \<Rightarrow> VerifyRequest option \<Rightarrow> rm_db world \<Rightarrow> (uuid \<times> string) list" where
  "login_events env body w = (case body of
       None \<Rightarrow> []
     | Some req \<Rightarrow>
         if vr_astra req = [] \<or> vr_phone req = [] \<or> vr_otp req = [] then []
         else (case FindOrCreateUser (app_assigner env) (vr_astra req) (vr_phone req) (vr_name req) (vr_wants req) w of
                 (Inl _, _) \<Rightarrow> []
               | (Inr un, _) \<Rightarrow> login_event env un))"

definition app_Refresh :: "app_env \<Rightarrow> string option \<Rightarrow> (rm_db, (string \<times> string) reply) act" where
  "app_Refresh env body =
     (if body = None \<or> body = Some [] then ret (Refuse 400 ''Missing refresh_token'')
      else reply_on 500 ''Error generating refresh token'' (GenerateRefreshToken env) (\<lambda>(newRefreshToken, newRefreshHash).
           bind time_now (\<lambda>t.
           reply_on 500 ''Error validating refresh token''
             (user_RotateRefreshToken (app_hash env (the body)) newRefreshHash (t + RefreshTokenTTL)) (\<lambda>got. case got of
               None \<Rightarrow> ret (Refuse 401 ''Invalid or expired refresh token'')
             | Some userID \<Rightarrow> reply_on 500 ''Error generating token'' (GenerateToken env userID) (\<lambda>accessToken.
                 ret (Reply (accessToken, newRefreshToken)))))))"

definition app_Logout :: "app_env \<Rightarrow> string option \<Rightarrow> (rm_db, string reply) act" where
  "app_Logout env body =
     (if body = None \<or> body = Some [] then ret (Refuse 400 ''Missing refresh_token'')
      else reply_on 500 ''Error revoking refresh token'' (user_RevokeRefreshToken (app_hash env (the body))) (\<lambda>_.
           ret (Reply ''logged out'')))"

text \<open>
  \<open>GetLatestVerifiedPAN\<close> over the rows of \<open>idbi_ckyc\<close> (user, PAN, time of verification), which
  no handler here writes. No row is the empty text.
\<close>

definition GetLatestVerifiedPAN :: "(uuid \<times> string \<times> int) list \<Rightarrow> uuid \<Rightarrow> (rm_db, string) act" where
  "GetLatestVerifiedPAN ckyc userID =
     bind (get_row ''get latest verified pan''
       (\<lambda>_ _. map_option (\<lambda>(_, pan, _). pan)
          (first_row (order_desc (\<lambda>(_, _, t). t) (filter (\<lambda>(u, _, _). u = userID) ckyc)))))
       (\<lambda>r. ret (case r of None \<Rightarrow> [] | Some pan \<Rightarrow> pan))"

text \<open>\<open>userID\<close> is what the gate put in the request's context.\<close>

definition app_Me :: "(uuid \<times> string \<times> int) list \<Rightarrow> uuid option \<Rightarrow> (rm_db, Profile reply) act" where
  "app_Me ckyc userID = (case userID of
       None \<Rightarrow> ret (Refuse 401 ''Unauthorized'')
     | Some u \<Rightarrow> reply_on 401 ''Session is no longer valid'' (GetByID u) (\<lambda>user.
         bind (attempt (GetLatestVerifiedPAN ckyc u)) (\<lambda>pan.
         ret (Reply \<lparr>pf_user = user, pf_pan = (case pan of Inl _ \<Rightarrow> [] | Inr p \<Rightarrow> p)\<rparr>))))"

definition app_UpdateMe :: "uuid option \<Rightarrow> string option \<Rightarrow> (rm_db, User reply) act" where
  "app_UpdateMe userID body = (case userID of
       None \<Rightarrow> ret (Refuse 401 ''Unauthorized'')
     | Some u \<Rightarrow> (case body of
         None \<Rightarrow> ret (Refuse 400 ''Invalid request payload'')
       | Some raw \<Rightarrow>
           let name = trim_space raw in
           if length name < 2 then ret (Refuse 400 ''Name must be at least 2 characters'')
           else reply_on 500 ''Error updating profile'' (UpdateUserName u name) (\<lambda>_.
                reply_on 500 ''Error reloading profile'' (GetByID u) (\<lambda>user.
                ret (Reply user)))))"

text \<open>A body that does not decode leaves the phone empty; an error of the deletion is dropped.\<close>

definition app_ResetUser :: "string option \<Rightarrow> (rm_db, string reply) act" where
  "app_ResetUser body = (let phone = (case body of None \<Rightarrow> [] | Some p \<Rightarrow> p) in
     bind (if phone \<noteq> [] then bind (attempt (DeleteUserByPhone phone)) (\<lambda>_. ret ()) else ret ()) (\<lambda>_.
     ret (Reply ''User reset successfully. Next login will re-seed fresh data.'')))"

section \<open>The clock\<close>

lemma timed_seed: "timed (seedInitialUserData u)"
  unfolding seedInitialUserData_def seedGoodInvestorArchetype_def seedSpendHistory_def aux_call_def seed_sip_def
    seedPortfolioSnapshots_def insert_snapshot_def
  by (intro clock_intros)

lemma timed_AssignNextRM: "timed (AssignNextRM u)"
  unfolding AssignNextRM_def activeRingTx_def currentRMTx_def applyAssignmentTx_def Let_def
  by (intro clock_intros)

lemma timed_Unassign: "timed (Unassign u a r)"
  unfolding Unassign_def currentRMTx_def applyAssignmentTx_def Let_def
  by (intro clock_intros)

lemma timed_FindOrCreateUser [clock_intros]: "timed (FindOrCreateUser a astra phone name wants)"
  unfolding FindOrCreateUser_def returning_user_def register_user_def backfill_name_def honour_opt_in_def
    route_to_rm_def syncRMAssignment_def upsert_user_def findByPhone_def Let_def
  by (intro clock_intros timed_seed timed_AssignNextRM timed_Unassign)

section \<open>What a login gives\<close>

text \<open>\<open>session_of env c t s d\<close>: \<open>s\<close> are tokens for the user in row \<open>c\<close>, issued at time \<open>t\<close>.\<close>

definition session_of :: "app_env \<Rightarrow> client \<Rightarrow> int \<Rightarrow> Session \<Rightarrow> rm_db \<Rightarrow> bool" where
  "session_of env c t s d \<longleftrightarrow> app_sign env (user_claims (us_id c) t) = Inr (se_token s) \<and>
     se_name s = us_name c \<and>
     (\<exists>r \<in> set (user_tokens d). tok_hash r = app_hash env (se_refresh s) \<and> tok_owner r = us_id c \<and>
        tok_expires r = t + RefreshTokenTTL \<and> tok_revoked r = None)"

lemma desk_inv_tokens [simp]: "desk_inv (d\<lparr>user_tokens := ts\<rparr>) = desk_inv d"
  by (simp add: desk_inv_def book_inv_def ledger_def fk_staff_def fk_user_def cong: option.case_cong)

lemma phone_row_tokens [simp]: "phone_row p (d\<lparr>user_tokens := ts\<rparr>) = phone_row p d"
  by (simp add: phone_row_def)

lemma wp_issue_session:
  assumes "phone_row phone (wdb w) = Some c" "usr_id u = us_id c" "usr_name u = us_name c"
  shows "wp (issue_session env (u, n))
     (\<lambda>r w'. case r of Refuse code msg \<Rightarrow> code = 500 \<and> wdb w' = wdb w
        | Reply s \<Rightarrow> phone_row phone (wdb w') = Some c \<and> session_of env c (wnow w) s (wdb w') \<and> se_new s = n)
     (\<lambda>_ _. False) w"
  unfolding issue_session_def GenerateToken_def GenerateRefreshToken_def
  by (auto simp: wp_simps Let_def user_CreateRefreshToken_def assms split: sum.split list.split
      intro!: wp_mono[OF user_insert_law])
    (auto simp: session_of_def assms issued_def new_token_def dest!: arg_cong[of _ _ "phone_row phone"])

text \<open>
  C18. What a login gives: with consistent tables, an answered login names a phone and a code,
  and its tokens are those of the user stored under that phone - the access token signed for
  that id and 24 hours, the refresh token stored under its hash for 30 days and unused - with
  the stored name and whether the user is new; a refusal is a 400 or a 500; the handler never
  fails otherwise.
\<close>

theorem app_login_correct:
  assumes "desk_inv (wdb w)"
  shows "case app_VerifyOTP env body w of
     (Inr (Reply s), w') \<Rightarrow> \<exists>req c. body = Some req \<and> vr_otp req \<noteq> '''' \<and> vr_phone req \<noteq> '''' \<and>
        phone_row (vr_phone req) (wdb w') = Some c \<and> session_of env c (wnow w) s (wdb w') \<and>
        se_new s = (phone_row (vr_phone req) (wdb w) = None)
   | (Inr (Refuse code msg), w') \<Rightarrow> code \<in> {400, 500}
   | (Inl e, w') \<Rightarrow> False"
proof -
  have "wp (app_VerifyOTP env body)
     (\<lambda>r w'. case r of Refuse code msg \<Rightarrow> code \<in> {400, 500}
        | Reply s \<Rightarrow> \<exists>req c. body = Some req \<and> vr_otp req \<noteq> '''' \<and> vr_phone req \<noteq> '''' \<and>
            phone_row (vr_phone req) (wdb w') = Some c \<and> session_of env c (wnow w) s (wdb w') \<and>
            se_new s = (phone_row (vr_phone req) (wdb w) = None))
     (\<lambda>_ _. False) w" (is "wp _ ?Q ?E w")
  proof (cases "\<exists>req. body = Some req \<and> vr_astra req \<noteq> [] \<and> vr_phone req \<noteq> [] \<and> vr_otp req \<noteq> []")
    case False
    then show ?thesis by (auto simp: app_VerifyOTP_def wp_ret split: option.split)
  next
    case True
    then obtain req where req: "body = Some req" "vr_astra req \<noteq> []" "vr_phone req \<noteq> []" "vr_otp req \<noteq> []" by auto
    let ?f = "FindOrCreateUser (app_assigner env) (vr_astra req) (vr_phone req) (vr_name req) (vr_wants req)"
    have "wp ?f (\<lambda>a. wp (issue_session env a) ?Q ?E) (\<lambda>_. ?Q (Refuse 500 ''Error identifying user'')) w"
    proof (rule wp_mono[OF wp_timed[OF timed_FindOrCreateUser wp_FindOrCreateUser[OF assms]]])
      fix a and w1 :: "rm_db world"
      assume "signed_in (vr_astra req) (vr_phone req) (vr_name req) (vr_wants req) (wdb w) a (wdb w1) \<and> wnow w1 = wnow w"
      then obtain c u n where c: "a = (u, n)" "phone_row (vr_phone req) (wdb w1) = Some c" "user_view c = u" "wnow w1 = wnow w"
        "n = (phone_row (vr_phone req) (wdb w) = None)"
        by (cases a) (auto dest!: signed_inD)
      show "wp (issue_session env a) ?Q ?E w1"
        unfolding c(1)
        by (rule wp_mono[OF wp_issue_session[OF c(2)]]) (use c req in \<open>auto split: reply.splits\<close>)
    qed simp
    then show ?thesis using req by (simp add: app_VerifyOTP_def wp_reply_on)
  qed
  then show ?thesis by (auto simp: wp_def split: prod.splits sum.splits reply.splits)
qed

lemma wp_issue_keeps: "desk_inv (wdb w) \<Longrightarrow> keeps (issue_session env un) w"
  unfolding issue_session_def GenerateToken_def GenerateRefreshToken_def
  by (auto simp: wp_simps Let_def user_CreateRefreshToken_def split: sum.split list.split prod.split
      intro!: wp_mono[OF user_insert_law] dest!: arg_cong[of _ _ desk_inv])

lemma keeps_app_VerifyOTP:
  assumes "desk_inv (wdb w)"
  shows "wp (app_VerifyOTP env body) (\<lambda>_ w'. desk_inv (wdb w')) (\<lambda>_ _. True) w"
proof -
  have "wp (FindOrCreateUser a astra phone name wants) (\<lambda>r. wp (issue_session env r) (\<lambda>_ w'. desk_inv (wdb w')) (\<lambda>_ _. True))
     (\<lambda>_ w'. desk_inv (wdb w')) w" for a astra phone name wants
    by (rule wp_mono[OF wp_FindOrCreateUser[OF assms]])
      (auto simp: signed_in_def at_phone_def undisturbed_def intro: wp_mono[OF wp_issue_keeps])
  then show ?thesis using assms by (auto simp: app_VerifyOTP_def wp_simps split: option.split)
qed

definition demo_app :: app_env where
  "demo_app = \<lparr>app_hash = (\<lambda>s. ''h''), app_sign = (\<lambda>c. Inr (''HS256.k1'')), app_assigner = True, app_events = True\<rparr>"

definition demo_login :: VerifyRequest where
  "demo_login = \<lparr>vr_astra = ''u2'', vr_phone = ''u2'', vr_otp = ''000000'', vr_name = '''', vr_wants = None\<rparr>"

lemma app_login_correct_witness:
  "\<exists>s w'. app_VerifyOTP demo_app (Some demo_login) (signup_world\<lparr>wrand := [7]\<rparr>) = (Inr (Reply s), w') \<and> \<not> se_new s"
proof -
  let ?w = "signup_world\<lparr>wrand := [7]\<rparr>"
  have i: "desk_inv (wdb ?w)" by code_simp
  have "wp (app_VerifyOTP demo_app (Some demo_login)) (\<lambda>r _. case r of Reply s \<Rightarrow> True | Refuse _ _ \<Rightarrow> False) (\<lambda>_ _. False) ?w"
    by (simp add: app_VerifyOTP_def demo_login_def FindOrCreateUser_def findByPhone_def returning_user_def backfill_name_def
        honour_opt_in_def issue_session_def GenerateToken_def GenerateRefreshToken_def user_CreateRefreshToken_def
        user_insert_token_def wp_simps demo_app_def signup_world_def demo_world_def demo_db_def demo_client_def
        phone_row_def faulty_def tick_def Let_def fk_user_def token_ok_def new_token_def)
  then obtain s w' where r: "app_VerifyOTP demo_app (Some demo_login) ?w = (Inr (Reply s), w')"
    by (auto simp: wp_def split: prod.splits sum.splits reply.splits)
  have "phone_row ''u2'' (wdb ?w) \<noteq> None" by code_simp
  with app_login_correct[OF i, where env = demo_app and body = "Some demo_login"] r show ?thesis by (auto simp: demo_login_def)
qed

section \<open>From a login to an admitted request\<close>

lemma exp_bound: "t < s + AccessTokenTTL - second \<Longrightarrow> t < (s + AccessTokenTTL) div second * second"
  unfolding second_def AccessTokenTTL_def by (simp add: minus_mod_eq_div_mult [symmetric])


text \<open>A signer and a parser for the witness: expiry and issue time in unary, then the user.\<close>

definition unary :: "int \<Rightarrow> string" where
  "unary i = (if i < 0 then ''-'' else '''') @ replicate (nat \<bar>i\<bar>) CHR ''1''"

definition read_unary :: "string \<Rightarrow> int" where
  "read_unary s = (if s \<noteq> [] \<and> hd s = CHR ''-'' then - int (length s - 1) else int (length s))"

lemma read_unary: "read_unary (unary i) = i"
proof -
  consider "i < 0" | "i = 0" | "0 < i" by linarith
  then show ?thesis
  proof cases
    case 1
    then have "unary i = CHR ''-'' # replicate (nat (- i)) CHR ''1''" by (simp add: unary_def)
    then show ?thesis using 1 by (simp add: read_unary_def)
  next
    case 2
    then show ?thesis by (simp add: read_unary_def unary_def)
  next
    case 3
    then obtain n where n: "nat i = Suc n" by (cases "nat i") auto
    have "unary i = CHR ''1'' # replicate n CHR ''1''" using 3 n by (simp add: unary_def)
    then show ?thesis using 3 n by (simp add: read_unary_def)
  qed
qed

lemma unary_set: "x \<in> set (unary i) \<Longrightarrow> x \<in> {CHR ''-'', CHR ''1''}"
  by (auto simp: unary_def split: if_splits)

definition toy_sign :: "Claims \<Rightarrow> goerr + string" where
  "toy_sign c = Inr (unary (ac_expires c) @ ''.'' @ unary (ac_issued c) @ ''.'' @ ac_user c)"

definition toy_read :: "Claims jwt_parser" where
  "toy_read kf tok t = (let e = takeWhile (\<lambda>x. x \<noteq> CHR ''.'') tok; rest = drop (length e + 1) tok;
       i = takeWhile (\<lambda>x. x \<noteq> CHR ''.'') rest
     in Inr (\<lparr>ac_user = drop (length i + 1) rest, ac_expires = read_unary e, ac_issued = read_unary i\<rparr>,
          t < read_unary e * 1000000000))"

lemma take_unary: "takeWhile (\<lambda>x. x \<noteq> CHR ''.'') (unary i @ ''.'' @ rest) = unary i"
proof -
  have "\<forall>x \<in> set (unary i). x \<noteq> CHR ''.''" using unary_set by fastforce
  then show ?thesis by (simp add: takeWhile_append2)
qed

lemma toy_read_sign: "toy_sign c = Inr tok \<Longrightarrow> t < ac_expires c * 1000000000 \<Longrightarrow> toy_read kf tok t = Inr (c, True)"
  using take_unary[of "ac_expires c" "unary (ac_issued c) @ ''.'' @ ac_user c"] take_unary[of "ac_issued c" "ac_user c"]
  by (auto simp: toy_sign_def toy_read_def Let_def read_unary)


section \<open>The reset endpoint\<close>



end
