(* ===== verification/Bank.thy ===== *)
theory Bank
  imports GoStrings GoTime Money ApiResponse
begin

text \<open>
  The tables of a user's money (migrations 1, 4, 5, 9 and 36) and the statements the payment,
  mandate and deposit providers share: the user's linked accounts, the account a request
  names, debits, credits and generated identifiers. Columns no code reads back are left out.
  A DATE is a day number; amounts are rounded to two decimals where a NUMERIC(n,2) column
  stores them, and a value too long or too big for its column is a constraint error.
\<close>

section \<open>Rows\<close>

record bank_account =
  ba_id :: uuid
  ba_user :: uuid
  ba_name :: string
  ba_type :: string
  ba_balance :: money
  ba_created :: int
  ba_unlinked :: "int option"
  ba_number :: "string option"

record payment_row =
  py_id :: string
  py_txn :: string
  py_user :: uuid
  py_account :: uuid
  py_amount :: money
  py_payment_mode :: string
  py_upi :: "string option"
  py_purpose :: string
  py_status :: string
  py_mode :: string
  py_ref :: "string option"
  py_code :: "string option"
  py_msg :: "string option"
  py_processed :: "int option"

record mandate_row =
  md_id :: string
  md_user :: uuid
  md_account :: uuid
  md_type :: string
  md_upi :: "string option"
  md_payee :: "string option"
  md_vpa :: "string option"
  md_category :: string
  md_max :: money
  md_frequency :: string
  md_start :: int
  md_end :: "int option"
  md_next :: int
  md_status :: string
  md_approved :: "int option"
  md_created :: int

record execution_row =
  ex_mandate :: string
  ex_user :: uuid
  ex_date :: int
  ex_amount :: money
  ex_status :: string
  ex_reason :: "string option"
  ex_at :: int

record deposit_row =
  fd_number :: string
  fd_user :: uuid
  fd_account :: uuid
  fd_principal :: money
  fd_rate :: money
  fd_tenure :: int
  fd_payout :: string
  fd_auto :: bool
  fd_nominee :: "string option"
  fd_booking :: int
  fd_maturity :: int
  fd_amount :: real
  fd_status :: string

record bank_db =
  accounts :: "bank_account list"
  payments :: "payment_row list"
  mandates :: "mandate_row list"
  executions :: "execution_row list"
  deposits :: "deposit_row list"

section \<open>Columns\<close>

text \<open>VARCHAR(n), nullable VARCHAR(n), \<open>nullIfEmpty\<close>.\<close>

definition varchar :: "nat \<Rightarrow> string \<Rightarrow> bool" where
  "varchar n s \<longleftrightarrow> length s \<le> n"

definition varchar_opt :: "nat \<Rightarrow> string option \<Rightarrow> bool" where
  "varchar_opt n s = (case s of None \<Rightarrow> True | Some x \<Rightarrow> varchar n x)"

definition nullIfEmpty :: "string \<Rightarrow> string option" where
  "nullIfEmpty s = (if s = [] then None else Some s)"

section \<open>Accounts\<close>

definition owned :: "uuid \<Rightarrow> uuid \<Rightarrow> bank_account \<Rightarrow> bool" where
  "owned userID acc a \<longleftrightarrow> ba_id a = acc \<and> ba_user a = userID"

definition live_account :: "uuid \<Rightarrow> uuid \<Rightarrow> bank_db \<Rightarrow> bank_account option" where
  "live_account userID acc d = first_row (filter (\<lambda>a. owned userID acc a \<and> ba_unlinked a = None) (accounts d))"

text \<open>The view \<open>repository.BankAccount\<close> of a row.\<close>

record BankAccount =
  bv_id :: uuid
  bv_name :: string
  bv_type :: string
  bv_balance :: money

definition account_view :: "bank_account \<Rightarrow> BankAccount" where
  "account_view a = \<lparr>bv_id = ba_id a, bv_name = ba_name a, bv_type = ba_type a, bv_balance = ba_balance a\<rparr>"

definition linked :: "uuid \<Rightarrow> bank_db \<Rightarrow> bank_account list" where
  "linked userID d = sort_key ba_created (filter (\<lambda>a. ba_user a = userID \<and> ba_unlinked a = None) (accounts d))"

definition GetBankAccounts :: "uuid \<Rightarrow> (bank_db, BankAccount list) act" where
  "GetBankAccounts userID = wrapping ''query bank accounts'' (query (\<lambda>_ d. map account_view (linked userID d)))"

definition GetPrimaryBankAccount :: "uuid \<Rightarrow> (bank_db, BankAccount) act" where
  "GetPrimaryBankAccount userID =
     bind (attempt (query_row (\<lambda>_ d. map_option account_view (first_row (linked userID d))))) (\<lambda>r. case r of
       Inr acc \<Rightarrow> ret acc
     | Inl e \<Rightarrow> if errors_is e ErrNoRows then fail (Wrap ''user has no bank accounts'' e)
               else fail (Wrap ''query primary bank account'' e))"

text \<open>
  \<open>parse\<close> is \<open>uuid.Parse\<close>. The ownership test and, in a transaction, the row lock are separate
  statements.
\<close>

definition resolveBankAccountID :: "(string \<Rightarrow> uuid option) \<Rightarrow> uuid \<Rightarrow> string \<Rightarrow> (bank_db, uuid) act" where
  "resolveBankAccountID parse userID bankAccountID =
     (if bankAccountID = [] then
        bind (wrapping ''resolve default bank account'' (GetPrimaryBankAccount userID)) (\<lambda>acc. ret (bv_id acc))
      else (case parse bankAccountID of
          None \<Rightarrow> fail (Validation ''bank_account_id is not a valid identifier'')
        | Some accID \<Rightarrow>
            bind (wrapping ''verify bank account ownership'' (query (\<lambda>_ d. live_account userID accID d \<noteq> None))) (\<lambda>found.
            if \<not> found then fail (Validation ''bank_account_id does not belong to this user'') else ret accID)))"

definition lock_balance :: "uuid \<Rightarrow> uuid \<Rightarrow> (bank_db, money) act" where
  "lock_balance userID acc = query_row (\<lambda>_ d. map_option ba_balance (live_account userID acc d))"

definition moved :: "uuid \<Rightarrow> uuid \<Rightarrow> (money \<Rightarrow> money) \<Rightarrow> bank_db \<Rightarrow> bank_db" where
  "moved userID acc f d = d\<lparr>accounts := update_where (owned userID acc) (\<lambda>a. a\<lparr>ba_balance := round2 (f (ba_balance a))\<rparr>) (accounts d)\<rparr>"

text \<open>A balance is a DECIMAL(15,2): a credit may not fit, a debit below the balance always does.\<close>

definition debit :: "uuid \<Rightarrow> uuid \<Rightarrow> money \<Rightarrow> (bank_db, unit) act" where
  "debit userID acc amount = exec_upd (\<lambda>_ d. moved userID acc (\<lambda>b. b - amount) d)"

definition credit :: "uuid \<Rightarrow> uuid \<Rightarrow> money \<Rightarrow> (bank_db, unit) act" where
  "credit userID acc amount = exec_check
     (\<lambda>_ d. list_all (\<lambda>a. owned userID acc a \<longrightarrow> numeric_fits 15 (round2 (ba_balance a + amount))) (accounts d))
     (\<lambda>_ d. moved userID acc (\<lambda>b. b + amount) d)"

text \<open>\<open>newID\<close>: the prefix and the nanoseconds of a reading of the clock.\<close>

definition newID :: "string \<Rightarrow> (bank_db, string) act" where
  "newID prefix = bind later (\<lambda>t. ret (prefix @ ''-'' @ itoa t))"

section \<open>Consistent tables\<close>

definition has_account :: "uuid \<Rightarrow> uuid \<Rightarrow> bank_db \<Rightarrow> bool" where
  "has_account userID acc d \<longleftrightarrow> list_ex (owned userID acc) (accounts d)"

definition account_ok :: "bank_account \<Rightarrow> bool" where
  "account_ok a \<longleftrightarrow> paise (ba_balance a) \<and> 0 \<le> ba_balance a"

definition mandate_ok :: "bank_db \<Rightarrow> mandate_row \<Rightarrow> bool" where
  "mandate_ok d m \<longleftrightarrow> has_account (md_user m) (md_account m) d \<and> paise (md_max m) \<and> 0 \<le> md_max m"

definition payment_ok :: "bank_db \<Rightarrow> payment_row \<Rightarrow> bool" where
  "payment_ok d p \<longleftrightarrow> has_account (py_user p) (py_account p) d \<and> py_status p = ''SUCCESS''"

definition execution_ok :: "bank_db \<Rightarrow> execution_row \<Rightarrow> bool" where
  "execution_ok d e \<longleftrightarrow> list_ex (\<lambda>m. md_id m = ex_mandate e \<and> md_user m = ex_user e) (mandates d)"

definition deposit_ok :: "bank_db \<Rightarrow> deposit_row \<Rightarrow> bool" where
  "deposit_ok d f \<longleftrightarrow> has_account (fd_user f) (fd_account f) d \<and> paise (fd_principal f) \<and> 0 \<le> fd_principal f"

definition bank_inv :: "bank_db \<Rightarrow> bool" where
  "bank_inv d \<longleftrightarrow> distinct (map ba_id (accounts d)) \<and> list_all account_ok (accounts d) \<and>
     distinct (map py_id (payments d)) \<and> distinct (map py_txn (payments d)) \<and> list_all (payment_ok d) (payments d) \<and>
     distinct (map md_id (mandates d)) \<and> list_all (mandate_ok d) (mandates d) \<and>
     list_all (execution_ok d) (executions d) \<and>
     distinct (map fd_number (deposits d)) \<and> list_all (deposit_ok d) (deposits d)"

lemma bank_invD:
  assumes "bank_inv d"
  shows "distinct (map ba_id (accounts d))" "distinct (map py_txn (payments d))" "distinct (map md_id (mandates d))"
    "distinct (map py_id (payments d))" "distinct (map fd_number (deposits d))"
    "a \<in> set (accounts d) \<Longrightarrow> paise (ba_balance a)" "a \<in> set (accounts d) \<Longrightarrow> 0 \<le> ba_balance a"
    "m \<in> set (mandates d) \<Longrightarrow> mandate_ok d m"
    "p \<in> set (payments d) \<Longrightarrow> payment_ok d p"
    "e \<in> set (executions d) \<Longrightarrow> execution_ok d e"
    "f \<in> set (deposits d) \<Longrightarrow> deposit_ok d f"
  using assms by (auto simp: bank_inv_def list_all_iff account_ok_def)

lemma live_accountD:
  "live_account userID acc d = Some a \<Longrightarrow>
   a \<in> set (accounts d) \<and> ba_id a = acc \<and> ba_user a = userID \<and> ba_unlinked a = None"
  unfolding live_account_def owned_def by (auto dest: first_row_filterD)

lemma live_has_account: "live_account userID acc d = Some a \<Longrightarrow> has_account userID acc d"
  by (auto dest!: live_accountD simp: has_account_def owned_def list_ex_iff)

lemma moved_sel [simp]:
  "payments (moved u acc f d) = payments d" "mandates (moved u acc f d) = mandates d"
  "executions (moved u acc f d) = executions d" "deposits (moved u acc f d) = deposits d"
  "map ba_id (accounts (moved u acc f d)) = map ba_id (accounts d)"
  by (simp_all add: moved_def map_update_where)

lemma moved_payments [simp]: "(moved u acc f d)\<lparr>payments := ps\<rparr> = moved u acc f (d\<lparr>payments := ps\<rparr>)"
  by (simp add: moved_def)

lemma list_ex_update_where: "(\<And>r. p (f r) = p r) \<Longrightarrow> list_ex p (update_where q f xs) = list_ex p xs"
  by (induction xs) auto

lemma has_account_moved [simp]: "has_account u' acc' (moved u acc f d) = has_account u' acc' d"
  by (simp add: has_account_def moved_def list_ex_update_where owned_def)

lemma moved_ok:
  assumes "\<And>a. a \<in> set (accounts d) \<Longrightarrow> owned u acc a \<Longrightarrow> 0 \<le> f (ba_balance a)" "list_all account_ok (accounts d)"
  shows "list_all account_ok (accounts (moved u acc f d))"
  using assms by (auto simp: moved_def list_all_iff in_update_where account_ok_def round2_nonneg)

end
