(* ===== verification/Payments.thy ===== *)
theory Payments
  imports Bank
begin

text \<open>
  Payments and mandates: \<open>internal/provider/payments/mock.go\<close> with the wire types of
  \<open>internal/domain/payments/models.go\<close>. \<open>uuid.Parse\<close> is the parameter \<open>parse\<close>. Times on the
  wire are epoch seconds (\<open>internal/apitime\<close>).
\<close>

section \<open>Wire types\<close>

record PaymentRequest =
  pr_txn :: string
  pr_amount :: money
  pr_mode :: string
  pr_upi :: string
  pr_account :: string
  pr_purpose :: string

record Payment =
  pm_id :: string
  pm_txn :: string
  pm_status :: string
  pm_mode :: string
  pm_ref :: "string option"
  pm_code :: "string option"
  pm_msg :: "string option"
  pm_processed :: "int option"

record MandateRequest =
  mr_account :: string
  mr_upi :: string
  mr_type :: string
  mr_payee :: string
  mr_vpa :: string
  mr_category :: string
  mr_amount :: money
  mr_frequency :: string
  mr_start :: int
  mr_end :: "int option"

record Mandate =
  mn_id :: string
  mn_type :: string
  mn_payee :: "string option"
  mn_vpa :: "string option"
  mn_category :: string
  mn_bank :: "string option"
  mn_max :: money
  mn_frequency :: string
  mn_next :: "int option"
  mn_status :: string
  mn_approved :: "int option"
  mn_created :: int

record MandateActionResult =
  ar_mandate :: string
  ar_status :: string
  ar_from :: int

section \<open>Payments\<close>

definition validatePaymentRequest :: "PaymentRequest \<Rightarrow> goerr option" where
  "validatePaymentRequest req =
     (if pr_txn req = [] then Some (Validation ''txn_id is required'')
      else if pr_amount req \<le> 0 then Some (Validation ''amount must be positive'')
      else if pr_mode req \<notin> {''UPI'', ''NETBANKING'', ''CARD''} then
        Some (Validation ''payment_mode must be one of UPI, NETBANKING, CARD'')
      else if pr_mode req = ''UPI'' \<and> pr_upi req = [] then
        Some (Validation ''upi_id is required when payment_mode is UPI'')
      else if pr_purpose req = [] then Some (Validation ''purpose is required'')
      else None)"

definition scanPayment :: "payment_row \<Rightarrow> Payment" where
  "scanPayment r = \<lparr>pm_id = py_id r, pm_txn = py_txn r, pm_status = py_status r, pm_mode = py_mode r,
     pm_ref = py_ref r, pm_code = py_code r, pm_msg = py_msg r, pm_processed = map_option Epoch (py_processed r)\<rparr>"

definition payment_of :: "string \<Rightarrow> uuid \<Rightarrow> bank_db \<Rightarrow> payment_row option" where
  "payment_of txn userID d = first_row (filter (\<lambda>r. py_txn r = txn \<and> py_user r = userID) (payments d))"

definition payment_fits :: "payment_row \<Rightarrow> bank_db \<Rightarrow> bool" where
  "payment_fits r d \<longleftrightarrow> py_id r \<notin> py_id ` set (payments d) \<and> py_txn r \<notin> py_txn ` set (payments d) \<and>
     varchar 40 (py_id r) \<and> varchar 40 (py_txn r) \<and> numeric_fits 18 (py_amount r) \<and>
     varchar 15 (py_payment_mode r) \<and> varchar_opt 50 (py_upi r) \<and> varchar 20 (py_purpose r) \<and>
     varchar 15 (py_status r) \<and> varchar 15 (py_mode r) \<and> varchar_opt 30 (py_ref r) \<and>
     varchar_opt 10 (py_code r) \<and> varchar_opt 150 (py_msg r)"

definition insert_payment :: "payment_row \<Rightarrow> (bank_db, unit) act" where
  "insert_payment r = exec_check (\<lambda>_. payment_fits r) (\<lambda>_ d. d\<lparr>payments := payments d @ [r]\<rparr>)"

text \<open>
  The outcome of the balance check: a refusal, or the debit with a bank reference. The row
  holds the amount rounded to two decimals.
\<close>

definition blank_payment :: "uuid \<Rightarrow> PaymentRequest \<Rightarrow> uuid \<Rightarrow> string \<Rightarrow> int \<Rightarrow> payment_row" where
  "blank_payment userID req acc paymentID now = \<lparr>py_id = paymentID, py_txn = pr_txn req, py_user = userID, py_account = acc,
     py_amount = round2 (pr_amount req), py_payment_mode = pr_mode req, py_upi = nullIfEmpty (pr_upi req),
     py_purpose = pr_purpose req, py_status = [], py_mode = pr_mode req, py_ref = None, py_code = None, py_msg = None,
     py_processed = Some now\<rparr>"

definition decide_payment :: "uuid \<Rightarrow> PaymentRequest \<Rightarrow> uuid \<Rightarrow> money \<Rightarrow> payment_row \<Rightarrow> (bank_db, payment_row) act" where
  "decide_payment userID req acc balance pay =
     (if balance < pr_amount req then
        ret (pay\<lparr>py_status := ''FAILURE'', py_code := Some ''INSUFFICIENT_FUNDS'',
          py_msg := Some ''Source account balance is lower than the requested amount''\<rparr>)
      else bind (wrapping ''debit source account'' (debit userID acc (pr_amount req))) (\<lambda>_.
           bind (newID ''REF'') (\<lambda>r. ret (pay\<lparr>py_status := ''SUCCESS'', py_ref := Some r\<rparr>))))"

definition new_payment :: "(string \<Rightarrow> uuid option) \<Rightarrow> uuid \<Rightarrow> PaymentRequest \<Rightarrow> (bank_db, Payment) act" where
  "new_payment parse userID req =
     bind (resolveBankAccountID parse userID (pr_account req)) (\<lambda>acc.
     bind (wrapping ''lock bank account'' (lock_balance userID acc)) (\<lambda>balance.
     bind (newID ''PAYU'') (\<lambda>paymentID.
     bind time_now (\<lambda>now.
     bind (decide_payment userID req acc balance (blank_payment userID req acc paymentID now)) (\<lambda>pay.
     bind (wrapping ''insert payment'' (insert_payment pay)) (\<lambda>_.
     ret (scanPayment pay)))))))"

definition InitiatePayment :: "(string \<Rightarrow> uuid option) \<Rightarrow> uuid \<Rightarrow> PaymentRequest \<Rightarrow> (bank_db, Payment) act" where
  "InitiatePayment parse userID req = (case validatePaymentRequest req of
       Some e \<Rightarrow> fail e
     | None \<Rightarrow> txc (Wrap ''begin payment tx'') (Wrap ''commit payment'')
         (bind (wrapping ''check existing payment'' (get_row ''scan payment'' (\<lambda>_. payment_of (pr_txn req) userID))) (\<lambda>r.
          case r of
            Some pay \<Rightarrow> ret (False, scanPayment pay)
          | None \<Rightarrow> bind (new_payment parse userID req) (\<lambda>pay. ret (True, pay)))))"

definition GetPayment :: "uuid \<Rightarrow> string \<Rightarrow> (bank_db, Payment) act" where
  "GetPayment userID paymentID =
     bind (get_row ''scan payment'' (\<lambda>_ d. first_row (filter (\<lambda>r. py_id r = paymentID \<and> py_user r = userID) (payments d)))) (\<lambda>r.
     case r of
       None \<Rightarrow> fail (NotFound (''payment '' @ paymentID @ '' not found''))
     | Some pay \<Rightarrow> ret (scanPayment pay))"

section \<open>Mandates\<close>

text \<open>The start date, or the refusal.\<close>

definition validateMandateRequest :: "MandateRequest \<Rightarrow> goerr + int" where
  "validateMandateRequest req =
     (if mr_amount req \<le> 0 then Inl (Validation ''mandate_amount must be positive'')
      else if mr_frequency req \<notin> {''MONTHLY'', ''QUARTERLY'', ''YEARLY''} then
        Inl (Validation ''mandate_frequency must be MONTHLY, QUARTERLY or YEARLY'')
      else if mr_start req \<le> 0 then Inl (Validation ''mandate_start_date is required'')
      else Inr (FromEpoch (mr_start req)))"

definition mandate_fits :: "mandate_row \<Rightarrow> bank_db \<Rightarrow> bool" where
  "mandate_fits m d \<longleftrightarrow> md_id m \<notin> md_id ` set (mandates d) \<and> varchar 30 (md_id m) \<and> varchar 20 (md_type m) \<and>
     varchar_opt 50 (md_upi m) \<and> varchar_opt 100 (md_payee m) \<and> varchar_opt 50 (md_vpa m) \<and>
     varchar 30 (md_category m) \<and> numeric_fits 18 (md_max m) \<and> varchar 10 (md_frequency m) \<and> varchar 15 (md_status m)"

definition insert_mandate :: "mandate_row \<Rightarrow> (bank_db, unit) act" where
  "insert_mandate m = exec_check (\<lambda>_. mandate_fits m) (\<lambda>_ d. d\<lparr>mandates := mandates d @ [m]\<rparr>)"

definition mandate_for :: "uuid \<Rightarrow> MandateRequest \<Rightarrow> uuid \<Rightarrow> string \<Rightarrow> int \<Rightarrow> int \<Rightarrow> mandate_row" where
  "mandate_for userID req acc mandateID startDate now =
     \<lparr>md_id = mandateID, md_user = userID, md_account = acc,
      md_type = (if mr_type req = [] then ''UPI_AUTOPAY'' else mr_type req), md_upi = nullIfEmpty (mr_upi req),
      md_payee = nullIfEmpty (mr_payee req), md_vpa = nullIfEmpty (mr_vpa req),
      md_category = (if mr_category req = [] then ''OTHER'' else mr_category req),
      md_max = round2 (mr_amount req), md_frequency = mr_frequency req, md_start = day_of startDate,
      md_end = map_option (\<lambda>s. day_of (FromEpoch s)) (mr_end req), md_next = day_of startDate, md_status = ''ACTIVE'',
      md_approved = Some now, md_created = now\<rparr>"

definition CreateMandate :: "(string \<Rightarrow> uuid option) \<Rightarrow> uuid \<Rightarrow> MandateRequest \<Rightarrow> (bank_db, Mandate) act" where
  "CreateMandate parse userID req = (case validateMandateRequest req of
       Inl e \<Rightarrow> fail e
     | Inr startDate \<Rightarrow>
         bind (resolveBankAccountID parse userID (mr_account req)) (\<lambda>acc.
         bind (newID ''MNDT'') (\<lambda>mandateID.
         bind time_now (\<lambda>now.
         bind (wrapping ''insert mandate'' (insert_mandate (mandate_for userID req acc mandateID startDate now))) (\<lambda>_.
         let m = mandate_for userID req acc mandateID startDate now in
         ret \<lparr>mn_id = mandateID, mn_type = md_type m, mn_payee = nullIfEmpty (mr_payee req),
           mn_vpa = nullIfEmpty (mr_vpa req), mn_category = md_category m, mn_bank = None, mn_max = mr_amount req,
           mn_frequency = mr_frequency req, mn_next = Some (Epoch startDate), mn_status = ''ACTIVE'',
           mn_approved = Some (Epoch now), mn_created = Epoch now\<rparr>)))))"

text \<open>A row joined with its account.\<close>

definition scanMandate :: "mandate_row \<Rightarrow> bank_account \<Rightarrow> Mandate" where
  "scanMandate m b = \<lparr>mn_id = md_id m, mn_type = md_type m, mn_payee = md_payee m, mn_vpa = md_vpa m,
     mn_category = md_category m, mn_bank = Some (ba_name b), mn_max = md_max m, mn_frequency = md_frequency m,
     mn_next = Some (date_epoch (md_next m)), mn_status = md_status m, mn_approved = map_option Epoch (md_approved m),
     mn_created = Epoch (md_created m)\<rparr>"

text \<open>The table of transitions: action, current status, new status.\<close>

definition mandateTransitions :: "(string \<times> (string \<times> string) list) list" where
  "mandateTransitions =
     [(''PAUSE'', [(''ACTIVE'', ''PAUSED'')]), (''RESUME'', [(''PAUSED'', ''ACTIVE'')]),
      (''CANCEL'', [(''ACTIVE'', ''REVOKED''), (''PAUSED'', ''REVOKED''), (''PENDING'', ''REVOKED'')])]"

definition the_mandate :: "string \<Rightarrow> uuid \<Rightarrow> mandate_row \<Rightarrow> bool" where
  "the_mandate mandateID userID m \<longleftrightarrow> md_id m = mandateID \<and> md_user m = userID"

definition mandate_of :: "string \<Rightarrow> uuid \<Rightarrow> bank_db \<Rightarrow> mandate_row option" where
  "mandate_of mandateID userID d = first_row (filter (the_mandate mandateID userID) (mandates d))"

definition set_mandate :: "string \<Rightarrow> uuid \<Rightarrow> (mandate_row \<Rightarrow> mandate_row) \<Rightarrow> bank_db \<Rightarrow> bank_db" where
  "set_mandate mandateID userID f d = d\<lparr>mandates := update_where (the_mandate mandateID userID) f (mandates d)\<rparr>"

definition MandateAction :: "uuid \<Rightarrow> string \<Rightarrow> string \<Rightarrow> (bank_db, MandateActionResult) act" where
  "MandateAction userID mandateID action = (case map_of mandateTransitions action of
       None \<Rightarrow> fail (Validation ''action must be one of PAUSE, RESUME, CANCEL'')
     | Some transitionsForAction \<Rightarrow>
         bind (tx (Wrap ''begin mandate action tx'') (\<lambda>_. Wrap ''commit mandate action'')
           (bind (get_row ''lock mandate'' (\<lambda>_. mandate_of mandateID userID)) (\<lambda>r. case r of
              None \<Rightarrow> fail (NotFound (''mandate '' @ mandateID @ '' not found''))
            | Some m \<Rightarrow> (case map_of transitionsForAction (md_status m) of
                None \<Rightarrow> fail (Wrap (''mandate '' @ mandateID @ '' is '' @ md_status m @ '' and cannot be '' @ action @ ''d'') (Sent ErrConflict))
              | Some newStatus \<Rightarrow>
                  bind (wrapping ''update mandate status''
                    (exec_upd (\<lambda>_. set_mandate mandateID userID (\<lambda>m. m\<lparr>md_status := newStatus\<rparr>)))) (\<lambda>_.
                  ret newStatus))))) (\<lambda>newStatus.
         bind time_now (\<lambda>now. ret \<lparr>ar_mandate = mandateID, ar_status = newStatus, ar_from = Epoch now\<rparr>)))"


section \<open>Effects\<close>

text \<open>The account a request names, and the tables after a payment.\<close>

definition account_for :: "(string \<Rightarrow> uuid option) \<Rightarrow> uuid \<Rightarrow> string \<Rightarrow> bank_db \<Rightarrow> uuid option" where
  "account_for parse userID s d =
     (if s = [] then map_option ba_id (first_row (linked userID d))
      else Option.bind (parse s) (\<lambda>acc. if live_account userID acc d = None then None else Some acc))"

definition paid :: "uuid \<Rightarrow> uuid \<Rightarrow> money \<Rightarrow> payment_row \<Rightarrow> bank_db \<Rightarrow> bank_db" where
  "paid userID acc amount pay d = (moved userID acc (\<lambda>b. b - amount) d)\<lparr>payments := payments d @ [pay]\<rparr>"

lemma wp_GetPrimary:
  "wp (GetPrimaryBankAccount u) (\<lambda>a w'. \<exists>r. first_row (linked u (wdb w)) = Some r \<and> a = account_view r \<and> wdb w' = wdb w)
     (\<lambda>_ w'. wdb w' = wdb w) w"
  by (auto simp: GetPrimaryBankAccount_def wp_simps split: option.split)

lemma wp_resolve:
  "wp (resolveBankAccountID parse u s) (\<lambda>acc w'. account_for parse u s (wdb w) = Some acc \<and> wdb w' = wdb w)
     (\<lambda>_ w'. wdb w' = wdb w) w"
  by (auto simp: resolveBankAccountID_def wp_simps account_for_def account_view_def split: option.split
      intro!: wp_mono[OF wp_GetPrimary])

lemma wp_newID:
  "wp (newID p) (\<lambda>i w'. (\<exists>t. i = p @ ''-'' @ itoa t) \<and> wdb w' = wdb w) (\<lambda>_ _. False) w"
  by (auto simp: newID_def wp_simps split: list.split)

definition payment_made :: "(string \<Rightarrow> uuid option) \<Rightarrow> uuid \<Rightarrow> PaymentRequest \<Rightarrow> bank_db \<Rightarrow> Payment \<Rightarrow> bank_db \<Rightarrow> bool" where
  "payment_made parse userID req d p d' \<longleftrightarrow> (\<exists>acc a pay. account_for parse userID (pr_account req) d = Some acc \<and>
     live_account userID acc d = Some a \<and> pr_amount req \<le> ba_balance a \<and>
     py_txn pay = pr_txn req \<and> py_user pay = userID \<and> py_account pay = acc \<and> py_amount pay = round2 (pr_amount req) \<and>
     py_status pay = ''SUCCESS'' \<and> py_id pay \<notin> py_id ` set (payments d) \<and> py_txn pay \<notin> py_txn ` set (payments d) \<and>
     p = scanPayment pay \<and> d' = paid userID acc (pr_amount req) pay d)"

lemma wp_decide:
  "wp (decide_payment u req acc bal pay)
     (\<lambda>pay' w'. (bal < pr_amount req \<longrightarrow> py_code pay' = Some ''INSUFFICIENT_FUNDS'' \<and> wdb w' = wdb w) \<and>
        (pr_amount req \<le> bal \<longrightarrow> (\<exists>r. pay' = pay\<lparr>py_status := ''SUCCESS'', py_ref := Some r\<rparr>) \<and>
           wdb w' = moved u acc (\<lambda>b. b - pr_amount req) (wdb w)))
     (\<lambda>_ w'. wdb w' = wdb w) w"
  by (auto simp: decide_payment_def wp_simps debit_def intro!: wp_mono[OF wp_newID])

lemma code_too_long: "py_code pay = Some ''INSUFFICIENT_FUNDS'' \<Longrightarrow> \<not> payment_fits pay d"
  by (simp add: payment_fits_def varchar_opt_def varchar_def)

lemma blank_payment_sel [simp]:
  "py_id (blank_payment u req acc i now) = i" "py_txn (blank_payment u req acc i now) = pr_txn req"
  "py_user (blank_payment u req acc i now) = u" "py_account (blank_payment u req acc i now) = acc"
  "py_amount (blank_payment u req acc i now) = round2 (pr_amount req)"
  by (simp_all add: blank_payment_def)

lemma payment_madeI:
  assumes "account_for parse u (pr_account req) d = Some acc" "live_account u acc d = Some a" "pr_amount req \<le> ba_balance a"
    and "payment_fits pay d" "pay = (blank_payment u req acc i now)\<lparr>py_status := ''SUCCESS'', py_ref := Some r\<rparr>"
  shows "payment_made parse u req d (scanPayment pay) ((moved u acc (\<lambda>b. b - pr_amount req) d)\<lparr>payments := payments d @ [pay]\<rparr>)"
  unfolding payment_made_def using assms by (intro exI[of _ acc] exI[of _ a] exI[of _ pay]) (auto simp: payment_fits_def paid_def)

lemma payment_fits_moved [simp]: "payment_fits pay (moved u acc f d) = payment_fits pay d"
  by (simp add: payment_fits_def)

lemma wp_decided:
  assumes "account_for parse u (pr_account req) d = Some acc" "live_account u acc d = Some a" "bal = ba_balance a" "wdb v = d"
  shows "wp (decide_payment u req acc bal (blank_payment u req acc i now))
     (\<lambda>pay. wp (bind (wrapping ''insert payment'' (insert_payment pay)) (\<lambda>_. ret (scanPayment pay)))
        (\<lambda>p w'. payment_made parse u req d p (wdb w')) (\<lambda>_ _. True)) (\<lambda>_ _. True) v"
proof (rule wp_mono[OF wp_decide])
  fix pay and v' :: "bank_db world"
  assume "(bal < pr_amount req \<longrightarrow> py_code pay = Some ''INSUFFICIENT_FUNDS'' \<and> wdb v' = wdb v) \<and>
    (pr_amount req \<le> bal \<longrightarrow> (\<exists>r. pay = (blank_payment u req acc i now)\<lparr>py_status := ''SUCCESS'', py_ref := Some r\<rparr>) \<and>
       wdb v' = moved u acc (\<lambda>b. b - pr_amount req) (wdb v))"
  then consider "py_code pay = Some ''INSUFFICIENT_FUNDS''"
    | r where "pr_amount req \<le> bal" "pay = (blank_payment u req acc i now)\<lparr>py_status := ''SUCCESS'', py_ref := Some r\<rparr>"
        "wdb v' = moved u acc (\<lambda>b. b - pr_amount req) d"
    using assms(4) by (cases "bal < pr_amount req") auto
  then show "wp (bind (wrapping ''insert payment'' (insert_payment pay)) (\<lambda>_. ret (scanPayment pay)))
        (\<lambda>p w'. payment_made parse u req d p (wdb w')) (\<lambda>_ _. True) v'"
  proof cases
    case 1
    then show ?thesis by (simp add: insert_payment_def wp_simps code_too_long)
  next
    case 2
    show ?thesis
      unfolding insert_payment_def wp_bind wp_wrapping wp_exec_check wp_ret
      using payment_madeI[OF assms(1,2) _ _ 2(2)] 2(1,3) assms(3) by (simp del: moved_payments)
  qed
qed auto

lemma wp_new_payment:
  "wp (new_payment parse u req) (\<lambda>p w'. payment_made parse u req (wdb w) p (wdb w')) (\<lambda>_ _. True) w"
  unfolding new_payment_def lock_balance_def wp_bind
  by (rule wp_mono[OF wp_resolve])
    (auto simp: wp_simps split: option.split intro!: wp_mono[OF wp_newID] wp_decided[unfolded wp_bind wp_wrapping wp_fun])

lemma wp_InitiatePayment:
  "wp (InitiatePayment parse u req)
     (\<lambda>p w'. case payment_of (pr_txn req) u (wdb w) of
         Some r \<Rightarrow> p = scanPayment r \<and> wdb w' = wdb w
       | None \<Rightarrow> payment_made parse u req (wdb w) p (wdb w'))
     (\<lambda>_ w'. wdb w' = wdb w) w"
  by (auto simp: InitiatePayment_def wp_simps split: option.split intro!: wp_mono[OF wp_new_payment])

end
