(* ===== verification/Recurring.thy ===== *)
theory Recurring
  imports Payments
begin

text \<open>
  Recurring debits: \<open>internal/provider/payments/recurring.go\<close> and the listing of mandates. Whether
  the request's context is already cancelled before the \<open>i\<close>-th cycle of a mandate is the
  parameter \<open>ctxErr\<close>. CURRENT_DATE is the day of the clock (a UTC session).
\<close>

section \<open>Debit dates\<close>

definition nextDebitDate :: "int \<Rightarrow> string \<Rightarrow> int" where
  "nextDebitDate from_day frequency =
     (if frequency = ''QUARTERLY'' then add_date 0 3 0 from_day
      else if frequency = ''YEARLY'' then add_date 1 0 0 from_day
      else add_date 0 1 0 from_day)"

section \<open>Demo subscriptions\<close>

definition demoSubscriptions :: "(string \<times> string \<times> money \<times> int) list" where
  "demoSubscriptions =
     [(''Netflix'', ''netflix@upi'', 649, 75), (''YouTube Premium'', ''youtube@upi'', 129, 45),
      (''Spotify'', ''spotify@upi'', 119, 20), (''Disney+ Hotstar'', ''hotstar@upi'', 299, 15),
      (''Notion Plus'', ''notion@upi'', 799, 10), (''Perplexity Pro'', ''perplexity@upi'', 1650, 8),
      (''Claude Pro'', ''claude@upi'', 1650, 5), (''Canva Pro'', ''canva@upi'', 499, 3)]"

definition demo_mandate :: "uuid \<Rightarrow> uuid \<Rightarrow> string \<Rightarrow> int \<Rightarrow> string \<times> string \<times> money \<times> int \<Rightarrow> mandate_row" where
  "demo_mandate userID acc mandateID now = (\<lambda>(payee, vpa, amount, daysAgo).
     let startDate = AddDate 0 0 (- daysAgo) now
     in \<lparr>md_id = mandateID, md_user = userID, md_account = acc, md_type = ''UPI_AUTOPAY'', md_upi = None,
       md_payee = Some payee, md_vpa = Some vpa, md_category = ''SUBSCRIPTION'', md_max = amount,
       md_frequency = ''MONTHLY'', md_start = day_of startDate, md_end = None, md_next = day_of startDate,
       md_status = ''ACTIVE'', md_approved = Some startDate, md_created = now\<rparr>)"

definition seedDemoSubscriptions :: "uuid \<Rightarrow> (bank_db, unit) act" where
  "seedDemoSubscriptions userID =
     bind (wrapping ''check existing mandates''
       (query (\<lambda>_ d. list_ex (\<lambda>m. md_user m = userID \<and> md_category m = ''SUBSCRIPTION'') (mandates d)))) (\<lambda>hasAny.
     if hasAny then ret ()
     else bind (wrapping ''resolve bank account for demo subscriptions'' (GetPrimaryBankAccount userID)) (\<lambda>acc.
          bind time_now (\<lambda>now.
          foreach (\<lambda>ds. bind (newID ''MNDT'') (\<lambda>mandateID.
            wrapping (''seed demo subscription '' @ fst ds) (insert_mandate (demo_mandate userID (bv_id acc) mandateID now ds))))
            demoSubscriptions)))"

section \<open>Catching up\<close>

definition maxCatchUpPerRead :: nat where "maxCatchUpPerRead = 3"

text \<open>One execution: the debit when the balance covers it, and the row that records it.\<close>

definition execute_debit :: "uuid \<Rightarrow> mandate_row \<Rightarrow> money \<Rightarrow> (bank_db, unit) act" where
  "execute_debit userID m balance =
     bind (if balance \<ge> md_max m then wrapping ''debit mandate account'' (debit userID (md_account m) (md_max m)) else ret ()) (\<lambda>_.
     wrapping ''insert mandate execution'' (exec_upd (\<lambda>t d. d\<lparr>executions := executions d @
       [\<lparr>ex_mandate = md_id m, ex_user = userID, ex_date = md_next m, ex_amount = md_max m,
         ex_status = (if balance \<ge> md_max m then ''SUCCESS'' else ''FAILED''),
         ex_reason = (if balance \<ge> md_max m then None else Some ''INSUFFICIENT_FUNDS''), ex_at = t\<rparr>]\<rparr>)))"

text \<open>The next date and, when it reaches the end date, the status EXPIRED.\<close>

definition advanced_mandate :: "mandate_row \<Rightarrow> mandate_row" where
  "advanced_mandate m = (let newNextDebit = nextDebitDate (md_next m) (md_frequency m)
     in m\<lparr>md_next := newNextDebit,
          md_status := (case md_end m of None \<Rightarrow> md_status m
            | Some e \<Rightarrow> if \<not> newNextDebit < e then ''EXPIRED'' else md_status m)\<rparr>)"

definition advance_mandate :: "mandate_row \<Rightarrow> mandate_row \<Rightarrow> mandate_row" where
  "advance_mandate m r = r\<lparr>md_next := md_next (advanced_mandate m), md_status := md_status (advanced_mandate m)\<rparr>"

definition is_due :: "int \<Rightarrow> mandate_row \<Rightarrow> bool" where
  "is_due t m \<longleftrightarrow> md_status m = ''ACTIVE'' \<and> \<not> md_next m * day_ns > t"

definition runOneMandateCycle :: "uuid \<Rightarrow> string \<Rightarrow> (bank_db, bool) act" where
  "runOneMandateCycle userID mandateID =
     txc (Wrap ''begin mandate cycle tx'') (Wrap ''commit mandate cycle'')
       (bind (get_row ''lock mandate for cycle'' (\<lambda>_. mandate_of mandateID userID)) (\<lambda>r. case r of
          None \<Rightarrow> ret (False, False)
        | Some m \<Rightarrow>
            bind time_now (\<lambda>now.
            if \<not> is_due now m then ret (False, False)
            else bind (wrapping ''lock bank account for mandate cycle'' (lock_balance userID (md_account m))) (\<lambda>balance.
                 bind (execute_debit userID m balance) (\<lambda>_.
                 bind (wrapping ''advance mandate next_debit_date''
                   (exec_upd (\<lambda>_. set_mandate mandateID userID (advance_mandate m)))) (\<lambda>_.
                 ret (True, True)))))))"

fun catch_up_loop :: "(nat \<Rightarrow> bool) \<Rightarrow> uuid \<Rightarrow> string \<Rightarrow> nat \<Rightarrow> nat \<Rightarrow> (bank_db, unit) act" where
  "catch_up_loop ctxErr userID mandateID i 0 = ret ()"
| "catch_up_loop ctxErr userID mandateID i (Suc k) =
     (if ctxErr i then ret ()
      else bind (runOneMandateCycle userID mandateID) (\<lambda>processedOne.
           if \<not> processedOne then ret () else catch_up_loop ctxErr userID mandateID (Suc i) k))"

definition catchUpMandate :: "(nat \<Rightarrow> bool) \<Rightarrow> uuid \<Rightarrow> string \<Rightarrow> nat \<Rightarrow> (bank_db, unit) act" where
  "catchUpMandate ctxErr userID mandateID maxCycles = catch_up_loop ctxErr userID mandateID 0 maxCycles"

definition due_ids :: "uuid \<Rightarrow> int \<Rightarrow> bank_db \<Rightarrow> string list" where
  "due_ids userID t d = map md_id (filter (\<lambda>m. md_user m = userID \<and> md_status m = ''ACTIVE'' \<and> md_next m \<le> day_of t) (mandates d))"

definition processDueMandates :: "(string \<Rightarrow> nat \<Rightarrow> bool) \<Rightarrow> uuid \<Rightarrow> nat \<Rightarrow> (bank_db, unit) act" where
  "processDueMandates ctxErr userID maxCyclesPerMandate =
     bind (wrapping ''find due mandates'' (query (due_ids userID))) (\<lambda>dueIDs.
     foreach (\<lambda>mandateID. catchUpMandate (ctxErr mandateID) userID mandateID maxCyclesPerMandate) dueIDs)"

section \<open>Reads\<close>

text \<open>Rows with an account, newest first.\<close>

definition joined :: "bank_db \<Rightarrow> mandate_row \<Rightarrow> Mandate list" where
  "joined d m = map (scanMandate m) (filter (\<lambda>b. ba_id b = md_account m) (accounts d))"

definition ListMandates :: "(string \<Rightarrow> nat \<Rightarrow> bool) \<Rightarrow> uuid \<Rightarrow> string \<Rightarrow> (bank_db, Mandate list) act" where
  "ListMandates ctxErr userID statusFilter =
     bind (seedDemoSubscriptions userID) (\<lambda>_.
     bind (processDueMandates ctxErr userID maxCatchUpPerRead) (\<lambda>_.
     wrapping ''list mandates'' (query (\<lambda>_ d. concat (map (joined d)
       (order_desc md_created (filter (\<lambda>m. md_user m = userID \<and> (statusFilter = [] \<or> md_status m = statusFilter)) (mandates d))))))))"

record MandateExecution =
  mx_date :: int
  mx_amount :: money
  mx_status :: string
  mx_reason :: "string option"
  mx_at :: int

record ExecutionPage =
  xp_items :: "MandateExecution list"
  xp_total :: int
  xp_limit :: int
  xp_offset :: int

definition scan_execution :: "execution_row \<Rightarrow> MandateExecution" where
  "scan_execution e = \<lparr>mx_date = date_epoch (ex_date e), mx_amount = ex_amount e, mx_status = ex_status e,
     mx_reason = ex_reason e, mx_at = Epoch (ex_at e)\<rparr>"

definition page_limit :: "int \<Rightarrow> int" where
  "page_limit limit = (if limit \<le> 0 then 25 else if limit > 100 then 100 else limit)"

definition history_of :: "string \<Rightarrow> uuid \<Rightarrow> bank_db \<Rightarrow> execution_row list" where
  "history_of mandateID userID d = filter (\<lambda>e. ex_mandate e = mandateID \<and> ex_user e = userID) (executions d)"

definition MandateHistory :: "(string \<Rightarrow> nat \<Rightarrow> bool) \<Rightarrow> uuid \<Rightarrow> string \<Rightarrow> int \<Rightarrow> int \<Rightarrow> (bank_db, ExecutionPage) act" where
  "MandateHistory ctxErr userID mandateID limit offset =
     bind (processDueMandates ctxErr userID maxCatchUpPerRead) (\<lambda>_.
     let limit = page_limit limit; offset = (if offset < 0 then 0 else offset) in
     bind (wrapping ''verify mandate ownership'' (query (\<lambda>_ d. mandate_of mandateID userID d \<noteq> None))) (\<lambda>found.
     if \<not> found then fail (NotFound (''mandate '' @ mandateID @ '' not found''))
     else bind (wrapping ''count mandate executions'' (query (\<lambda>_ d. int (length (history_of mandateID userID d))))) (\<lambda>total.
          bind (wrapping ''list mandate executions'' (query (\<lambda>_ d.
            map scan_execution (take (nat limit) (drop (nat offset) (order_desc ex_date (history_of mandateID userID d))))))) (\<lambda>items.
          ret \<lparr>xp_items = items, xp_total = total, xp_limit = limit, xp_offset = offset\<rparr>))))"

record RecurringSummary =
  rs_upcoming_count :: nat
  rs_upcoming_total :: money
  rs_overdue_count :: nat
  rs_overdue_total :: money
  rs_paid_count :: nat
  rs_paid_total :: money

definition active_between :: "uuid \<Rightarrow> (int \<Rightarrow> bool) \<Rightarrow> bank_db \<Rightarrow> mandate_row list" where
  "active_between userID p d = filter (\<lambda>m. md_user m = userID \<and> md_status m = ''ACTIVE'' \<and> p (md_next m)) (mandates d)"

text \<open>\<open>date_trunc('month', t)\<close>\<close>

definition month_of :: "int \<Rightarrow> int \<times> nat" where
  "month_of t = (case civil (day_of t) of (y, m, _) \<Rightarrow> (y, m))"

definition upcoming_overdue :: "uuid \<Rightarrow> int \<Rightarrow> bank_db \<Rightarrow> nat \<times> money \<times> nat \<times> money" where
  "upcoming_overdue userID t d =
     (let up = active_between userID (\<lambda>n. day_of t \<le> n \<and> n \<le> day_of t + 7) d;
          ov = active_between userID (\<lambda>n. n < day_of t) d
      in (length up, sum_list (map md_max up), length ov, sum_list (map md_max ov)))"

definition paid_this_month :: "uuid \<Rightarrow> int \<Rightarrow> bank_db \<Rightarrow> nat \<times> money" where
  "paid_this_month userID t d =
     (let xs = filter (\<lambda>e. ex_user e = userID \<and> ex_status e = ''SUCCESS'' \<and> month_of (ex_at e) = month_of t) (executions d)
      in (length xs, sum_list (map ex_amount xs)))"

definition RecurringSummary_of :: "(string \<Rightarrow> nat \<Rightarrow> bool) \<Rightarrow> uuid \<Rightarrow> (bank_db, RecurringSummary) act" where
  "RecurringSummary_of ctxErr userID =
     bind (processDueMandates ctxErr userID maxCatchUpPerRead) (\<lambda>_.
     bind (wrapping ''summarize upcoming/overdue mandates'' (query (upcoming_overdue userID))) (\<lambda>(uc, ut, oc, ot).
     bind (wrapping ''summarize paid mandates'' (query (paid_this_month userID))) (\<lambda>(pc, pt).
     ret \<lparr>rs_upcoming_count = uc, rs_upcoming_total = ut, rs_overdue_count = oc, rs_overdue_total = ot,
       rs_paid_count = pc, rs_paid_total = pt\<rparr>)))"


section \<open>The effect of a cycle\<close>

definition execution_at :: "uuid \<Rightarrow> mandate_row \<Rightarrow> money \<Rightarrow> int \<Rightarrow> execution_row" where
  "execution_at userID m balance t = \<lparr>ex_mandate = md_id m, ex_user = userID, ex_date = md_next m, ex_amount = md_max m,
     ex_status = (if balance \<ge> md_max m then ''SUCCESS'' else ''FAILED''),
     ex_reason = (if balance \<ge> md_max m then None else Some ''INSUFFICIENT_FUNDS''), ex_at = t\<rparr>"

definition executed :: "uuid \<Rightarrow> mandate_row \<Rightarrow> money \<Rightarrow> int \<Rightarrow> bank_db \<Rightarrow> bank_db" where
  "executed userID m balance t d =
     (let d1 = (if balance \<ge> md_max m then moved userID (md_account m) (\<lambda>b. b - md_max m) d else d)
      in d1\<lparr>executions := executions d1 @ [execution_at userID m balance t]\<rparr>)"

definition cycled :: "uuid \<Rightarrow> mandate_row \<Rightarrow> money \<Rightarrow> int \<Rightarrow> bank_db \<Rightarrow> bank_db" where
  "cycled userID m balance t d = set_mandate (md_id m) userID (advance_mandate m) (executed userID m balance t d)"

lemma mandate_ofD: "mandate_of i u d = Some m \<Longrightarrow> m \<in> set (mandates d) \<and> md_id m = i \<and> md_user m = u"
  using first_row_filterD[of "the_mandate i u" "mandates d" m] by (auto simp: mandate_of_def the_mandate_def)

lemma wp_execute:
  "wp (execute_debit u m bal) (\<lambda>_ w'. wdb w' = executed u m bal (wnow w) (wdb w)) (\<lambda>_ _. True) w"
  by (auto simp: execute_debit_def wp_simps debit_def executed_def execution_at_def Let_def)

lemma wp_cycle:
  "wp (runOneMandateCycle u i)
     (\<lambda>b w'. case mandate_of i u (wdb w) of
         None \<Rightarrow> \<not> b \<and> wdb w' = wdb w
       | Some m \<Rightarrow> if is_due (wnow w) m then b \<and> (\<exists>a. live_account u (md_account m) (wdb w) = Some a \<and>
              wdb w' = cycled u m (ba_balance a) (wnow w) (wdb w))
            else \<not> b \<and> wdb w' = wdb w)
     (\<lambda>_ w'. wdb w' = wdb w) w"
  by (auto simp: runOneMandateCycle_def wp_simps lock_balance_def cycled_def dest: mandate_ofD split: option.split
      intro!: wp_mono[OF wp_execute])

end
