(* ===== verification/Deposits.thy ===== *)
theory Deposits
  imports Bank
begin

text \<open>
  Fixed deposits: \<open>internal/provider/fd/mock.go\<close>. The maturity amount is a real power
  (\<open>math.Pow\<close>), rounded to two decimals; every other amount is an exact rational as in \<open>Money\<close>.
\<close>

section \<open>Rates and maturity\<close>

definition rateForTenure :: "int \<Rightarrow> money" where
  "rateForTenure months =
     (if months < 6 then 6 else if months < 12 then 65/10 else if months < 24 then 7
      else if months < 36 then 725/100 else if months \<le> 60 then 75/10 else 71/10)"

definition round2r :: "real \<Rightarrow> real" where
  "round2r v = (if 0 \<le> v then of_int \<lfloor>v * 100 + 1/2\<rfloor> else of_int \<lceil>v * 100 - 1/2\<rceil>) / 100"

definition maturityAmount :: "money \<Rightarrow> money \<Rightarrow> int \<Rightarrow> string \<Rightarrow> real" where
  "maturityAmount principalAmt annualRatePct tenureMonths payout =
     (if payout \<noteq> ''MATURITY'' then round2r (of_rat principalAmt)
      else let years = of_int tenureMonths / 12
           in round2r (of_rat principalAmt * (1 + of_rat annualRatePct / 400) powr (4 * years)))"

text \<open>\<open>%.2f\<close>\<close>

definition fmt2 :: "money \<Rightarrow> string" where
  "fmt2 x = (let n = round_away (x * 100); k = nat \<bar>n\<bar>
     in (if n < 0 then ''-'' else []) @ itoa_nat (k div 100) @ ''.'' @ pad_zero 2 (itoa_nat (k mod 100)))"

section \<open>Requests and views\<close>

record OpenRequest =
  or_account :: string
  or_principal :: money
  or_tenure :: int
  or_payout :: string
  or_auto :: bool
  or_nominee :: string

record Account =
  fa_number :: string
  fa_principal :: money
  fa_rate :: money
  fa_tenure :: int
  fa_payout :: string
  fa_auto :: bool
  fa_nominee :: "string option"
  fa_booking :: int
  fa_maturity :: int
  fa_amount :: real
  fa_status :: string

record WithdrawResult =
  wr_number :: string
  wr_penalty :: money
  wr_net :: money
  wr_status :: string

definition validateOpenRequest :: "OpenRequest \<Rightarrow> goerr option" where
  "validateOpenRequest req =
     (if or_principal req \<le> 0 then Some (Validation ''principal_amount must be positive'')
      else if or_tenure req \<le> 0 then Some (Validation ''tenure_months must be positive'')
      else if or_payout req \<notin> {''MATURITY'', ''MONTHLY'', ''QUARTERLY''} then
        Some (Validation ''interest_payout must be one of MATURITY, MONTHLY, QUARTERLY'')
      else None)"

section \<open>Operations\<close>

text \<open>The account and its balance, locked; the named account is looked up under the lock.\<close>

definition resolveBankAccount :: "(string \<Rightarrow> uuid option) \<Rightarrow> uuid \<Rightarrow> string \<Rightarrow> (bank_db, uuid \<times> money) act" where
  "resolveBankAccount parse userID bankAccountID =
     bind (if bankAccountID = [] then
             bind (wrapping ''resolve default bank account'' (GetPrimaryBankAccount userID)) (\<lambda>acc. ret (bv_id acc))
           else ret bankAccountID) (\<lambda>s.
     case parse s of
       None \<Rightarrow> fail (Validation ''bank_account_id is not a valid identifier'')
     | Some accID \<Rightarrow>
         bind (get_row ''lock bank account'' (\<lambda>_ d. map_option ba_balance (live_account userID accID d))) (\<lambda>r. case r of
           None \<Rightarrow> fail (Validation ''bank_account_id does not belong to this user'')
         | Some balance \<Rightarrow> ret (accID, balance)))"

definition newFDAccountNumber :: "(bank_db, string) act" where
  "newFDAccountNumber = bind later (\<lambda>t. ret (''FD'' @ pad_zero 11 (itoa (t mod 100000000000))))"

definition deposit_fits :: "deposit_row \<Rightarrow> bank_db \<Rightarrow> bool" where
  "deposit_fits f d \<longleftrightarrow> fd_number f \<notin> fd_number ` set (deposits d) \<and> varchar 20 (fd_number f) \<and>
     numeric_fits 18 (fd_principal f) \<and> numeric_fits 5 (fd_rate f) \<and> fd_tenure f < 2 ^ 31 \<and>
     varchar 15 (fd_payout f) \<and> varchar_opt 100 (fd_nominee f) \<and> \<bar>fd_amount f\<bar> * 100 < 10 ^ 18 \<and> varchar 20 (fd_status f)"

definition insert_deposit :: "deposit_row \<Rightarrow> (bank_db, unit) act" where
  "insert_deposit f = exec_check (\<lambda>_. deposit_fits f) (\<lambda>_ d. d\<lparr>deposits := deposits d @ [f]\<rparr>)"

definition deposit_for :: "uuid \<Rightarrow> OpenRequest \<Rightarrow> uuid \<Rightarrow> string \<Rightarrow> int \<Rightarrow> deposit_row" where
  "deposit_for userID req acc number bookingDate =
     (let rate = rateForTenure (or_tenure req);
          maturityDate = AddDate 0 (or_tenure req) 0 bookingDate;
          maturity = maturityAmount (or_principal req) rate (or_tenure req) (or_payout req)
      in \<lparr>fd_number = number, fd_user = userID, fd_account = acc, fd_principal = round2 (or_principal req), fd_rate = rate,
          fd_tenure = or_tenure req, fd_payout = or_payout req, fd_auto = or_auto req,
          fd_nominee = (if or_nominee req \<noteq> [] then Some (or_nominee req) else None),
          fd_booking = day_of bookingDate, fd_maturity = day_of maturityDate, fd_amount = maturity, fd_status = ''ACTIVE''\<rparr>)"

text \<open>The answer repeats the request's principal and the instants, not the rounded row.\<close>

definition opened_view :: "OpenRequest \<Rightarrow> deposit_row \<Rightarrow> int \<Rightarrow> Account" where
  "opened_view req f bookingDate =
     \<lparr>fa_number = fd_number f, fa_principal = or_principal req, fa_rate = fd_rate f, fa_tenure = fd_tenure f,
      fa_payout = fd_payout f, fa_auto = fd_auto f, fa_nominee = fd_nominee f, fa_booking = Epoch bookingDate,
      fa_maturity = Epoch (AddDate 0 (or_tenure req) 0 bookingDate), fa_amount = fd_amount f, fa_status = fd_status f\<rparr>"

definition OpenFD :: "(string \<Rightarrow> uuid option) \<Rightarrow> uuid \<Rightarrow> OpenRequest \<Rightarrow> (bank_db, Account) act" where
  "OpenFD parse userID req = (case validateOpenRequest req of
       Some e \<Rightarrow> fail e
     | None \<Rightarrow> tx (Wrap ''begin open fd tx'') (\<lambda>_. Wrap ''commit open fd'')
         (bind (resolveBankAccount parse userID (or_account req)) (\<lambda>(acc, balance).
          if balance < or_principal req then
            fail (Validation (''insufficient balance: have '' @ fmt2 balance @ '', need '' @ fmt2 (or_principal req)))
          else
          bind (wrapping ''debit source account'' (debit userID acc (or_principal req))) (\<lambda>_.
          bind time_now (\<lambda>bookingDate.
          bind newFDAccountNumber (\<lambda>number.
          bind (wrapping ''insert fd account'' (insert_deposit (deposit_for userID req acc number bookingDate))) (\<lambda>_.
          ret (opened_view req (deposit_for userID req acc number bookingDate) bookingDate))))))))"

definition scanFD :: "deposit_row \<Rightarrow> Account" where
  "scanFD f = \<lparr>fa_number = fd_number f, fa_principal = fd_principal f, fa_rate = fd_rate f, fa_tenure = fd_tenure f,
     fa_payout = fd_payout f, fa_auto = fd_auto f, fa_nominee = fd_nominee f, fa_booking = date_epoch (fd_booking f),
     fa_maturity = date_epoch (fd_maturity f), fa_amount = fd_amount f, fa_status = fd_status f\<rparr>"

definition ListFDs :: "uuid \<Rightarrow> (bank_db, Account list) act" where
  "ListFDs userID = wrapping ''list fds''
     (query (\<lambda>_ d. map scanFD (order_desc fd_booking (filter (\<lambda>f. fd_user f = userID) (deposits d)))))"

definition the_deposit :: "string \<Rightarrow> uuid \<Rightarrow> deposit_row \<Rightarrow> bool" where
  "the_deposit number userID f \<longleftrightarrow> fd_number f = number \<and> fd_user f = userID"

definition deposit_of :: "string \<Rightarrow> uuid \<Rightarrow> bank_db \<Rightarrow> deposit_row option" where
  "deposit_of number userID d = first_row (filter (the_deposit number userID) (deposits d))"

definition GetFD :: "uuid \<Rightarrow> string \<Rightarrow> (bank_db, Account) act" where
  "GetFD userID number = bind (get_row ''scan fd account'' (\<lambda>_. deposit_of number userID)) (\<lambda>r. case r of
       None \<Rightarrow> fail (NotFound (''FD account '' @ number @ '' not found''))
     | Some f \<Rightarrow> ret (scanFD f))"

definition set_deposit :: "string \<Rightarrow> uuid \<Rightarrow> (deposit_row \<Rightarrow> deposit_row) \<Rightarrow> bank_db \<Rightarrow> bank_db" where
  "set_deposit number userID f d = d\<lparr>deposits := update_where (the_deposit number userID) f (deposits d)\<rparr>"

definition prematureWithdrawalPenaltyRate :: money where
  "prematureWithdrawalPenaltyRate = 1"

text \<open>The amount asked for (everything when the request names none), or the refusal.\<close>

definition withdraw_amount :: "money \<Rightarrow> money option \<Rightarrow> (money \<times> bool) option" where
  "withdraw_amount principalAmt asked = (case asked of
       None \<Rightarrow> Some (principalAmt, True)
     | Some x \<Rightarrow> if x \<le> 0 \<or> x > principalAmt then None else Some (x, x = principalAmt))"

definition Withdraw :: "uuid \<Rightarrow> string \<Rightarrow> money option \<Rightarrow> (bank_db, WithdrawResult) act" where
  "Withdraw userID number asked =
     tx (Wrap ''begin withdraw tx'') (\<lambda>_. Wrap ''commit withdraw'')
       (bind (get_row ''lock fd account'' (\<lambda>_. deposit_of number userID)) (\<lambda>r. case r of
          None \<Rightarrow> fail (NotFound (''FD account '' @ number @ '' not found''))
        | Some f \<Rightarrow>
            if fd_status f \<noteq> ''ACTIVE'' then
              fail (Wrap (''FD '' @ number @ '' is '' @ fd_status f @ '' and cannot be withdrawn'') (Sent ErrConflict))
            else (case withdraw_amount (fd_principal f) asked of
                None \<Rightarrow> fail (Validation ''withdrawal_amount must be between 0 and the principal amount'')
              | Some (amount, isFullClosure) \<Rightarrow>
                  let netPayable = round2 (amount * (1 - prematureWithdrawalPenaltyRate / 100)) in
                  bind (wrapping ''credit source account'' (credit userID (fd_account f) netPayable)) (\<lambda>_.
                  bind (if isFullClosure then
                          wrapping ''close fd account'' (exec_upd (\<lambda>_. set_deposit number userID (\<lambda>x. x\<lparr>fd_status := ''PREMATURE_CLOSED''\<rparr>)))
                        else
                          let remaining = round2 (fd_principal f - amount) in
                          wrapping ''update fd account after partial withdrawal''
                            (exec_upd (\<lambda>_. set_deposit number userID (\<lambda>x. x\<lparr>fd_principal := remaining,
                               fd_amount := maturityAmount remaining (fd_rate f) (fd_tenure f) (fd_payout f)\<rparr>)))) (\<lambda>_.
                  ret \<lparr>wr_number = number, wr_penalty = prematureWithdrawalPenaltyRate, wr_net = netPayable,
                    wr_status = (if isFullClosure then ''PREMATURE_CLOSED'' else ''ACTIVE'')\<rparr>)))))"

section \<open>Facts\<close>

lemma round2r_mono: "x \<le> y \<Longrightarrow> round2r x \<le> round2r y"
  unfolding round2r_def by (auto simp: divide_right_mono) (linarith+)?

text \<open>Compounding never loses: the maturity amount is at least the rounded principal.\<close>

lemma maturityAmount_ge:
  assumes "0 \<le> principalAmt" "0 \<le> rate" "0 \<le> months"
  shows "round2r (of_rat principalAmt) \<le> maturityAmount principalAmt rate months payout"
proof -
  have r: "1 \<le> (1 + of_rat rate / 400 :: real)" using assms(2) by simp
  have "1 \<le> (1 + of_rat rate / 400 :: real) powr (4 * (of_int months / 12))"
    using r assms(3) by (intro ge_one_powr_ge_zero) auto
  then have "of_rat principalAmt * 1 \<le> of_rat principalAmt * (1 + of_rat rate / 400 :: real) powr (4 * (of_int months / 12))"
    using assms(1) by (intro mult_left_mono) auto
  then show ?thesis by (auto simp: maturityAmount_def Let_def intro!: round2r_mono)
qed


section \<open>Effects\<close>

lemma wp_resolveBank:
  "wp (resolveBankAccount parse u s) (\<lambda>r w'. (\<exists>a. live_account u (fst r) (wdb w) = Some a \<and> snd r = ba_balance a) \<and> wdb w' = wdb w)
     (\<lambda>_ w'. wdb w' = wdb w) w"
proof -
  have "wp (GetPrimaryBankAccount u) (\<lambda>a w'. wdb w' = wdb w) (\<lambda>_ w'. wdb w' = wdb w) w"
    by (auto simp: GetPrimaryBankAccount_def wp_simps split: option.split)
  then show ?thesis
    unfolding resolveBankAccount_def
    by (auto simp: wp_simps split: option.split elim!: wp_mono)
qed

text \<open>What opening a deposit and withdrawing from one do to the tables.\<close>

definition opened :: "uuid \<Rightarrow> OpenRequest \<Rightarrow> int \<Rightarrow> bank_db \<Rightarrow> bank_db \<Rightarrow> bool" where
  "opened userID req t d d' \<longleftrightarrow> (\<exists>acc a number. live_account userID acc d = Some a \<and> or_principal req \<le> ba_balance a \<and>
     number \<notin> fd_number ` set (deposits d) \<and>
     d' = (moved userID acc (\<lambda>b. b - or_principal req) d)\<lparr>deposits := deposits d @ [deposit_for userID req acc number t]\<rparr>)"

definition withdrawn :: "deposit_row \<Rightarrow> money \<Rightarrow> deposit_row \<Rightarrow> deposit_row" where
  "withdrawn f amount x =
     (if amount = fd_principal f then x\<lparr>fd_status := ''PREMATURE_CLOSED''\<rparr>
      else x\<lparr>fd_principal := round2 (fd_principal f - amount),
             fd_amount := maturityAmount (round2 (fd_principal f - amount)) (fd_rate f) (fd_tenure f) (fd_payout f)\<rparr>)"

definition net_payable :: "money \<Rightarrow> money" where
  "net_payable amount = round2 (amount * (1 - prematureWithdrawalPenaltyRate / 100))"

definition after_withdrawal :: "uuid \<Rightarrow> string \<Rightarrow> deposit_row \<Rightarrow> money \<Rightarrow> bank_db \<Rightarrow> bank_db" where
  "after_withdrawal userID number f amount d =
     set_deposit number userID (withdrawn f amount) (moved userID (fd_account f) (\<lambda>b. b + net_payable amount) d)"

lemma openedI:
  "live_account u acc d = Some a \<Longrightarrow> or_principal req \<le> ba_balance a \<Longrightarrow> number \<notin> fd_number ` set (deposits d) \<Longrightarrow>
   opened u req t d ((moved u acc (\<lambda>b. b - or_principal req) d)\<lparr>deposits := deposits d @ [deposit_for u req acc number t]\<rparr>)"
  unfolding opened_def by blast

lemma fd_number_deposit_for [simp]: "fd_number (deposit_for u req acc n t) = n"
  by (simp add: deposit_for_def Let_def)

lemma wp_open_body:
  assumes "live_account u acc (wdb w) = Some a" "or_principal req \<le> ba_balance a"
  shows "wp (bind (wrapping s (debit u acc (or_principal req))) (\<lambda>_.
          bind time_now (\<lambda>t. bind newFDAccountNumber (\<lambda>number.
          bind (wrapping s' (insert_deposit (deposit_for u req acc number t))) (\<lambda>_.
          ret (opened_view req (deposit_for u req acc number t) t))))))
     (\<lambda>_ w'. opened u req (wnow w) (wdb w) (wdb w')) (\<lambda>_ _. True) w"
  using openedI[OF assms]
  by (simp add: wp_simps debit_def newFDAccountNumber_def insert_deposit_def deposit_fits_def split: list.split)

lemma wp_OpenFD:
  "wp (OpenFD parse u req) (\<lambda>_ w'. 0 < or_principal req \<and> 0 < or_tenure req \<and> opened u req (wnow w) (wdb w) (wdb w')) (\<lambda>_ w'. wdb w' = wdb w) w"
proof (cases "validateOpenRequest req")
  case (Some e)
  then show ?thesis by (simp add: OpenFD_def wp_simps)
next
  case None
  then have pos: "0 < or_principal req" "0 < or_tenure req" by (auto simp: validateOpenRequest_def split: if_splits)
  have "timed (resolveBankAccount parse u (or_account req))"
    unfolding resolveBankAccount_def GetPrimaryBankAccount_def by (intro clock_intros)
  note res = wp_timed[OF this wp_resolveBank]
  show ?thesis
    unfolding OpenFD_def None option.case
    by (rule tx_returns, unfold wp_bind, rule wp_mono[OF res])
      (auto simp: wp_if wp_fail pos intro!: wp_mono[OF wp_open_body])
qed


text \<open>A successful withdrawal, its amount at most the principal.\<close>

definition withdrawal :: "uuid \<Rightarrow> string \<Rightarrow> money option \<Rightarrow> bank_db \<Rightarrow> WithdrawResult \<Rightarrow> bank_db \<Rightarrow> bool" where
  "withdrawal userID number asked d r d' \<longleftrightarrow> (\<exists>f amount full. deposit_of number userID d = Some f \<and> fd_status f = ''ACTIVE'' \<and>
     withdraw_amount (fd_principal f) asked = Some (amount, full) \<and> full = (amount = fd_principal f) \<and>
     r = \<lparr>wr_number = number, wr_penalty = 1, wr_net = net_payable amount,
          wr_status = (if full then ''PREMATURE_CLOSED'' else ''ACTIVE'')\<rparr> \<and>
     d' = after_withdrawal userID number f amount d)"

lemma withdraw_amount_full: "withdraw_amount p asked = Some (amount, full) \<Longrightarrow> full \<longleftrightarrow> amount = p"
  by (auto simp: withdraw_amount_def split: option.splits if_splits)

lemma withdrawalI:
  assumes "deposit_of number u d = Some f" "fd_status f = ''ACTIVE''" "withdraw_amount (fd_principal f) asked = Some (amount, full)"
  shows "withdrawal u number asked d
     \<lparr>wr_number = number, wr_penalty = prematureWithdrawalPenaltyRate, wr_net = net_payable amount,
      wr_status = (if full then ''PREMATURE_CLOSED'' else ''ACTIVE'')\<rparr>
     (if full then set_deposit number u (\<lambda>x. x\<lparr>fd_status := ''PREMATURE_CLOSED''\<rparr>) (moved u (fd_account f) (\<lambda>b. b + net_payable amount) d)
      else set_deposit number u (\<lambda>x. x\<lparr>fd_principal := round2 (fd_principal f - amount),
             fd_amount := maturityAmount (round2 (fd_principal f - amount)) (fd_rate f) (fd_tenure f) (fd_payout f)\<rparr>)
           (moved u (fd_account f) (\<lambda>b. b + net_payable amount) d))"
  unfolding withdrawal_def
  by (intro exI[of _ f] exI[of _ amount] exI[of _ full])
    (auto simp: assms withdraw_amount_full[OF assms(3)] after_withdrawal_def withdrawn_def[abs_def] prematureWithdrawalPenaltyRate_def)

lemma wp_Withdraw:
  "wp (Withdraw u number asked) (\<lambda>r w'. withdrawal u number asked (wdb w) r (wdb w')) (\<lambda>_ w'. wdb w' = wdb w) w"
  unfolding Withdraw_def net_payable_def[symmetric]
  by (rule tx_returns)
    (auto simp: wp_simps Let_def credit_def split: option.split prod.split dest!: withdrawalI split: if_splits)

end
