(* ===== verification/Http.thy ===== *)
theory Http
  imports ApiResponse
begin

text \<open>
  What every JSON handler shares: the authenticated user of the request's context, the decoded
  body (\<open>internal/httpx\<close>: the decoding error or the value), and the answer, with the calls to
  the live-update publisher the handler made (user and kind of change).
\<close>

datatype 'a http = HErr goerr | HOk 'a | HCreated 'a

type_synonym notices = "(uuid \<times> string) list"

definition answer :: "(sentinel \<Rightarrow> string) \<Rightarrow> 'a http \<Rightarrow> response" where
  "answer drv h = (case h of HErr e \<Rightarrow> api_error drv (Some e) | HOk _ \<Rightarrow> api_ok | HCreated _ \<Rightarrow> api_created)"

text \<open>\<open>if err != nil { apiresponse.Error(w, err); return }\<close>, after the given notices.\<close>

definition or_error :: "notices \<Rightarrow> ('d, 'a) act \<Rightarrow> ('a \<Rightarrow> ('d, 'b http \<times> notices) act) \<Rightarrow> ('d, 'b http \<times> notices) act" where
  "or_error evs m k = bind (attempt m) (\<lambda>r. case r of Inl e \<Rightarrow> ret (HErr e, evs) | Inr a \<Rightarrow> k a)"

definition with_user :: "uuid option \<Rightarrow> (uuid \<Rightarrow> ('d, 'b http \<times> notices) act) \<Rightarrow> ('d, 'b http \<times> notices) act" where
  "with_user u k = (case u of None \<Rightarrow> ret (HErr (Sent ErrUnauthorized), []) | Some userID \<Rightarrow> k userID)"

definition with_body :: "string + 'r \<Rightarrow> ('r \<Rightarrow> ('d, 'b http \<times> notices) act) \<Rightarrow> ('d, 'b http \<times> notices) act" where
  "with_body body k = (case body of
       Inl msg \<Rightarrow> ret (HErr (Validation (''invalid request body: '' @ msg)), [])
     | Inr req \<Rightarrow> k req)"

text \<open>The two endings: 200 or 201 with the value, and the notices when a publisher is attached.\<close>

definition reply_ok :: "notices \<Rightarrow> 'a \<Rightarrow> ('d, 'a http \<times> notices) act" where
  "reply_ok evs a = ret (HOk a, evs)"

definition reply_created :: "notices \<Rightarrow> 'a \<Rightarrow> ('d, 'a http \<times> notices) act" where
  "reply_created evs a = ret (HCreated a, evs)"

definition notify :: "bool \<Rightarrow> uuid \<Rightarrow> string \<Rightarrow> notices" where
  "notify on userID kind = (if on then [(userID, kind)] else [])"

lemma wp_or_error [wp_simps]:
  "wp (or_error evs m k) Q E w = wp m (\<lambda>a. wp (k a) Q E) (\<lambda>e. Q (HErr e, evs)) w"
  by (simp add: or_error_def wp_simps)

lemma wp_with_user [wp_simps]:
  "wp (with_user u k) Q E w = (case u of None \<Rightarrow> Q (HErr (Sent ErrUnauthorized), []) w | Some v \<Rightarrow> wp (k v) Q E w)"
  by (simp add: with_user_def wp_simps split: option.split)

lemma wp_with_body [wp_simps]:
  "wp (with_body b k) Q E w = (case b of Inl m \<Rightarrow> Q (HErr (Validation (''invalid request body: '' @ m)), []) w | Inr r \<Rightarrow> wp (k r) Q E w)"
  by (simp add: with_body_def wp_simps split: sum.split)

lemma wp_replies [wp_simps]:
  "wp (reply_ok evs a) Q E w = Q (HOk a, evs) w" "wp (reply_created evs a) Q E w = Q (HCreated a, evs) w"
  by (simp_all add: reply_ok_def reply_created_def wp_simps)

lemma wp_replies_fun [wp_simps]:
  "wp (reply_ok evs a) Q E = Q (HOk a, evs)" "wp (reply_created evs a) Q E = Q (HCreated a, evs)"
  by (simp_all add: fun_eq_iff wp_replies)

lemma api_error_status:
  "fst (api_error drv (Some e)) \<in> {400, 401, 403, 404, 409, 500, 501}"
  by (cases "root e"; auto simp: api_error_def error_scan_map_of mapped_def internal_response_def split: option.splits if_splits)

lemma answer_status: "fst (answer drv h) \<in> {200, 201, 400, 401, 403, 404, 409, 500, 501}"
  using api_error_status by (cases h) (auto simp: answer_def api_ok_def api_created_def)

end
