(* ===== verification/Accounts.thy ===== *)
theory Accounts
  imports Bank Http "HOL-Library.Word"
begin

text \<open>
  Linking bank accounts: the account half of \<open>internal/handler/aa_handler.go\<close>, the generator of
  candidate accounts \<open>internal/discoverypool/pool.go\<close> and the demo data seeded on the first link
  (\<open>internal/repository/user_repo.go\<close>). The bank's mirrored accounts are the interface value
  \<open>ae_idbi\<close> the handler holds (\<open>None\<close> when that feature is off), and \<open>uuid.NewSHA1\<close> in a name
  space is the parameter \<open>ae_sha1\<close>.
\<close>

text \<open>\<open>ae_revoke\<close> is what ending the mirror of a user reports.\<close>

unbundle bit_operations_syntax

section \<open>Candidates\<close>

definition BankPool :: "string list" where
  "BankPool = [''Axis Bank'', ''ICICI Bank'', ''HDFC Bank'', ''Kotak Mahindra Bank'', ''State Bank of India'',
     ''Punjab National Bank'', ''Bank of Baroda'', ''Canara Bank'', ''Union Bank of India'', ''Bank of India'',
     ''Indian Bank'', ''Indian Overseas Bank'', ''UCO Bank'', ''Bank of Maharashtra'', ''Punjab & Sind Bank'',
     ''IndusInd Bank'', ''Yes Bank'']"

definition AccountsPerBank :: nat where "AccountsPerBank = 2"
definition SeedAccountCount :: nat where "SeedAccountCount = 2"

definition SlotAccountTypes :: "string list" where
  "SlotAccountTypes = [''SAVINGS'', ''SALARY'', ''CURRENT'', ''NRE'', ''NRO'']"

definition AcctNamespace :: uuid where "AcctNamespace = ''7d3b6e2a-9c41-4b8f-8e2d-5a1f9c6b0d47''"
definition idbiAcctNamespace :: uuid where "idbiAcctNamespace = ''1b671a64-40d5-491e-99b0-da01ff1f3341''"

text \<open>\<open>fnv.New64a\<close>: for each byte, xor and then multiply by the prime, modulo \<open>2^64\<close>.\<close>

definition fnv_step :: "64 word \<Rightarrow> char \<Rightarrow> 64 word" where
  "fnv_step h c = (h XOR of_nat (code_of c)) * 1099511628211"

definition fnv64a :: "string \<Rightarrow> 64 word" where
  "fnv64a s = foldl fnv_step 14695981039346656037 s"

record candidate =
  ca_id :: uuid
  ca_bank :: string
  ca_type :: string
  ca_number :: string
  ca_balance :: money

record idbi_account =
  ia_number :: string
  ia_type :: string
  ia_branch :: string
  ia_ledger :: money
  ia_available :: money
  ia_synced :: int

record accounts_env =
  ae_sha1 :: "uuid \<Rightarrow> string \<Rightarrow> uuid"
  ae_idbi :: "(uuid \<Rightarrow> goerr + idbi_account list) option"
  ae_revoke :: "uuid \<Rightarrow> goerr option"
  ae_seeder :: bool
  ae_events :: bool

definition Generate :: "accounts_env \<Rightarrow> uuid \<Rightarrow> string \<Rightarrow> nat \<Rightarrow> candidate" where
  "Generate env userID bankName slot =
     (let seed = userID @ ''|'' @ bankName @ ''|'' @ itoa_nat slot;
          s = unat (fnv64a seed)
      in \<lparr>ca_id = ae_sha1 env AcctNamespace seed, ca_bank = bankName,
          ca_type = SlotAccountTypes ! ((slot - 1) mod length SlotAccountTypes),
          ca_number = pad_zero 11 (itoa_nat (s mod 100000000000)), ca_balance = of_nat (80000 + s mod 220000)\<rparr>)"

section \<open>What is linked\<close>

definition number_text :: "string option \<Rightarrow> string" where
  "number_text s = (case s of None \<Rightarrow> [] | Some x \<Rightarrow> x)"

definition link_key :: "string \<Rightarrow> string \<Rightarrow> string" where
  "link_key bankName number = bankName @ ''|'' @ number"

definition cand_key :: "candidate \<Rightarrow> string" where
  "cand_key c = link_key (ca_bank c) (ca_number c)"

definition linked_keys :: "uuid \<Rightarrow> bank_db \<Rightarrow> string list" where
  "linked_keys userID d = map (\<lambda>a. link_key (ba_name a) (number_text (ba_number a))) (linked userID d)"

definition linkedBankSet :: "uuid \<Rightarrow> (bank_db, string list) act" where
  "linkedBankSet userID = query (\<lambda>_. linked_keys userID)"

definition linkedBankNameSet :: "uuid \<Rightarrow> (bank_db, string \<Rightarrow> nat) act" where
  "linkedBankNameSet userID = query (\<lambda>_ d bankName. count_where (\<lambda>a. ba_name a = bankName) (linked userID d))"

section \<open>Views\<close>

record BankAccountResponse =
  br_id :: uuid
  br_name :: string
  br_type :: string
  br_balance :: money
  br_created :: int
  br_linked :: bool
  br_number :: string

definition of_candidate :: "int \<Rightarrow> candidate \<Rightarrow> BankAccountResponse" where
  "of_candidate now c = \<lparr>br_id = ca_id c, br_name = ca_bank c, br_type = ca_type c, br_balance = ca_balance c,
     br_created = now, br_linked = False, br_number = ca_number c\<rparr>"

definition of_row :: "bank_account \<Rightarrow> BankAccountResponse" where
  "of_row a = \<lparr>br_id = ba_id a, br_name = ba_name a, br_type = ba_type a, br_balance = ba_balance a,
     br_created = ba_created a, br_linked = True, br_number = number_text (ba_number a)\<rparr>"

definition of_idbi :: "accounts_env \<Rightarrow> idbi_account \<Rightarrow> BankAccountResponse" where
  "of_idbi env a = \<lparr>br_id = ae_sha1 env idbiAcctNamespace (ia_number a),
     br_name = (if ia_branch a \<noteq> [] then ''IDBI Bank '' @ em_dash @ '' '' @ ia_branch a else ''IDBI Bank''),
     br_type = ia_type a, br_balance = (if ia_ledger a = 0 then ia_available a else ia_ledger a),
     br_created = ia_synced a, br_linked = True, br_number = ia_number a\<rparr>"

text \<open>The mirrored accounts, whose error is dropped, before the linked ones.\<close>

definition connectedAccounts :: "accounts_env \<Rightarrow> uuid \<Rightarrow> (bank_db, BankAccountResponse list) act" where
  "connectedAccounts env userID =
     (let idbi = (case ae_idbi env of None \<Rightarrow> []
            | Some l \<Rightarrow> (case l userID of Inl _ \<Rightarrow> [] | Inr accs \<Rightarrow> map (of_idbi env) accs))
      in bind (query (\<lambda>_ d. map of_row (linked userID d))) (\<lambda>accs. ret (idbi @ accs)))"

definition GetAccounts :: "accounts_env \<Rightarrow> uuid option \<Rightarrow> (bank_db, BankAccountResponse list http \<times> notices) act" where
  "GetAccounts env u = with_user u (\<lambda>userID. or_error [] (connectedAccounts env userID) (reply_ok []))"

section \<open>Discovery\<close>

definition slots :: "nat list" where
  "slots = [1..<Suc AccountsPerBank]"

definition candidates :: "accounts_env \<Rightarrow> uuid \<Rightarrow> string list \<Rightarrow> candidate list" where
  "candidates env userID banks = concat (map (\<lambda>b. map (Generate env userID b) slots) banks)"

definition requested_banks :: "string \<Rightarrow> string list" where
  "requested_banks banksParam =
     (if banksParam = [] then BankPool
      else (let req = filter (\<lambda>s. s \<noteq> []) (map trim_space (split_on (CHR '','') banksParam))
            in filter (\<lambda>b. b \<in> set req) BankPool))"

definition DiscoverAccounts :: "accounts_env \<Rightarrow> uuid option \<Rightarrow> string \<Rightarrow> (bank_db, BankAccountResponse list http \<times> notices) act" where
  "DiscoverAccounts env u banksParam = with_user u (\<lambda>userID.
     or_error [] (query (\<lambda>_. linked_keys userID)) (\<lambda>keys.
     bind time_now (\<lambda>now.
     reply_ok [] (map (of_candidate now)
       (filter (\<lambda>c. cand_key c \<notin> set keys) (candidates env userID (requested_banks banksParam)))))))"

definition initialBanks :: "string list" where
  "initialBanks = take (min SeedAccountCount (length BankPool)) BankPool"

definition DetectedAccounts :: "accounts_env \<Rightarrow> uuid option \<Rightarrow> (bank_db, BankAccountResponse list http \<times> notices) act" where
  "DetectedAccounts env u = with_user u (\<lambda>userID.
     or_error [] (linkedBankSet userID) (\<lambda>keys.
     bind time_now (\<lambda>now.
     reply_ok [] (map (of_candidate now)
       (filter (\<lambda>c. cand_key c \<notin> set keys) (map (\<lambda>b. Generate env userID b 1) initialBanks))))))"

definition AvailableBanks :: "uuid option \<Rightarrow> (bank_db, string list http \<times> notices) act" where
  "AvailableBanks u = with_user u (\<lambda>userID.
     or_error [] (linkedBankNameSet userID) (\<lambda>n.
     reply_ok [] (filter (\<lambda>b. \<not> n b \<ge> AccountsPerBank \<and> b \<notin> set initialBanks) BankPool)))"


section \<open>Linking\<close>

definition insert_account :: "uuid \<Rightarrow> string \<Rightarrow> string \<Rightarrow> money \<Rightarrow> string \<Rightarrow> (bank_db, bank_account) act" where
  "insert_account userID bankName accType balance number = exec_id (\<lambda>i t d.
     if i \<notin> ba_id ` set (accounts d) \<and> varchar 100 bankName \<and> varchar 50 accType \<and> numeric_fits 15 (round2 balance) then
       (let a = \<lparr>ba_id = i, ba_user = userID, ba_name = bankName, ba_type = accType, ba_balance = round2 balance,
              ba_created = t, ba_unlinked = None, ba_number = nullIfEmpty number\<rparr>
        in Inr (a, d\<lparr>accounts := accounts d @ [a]\<rparr>))
     else Inl (Sent ErrConstraint))"

text \<open>
  The demo deposit and mandates of a first link: each insert does nothing on a conflict, and
  the error of the first is dropped.
\<close>

definition id_suffix :: "uuid \<Rightarrow> string" where
  "id_suffix userID = take 12 (filter (\<lambda>c. c \<noteq> CHR ''-'') userID)"

definition seed_deposit :: "uuid \<Rightarrow> uuid \<Rightarrow> int \<Rightarrow> deposit_row" where
  "seed_deposit userID acc today = \<lparr>fd_number = ''FD-'' @ id_suffix userID, fd_user = userID, fd_account = acc,
     fd_principal = 50000, fd_rate = 71/10, fd_tenure = 12, fd_payout = ''ON_MATURITY'', fd_auto = True,
     fd_nominee = Some ''Self'', fd_booking = today - 60, fd_maturity = today + 305, fd_amount = 53645,
     fd_status = ''ACTIVE''\<rparr>"

definition seed_mandate :: "uuid \<Rightarrow> uuid \<Rightarrow> int \<Rightarrow> string \<Rightarrow> string \<Rightarrow> string \<Rightarrow> money \<Rightarrow> int \<Rightarrow> int \<Rightarrow> mandate_row" where
  "seed_mandate userID acc t suffix payee vpa amount startAgo nextIn = \<lparr>md_id = ''MND-'' @ id_suffix userID @ suffix,
     md_user = userID, md_account = acc, md_type = ''UPI_AUTOPAY'', md_upi = Some ''user@okhdfc'', md_payee = Some payee,
     md_vpa = Some vpa, md_category = ''SIP'', md_max = amount, md_frequency = ''MONTHLY'', md_start = day_of t - startAgo,
     md_end = None, md_next = day_of t + nextIn, md_status = ''ACTIVE'', md_approved = None, md_created = t\<rparr>"

definition add_deposit_row :: "deposit_row \<Rightarrow> bank_db \<Rightarrow> bank_db" where
  "add_deposit_row f d = (if fd_number f \<in> fd_number ` set (deposits d) then d else d\<lparr>deposits := deposits d @ [f]\<rparr>)"

definition add_mandate_row :: "mandate_row \<Rightarrow> bank_db \<Rightarrow> bank_db" where
  "add_mandate_row m d = (if md_id m \<in> md_id ` set (mandates d) then d else d\<lparr>mandates := mandates d @ [m]\<rparr>)"

definition SeedBankDependentData :: "uuid \<Rightarrow> uuid \<Rightarrow> (bank_db, unit) act" where
  "SeedBankDependentData userID acc =
     bind (attempt (exec_upd (\<lambda>t. add_deposit_row (seed_deposit userID acc (day_of t))))) (\<lambda>_.
     exec_upd (\<lambda>t d. add_mandate_row (seed_mandate userID acc t ''-2'' ''SBI Bluechip SIP'' ''sbi@upi'' 3000 120 15)
       (add_mandate_row (seed_mandate userID acc t ''-1'' ''Parag Parikh Flexi Cap SIP'' ''ppfas@upi'' 5000 240 10) d)))"

text \<open>Whether the user has no deposit yet; a failed count is a no.\<close>

definition needs_seeding :: "accounts_env \<Rightarrow> uuid \<Rightarrow> (bank_db, bool) act" where
  "needs_seeding env userID =
     (if ae_seeder env then
        bind (attempt (query (\<lambda>_ d. count_where (\<lambda>f. fd_user f = userID) (deposits d)))) (\<lambda>r.
        ret (case r of Inl _ \<Rightarrow> False | Inr n \<Rightarrow> n = 0))
      else ret False)"

definition seed_quietly :: "accounts_env \<Rightarrow> bool \<Rightarrow> uuid \<Rightarrow> uuid \<Rightarrow> (bank_db, unit) act" where
  "seed_quietly env needsSeeding userID acc =
     (if ae_seeder env \<and> needsSeeding then bind (attempt (SeedBankDependentData userID acc)) (\<lambda>_. ret ()) else ret ())"

definition TypeBankAccountChanged :: string where "TypeBankAccountChanged = ''bank_account_changed''"

record AddBankAccountRequest =
  ad_name :: string
  ad_type :: string
  ad_balance :: money
  ad_number :: string

definition AddAccount :: "accounts_env \<Rightarrow> uuid option \<Rightarrow> string + AddBankAccountRequest \<Rightarrow>
    (bank_db, BankAccountResponse http \<times> notices) act" where
  "AddAccount env u body = with_user u (\<lambda>userID. with_body body (\<lambda>req.
     let bankName = (if ad_name req = [] then ''Bank Account'' else ad_name req);
         accType = (if ad_type req = [] then ''SAVINGS'' else ad_type req);
         balance = (if ad_balance req \<le> 0 then 25000 else ad_balance req)
     in bind (needs_seeding env userID) (\<lambda>needsSeeding.
        or_error [] (insert_account userID bankName accType balance (ad_number req)) (\<lambda>a.
        bind (seed_quietly env needsSeeding userID (ba_id a)) (\<lambda>_.
        reply_created (notify (ae_events env) userID TypeBankAccountChanged) ((of_row a)\<lparr>br_linked := False\<rparr>))))))"

text \<open>The candidates to link: those asked for by id, then the next free slot of each bank asked for.\<close>

fun pick_wanted :: "string list \<Rightarrow> string list \<Rightarrow> candidate list \<Rightarrow> candidate list \<times> string list" where
  "pick_wanted wanted keys [] = ([], keys)"
| "pick_wanted wanted keys (c # cs) =
     (if ca_id c \<notin> set wanted \<or> cand_key c \<in> set keys then pick_wanted wanted keys cs
      else (case pick_wanted wanted (cand_key c # keys) cs of (ins, ks) \<Rightarrow> (c # ins, ks)))"

fun first_free :: "string list \<Rightarrow> candidate list \<Rightarrow> candidate option" where
  "first_free keys [] = None"
| "first_free keys (c # cs) = (if cand_key c \<in> set keys then first_free keys cs else Some c)"

fun pick_banks :: "accounts_env \<Rightarrow> uuid \<Rightarrow> string list \<Rightarrow> string list \<Rightarrow> candidate list" where
  "pick_banks env userID keys [] = []"
| "pick_banks env userID keys (b # bs) = (case first_free keys (map (Generate env userID b) slots) of
       None \<Rightarrow> pick_banks env userID keys bs
     | Some c \<Rightarrow> c # pick_banks env userID (cand_key c # keys) bs)"

definition to_insert :: "accounts_env \<Rightarrow> uuid \<Rightarrow> string list \<Rightarrow> string list \<Rightarrow> string list \<Rightarrow> candidate list" where
  "to_insert env userID keys selected banksToAdd =
     (case pick_wanted selected keys (candidates env userID BankPool) of
        (ins, ks) \<Rightarrow> ins @ pick_banks env userID ks banksToAdd)"

fun insert_candidates :: "uuid \<Rightarrow> candidate list \<Rightarrow> (bank_db, bank_account list) act" where
  "insert_candidates userID [] = ret []"
| "insert_candidates userID (c # cs) =
     bind (insert_account userID (ca_bank c) (ca_type c) (ca_balance c) (ca_number c)) (\<lambda>a.
     bind (insert_candidates userID cs) (\<lambda>as. ret (a # as)))"

text \<open>
  The rows are inserted one by one outside a transaction: an error returns at once and leaves
  those already inserted.
\<close>

definition ConnectAccounts :: "accounts_env \<Rightarrow> uuid option \<Rightarrow> string + (string list \<times> string list) \<Rightarrow>
    (bank_db, (BankAccountResponse list \<times> BankAccountResponse list) http \<times> notices) act" where
  "ConnectAccounts env u body = with_user u (\<lambda>userID. with_body body (\<lambda>(selected, banksToAdd).
     if selected = [] \<and> banksToAdd = [] then
       ret (HErr (Validation ''select at least one bank account or bank to continue''), [])
     else
     or_error [] (linkedBankSet userID) (\<lambda>keys.
     or_error [] (linkedBankNameSet userID) (\<lambda>_.
     let ins = to_insert env userID keys selected banksToAdd in
     if ins = [] then or_error [] (connectedAccounts env userID) (\<lambda>accs. reply_ok [] ([], accs))
     else
     bind (needs_seeding env userID) (\<lambda>needsSeeding.
     or_error [] (insert_candidates userID ins) (\<lambda>added.
     bind (seed_quietly env needsSeeding userID (ba_id (hd added))) (\<lambda>_.
     or_error (notify (ae_events env) userID TypeBankAccountChanged) (connectedAccounts env userID) (\<lambda>accs.
     reply_ok (notify (ae_events env) userID TypeBankAccountChanged) (map of_row added, accs)))))))))"

section \<open>Unlinking\<close>

text \<open>The soft delete and the number of rows it touched.\<close>

definition unlink :: "uuid \<Rightarrow> uuid \<Rightarrow> (bank_db, nat) act" where
  "unlink userID acc = exec (\<lambda>t d.
     let hit = (\<lambda>a. owned userID acc a \<and> ba_unlinked a = None)
     in Inr (count_where hit (accounts d), d\<lparr>accounts := update_where hit (\<lambda>a. a\<lparr>ba_unlinked := Some t\<rparr>) (accounts d)\<rparr>))"

definition UnlinkAccount :: "accounts_env \<Rightarrow> (string \<Rightarrow> string + uuid) \<Rightarrow> uuid option \<Rightarrow> string \<Rightarrow>
    (bank_db, string http \<times> notices) act" where
  "UnlinkAccount env parse u accountIDStr = with_user u (\<lambda>userID. case parse accountIDStr of
       Inl msg \<Rightarrow> ret (HErr (Validation (''invalid account ID: '' @ msg)), [])
     | Inr accountID \<Rightarrow>
         or_error [] (unlink userID accountID) (\<lambda>n.
         if n = 0 then
           (case ae_idbi env of
              Some l \<Rightarrow> (case l userID of
                  Inr accs \<Rightarrow>
                    if list_ex (\<lambda>a. ae_sha1 env idbiAcctNamespace (ia_number a) = accountID) accs then
                      (case ae_revoke env userID of
                         Some e \<Rightarrow> ret (HErr e, [])
                       | None \<Rightarrow> reply_ok (notify (ae_events env) userID TypeBankAccountChanged) ''IDBI bank connection revoked successfully'')
                    else ret (HErr (NotFound ''bank account not found''), [])
                | Inl _ \<Rightarrow> ret (HErr (NotFound ''bank account not found''), []))
            | None \<Rightarrow> ret (HErr (NotFound ''bank account not found''), []))
         else reply_ok (notify (ae_events env) userID TypeBankAccountChanged) ''account unlinked successfully''))"

end
