(* ===== verification/BankHttp.thy ===== *)
theory BankHttp
  imports Recurring Deposits Accounts
begin

text \<open>
  The handlers of payments, mandates and deposits: \<open>internal/handler/payments_handler.go\<close> and
  \<open>internal/handler/fd_handler.go\<close> over the services, which only pass calls on. \<open>on\<close> says
  whether a live-update publisher is attached; a query parameter that is not a number reads 0.
\<close>

definition TypeTransaction :: string where "TypeTransaction = ''transaction''"
definition TypeSubscriptionChanged :: string where "TypeSubscriptionChanged = ''subscription_changed''"

type_synonym 'a handler = "(bank_db, 'a http \<times> notices) act"

section \<open>Payments and mandates\<close>

definition initiatePayment :: "bool \<Rightarrow> (string \<Rightarrow> uuid option) \<Rightarrow> uuid option \<Rightarrow> string + PaymentRequest \<Rightarrow> Payment handler" where
  "initiatePayment on parse u body = with_user u (\<lambda>userID. with_body body (\<lambda>req.
     or_error [] (InitiatePayment parse userID req) (reply_created (notify on userID TypeTransaction))))"

definition getPayment :: "uuid option \<Rightarrow> string \<Rightarrow> Payment handler" where
  "getPayment u paymentID = with_user u (\<lambda>userID. or_error [] (GetPayment userID paymentID) (reply_ok []))"

definition createMandate :: "bool \<Rightarrow> (string \<Rightarrow> uuid option) \<Rightarrow> uuid option \<Rightarrow> string + MandateRequest \<Rightarrow> Mandate handler" where
  "createMandate on parse u body = with_user u (\<lambda>userID. with_body body (\<lambda>req.
     or_error [] (CreateMandate parse userID req) (reply_created (notify on userID TypeSubscriptionChanged))))"

definition listMandates :: "(string \<Rightarrow> nat \<Rightarrow> bool) \<Rightarrow> uuid option \<Rightarrow> string \<Rightarrow> Mandate list handler" where
  "listMandates ctxErr u statusFilter = with_user u (\<lambda>userID.
     or_error [] (ListMandates ctxErr userID statusFilter) (reply_ok []))"

definition mandateAction :: "bool \<Rightarrow> uuid option \<Rightarrow> string \<Rightarrow> string + string \<Rightarrow> MandateActionResult handler" where
  "mandateAction on u mandateID body = with_user u (\<lambda>userID. with_body body (\<lambda>action.
     or_error [] (MandateAction userID mandateID action) (reply_ok (notify on userID TypeSubscriptionChanged))))"

fun atoi_digits :: "string \<Rightarrow> int \<Rightarrow> int option" where
  "atoi_digits [] n = Some n"
| "atoi_digits (c # cs) n = (if is_digit c then atoi_digits cs (10 * n + int (code_of c - 48)) else None)"

text \<open>The value of \<open>strconv.Atoi\<close> when its error is dropped: 0, or the nearest int64 when out of range.\<close>

definition atoi_or0 :: "string \<Rightarrow> int" where
  "atoi_or0 s = (case s of [] \<Rightarrow> 0
     | c # cs \<Rightarrow>
       (let v = (if c = CHR ''-'' \<and> cs \<noteq> [] then map_option uminus (atoi_digits cs 0)
                 else if c = CHR ''+'' \<and> cs \<noteq> [] then atoi_digits cs 0
                 else atoi_digits s 0)
        in case v of None \<Rightarrow> 0 | Some n \<Rightarrow> max (- (2 ^ 63)) (min (2 ^ 63 - 1) n)))"

definition mandateHistory :: "(string \<Rightarrow> nat \<Rightarrow> bool) \<Rightarrow> uuid option \<Rightarrow> string \<Rightarrow> string \<Rightarrow> string \<Rightarrow> ExecutionPage handler" where
  "mandateHistory ctxErr u mandateID limitText offsetText = with_user u (\<lambda>userID.
     or_error [] (MandateHistory ctxErr userID mandateID (atoi_or0 limitText) (atoi_or0 offsetText)) (reply_ok []))"

definition recurringSummary :: "(string \<Rightarrow> nat \<Rightarrow> bool) \<Rightarrow> uuid option \<Rightarrow> RecurringSummary handler" where
  "recurringSummary ctxErr u = with_user u (\<lambda>userID. or_error [] (RecurringSummary_of ctxErr userID) (reply_ok []))"

section \<open>Deposits\<close>

definition openFD :: "(string \<Rightarrow> uuid option) \<Rightarrow> uuid option \<Rightarrow> string + OpenRequest \<Rightarrow> Account handler" where
  "openFD parse u body = with_user u (\<lambda>userID. with_body body (\<lambda>req.
     or_error [] (OpenFD parse userID req) (reply_created [])))"

definition listFDs :: "uuid option \<Rightarrow> Account list handler" where
  "listFDs u = with_user u (\<lambda>userID. or_error [] (ListFDs userID) (reply_ok []))"

definition getFD :: "uuid option \<Rightarrow> string \<Rightarrow> Account handler" where
  "getFD u number = with_user u (\<lambda>userID. or_error [] (GetFD userID number) (reply_ok []))"

text \<open>The body is decoded only when the request has one (\<open>None\<close>: an empty request, a full closure).\<close>

definition withdrawFD :: "uuid option \<Rightarrow> string \<Rightarrow> (string + money option) option \<Rightarrow> WithdrawResult handler" where
  "withdrawFD u number body = with_user u (\<lambda>userID.
     with_body (case body of None \<Rightarrow> Inr None | Some b \<Rightarrow> b) (\<lambda>asked.
     or_error [] (Withdraw userID number asked) (reply_ok [])))"

end
