(* ===== verification/Ledger.thy ===== *)
theory Ledger
  imports BankHttp "HOL-Library.Sublist"
begin

text \<open>
  What every operation on a user's money keeps. \<open>worth\<close> is an account's balance with
  everything that left it: payments made, debits executed, deposits still open. \<open>grows\<close> is how
  the tables may change: rows of the past stay, a mandate that ended stays as it is, and no
  account known before gains worth.
\<close>

section \<open>The worth of an account\<close>

definition balance_of :: "uuid \<Rightarrow> bank_db \<Rightarrow> money" where
  "balance_of acc d = sum_list (map ba_balance (filter (\<lambda>a. ba_id a = acc) (accounts d)))"

definition paid_from :: "uuid \<Rightarrow> bank_db \<Rightarrow> money" where
  "paid_from acc d = sum_list (map py_amount (filter (\<lambda>p. py_account p = acc) (payments d)))"

definition draws_on :: "uuid \<Rightarrow> bank_db \<Rightarrow> execution_row \<Rightarrow> bool" where
  "draws_on acc d e \<longleftrightarrow> ex_status e = ''SUCCESS'' \<and> list_ex (\<lambda>m. md_id m = ex_mandate e \<and> md_account m = acc) (mandates d)"

definition drawn_from :: "uuid \<Rightarrow> bank_db \<Rightarrow> money" where
  "drawn_from acc d = sum_list (map ex_amount (filter (draws_on acc d) (executions d)))"

definition open_deposit :: "uuid \<Rightarrow> deposit_row \<Rightarrow> bool" where
  "open_deposit acc f \<longleftrightarrow> fd_account f = acc \<and> fd_status f = ''ACTIVE''"

definition deposited :: "uuid \<Rightarrow> bank_db \<Rightarrow> money" where
  "deposited acc d = sum_list (map fd_principal (filter (open_deposit acc) (deposits d)))"

definition worth :: "uuid \<Rightarrow> bank_db \<Rightarrow> money" where
  "worth acc d = balance_of acc d + paid_from acc d + drawn_from acc d + deposited acc d"

section \<open>How the tables change\<close>

definition acc_key :: "bank_account \<Rightarrow> uuid \<times> uuid" where
  "acc_key a = (ba_id a, ba_user a)"

definition md_key :: "mandate_row \<Rightarrow> string \<times> uuid \<times> uuid \<times> money" where
  "md_key m = (md_id m, md_user m, md_account m, md_max m)"

definition ended :: "mandate_row \<Rightarrow> bool" where
  "ended m \<longleftrightarrow> md_status m = ''REVOKED'' \<or> md_status m = ''EXPIRED''"

definition rests :: "bank_db \<Rightarrow> bank_db \<Rightarrow> mandate_row \<Rightarrow> bool" where
  "rests d d' m \<longleftrightarrow> m \<in> set (mandates d') \<and>
     filter (\<lambda>e. ex_mandate e = md_id m) (executions d') = filter (\<lambda>e. ex_mandate e = md_id m) (executions d)"

definition extends :: "bank_db \<Rightarrow> bank_db \<Rightarrow> bool" where
  "extends d d' \<longleftrightarrow> prefix (map acc_key (accounts d)) (map acc_key (accounts d')) \<and>
     prefix (payments d) (payments d') \<and> prefix (executions d) (executions d') \<and>
     prefix (map md_key (mandates d)) (map md_key (mandates d')) \<and>
     (\<forall>m \<in> set (mandates d). ended m \<longrightarrow> rests d d' m)"

text \<open>\<open>X\<close>: accounts the operation itself links; \<open>exact\<close>: no early withdrawal, so nothing is lost either.\<close>

definition grows :: "bool \<Rightarrow> uuid set \<Rightarrow> bank_db \<Rightarrow> bank_db \<Rightarrow> bool" where
  "grows exact X d d' \<longleftrightarrow> extends d d' \<and>
     (\<forall>acc \<in> ba_id ` set (accounts d) - X. worth acc d' \<le> worth acc d \<and> (exact \<longrightarrow> worth acc d' = worth acc d))"

lemma acc_ids_prefix:
  assumes "prefix (map acc_key xs) (map acc_key ys)"
  shows "ba_id ` set xs \<subseteq> ba_id ` set ys"
proof -
  obtain zs where "map acc_key ys = map acc_key xs @ zs" using assms by (auto simp: prefix_def)
  then have "map fst (map acc_key ys) = map fst (map acc_key xs) @ map fst zs" by (metis map_append)
  then have "map ba_id ys = map ba_id xs @ map fst zs" by (simp add: acc_key_def comp_def)
  then show ?thesis by (metis Un_upper1 list.set_map set_append)
qed

lemma extends_refl: "extends d d"
  by (simp add: extends_def rests_def)

lemma extends_trans: "extends d d1 \<Longrightarrow> extends d1 d2 \<Longrightarrow> extends d d2"
  unfolding extends_def rests_def by (auto intro: prefix_order.trans)

lemma extends_ids: "extends d d' \<Longrightarrow> ba_id ` set (accounts d) \<subseteq> ba_id ` set (accounts d')"
  unfolding extends_def by (blast dest: acc_ids_prefix)

lemma grows_refl: "grows ex X d d"
  by (simp add: grows_def extends_refl)

lemma grows_trans:
  assumes "grows ex X d d1" "grows ex Y d1 d2"
  shows "grows ex (X \<union> Y) d d2"
proof -
  have e: "extends d d1" "extends d1 d2" using assms by (simp_all add: grows_def)
  have "worth acc d2 \<le> worth acc d \<and> (ex \<longrightarrow> worth acc d2 = worth acc d)"
    if "acc \<in> ba_id ` set (accounts d) - (X \<union> Y)" for acc
  proof -
    have "acc \<in> ba_id ` set (accounts d1) - Y" using that extends_ids[OF e(1)] by blast
    then show ?thesis using assms that unfolding grows_def by (metis DiffE DiffI UnCI order_trans)
  qed
  then show ?thesis using extends_trans[OF e] by (simp add: grows_def)
qed

lemma grows_drop: "grows ex X d d' \<Longrightarrow> X \<inter> ba_id ` set (accounts d) = {} \<Longrightarrow> grows ex {} d d'"
  unfolding grows_def by blast

lemma grows_weaken: "grows ex {} d d' \<Longrightarrow> grows ex X d d'"
  unfolding grows_def by blast

section \<open>Worth after each change\<close>

lemma balance_of_moved:
  assumes "distinct (map ba_id (accounts d))" "live_account u acc d = Some a"
  shows "balance_of c (moved u acc f d) = (if c = acc then round2 (f (ba_balance a)) else balance_of c d)"
proof -
  have a: "a \<in> set (accounts d)" "ba_id a = acc" "ba_user a = u" using live_accountD[OF assms(2)] by auto
  have "filter (\<lambda>x. ba_id x = acc) (accounts (moved u acc f d)) = [a\<lparr>ba_balance := round2 (f (ba_balance a))\<rparr>]"
    by (rule filter_key_single) (use a assms(1) in \<open>auto simp: moved_def map_update_where in_update_where owned_def\<close>)
  moreover have "filter (\<lambda>x. ba_id x = c) (accounts (moved u acc f d)) = filter (\<lambda>x. ba_id x = c) (accounts d)" if "c \<noteq> acc"
    using that by (auto simp: moved_def owned_def intro!: filter_update_where_other)
  ultimately show ?thesis by (simp add: balance_of_def)
qed

lemma balance_of_live:
  assumes "distinct (map ba_id (accounts d))" "live_account u acc d = Some a"
  shows "balance_of acc d = ba_balance a"
  using live_accountD[OF assms(2)] filter_key_single[OF assms(1), of a acc] by (simp add: balance_of_def)

lemma worth_parts_moved [simp]:
  "paid_from c (moved u acc f d) = paid_from c d" "drawn_from c (moved u acc f d) = drawn_from c d"
  "deposited c (moved u acc f d) = deposited c d"
  by (simp_all add: paid_from_def drawn_from_def draws_on_def[abs_def] deposited_def)

lemma worth_moved:
  assumes "distinct (map ba_id (accounts d))" "live_account u acc d = Some a" "paise (ba_balance a)" "paise x"
  shows "worth c (moved u acc (\<lambda>b. b - x) d) = (if c = acc then worth c d - x else worth c d)"
    and "worth c (moved u acc (\<lambda>b. b + x) d) = (if c = acc then worth c d + x else worth c d)"
  using assms balance_of_moved[OF assms(1,2), of c] balance_of_live[OF assms(1,2)]
    paise_diff[OF assms(3,4)] paise_add[OF assms(3,4)]
  by (auto simp: worth_def paise_def)

lemma acc_key_moved [simp]: "map acc_key (accounts (moved u acc f d)) = map acc_key (accounts d)"
  by (simp add: moved_def map_update_where acc_key_def)


section \<open>The invariant after each change\<close>

lemma live_unique:
  assumes "distinct (map ba_id (accounts d))" "live_account u acc d = Some a" "x \<in> set (accounts d)" "owned u acc x"
  shows "x = a"
  using assms(3,4) live_accountD[OF assms(2)] map_key_unique[OF assms(1)] by (auto simp: owned_def)

lemma has_account_upd [simp]:
  "has_account u a (d\<lparr>payments := ps\<rparr>) = has_account u a d" "has_account u a (d\<lparr>mandates := ms\<rparr>) = has_account u a d"
  "has_account u a (d\<lparr>executions := es\<rparr>) = has_account u a d" "has_account u a (d\<lparr>deposits := fs\<rparr>) = has_account u a d"
  by (simp_all add: has_account_def)

lemma row_ok_upd [simp]:
  "payment_ok (d\<lparr>payments := ps\<rparr>) = payment_ok d" "payment_ok (d\<lparr>mandates := ms\<rparr>) = payment_ok d"
  "payment_ok (d\<lparr>executions := es\<rparr>) = payment_ok d" "payment_ok (d\<lparr>deposits := fs\<rparr>) = payment_ok d"
  "mandate_ok (d\<lparr>payments := ps\<rparr>) = mandate_ok d" "mandate_ok (d\<lparr>mandates := ms\<rparr>) = mandate_ok d"
  "mandate_ok (d\<lparr>executions := es\<rparr>) = mandate_ok d" "mandate_ok (d\<lparr>deposits := fs\<rparr>) = mandate_ok d"
  "execution_ok (d\<lparr>payments := ps\<rparr>) = execution_ok d" "execution_ok (d\<lparr>executions := es\<rparr>) = execution_ok d"
  "execution_ok (d\<lparr>deposits := fs\<rparr>) = execution_ok d" "execution_ok (d\<lparr>accounts := as\<rparr>) = execution_ok d"
  "deposit_ok (d\<lparr>payments := ps\<rparr>) = deposit_ok d" "deposit_ok (d\<lparr>mandates := ms\<rparr>) = deposit_ok d"
  "deposit_ok (d\<lparr>executions := es\<rparr>) = deposit_ok d" "deposit_ok (d\<lparr>deposits := fs\<rparr>) = deposit_ok d"
  "payment_ok (moved u acc f d) = payment_ok d" "mandate_ok (moved u acc f d) = mandate_ok d"
  "execution_ok (moved u acc f d) = execution_ok d" "deposit_ok (moved u acc f d) = deposit_ok d"
  by (simp_all add: fun_eq_iff payment_ok_def mandate_ok_def execution_ok_def deposit_ok_def)

lemma inv_moved:
  assumes "bank_inv d" "live_account u acc d = Some a" "0 \<le> f (ba_balance a)"
  shows "bank_inv (moved u acc f d)"
proof -
  have "list_all account_ok (accounts (moved u acc f d))"
    by (rule moved_ok) (use assms live_unique[OF bank_invD(1)[OF assms(1)] assms(2)] in \<open>auto simp: bank_inv_def\<close>)
  then show ?thesis using assms(1) unfolding bank_inv_def moved_sel row_ok_upd by simp
qed

lemma inv_payment:
  assumes "bank_inv d" "payment_ok d pay" "py_id pay \<notin> py_id ` set (payments d)" "py_txn pay \<notin> py_txn ` set (payments d)"
  shows "bank_inv (d\<lparr>payments := payments d @ [pay]\<rparr>)"
  using assms unfolding bank_inv_def row_ok_upd by simp

lemma execution_ok_iff: "execution_ok d e \<longleftrightarrow> (ex_mandate e, ex_user e) \<in> (\<lambda>(i, u, _). (i, u)) ` md_key ` set (mandates d)"
  by (force simp: execution_ok_def list_ex_iff md_key_def)

lemma execution_ok_mandates:
  "set (map md_key (mandates d)) \<subseteq> set (map md_key ms) \<Longrightarrow> execution_ok d e \<Longrightarrow> execution_ok (d\<lparr>mandates := ms\<rparr>) e"
proof -
  have "mandates (d\<lparr>mandates := ms\<rparr>) = ms" by simp
  then show "set (map md_key (mandates d)) \<subseteq> set (map md_key ms) \<Longrightarrow> execution_ok d e \<Longrightarrow> execution_ok (d\<lparr>mandates := ms\<rparr>) e"
    unfolding execution_ok_iff set_map by (metis subsetD[OF image_mono])
qed

lemma inv_mandate:
  assumes "bank_inv d" "mandate_ok d m" "md_id m \<notin> md_id ` set (mandates d)"
  shows "bank_inv (d\<lparr>mandates := mandates d @ [m]\<rparr>)"
proof -
  have "list_all (execution_ok (d\<lparr>mandates := mandates d @ [m]\<rparr>)) (executions d)"
    using assms(1) execution_ok_mandates[of d "mandates d @ [m]"] by (force simp: bank_inv_def list_all_iff)
  then show ?thesis using assms unfolding bank_inv_def row_ok_upd by simp
qed

lemma inv_execution:
  assumes "bank_inv d" "execution_ok d e"
  shows "bank_inv (d\<lparr>executions := executions d @ [e]\<rparr>)"
  using assms unfolding bank_inv_def row_ok_upd by simp

lemma map_key_update: "(\<And>m. md_key (f m) = md_key m) \<Longrightarrow> map md_key (update_where p f ms) = map md_key ms"
  by (rule map_update_where)

lemma md_keyD: "md_key m = md_key m' \<Longrightarrow> md_id m = md_id m' \<and> md_user m = md_user m' \<and> md_account m = md_account m' \<and> md_max m = md_max m'"
  by (simp add: md_key_def)

lemma inv_set_mandate:
  assumes "bank_inv d" "\<And>m. md_key (f m) = md_key m"
  shows "bank_inv (set_mandate i u f d)"
proof -
  let ?ms = "update_where (the_mandate i u) f (mandates d)"
  have k: "md_id (f m) = md_id m" "mandate_ok d (f m) = mandate_ok d m" for m
    using md_keyD[OF assms(2)[of m]] by (auto simp: mandate_ok_def)
  have "map md_id ?ms = map md_id (mandates d)" using k by (intro map_update_where)
  moreover have "list_all (mandate_ok d) ?ms"
    using assms(1) k by (auto simp: bank_inv_def list_all_iff in_update_where)
  moreover have "list_all (execution_ok (d\<lparr>mandates := ?ms\<rparr>)) (executions d)"
    using assms execution_ok_mandates[of d ?ms] map_key_update[of f "the_mandate i u" "mandates d"]
    by (auto simp: bank_inv_def list_all_iff simp del: set_map)
  ultimately show ?thesis
    using assms(1) unfolding bank_inv_def set_mandate_def row_ok_upd by simp
qed

lemma inv_deposit:
  assumes "bank_inv d" "deposit_ok d f" "fd_number f \<notin> fd_number ` set (deposits d)"
  shows "bank_inv (d\<lparr>deposits := deposits d @ [f]\<rparr>)"
  using assms unfolding bank_inv_def row_ok_upd by simp

lemma inv_set_deposit:
  assumes "bank_inv d" "\<And>x. x \<in> set (deposits d) \<Longrightarrow> the_deposit n u x \<Longrightarrow> deposit_ok d x \<Longrightarrow> deposit_ok d (f x)"
    and "\<And>x. fd_number (f x) = fd_number x"
  shows "bank_inv (set_deposit n u f d)"
proof -
  have "map fd_number (update_where (the_deposit n u) f (deposits d)) = map fd_number (deposits d)"
    using assms(3) by (intro map_update_where)
  moreover have "list_all (deposit_ok d) (update_where (the_deposit n u) f (deposits d))"
    using assms(1,2) by (auto simp: bank_inv_def list_all_iff in_update_where)
  ultimately show ?thesis using assms(1) unfolding bank_inv_def set_deposit_def row_ok_upd by simp
qed

lemma has_account_iff: "has_account u a d \<longleftrightarrow> (a, u) \<in> set (map acc_key (accounts d))"
  by (force simp: has_account_def list_ex_iff owned_def acc_key_def)

lemma has_account_keys:
  "set (map acc_key (accounts d)) \<subseteq> set (map acc_key as) \<Longrightarrow> has_account u a d \<Longrightarrow> has_account u a (d\<lparr>accounts := as\<rparr>)"
  unfolding has_account_iff by auto

lemma inv_accounts:
  assumes "bank_inv d" "set (map acc_key (accounts d)) \<subseteq> set (map acc_key as)" "distinct (map ba_id as)" "list_all account_ok as"
  shows "bank_inv (d\<lparr>accounts := as\<rparr>)"
  using assms has_account_keys[OF assms(2)] unfolding bank_inv_def
  by (auto simp: list_all_iff payment_ok_def mandate_ok_def deposit_ok_def)


section \<open>Worth after each row\<close>

lemma sum_filter: "sum_list (map v (filter p xs)) = sum_list (map (\<lambda>x. if p x then v x else (0::money)) xs)"
  by (induction xs) auto

lemma sum_update_one:
  fixes v :: "'a \<Rightarrow> money"
  assumes "distinct xs" "x \<in> set xs" "\<And>y. y \<in> set xs \<Longrightarrow> p y \<longleftrightarrow> y = x"
  shows "sum_list (map v (update_where p g xs)) = sum_list (map v xs) - v x + v (g x)"
  using assms
proof (induction xs)
  case Nil
  then show ?case by simp
next
  case (Cons y ys)
  show ?case
  proof (cases "y = x")
    case True
    then have "update_where p g ys = ys" using Cons.prems by (intro update_where_none) auto
    then show ?thesis using True Cons.prems by simp
  next
    case False
    then show ?thesis using Cons by simp
  qed
qed

lemma distinct_of_map: "distinct (map k xs) \<Longrightarrow> distinct xs"
  by (simp add: distinct_map)

lemma worth_payment:
  "worth c (d\<lparr>payments := payments d @ [p]\<rparr>) = worth c d + (if py_account p = c then py_amount p else 0)"
  by (simp add: worth_def balance_of_def paid_from_def drawn_from_def draws_on_def[abs_def] deposited_def)

lemma draws_on_executions [simp]: "draws_on c (d\<lparr>executions := es\<rparr>) = draws_on c d"
  by (simp add: draws_on_def fun_eq_iff)

lemma worth_execution:
  "worth c (d\<lparr>executions := executions d @ [e]\<rparr>) = worth c d + (if draws_on c d e then ex_amount e else 0)"
  by (simp add: worth_def balance_of_def paid_from_def drawn_from_def deposited_def)

lemma worth_new_deposit:
  "worth c (d\<lparr>deposits := deposits d @ [f]\<rparr>) = worth c d + (if open_deposit c f then fd_principal f else 0)"
  by (simp add: worth_def balance_of_def paid_from_def drawn_from_def draws_on_def[abs_def] deposited_def)

lemma worth_mandates:
  assumes "\<And>e. e \<in> set (executions d) \<Longrightarrow> draws_on c (d\<lparr>mandates := ms\<rparr>) e = draws_on c d e"
  shows "worth c (d\<lparr>mandates := ms\<rparr>) = worth c d"
  using assms by (simp add: worth_def balance_of_def paid_from_def drawn_from_def deposited_def cong: filter_cong)

lemma worth_new_mandate:
  assumes "bank_inv d" "md_id m \<notin> md_id ` set (mandates d)"
  shows "worth c (d\<lparr>mandates := mandates d @ [m]\<rparr>) = worth c d"
proof (rule worth_mandates)
  fix e assume "e \<in> set (executions d)"
  then have "execution_ok d e" by (rule bank_invD(10)[OF assms(1)])
  then have "ex_mandate e \<in> md_id ` set (mandates d)" by (force simp: execution_ok_def list_ex_iff)
  then have "ex_mandate e \<noteq> md_id m" using assms(2) by metis
  then show "draws_on c (d\<lparr>mandates := mandates d @ [m]\<rparr>) e = draws_on c d e" by (auto simp: draws_on_def)
qed

lemma draws_on_set_mandate:
  assumes "\<And>m. md_key (f m) = md_key m"
  shows "draws_on c (set_mandate i u f d) = draws_on c d"
  using md_keyD[OF assms] by (auto simp: draws_on_def fun_eq_iff set_mandate_def list_ex_update_where)

lemma worth_set_mandate:
  assumes "\<And>m. md_key (f m) = md_key m"
  shows "worth c (set_mandate i u f d) = worth c d"
  using worth_mandates[of d c] draws_on_set_mandate[OF assms, of c i u d] unfolding set_mandate_def by auto

lemma the_deposit_unique:
  assumes "distinct (map fd_number (deposits d))" "deposit_of n u d = Some f" "y \<in> set (deposits d)"
  shows "the_deposit n u y \<longleftrightarrow> y = f"
  using assms first_row_filterD[of "the_deposit n u" "deposits d" f] map_key_unique[OF assms(1)]
  by (auto simp: deposit_of_def the_deposit_def)

lemma worth_set_deposit:
  assumes "distinct (map fd_number (deposits d))" "deposit_of n u d = Some f"
  shows "worth c (set_deposit n u g d) = worth c d
     - (if open_deposit c f then fd_principal f else 0) + (if open_deposit c (g f) then fd_principal (g f) else 0)"
proof -
  have "f \<in> set (deposits d)" using assms(2) first_row_filterD unfolding deposit_of_def by fastforce
  with sum_update_one[OF distinct_of_map[OF assms(1)] this, of "the_deposit n u" "\<lambda>x. if open_deposit c x then fd_principal x else 0" g]
    the_deposit_unique[OF assms]
  show ?thesis
    by (simp add: worth_def deposited_def sum_filter set_deposit_def balance_of_def paid_from_def drawn_from_def draws_on_def[abs_def])
qed

lemma worth_accounts:
  assumes "balance_of c (d\<lparr>accounts := as\<rparr>) = balance_of c d"
  shows "worth c (d\<lparr>accounts := as\<rparr>) = worth c d"
  using assms by (simp add: worth_def paid_from_def drawn_from_def draws_on_def[abs_def] deposited_def)


section \<open>Growth after each row\<close>

lemma extends_moved: "extends d (moved u acc f d)"
  by (auto simp: extends_def rests_def)

lemma extends_rows:
  "extends d (d\<lparr>payments := payments d @ [p]\<rparr>)" "extends d (d\<lparr>deposits := fs\<rparr>)"
  "extends d (d\<lparr>mandates := mandates d @ [m]\<rparr>)"
  by (auto simp: extends_def rests_def)

lemma extends_accounts:
  "prefix (map acc_key (accounts d)) (map acc_key as) \<Longrightarrow> extends d (d\<lparr>accounts := as\<rparr>)"
  by (auto simp: extends_def rests_def)

lemma extends_execution:
  assumes "\<And>m. m \<in> set (mandates d) \<Longrightarrow> md_id m = ex_mandate e \<Longrightarrow> \<not> ended m"
  shows "extends d (d\<lparr>executions := executions d @ [e]\<rparr>)"
  using assms by (auto simp: extends_def rests_def)

lemma the_mandate_unique:
  assumes "distinct (map md_id (mandates d))" "mandate_of i u d = Some m" "y \<in> set (mandates d)"
  shows "md_id y = i \<longleftrightarrow> y = m"
  using assms first_row_filterD[of "the_mandate i u" "mandates d" m] map_key_unique[OF assms(1)]
  by (auto simp: mandate_of_def the_mandate_def)

lemma extends_set_mandate:
  assumes "distinct (map md_id (mandates d))" "mandate_of i u d = Some m" "\<not> ended m" "\<And>m. md_key (f m) = md_key m"
  shows "extends d (set_mandate i u f d)"
proof -
  have "rests d (set_mandate i u f d) y" if "y \<in> set (mandates d)" "ended y" for y
  proof -
    have "\<not> the_mandate i u y" using the_mandate_unique[OF assms(1,2) that(1)] that(2) assms(3) by (auto simp: the_mandate_def)
    then show ?thesis using that(1) by (force simp: rests_def set_mandate_def in_update_where)
  qed
  then show ?thesis using map_key_update[OF assms(4)] by (auto simp: extends_def set_mandate_def)
qed

section \<open>Each operation\<close>

text \<open>The state an operation leaves: consistent, and grown out of the one it found.\<close>

definition evolves :: "bool \<Rightarrow> bank_db \<Rightarrow> bank_db \<Rightarrow> bool" where
  "evolves exact d d' \<longleftrightarrow> bank_inv d' \<and> grows exact {} d d'"

lemma evolves_refl: "bank_inv d \<Longrightarrow> evolves ex d d"
  by (simp add: evolves_def grows_refl)

lemma evolves_trans: "evolves ex d d1 \<Longrightarrow> evolves ex d1 d2 \<Longrightarrow> evolves ex d d2"
  using grows_trans[of ex "{}" d d1 "{}" d2] by (simp add: evolves_def)

definition safely :: "bool \<Rightarrow> (bank_db, 'a) act \<Rightarrow> bank_db world \<Rightarrow> bool" where
  "safely exact m w \<longleftrightarrow> wp m (\<lambda>_ w'. evolves exact (wdb w) (wdb w')) (\<lambda>_ w'. evolves exact (wdb w) (wdb w')) w"

text \<open>Statements that only read.\<close>

definition reads :: "(bank_db, 'a) act \<Rightarrow> bool" where
  "reads m \<longleftrightarrow> (\<forall>w. wdb (snd (m w)) = wdb w)"

lemma readsD: "reads m \<Longrightarrow> wp m (\<lambda>_ w'. wdb w' = wdb w) (\<lambda>_ w'. wdb w' = wdb w) w"
  by (auto simp: reads_def wp_def split: prod.splits sum.splits dest: spec[of _ w])

lemma safely_reads: "reads m \<Longrightarrow> bank_inv (wdb w) \<Longrightarrow> safely ex m w"
  unfolding safely_def by (rule wp_mono[OF readsD]) (auto intro: evolves_refl)

lemma safely_bind:
  assumes "safely ex m w" "\<And>a v. bank_inv (wdb v) \<Longrightarrow> safely ex (f a) v"
  shows "safely ex (bind m f) w"
proof -
  have "wp (f a) (\<lambda>_ w'. evolves ex (wdb w) (wdb w')) (\<lambda>_ w'. evolves ex (wdb w) (wdb w')) v"
    if e: "evolves ex (wdb w) (wdb v)" for a v
  proof -
    have "bank_inv (wdb v)" using e by (simp add: evolves_def)
    from assms(2)[OF this, unfolded safely_def] show ?thesis
      by (rule wp_mono) (auto intro: evolves_trans[OF e])
  qed
  then show ?thesis
    using assms(1) unfolding safely_def wp_bind by (auto intro: wp_mono)
qed

lemma safely_attempt: "safely ex m w \<Longrightarrow> safely ex (attempt m) w"
  by (simp add: safely_def wp_attempt)

lemma safely_wrapping: "safely ex m w \<Longrightarrow> safely ex (wrapping s m) w"
  by (simp add: safely_def wp_wrapping)

lemma safely_ret: "bank_inv (wdb w) \<Longrightarrow> safely ex (ret a) w" "bank_inv (wdb w) \<Longrightarrow> safely ex (fail e) w"
  by (simp_all add: safely_def wp_simps evolves_refl)

lemma safely_foreach:
  "bank_inv (wdb w) \<Longrightarrow> (\<And>x v. x \<in> set xs \<Longrightarrow> bank_inv (wdb v) \<Longrightarrow> safely ex (f x) v) \<Longrightarrow> safely ex (foreach f xs) w"
proof (induction xs arbitrary: w)
  case Nil
  then show ?case by (simp add: safely_ret)
next
  case (Cons x xs)
  then show ?case by (simp, intro safely_bind) auto
qed

lemma safely_if: "(b \<Longrightarrow> safely ex m w) \<Longrightarrow> (\<not> b \<Longrightarrow> safely ex n w) \<Longrightarrow> safely ex (if b then m else n) w"
  by simp

lemma safely_option: "safely ex m w \<Longrightarrow> (\<And>x. safely ex (f x) w) \<Longrightarrow> safely ex (case y of None \<Rightarrow> m | Some x \<Rightarrow> f x) w"
  by (simp split: option.split)

lemmas safely_intros = safely_bind safely_attempt safely_wrapping safely_ret safely_foreach safely_if safely_option

lemma reads_prims [clock_intros]: "reads (ret a)" "reads (fail e)" "reads time_now" "reads later" "reads (query q)" "reads rand_nat"
  by (auto simp: reads_def ret_def fail_def time_now_def later_def query_def rand_nat_def split: list.split)


lemma reads_bind [clock_intros]: "reads m \<Longrightarrow> (\<And>a. reads (f a)) \<Longrightarrow> reads (bind m f)"
  unfolding reads_def bind_def by (auto split: prod.splits sum.splits) (metis snd_conv)+

lemma reads_wrapping [clock_intros]: "reads m \<Longrightarrow> reads (wrapping s m)"
  unfolding reads_def wrapping_def by (auto split: prod.splits sum.splits) (metis snd_conv)+

lemma reads_attempt [clock_intros]: "reads m \<Longrightarrow> reads (attempt m)"
  unfolding reads_def attempt_def by (auto split: prod.splits) (metis snd_conv)

lemma reads_query_row [clock_intros]: "reads (query_row q)"
  by (auto simp: reads_def query_row_def exec_def split: option.split sum.split)

lemma reads_cases [clock_intros]:
  "(b \<Longrightarrow> reads m) \<Longrightarrow> (\<not> b \<Longrightarrow> reads n) \<Longrightarrow> reads (if b then m else n)"
  "reads m \<Longrightarrow> (\<And>x. reads (f x)) \<Longrightarrow> reads (case y of None \<Rightarrow> m | Some x \<Rightarrow> f x)"
  "(\<And>x. reads (g x)) \<Longrightarrow> (\<And>x. reads (h x)) \<Longrightarrow> reads (case z of Inl x \<Rightarrow> g x | Inr x \<Rightarrow> h x)"
  by (auto split: option.split sum.split)

lemma reads_get_row [clock_intros]: "reads (get_row s q)"
  unfolding get_row_def by (intro clock_intros)

lemma reads_lookups [clock_intros]:
  "reads (GetPrimaryBankAccount u)" "reads (resolveBankAccountID parse u s)" "reads (lock_balance u acc)" "reads (newID p)"
  "reads (resolveBankAccount parse u s)" "reads newFDAccountNumber"
  unfolding GetPrimaryBankAccount_def resolveBankAccountID_def lock_balance_def newID_def resolveBankAccount_def newFDAccountNumber_def
  by (intro clock_intros)+

text \<open>Payments.\<close>

lemma evolves_paid:
  assumes "bank_inv d" "payment_made parse u req d p d'" "paise (pr_amount req)"
  shows "evolves ex d d'"
proof -
  obtain acc a pay where r: "live_account u acc d = Some a" "pr_amount req \<le> ba_balance a"
      "py_user pay = u" "py_account pay = acc" "py_amount pay = round2 (pr_amount req)" "py_status pay = ''SUCCESS''"
      "py_id pay \<notin> py_id ` set (payments d)" "py_txn pay \<notin> py_txn ` set (payments d)"
      "d' = paid u acc (pr_amount req) pay d"
    using assms(2) by (auto simp: payment_made_def)
  let ?d = "moved u acc (\<lambda>b. b - pr_amount req) d"
  have d': "d' = ?d\<lparr>payments := payments ?d @ [pay]\<rparr>" using r(9) by (simp add: paid_def)
  have "bank_inv ?d" using r by (intro inv_moved[OF assms(1) r(1)]) simp
  then have "bank_inv d'"
    unfolding d' using r live_has_account[OF r(1)] by (intro inv_payment) (auto simp: payment_ok_def)
  moreover have "worth c d' = worth c d" for c
    unfolding d' worth_payment
    using worth_moved(1)[OF bank_invD(1)[OF assms(1)] r(1) bank_invD(6)[OF assms(1)] assms(3)] live_accountD[OF r(1)] r(4,5) assms(3)
    by (simp add: paise_def)
  moreover have "extends d d'" unfolding d' by (rule extends_trans[OF extends_moved extends_rows(1)])
  ultimately show ?thesis by (simp add: evolves_def grows_def)
qed

lemma safely_InitiatePayment:
  assumes "bank_inv (wdb w)" "paise (pr_amount req)"
  shows "safely ex (InitiatePayment parse u req) w"
  unfolding safely_def
  by (rule wp_mono[OF wp_InitiatePayment])
    (auto intro: evolves_refl[OF assms(1)] evolves_paid[OF assms(1) _ assms(2)] split: option.splits)

text \<open>New mandates.\<close>

lemma evolves_mandate:
  assumes "bank_inv d" "mandate_ok d m" "md_id m \<notin> md_id ` set (mandates d)"
  shows "evolves ex d (d\<lparr>mandates := mandates d @ [m]\<rparr>)"
  using inv_mandate[OF assms] extends_rows(3)[of d m] worth_new_mandate[OF assms(1,3)]
  by (simp add: evolves_def grows_def)

lemma safely_insert_mandate:
  assumes "bank_inv (wdb w)" "has_account (md_user m) (md_account m) (wdb w)" "paise (md_max m)" "0 \<le> md_max m"
  shows "safely ex (insert_mandate m) w"
  using assms evolves_mandate[OF assms(1), of m]
  by (auto simp: safely_def insert_mandate_def wp_simps mandate_ok_def mandate_fits_def intro: evolves_refl)

lemma account_for_has: "account_for parse u s d = Some acc \<Longrightarrow> has_account u acc d"
  by (auto simp: account_for_def linked_def has_account_def owned_def list_ex_iff dest!: first_row_SomeD
      dest: live_has_account split: if_splits Option.bind_splits)

text \<open>From a lookup that finds an account of the user to what then uses it.\<close>

lemma safely_after:
  assumes "wp m (\<lambda>a w'. P a \<and> wdb w' = wdb w) (\<lambda>_ w'. wdb w' = wdb w) w"
    and "\<And>a v. P a \<Longrightarrow> wdb v = wdb w \<Longrightarrow> safely ex (f a) v" "bank_inv (wdb w)"
  shows "safely ex (bind m f) w"
  unfolding safely_def wp_bind
  by (rule wp_mono[OF assms(1)]) (use assms(2) in \<open>auto simp: safely_def intro: evolves_refl[OF assms(3)]\<close>)

lemma safely_after_reads:
  assumes "reads m" "\<And>a v. wdb v = wdb w \<Longrightarrow> safely ex (f a) v" "bank_inv (wdb w)"
  shows "safely ex (bind m f) w"
  by (rule safely_after[where P = "\<lambda>_. True"]) (use assms readsD[OF assms(1), of w] in auto)

lemma safely_CreateMandate:
  assumes "bank_inv (wdb w)"
  shows "safely ex (CreateMandate parse u req) w"
proof (cases "validateMandateRequest req")
  case (Inl e)
  then show ?thesis by (simp add: CreateMandate_def safely_ret assms)
next
  case (Inr start)
  then have amt: "0 < mr_amount req" by (auto simp: validateMandateRequest_def split: if_splits)
  show ?thesis
    unfolding CreateMandate_def Inr sum.case
    by (intro safely_after[OF wp_resolve _ assms] safely_after_reads[OF reads_lookups(4)] safely_after_reads[OF reads_prims(3)]
        safely_bind safely_wrapping safely_insert_mandate)
      (auto simp: assms mandate_for_def Let_def amt less_imp_le intro!: round2_nonneg safely_ret dest!: account_for_has)
qed


text \<open>Transactions: an error, and a return before COMMIT, leave the tables as they were.\<close>

lemma safely_tx: "safely ex m (tick w) \<Longrightarrow> bank_inv (wdb w) \<Longrightarrow> safely ex (tx bw cw m) w"
  by (auto simp: safely_def wp_simps evolves_refl elim!: wp_mono)

lemma wp_get_row_reads:
  "wp (get_row s (\<lambda>_. q)) (\<lambda>r w'. r = q (wdb w) \<and> wdb w' = wdb w) (\<lambda>_ w'. wdb w' = wdb w) w"
  by (simp add: wp_simps)

text \<open>Mandates that change status or run a cycle.\<close>

lemma evolves_set_mandate:
  assumes "bank_inv d" "mandate_of i u d = Some m" "\<not> ended m" "\<And>m. md_key (f m) = md_key m"
  shows "evolves ex d (set_mandate i u f d)"
  using inv_set_mandate[OF assms(1,4)] extends_set_mandate[OF bank_invD(3)[OF assms(1)] assms(2-4)] worth_set_mandate[OF assms(4)]
  by (simp add: evolves_def grows_def)

lemma transitions_live: "map_of mandateTransitions action = Some t \<Longrightarrow> map_of t (md_status m) = Some s \<Longrightarrow> \<not> ended m"
  by (auto simp: mandateTransitions_def ended_def split: if_splits)

lemma safely_MandateAction:
  assumes "bank_inv (wdb w)"
  shows "safely ex (MandateAction u i action) w"
proof (cases "map_of mandateTransitions action")
  case None
  then show ?thesis by (simp add: MandateAction_def safely_ret assms)
next
  case (Some t)
  have upd: "safely ex (exec_upd (\<lambda>_. set_mandate i u (\<lambda>m. m\<lparr>md_status := s\<rparr>))) v"
    if "mandate_of i u (wdb w) = Some m" "map_of t (md_status m) = Some s" "wdb v = wdb w" for m s v
    using evolves_set_mandate[OF assms that(1) transitions_live[OF Some that(2)], of "\<lambda>m. m\<lparr>md_status := s\<rparr>" ex] that(3) assms
    by (auto simp: safely_def wp_simps md_key_def evolves_refl)
  show ?thesis
    unfolding MandateAction_def Some option.case
  proof (rule safely_bind[OF safely_tx[OF safely_after[OF wp_get_row_reads]]])
    fix r and v :: "bank_db world"
    assume "r = mandate_of i u (wdb (tick w))" "wdb v = wdb (tick w)"
    then show "safely ex (case r of None \<Rightarrow> fail (NotFound (''mandate '' @ i @ '' not found''))
        | Some m \<Rightarrow> (case map_of t (md_status m) of
            None \<Rightarrow> fail (Wrap (''mandate '' @ i @ '' is '' @ md_status m @ '' and cannot be '' @ action @ ''d'') (Sent ErrConflict))
          | Some newStatus \<Rightarrow>
              bind (wrapping ''update mandate status''
                (exec_upd (\<lambda>_. set_mandate i u (\<lambda>m. m\<lparr>md_status := newStatus\<rparr>)))) (\<lambda>_. ret newStatus))) v"
      by (auto intro!: safely_intros upd simp: assms split: option.split)
  qed (auto intro!: safely_reads clock_intros safely_bind safely_ret simp: assms)
qed

lemma advance_key: "md_key (advance_mandate m r) = md_key r"
  by (simp add: advance_mandate_def md_key_def)

lemma evolves_cycled:
  assumes "bank_inv d" "mandate_of i u d = Some m" "is_due t m" "live_account u (md_account m) d = Some a"
  shows "evolves ex d (cycled u m (ba_balance a) t d)"
proof -
  note m = mandate_ofD[OF assms(2)] and D = bank_invD[OF assms(1)]
  have mok: "paise (md_max m)" "0 \<le> md_max m" using D(8)[of m] m by (auto simp: mandate_ok_def)
  have live: "\<not> ended m" using assms(3) by (auto simp: is_due_def ended_def)
  define pays where "pays \<longleftrightarrow> ba_balance a \<ge> md_max m"
  define d1 where "d1 = (if pays then moved u (md_account m) (\<lambda>b. b - md_max m) d else d)"
  let ?e = "execution_at u m (ba_balance a) t"
  let ?d2 = "d1\<lparr>executions := executions d1 @ [?e]\<rparr>"
  have c: "cycled u m (ba_balance a) t d = set_mandate i u (advance_mandate m) ?d2"
    using m by (simp add: cycled_def executed_def d1_def pays_def Let_def)
  have md: "mandates d1 = mandates d" "mandates ?d2 = mandates d" by (simp_all add: d1_def)
  then have of: "mandate_of i u ?d2 = Some m" using assms(2) by (simp add: mandate_of_def)
  have i1: "bank_inv d1" using inv_moved[OF assms(1,4)] assms(1) by (simp add: d1_def pays_def)
  have "execution_ok d1 ?e" using m by (auto simp: execution_ok_def md list_ex_iff execution_at_def)
  then have i2: "bank_inv ?d2" by (rule inv_execution[OF i1])
  have "\<And>x. x \<in> set (mandates d1) \<Longrightarrow> md_id x = ex_mandate ?e \<Longrightarrow> \<not> ended x"
    using the_mandate_unique[OF D(3) assms(2)] live m by (auto simp: execution_at_def md)
  then have "extends d1 ?d2" by (rule extends_execution)
  moreover have "extends d d1" by (simp add: d1_def extends_moved extends_refl)
  moreover have "extends ?d2 (set_mandate i u (advance_mandate m) ?d2)"
    by (rule extends_set_mandate[OF bank_invD(3)[OF i2] of live advance_key])
  ultimately have ext: "extends d (set_mandate i u (advance_mandate m) ?d2)" by (blast intro: extends_trans)
  have dr: "draws_on acc d1 ?e \<longleftrightarrow> pays \<and> acc = md_account m" for acc
    using m the_mandate_unique[OF D(3) assms(2)]
    by (auto simp: draws_on_def execution_at_def pays_def md list_ex_iff split: if_splits)
  have "worth acc (set_mandate i u (advance_mandate m) ?d2) = worth acc d" for acc
    unfolding worth_set_mandate[OF advance_key] worth_execution dr
    using worth_moved(1)[OF D(1) assms(4) D(6) mok(1)] live_accountD[OF assms(4)]
    by (auto simp: d1_def execution_at_def)
  then show ?thesis
    unfolding c using inv_set_mandate[OF i2 advance_key] ext by (simp add: evolves_def grows_def)
qed

lemma safely_cycle:
  assumes "bank_inv (wdb w)"
  shows "safely ex (runOneMandateCycle u i) w"
  unfolding safely_def
  by (rule wp_mono[OF wp_cycle])
    (auto intro: evolves_refl[OF assms] evolves_cycled[OF assms] split: option.splits if_splits)

lemma safely_catch_up: "bank_inv (wdb w) \<Longrightarrow> safely ex (catch_up_loop ctxErr u i n k) w"
proof (induction k arbitrary: n w)
  case 0
  then show ?case by (simp add: safely_ret)
next
  case (Suc k)
  then show ?case by (auto intro!: safely_intros safely_cycle)
qed

lemma safely_processDue: "bank_inv (wdb w) \<Longrightarrow> safely ex (processDueMandates ctxErr u k) w"
  unfolding processDueMandates_def catchUpMandate_def
  by (intro safely_after_reads safely_foreach safely_catch_up clock_intros) auto


lemma safely_foreach_from:
  assumes "bank_inv (wdb w)" "\<And>x v. x \<in> set xs \<Longrightarrow> evolves ex (wdb w) (wdb v) \<Longrightarrow> safely ex (f x) v"
  shows "safely ex (foreach f xs) w"
  unfolding safely_def
proof (rule wp_foreach_inv[where I = "\<lambda>v. evolves ex (wdb w) (wdb v)"])
  fix x and v :: "bank_db world"
  assume "x \<in> set xs" and e: "evolves ex (wdb w) (wdb v)"
  from assms(2)[OF this, unfolded safely_def]
  show "wp (f x) (\<lambda>_ v. evolves ex (wdb w) (wdb v)) (\<lambda>_ w'. evolves ex (wdb w) (wdb w')) v"
    by (rule wp_mono) (auto intro: evolves_trans[OF e])
qed (rule evolves_refl[OF assms(1)])

lemma has_account_extends: "extends d d' \<Longrightarrow> has_account u a d \<Longrightarrow> has_account u a d'"
  unfolding has_account_iff extends_def by (blast dest: set_mono_prefix)

lemma primary_has: "first_row (linked u d) = Some r \<Longrightarrow> has_account u (ba_id r) d"
  by (auto simp: linked_def has_account_def owned_def list_ex_iff dest!: first_row_SomeD)

lemma evolvesD: "evolves ex d d' \<Longrightarrow> bank_inv d'" "evolves ex d d' \<Longrightarrow> extends d d'"
  by (simp_all add: evolves_def grows_def)

lemma demo_mandate_sel [simp]:
  "md_user (demo_mandate u acc i t ds) = u" "md_account (demo_mandate u acc i t ds) = acc"
  "md_max (demo_mandate u acc i t ds) = fst (snd (snd ds))"
  by (simp_all add: demo_mandate_def Let_def split: prod.splits)

lemma paise_int [simp]: "paise (numeral n)"
  by (simp add: paise_iff exI[of _ "numeral n * 100"])

lemma demo_amounts: "ds \<in> set demoSubscriptions \<Longrightarrow> paise (fst (snd (snd ds))) \<and> 0 \<le> fst (snd (snd ds))"
  by (auto simp: demoSubscriptions_def)

lemma safely_seedDemo:
  assumes "bank_inv (wdb w)"
  shows "safely ex (seedDemoSubscriptions u) w"
proof -
  have loop: "safely ex (foreach (\<lambda>ds. bind (newID ''MNDT'') (\<lambda>i. wrapping (''seed demo subscription '' @ fst ds)
       (insert_mandate (demo_mandate u (bv_id a) i now ds)))) demoSubscriptions) v"
    if a: "\<exists>r. first_row (linked u (wdb w)) = Some r \<and> a = account_view r" and v: "wdb v = wdb w" for a now v
  proof (rule safely_foreach_from)
    fix ds and v' :: "bank_db world"
    assume ds: "ds \<in> set demoSubscriptions" and e: "evolves ex (wdb v) (wdb v')"
    have "has_account u (bv_id a) (wdb v')"
      using a primary_has evolvesD(2)[OF e] v by (auto simp: account_view_def intro: has_account_extends)
    then show "safely ex (bind (newID ''MNDT'') (\<lambda>i. wrapping (''seed demo subscription '' @ fst ds)
         (insert_mandate (demo_mandate u (bv_id a) i now ds)))) v'"
      using demo_amounts[OF ds] evolvesD(1)[OF e]
      by (intro safely_after_reads[OF reads_lookups(4)] safely_wrapping safely_insert_mandate) auto
  qed (simp add: v assms)
  have "wp (GetPrimaryBankAccount u) (\<lambda>a w'. (\<exists>r. first_row (linked u (wdb v)) = Some r \<and> a = account_view r) \<and> wdb w' = wdb v)
     (\<lambda>_ w'. wdb w' = wdb v) v" for v
    by (rule wp_mono[OF wp_GetPrimary]) auto
  then have prim: "wp (wrapping s (GetPrimaryBankAccount u))
     (\<lambda>a w'. (\<exists>r. first_row (linked u (wdb v)) = Some r \<and> a = account_view r) \<and> wdb w' = wdb v) (\<lambda>_ w'. wdb w' = wdb v) v" for v s
    by (simp add: wp_wrapping)
  show ?thesis
    unfolding seedDemoSubscriptions_def
    by (intro safely_after_reads safely_if safely_ret safely_after[OF prim] loop clock_intros) (auto simp: assms)
qed

lemma safely_lists:
  assumes "bank_inv (wdb w)"
  shows "safely ex (ListMandates ctxErr u s) w" "safely ex (MandateHistory ctxErr u i l off) w"
    "safely ex (RecurringSummary_of ctxErr u) w"
  unfolding ListMandates_def MandateHistory_def RecurringSummary_of_def Let_def
  by (intro safely_bind[OF safely_seedDemo] safely_bind[OF safely_processDue] assms safely_reads
      clock_intros safely_if; (auto intro!: safely_reads clock_intros split: prod.split)?)+

text \<open>Deposits.\<close>

lemma deposit_for_sel [simp]:
  "fd_user (deposit_for u req acc n t) = u" "fd_account (deposit_for u req acc n t) = acc"
  "fd_principal (deposit_for u req acc n t) = round2 (or_principal req)" "fd_status (deposit_for u req acc n t) = ''ACTIVE''"
  by (simp_all add: deposit_for_def Let_def)

lemma evolves_opened:
  assumes "bank_inv d" "opened u req t d d'" "0 < or_principal req" "paise (or_principal req)"
  shows "evolves ex d d'"
proof -
  obtain acc a number where r: "live_account u acc d = Some a" "or_principal req \<le> ba_balance a" "number \<notin> fd_number ` set (deposits d)"
      and d': "d' = (moved u acc (\<lambda>b. b - or_principal req) d)\<lparr>deposits := deposits d @ [deposit_for u req acc number t]\<rparr>"
    using assms(2) by (auto simp: opened_def)
  let ?d = "moved u acc (\<lambda>b. b - or_principal req) d" and ?f = "deposit_for u req acc number t"
  have d2: "d' = ?d\<lparr>deposits := deposits ?d @ [?f]\<rparr>" by (simp add: d')
  have "bank_inv ?d" using r by (intro inv_moved[OF assms(1) r(1)]) simp
  then have "bank_inv d'"
    unfolding d2 using r(3) live_has_account[OF r(1)] assms(3) by (intro inv_deposit) (auto simp: deposit_ok_def round2_nonneg)
  moreover have "worth c d' = worth c d" for c
    unfolding d2 worth_new_deposit
    using worth_moved(1)[OF bank_invD(1)[OF assms(1)] r(1) bank_invD(6)[OF assms(1)] assms(4)] live_accountD[OF r(1)] assms(4)
    by (simp add: paise_def open_deposit_def)
  moreover have "extends d d'" unfolding d2 by (rule extends_trans[OF extends_moved extends_rows(2)])
  ultimately show ?thesis by (simp add: evolves_def grows_def)
qed

lemma safely_OpenFD:
  assumes "bank_inv (wdb w)" "paise (or_principal req)"
  shows "safely ex (OpenFD parse u req) w"
  unfolding safely_def
  by (rule wp_mono[OF wp_OpenFD]) (auto intro: evolves_refl[OF assms(1)] evolves_opened[OF assms(1) _ _ assms(2)])

lemma net_payable_le: "paise x \<Longrightarrow> 0 \<le> x \<Longrightarrow> net_payable x \<le> x"
  unfolding net_payable_def prematureWithdrawalPenaltyRate_def by (rule round2_le_paise) auto

lemma extends_deposits: "extends d (set_deposit n u f d)"
  unfolding set_deposit_def by (rule extends_rows(2))

lemma withdraw_amountD:
  "withdraw_amount p asked = Some (amount, full) \<Longrightarrow> paise p \<Longrightarrow> 0 \<le> p \<Longrightarrow> (\<And>x. asked = Some x \<Longrightarrow> paise x) \<Longrightarrow>
   paise amount \<and> 0 \<le> amount \<and> amount \<le> p"
  by (auto simp: withdraw_amount_def split: option.splits if_splits)

lemma live_or_not:
  assumes "distinct (map ba_id (accounts d))" "has_account u acc d"
  obtains a where "a \<in> set (accounts d)" "ba_id a = acc" "ba_user a = u"
  using assms(2) by (auto simp: has_account_def owned_def list_ex_iff)

text \<open>A credit reaches the account of a deposit whether or not it is still linked.\<close>

lemma credit_effect:
  assumes "bank_inv d" "has_account u acc d" "paise x" "0 \<le> x"
  shows "bank_inv (moved u acc (\<lambda>b. b + x) d)"
    and "worth c (moved u acc (\<lambda>b. b + x) d) = (if c = acc then worth c d + x else worth c d)"
proof -
  note D = bank_invD[OF assms(1)]
  obtain a where a: "a \<in> set (accounts d)" "ba_id a = acc" "ba_user a = u" using live_or_not[OF D(1) assms(2)] .
  have "list_all account_ok (accounts (moved u acc (\<lambda>b. b + x) d))"
    by (rule moved_ok) (use D(7) assms in \<open>auto simp: bank_inv_def\<close>)
  then show "bank_inv (moved u acc (\<lambda>b. b + x) d)" using assms(1) unfolding bank_inv_def moved_sel row_ok_upd by simp
  have "filter (\<lambda>y. ba_id y = acc) (accounts (moved u acc (\<lambda>b. b + x) d)) = [a\<lparr>ba_balance := round2 (ba_balance a + x)\<rparr>]"
    by (rule filter_key_single) (use a D(1) in \<open>auto simp: moved_def map_update_where in_update_where owned_def\<close>)
  moreover have "filter (\<lambda>y. ba_id y = acc) (accounts d) = [a]" by (rule filter_key_single[OF D(1) a(1,2)])
  moreover have "filter (\<lambda>y. ba_id y = c) (accounts (moved u acc (\<lambda>b. b + x) d)) = filter (\<lambda>y. ba_id y = c) (accounts d)" if "c \<noteq> acc"
    using that by (auto simp: moved_def owned_def intro!: filter_update_where_other)
  moreover have "round2 (ba_balance a + x) = ba_balance a + x"
    using paise_add[OF D(6)[OF a(1)] assms(3)] by (simp add: paise_def)
  ultimately show "worth c (moved u acc (\<lambda>b. b + x) d) = (if c = acc then worth c d + x else worth c d)"
    by (auto simp: worth_def balance_of_def)
qed

lemma evolves_withdrawal:
  assumes "bank_inv d" "withdrawal u n asked d r d'" "\<And>x. asked = Some x \<Longrightarrow> paise x"
  shows "evolves False d d'"
proof -
  obtain f amount full where w: "deposit_of n u d = Some f" "fd_status f = ''ACTIVE''"
      "withdraw_amount (fd_principal f) asked = Some (amount, full)" "d' = after_withdrawal u n f amount d"
    using assms(2) by (auto simp: withdrawal_def)
  note D = bank_invD[OF assms(1)]
  have f: "f \<in> set (deposits d)" "fd_user f = u"
    using w(1) first_row_filterD[of "the_deposit n u" "deposits d" f] by (auto simp: deposit_of_def the_deposit_def)
  then have fok: "has_account u (fd_account f) d" "paise (fd_principal f)" "0 \<le> fd_principal f"
    using D(11) by (auto simp: deposit_ok_def)
  have am: "paise amount" "0 \<le> amount" "amount \<le> fd_principal f"
    using withdraw_amountD[OF w(3) fok(2,3) assms(3)] by auto
  have net: "paise (net_payable amount)" "0 \<le> net_payable amount" "net_payable amount \<le> amount"
    using net_payable_le[OF am(1,2)] am(2) by (auto simp: net_payable_def prematureWithdrawalPenaltyRate_def intro!: round2_nonneg)
  let ?d = "moved u (fd_account f) (\<lambda>b. b + net_payable amount) d"
  note cr = credit_effect[OF assms(1) fok(1) net(1,2)]
  have of: "deposit_of n u ?d = Some f" using w(1) by (simp add: deposit_of_def)
  have rem: "round2 (fd_principal f - amount) = fd_principal f - amount"
    using paise_diff[OF fok(2) am(1)] by (simp add: paise_def)
  have "deposit_ok ?d (withdrawn f amount x)" if "deposit_ok ?d x" for x
    using that rem am paise_diff[OF fok(2) am(1)] by (auto simp: withdrawn_def deposit_ok_def)
  then have "bank_inv d'"
    unfolding w(4) after_withdrawal_def by (intro inv_set_deposit[OF cr(1)]) (auto simp: withdrawn_def)
  moreover have "worth c d' \<le> worth c d" for c
    unfolding w(4) after_withdrawal_def
    using worth_set_deposit[OF _ of, of c "withdrawn f amount"] bank_invD(5)[OF cr(1)] cr(2)[of c] rem net w(2) am
    by (auto simp: withdrawn_def open_deposit_def)
  moreover have "extends d d'"
    unfolding w(4) after_withdrawal_def by (rule extends_trans[OF extends_moved extends_deposits])
  ultimately show ?thesis by (simp add: evolves_def grows_def)
qed

lemma safely_Withdraw:
  assumes "bank_inv (wdb w)" "\<And>x. asked = Some x \<Longrightarrow> paise x"
  shows "safely False (Withdraw u n asked) w"
  unfolding safely_def
  by (rule wp_mono[OF wp_Withdraw]) (auto intro: evolves_refl[OF assms(1)] evolves_withdrawal[OF assms(1) _ assms(2)])


text \<open>Linking and unlinking.\<close>

lemma balances_update:
  assumes "\<And>a. ba_id (f a) = ba_id a" "\<And>a. ba_balance (f a) = ba_balance a"
  shows "map ba_balance (filter (\<lambda>a. ba_id a = c) (update_where p f xs)) = map ba_balance (filter (\<lambda>a. ba_id a = c) xs)"
  using assms by (induction xs) auto

lemma evolves_unlinked:
  assumes "bank_inv d"
  shows "evolves ex d (d\<lparr>accounts := update_where p (\<lambda>a. a\<lparr>ba_unlinked := t\<rparr>) (accounts d)\<rparr>)"
proof -
  let ?as = "update_where p (\<lambda>a. a\<lparr>ba_unlinked := t\<rparr>) (accounts d)"
  have k: "map acc_key ?as = map acc_key (accounts d)" by (rule map_update_where) (simp add: acc_key_def)
  have i: "map ba_id ?as = map ba_id (accounts d)" by (rule map_update_where) simp
  have "list_all account_ok ?as"
    using assms by (auto simp: bank_inv_def list_all_iff in_update_where account_ok_def)
  then have "bank_inv (d\<lparr>accounts := ?as\<rparr>)"
    by (intro inv_accounts assms) (use bank_invD(1)[OF assms] in \<open>simp_all add: k i del: set_map\<close>)
  moreover have "worth c (d\<lparr>accounts := ?as\<rparr>) = worth c d" for c
    by (rule worth_accounts) (simp add: balance_of_def balances_update)
  moreover have "extends d (d\<lparr>accounts := ?as\<rparr>)" by (rule extends_accounts) (simp add: k)
  ultimately show ?thesis by (simp add: evolves_def grows_def)
qed

lemma safely_unlink: "bank_inv (wdb w) \<Longrightarrow> safely ex (unlink u acc) w"
  by (simp add: safely_def unlink_def wp_simps Let_def evolves_refl evolves_unlinked)

lemma evolves_account:
  assumes "bank_inv d" "ba_id a \<notin> ba_id ` set (accounts d)" "account_ok a"
  shows "evolves ex d (d\<lparr>accounts := accounts d @ [a]\<rparr>)"
proof -
  have "bank_inv (d\<lparr>accounts := accounts d @ [a]\<rparr>)"
    by (intro inv_accounts assms) (use assms bank_invD(1)[OF assms(1)] in \<open>auto simp: bank_inv_def\<close>)
  moreover have "worth c (d\<lparr>accounts := accounts d @ [a]\<rparr>) = worth c d" if "c \<in> ba_id ` set (accounts d)" for c
    using that assms(2) by (intro worth_accounts) (auto simp: balance_of_def)
  moreover have "extends d (d\<lparr>accounts := accounts d @ [a]\<rparr>)" by (rule extends_accounts) simp
  ultimately show ?thesis by (simp add: evolves_def grows_def)
qed

lemma wp_insert_account:
  assumes "0 \<le> balance"
  shows "wp (insert_account u n t balance num)
     (\<lambda>a w'. ba_user a = u \<and> ba_id a \<notin> ba_id ` set (accounts (wdb w)) \<and> account_ok a \<and>
        wdb w' = (wdb w)\<lparr>accounts := accounts (wdb w) @ [a]\<rparr>) (\<lambda>_ w'. wdb w' = wdb w) w"
  using round2_nonneg[OF assms] by (auto simp: insert_account_def wp_simps Let_def account_ok_def split: list.split)

text \<open>Rows an operation adds for an account it has itself just linked.\<close>

lemma evolves_trans_new:
  assumes "evolves ex d d1" "bank_inv d2" "grows ex X d1 d2" "X \<inter> ba_id ` set (accounts d) = {}"
  shows "evolves ex d d2"
  using grows_trans[of ex "{}" d d1 X d2] assms by (auto simp: evolves_def intro: grows_drop)

lemma grows_seeded_deposit:
  assumes "bank_inv d" "deposit_ok d f" "fd_account f = acc"
  shows "bank_inv (add_deposit_row f d) \<and> grows ex {acc} d (add_deposit_row f d)"
proof (cases "fd_number f \<in> fd_number ` set (deposits d)")
  case True
  then show ?thesis using assms(1) by (simp add: add_deposit_row_def grows_refl)
next
  case False
  then show ?thesis
    using inv_deposit[OF assms(1,2) False] extends_rows(2)[of d] assms(3)
    by (auto simp: add_deposit_row_def grows_def worth_new_deposit open_deposit_def)
qed

lemma evolves_seeded_mandate:
  assumes "bank_inv d" "mandate_ok d m"
  shows "evolves ex d (add_mandate_row m d)"
  using evolves_mandate[OF assms] evolves_refl[OF assms(1)] by (simp add: add_mandate_row_def)

lemma has_account_rows [simp]:
  "has_account u a (add_deposit_row f d) = has_account u a d" "has_account u a (add_mandate_row m d) = has_account u a d"
  by (simp_all add: add_deposit_row_def add_mandate_row_def)

lemma seed_mandate_ok:
  "has_account u acc d \<Longrightarrow> paise amount \<Longrightarrow> 0 \<le> amount \<Longrightarrow> mandate_ok d (seed_mandate u acc t sx p v amount a b)"
  by (simp add: mandate_ok_def seed_mandate_def)

lemma wp_seed:
  assumes "evolves ex d0 (wdb w)" "has_account u acc (wdb w)" "acc \<notin> ba_id ` set (accounts d0)"
  shows "wp (SeedBankDependentData u acc) (\<lambda>_ w'. evolves ex d0 (wdb w')) (\<lambda>_ w'. evolves ex d0 (wdb w')) w"
proof -
  let ?d1 = "\<lambda>t. add_deposit_row (seed_deposit u acc (day_of t)) (wdb w)"
  have dok: "deposit_ok (wdb w) (seed_deposit u acc n)" for n using assms(2) by (simp add: deposit_ok_def seed_deposit_def)
  have e1: "evolves ex d0 (?d1 t)" for t
    using grows_seeded_deposit[OF evolvesD(1)[OF assms(1)] dok[of "day_of t"], where acc = acc and ex = ex] assms(3)
    by (intro evolves_trans_new[OF assms(1)]) (auto simp: seed_deposit_def)
  have "evolves ex d0 (add_mandate_row (seed_mandate u acc t s2 p2 v2 3000 a2 b2)
      (add_mandate_row (seed_mandate u acc t s1 p1 v1 5000 a1 b1) d))"
    if "evolves ex d0 d" "has_account u acc d" for d t s1 p1 v1 a1 b1 s2 p2 v2 a2 b2
  proof -
    have 1: "evolves ex d (add_mandate_row (seed_mandate u acc t s1 p1 v1 5000 a1 b1) d)"
      using that by (intro evolves_seeded_mandate seed_mandate_ok evolvesD(1)[OF that(1)]) auto
    have 2: "evolves ex (add_mandate_row (seed_mandate u acc t s1 p1 v1 5000 a1 b1) d)
        (add_mandate_row (seed_mandate u acc t s2 p2 v2 3000 a2 b2) (add_mandate_row (seed_mandate u acc t s1 p1 v1 5000 a1 b1) d))"
      using that by (intro evolves_seeded_mandate seed_mandate_ok evolvesD(1)[OF 1]) auto
    show ?thesis by (rule evolves_trans[OF that(1) evolves_trans[OF 1 2]])
  qed
  then show ?thesis
    using e1 assms(1,2) by (auto simp: SeedBankDependentData_def wp_simps)
qed


lemma wp_seed_quietly:
  assumes "evolves ex d0 (wdb w)" "has_account u acc (wdb w)" "acc \<notin> ba_id ` set (accounts d0)"
  shows "wp (seed_quietly env b u acc) (\<lambda>_ w'. evolves ex d0 (wdb w')) (\<lambda>_ w'. evolves ex d0 (wdb w')) w"
  using wp_seed[OF assms] assms(1) by (simp add: seed_quietly_def wp_simps)

lemma reads_account_queries [clock_intros]:
  "reads (connectedAccounts env u)" "reads (linkedBankSet u)" "reads (linkedBankNameSet u)" "reads (needs_seeding env u)"
  unfolding connectedAccounts_def linkedBankSet_def linkedBankNameSet_def needs_seeding_def Let_def
  by (intro clock_intros)+

lemma safely_or_error:
  assumes "safely ex m w" "\<And>a v. evolves ex (wdb w) (wdb v) \<Longrightarrow> safely ex (k a) v"
  shows "safely ex (or_error evs m k) w"
proof -
  have "wp (k a) (\<lambda>_ w'. evolves ex (wdb w) (wdb w')) (\<lambda>_ w'. evolves ex (wdb w) (wdb w')) v"
    if e: "evolves ex (wdb w) (wdb v)" for a v
    using assms(2)[OF e, unfolded safely_def] by (rule wp_mono) (auto intro: evolves_trans[OF e])
  then show ?thesis
    using assms(1) unfolding safely_def wp_or_error by (auto intro: wp_mono)
qed

lemma safely_replies:
  assumes "bank_inv (wdb w)"
  shows "safely ex (reply_ok evs a) w" "safely ex (reply_created evs b) w" "safely ex (ret c) w"
  using assms by (simp_all add: safely_def wp_simps evolves_refl)

lemma safely_with_user: "bank_inv (wdb w) \<Longrightarrow> (\<And>v. safely ex (k v) w) \<Longrightarrow> safely ex (with_user u k) w"
  by (simp add: with_user_def safely_replies split: option.split)

lemma safely_with_body: "bank_inv (wdb w) \<Longrightarrow> (\<And>v. safely ex (k v) w) \<Longrightarrow> safely ex (with_body u k) w"
  by (simp add: with_body_def safely_replies split: sum.split)

lemma safely_AddAccount:
  assumes "bank_inv (wdb w)"
  shows "safely ex (AddAccount env u body) w"
proof -
  have body: "safely ex (bind (needs_seeding env userID) (\<lambda>needsSeeding.
        or_error [] (insert_account userID n t (if b \<le> 0 then 25000 else b) num) (\<lambda>a.
        bind (seed_quietly env needsSeeding userID (ba_id a)) (\<lambda>_. reply_created evs ((of_row a)\<lparr>br_linked := False\<rparr>))))) w"
    for userID n t b num evs
  proof (rule safely_after_reads)
    fix needs and v :: "bank_db world"
    assume v: "wdb v = wdb w"
    have "wp (seed_quietly env needs userID (ba_id a)) (\<lambda>_ w'. evolves ex (wdb w) (wdb w')) (\<lambda>_ w'. evolves ex (wdb w) (wdb w')) v'"
      if "ba_user a = userID" "ba_id a \<notin> ba_id ` set (accounts (wdb w))" "account_ok a"
        "wdb v' = (wdb w)\<lparr>accounts := accounts (wdb w) @ [a]\<rparr>" for a v'
      using that evolves_account[OF assms that(2,3), of ex]
      by (intro wp_seed_quietly) (auto simp: has_account_def owned_def)
    then show "safely ex (or_error [] (insert_account userID n t (if b \<le> 0 then 25000 else b) num) (\<lambda>a.
        bind (seed_quietly env needs userID (ba_id a)) (\<lambda>_. reply_created evs ((of_row a)\<lparr>br_linked := False\<rparr>)))) v"
      unfolding safely_def wp_or_error
      by (intro wp_mono[OF wp_insert_account]) (auto simp: wp_simps v intro: evolves_refl[OF assms])
  qed (auto intro: assms clock_intros)
  show ?thesis
    unfolding AddAccount_def Let_def by (intro safely_with_user safely_with_body body assms)
qed

lemma wp_insert_candidates:
  "evolves ex d0 (wdb w) \<Longrightarrow> (\<And>c. c \<in> set cs \<Longrightarrow> 0 \<le> ca_balance c) \<Longrightarrow>
   wp (insert_candidates u cs)
     (\<lambda>as w'. evolves ex d0 (wdb w') \<and> length as = length cs \<and>
        (\<forall>a \<in> set as. ba_id a \<notin> ba_id ` set (accounts d0) \<and> has_account u (ba_id a) (wdb w')))
     (\<lambda>_ w'. evolves ex d0 (wdb w')) w"
proof (induction cs arbitrary: w d0)
  case Nil
  then show ?case by (simp add: wp_simps)
next
  case (Cons c cs)
  have ids: "ba_id ` set (accounts d0) \<subseteq> ba_id ` set (accounts (wdb w))"
    by (rule extends_ids[OF evolvesD(2)[OF Cons.prems(1)]])
  show ?case
    unfolding insert_candidates.simps wp_bind
  proof (rule wp_mono[OF wp_insert_account])
    fix a and v :: "bank_db world"
    assume a: "ba_user a = u \<and> ba_id a \<notin> ba_id ` set (accounts (wdb w)) \<and> account_ok a \<and>
       wdb v = (wdb w)\<lparr>accounts := accounts (wdb w) @ [a]\<rparr>"
    then have e: "evolves ex d0 (wdb v)"
      using evolves_trans[OF Cons.prems(1) evolves_account[OF evolvesD(1)[OF Cons.prems(1)]]] by auto
    have h: "has_account u (ba_id a) (wdb v)" using a by (auto simp: has_account_def owned_def)
    have inv: "bank_inv (wdb v)" by (rule evolvesD(1)[OF e])
    note both = wp_conj[OF Cons.IH[OF e] Cons.IH[OF evolves_refl[OF inv, of ex]]]
    show "wp (insert_candidates u cs) (\<lambda>as. wp (ret (a # as))
          (\<lambda>as w'. evolves ex d0 (wdb w') \<and> length as = length (c # cs) \<and>
            (\<forall>a \<in> set as. ba_id a \<notin> ba_id ` set (accounts d0) \<and> has_account u (ba_id a) (wdb w')))
          (\<lambda>_ w'. evolves ex d0 (wdb w'))) (\<lambda>_ w'. evolves ex d0 (wdb w')) v"
      by (rule wp_mono[OF both])
        (use a ids h Cons.prems(2) in \<open>auto simp: wp_simps dest: evolvesD(2) intro: has_account_extends\<close>)
  qed (use Cons.prems in auto)
qed

lemma Generate_balance [simp]: "0 \<le> ca_balance (Generate env u b s)"
  by (simp add: Generate_def Let_def)

lemma candidate_balance: "c \<in> set (to_insert env u keys sel banks) \<Longrightarrow> 0 \<le> ca_balance c"
proof -
  have w: "set (fst (pick_wanted sel ks cs)) \<subseteq> set cs" for ks cs
    by (induction sel ks cs rule: pick_wanted.induct) (auto split: prod.splits)
  have f: "first_free ks cs = Some x \<Longrightarrow> x \<in> set cs" for ks cs x
    by (induction ks cs rule: first_free.induct) (auto split: if_splits)
  have b: "x \<in> set (pick_banks env u ks bs) \<Longrightarrow> 0 \<le> ca_balance x" for ks bs x
    by (induction env u ks bs rule: pick_banks.induct) (auto split: option.splits dest!: f)
  assume c: "c \<in> set (to_insert env u keys sel banks)"
  obtain ins ks where p: "pick_wanted sel keys (candidates env u BankPool) = (ins, ks)" by fastforce
  then have "set ins \<subseteq> set (candidates env u BankPool)" using w[of keys "candidates env u BankPool"] by simp
  then show "0 \<le> ca_balance c" using c b p by (auto simp: to_insert_def candidates_def)
qed

lemma safely_connect_inserts:
  assumes "bank_inv (wdb v)" "cs \<noteq> []" "\<And>c. c \<in> set cs \<Longrightarrow> 0 \<le> ca_balance c"
  shows "safely ex (or_error [] (insert_candidates u cs) (\<lambda>added.
       bind (seed_quietly env b u (ba_id (hd added))) (\<lambda>_.
       or_error evs (connectedAccounts env u) (\<lambda>accs. reply_ok evs (map of_row added, accs))))) v"
proof -
  have tail: "wp (or_error evs (connectedAccounts env u) (\<lambda>accs. reply_ok evs (map of_row added, accs)))
      (\<lambda>_ w'. evolves ex (wdb v) (wdb w')) (\<lambda>_ w'. evolves ex (wdb v) (wdb w')) x"
    if "evolves ex (wdb v) (wdb x)" for added x
    unfolding wp_or_error by (rule wp_mono[OF readsD]) (use that in \<open>auto simp: wp_simps intro: clock_intros\<close>)
  show ?thesis
    unfolding safely_def wp_or_error
  proof (rule wp_mono[OF wp_insert_candidates[OF evolves_refl[OF assms(1)] assms(3)]])
    fix added :: "bank_account list" and x :: "bank_db world"
    assume a: "evolves ex (wdb v) (wdb x) \<and> length added = length cs \<and>
      (\<forall>a \<in> set added. ba_id a \<notin> ba_id ` set (accounts (wdb v)) \<and> has_account u (ba_id a) (wdb x))"
    then have "hd added \<in> set added" using assms(2) by (cases added) auto
    with a show "wp (bind (seed_quietly env b u (ba_id (hd added))) (\<lambda>_.
         or_error evs (connectedAccounts env u) (\<lambda>accs. reply_ok evs (map of_row added, accs))))
        (\<lambda>_ w'. evolves ex (wdb v) (wdb w')) (\<lambda>_ w'. evolves ex (wdb v) (wdb w')) x"
      unfolding wp_bind by (intro wp_mono[OF wp_seed_quietly] tail) auto
  qed (auto simp: wp_simps)
qed

lemma safely_ConnectAccounts:
  assumes "bank_inv (wdb w)"
  shows "safely ex (ConnectAccounts env u body) w"
proof -
  have main: "safely ex (if ins = [] then or_error [] (connectedAccounts env userID) (\<lambda>accs. reply_ok [] ([], accs))
     else bind (needs_seeding env userID) (\<lambda>b. or_error [] (insert_candidates userID ins) (\<lambda>added.
       bind (seed_quietly env b userID (ba_id (hd added))) (\<lambda>_.
       or_error evs (connectedAccounts env userID) (\<lambda>accs. reply_ok evs (map of_row added, accs)))))) v"
    if "bank_inv (wdb v)" "ins = to_insert env userID keys sel banks" for ins userID keys sel banks evs v
    using that
    by (intro safely_if safely_or_error[OF safely_reads[OF reads_account_queries(1)]]
        safely_after_reads[OF reads_account_queries(4)] safely_connect_inserts safely_replies)
      (auto dest: evolvesD(1) candidate_balance)
  show ?thesis
    unfolding ConnectAccounts_def Let_def
    by (intro safely_with_user safely_with_body assms, clarsimp simp: safely_replies assms split: prod.split)
      (intro conjI impI safely_or_error[OF safely_reads[OF reads_account_queries(2)]]
        safely_or_error[OF safely_reads[OF reads_account_queries(3)]] main; auto simp: assms dest: evolvesD(1))
qed

lemma safely_UnlinkAccount:
  assumes "bank_inv (wdb w)"
  shows "safely ex (UnlinkAccount env parse u s) w"
proof -
  have k: "safely ex (if n = 0 then (case ae_idbi env of
        Some l \<Rightarrow> (case l u of
           Inr accs \<Rightarrow> if list_ex (\<lambda>a. ae_sha1 env idbiAcctNamespace (ia_number a) = i) accs then
               (case ae_revoke env u of Some e \<Rightarrow> ret (HErr e, []) | None \<Rightarrow> reply_ok evs m1)
             else ret (HErr (NotFound m2), [])
         | Inl _ \<Rightarrow> ret (HErr (NotFound m2), []))
      | None \<Rightarrow> ret (HErr (NotFound m2), []))
     else reply_ok evs m3) v" if "bank_inv (wdb v)" for n i u evs m1 m2 m3 v
    using that by (auto simp: safely_replies split: option.split sum.split)
  show ?thesis
    unfolding UnlinkAccount_def
    by (intro safely_with_user assms)
      (auto split: sum.split intro!: safely_replies assms safely_or_error[OF safely_unlink] k dest: evolvesD(1))
qed

end
