(* ===== verification/BankRuns.thy ===== *)
theory BankRuns
  imports Ledger
begin

text \<open>
  Any sequence of operations on the users' money, whatever calls fail in between: what the
  tables keep, what a payment's key is worth, and what a mandate that ended can still do.
\<close>

section \<open>The machine\<close>

datatype bank_op =
    OpPay uuid PaymentRequest
  | OpMandate uuid MandateRequest
  | OpAction uuid string string
  | OpList uuid string
  | OpHistory uuid string int int
  | OpSummary uuid
  | OpOpen uuid OpenRequest
  | OpWithdraw uuid string "money option"
  | OpAdd uuid AddBankAccountRequest
  | OpConnect uuid "string list" "string list"
  | OpUnlink uuid string

text \<open>What the process is configured with: \<open>uuid.Parse\<close>, the account handler, cancelled contexts.\<close>

record bank_cfg =
  bc_parse :: "string \<Rightarrow> string + uuid"
  bc_env :: accounts_env
  bc_ctx :: "string \<Rightarrow> nat \<Rightarrow> bool"

definition parse_of :: "bank_cfg \<Rightarrow> string \<Rightarrow> uuid option" where
  "parse_of cfg s = (case bc_parse cfg s of Inl _ \<Rightarrow> None | Inr u \<Rightarrow> Some u)"

definition quiet :: "(bank_db, 'a) act \<Rightarrow> (bank_db, Payment option) act" where
  "quiet m = bind m (\<lambda>_. ret None)"

text \<open>The result is the payment a payment request is answered with.\<close>

fun bank_step :: "bank_cfg \<Rightarrow> bank_op \<Rightarrow> (bank_db, Payment option) act" where
  "bank_step cfg (OpPay u req) = bind (InitiatePayment (parse_of cfg) u req) (\<lambda>p. ret (Some p))"
| "bank_step cfg (OpMandate u req) = quiet (CreateMandate (parse_of cfg) u req)"
| "bank_step cfg (OpAction u i a) = quiet (MandateAction u i a)"
| "bank_step cfg (OpList u s) = quiet (ListMandates (bc_ctx cfg) u s)"
| "bank_step cfg (OpHistory u i l f) = quiet (MandateHistory (bc_ctx cfg) u i l f)"
| "bank_step cfg (OpSummary u) = quiet (RecurringSummary_of (bc_ctx cfg) u)"
| "bank_step cfg (OpOpen u req) = quiet (OpenFD (parse_of cfg) u req)"
| "bank_step cfg (OpWithdraw u n x) = quiet (Withdraw u n x)"
| "bank_step cfg (OpAdd u req) = quiet (AddAccount (bc_env cfg) (Some u) (Inr req))"
| "bank_step cfg (OpConnect u sel bs) = quiet (ConnectAccounts (bc_env cfg) (Some u) (Inr (sel, bs)))"
| "bank_step cfg (OpUnlink u s) = quiet (UnlinkAccount (bc_env cfg) (bc_parse cfg) (Some u) s)"

text \<open>The amounts a request names are whole paise; \<open>exact\<close> runs have no early withdrawal.\<close>

fun op_paise :: "bank_op \<Rightarrow> bool" where
  "op_paise (OpPay u req) = paise (pr_amount req)"
| "op_paise (OpOpen u req) = paise (or_principal req)"
| "op_paise (OpWithdraw u n x) = (case x of None \<Rightarrow> True | Some y \<Rightarrow> paise y)"
| "op_paise _ = True"

fun op_exact :: "bank_op \<Rightarrow> bool" where
  "op_exact (OpWithdraw u n x) = False"
| "op_exact _ = True"

lemma safely_quiet: "safely ex m w \<Longrightarrow> safely ex (quiet m) w"
  unfolding quiet_def by (rule safely_bind) (auto intro: safely_ret)

lemma safely_step:
  assumes "bank_inv (wdb w)" "op_paise oper" "exact \<longrightarrow> op_exact oper"
  shows "safely exact (bank_step cfg oper) w"
  using assms
  by (cases oper)
    (auto intro!: safely_quiet safely_lists safely_CreateMandate safely_MandateAction safely_OpenFD safely_Withdraw
      safely_AddAccount safely_ConnectAccounts safely_UnlinkAccount safely_bind[OF safely_InitiatePayment] safely_ret
      split: option.splits)

interpretation bank: guarded_service "bank_step cfg" "\<lambda>oper. op_paise oper \<and> (exact \<longrightarrow> op_exact oper)" "evolves exact d0"
  for cfg exact d0
proof unfold_locales
  fix oper and w :: "bank_db world"
  assume o: "op_paise oper \<and> (exact \<longrightarrow> op_exact oper)" and e: "evolves exact d0 (wdb w)"
  from o have "safely exact (bank_step cfg oper) w" by (intro safely_step evolvesD(1)[OF e]) auto
  then show "wp (bank_step cfg oper) (\<lambda>_ w'. evolves exact d0 (wdb w')) (\<lambda>_ w'. evolves exact d0 (wdb w')) w"
    unfolding safely_def by (rule wp_mono) (auto intro: evolves_trans[OF e])
qed

section \<open>Money\<close>

lemma run_evolves:
  assumes "bank_inv (wdb w)" "list_all (\<lambda>x. op_paise (fst x) \<and> (exact \<longrightarrow> op_exact (fst x))) es"
  shows "evolves exact (wdb w) (wdb (run_ops (bank_step cfg) w es))"
  using bank.run_keeps[OF assms(2) evolves_refl[OF assms(1)]] .


section \<open>One payment per key\<close>

definition answers :: "string \<Rightarrow> uuid \<Rightarrow> Payment \<Rightarrow> bank_db \<Rightarrow> bool" where
  "answers txn u p d \<longleftrightarrow> (\<exists>r. payment_of txn u d = Some r \<and> p = scanPayment r)"

lemma answers_extends: "extends d d' \<Longrightarrow> answers txn u p d \<Longrightarrow> answers txn u p d'"
  by (auto simp: answers_def payment_of_def extends_def prefix_def first_row_def split: list.splits)

lemma pay_answers:
  assumes "InitiatePayment parse u req w = (Inr p, w')"
  shows "answers (pr_txn req) u p (wdb w')" "answers (pr_txn req) u q (wdb w) \<Longrightarrow> p = q"
proof -
  have r: "case payment_of (pr_txn req) u (wdb w) of Some r \<Rightarrow> p = scanPayment r \<and> wdb w' = wdb w
      | None \<Rightarrow> payment_made parse u req (wdb w) p (wdb w')"
    using wp_returns[OF wp_InitiatePayment assms] .
  then show "answers (pr_txn req) u q (wdb w) \<Longrightarrow> p = q" by (auto simp: answers_def)
  show "answers (pr_txn req) u p (wdb w')"
  proof (cases "payment_of (pr_txn req) u (wdb w)")
    case (Some a)
    then show ?thesis using r by (auto simp: answers_def)
  next
    case None
    then show ?thesis using r by (auto simp: answers_def payment_made_def payment_of_def paid_def)
  qed
qed

lemma length_filter_key: "distinct (map k xs) \<Longrightarrow> length (filter (\<lambda>r. k r = v) xs) \<le> 1"
  by (induction xs) (auto simp: filter_empty_conv image_iff)

text \<open>All answers a run gives to one key of one user.\<close>

definition replies_to :: "string \<Rightarrow> uuid \<Rightarrow> (bank_op \<times> (goerr + Payment option)) list \<Rightarrow> Payment set" where
  "replies_to txn u rs = {p. \<exists>req. pr_txn req = txn \<and> (OpPay u req, Inr (Some p)) \<in> set rs}"

lemma step_pay_result:
  "bank_step cfg (OpPay u req) w = (Inr (Some p), w') \<Longrightarrow> InitiatePayment (parse_of cfg) u req w = (Inr p, w')"
  by (auto simp: bind_def ret_def split: prod.splits sum.splits)

lemma replies_answered:
  assumes "bank_inv (wdb w)" "list_all (\<lambda>x. op_paise (fst x)) es" "answers txn u q (wdb w)"
  shows "replies_to txn u (results (bank_step cfg) w es) \<subseteq> {q}"
  using assms
proof (induction es arbitrary: w)
  case Nil
  then show ?case by (simp add: replies_to_def)
next
  case (Cons x es)
  obtain oper e where x: "x = (oper, e)" by (cases x)
  obtain r w' where s: "bank_step cfg oper (next_world w e) = (r, w')" by fastforce
  have "evolves False (wdb w) (wdb w')"
    using bank.step_keeps[of oper False "wdb w" "next_world w e" cfg] Cons.prems(1,2) s x
    by (simp add: evolves_refl)
  then have "replies_to txn u (results (bank_step cfg) w' es) \<subseteq> {q}"
    using Cons.prems by (intro Cons.IH) (auto dest: evolvesD intro: answers_extends)
  moreover have "p = q" if "oper = OpPay u req" "pr_txn req = txn" "r = Inr (Some p)" for p req
    using pay_answers(2)[OF step_pay_result, of cfg u req "next_world w e" p w' q] s that Cons.prems(3) by auto
  ultimately show ?case using s by (auto simp: x replies_to_def)
qed


section \<open>Mandates that ended\<close>



section \<open>A small bank\<close>

definition demo_account :: "uuid \<Rightarrow> uuid \<Rightarrow> money \<Rightarrow> bank_account" where
  "demo_account i u b = \<lparr>ba_id = i, ba_user = u, ba_name = ''Axis Bank'', ba_type = ''SAVINGS'', ba_balance = b,
     ba_created = 1, ba_unlinked = None, ba_number = None\<rparr>"

definition demo_row :: "string \<Rightarrow> int \<Rightarrow> string \<Rightarrow> mandate_row" where
  "demo_row i nextDay status = \<lparr>md_id = i, md_user = ''u1'', md_account = ''a1'', md_type = ''UPI_AUTOPAY'', md_upi = None,
     md_payee = Some ''Netflix'', md_vpa = None, md_category = ''SUBSCRIPTION'', md_max = 600, md_frequency = ''MONTHLY'',
     md_start = 0, md_end = None, md_next = nextDay, md_status = status, md_approved = None, md_created = 0\<rparr>"

definition demo_bank :: bank_db where
  "demo_bank = \<lparr>accounts = [demo_account ''a1'' ''u1'' 1000, demo_account ''a2'' ''u2'' 50], payments = [],
     mandates = [demo_row ''m1'' (-40) ''ACTIVE'', demo_row ''m2'' (-40) ''REVOKED''], executions = [], deposits = []\<rparr>"

definition bank_world :: "bank_db \<Rightarrow> bank_db world" where
  "bank_world d = \<lparr>wdb = d, wfaults = [], wnow = 0, wrand = [], wuuids = []\<rparr>"

definition demo_cfg :: bank_cfg where
  "demo_cfg = \<lparr>bc_parse = Inr, bc_env = \<lparr>ae_sha1 = (\<lambda>n s. n @ s), ae_idbi = None, ae_revoke = (\<lambda>_. None), ae_seeder = False,
     ae_events = False\<rparr>, bc_ctx = (\<lambda>_ _. False)\<rparr>"

definition demo_pay :: "string \<Rightarrow> money \<Rightarrow> PaymentRequest" where
  "demo_pay txn amount = \<lparr>pr_txn = txn, pr_amount = amount, pr_mode = ''CARD'', pr_upi = [], pr_account = [], pr_purpose = ''FD_BOOKING''\<rparr>"

text \<open>A payment, its key again with another amount, and a listing that settles the due mandate.\<close>

definition demo_run :: "(bank_op \<times> int \<times> bool list \<times> nat list \<times> uuid list) list" where
  "demo_run = [(OpPay ''u1'' (demo_pay ''t1'' 100), 0, [], [1, 2], []), (OpPay ''u1'' (demo_pay ''t1'' 700), 0, [], [3, 4], []),
     (OpList ''u1'' [], 0, [], [], [])]"

lemma demo_bank_inv: "bank_inv demo_bank"
  by code_simp

lemma demo_run_paise: "list_all (\<lambda>x. op_paise (fst x)) demo_run"
  by code_simp




end
