(* ===== verification/Mandates.thy ===== *)
theory Mandates
  imports BankRuns
begin

text \<open>
  What catching up does, against a pure account of it: \<open>settle\<close> runs the due cycles of one
  mandate on the row and the balance alone. With it, how long catching up takes, what a paused
  mandate owes when it resumes, and when the listing cannot be answered at all.
\<close>

section \<open>The calendar of debits\<close>

text \<open>
  Debit dates: the next debit of a mandate is one, three or twelve calendar months later -
  28 to 31, 89 to 92, 365 or 366 days - and a monthly one exactly the length of the month the
  last debit fell in later, so a debit on the 31st moves on into the month after the next.
\<close>

theorem nextDebitDate_gap:
  "nextDebitDate d f - d \<in>
     (if f = ''QUARTERLY'' then {89..92} else if f = ''YEARLY'' then {365..366}
      else {month_len (fst (civil d)) (fst (snd (civil d)))} \<inter> {28..31})"
proof -
  obtain y m k where c: "civil d = (y, m, k)" by (cases "civil d")
  note b = months_span_bounds[OF civil_props(1)[OF c], of y]
  have "months_span 1 (y, m) = month_len y m" by simp
  then show ?thesis
    using b add_months_span[OF c, of 1] add_months_span[OF c, of 3] add_year_span[OF c]
    by (auto simp: nextDebitDate_def c)
qed

lemma next_later: "d + 28 \<le> nextDebitDate d f"
proof -
  obtain y m k where c: "civil d = (y, m, k)" by (cases "civil d")
  note b = months_span_bounds[OF civil_props(1)[OF c], of y]
  then show ?thesis
    using add_months_span[OF c, of 1] add_months_span[OF c, of 3] add_year_span[OF c]
    by (auto simp: nextDebitDate_def)
qed

section \<open>A pure account of catching up\<close>

fun settle :: "uuid \<Rightarrow> int \<Rightarrow> nat \<Rightarrow> mandate_row \<Rightarrow> money \<Rightarrow> mandate_row \<times> money \<times> execution_row list" where
  "settle u t 0 m b = (m, b, [])"
| "settle u t (Suc k) m b =
     (if is_due t m then
        (case settle u t k (advanced_mandate m) (if b \<ge> md_max m then b - md_max m else b) of
           (m', b', es) \<Rightarrow> (m', b', execution_at u m b t # es))
      else (m, b, []))"

definition settled :: "uuid \<Rightarrow> mandate_row \<Rightarrow> mandate_row \<times> money \<times> execution_row list \<Rightarrow> bank_db \<Rightarrow> bank_db" where
  "settled u m = (\<lambda>(m', b', es) d. d\<lparr>
     accounts := update_where (owned u (md_account m)) (\<lambda>a. a\<lparr>ba_balance := b'\<rparr>) (accounts d),
     mandates := update_where (the_mandate (md_id m) u) (\<lambda>_. m') (mandates d),
     executions := executions d @ es\<rparr>)"

lemma advanced_sel [simp]:
  "md_id (advanced_mandate m) = md_id m" "md_user (advanced_mandate m) = md_user m"
  "md_account (advanced_mandate m) = md_account m" "md_max (advanced_mandate m) = md_max m"
  "md_next (advanced_mandate m) = nextDebitDate (md_next m) (md_frequency m)"
  by (simp_all add: advanced_mandate_def Let_def)

lemma advance_self: "advance_mandate m m = advanced_mandate m"
  by (simp add: advance_mandate_def advanced_mandate_def Let_def)

lemma settle_sel:
  "settle u t k m b = (m', b', es) \<Longrightarrow> md_id m' = md_id m \<and> md_user m' = md_user m \<and> md_account m' = md_account m"
  by (induction u t k m b arbitrary: m' b' es rule: settle.induct) (auto split: if_splits prod.splits)

lemma update_where_comp:
  "(\<And>x. p x \<Longrightarrow> p (f x)) \<Longrightarrow> update_where p g (update_where p f xs) = update_where p (\<lambda>x. g (f x)) xs"
  by (induction xs) auto

lemma settled_comp:
  assumes "md_id m1 = md_id m" "md_user m1 = u"
  shows "settled u m (m2, b2, es2) (settled u m (m1, b1, es1) d) = settled u m (m2, b2, es1 @ es2) d"
proof -
  have "update_where (owned u (md_account m)) (\<lambda>a. a\<lparr>ba_balance := b2\<rparr>) (update_where (owned u (md_account m)) (\<lambda>a. a\<lparr>ba_balance := b1\<rparr>) xs) =
      update_where (owned u (md_account m)) (\<lambda>a. a\<lparr>ba_balance := b2\<rparr>) xs" for xs
    by (subst update_where_comp) (simp_all add: owned_def)
  moreover have "update_where (the_mandate (md_id m) u) (\<lambda>_. m2) (update_where (the_mandate (md_id m) u) (\<lambda>_. m1) xs) =
      update_where (the_mandate (md_id m) u) (\<lambda>_. m2) xs" for xs
    using assms by (subst update_where_comp) (simp_all add: the_mandate_def)
  ultimately show ?thesis by (simp add: settled_def)
qed

lemma settled_none:
  assumes "bank_inv d" "mandate_of i u d = Some m" "live_account u (md_account m) d = Some a"
  shows "settled u m (m, ba_balance a, []) d = d"
proof -
  note D = bank_invD[OF assms(1)] and m = mandate_ofD[OF assms(2)]
  have "update_where (owned u (md_account m)) (\<lambda>x. x\<lparr>ba_balance := ba_balance a\<rparr>) (accounts d) = update_where (\<lambda>_. False) id (accounts d)"
    unfolding update_where_def using live_unique[OF D(1) assms(3)] by (intro map_cong) auto
  moreover have "update_where (the_mandate (md_id m) u) (\<lambda>_. m) (mandates d) = update_where (\<lambda>_. False) id (mandates d)"
    unfolding update_where_def using the_mandate_unique[OF D(3) assms(2)] m by (intro map_cong) (auto simp: the_mandate_def)
  ultimately show ?thesis by (simp add: settled_def update_where_def)
qed

text \<open>One cycle is one step of the account.\<close>

lemma cycled_settled:
  assumes "bank_inv d" "mandate_of i u d = Some m" "live_account u (md_account m) d = Some a"
  shows "cycled u m (ba_balance a) t d =
     settled u m (advanced_mandate m, if ba_balance a \<ge> md_max m then ba_balance a - md_max m else ba_balance a,
        [execution_at u m (ba_balance a) t]) d"
proof -
  note D = bank_invD[OF assms(1)] and m = mandate_ofD[OF assms(2)] and l = live_accountD[OF assms(3)]
  have r: "round2 (ba_balance a - md_max m) = ba_balance a - md_max m"
    using paise_diff[of "ba_balance a" "md_max m"] D(6)[of a] D(8)[of m] l m by (simp add: mandate_ok_def paise_def)
  have acc: "update_where (owned u (md_account m)) (\<lambda>x. x\<lparr>ba_balance := round2 (ba_balance x - md_max m)\<rparr>) (accounts d) =
      update_where (owned u (md_account m)) (\<lambda>x. x\<lparr>ba_balance := ba_balance a - md_max m\<rparr>) (accounts d)"
    by (rule update_where_cong_on) (use live_unique[OF D(1) assms(3)] r in auto)
  have same: "update_where (owned u (md_account m)) (\<lambda>x. x\<lparr>ba_balance := ba_balance a\<rparr>) (accounts d) = accounts d"
    using arg_cong[OF settled_none[OF assms], of accounts] by (simp add: settled_def)
  have man: "update_where (the_mandate (md_id m) u) (advance_mandate m) (mandates d) =
      update_where (the_mandate (md_id m) u) (\<lambda>_. advanced_mandate m) (mandates d)"
    by (rule update_where_cong_on) (use the_mandate_unique[OF D(3) assms(2)] m advance_self in \<open>auto simp: the_mandate_def\<close>)
  show ?thesis
    by (simp add: cycled_def executed_def settled_def set_mandate_def moved_def acc same man Let_def)
qed

lemma cycle_value:
  assumes "wfaults w = []" "mandate_of i u (wdb w) = Some m" "live_account u (md_account m) (wdb w) = Some a"
  shows "runOneMandateCycle u i w =
     (Inr (is_due (wnow w) m), w\<lparr>wdb := if is_due (wnow w) m then cycled u m (ba_balance a) (wnow w) (wdb w) else wdb w\<rparr>)"
  using assms mandate_ofD[OF assms(2)]
  by (auto simp: wp_eq_returns runOneMandateCycle_def wp_simps lock_balance_def execute_debit_def debit_def tick_no_faults
      cycled_def executed_def execution_at_def Let_def)

lemma settled_lookup:
  assumes "bank_inv d" "mandate_of i u d = Some m" "live_account u (md_account m) d = Some a"
    and "d' = settled u m (m1, b1, es) d" "md_id m1 = md_id m" "md_user m1 = md_user m" "md_account m1 = md_account m"
  shows "mandate_of i u d' = Some m1" "live_account u (md_account m1) d' = Some (a\<lparr>ba_balance := b1\<rparr>)"
proof -
  note D = bank_invD[OF assms(1)] and m = mandate_ofD[OF assms(2)] and l = live_accountD[OF assms(3)]
  have f: "filter (the_mandate i u) (mandates d) = [m]"
  proof -
    have "filter (the_mandate i u) (mandates d) = filter (\<lambda>x. md_id x = i) (mandates d)"
      by (rule filter_cong) (use the_mandate_unique[OF D(3) assms(2)] m in \<open>auto simp: the_mandate_def\<close>)
    then show ?thesis using filter_key_single[OF D(3), of m i] m by simp
  qed
  have "filter (the_mandate i u) (update_where (the_mandate i u) (\<lambda>_. m1) xs) = map (\<lambda>_. m1) (filter (the_mandate i u) xs)" for xs
    using assms(5,6) m by (induction xs) (auto simp: the_mandate_def)
  then show "mandate_of i u d' = Some m1" using f m by (simp add: mandate_of_def assms(4) settled_def)
  let ?p = "\<lambda>x. owned u (md_account m) x \<and> ba_unlinked x = None"
  have g: "filter ?p (accounts d) = [a]"
  proof -
    have "filter ?p (accounts d) = filter (\<lambda>x. ba_id x = md_account m) (accounts d)"
    proof (rule filter_cong[OF refl])
      fix x assume "x \<in> set (accounts d)"
      then have "ba_id x = md_account m \<Longrightarrow> x = a" using map_key_unique[OF D(1), of x a] l by simp
      then show "?p x \<longleftrightarrow> ba_id x = md_account m" using l by (auto simp: owned_def)
    qed
    then show ?thesis using filter_key_single[OF D(1), of a "md_account m"] l by simp
  qed
  have "filter ?p (update_where (owned u (md_account m)) (\<lambda>a. a\<lparr>ba_balance := b1\<rparr>) xs) = map (\<lambda>a. a\<lparr>ba_balance := b1\<rparr>) (filter ?p xs)" for xs
    by (induction xs) (auto simp: owned_def)
  then show "live_account u (md_account m1) d' = Some (a\<lparr>ba_balance := b1\<rparr>)"
    using g by (simp add: live_account_def assms(4,7) settled_def)
qed

lemma loop_settles:
  assumes "bank_inv (wdb w)" "wfaults w = []" "\<And>j. \<not> ctxErr j" "mandate_of i u (wdb w) = Some m"
    "live_account u (md_account m) (wdb w) = Some a"
  shows "catch_up_loop ctxErr u i n k w = (Inr (), w\<lparr>wdb := settled u m (settle u (wnow w) k m (ba_balance a)) (wdb w)\<rparr>)"
  using assms
proof (induction k arbitrary: w m a n)
  case 0
  then show ?case using settled_none[OF 0(1,4,5)] by (simp add: ret_def)
next
  case (Suc k)
  show ?case
  proof (cases "is_due (wnow w) m")
    case False
    then show ?thesis
      using Suc.prems settled_none[OF Suc.prems(1,4,5)]
      by (simp add: bind_def cycle_value[OF Suc.prems(2,4,5)] ret_def)
  next
    case True
    define b1 where "b1 = (if ba_balance a \<ge> md_max m then ba_balance a - md_max m else ba_balance a)"
    define e where "e = execution_at u m (ba_balance a) (wnow w)"
    let ?w1 = "w\<lparr>wdb := cycled u m (ba_balance a) (wnow w) (wdb w)\<rparr>"
    have c: "wdb ?w1 = settled u m (advanced_mandate m, b1, [e]) (wdb w)"
      using cycled_settled[OF Suc.prems(1,4,5)] by (simp add: b1_def e_def)
    have inv: "bank_inv (wdb ?w1)"
      using evolves_cycled[OF Suc.prems(1,4) True Suc.prems(5), of True] by (simp add: evolves_def)
    note look = settled_lookup[OF Suc.prems(1,4,5) c, simplified]
    have "catch_up_loop ctxErr u i (Suc n) k ?w1 = (Inr (), ?w1\<lparr>wdb := settled u (advanced_mandate m)
        (settle u (wnow ?w1) k (advanced_mandate m) (ba_balance (a\<lparr>ba_balance := b1\<rparr>))) (wdb ?w1)\<rparr>)"
      by (rule Suc.IH) (use inv look Suc.prems(2,3) in auto)
    then have ih: "catch_up_loop ctxErr u i (Suc n) k ?w1 =
        (Inr (), ?w1\<lparr>wdb := settled u (advanced_mandate m) (settle u (wnow w) k (advanced_mandate m) b1) (wdb ?w1)\<rparr>)"
      by simp
    obtain m' b' es where s: "settle u (wnow w) k (advanced_mandate m) b1 = (m', b', es)" by (cases "settle u (wnow w) k (advanced_mandate m) b1")
    have "settled u (advanced_mandate m) (m', b', es) (wdb ?w1) = settled u m (m', b', es) (wdb ?w1)"
      by (simp add: settled_def)
    also have "\<dots> = settled u m (m', b', e # es) (wdb w)"
      unfolding c using mandate_ofD[OF Suc.prems(4)] by (subst settled_comp) auto
    finally show ?thesis
      using True Suc.prems(2) Suc.prems(3)[of n] ih s by (simp add: bind_def cycle_value[OF Suc.prems(2,4,5)] b1_def e_def)
  qed
qed


text \<open>The hypotheses of a settlement: consistent tables, no failing call, a mandate on a linked account.\<close>

definition settles :: "(nat \<Rightarrow> bool) \<Rightarrow> uuid \<Rightarrow> string \<Rightarrow> mandate_row \<Rightarrow> bank_account \<Rightarrow> bank_db world \<Rightarrow> bool" where
  "settles ctxErr u i m a w \<longleftrightarrow> bank_inv (wdb w) \<and> wfaults w = [] \<and> ctxErr = (\<lambda>_. False) \<and> mandate_of i u (wdb w) = Some m \<and>
     live_account u (md_account m) (wdb w) = Some a"

lemma catch_up_value:
  "settles ctxErr u i m a w \<Longrightarrow>
   catchUpMandate ctxErr u i k w = (Inr (), w\<lparr>wdb := settled u m (settle u (wnow w) k m (ba_balance a)) (wdb w)\<rparr>)"
  unfolding settles_def catchUpMandate_def by (elim conjE) (rule loop_settles, auto)


section \<open>How long it takes\<close>

lemma settle_add:
  "settle u t (j + k) m b = (case settle u t j m b of (m1, b1, es1) \<Rightarrow>
     (case settle u t k m1 b1 of (m2, b2, es2) \<Rightarrow> (m2, b2, es1 @ es2)))"
proof (induction u t j m b rule: settle.induct)
  case (1 u t m b)
  then show ?case by (simp split: prod.split)
next
  case (2 u t j m b)
  have "\<not> is_due t m \<Longrightarrow> settle u t k m b = (m, b, [])" by (cases k) auto
  then show ?case using 2 by (auto split: prod.splits)
qed

lemma due_day: "is_due t m \<longleftrightarrow> md_status m = ''ACTIVE'' \<and> md_next m \<le> day_of t"
  using date_after[of t "md_next m"] by (auto simp: is_due_def)

lemma settle_done: "day_of t - md_next m < 28 * int k \<Longrightarrow> \<not> is_due t (fst (settle u t k m b))"
proof (induction u t k m b rule: settle.induct)
  case (1 u t m b)
  then show ?case by (simp add: due_day)
next
  case (2 u t k m b)
  have "day_of t - md_next (advanced_mandate m) < 28 * int k"
    using 2(2) next_later[of "md_next m" "md_frequency m"] by simp
  then show ?case using 2(1) by (auto split: prod.splits)
qed

lemma settle_count: "settle u t k m b = (m', b', es) \<Longrightarrow> length es \<le> k"
  by (induction u t k m b arbitrary: m' b' es rule: settle.induct) (auto split: if_splits prod.splits)

lemma settled_settles:
  assumes "settles ctxErr u i m a w" "settle u (wnow w) k m (ba_balance a) = (m1, b1, es)"
  shows "settles ctxErr u i m1 (a\<lparr>ba_balance := b1\<rparr>) (w\<lparr>wdb := settled u m (m1, b1, es) (wdb w)\<rparr>)"
proof -
  note h = assms(1)[unfolded settles_def]
  have v: "catchUpMandate ctxErr u i k w = (Inr (), w\<lparr>wdb := settled u m (m1, b1, es) (wdb w)\<rparr>)"
    using catch_up_value[OF assms(1), of k] assms(2) by simp
  have "safely True (catchUpMandate ctxErr u i k) w" using h by (simp add: catchUpMandate_def safely_catch_up)
  then have "bank_inv (settled u m (m1, b1, es) (wdb w))"
    unfolding safely_def by (auto simp: wp_def v dest: evolvesD)
  moreover note settled_lookup[of "wdb w" i u m a "settled u m (m1, b1, es) (wdb w)" m1 b1 es] settle_sel[OF assms(2)]
  ultimately show ?thesis using h by (simp add: settles_def)
qed

text \<open>Successive reads, each with the budget of a read.\<close>

definition successive_reads :: "(nat \<Rightarrow> bool) \<Rightarrow> uuid \<Rightarrow> string \<Rightarrow> nat \<Rightarrow> (bank_db, unit) act" where
  "successive_reads ctxErr u i n = foreach (\<lambda>_. catchUpMandate ctxErr u i maxCatchUpPerRead) [0..<n]"

lemma reads_value:
  "settles ctxErr u i m a w \<Longrightarrow>
   foreach (\<lambda>_. catchUpMandate ctxErr u i k) xs w =
     (Inr (), w\<lparr>wdb := settled u m (settle u (wnow w) (k * length xs) m (ba_balance a)) (wdb w)\<rparr>)"
proof (induction xs arbitrary: m a w)
  case Nil
  then show ?case using settled_none[of "wdb w" i u m a] by (simp add: settles_def ret_def)
next
  case (Cons x xs)
  obtain m1 b1 es1 where s: "settle u (wnow w) k m (ba_balance a) = (m1, b1, es1)" by (cases "settle u (wnow w) k m (ba_balance a)")
  obtain m2 b2 es2 where s2: "settle u (wnow w) (k * length xs) m1 b1 = (m2, b2, es2)" by (cases "settle u (wnow w) (k * length xs) m1 b1")
  note n = settled_settles[OF Cons.prems s] and sel = settle_sel[OF s]
  have "settled u m1 (m2, b2, es2) d = settled u m (m2, b2, es2) d" for d
    using sel by (simp add: settled_def)
  moreover have "settled u m (m2, b2, es2) (settled u m (m1, b1, es1) (wdb w)) = settled u m (m2, b2, es1 @ es2) (wdb w)"
    using sel Cons.prems mandate_ofD[of i u "wdb w" m] by (intro settled_comp) (auto simp: settles_def)
  ultimately show ?case
    using Cons.IH[OF n] s s2 by (simp add: bind_def catch_up_value[OF Cons.prems] settle_add[of u "wnow w" k "k * length xs"])
qed



section \<open>Resuming\<close>

definition with_status :: "string \<Rightarrow> mandate_row \<Rightarrow> mandate_row" where
  "with_status s m = m\<lparr>md_status := s\<rparr>"

lemma resume_value:
  assumes "wfaults w = []" "mandate_of i u (wdb w) = Some m" "md_status m = ''PAUSED''"
  shows "MandateAction u i ''RESUME'' w =
    (Inr \<lparr>ar_mandate = i, ar_status = ''ACTIVE'', ar_from = Epoch (wnow w)\<rparr>,
     w\<lparr>wdb := set_mandate i u (with_status ''ACTIVE'') (wdb w)\<rparr>)"
  using assms
  by (simp add: wp_eq_returns MandateAction_def mandateTransitions_def wp_simps tick_no_faults with_status_def[abs_def])

lemma with_status_lookup:
  assumes "mandate_of i u d = Some m"
  shows "mandate_of i u (set_mandate i u (with_status s) d) = Some (with_status s m)"
proof -
  have "filter (the_mandate i u) (update_where (the_mandate i u) (with_status s) xs) = map (with_status s) (filter (the_mandate i u) xs)" for xs
    by (induction xs) (auto simp: the_mandate_def with_status_def)
  then show ?thesis using assms by (auto simp: mandate_of_def set_mandate_def first_row_def split: list.splits)
qed

lemma with_status_sel [simp]:
  "md_key (with_status s m) = md_key m" "md_account (with_status s m) = md_account m" "md_max (with_status s m) = md_max m"
  "md_next (with_status s m) = md_next m" "md_status (with_status s m) = s" "md_id (with_status s m) = md_id m"
  by (simp_all add: with_status_def md_key_def)

lemma settle_le: "settle u t k m b = (m', b', es) \<Longrightarrow> 0 \<le> md_max m \<Longrightarrow> b' \<le> b"
proof (induction u t k m b arbitrary: m' b' es rule: settle.induct)
  case (1 u t m b)
  then show ?case by simp
next
  case (2 u t k m b)
  show ?case
  proof (cases "is_due t m")
    case True
    obtain m1 b1 es1 where s: "settle u t k (advanced_mandate m) (if md_max m \<le> b then b - md_max m else b) = (m1, b1, es1)"
      by (metis prod_cases3)
    have "b1 \<le> (if md_max m \<le> b then b - md_max m else b)" using 2(1)[OF True s] 2(3) by simp
    then show ?thesis using 2(2,3) True s by (auto split: if_splits)
  next
    case False
    then show ?thesis using 2(2) by simp
  qed
qed

text \<open>
  Resuming charges for the pause: a mandate whose debit fell due while it was paused keeps
  that date, so with consistent tables, no failing call and the money in the account, the first
  read after a successful RESUME executes a paid debit dated inside the pause, and the account
  is poorer by at least that amount.
\<close>

theorem resume_back_charges:
  assumes "bank_inv (wdb w)" "wfaults w = []" "mandate_of i u (wdb w) = Some m" "live_account u (md_account m) (wdb w) = Some a"
    and "md_status m = ''PAUSED''" "md_next m \<le> day_of (wnow w)" "md_max m \<le> ba_balance a"
  shows "case MandateAction u i ''RESUME'' w of (r, w1) \<Rightarrow>
     (\<exists>x. r = Inr x \<and> ar_status x = ''ACTIVE'') \<and>
     (case catchUpMandate (\<lambda>_. False) u i maxCatchUpPerRead w1 of (_, w2) \<Rightarrow>
       \<exists>e es. executions (wdb w2) = executions (wdb w) @ e # es \<and> ex_mandate e = i \<and> ex_date e = md_next m \<and>
         ex_status e = ''SUCCESS'' \<and> ex_amount e = md_max m \<and>
         balance_of (md_account m) (wdb w2) \<le> ba_balance a - md_max m)"
proof -
  let ?m = "with_status ''ACTIVE'' m"
  let ?w = "w\<lparr>wdb := set_mandate i u (with_status ''ACTIVE'') (wdb w)\<rparr>"
  note m = mandate_ofD[OF assms(3)]
  have a1: "live_account u (md_account m) (wdb ?w) = Some a" using assms(4) by (simp add: live_account_def set_mandate_def)
  have s: "settles (\<lambda>_. False) u i ?m a ?w"
    using assms(1-4) with_status_lookup[OF assms(3)] a1 inv_set_mandate[OF assms(1), of "with_status ''ACTIVE''" i u] by (simp add: settles_def)
  have due: "is_due (wnow ?w) ?m" using assms(6) by (simp add: due_day)
  obtain m' b' es where st: "settle u (wnow w) 2 (advanced_mandate ?m) (ba_balance a - md_max m) = (m', b', es)"
    by (cases "settle u (wnow w) 2 (advanced_mandate ?m) (ba_balance a - md_max m)")
  have three: "settle u (wnow ?w) maxCatchUpPerRead ?m (ba_balance a) = (m', b', execution_at u ?m (ba_balance a) (wnow w) # es)"
    using due st assms(7) by (simp add: maxCatchUpPerRead_def numeral_3_eq_3 numeral_2_eq_2)
  have "0 \<le> md_max m" using bank_invD(8)[OF assms(1), of m] m by (simp add: mandate_ok_def)
  then have b': "b' \<le> ba_balance a - md_max m" using settle_le[OF st] by simp
  let ?d = "settled u ?m (m', b', execution_at u ?m (ba_balance a) (wnow w) # es) (wdb ?w)"
  have after: "settles (\<lambda>_. False) u i m' (a\<lparr>ba_balance := b'\<rparr>) (?w\<lparr>wdb := ?d\<rparr>)" by (rule settled_settles[OF s three])
  then have "balance_of (md_account m) ?d = b'"
    using balance_of_live[OF bank_invD(1), of ?d u "md_account m'"] settle_sel[OF three] by (simp add: settles_def)
  then have bal: "balance_of (md_account m) ?d \<le> ba_balance a - md_max m" using b' by simp
  have e: "ex_mandate (execution_at u ?m (ba_balance a) t) = i" "ex_date (execution_at u ?m (ba_balance a) t) = md_next m"
    "ex_status (execution_at u ?m (ba_balance a) t) = ''SUCCESS''" "ex_amount (execution_at u ?m (ba_balance a) t) = md_max m" for t
    using m assms(7) by (simp_all add: execution_at_def)
  have x: "executions ?d = executions (wdb w) @ execution_at u ?m (ba_balance a) (wnow w) # es"
    by (simp add: settled_def set_mandate_def)
  have v: "catchUpMandate (\<lambda>_. False) u i maxCatchUpPerRead ?w = (Inr (), ?w\<lparr>wdb := ?d\<rparr>)"
    using catch_up_value[OF s, of maxCatchUpPerRead] three by simp
  show ?thesis
    unfolding resume_value[OF assms(2,3,5)] prod.case v
  proof
    show "\<exists>x. Inr \<lparr>ar_mandate = i, ar_status = ''ACTIVE'', ar_from = Epoch (wnow w)\<rparr> = (Inr x :: goerr + MandateActionResult) \<and>
        ar_status x = ''ACTIVE''" by simp
    show "\<exists>e es. executions (wdb (?w\<lparr>wdb := ?d\<rparr>)) = executions (wdb w) @ e # es \<and> ex_mandate e = i \<and> ex_date e = md_next m \<and>
         ex_status e = ''SUCCESS'' \<and> ex_amount e = md_max m \<and>
         balance_of (md_account m) (wdb (?w\<lparr>wdb := ?d\<rparr>)) \<le> ba_balance a - md_max m"
      using bal e x by (intro exI[of _ "execution_at u ?m (ba_balance a) (wnow w)"] exI[of _ es]) simp
  qed
qed

section \<open>When the mandates cannot be listed\<close>

text \<open>An error the client sees only as a 500.\<close>

definition server_error :: "goerr \<Rightarrow> bool" where
  "server_error e \<longleftrightarrow> root e \<in> {Some ErrDB, Some ErrNoRows, Some ErrConstraint}"

lemma server_error_wrap [simp]: "server_error (Wrap s e) = server_error e"
  "server_error (Sent ErrDB)" "server_error (Sent ErrNoRows)" "server_error (Sent ErrConstraint)"
  by (simp_all add: server_error_def)

lemma server_error_500: "server_error e \<Longrightarrow> api_error drv (Some e) = internal_response"
  by (auto simp: server_error_def api_error_def error_scan_map_of mapped_def split: option.splits)

definition blocked :: "uuid \<Rightarrow> mandate_row \<Rightarrow> int \<Rightarrow> bank_db world \<Rightarrow> bool" where
  "blocked u m t v \<longleftrightarrow> wnow v = t \<and> mandate_of (md_id m) u (wdb v) = Some m \<and> live_account u (md_account m) (wdb v) = None"

lemma fails_lock: "fails_with server_error (lock_balance u i)"
  unfolding lock_balance_def by (intro fails_intros) simp_all

lemma fails_debit: "fails_with server_error (execute_debit u m b)"
  unfolding execute_debit_def debit_def by (intro fails_intros) simp_all

lemma fails_cycle: "fails_with server_error (runOneMandateCycle u i)"
  unfolding runOneMandateCycle_def
  by (intro fails_intros) (simp_all add: fails_lock fails_debit)

lemma timed_cycle: "timed (runOneMandateCycle u i)"
  unfolding runOneMandateCycle_def lock_balance_def execute_debit_def debit_def by (intro clock_intros)

lemma cycled_frame:
  assumes "mandate_of i u d = Some m'" "mandate_of (md_id m) u d = Some m" "live_account u (md_account m) d = None"
    "live_account u (md_account m') d = Some a" "md_user m = u"
  shows "mandate_of (md_id m) u (cycled u m' b t d) = Some m" "live_account u (md_account m) (cycled u m' b t d) = None"
proof -
  have ne: "md_id m' \<noteq> md_id m"
  proof
    assume "md_id m' = md_id m"
    then have "Some m' = Some m" using assms(1,2) mandate_ofD[OF assms(1)] by metis
    then have "m' = m" by simp
    then show False using assms(3,4) by simp
  qed
  then have "filter (the_mandate (md_id m) u) (update_where (the_mandate (md_id m') u) f xs) = filter (the_mandate (md_id m) u) xs"
    if "\<And>x. the_mandate (md_id m) u (f x) = the_mandate (md_id m) u x" for f xs
    using that by (intro filter_update_where_other) (auto simp: the_mandate_def)
  moreover have "the_mandate (md_id m) u (advance_mandate m' x) = the_mandate (md_id m) u x" for x
    by (simp add: the_mandate_def advance_mandate_def)
  ultimately show "mandate_of (md_id m) u (cycled u m' b t d) = Some m"
    using assms(2) by (simp add: mandate_of_def cycled_def set_mandate_def executed_def Let_def)
  have none: "filter (\<lambda>x. owned u (md_account m) x \<and> ba_unlinked x = None) (accounts d) = []"
    using assms(3) by (simp add: live_account_def)
  have "filter (\<lambda>x. owned u (md_account m) x \<and> ba_unlinked x = None)
      (update_where p (\<lambda>x. x\<lparr>ba_balance := round2 (ba_balance x - c)\<rparr>) (accounts d)) = []" for p c
    by (rule filter_update_where_Nil[OF none]) (simp add: owned_def)
  then show "live_account u (md_account m) (cycled u m' b t d) = None"
    using none by (simp add: live_account_def cycled_def set_mandate_def executed_def moved_def Let_def)
qed

lemma wp_cycle_blocked:
  assumes "blocked u m t w" "is_due t m"
  shows "wp (runOneMandateCycle u i) (\<lambda>_ v. blocked u m t v \<and> i \<noteq> md_id m) (\<lambda>e _. server_error e) w"
proof -
  have b: "wnow w = t" "mandate_of (md_id m) u (wdb w) = Some m" "live_account u (md_account m) (wdb w) = None"
    using assms(1) by (auto simp: blocked_def)
  note m = mandate_ofD[OF b(2)]
  show ?thesis
    by (rule wp_mono[OF fails_with_wp[OF fails_cycle wp_timed[OF timed_cycle wp_cycle]]])
      (use b assms(2) m in \<open>auto simp: blocked_def cycled_frame split: option.splits if_splits\<close>)
qed

lemma wp_loop_blocked:
  assumes "is_due t m"
  shows "blocked u m t w \<Longrightarrow> wp (catch_up_loop (\<lambda>_. False) u i j k) (\<lambda>_ v. blocked u m t v \<and> (k = 0 \<or> i \<noteq> md_id m)) (\<lambda>e _. server_error e) w"
proof (induction k arbitrary: j w)
  case 0
  then show ?case by (simp add: wp_simps)
next
  case (Suc k)
  have "wp (if \<not> b then ret () else catch_up_loop (\<lambda>_. False) u i (Suc j) k)
      (\<lambda>_ v. blocked u m t v \<and> (Suc k = 0 \<or> i \<noteq> md_id m)) (\<lambda>e _. server_error e) v"
    if "blocked u m t v \<and> i \<noteq> md_id m" for b v
    using that by (auto simp: wp_simps intro!: wp_mono[OF Suc.IH])
  then show ?case
    unfolding catch_up_loop.simps if_False wp_bind by (intro wp_mono[OF wp_cycle_blocked[OF Suc.prems assms]]) auto
qed

lemma wp_process_blocked:
  assumes "blocked u m t w" "is_due t m"
  shows "wp (processDueMandates (\<lambda>_ _. False) u maxCatchUpPerRead) (\<lambda>_ _. False) (\<lambda>e _. server_error e) w"
proof -
  have m: "mandate_of (md_id m) u (wdb w) = Some m" "wnow w = t" using assms(1) by (simp_all add: blocked_def)
  have i: "md_id m \<in> set (due_ids u t (wdb w))"
    using mandate_ofD[OF m(1)] assms(2) by (auto simp: due_ids_def due_day)
  have "wp (foreach (\<lambda>i. catchUpMandate (\<lambda>_. False) u i maxCatchUpPerRead) (due_ids u t (wdb w))) (\<lambda>_ _. False) (\<lambda>e _. server_error e) (tick w)"
  proof (rule wp_foreach_stuck[OF _ i, where I = "blocked u m t"])
    show "blocked u m t (tick w)" using assms(1) by (simp add: blocked_def)
    show "wp (catchUpMandate (\<lambda>_. False) u y maxCatchUpPerRead) (\<lambda>_ v. blocked u m t v \<and> y \<noteq> md_id m) (\<lambda>e _. server_error e) v"
      if "blocked u m t v" for y v
      using wp_loop_blocked[OF assms(2) that, of y 0 maxCatchUpPerRead]
      by (simp add: catchUpMandate_def maxCatchUpPerRead_def)
  qed
  then show ?thesis using m by (simp add: processDueMandates_def wp_simps)
qed

lemma wp_read_blocked:
  assumes "blocked u m t v" "is_due t m"
  shows "wp (bind (processDueMandates (\<lambda>_ _. False) u maxCatchUpPerRead) k) (\<lambda>_ _. False) (\<lambda>e _. server_error e) v"
  unfolding wp_bind by (rule wp_mono[OF wp_process_blocked[OF assms]]) auto

lemma blocked_insert:
  "blocked u m t v \<Longrightarrow> mandate_fits x (wdb v) \<Longrightarrow> wnow v' = wnow v \<Longrightarrow>
   wdb v' = (wdb v)\<lparr>mandates := mandates (wdb v) @ [x]\<rparr> \<Longrightarrow> blocked u m t v'"
  using mandate_ofD[of "md_id m" u "wdb v" m]
  by (auto simp: blocked_def mandate_fits_def mandate_of_def the_mandate_def live_account_def first_row_def split: list.splits)

lemma wp_seed_blocked:
  assumes "blocked u m t w"
  shows "wp (seedDemoSubscriptions u) (\<lambda>_. blocked u m t) (\<lambda>e _. server_error e) w"
proof -
  have b: "blocked u m t (tick v) = blocked u m t v" "blocked u m t (v\<lparr>wrand := r\<rparr>) = blocked u m t v" for v r
    by (simp_all add: blocked_def)
  have one: "wp (bind (newID ''MNDT'') (\<lambda>i. wrapping s (insert_mandate (f i)))) (\<lambda>_. blocked u m t) (\<lambda>e _. server_error e) v"
    if "blocked u m t v" for s f v
    using that by (auto simp: newID_def insert_mandate_def wp_simps b split: list.split intro: blocked_insert)
  have loop: "wp (foreach (\<lambda>ds. bind (newID ''MNDT'') (\<lambda>i. wrapping (s ds) (insert_mandate (f i ds)))) xs)
      (\<lambda>_. blocked u m t) (\<lambda>e _. server_error e) v" if "blocked u m t v" for s f v and xs :: "'z list"
    by (rule wp_foreach_inv[OF one that])
  show ?thesis
    using assms by (auto simp: seedDemoSubscriptions_def GetPrimaryBankAccount_def wp_simps b intro!: loop split: option.split)
qed

text \<open>
  When a user's mandates cannot be read: with no linked account and no subscription yet, the
  listing always fails; and one due mandate whose account was unlinked makes the listing, every
  mandate's history and the monthly summary fail, whatever calls fail besides. The client sees
  the generic 500 each time.
\<close>

theorem listing_needs_accounts:
  fixes w :: "bank_db world"
  shows "(linked u (wdb w) = [] \<and> (\<forall>m \<in> set (mandates (wdb w)). \<not> (md_user m = u \<and> md_category m = ''SUBSCRIPTION'')) \<longrightarrow>
      (\<exists>e w'. ListMandates ctx u st w = (Inl e, w') \<and> api_error drv (Some e) = internal_response)) \<and>
    (mandate_of i u (wdb w) = Some m \<and> md_status m = ''ACTIVE'' \<and> md_next m \<le> day_of (wnow w) \<and>
      live_account u (md_account m) (wdb w) = None \<longrightarrow>
      (\<exists>e w'. ListMandates (\<lambda>_ _. False) u st w = (Inl e, w') \<and> api_error drv (Some e) = internal_response) \<and>
      (\<exists>e w'. MandateHistory (\<lambda>_ _. False) u j l f w = (Inl e, w') \<and> api_error drv (Some e) = internal_response) \<and>
      (\<exists>e w'. RecurringSummary_of (\<lambda>_ _. False) u w = (Inl e, w') \<and> api_error drv (Some e) = internal_response))"
proof (intro conjI impI)
  have out: "\<exists>e w'. a = (Inl e, w') \<and> api_error drv (Some e) = internal_response"
    if "wp act (\<lambda>_ _. False) (\<lambda>e _. server_error e) w" "a = act w" for act a
    using that server_error_500 by (auto simp: wp_def split: prod.splits sum.splits)
  have "wp (ListMandates ctx u st) (\<lambda>_ _. False) (\<lambda>e _. server_error e) w"
    if "linked u (wdb w) = []" "\<forall>m \<in> set (mandates (wdb w)). \<not> (md_user m = u \<and> md_category m = ''SUBSCRIPTION'')"
    using that by (auto simp: ListMandates_def seedDemoSubscriptions_def GetPrimaryBankAccount_def wp_simps list_ex_iff)
  then show "\<exists>e w'. ListMandates ctx u st w = (Inl e, w') \<and> api_error drv (Some e) = internal_response"
    if "linked u (wdb w) = [] \<and> (\<forall>m \<in> set (mandates (wdb w)). \<not> (md_user m = u \<and> md_category m = ''SUBSCRIPTION''))"
    using out that by blast
  assume "mandate_of i u (wdb w) = Some m \<and> md_status m = ''ACTIVE'' \<and> md_next m \<le> day_of (wnow w) \<and>
      live_account u (md_account m) (wdb w) = None"
  then have b: "blocked u m (wnow w) w" and d: "is_due (wnow w) m"
    using mandate_ofD[of i u "wdb w" m] by (auto simp: blocked_def due_day)
  note stop = wp_read_blocked[OF _ d]
  show "\<exists>e w'. ListMandates (\<lambda>_ _. False) u st w = (Inl e, w') \<and> api_error drv (Some e) = internal_response"
    unfolding ListMandates_def by (rule out[OF wp_seq[OF wp_seed_blocked[OF b] stop]]) simp_all
  show "\<exists>e w'. MandateHistory (\<lambda>_ _. False) u j l f w = (Inl e, w') \<and> api_error drv (Some e) = internal_response"
    unfolding MandateHistory_def by (rule out[OF stop[OF b] refl])
  show "\<exists>e w'. RecurringSummary_of (\<lambda>_ _. False) u w = (Inl e, w') \<and> api_error drv (Some e) = internal_response"
    unfolding RecurringSummary_of_def by (rule out[OF stop[OF b] refl])
qed

section \<open>A payment the balance does not cover\<close>

lemma resolve_server:
  "account_for parse u s (wdb w) = Some acc \<Longrightarrow> wp (resolveBankAccountID parse u s) (\<lambda>_ _. True) (\<lambda>e _. server_error e) w"
  by (auto simp: resolveBankAccountID_def GetPrimaryBankAccount_def account_for_def wp_simps split: option.splits if_splits)

lemma fails_paying: "fails_with server_error (bind (wrapping s (lock_balance u acc)) (\<lambda>bal. bind (newID p) (\<lambda>i. bind time_now (\<lambda>now.
    bind (decide_payment u req acc bal (blank_payment u req acc i now)) (\<lambda>pay. bind (wrapping s' (insert_payment pay)) (\<lambda>_. ret (scanPayment pay)))))))"
  unfolding lock_balance_def newID_def decide_payment_def debit_def insert_payment_def by (intro fails_intros) simp_all

text \<open>
  A payment the balance does not cover is never recorded: the FAILURE row carries the code
  \<open>INSUFFICIENT_FUNDS\<close>, longer than its column, so a valid new request naming an account that
  holds less is answered with the generic 500 and leaves the tables as they were - the client
  never sees the refusal, and may retry with the same key.
\<close>

theorem insufficient_funds_unrecorded:
  assumes "validatePaymentRequest req = None" "payment_of (pr_txn req) u (wdb w) = None"
    and "account_for parse u (pr_account req) (wdb w) = Some acc" "live_account u acc (wdb w) = Some a" "ba_balance a < pr_amount req"
  shows "\<exists>e w'. InitiatePayment parse u req w = (Inl e, w') \<and> wdb w' = wdb w \<and> api_error drv (Some e) = internal_response"
proof -
  have "wp (new_payment parse u req) (\<lambda>_ _. True) (\<lambda>e _. server_error e) v" if "wdb v = wdb w" for v
    unfolding new_payment_def using resolve_server[of parse u "pr_account req" v acc] assms(3) that
    by (auto simp: wp_bind[of "resolveBankAccountID parse u s" for s] intro!: wp_mono[OF resolve_server] fails_withD[OF fails_paying])
  then have e: "wp (InitiatePayment parse u req) (\<lambda>_ _. True) (\<lambda>e _. server_error e) w"
    using assms(1,2) by (auto simp: InitiatePayment_def wp_simps intro!: wp_mono[of "new_payment parse u req"])
  have "\<not> payment_made parse u req (wdb w) p d'" for p d'
    using assms(3-5) by (auto simp: payment_made_def)
  then have "wp (InitiatePayment parse u req) (\<lambda>_ _. False) (\<lambda>e w'. wdb w' = wdb w \<and> server_error e) w"
    using wp_mono[OF wp_conj[OF wp_InitiatePayment e]] assms(2) by simp
  then show ?thesis using server_error_500 by (auto simp: wp_def split: prod.splits sum.splits)
qed

section \<open>A due mandate, concretely\<close>

lemma demo_world:
  "bank_inv (wdb (bank_world demo_bank))" "wfaults (bank_world demo_bank) = []"
  "mandate_of ''m1'' ''u1'' (wdb (bank_world demo_bank)) = Some (demo_row ''m1'' (-40) ''ACTIVE'')"
  "live_account ''u1'' (md_account (demo_row ''m1'' (-40) ''ACTIVE'')) (wdb (bank_world demo_bank)) = Some (demo_account ''a1'' ''u1'' 1000)"
  by code_simp+



definition paused_bank :: bank_db where
  "paused_bank = demo_bank\<lparr>mandates := [demo_row ''m1'' (-40) ''PAUSED'']\<rparr>"

lemma resume_back_charges_witness:
  "\<exists>e es. executions (wdb (snd (catchUpMandate (\<lambda>_. False) ''u1'' ''m1'' 3
       (snd (MandateAction ''u1'' ''m1'' ''RESUME'' (bank_world paused_bank)))))) = e # es \<and> ex_status e = ''SUCCESS'' \<and> ex_date e = -40"
proof -
  have "bank_inv (wdb (bank_world paused_bank))" "wfaults (bank_world paused_bank) = []"
    "mandate_of ''m1'' ''u1'' (wdb (bank_world paused_bank)) = Some (demo_row ''m1'' (-40) ''PAUSED'')"
    "live_account ''u1'' (md_account (demo_row ''m1'' (-40) ''PAUSED'')) (wdb (bank_world paused_bank)) = Some (demo_account ''a1'' ''u1'' 1000)"
    "md_status (demo_row ''m1'' (-40) ''PAUSED'') = ''PAUSED''"
    "md_next (demo_row ''m1'' (-40) ''PAUSED'') \<le> day_of (wnow (bank_world paused_bank))"
    "md_max (demo_row ''m1'' (-40) ''PAUSED'') \<le> ba_balance (demo_account ''a1'' ''u1'' 1000)" by code_simp+
  note resume_back_charges[OF this]
  moreover have "executions (wdb (bank_world paused_bank)) = []" "md_next (demo_row ''m1'' (-40) ''PAUSED'') = -40" by code_simp+
  ultimately show ?thesis by (auto simp: maxCatchUpPerRead_def split: prod.splits)
qed

definition unlinked_bank :: bank_db where
  "unlinked_bank = demo_bank\<lparr>accounts := map (\<lambda>a. a\<lparr>ba_unlinked := Some 1\<rparr>) (accounts demo_bank)\<rparr>"

lemma listing_needs_accounts_witness:
  "(\<exists>e w'. ListMandates (\<lambda>_ _. False) ''u3'' [] (bank_world demo_bank) = (Inl e, w') \<and> api_error (\<lambda>_. []) (Some e) = internal_response) \<and>
   (\<exists>e w'. RecurringSummary_of (\<lambda>_ _. False) ''u1'' (bank_world unlinked_bank) = (Inl e, w') \<and> api_error (\<lambda>_. []) (Some e) = internal_response)"
proof -
  have "linked ''u3'' (wdb (bank_world demo_bank)) = []"
    "\<forall>m \<in> set (mandates (wdb (bank_world demo_bank))). \<not> (md_user m = ''u3'' \<and> md_category m = ''SUBSCRIPTION'')" by code_simp+
  moreover have "mandate_of ''m1'' ''u1'' (wdb (bank_world unlinked_bank)) = Some (demo_row ''m1'' (-40) ''ACTIVE'')"
    "md_status (demo_row ''m1'' (-40) ''ACTIVE'') = ''ACTIVE''"
    "md_next (demo_row ''m1'' (-40) ''ACTIVE'') \<le> day_of (wnow (bank_world unlinked_bank))"
    "live_account ''u1'' (md_account (demo_row ''m1'' (-40) ''ACTIVE'')) (wdb (bank_world unlinked_bank)) = None" by code_simp+
  ultimately show ?thesis
    using listing_needs_accounts[of "''u3''" "bank_world demo_bank" "\<lambda>_ _. False" "[]" "\<lambda>_. []"]
      listing_needs_accounts[of "''u1''" "bank_world unlinked_bank" "\<lambda>_ _. False" "[]" "\<lambda>_. []" "''m1''"]
    by blast
qed

lemma insufficient_funds_unrecorded_witness:
  "\<exists>e w'. InitiatePayment (parse_of demo_cfg) ''u1'' (demo_pay ''t9'' 2000) (bank_world demo_bank) = (Inl e, w') \<and>
     wdb w' = demo_bank \<and> api_error (\<lambda>_. []) (Some e) = internal_response"
proof -
  have "validatePaymentRequest (demo_pay ''t9'' 2000) = None"
    "payment_of (pr_txn (demo_pay ''t9'' 2000)) ''u1'' (wdb (bank_world demo_bank)) = None"
    "account_for (parse_of demo_cfg) ''u1'' (pr_account (demo_pay ''t9'' 2000)) (wdb (bank_world demo_bank)) = Some ''a1''"
    "live_account ''u1'' ''a1'' (wdb (bank_world demo_bank)) = Some (demo_account ''a1'' ''u1'' 1000)"
    "ba_balance (demo_account ''a1'' ''u1'' 1000) < pr_amount (demo_pay ''t9'' 2000)" by code_simp+
  from insufficient_funds_unrecorded[OF this, of "\<lambda>_. []"] show ?thesis by (simp add: bank_world_def)
qed

end
