(* ===== verification/SpendBase.thy ===== *)
theory SpendBase
  imports GoStrings GoTime Money
begin

text \<open>
  The ground of the spend analytics engine (\<open>internal/service/analytics/engine.go\<close>): the
  transaction, the windows and sums every analyzer uses, means and deviations, weekdays and the
  calendar buckets of a trend. Amounts, ratios and means are exact rationals, a standard
  deviation is a real; instants are nanoseconds in UTC.
\<close>

section \<open>Transactions\<close>

definition TxnDebit :: string where "TxnDebit = ''DEBIT''"
definition TxnCredit :: string where "TxnCredit = ''CREDIT''"

record txn =
  t_id :: string
  t_amount :: money
  t_type :: string
  t_category :: string
  t_merchant :: string
  t_at :: int

text \<open>
  Go leaves the order of a range over a map, and the order of ties in \<open>sort.Slice\<close>, open:
  \<open>rg_names\<close> and \<open>rg_days\<close> are the order it happens to take, a permutation of the keys.
\<close>

record ranging =
  rg_names :: "string list \<Rightarrow> string list"
  rg_days :: "int list \<Rightarrow> int list"

definition ranging_ok :: "ranging \<Rightarrow> bool" where
  "ranging_ok rg \<longleftrightarrow> (\<forall>ks. set (rg_names rg ks) = set ks \<and> (distinct ks \<longrightarrow> distinct (rg_names rg ks))) \<and>
     (\<forall>ks. set (rg_days rg ks) = set ks \<and> (distinct ks \<longrightarrow> distinct (rg_days rg ks)))"

section \<open>Sums, means, deviations\<close>

definition safeDiv :: "rat \<Rightarrow> rat \<Rightarrow> rat" where
  "safeDiv a b = (if b = 0 then 0 else a / b)"

definition safeDivR :: "real \<Rightarrow> real \<Rightarrow> real" where
  "safeDivR a b = (if b = 0 then 0 else a / b)"

definition inRange :: "int \<Rightarrow> int \<Rightarrow> int \<Rightarrow> bool" where
  "inRange t from to \<longleftrightarrow> \<not> t < from \<and> \<not> t > to"

definition debitsInRange :: "txn list \<Rightarrow> int \<Rightarrow> int \<Rightarrow> txn list" where
  "debitsInRange txns from to = filter (\<lambda>t. t_type t = TxnDebit \<and> inRange (t_at t) from to) txns"

definition creditsInRange :: "txn list \<Rightarrow> int \<Rightarrow> int \<Rightarrow> txn list" where
  "creditsInRange txns from to = filter (\<lambda>t. t_type t = TxnCredit \<and> inRange (t_at t) from to) txns"

definition total :: "txn list \<Rightarrow> money" where
  "total txns = sum_list (map t_amount txns)"

definition sumAmount :: "txn list \<Rightarrow> money" where
  "sumAmount txns = round2 (total txns)"

definition mean :: "rat list \<Rightarrow> rat" where
  "mean vals = (if vals = [] then 0 else sum_list vals / of_nat (length vals))"

definition stddev :: "rat list \<Rightarrow> real" where
  "stddev vals = (if length vals < 2 then 0
     else let m = mean vals in sqrt (of_rat (sum_list (map (\<lambda>v. (v - m) * (v - m)) vals) / of_nat (length vals))))"

definition round2_real :: "real \<Rightarrow> real" where
  "round2_real v = (if 0 \<le> v then of_int \<lfloor>v * 100 + 1/2\<rfloor> else of_int \<lceil>v * 100 - 1/2\<rceil>) / 100"

text \<open>The keys of a map filled while ranging over a slice.\<close>

definition keys_of :: "(txn \<Rightarrow> string) \<Rightarrow> txn list \<Rightarrow> string list" where
  "keys_of f txns = remdups (map f txns)"

definition of_key :: "(txn \<Rightarrow> string) \<Rightarrow> string \<Rightarrow> txn list \<Rightarrow> txn list" where
  "of_key f k txns = filter (\<lambda>t. f t = k) txns"

text \<open>\<open>sort.Slice(xs, func(i, j) bool { return xs[i].k > xs[j].k })\<close>\<close>

definition sort_down :: "('a \<Rightarrow> rat) \<Rightarrow> 'a list \<Rightarrow> 'a list" where
  "sort_down k xs = sort_key (\<lambda>x. - k x) xs"

section \<open>Weekdays and dates\<close>

text \<open>Sunday is 0; day 0 was a Thursday.\<close>

definition weekday :: "int \<Rightarrow> int" where
  "weekday t = (day_of t + 4) mod 7"

definition weekday_names :: "string list" where
  "weekday_names = [''Sunday'', ''Monday'', ''Tuesday'', ''Wednesday'', ''Thursday'', ''Friday'', ''Saturday'']"

definition weekday_name :: "int \<Rightarrow> string" where
  "weekday_name t = weekday_names ! nat (weekday t)"

definition isWeekend :: "int \<Rightarrow> bool" where
  "isWeekend t \<longleftrightarrow> weekday t = 6 \<or> weekday t = 0"

text \<open>\<open>Format("2006-01-02")\<close> and \<open>Format("2006-01")\<close>\<close>

definition month_text :: "int \<Rightarrow> nat \<Rightarrow> string" where
  "month_text y m = pad_zero 4 (itoa y) @ ''-'' @ pad_zero 2 (itoa_nat (m + 1))"

definition dateKey :: "int \<Rightarrow> string" where
  "dateKey t = (case civil (day_of t) of (y, m, d) \<Rightarrow> month_text y m @ ''-'' @ pad_zero 2 (itoa d))"

text \<open>Midnight of the day, and of the first of the month, of an instant.\<close>

definition midnight :: "int \<Rightarrow> int" where
  "midnight t = day_of t * day_ns"

definition month_first :: "int \<Rightarrow> int" where
  "month_first t = (case civil (day_of t) of (y, m, _) \<Rightarrow> date_days y (int m) 1 * day_ns)"

definition days_between :: "int \<Rightarrow> int \<Rightarrow> rat" where
  "days_between s t = of_int (t - s) / of_int day_ns"

lemma date_days_add: "date_days y m (d + k) = date_days y m d + k"
  by (simp add: date_days_def Let_def)

lemma add_date_days [simp]: "add_date 0 0 k n = n + k"
proof -
  obtain y m d where c: "civil n = (y, m, d)" by (cases "civil n")
  show ?thesis using date_days_civil[OF c] by (simp add: add_date_def c date_days_add)
qed

lemma AddDate_days: "AddDate 0 0 k t = t + k * day_ns"
  by (simp add: AddDate_def day_of_def algebra_simps)

section \<open>Counting weekdays\<close>

function count_days :: "int \<Rightarrow> int \<Rightarrow> nat \<times> nat" where
  "count_days d to = (if d < to then
      (case count_days (AddDate 0 0 1 d) to of (wd, we) \<Rightarrow> if isWeekend d then (wd, Suc we) else (Suc wd, we))
    else (0, 0))"
  by auto
termination by (relation "measure (\<lambda>(d, to). nat (to - d))") (auto simp: AddDate_days)

declare count_days.simps [simp del]

definition countDaysByKind :: "int \<Rightarrow> int \<Rightarrow> nat \<times> nat" where
  "countDaysByKind from to = (case count_days from to of (wd, we) \<Rightarrow>
     (if wd = 0 then 1 else wd, if we = 0 then 1 else we))"

section \<open>Calendar buckets\<close>

text \<open>Start and end of each bucket, oldest first; the last one ends now.\<close>

definition bucket_start :: "string \<Rightarrow> int \<Rightarrow> nat \<Rightarrow> int" where
  "bucket_start period now back =
     (if period = ''weekly'' then
        (let wd = (if weekday now = 0 then 7 else weekday now);
             currentWeekStart = AddDate 0 0 (- (wd - 1)) (midnight now)
         in AddDate 0 0 (- 7 * int back) currentWeekStart)
      else if period = ''monthly'' then AddDate 0 (- int back) 0 (month_first now)
      else AddDate 0 0 (- int back) (midnight now))"

definition bucket_end :: "string \<Rightarrow> int \<Rightarrow> int" where
  "bucket_end period start =
     (if period = ''weekly'' then AddDate 0 0 7 start - 1
      else if period = ''monthly'' then AddDate 0 1 0 start - 1
      else AddDate 0 0 1 start - 1)"

definition calendarBuckets :: "int \<Rightarrow> string \<Rightarrow> nat \<Rightarrow> (int \<times> int) list" where
  "calendarBuckets now period numBuckets = map (\<lambda>i.
     let back = numBuckets - 1 - i; start = bucket_start period now back
     in (start, if i = numBuckets - 1 then now else bucket_end period start)) [0..<numBuckets]"

end
