(* ===== verification/BudgetData.thy ===== *)
theory BudgetData
  imports SpendBase ApiResponse
begin

text \<open>
  The data of the budget feature: the wire types of \<open>internal/domain/budget/models.go\<close>, the
  tables of migrations 25 and 26, the in-process caches of the service and the messages of the
  remote model (\<open>internal/provider/budget/mlclient.go\<close>). Columns no code reads back are left
  out; a NULL text the code reads through COALESCE is the empty string; the foreign key to the
  users table is not modelled.
\<close>

section \<open>JSON documents\<close>

datatype json = JNull | JBool bool | JNum rat | JStr string | JArr "json list" | JObj "(string \<times> json) list"

text \<open>
  \<open>json.Unmarshal\<close> into a float, a map of floats, a map of maps, a list of floats: an element of
  another kind is stored as the zero value, a document of another kind leaves nothing.
\<close>

definition json_float :: "json \<Rightarrow> rat" where
  "json_float j = (case j of JNum x \<Rightarrow> x | _ \<Rightarrow> 0)"

definition json_floats :: "json \<Rightarrow> (string \<times> rat) list" where
  "json_floats j = (case j of JObj kvs \<Rightarrow> map (\<lambda>(k, v). (k, json_float v)) kvs | _ \<Rightarrow> [])"

definition json_nested :: "json \<Rightarrow> (string \<times> (string \<times> rat) list) list" where
  "json_nested j = (case j of JObj kvs \<Rightarrow> map (\<lambda>(k, v). (k, json_floats v)) kvs | _ \<Rightarrow> [])"

definition json_list :: "json \<Rightarrow> rat list" where
  "json_list j = (case j of JArr xs \<Rightarrow> map json_float xs | _ \<Rightarrow> [])"

section \<open>Categories\<close>

record GlobalCategory =
  gc_id :: uuid
  gc_name :: string
  gc_display :: string
  gc_description :: string
  gc_icon :: string
  gc_color :: string
  gc_active :: bool
  gc_sort :: int

record cat_row = GlobalCategory +
  gc_aliases :: "string list"

record CategoryMeta =
  cm_id :: uuid
  cm_name :: string
  cm_display :: string
  cm_icon :: string
  cm_color :: string

type_synonym cat_index = "(string \<times> CategoryMeta) list"

section \<open>Diagnosis and suggestions\<close>

record DiagnosisRequest =
  dq_month :: string
  dq_force :: bool

record HistoricalSpendingEntry =
  he_month :: int
  he_year :: int
  he_income :: money
  he_expenses :: money
  he_savings :: money

record DiagnosisInsight =
  di_title :: string
  di_text :: string
  di_severity :: string

record SuggestedCategory =
  sg_id :: string
  sg_name :: string
  sg_icon :: string
  sg_color :: string
  sg_amount :: money
  sg_conf :: rat
  sg_bounds :: "rat list"
  sg_reason :: string

record BudgetDiagnosisResponse =
  dg_month :: string
  dg_history :: "HistoricalSpendingEntry list"
  dg_income :: money
  dg_expenses :: money
  dg_savings :: money
  dg_total :: money
  dg_cats :: "SuggestedCategory list"
  dg_reasoning :: "string list"
  dg_insights :: "DiagnosisInsight list"
  dg_at :: int

record SuggestCategoriesRequest =
  sq_total :: money
  sq_month :: string
  sq_overrides :: "(string \<times> rat) list"

record ConflictDetails =
  cf_type :: string
  cf_problem :: string
  cf_overage :: money
  cf_conflicts :: "string list"

record SuggestCategoriesResponse =
  sp_status :: string
  sp_total :: money
  sp_version :: string
  sp_cats :: "SuggestedCategory list"
  sp_conflict :: "ConflictDetails option"

text \<open>The body of a conflict: the remote one's bytes, the details built here, or a marshalled answer.\<close>

datatype raw_body = RawBytes string | RawDetails ConflictDetails | RawResponse SuggestCategoriesResponse

section \<open>Setup sessions\<close>

record CategoryAllocation =
  al_id :: string
  al_name :: string
  al_icon :: string
  al_color :: string
  al_amount :: money
  al_track :: bool
  al_hidden :: bool

record UpdateSessionRequest =
  uq_total :: "money option"
  uq_allocs :: "CategoryAllocation list option"

record SessionRow =
  sr_id :: uuid
  sr_month :: string
  sr_total :: "money option"
  sr_allocs :: "CategoryAllocation list"
  sr_status :: string
  sr_expires :: int

record session_row = SessionRow +
  sr_user :: uuid
  sr_created :: int

section \<open>Budgets and settings\<close>

record budget_row =
  bu_id :: uuid
  bu_user :: uuid
  bu_cat :: uuid
  bu_type :: string
  bu_year :: int
  bu_month :: int
  bu_amount :: money
  bu_active :: bool
  bu_hidden :: bool
  bu_notes :: string
  bu_created :: int
  bu_updated :: int

record BudgetRow =
  br_id :: uuid
  br_cat :: uuid
  br_type :: string
  br_name :: string
  br_icon :: string
  br_color :: string
  br_year :: int
  br_month :: int
  br_amount :: money
  br_active :: bool
  br_hidden :: bool
  br_notes :: string
  br_created :: int
  br_updated :: int

record FinalizedAllocation =
  fa_cat :: uuid
  fa_amount :: money
  fa_hidden :: bool

record settings_row =
  st_user :: uuid
  st_income :: "money option"
  st_limit :: "money option"
  st_essential :: "string list"
  st_bills :: "string list"
  st_reset :: "int option"

record UpdateSettingsRequest =
  us_income :: "money option"
  us_limit :: "money option"
  us_essential :: "string list option"
  us_bills :: "string list option"

record Budget =
  bg_row :: BudgetRow
  bg_budgeted :: money
  bg_spent :: money
  bg_remaining :: money
  bg_pct :: rat
  bg_status :: string

record LatestBudgetResponse =
  lb_budgets :: "Budget list"
  lb_count :: nat
  lb_year :: int
  lb_month :: int
  lb_total :: money
  lb_spent :: money
  lb_income :: money
  lb_remaining :: int
  lb_projected :: money
  lb_start :: string
  lb_end :: string
  lb_status :: string
  lb_health :: rat
  lb_updated :: string

record StatusResponse =
  sx_active :: bool
  sx_month :: string
  sx_total :: money
  sx_count :: nat
  sx_latest_year :: int
  sx_latest_month :: int
  sx_draft :: "uuid option"

record SettingsResponse =
  sv_income :: "money \<times> string"
  sv_limit :: "money \<times> string"
  sv_essential :: "string list"
  sv_essential_total :: money
  sv_bills :: "string list"
  sv_bills_total :: money
  sv_reset :: "string option"

record BudgetInsight =
  bi_id :: string
  bi_title :: string
  bi_text :: string
  bi_severity :: string
  bi_category :: string
  bi_saving :: money
  bi_action :: string

section \<open>Reallocation and feedback\<close>

record Reallocation =
  rl_from :: string
  rl_to :: string
  rl_amount :: money
  rl_reason :: string

record RunReallocationRequest =
  rq_target :: string
  rq_ratio :: rat
  rq_debug :: bool

record ApplyReallocationRequest =
  aq_session :: string
  aq_month :: string
  aq_moves :: "Reallocation list"

record RespondSuggestionRequest =
  pq_action :: string
  pq_values :: "(string \<times> json) list"
  pq_reason :: string

record realloc_row =
  rs_id :: uuid
  rs_user :: uuid
  rs_target :: string
  rs_status :: string

record move_row =
  mv_session :: uuid
  mv_move :: Reallocation
  mv_status :: string

record SuggestionRow =
  sn_id :: uuid
  sn_user :: uuid
  sn_session :: "uuid option"
  sn_type :: string
  sn_target :: string
  sn_moves :: "Reallocation list"
  sn_uncovered :: money
  sn_conf :: rat
  sn_priority :: string
  sn_response :: string
  sn_reason :: "string option"
  sn_created :: int

record CooldownRow =
  cd_id :: uuid
  cd_user :: uuid
  cd_type :: string
  cd_from :: string
  cd_to :: string
  cd_category :: string
  cd_until :: int
  cd_count :: int
  cd_reason :: string
  cd_active :: bool

record LearnedParams =
  lp_donor :: json
  lp_relations :: json
  lp_adherence :: json
  lp_weights :: json
  lp_ridge :: json
  lp_month :: string

record learned_row = LearnedParams +
  lp_user :: uuid
  lp_version :: int

section \<open>The tables and the service's memory\<close>

record ttlEntry =
  te_data :: BudgetDiagnosisResponse
  te_exp :: int

type_synonym ttlCache = "(string \<times> ttlEntry) list"

record budget_db =
  categories :: "cat_row list"
  budgets :: "budget_row list"
  sessions :: "session_row list"
  bsettings :: "settings_row list"
  learned :: "learned_row list"
  reallocs :: "realloc_row list"
  moves :: "move_row list"
  suggestions :: "SuggestionRow list"
  cooldowns :: "CooldownRow list"
  spend :: "(uuid \<times> txn) list"
  cat_cache :: "cat_index option"
  cat_expires :: int
  diag_cache :: ttlCache

section \<open>The remote model\<close>

record MonthlyVital =
  vi_month :: string
  vi_salary :: money
  vi_expense :: money
  vi_savings :: money

type_synonym cat_history = "(string \<times> (money \<times> string) list) list"

record MLDiagnosisRequest =
  mq_user :: uuid
  mq_month :: string
  mq_vitals :: "MonthlyVital list"
  mq_history :: cat_history
  mq_learned :: "(string \<times> json) list"

record MLDiagnosisResponse =
  mr_total :: money
  mr_cats :: "SuggestedCategory list"
  mr_insights :: "DiagnosisInsight list"
  mr_learned :: "(string \<times> json) list"

record MLSuggestRequest =
  mg_user :: uuid
  mg_total :: money
  mg_month :: string
  mg_overrides :: "(string \<times> rat) list"
  mg_protected :: "string list"
  mg_history :: cat_history

record MLRecommendation =
  mc_type :: string
  mc_category :: string
  mc_message :: string
  mc_severity :: string
  mc_suggestion :: string
  mc_reasoning :: string

record MLRunReallocationRequest =
  mn_budgets :: "(string \<times> money) list"
  mn_spend :: "(string \<times> money) list"
  mn_history :: cat_history
  mn_target :: string
  mn_ratio :: rat
  mn_debug :: bool
  mn_relations :: "(string \<times> rat) list"
  mn_donor :: "(string \<times> rat) list"
  mn_adherence :: "(string \<times> (string \<times> rat) list) list"
  mn_weights :: "rat list"

record RunReallocationData =
  rd_message :: string
  rd_initial :: "(string \<times> money) list"
  rd_updated :: "(string \<times> money) list"
  rd_spend :: "(string \<times> money) list"
  rd_moves :: "Reallocation list"
  rd_uncovered :: money
  rd_target :: string
  rd_overspent :: money

record ApplyReallocationData =
  ad_message :: string
  ad_moves :: "Reallocation list"
  ad_budget :: "(string \<times> money) list"

record MLLearnRequest =
  ml_budgets :: "(string \<times> money) list"
  ml_type :: string
  ml_action :: string
  ml_moves :: "Reallocation list"
  ml_values :: "(string \<times> json) list"

text \<open>
  What comes back from the remote host: nothing, or a status, the bytes of the body, and the
  body decoded as the expected type (if it decodes). The host is a parameter of the service.
\<close>

datatype 'r reply = NoReply | Reply int string "'r option"

record ml_service =
  at_diagnosis :: "uuid \<Rightarrow> MLDiagnosisRequest \<Rightarrow> MLDiagnosisResponse reply"
  at_suggest :: "uuid \<Rightarrow> MLSuggestRequest \<Rightarrow> SuggestCategoriesResponse reply"
  at_recommend :: "uuid \<Rightarrow> string \<Rightarrow> (MLRecommendation list) reply"
  at_run :: "uuid \<Rightarrow> string \<Rightarrow> MLRunReallocationRequest \<Rightarrow> RunReallocationData reply"
  at_apply :: "uuid \<Rightarrow> string \<Rightarrow> string \<Rightarrow> string \<Rightarrow> Reallocation list \<Rightarrow> ApplyReallocationData reply"
  at_learn :: "uuid \<Rightarrow> MLLearnRequest \<Rightarrow> ((string \<times> json) list) reply"

datatype ml_error = Unavailable | MLConflict string

definition ml_do :: "'r reply \<Rightarrow> ml_error + 'r" where
  "ml_do r = (case r of
       NoReply \<Rightarrow> Inl Unavailable
     | Reply status payload body \<Rightarrow>
         if status = 409 then Inl (MLConflict payload)
         else if status \<ge> 400 then Inl Unavailable
         else (case body of None \<Rightarrow> Inl Unavailable | Some b \<Rightarrow> Inr b))"

definition ml_Diagnosis :: "ml_service \<Rightarrow> uuid \<Rightarrow> MLDiagnosisRequest \<Rightarrow> ml_error + MLDiagnosisResponse" where
  "ml_Diagnosis ml u req = ml_do (at_diagnosis ml u req)"

definition ml_SuggestCategories :: "ml_service \<Rightarrow> uuid \<Rightarrow> MLSuggestRequest \<Rightarrow> ml_error + SuggestCategoriesResponse" where
  "ml_SuggestCategories ml u req = ml_do (at_suggest ml u req)"

definition ml_Recommendations :: "ml_service \<Rightarrow> uuid \<Rightarrow> string \<Rightarrow> ml_error + MLRecommendation list" where
  "ml_Recommendations ml u budgetName = ml_do (at_recommend ml u budgetName)"

definition ml_RunReallocation :: "ml_service \<Rightarrow> uuid \<Rightarrow> string \<Rightarrow> MLRunReallocationRequest \<Rightarrow> ml_error + RunReallocationData" where
  "ml_RunReallocation ml u budgetName req = ml_do (at_run ml u budgetName req)"

definition ml_ApplyReallocation :: "ml_service \<Rightarrow> uuid \<Rightarrow> string \<Rightarrow> string \<Rightarrow> string \<Rightarrow> Reallocation list \<Rightarrow> ml_error + ApplyReallocationData" where
  "ml_ApplyReallocation ml u budgetName month sessionID ms = ml_do (at_apply ml u budgetName month sessionID ms)"

definition ml_Learn :: "ml_service \<Rightarrow> uuid \<Rightarrow> MLLearnRequest \<Rightarrow> ml_error + (string \<times> json) list" where
  "ml_Learn ml u req = ml_do (at_learn ml u req)"

end
