(* ===== verification/BudgetStore.thy ===== *)
theory BudgetStore
  imports BudgetData
begin

text \<open>
  The statements of \<open>internal/repository/budget_repo.go\<close> and
  \<open>internal/repository/budget_reallocation_repo.go\<close>, and the reading of a user's transactions
  (\<open>internal/provider/analytics/pgsource.go\<close>).
\<close>

section \<open>Transactions\<close>

definition GetTransactions :: "uuid \<Rightarrow> int \<Rightarrow> int \<Rightarrow> (budget_db, txn list) act" where
  "GetTransactions userID from_t to_t = wrapping ''query spend transactions'' (query (\<lambda>_ d.
     sort_key t_at (map snd (filter (\<lambda>(u, t). u = userID \<and> t_at t \<ge> from_t \<and> t_at t \<le> to_t) (spend d)))))"

section \<open>Categories\<close>

text \<open>\<open>coll\<close>: the place of a name in the collation order of the database.\<close>

definition ListGlobalCategories :: "(string \<Rightarrow> int) \<Rightarrow> (budget_db, GlobalCategory list) act" where
  "ListGlobalCategories coll = wrapping ''list global categories'' (query (\<lambda>_ d.
     map GlobalCategory.truncate (sort_key gc_sort (sort_key (\<lambda>c. coll (gc_name c)) (filter gc_active (categories d))))))"

definition meta_of :: "cat_row \<Rightarrow> CategoryMeta" where
  "meta_of c = \<lparr>cm_id = gc_id c, cm_name = gc_name c, cm_display = gc_display c, cm_icon = gc_icon c, cm_color = gc_color c\<rparr>"

definition index_keys :: "cat_row \<Rightarrow> string list" where
  "index_keys c = to_lower (gc_name c) # to_lower (gc_display c) # map (\<lambda>a. to_lower (trim_space a)) (gc_aliases c)"

text \<open>A later assignment to a key of the index wins, so the newest comes first.\<close>

definition index_of :: "cat_row list \<Rightarrow> cat_index" where
  "index_of cs = rev (concat (map (\<lambda>c. map (\<lambda>k. (k, meta_of c)) (index_keys c)) cs))"

definition CategoryIndex :: "(budget_db, cat_index) act" where
  "CategoryIndex = wrapping ''category index'' (query (\<lambda>_ d. index_of (categories d)))"

definition CategoryByName :: "string \<Rightarrow> (budget_db, CategoryMeta) act" where
  "CategoryByName name = bind CategoryIndex (\<lambda>idx.
     case map_of idx (to_lower (trim_space name)) of
       Some m \<Rightarrow> ret m
     | None \<Rightarrow> (case map_of idx ''other'' of Some m \<Rightarrow> ret m | None \<Rightarrow> fail (Plain ''no categories configured'')))"

section \<open>Setup sessions\<close>

definition ErrBudgetSessionNotFound :: goerr where
  "ErrBudgetSessionNotFound = Plain ''budget session not found''"

definition session_view :: "session_row \<Rightarrow> SessionRow" where
  "session_view s = SessionRow.truncate s"

definition update_sessions :: "(session_row \<Rightarrow> bool) \<Rightarrow> (session_row \<Rightarrow> session_row) \<Rightarrow> budget_db \<Rightarrow> budget_db" where
  "update_sessions p f d = d\<lparr>sessions := update_where p f (sessions d)\<rparr>"

definition ExpirePendingSessions :: "uuid \<Rightarrow> string \<Rightarrow> (budget_db, unit) act" where
  "ExpirePendingSessions userID month = exec_upd (\<lambda>_ d.
     update_sessions (\<lambda>s. sr_user s = userID \<and> sr_month s = month \<and> sr_status s = ''pending'') (\<lambda>s. s\<lparr>sr_status := ''abandoned''\<rparr>) d)"

text \<open>A month is a VARCHAR(7), a status a VARCHAR(20), a total a nullable NUMERIC(15,2).\<close>

definition total_fits :: "money option \<Rightarrow> bool" where
  "total_fits t = (case t of None \<Rightarrow> True | Some x \<Rightarrow> numeric_fits 15 (round2 x))"

definition insert_session :: "uuid \<Rightarrow> string \<Rightarrow> money option \<Rightarrow> CategoryAllocation list \<Rightarrow> string \<Rightarrow> int \<Rightarrow> (budget_db, SessionRow) act" where
  "insert_session userID month tot allocs status expiresAt = exec_id (\<lambda>new t d.
     let s = \<lparr>sr_id = new, sr_month = month, sr_total = map_option round2 tot, sr_allocs = allocs, sr_status = status,
              sr_expires = expiresAt, sr_user = userID, sr_created = t\<rparr>
     in if length month > 7 \<or> length status > 20 \<or> \<not> total_fits tot then Inl (Sent ErrConstraint)
        else Inr (session_view s, d\<lparr>sessions := sessions d @ [s]\<rparr>))"

definition repo_CreateSession :: "uuid \<Rightarrow> string \<Rightarrow> int \<Rightarrow> (budget_db, SessionRow) act" where
  "repo_CreateSession userID month expiresAt = insert_session userID month None [] ''pending'' expiresAt"

definition own_session :: "uuid \<Rightarrow> uuid \<Rightarrow> session_row \<Rightarrow> bool" where
  "own_session userID sessionID s \<longleftrightarrow> sr_id s = sessionID \<and> sr_user s = userID"

definition or_not_found :: "goerr \<Rightarrow> ('d, 'a) act \<Rightarrow> ('d, 'a) act" where
  "or_not_found e m = bind (attempt m) (\<lambda>r. case r of
      Inl err \<Rightarrow> if errors_is err ErrNoRows then fail e else fail err
    | Inr a \<Rightarrow> ret a)"

definition repo_GetSession :: "uuid \<Rightarrow> uuid \<Rightarrow> (budget_db, SessionRow) act" where
  "repo_GetSession userID sessionID = or_not_found ErrBudgetSessionNotFound (query_row (\<lambda>_ d.
     map_option session_view (first_row (filter (own_session userID sessionID) (sessions d)))))"

definition updated_session :: "money option \<Rightarrow> CategoryAllocation list option \<Rightarrow> session_row \<Rightarrow> session_row" where
  "updated_session tot allocs s = s\<lparr>sr_total := (case tot of None \<Rightarrow> sr_total s | Some x \<Rightarrow> Some (round2 x)),
     sr_allocs := (case allocs of None \<Rightarrow> sr_allocs s | Some a \<Rightarrow> a)\<rparr>"

definition repo_UpdateSession :: "uuid \<Rightarrow> uuid \<Rightarrow> money option \<Rightarrow> CategoryAllocation list option \<Rightarrow> (budget_db, SessionRow) act" where
  "repo_UpdateSession userID sessionID tot allocs = or_not_found ErrBudgetSessionNotFound (exec (\<lambda>_ d.
     case first_row (filter (own_session userID sessionID) (sessions d)) of
       None \<Rightarrow> Inl (Sent ErrNoRows)
     | Some s \<Rightarrow> if \<not> total_fits tot then Inl (Sent ErrConstraint)
         else Inr (session_view (updated_session tot allocs s),
                   update_sessions (own_session userID sessionID) (updated_session tot allocs) d)))"

definition CreateDraftSession :: "uuid \<Rightarrow> string \<Rightarrow> string \<Rightarrow> money \<Rightarrow> CategoryAllocation list \<Rightarrow> int \<Rightarrow> (budget_db, SessionRow) act" where
  "CreateDraftSession userID month status tot allocs expiresAt = insert_session userID month (Some tot) allocs status expiresAt"

definition LatestSessionByStatus :: "uuid \<Rightarrow> string \<Rightarrow> (budget_db, SessionRow option) act" where
  "LatestSessionByStatus userID status = query (\<lambda>_ d.
     map_option session_view (first_row (order_desc sr_created (filter (\<lambda>s. sr_user s = userID \<and> sr_status s = status) (sessions d)))))"

definition session_exists :: "uuid \<Rightarrow> string \<Rightarrow> string list \<Rightarrow> budget_db \<Rightarrow> bool" where
  "session_exists userID month statuses d \<longleftrightarrow>
     list_ex (\<lambda>s. sr_user s = userID \<and> sr_month s = month \<and> sr_status s \<in> set statuses) (sessions d)"

definition SessionExistsForMonth :: "uuid \<Rightarrow> string \<Rightarrow> string list \<Rightarrow> (budget_db, bool) act" where
  "SessionExistsForMonth userID month statuses = query (\<lambda>_ d. session_exists userID month statuses d)"

definition UsersWithActiveBudgets :: "(budget_db, uuid list) act" where
  "UsersWithActiveBudgets = wrapping ''users with active budgets'' (query (\<lambda>_ d. remdups (map bu_user (filter bu_active (budgets d)))))"

definition MarkSessionFinalized :: "uuid \<Rightarrow> uuid \<Rightarrow> (budget_db, unit) act" where
  "MarkSessionFinalized userID sessionID = exec_upd (\<lambda>_ d. update_sessions (own_session userID sessionID) (\<lambda>s. s\<lparr>sr_status := ''finalized''\<rparr>) d)"

definition repo_DeleteSession :: "uuid \<Rightarrow> uuid \<Rightarrow> (budget_db, unit) act" where
  "repo_DeleteSession userID sessionID = exec_upd (\<lambda>_ d. update_sessions (own_session userID sessionID) (\<lambda>s. s\<lparr>sr_status := ''abandoned''\<rparr>) d)"

section \<open>Budgets\<close>

definition update_budgets :: "(budget_row \<Rightarrow> bool) \<Rightarrow> (budget_row \<Rightarrow> budget_row) \<Rightarrow> budget_db \<Rightarrow> budget_db" where
  "update_budgets p f d = d\<lparr>budgets := update_where p f (budgets d)\<rparr>"

definition active_in :: "uuid \<Rightarrow> int \<Rightarrow> int \<Rightarrow> budget_row \<Rightarrow> bool" where
  "active_in userID year month b \<longleftrightarrow> bu_user b = userID \<and> bu_year b = year \<and> bu_month b = month \<and> bu_active b"

definition deactivate :: "uuid \<Rightarrow> int \<Rightarrow> int \<Rightarrow> int \<Rightarrow> budget_db \<Rightarrow> budget_db" where
  "deactivate userID year month t d = update_budgets (active_in userID year month) (\<lambda>b. b\<lparr>bu_active := False, bu_updated := t\<rparr>) d"

text \<open>The row of the unique key (user, category, 'global', year, month).\<close>

definition keyed :: "uuid \<Rightarrow> uuid \<Rightarrow> int \<Rightarrow> int \<Rightarrow> budget_row \<Rightarrow> bool" where
  "keyed userID cat year month b \<longleftrightarrow>
     bu_user b = userID \<and> bu_cat b = cat \<and> bu_type b = ''global'' \<and> bu_year b = year \<and> bu_month b = month"

definition amount_ok :: "money \<Rightarrow> bool" where
  "amount_ok x \<longleftrightarrow> numeric_fits 15 (round2 x) \<and> round2 x \<ge> 0"

definition new_budget :: "uuid \<Rightarrow> uuid \<Rightarrow> int \<Rightarrow> int \<Rightarrow> int \<Rightarrow> FinalizedAllocation \<Rightarrow> budget_row" where
  "new_budget new userID year month t a = \<lparr>bu_id = new, bu_user = userID, bu_cat = fa_cat a, bu_type = ''global'', bu_year = year,
     bu_month = month, bu_amount = round2 (fa_amount a), bu_active = True, bu_hidden = fa_hidden a, bu_notes = '''',
     bu_created = t, bu_updated = t\<rparr>"

definition put_budget :: "uuid \<Rightarrow> uuid \<Rightarrow> int \<Rightarrow> int \<Rightarrow> int \<Rightarrow> FinalizedAllocation \<Rightarrow> budget_db \<Rightarrow> budget_db" where
  "put_budget new userID year month t a d =
     (if list_ex (keyed userID (fa_cat a) year month) (budgets d)
      then update_budgets (keyed userID (fa_cat a) year month)
             (\<lambda>b. b\<lparr>bu_amount := round2 (fa_amount a), bu_active := True, bu_hidden := fa_hidden a, bu_updated := t\<rparr>) d
      else d\<lparr>budgets := budgets d @ [new_budget new userID year month t a]\<rparr>)"

definition upsert_budget :: "uuid \<Rightarrow> int \<Rightarrow> int \<Rightarrow> FinalizedAllocation \<Rightarrow> (budget_db, unit) act" where
  "upsert_budget userID year month a = wrapping ''insert budget'' (exec_id (\<lambda>new t d.
     if \<not> amount_ok (fa_amount a) \<or> month < 1 \<or> month > 12 then Inl (Sent ErrConstraint)
     else Inr ((), put_budget new userID year month t a d)))"

definition ReplaceMonth :: "uuid \<Rightarrow> int \<Rightarrow> int \<Rightarrow> FinalizedAllocation list \<Rightarrow> (budget_db, unit) act" where
  "ReplaceMonth userID year month allocs = tx (\<lambda>e. e) (\<lambda>_ e. e)
     (bind (wrapping ''deactivate month'' (exec_upd (\<lambda>t d. deactivate userID year month t d))) (\<lambda>_.
      foreach (upsert_budget userID year month) allocs))"

text \<open>
  The user's most recent month with an active row: years and months are compared as one number
  (a month is between 1 and 12).
\<close>

definition period :: "budget_row \<Rightarrow> int" where
  "period b = bu_year b * 12 + bu_month b - 1"

definition active_rows :: "uuid \<Rightarrow> budget_db \<Rightarrow> budget_row list" where
  "active_rows userID d = filter (\<lambda>b. bu_user b = userID \<and> bu_active b) (budgets d)"

definition latest_period :: "uuid \<Rightarrow> budget_db \<Rightarrow> int option" where
  "latest_period userID d = (case map period (active_rows userID d) of [] \<Rightarrow> None | p # ps \<Rightarrow> Some (fold max ps p))"

definition budget_view :: "cat_row list \<Rightarrow> budget_row \<Rightarrow> BudgetRow" where
  "budget_view cs b = (let c = first_row (filter (\<lambda>c. gc_id c = bu_cat b) cs);
       txt = (\<lambda>f. case c of None \<Rightarrow> '''' | Some g \<Rightarrow> f g)
     in \<lparr>br_id = bu_id b, br_cat = bu_cat b, br_type = bu_type b, br_name = txt gc_display, br_icon = txt gc_icon,
         br_color = txt gc_color, br_year = bu_year b, br_month = bu_month b, br_amount = bu_amount b, br_active = bu_active b,
         br_hidden = bu_hidden b, br_notes = bu_notes b, br_created = bu_created b, br_updated = bu_updated b\<rparr>)"

definition latest_rows :: "uuid \<Rightarrow> budget_db \<Rightarrow> budget_row list" where
  "latest_rows userID d = filter (\<lambda>b. Some (period b) = latest_period userID d) (active_rows userID d)"

definition LatestBudgets :: "uuid \<Rightarrow> int \<Rightarrow> (budget_db, BudgetRow list) act" where
  "LatestBudgets userID limit = (let n = (if limit \<le> 0 \<or> limit > 100 then 100 else limit) in
     wrapping ''latest budgets'' (query (\<lambda>_ d.
       map (budget_view (categories d)) (take (nat n) (order_desc bu_updated (latest_rows userID d))))))"

definition patched :: "uuid \<Rightarrow> uuid \<Rightarrow> budget_db \<Rightarrow> budget_row \<Rightarrow> bool" where
  "patched userID categoryID d b \<longleftrightarrow>
     bu_user b = userID \<and> bu_cat b = categoryID \<and> Some (period b) = latest_period userID d \<and> bu_active b"

definition PatchCategoryAmount :: "uuid \<Rightarrow> uuid \<Rightarrow> money \<Rightarrow> (budget_db, bool) act" where
  "PatchCategoryAmount userID categoryID amount = wrapping ''patch category amount'' (exec (\<lambda>t d.
     let hit = list_ex (patched userID categoryID d) (budgets d)
     in if hit \<and> \<not> amount_ok amount then Inl (Sent ErrConstraint)
        else Inr (hit, update_budgets (patched userID categoryID d) (\<lambda>b. b\<lparr>bu_amount := round2 amount, bu_updated := t\<rparr>) d)))"

definition DeactivateMonth :: "uuid \<Rightarrow> int \<Rightarrow> int \<Rightarrow> (budget_db, unit) act" where
  "DeactivateMonth userID year month = exec_upd (\<lambda>t d. deactivate userID year month t d)"

section \<open>Settings\<close>

definition repo_GetSettings :: "uuid \<Rightarrow> (budget_db, settings_row option) act" where
  "repo_GetSettings userID = get_row ''get settings'' (\<lambda>_ d. first_row (filter (\<lambda>s. st_user s = userID) (bsettings d)))"

definition put_settings :: "uuid \<Rightarrow> (settings_row \<Rightarrow> settings_row) \<Rightarrow> budget_db \<Rightarrow> budget_db" where
  "put_settings userID f d =
     (if list_ex (\<lambda>s. st_user s = userID) (bsettings d) then d\<lparr>bsettings := update_where (\<lambda>s. st_user s = userID) f (bsettings d)\<rparr>
      else d\<lparr>bsettings := bsettings d @ [f \<lparr>st_user = userID, st_income = None, st_limit = None, st_essential = [], st_bills = [],
        st_reset = None\<rparr>]\<rparr>)"

definition coalesce :: "'a option \<Rightarrow> 'a option \<Rightarrow> 'a option" where
  "coalesce x y = (case x of None \<Rightarrow> y | Some _ \<Rightarrow> x)"

definition UpsertSettings :: "uuid \<Rightarrow> UpdateSettingsRequest \<Rightarrow> (budget_db, unit) act" where
  "UpsertSettings userID p = exec_check (\<lambda>_ _. total_fits (us_income p) \<and> total_fits (us_limit p)) (\<lambda>_ d.
     put_settings userID (\<lambda>s. s\<lparr>st_income := coalesce (map_option round2 (us_income p)) (st_income s),
       st_limit := coalesce (map_option round2 (us_limit p)) (st_limit s),
       st_essential := (case us_essential p of None \<Rightarrow> st_essential s | Some xs \<Rightarrow> xs),
       st_bills := (case us_bills p of None \<Rightarrow> st_bills s | Some xs \<Rightarrow> xs)\<rparr>) d)"

definition SetSpendingLimitAndActivate :: "uuid \<Rightarrow> money \<Rightarrow> (budget_db, unit) act" where
  "SetSpendingLimitAndActivate userID limit = exec_check (\<lambda>_ _. numeric_fits 15 (round2 limit)) (\<lambda>t d.
     put_settings userID (\<lambda>s. s\<lparr>st_limit := Some (round2 limit), st_reset := Some t\<rparr>) d)"

definition ClearActive :: "uuid \<Rightarrow> (budget_db, unit) act" where
  "ClearActive userID = exec_upd (\<lambda>_ d. d\<lparr>bsettings := update_where (\<lambda>s. st_user s = userID) (\<lambda>s. s\<lparr>st_reset := None\<rparr>) (bsettings d)\<rparr>)"

section \<open>Learned parameters\<close>

definition GetLearnedParams :: "uuid \<Rightarrow> (budget_db, LearnedParams option) act" where
  "GetLearnedParams userID = get_row ''get learned params'' (\<lambda>_ d.
     map_option LearnedParams.truncate (first_row (filter (\<lambda>p. lp_user p = userID) (learned d))))"

definition UpsertLearnedParams :: "uuid \<Rightarrow> LearnedParams \<Rightarrow> (budget_db, unit) act" where
  "UpsertLearnedParams userID p = exec_upd (\<lambda>_ d.
     let row = (\<lambda>v. LearnedParams.extend p \<lparr>lp_user = userID, lp_version = v\<rparr>)
     in if list_ex (\<lambda>r. lp_user r = userID) (learned d)
        then d\<lparr>learned := update_where (\<lambda>r. lp_user r = userID) (\<lambda>r. row (lp_version r + 1)) (learned d)\<rparr>
        else d\<lparr>learned := learned d @ [row 1]\<rparr>)"

section \<open>Reallocations\<close>

definition insert_move :: "uuid \<Rightarrow> Reallocation \<Rightarrow> (budget_db, unit) act" where
  "insert_move sessionID m = exec_check (\<lambda>_ _. numeric_fits 15 (round2 (rl_amount m))) (\<lambda>_ d.
     d\<lparr>moves := moves d @ [\<lparr>mv_session = sessionID, mv_move = m\<lparr>rl_amount := round2 (rl_amount m)\<rparr>, mv_status = ''pending''\<rparr>]\<rparr>)"

definition CreateReallocationSession :: "uuid \<Rightarrow> string \<Rightarrow> rat \<Rightarrow> money \<Rightarrow> money \<Rightarrow> Reallocation list \<Rightarrow> (budget_db, uuid) act" where
  "CreateReallocationSession userID target minRatio uncovered overspent ms =
     wrapping ''create reallocation session'' (tx (\<lambda>e. e) (\<lambda>_ e. e)
       (bind (exec_id (\<lambda>new _ d.
          if \<not> numeric_fits 15 (round2 uncovered) \<or> \<not> numeric_fits 15 (round2 overspent) \<or> \<not> numeric_fits 5 (round2 minRatio)
          then Inl (Sent ErrConstraint)
          else Inr (new, d\<lparr>reallocs := reallocs d @ [\<lparr>rs_id = new, rs_user = userID, rs_target = target, rs_status = ''pending''\<rparr>]\<rparr>)))
        (\<lambda>new. bind (foreach (insert_move new) ms) (\<lambda>_. ret new))))"

definition SetReallocationSessionStatus :: "uuid \<Rightarrow> uuid \<Rightarrow> string \<Rightarrow> (budget_db, unit) act" where
  "SetReallocationSessionStatus userID sessionID status = exec_check
     (\<lambda>_ d. list_ex (\<lambda>r. rs_id r = sessionID \<and> rs_user r = userID) (reallocs d) \<longrightarrow>
        status \<in> {''pending'', ''applied'', ''rejected'', ''expired''})
     (\<lambda>_ d. d\<lparr>reallocs := update_where (\<lambda>r. rs_id r = sessionID \<and> rs_user r = userID) (\<lambda>r. r\<lparr>rs_status := status\<rparr>) (reallocs d)\<rparr>)"

definition MarkReallocationsApplied :: "uuid \<Rightarrow> (budget_db, unit) act" where
  "MarkReallocationsApplied sessionID = exec_upd (\<lambda>_ d.
     d\<lparr>moves := update_where (\<lambda>m. mv_session m = sessionID \<and> mv_status m = ''pending'') (\<lambda>m. m\<lparr>mv_status := ''applied''\<rparr>) (moves d)\<rparr>)"

section \<open>Suggestions\<close>

definition CreateSuggestion :: "uuid \<Rightarrow> uuid option \<Rightarrow> string \<Rightarrow> string \<Rightarrow> Reallocation list \<Rightarrow> money \<Rightarrow> rat \<Rightarrow> string \<Rightarrow> (budget_db, uuid) act" where
  "CreateSuggestion userID sessionID typ target ms uncovered confidence priority = wrapping ''create suggestion'' (exec_id (\<lambda>new t d.
     if priority \<notin> {'''', ''high'', ''medium'', ''low''} then Inl (Sent ErrConstraint)
     else Inr (new, d\<lparr>suggestions := suggestions d @ [\<lparr>sn_id = new, sn_user = userID, sn_session = sessionID, sn_type = typ,
       sn_target = target, sn_moves = ms, sn_uncovered = uncovered, sn_conf = confidence, sn_priority = priority,
       sn_response = ''pending'', sn_reason = None, sn_created = t\<rparr>]\<rparr>)))"

definition repo_ListSuggestions :: "uuid \<Rightarrow> int \<Rightarrow> (budget_db, SuggestionRow list) act" where
  "repo_ListSuggestions userID limit = (let n = (if limit \<le> 0 \<or> limit > 100 then 20 else limit) in
     wrapping ''list suggestions'' (query (\<lambda>_ d.
       take (nat n) (order_desc sn_created (filter (\<lambda>s. sn_user s = userID) (suggestions d))))))"

definition ErrBudgetSuggestionNotFound :: goerr where
  "ErrBudgetSuggestionNotFound = Plain ''budget suggestion not found''"

definition GetSuggestion :: "uuid \<Rightarrow> uuid \<Rightarrow> (budget_db, SuggestionRow) act" where
  "GetSuggestion userID i = bind (get_row ''get suggestion'' (\<lambda>_ d.
       first_row (filter (\<lambda>s. sn_id s = i \<and> sn_user s = userID) (suggestions d))))
     (\<lambda>r. case r of None \<Rightarrow> fail ErrBudgetSuggestionNotFound | Some s \<Rightarrow> ret s)"

definition SetSuggestionResponse :: "uuid \<Rightarrow> uuid \<Rightarrow> string \<Rightarrow> string \<Rightarrow> (budget_db, unit) act" where
  "SetSuggestionResponse userID i response reason = exec_check
     (\<lambda>_ d. list_ex (\<lambda>s. sn_id s = i \<and> sn_user s = userID) (suggestions d) \<longrightarrow>
        response \<in> {''pending'', ''accepted'', ''rejected'', ''modified'', ''ignored''})
     (\<lambda>_ d. d\<lparr>suggestions := update_where (\<lambda>s. sn_id s = i \<and> sn_user s = userID)
        (\<lambda>s. s\<lparr>sn_response := response, sn_reason := (if reason = [] then None else Some reason)\<rparr>) (suggestions d)\<rparr>)"

section \<open>Cooldowns\<close>

definition pair_of :: "uuid \<Rightarrow> string \<Rightarrow> string \<Rightarrow> CooldownRow \<Rightarrow> bool" where
  "pair_of userID from_c to_c c \<longleftrightarrow> cd_user c = userID \<and> cd_type c = ''category_pair'' \<and> cd_from c = from_c \<and> cd_to c = to_c"

definition backoff_days :: "int list" where "backoff_days = [1, 3, 7, 14]"

definition backoff :: "int \<Rightarrow> int" where
  "backoff prevCount = (let idx = (if prevCount \<ge> int (length backoff_days) then length backoff_days - 1 else nat prevCount)
     in (backoff_days ! idx) * day_ns)"

definition put_cooldown :: "uuid \<Rightarrow> uuid \<Rightarrow> string \<Rightarrow> string \<Rightarrow> int \<Rightarrow> int \<Rightarrow> budget_db \<Rightarrow> budget_db" where
  "put_cooldown new userID from_c to_c until_t count d =
     (if list_ex (pair_of userID from_c to_c) (cooldowns d)
      then d\<lparr>cooldowns := update_where (pair_of userID from_c to_c)
             (\<lambda>c. c\<lparr>cd_until := until_t, cd_count := cd_count c + 1, cd_active := True\<rparr>) (cooldowns d)\<rparr>
      else d\<lparr>cooldowns := cooldowns d @ [\<lparr>cd_id = new, cd_user = userID, cd_type = ''category_pair'', cd_from = from_c, cd_to = to_c,
        cd_category = '''', cd_until = until_t, cd_count = count, cd_reason = ''reallocation rejected'', cd_active = True\<rparr>]\<rparr>)"

text \<open>The count that is read first stays 0 when there is no row or the call fails.\<close>

definition UpsertPairCooldown :: "uuid \<Rightarrow> string \<Rightarrow> string \<Rightarrow> (budget_db, unit) act" where
  "UpsertPairCooldown userID from_c to_c =
     bind (attempt (query_row (\<lambda>_ d. map_option cd_count (first_row (filter (pair_of userID from_c to_c) (cooldowns d)))))) (\<lambda>r.
     let prevCount = (case r of Inl _ \<Rightarrow> 0 | Inr n \<Rightarrow> n) in
     bind time_now (\<lambda>now.
     exec_id (\<lambda>new _ d. Inr ((), put_cooldown new userID from_c to_c (now + backoff prevCount) (prevCount + 1) d))))"

definition ListActiveCooldowns :: "uuid \<Rightarrow> (budget_db, CooldownRow list) act" where
  "ListActiveCooldowns userID = wrapping ''list cooldowns'' (query (\<lambda>t d.
     order_desc cd_until (filter (\<lambda>c. cd_user c = userID \<and> cd_active c \<and> cd_until c > t) (cooldowns d))))"

end
