(* ===== verification/SpendEngine.thy ===== *)
theory SpendEngine
  imports SpendBase
begin

text \<open>
  The spend analyzers of \<open>internal/service/analytics/engine.go\<close>, sections A to K, with the
  result types of \<open>internal/domain/analytics/models.go\<close>. A list result that Go builds by
  ranging over a map comes in the order \<open>rg\<close> gives; where a nil slice and an empty one differ
  only in JSON both are the empty list.
\<close>

section \<open>A: weekday against weekend\<close>

record WeekdayWeekendResult =
  ww_weekday :: money
  ww_weekend :: money
  ww_weekday_share :: rat
  ww_weekend_share :: rat
  ww_weekday_avg :: rat
  ww_weekend_avg :: rat
  ww_ratio :: rat
  ww_peak :: string
  ww_low :: string
  ww_per_day :: "(string \<times> money) list"
  ww_prior :: "rat option"
  ww_deviation :: "rat option"

text \<open>\<open>perDay[day] = round2(perDay[day] + t.Amount)\<close>\<close>

definition rounded_total :: "txn list \<Rightarrow> money" where
  "rounded_total txns = foldl (\<lambda>a t. round2 (a + t_amount t)) 0 txns"

definition per_day :: "ranging \<Rightarrow> txn list \<Rightarrow> (string \<times> money) list" where
  "per_day rg txns = map (\<lambda>d. (d, rounded_total (of_key (\<lambda>t. weekday_name (t_at t)) d txns)))
     (rg_names rg (keys_of (\<lambda>t. weekday_name (t_at t)) txns))"

text \<open>The largest and the smallest entry; the first of equal ones stays.\<close>

definition peak_of :: "(string \<times> money) list \<Rightarrow> string \<times> money" where
  "peak_of ds = foldl (\<lambda>p d. if snd d > snd p then d else p) ('''', -1) ds"

definition low_of :: "(string \<times> money) list \<Rightarrow> (string \<times> money) option" where
  "low_of ds = foldl (\<lambda>p d. case p of None \<Rightarrow> Some d | Some q \<Rightarrow> if snd d < snd q then Some d else p) None ds"

definition weekend_ratio_prior :: "txn list \<Rightarrow> int \<Rightarrow> int \<Rightarrow> rat option" where
  "weekend_ratio_prior txns from to =
     (case countDaysByKind from to of (wd, we) \<Rightarrow>
      let prior = debitsInRange txns from to;
          priorWeekdayAvg = safeDiv (total (filter (\<lambda>t. \<not> isWeekend (t_at t)) prior)) (of_nat wd);
          priorWeekendAvg = safeDiv (total (filter (\<lambda>t. isWeekend (t_at t)) prior)) (of_nat we)
      in if priorWeekdayAvg > 0 then Some (round2 (safeDiv priorWeekendAvg priorWeekdayAvg)) else None)"

definition WeekdayVsWeekend :: "ranging \<Rightarrow> txn list \<Rightarrow> int \<Rightarrow> WeekdayWeekendResult" where
  "WeekdayVsWeekend rg txns now =
     (let windowStart = AddDate 0 0 (-30) now;
          cur = debitsInRange txns windowStart now;
          weekdayTotal = round2 (total (filter (\<lambda>t. \<not> isWeekend (t_at t)) cur));
          weekendTotal = round2 (total (filter (\<lambda>t. isWeekend (t_at t)) cur));
          tot = weekdayTotal + weekendTotal;
          days = countDaysByKind windowStart now;
          weekdayAvg = round2 (safeDiv weekdayTotal (of_nat (fst days)));
          weekendAvg = round2 (safeDiv weekendTotal (of_nat (snd days)));
          ratio = round2 (safeDiv weekendAvg weekdayAvg);
          perDay = per_day rg cur;
          prior = weekend_ratio_prior txns (AddDate 0 0 (-60) now) windowStart
      in \<lparr>ww_weekday = weekdayTotal, ww_weekend = weekendTotal,
          ww_weekday_share = round2 (safeDiv weekdayTotal tot * 100),
          ww_weekend_share = round2 (safeDiv weekendTotal tot * 100),
          ww_weekday_avg = weekdayAvg, ww_weekend_avg = weekendAvg, ww_ratio = ratio,
          ww_peak = fst (peak_of perDay), ww_low = (case low_of perDay of None \<Rightarrow> '''' | Some d \<Rightarrow> fst d),
          ww_per_day = perDay, ww_prior = prior,
          ww_deviation = (case prior of None \<Rightarrow> None
            | Some r \<Rightarrow> if r > 0 then Some (round2 (safeDiv (ratio - r) r * 100)) else None)\<rparr>)"

section \<open>B: trends\<close>

record TrendResult =
  tr_period :: string
  tr_points :: "(int \<times> money) list"
  tr_peak :: "int \<times> money"
  tr_trough :: "int \<times> money"
  tr_first_last :: rat
  tr_direction :: string
  tr_volatility :: string
  tr_cov :: real
  tr_velocity :: rat
  tr_projected :: rat
  tr_alert :: bool
  tr_change :: rat

text \<open>The newest bucket a transaction falls in takes its amount.\<close>

definition add_to_bucket :: "(int \<times> int) list \<Rightarrow> money list \<Rightarrow> txn \<Rightarrow> money list" where
  "add_to_bucket bs totals t =
     (case find (\<lambda>i. inRange (t_at t) (fst (bs ! i)) (snd (bs ! i))) (rev [0..<length bs]) of
        None \<Rightarrow> totals
      | Some i \<Rightarrow> totals[i := totals ! i + t_amount t])"

definition bucket_totals :: "(int \<times> int) list \<Rightarrow> txn list \<Rightarrow> money list" where
  "bucket_totals bs txns = foldl (add_to_bucket bs) (replicate (length bs) 0) txns"

definition peak_index :: "money list \<Rightarrow> nat" where
  "peak_index vs = foldl (\<lambda>p i. if vs ! i > vs ! p then i else p) 0 [0..<length vs]"

definition trough_index :: "money list \<Rightarrow> nat" where
  "trough_index vs = foldl (\<lambda>p i. if vs ! i < vs ! p then i else p) 0 [0..<length vs]"

definition trend_period :: "string \<Rightarrow> string \<times> nat" where
  "trend_period period = (if period = ''weekly'' then (period, 8) else if period = ''monthly'' then (period, 6) else (''daily'', 14))"

definition volatility_level :: "real \<Rightarrow> string" where
  "volatility_level cov = (if cov > 1/2 then ''HIGH'' else if cov > 1/5 then ''MODERATE'' else ''LOW'')"

definition trend_direction :: "real \<Rightarrow> rat \<Rightarrow> string" where
  "trend_direction cov pct = (if cov > 1/2 then ''VOLATILE'' else if pct > 5 then ''INCREASING''
     else if pct < -5 then ''DECREASING'' else ''FLAT'')"

definition TrendAnalytics :: "txn list \<Rightarrow> int \<Rightarrow> string \<Rightarrow> TrendResult" where
  "TrendAnalytics txns now asked =
     (let (period, numBuckets) = trend_period asked;
          bs = calendarBuckets now period numBuckets;
          windowStart = fst (hd bs);
          cur = debitsInRange txns windowStart now;
          totals = bucket_totals bs cur;
          points = map (\<lambda>i. (fst (bs ! i), round2 (totals ! i))) [0..<numBuckets];
          firstLast = round2 (safeDiv (last totals - hd totals) (max (hd totals) 1) * 100);
          cov = safeDivR (stddev totals) (of_rat (mean totals));
          velocity = round2 (safeDiv (sumAmount cur) (max 1 (days_between windowStart now)));
          recent30 = sumAmount (debitsInRange txns (AddDate 0 0 (-30) now) now);
          prior30 = sumAmount (debitsInRange txns (AddDate 0 0 (-60) now) (AddDate 0 0 (-30) now))
      in \<lparr>tr_period = period, tr_points = points, tr_peak = points ! peak_index totals, tr_trough = points ! trough_index totals,
          tr_first_last = firstLast, tr_direction = trend_direction cov firstLast, tr_volatility = volatility_level cov,
          tr_cov = round2_real cov, tr_velocity = velocity, tr_projected = round2 (velocity * 30),
          tr_alert = (prior30 > 0 \<and> recent30 \<ge> prior30 * (13/10)),
          tr_change = round2 (safeDiv (recent30 - prior30) (max prior30 1) * 100)\<rparr>)"

section \<open>C, D: categories\<close>

record CategoryStat =
  cs_category :: string
  cs_current :: money
  cs_prior :: money
  cs_change :: rat
  cs_direction :: string
  cs_anomaly :: bool
  cs_share :: rat

record CategoryTrendResult =
  ct_categories :: "CategoryStat list"
  ct_top :: string
  ct_top_share :: rat

definition categoryTotals :: "txn list \<Rightarrow> int \<Rightarrow> int \<Rightarrow> (string \<times> money) list" where
  "categoryTotals txns from to = (let ds = debitsInRange txns from to
     in map (\<lambda>c. (c, round2 (total (of_key t_category c ds)))) (keys_of t_category ds))"

definition value_of :: "(string \<times> money) list \<Rightarrow> string \<Rightarrow> money" where
  "value_of m k = (case map_of m k of None \<Rightarrow> 0 | Some v \<Rightarrow> v)"

definition category_change :: "money \<Rightarrow> money \<Rightarrow> rat \<times> string" where
  "category_change cur pr =
     (if pr = 0 \<and> cur > 0 then (100, ''UP'')
      else if pr = 0 then (0, ''FLAT'')
      else let pct = round2 (safeDiv (cur - pr) pr * 100)
           in (pct, if pct > 5 then ''UP'' else if pct < -5 then ''DOWN'' else ''FLAT''))"

definition category_stat :: "money \<Rightarrow> string \<Rightarrow> money \<Rightarrow> money \<Rightarrow> CategoryStat" where
  "category_stat currentTotal name cur pr =
     \<lparr>cs_category = name, cs_current = cur, cs_prior = pr, cs_change = fst (category_change cur pr),
      cs_direction = snd (category_change cur pr), cs_anomaly = (pr > 0 \<and> cur > pr * 2),
      cs_share = round2 (safeDiv cur currentTotal * 100)\<rparr>"

definition CategoryTrend :: "ranging \<Rightarrow> txn list \<Rightarrow> int \<Rightarrow> CategoryTrendResult" where
  "CategoryTrend rg txns now =
     (let currentMonthStart = month_first now;
          priorMonthStart = AddDate 0 (-1) 0 currentMonthStart;
          current = categoryTotals txns currentMonthStart now;
          prior = categoryTotals txns priorMonthStart (currentMonthStart - 1);
          currentTotal = sum_list (map snd current);
          names = rg_names rg (remdups (map fst current @ map fst prior));
          stats = sort_down cs_share (map (\<lambda>n. category_stat currentTotal n (value_of current n) (value_of prior n)) names)
      in \<lparr>ct_categories = stats, ct_top = (case stats of [] \<Rightarrow> '''' | s # _ \<Rightarrow> cs_category s),
          ct_top_share = (case stats of [] \<Rightarrow> 0 | s # _ \<Rightarrow> cs_share s)\<rparr>)"

definition CategoryMomentum :: "CategoryTrendResult \<Rightarrow> CategoryStat list \<times> CategoryStat list" where
  "CategoryMomentum catTrend =
     (let withHistory = filter (\<lambda>c. cs_prior c > 0 \<or> cs_current c > 0) (ct_categories catTrend)
      in (take 5 (sort_down cs_change withHistory), take 5 (sort_key cs_change withHistory)))"

section \<open>E: averages\<close>

record AverageStatsResult =
  av_debit :: rat
  av_credit :: rat
  av_overall :: rat
  av_max :: money
  av_min :: money
  av_count :: nat

definition AverageStats :: "txn list \<Rightarrow> int \<Rightarrow> AverageStatsResult" where
  "AverageStats txns now =
     (let windowStart = AddDate 0 0 (-90) now;
          debits = debitsInRange txns windowStart now;
          credits = creditsInRange txns windowStart now;
          n = length debits + length credits
      in \<lparr>av_debit = (if debits = [] then 0 else round2 (total debits / of_nat (length debits))),
          av_credit = (if credits = [] then 0 else round2 (total credits / of_nat (length credits))),
          av_overall = (if n = 0 then 0 else round2 (safeDiv (sumAmount debits + sumAmount credits) (of_nat n))),
          av_max = (if debits = [] then 0 else round2 (foldl (\<lambda>m t. if t_amount t > m then t_amount t else m) 0 debits)),
          av_min = (if debits = [] then 0 else round2 (foldl (\<lambda>m t. if t_amount t < m then t_amount t else m) (t_amount (hd debits)) debits)),
          av_count = n\<rparr>)"

end
