(* ===== verification/SpendMerchants.thy ===== *)
theory SpendMerchants
  imports SpendEngine
begin

text \<open>
  The analyzers of \<open>internal/service/analytics/engine.go\<close>, sections F to K and M to N:
  merchants, recurring payments, night spend and impulse, the pattern summary, the home
  snapshot, comparisons, pay-later exposure and the verified subscription load.
\<close>

section \<open>F: merchants\<close>

record MerchantStat =
  ms_merchant :: string
  ms_total :: money
  ms_share :: rat
  ms_visits :: nat
  ms_prior_avg :: rat
  ms_freq_spike :: bool
  ms_mom :: "rat option"
  ms_mom_spike :: bool

record ReactivatedMerchant =
  re_merchant :: string
  re_total :: money
  re_prior :: nat

record MerchantAnalysisResult =
  ma_top :: "MerchantStat list"
  ma_top3 :: rat
  ma_freq :: "MerchantStat list"
  ma_mom :: "MerchantStat list"
  ma_back :: "ReactivatedMerchant list"

definition visits :: "string \<Rightarrow> txn list \<Rightarrow> nat" where
  "visits name txns = length (of_key t_merchant name txns)"

definition merchant_stat :: "money \<Rightarrow> txn list \<Rightarrow> string \<Rightarrow> MerchantStat" where
  "merchant_stat recentTotal recent name =
     (let a = of_key t_merchant name recent
      in \<lparr>ms_merchant = name, ms_total = round2 (total a), ms_share = round2 (safeDiv (total a) recentTotal * 100),
          ms_visits = length a, ms_prior_avg = 0, ms_freq_spike = False, ms_mom = None, ms_mom_spike = False\<rparr>)"

text \<open>
  The copy of a merchant's entry the loop over the entries works on: marked first for its
  frequency, then for its month-on-month change. An entry is reported with what is known of it
  when it is appended.
\<close>

definition mark_frequency :: "txn list \<Rightarrow> MerchantStat \<Rightarrow> MerchantStat" where
  "mark_frequency priorHistory s =
     (let avg = of_nat (visits (ms_merchant s) priorHistory) / 2
      in s\<lparr>ms_prior_avg := round2 avg, ms_freq_spike := (avg > 0 \<and> of_nat (ms_visits s) > avg * (3/2))\<rparr>)"

definition mark_change :: "txn list \<Rightarrow> MerchantStat \<Rightarrow> MerchantStat" where
  "mark_change priorMonth s =
     (let pm = total (of_key t_merchant (ms_merchant s) priorMonth)
      in if pm > 0 then s\<lparr>ms_mom := Some (round2 (safeDiv (ms_total s - pm) pm * 100)), ms_mom_spike := (ms_total s \<ge> pm * 2)\<rparr>
         else s)"

definition reactivated :: "ranging \<Rightarrow> txn list \<Rightarrow> txn list \<Rightarrow> txn list \<Rightarrow> ReactivatedMerchant list" where
  "reactivated rg recent priorHistory olderHistory =
     map (\<lambda>n. \<lparr>re_merchant = n, re_total = round2 (total (of_key t_merchant n recent)), re_prior = visits n olderHistory\<rparr>)
       (filter (\<lambda>n. visits n priorHistory = 0 \<and> visits n olderHistory \<ge> 3) (rg_names rg (keys_of t_merchant recent)))"

definition MerchantAnalysis :: "ranging \<Rightarrow> txn list \<Rightarrow> int \<Rightarrow> MerchantAnalysisResult" where
  "MerchantAnalysis rg txns now =
     (let recent = debitsInRange txns (AddDate 0 0 (-30) now) now;
          stats = sort_down ms_total (map (merchant_stat (sumAmount recent) recent) (rg_names rg (keys_of t_merchant recent)));
          priorHistory = debitsInRange txns (AddDate 0 0 (-90) now) (AddDate 0 0 (-30) now);
          priorMonth = debitsInRange txns (AddDate 0 0 (-60) now) (AddDate 0 0 (-30) now);
          olderHistory = debitsInRange txns (AddDate 0 0 (-180) now) (AddDate 0 0 (-90) now);
          marked = map (mark_frequency priorHistory) stats
      in \<lparr>ma_top = take 10 stats, ma_top3 = round2 (sum_list (map ms_share (take 3 stats))),
          ma_freq = filter ms_freq_spike marked, ma_mom = filter ms_mom_spike (map (mark_change priorMonth) marked),
          ma_back = reactivated rg recent priorHistory olderHistory\<rparr>)"

section \<open>G: recurring payments\<close>

record RecurringExpense =
  rx_merchant :: string
  rx_amount :: rat
  rx_count :: nat
  rx_interval :: rat
  rx_frequency :: string
  rx_confidence :: string
  rx_last :: int

definition seedWindowDaysForRecurring :: int where "seedWindowDaysForRecurring = 120"

definition intervals_of :: "txn list \<Rightarrow> rat list" where
  "intervals_of occ = map2 (\<lambda>s t. days_between (t_at s) (t_at t)) (butlast occ) (tl occ)"

definition recurring_frequency :: "rat \<Rightarrow> string" where
  "recurring_frequency avgInterval =
     (if avgInterval \<ge> 25 \<and> avgInterval \<le> 35 then ''MONTHLY''
      else if avgInterval \<ge> 5 \<and> avgInterval \<le> 9 then ''WEEKLY'' else ''IRREGULAR'')"

text \<open>One merchant's debits in the window, with the average the estimate adds up.\<close>

definition recurring_of :: "txn list \<Rightarrow> string \<Rightarrow> (RecurringExpense \<times> rat) option" where
  "recurring_of ds merchant =
     (let occ = sort_key t_at (of_key t_merchant merchant ds);
          amounts = map t_amount occ;
          avgAmount = mean amounts;
          intervals = intervals_of occ;
          avgInterval = mean intervals;
          intervalSD = stddev intervals;
          frequency = recurring_frequency avgInterval
      in if length occ < 3 then None
         else if safeDivR (stddev amounts) (of_rat avgAmount) > 15/100 then None
         else if frequency = ''IRREGULAR'' \<and> intervalSD > 7 then None
         else Some (\<lparr>rx_merchant = merchant, rx_amount = round2 avgAmount, rx_count = length occ,
                rx_interval = round2 avgInterval, rx_frequency = frequency,
                rx_confidence = (if length occ \<ge> 4 \<and> intervalSD \<le> 4 then ''HIGH'' else ''MEDIUM''),
                rx_last = t_at (last occ)\<rparr>, avgAmount))"

definition monthly_cost :: "string \<Rightarrow> rat \<Rightarrow> rat" where
  "monthly_cost frequency avgAmount =
     (if frequency = ''MONTHLY'' then avgAmount else if frequency = ''WEEKLY'' then avgAmount * (433/100) else 0)"

definition RecurringDetection :: "ranging \<Rightarrow> txn list \<Rightarrow> int \<Rightarrow> RecurringExpense list \<times> rat" where
  "RecurringDetection rg txns now =
     (let ds = debitsInRange txns (AddDate 0 0 (- seedWindowDaysForRecurring) now) now;
          found = List.map_filter (recurring_of ds) (rg_names rg (keys_of t_merchant ds))
      in (sort_down rx_amount (map fst found), round2 (sum_list (map (\<lambda>(r, a). monthly_cost (rx_frequency r) a) found))))"

section \<open>N: subscriptions still being paid\<close>

definition subscriptionVerifiedWithinDays :: int where "subscriptionVerifiedWithinDays = 40"

text \<open>The last payment travels as epoch seconds only on the wire: the engine compares instants.\<close>

definition VerifiedSubscriptionLoad :: "ranging \<Rightarrow> txn list \<Rightarrow> int \<Rightarrow> RecurringExpense list \<times> rat" where
  "VerifiedSubscriptionLoad rg txns now =
     (let cutoff = AddDate 0 0 (- subscriptionVerifiedWithinDays) now;
          active = filter (\<lambda>r. \<not> rx_last r < cutoff) (fst (RecurringDetection rg txns now))
      in (active, round2 (sum_list (map (\<lambda>r. monthly_cost (rx_frequency r) (rx_amount r)) active))))"

section \<open>H: night spend and impulse\<close>

record ImpulseTransaction =
  im_id :: string
  im_merchant :: string
  im_amount :: money
  im_at :: int
  im_reason :: string

record NightImpulseResult =
  ni_night :: money
  ni_night_share :: rat
  ni_score :: rat
  ni_total :: money
  ni_list :: "ImpulseTransaction list"

definition impulseSmallAmountThreshold :: money where "impulseSmallAmountThreshold = 500"

definition impulseCategories :: "string list" where
  "impulseCategories = [''Food & Dining'', ''Shopping'', ''Entertainment'']"

definition hour_of :: "int \<Rightarrow> int" where
  "hour_of t = (t mod day_ns) div 3600000000000"

definition isNightHour :: "int \<Rightarrow> bool" where
  "isNightHour t \<longleftrightarrow> hour_of t \<ge> 22 \<or> hour_of t < 5"

definition small_spend :: "txn \<Rightarrow> bool" where
  "small_spend t \<longleftrightarrow> t_amount t < impulseSmallAmountThreshold \<and> t_category t \<in> set impulseCategories"

definition impulse_of :: "txn \<Rightarrow> ImpulseTransaction" where
  "impulse_of t = \<lparr>im_id = t_id t, im_merchant = t_merchant t, im_amount = t_amount t, im_at = t_at t,
     im_reason = (if isNightHour (t_at t) then ''NIGHT_SPEND'' else ''SMALL_FREQUENT'')\<rparr>"

definition NightAndImpulse :: "txn list \<Rightarrow> int \<Rightarrow> NightImpulseResult" where
  "NightAndImpulse txns now =
     (let window = debitsInRange txns (AddDate 0 0 (-30) now) now;
          tot = sumAmount window;
          night = round2 (total (filter (\<lambda>t. isNightHour (t_at t)) window));
          impulsive = filter (\<lambda>t. isNightHour (t_at t) \<or> small_spend t) window
      in \<lparr>ni_night = night, ni_night_share = round2 (safeDiv night tot * 100),
          ni_score = min 100 (round2 (safeDiv (total impulsive) (max tot 1) * 100)),
          ni_total = round2 (total impulsive), ni_list = map impulse_of (take 25 impulsive)\<rparr>)"

section \<open>I: patterns\<close>

record PatternSummaryResult =
  ps_daily :: rat
  ps_weekly :: rat
  ps_monthly :: rat
  ps_largest :: "txn option"
  ps_smallest :: "txn option"
  ps_max_day :: "int option"
  ps_max_total :: money
  ps_weekdays :: "(string \<times> money) list"

definition toTransactionRef :: "txn \<Rightarrow> txn" where
  "toTransactionRef t = t\<lparr>t_amount := round2 (t_amount t)\<rparr>"

definition largest_of :: "txn list \<Rightarrow> txn option" where
  "largest_of ts = (case ts of [] \<Rightarrow> None | t # _ \<Rightarrow> Some (foldl (\<lambda>m t. if t_amount t > t_amount m then t else m) t ts))"

definition smallest_of :: "txn list \<Rightarrow> txn option" where
  "smallest_of ts = (case ts of [] \<Rightarrow> None | t # _ \<Rightarrow> Some (foldl (\<lambda>m t. if t_amount t < t_amount m then t else m) t ts))"

text \<open>The day (a day number) with the largest total above zero.\<close>

definition day_totals :: "ranging \<Rightarrow> txn list \<Rightarrow> (int \<times> money) list" where
  "day_totals rg ts = map (\<lambda>d. (d, total (filter (\<lambda>t. day_of (t_at t) = d) ts))) (rg_days rg (remdups (map (\<lambda>t. day_of (t_at t)) ts)))"

definition max_day :: "(int \<times> money) list \<Rightarrow> int option \<times> money" where
  "max_day ds = foldl (\<lambda>(d, m) (day, tot). if tot > m then (Some day, tot) else (d, m)) (None, 0) ds"

definition PatternSummary :: "ranging \<Rightarrow> txn list \<Rightarrow> int \<Rightarrow> PatternSummaryResult" where
  "PatternSummary rg txns now =
     (let last30 = debitsInRange txns (AddDate 0 0 (-30) now) now;
          last90 = debitsInRange txns (AddDate 0 0 (-90) now) now;
          daily = round2 (safeDiv (sumAmount last30) 30);
          (d, m) = max_day (day_totals rg last30)
      in \<lparr>ps_daily = daily, ps_weekly = round2 (daily * 7), ps_monthly = round2 (safeDiv (sumAmount last90) 3),
          ps_largest = map_option toTransactionRef (largest_of last90),
          ps_smallest = map_option toTransactionRef (smallest_of last90),
          ps_max_day = d, ps_max_total = round2 m, ps_weekdays = per_day rg last30\<rparr>)"

section \<open>J: the home snapshot\<close>

record SnapshotResult =
  sn_today :: money
  sn_week :: money
  sn_growth :: rat
  sn_balance :: "money option"
  sn_today_pct :: "rat option"
  sn_week_pct :: "rat option"
  sn_chart :: "(string \<times> money) list"

text \<open>Six buckets of five days, the index clamped to them.\<close>

definition chart_index :: "int \<Rightarrow> int \<Rightarrow> nat" where
  "chart_index windowStart t = nat (max 0 (min 5 ((t - windowStart) div (5 * day_ns))))"

definition chart_totals :: "int \<Rightarrow> txn list \<Rightarrow> money list" where
  "chart_totals windowStart ts =
     foldl (\<lambda>b t. b[chart_index windowStart (t_at t) := b ! chart_index windowStart (t_at t) + t_amount t]) (replicate 6 0) ts"

definition Snapshot :: "txn list \<Rightarrow> int \<Rightarrow> money option \<Rightarrow> SnapshotResult" where
  "Snapshot txns now currentBalance =
     (let today = sumAmount (debitsInRange txns (midnight now) now);
          week = sumAmount (debitsInRange txns (AddDate 0 0 (-7) now) now);
          windowStart = AddDate 0 0 (-30) now;
          debit30 = sumAmount (debitsInRange txns windowStart now);
          credit30 = sumAmount (creditsInRange txns windowStart now);
          bal = (case currentBalance of Some b \<Rightarrow> if b > 0 then Some b else None | None \<Rightarrow> None);
          buckets = chart_totals windowStart (debitsInRange txns windowStart now)
      in \<lparr>sn_today = today, sn_week = week, sn_growth = round2 (safeDiv debit30 (max credit30 1) * 100),
          sn_balance = bal, sn_today_pct = map_option (\<lambda>b. round2 (safeDiv today b * 100)) bal,
          sn_week_pct = map_option (\<lambda>b. round2 (safeDiv week b * 100)) bal,
          sn_chart = map (\<lambda>i. (dateKey (AddDate 0 0 (int i * 5) windowStart), round2 (buckets ! i))) [0..<6]\<rparr>)"

section \<open>K: comparison\<close>

record ComparisonEntry =
  ce_name :: string
  ce_total :: money
  ce_share :: rat

record ComparisonResult =
  cr_by :: string
  cr_entries :: "ComparisonEntry list"
  cr_total :: money

definition Compare :: "ranging \<Rightarrow> txn list \<Rightarrow> int \<Rightarrow> string \<Rightarrow> string list \<Rightarrow> ComparisonResult" where
  "Compare rg txns now by_what names =
     (let window = debitsInRange txns (AddDate 0 0 (-30) now) now;
          key = (if by_what = ''merchant'' then t_merchant else t_category);
          grandTotal = total window;
          shown = filter (\<lambda>n. names = [] \<or> n \<in> set names) (rg_names rg (keys_of key window));
          entries = sort_down ce_total (map (\<lambda>n. \<lparr>ce_name = n, ce_total = round2 (total (of_key key n window)),
              ce_share = round2 (safeDiv (total (of_key key n window)) grandTotal * 100)\<rparr>) shown)
      in \<lparr>cr_by = by_what, cr_entries = (if names = [] \<and> length entries > 10 then take 10 entries else entries),
          cr_total = round2 grandTotal\<rparr>)"

section \<open>M: pay-later exposure\<close>

record BNPLProviderStat =
  bp_provider :: string
  bp_total :: money
  bp_count :: nat

record BNPLExposureResult =
  bx_total :: money
  bx_ratio :: rat
  bx_historical :: rat
  bx_danger :: bool
  bx_providers :: "BNPLProviderStat list"

definition bnplProviders :: "string list" where
  "bnplProviders = [''Simpl'', ''LazyPay'', ''ZestMoney'', ''Slice'', ''Amazon Pay Later'', ''Paytm Postpaid'']"

definition bnplRatio :: "ranging \<Rightarrow> txn list \<Rightarrow> int \<Rightarrow> int \<Rightarrow> money \<times> rat \<times> BNPLProviderStat list" where
  "bnplRatio rg txns from to =
     (let ds = filter (\<lambda>t. t_merchant t \<in> set bnplProviders) (debitsInRange txns from to);
          income = sumAmount (creditsInRange txns from to)
      in (round2 (total ds), round2 (safeDiv (total ds) (max income 1) * 100),
          sort_down bp_total (map (\<lambda>n. \<lparr>bp_provider = n, bp_total = round2 (total (of_key t_merchant n ds)),
             bp_count = length (of_key t_merchant n ds)\<rparr>) (rg_names rg (keys_of t_merchant ds)))))"

definition BNPLExposure :: "ranging \<Rightarrow> txn list \<Rightarrow> int \<Rightarrow> BNPLExposureResult" where
  "BNPLExposure rg txns now =
     (let (tot, ratio, providers) = bnplRatio rg txns (AddDate 0 0 (-30) now) now;
          (_, historical, _) = bnplRatio rg txns (AddDate 0 0 (-90) now) (AddDate 0 0 (-30) now)
      in \<lparr>bx_total = tot, bx_ratio = ratio, bx_historical = historical,
          bx_danger = (ratio > 20 \<or> (historical > 0 \<and> ratio > historical * (3/2))), bx_providers = providers\<rparr>)"

end
