(* ===== verification/Income.thy ===== *)
theory Income
  imports SpendMerchants
begin

text \<open>
  The rest of \<open>internal/service/analytics/engine.go\<close>: the consistency of a user's investing
  (section L) and the analysis of income (section O), where credits that visibly leave again as
  rent are set aside.
\<close>

section \<open>L: investment consistency\<close>

record InvestmentEvent =
  ie_at :: int
  ie_amount :: money

record InvestmentConsistencyResult =
  ic_tracked :: int
  ic_active :: int
  ic_active_pct :: rat
  ic_streak :: int
  ic_missed :: int
  ic_avg :: rat

definition investmentMonthsTracked :: nat where "investmentMonthsTracked = 12"

definition monthsBetween :: "int \<Rightarrow> int \<Rightarrow> int" where
  "monthsBetween t anchor = (case civil (day_of t) of (y, m, _) \<Rightarrow>
     case civil (day_of anchor) of (ay, am, _) \<Rightarrow> (ay - y) * 12 + int am - int m)"

text \<open>The slot of an event, the newest month last; events outside the twelve months have none.\<close>

definition month_slot :: "int \<Rightarrow> int \<Rightarrow> nat option" where
  "month_slot anchor t = (let idx = int investmentMonthsTracked - 1 - monthsBetween t anchor
     in if idx < 0 \<or> idx \<ge> int investmentMonthsTracked then None else Some (nat idx))"

definition month_events :: "int \<Rightarrow> InvestmentEvent list \<Rightarrow> nat \<Rightarrow> InvestmentEvent list" where
  "month_events anchor events i = filter (\<lambda>e. month_slot anchor (ie_at e) = Some i) events"

text \<open>The loop from the newest month back that stops at the first month without an event.\<close>

fun streak :: "bool list \<Rightarrow> nat" where
  "streak [] = 0"
| "streak (b # bs) = (if b then Suc (streak bs) else 0)"

definition InvestmentConsistency :: "InvestmentEvent list \<Rightarrow> int \<Rightarrow> InvestmentConsistencyResult" where
  "InvestmentConsistency events now =
     (let anchor = month_first now;
          active = map (\<lambda>i. month_events anchor events i \<noteq> []) [0..<investmentMonthsTracked];
          n = int (count_where (\<lambda>b. b) active);
          invested = sum_list (map (\<lambda>i. sum_list (map ie_amount (month_events anchor events i))) [0..<investmentMonthsTracked])
      in \<lparr>ic_tracked = int investmentMonthsTracked, ic_active = n,
          ic_active_pct = round2 (safeDiv (of_int n) (of_nat investmentMonthsTracked) * 100),
          ic_streak = int (streak (rev active)), ic_missed = int investmentMonthsTracked - n,
          ic_avg = (if n > 0 then round2 (invested / of_int n) else 0)\<rparr>)"

section \<open>O: income streams\<close>

record IncomeStream =
  is_merchant :: string
  is_count :: nat
  is_avg :: rat
  is_total :: money
  is_class :: string
  is_reason :: string

definition incomeWindowDays :: int where "incomeWindowDays = 180"

definition rentLikeCategories :: "string list" where
  "rentLikeCategories = [''rent'', ''utilities'', ''bills & utilities'', ''housing'', ''mortgage'']"

definition isRentLikeCategory :: "string \<Rightarrow> bool" where
  "isRentLikeCategory cat \<longleftrightarrow> to_lower (trim_space cat) \<in> set rentLikeCategories"

definition rentPassthroughWindowDays :: rat where "rentPassthroughWindowDays = 5"
definition rentPassthroughAmountTolPct :: rat where "rentPassthroughAmountTolPct = 1/10"
definition rentPassthroughMinMatches :: nat where "rentPassthroughMinMatches = 2"

definition passes_through :: "txn \<Rightarrow> txn \<Rightarrow> bool" where
  "passes_through c d \<longleftrightarrow> (let days = days_between (t_at c) (t_at d)
     in \<not> (days < 0 \<or> days > rentPassthroughWindowDays) \<and>
        \<bar>t_amount d - t_amount c\<bar> \<le> t_amount c * rentPassthroughAmountTolPct)"

definition matches_of :: "txn list \<Rightarrow> txn list \<Rightarrow> nat" where
  "matches_of rentDebits occ = count_where (\<lambda>c. list_ex (passes_through c) rentDebits) occ"

definition Excluded :: string where "Excluded = ''EXCLUDED_RENT_PASSTHROUGH''"

definition income_stream :: "txn list \<Rightarrow> txn list \<Rightarrow> string \<Rightarrow> IncomeStream" where
  "income_stream rentDebits credits merchant =
     (let occ = of_key t_merchant merchant credits; matches = matches_of rentDebits occ;
          out = (matches \<ge> rentPassthroughMinMatches \<and> matches * 2 \<ge> length occ)
      in \<lparr>is_merchant = merchant, is_count = length occ, is_avg = round2 (total occ / of_nat (length occ)),
          is_total = round2 (total occ), is_class = (if out then Excluded else ''OTHER''),
          is_reason = (if out then ''recurring credit consistently followed by a matching rent/utilities debit'' else '''')\<rparr>)"

definition ClassifyIncomeStreams :: "ranging \<Rightarrow> txn list \<Rightarrow> int \<Rightarrow> int \<Rightarrow> IncomeStream list" where
  "ClassifyIncomeStreams rg txns from to =
     (let credits = creditsInRange txns from to;
          rentDebits = filter (\<lambda>t. isRentLikeCategory (t_category t)) (debitsInRange txns from to)
      in sort_down is_total (map (income_stream rentDebits credits) (rg_names rg (keys_of t_merchant credits))))"

record IncomeResult =
  in_avg :: rat
  in_interval :: rat
  in_payday :: "int option"
  in_stability :: string
  in_frequency :: string
  in_source :: string
  in_count :: nat
  in_excluded :: "IncomeStream list"

text \<open>The credits that count and the streams set aside; excluding everything excludes nothing.\<close>

definition counted_credits :: "ranging \<Rightarrow> txn list \<Rightarrow> int \<Rightarrow> int \<Rightarrow> txn list \<times> IncomeStream list" where
  "counted_credits rg txns from now =
     (let excludedStreams = filter (\<lambda>s. is_class s = Excluded) (ClassifyIncomeStreams rg txns from now);
          allCredits = creditsInRange txns from now;
          credits = filter (\<lambda>c. t_merchant c \<notin> set (map is_merchant excludedStreams)) allCredits
      in if credits = [] \<and> allCredits \<noteq> [] then (allCredits, []) else (credits, excludedStreams))"

definition primary_source :: "ranging \<Rightarrow> txn list \<Rightarrow> string" where
  "primary_source rg credits =
     fst (foldl (\<lambda>(src, top) n. let t = total (of_key t_merchant n credits) in if t > top then (n, t) else (src, top))
       ('''', 0) (rg_names rg (keys_of t_merchant credits)))"

definition stability_label :: "real \<Rightarrow> real \<Rightarrow> string" where
  "stability_label intervalCoV amountCoV =
     (if intervalCoV < 15/100 \<and> amountCoV < 15/100 then ''STABLE'' else if intervalCoV < 4/10 then ''VARIABLE'' else ''IRREGULAR'')"

definition frequency_label :: "rat \<Rightarrow> string" where
  "frequency_label avgInterval =
     (if avgInterval \<ge> 25 \<and> avgInterval \<le> 35 then ''MONTHLY'' else if avgInterval < 25 then ''OCCASIONAL'' else ''IRREGULAR'')"

definition IncomeAnalysis :: "ranging \<Rightarrow> txn list \<Rightarrow> int \<Rightarrow> IncomeResult" where
  "IncomeAnalysis rg txns now =
     (let (counted, excludedStreams) = counted_credits rg txns (AddDate 0 0 (- incomeWindowDays) now) now;
          credits = sort_key t_at counted;
          none = \<lparr>in_avg = 0, in_interval = 0, in_payday = None, in_stability = ''IRREGULAR'', in_frequency = ''IRREGULAR'',
            in_source = '''', in_count = length credits, in_excluded = excludedStreams\<rparr>;
          one = none\<lparr>in_avg := round2 (total credits / of_nat (length credits)), in_source := primary_source rg credits,
            in_frequency := ''OCCASIONAL''\<rparr>;
          intervals = intervals_of credits;
          amounts = map t_amount credits;
          avgInterval = mean intervals;
          intervalCoV = safeDivR (stddev intervals) (of_rat avgInterval);
          amountCoV = safeDivR (stddev amounts) (of_rat (mean amounts))
      in if credits = [] then none
         else if length credits < 2 then one
         else one\<lparr>in_interval := round2 avgInterval, in_stability := stability_label intervalCoV amountCoV,
           in_frequency := frequency_label avgInterval,
           in_payday := Some (AddDate 0 0 (round_away avgInterval) (t_at (last credits)))\<rparr>)"

end
