(* ===== verification/BudgetPlan.thy ===== *)
theory BudgetPlan
  imports BudgetStore Income
begin

text \<open>
  The pure parts of \<open>internal/service/budget/service.go\<close>: the history a plan is made from, the
  split used when the remote model is away, the floors of bills, and the texts of a diagnosis.
  Amounts are exact rationals; the order in which Go ranges over a map is the parameter \<open>rg\<close>.
\<close>

section \<open>Texts\<close>

text \<open>\<open>%.0f\<close>: to the nearest integer, halves to the even one.\<close>

definition round_even :: "rat \<Rightarrow> int" where
  "round_even q = (let f = \<lfloor>q\<rfloor>; r = q - of_int f
     in if r < 1/2 then f else if r > 1/2 then f + 1 else if even f then f else f + 1)"

definition fmt0 :: "rat \<Rightarrow> string" where
  "fmt0 q = itoa (round_even q)"

text \<open>The UTF-8 bytes of the rupee sign.\<close>

definition rupee :: string where
  "rupee = [CHR 0xE2, CHR 0x82, CHR 0xB9]"

definition month_names :: "string list" where
  "month_names = [''January'', ''February'', ''March'', ''April'', ''May'', ''June'', ''July'', ''August'', ''September'',
     ''October'', ''November'', ''December'']"

definition firstNonEmpty :: "string \<Rightarrow> string \<Rightarrow> string" where
  "firstNonEmpty a b = (if trim_space a \<noteq> [] then a else b)"

text \<open>\<open>strings.FieldsFunc\<close> at underscores and blanks: the non-empty parts.\<close>

definition fields_of :: "string \<Rightarrow> string list" where
  "fields_of s = filter (\<lambda>p. p \<noteq> []) (split_on (CHR ''_'') (map (\<lambda>c. if c = CHR '' '' then CHR ''_'' else c) s))"

fun join_with :: "string \<Rightarrow> string list \<Rightarrow> string" where
  "join_with sep [] = []"
| "join_with sep [p] = p"
| "join_with sep (p # q # ps) = p @ sep @ join_with sep (q # ps)"

definition titleize :: "string \<Rightarrow> string" where
  "titleize s = join_with '' '' (map (\<lambda>p. case p of [] \<Rightarrow> [] | c # cs \<Rightarrow> to_upper [c] @ to_lower cs) (fields_of s))"

section \<open>Months\<close>

text \<open>A year and month as one number, and its text.\<close>

definition month_key :: "int \<Rightarrow> int" where
  "month_key t = (case civil (day_of t) of (y, m, _) \<Rightarrow> y * 12 + int m)"

definition key_text :: "int \<Rightarrow> string" where
  "key_text k = month_text (k div 12) (nat (k mod 12))"

text \<open>\<open>time.Now().Format("2006-01")\<close>\<close>

definition this_month :: "int \<Rightarrow> string" where
  "this_month now = key_text (month_key now)"

definition digits_value :: "string \<Rightarrow> int" where
  "digits_value s = foldl (\<lambda>n c. n * 10 + int (code_of c - 48)) 0 s"

text \<open>\<open>time.Parse("2006-01", s)\<close>: four digits, a dash, two digits between 01 and 12.\<close>

definition parse_month :: "string \<Rightarrow> int option" where
  "parse_month s = (let y = take 4 s; m = drop 5 s
     in if length s = 7 \<and> list_all is_digit y \<and> s ! 4 = CHR ''-'' \<and> list_all is_digit m \<and>
           1 \<le> digits_value m \<and> digits_value m \<le> 12
        then Some (date_days (digits_value y) (digits_value m - 1) 1 * day_ns) else None)"

text \<open>\<open>%d\<close> of \<open>fmt.Sscanf\<close>: blanks, a sign, digits; what is left of the input.\<close>

definition scan_int :: "string \<Rightarrow> (int \<times> string) option" where
  "scan_int s = (let s1 = dropWhile (\<lambda>c. c \<in> {CHR '' '', CHR 0x09, CHR 0x0B, CHR 0x0C, CHR 0x0D}) s;
       neg = (s1 \<noteq> [] \<and> hd s1 = CHR ''-'');
       s2 = (if s1 \<noteq> [] \<and> (hd s1 = CHR ''-'' \<or> hd s1 = CHR ''+'') then tl s1 else s1);
       ds = takeWhile is_digit s2
     in if ds = [] then None else Some (if neg then - digits_value ds else digits_value ds, dropWhile is_digit s2))"

definition parseYearMonth :: "int \<Rightarrow> string \<Rightarrow> int \<times> int" where
  "parseYearMonth now s = (let dflt = (case civil (day_of now) of (y, m, _) \<Rightarrow> (y, int m + 1)) in
     case scan_int s of None \<Rightarrow> dflt | Some (y, rest) \<Rightarrow>
       (case rest of [] \<Rightarrow> dflt | c # rest' \<Rightarrow> if c \<noteq> CHR ''-'' then dflt
         else (case scan_int rest' of None \<Rightarrow> dflt | Some (m, _) \<Rightarrow> if m < 1 \<or> m > 12 then dflt else (y, m))))"

definition iso_text :: "int \<Rightarrow> string" where
  "iso_text t = (let s = (t mod day_ns) div 1000000000 in
     dateKey t @ ''T'' @ pad_zero 2 (itoa (s div 3600)) @ '':'' @ pad_zero 2 (itoa (s div 60 mod 60)) @ '':'' @
     pad_zero 2 (itoa (s mod 60)) @ ''Z'')"

section \<open>Names of categories\<close>

definition canon_with :: "cat_index \<Rightarrow> string \<Rightarrow> string" where
  "canon_with idx raw = (case map_of idx (to_lower (trim_space raw)) of Some m \<Rightarrow> cm_name m | None \<Rightarrow> ''other'')"

definition meta_with :: "cat_index \<Rightarrow> string \<Rightarrow> CategoryMeta option" where
  "meta_with idx key = (case map_of idx (to_lower (trim_space key)) of Some m \<Rightarrow> Some m | None \<Rightarrow> map_of idx ''other'')"

definition normalizeList :: "string list \<Rightarrow> (string \<Rightarrow> string) \<Rightarrow> string list" where
  "normalizeList xs canon = map canon xs"

definition decorate_one :: "cat_index \<Rightarrow> SuggestedCategory \<Rightarrow> SuggestedCategory" where
  "decorate_one idx c = (case map_of idx (to_lower (trim_space (sg_id c))) of
       Some m \<Rightarrow> c\<lparr>sg_id := cm_name m, sg_name := (if sg_name c = [] then cm_display m else sg_name c),
         sg_icon := (if sg_icon c = [] then cm_icon m else sg_icon c),
         sg_color := (if sg_color c = [] then cm_color m else sg_color c)\<rparr>
     | None \<Rightarrow> if sg_name c = [] then c\<lparr>sg_name := titleize (sg_id c)\<rparr> else c)"

section \<open>History\<close>

record historyBundle =
  hb_vitals :: "MonthlyVital list"
  hb_cats :: cat_history
  hb_history :: "HistoricalSpendingEntry list"
  hb_income :: money
  hb_expenses :: money
  hb_savings :: money

definition diagnosisHistoryMonths :: nat where "diagnosisHistoryMonths = 6"

text \<open>\<open>time.Time{}\<close>: midnight of the first day of year 1.\<close>

definition zero_time :: int where
  "zero_time = -719162 * day_ns"

text \<open>The counterparties whose credits do not count as income.\<close>

definition excludedIncomeMerchants :: "ranging \<Rightarrow> txn list \<Rightarrow> int \<Rightarrow> string list" where
  "excludedIncomeMerchants rg txns cutoff =
     (let ex = map is_merchant (filter (\<lambda>s. is_class s = Excluded) (ClassifyIncomeStreams rg txns zero_time cutoff));
          credits = filter (\<lambda>t. t_at t < cutoff \<and> t_type t = TxnCredit) txns;
          excl = total (filter (\<lambda>t. t_merchant t \<in> set ex) credits)
      in if total credits > 0 \<and> excl \<ge> total credits then [] else ex)"

definition counted_income :: "ranging \<Rightarrow> txn list \<Rightarrow> int \<Rightarrow> txn list" where
  "counted_income rg txns cutoff = (let ex = excludedIncomeMerchants rg txns cutoff
     in filter (\<lambda>t. t_at t < cutoff \<and> t_type t = TxnCredit \<and> t_merchant t \<notin> set ex) txns)"

definition past_expenses :: "txn list \<Rightarrow> int \<Rightarrow> txn list" where
  "past_expenses txns cutoff = filter (\<lambda>t. t_at t < cutoff \<and> t_type t = TxnDebit) txns"

definition month_total :: "int \<Rightarrow> txn list \<Rightarrow> money" where
  "month_total k ts = total (filter (\<lambda>t. month_key (t_at t) = k) ts)"

text \<open>The newest six months with any counted transaction, newest first.\<close>

definition history_months :: "txn list \<Rightarrow> txn list \<Rightarrow> int list" where
  "history_months incomes expenses =
     take diagnosisHistoryMonths (rev (sort (remdups (map (\<lambda>t. month_key (t_at t)) (incomes @ expenses)))))"

definition history_entry :: "txn list \<Rightarrow> txn list \<Rightarrow> int \<Rightarrow> HistoricalSpendingEntry" where
  "history_entry incomes expenses k =
     (let inc = month_total k incomes; exp = month_total k expenses
      in \<lparr>he_month = k mod 12 + 1, he_year = k div 12, he_income = round2 inc, he_expenses = round2 exp,
          he_savings = round2 (max 0 (inc - exp))\<rparr>)"

definition vital_of :: "HistoricalSpendingEntry \<Rightarrow> MonthlyVital" where
  "vital_of e = \<lparr>vi_month = month_text (he_year e) (nat (he_month e - 1)), vi_salary = he_income e, vi_expense = he_expenses e,
     vi_savings = he_savings e\<rparr>"

text \<open>The mean of the months with a positive total.\<close>

definition positive_mean :: "rat list \<Rightarrow> rat" where
  "positive_mean xs = (let ps = filter (\<lambda>x. x > 0) xs in if ps = [] then 0 else sum_list ps / of_nat (length ps))"

definition category_entries :: "ranging \<Rightarrow> (string \<Rightarrow> string) \<Rightarrow> txn list \<Rightarrow> int list \<Rightarrow> string \<Rightarrow> (money \<times> string) list" where
  "category_entries rg canon expenses months cat =
     (let ts = filter (\<lambda>t. canon (t_category t) = cat) expenses
      in map (\<lambda>k. (round2 (month_total k ts), key_text k))
           (filter (\<lambda>k. k \<in> set months \<and> month_total k ts > 0) (rg_days rg (remdups (map (\<lambda>t. month_key (t_at t)) ts)))))"

definition category_history :: "ranging \<Rightarrow> (string \<Rightarrow> string) \<Rightarrow> txn list \<Rightarrow> int list \<Rightarrow> cat_history" where
  "category_history rg canon expenses months =
     filter (\<lambda>(c, es). es \<noteq> []) (map (\<lambda>c. (c, category_entries rg canon expenses months c))
       (rg_names rg (remdups (map (\<lambda>t. canon (t_category t)) expenses))))"

definition buildHistory :: "ranging \<Rightarrow> txn list \<Rightarrow> int \<Rightarrow> (string \<Rightarrow> string) \<Rightarrow> historyBundle" where
  "buildHistory rg txns target canon =
     (let cutoff = month_first target;
          incomes = counted_income rg txns cutoff;
          expenses = past_expenses txns cutoff;
          months = history_months incomes expenses;
          entries = map (history_entry incomes expenses) months;
          avgIncome = positive_mean (map (\<lambda>k. month_total k incomes) months);
          avgExpenses = positive_mean (map (\<lambda>k. month_total k expenses) months)
      in \<lparr>hb_vitals = map vital_of entries, hb_cats = category_history rg canon expenses months, hb_history = entries,
          hb_income = avgIncome, hb_expenses = avgExpenses, hb_savings = max 0 (avgIncome - avgExpenses)\<rparr>)"

text \<open>
  The latest \<open>"YYYY-MM"\<close> of the history. The texts of years 0 to 9999 are ordered as their months
  are, so the comparison of texts is one of months.
\<close>

definition latestHistoryMonth :: "historyBundle \<Rightarrow> string" where
  "latestHistoryMonth h = (case map (\<lambda>e. he_year e * 12 + he_month e - 1) (hb_history h) of
     [] \<Rightarrow> '''' | k # ks \<Rightarrow> key_text (fold max ks k))"

section \<open>Floors of bills and the fallback split\<close>

definition spent_total :: "(money \<times> string) list \<Rightarrow> money" where
  "spent_total es = sum_list (map fst es)"

text \<open>What is committed to each protected category, and by how much the sum exceeds the total.\<close>

definition protectedCommitted :: "string list \<Rightarrow> cat_history \<Rightarrow> money \<Rightarrow> (string \<times> money) list \<times> money" where
  "protectedCommitted protected hist tot =
     (let floor_of = (\<lambda>cat. case map_of hist cat of None \<Rightarrow> 0 | Some es \<Rightarrow> spent_total es);
          kept = filter (\<lambda>cat. floor_of cat > 0) protected;
          s = sum_list (map floor_of kept)
      in (map (\<lambda>cat. (cat, floor_of cat)) (remdups kept), if s > tot then s - tot else 0))"

definition default_split :: "(string \<times> rat \<times> rat \<times> rat \<times> rat) list" where
  "default_split =
    [(''shopping'', 35/100, 99/100, 30/100, 40/100), (''food_dining'', 20/100, 90/100, 15/100, 25/100),
     (''transportation'', 15/100, 85/100, 10/100, 20/100), (''utilities'', 10/100, 95/100, 8/100, 12/100),
     (''entertainment'', 10/100, 95/100, 8/100, 12/100), (''healthcare'', 5/100, 80/100, 2/100, 8/100),
     (''insurance'', 5/100, 98/100, 4/100, 6/100)]"

definition suggested :: "string \<Rightarrow> money \<Rightarrow> rat \<Rightarrow> rat list \<Rightarrow> SuggestedCategory" where
  "suggested cat amount conf bounds = \<lparr>sg_id = cat, sg_name = '''', sg_icon = '''', sg_color = '''', sg_amount = amount,
     sg_conf = conf, sg_bounds = bounds, sg_reason = ''''\<rparr>"

definition no_history_split :: "money \<Rightarrow> SuggestedCategory list" where
  "no_history_split tot = map (\<lambda>(cat, frac, conf, lo, hi). suggested cat (round2 (tot * frac)) conf [round2 (lo * tot), round2 (hi * tot)]) default_split"

definition computeFallbackCategories :: "ranging \<Rightarrow> money \<Rightarrow> cat_history \<Rightarrow> (string \<times> money) list \<Rightarrow> SuggestedCategory list" where
  "computeFallbackCategories rg tot hist committed =
     (let catTotals = map (\<lambda>(c, es). (c, spent_total es)) hist;
          floors = map (\<lambda>c. suggested c (round2 (the (map_of committed c))) (99/100)
              [round2 (the (map_of committed c)), round2 (the (map_of committed c))]) (rg_names rg (map fst committed));
          remaining = max 0 (tot - sum_list (map sg_amount floors));
          others = filter (\<lambda>c. c \<notin> set (map fst committed)) (rg_names rg (map fst catTotals));
          otherGrand = sum_list (map (\<lambda>c. value_of catTotals c) others);
          share = (\<lambda>c. let amt = (if otherGrand > 0 then round2 (remaining * (value_of catTotals c / otherGrand)) else 0)
             in suggested c amt (85/100) [round2 (amt * (8/10)), round2 (amt * (12/10))])
      in if hist = [] \<or> sum_list (map snd catTotals) \<le> 0 then no_history_split tot
         else sort_down sg_amount (floors @ map share (filter (\<lambda>c. value_of catTotals c > 0) others)))"

section \<open>Insights and reasoning\<close>

definition insight :: "string \<Rightarrow> string \<Rightarrow> string \<Rightarrow> DiagnosisInsight" where
  "insight title txt severity = \<lparr>di_title = title, di_text = txt, di_severity = severity\<rparr>"

definition buildFallbackInsights :: "money \<Rightarrow> money \<Rightarrow> money \<Rightarrow> DiagnosisInsight list" where
  "buildFallbackInsights avgExpenses avgIncome avgSavings =
     (if avgIncome \<le> 0 then [insight ''Set Up Your Budget''
         ''We don't have enough spending history yet. Start tracking your expenses to get personalized insights.'' ''positive'']
      else let rate = avgSavings / avgIncome; pct = fmt0 (rate * 100) @ ''%'' in
        (if rate \<ge> 30/100 then insight ''Excellent Savings Rate''
             (''You're saving '' @ pct @ '' of your income. That's outstanding financial discipline!'') ''positive''
         else if rate \<ge> 20/100 then insight ''Good Savings Rate''
             (''You're saving '' @ pct @ '' of your income. You're on track with the recommended 20% rule.'') ''positive''
         else if rate \<ge> 10/100 then insight ''Savings Could Improve''
             (''You're saving '' @ pct @ '' of your income. Aim for 20% to build a stronger cushion.'') ''warning''
         else insight ''Low Savings Alert''
             ''You're saving less than 10% of your income. Reducing discretionary spending could help significantly.'' ''critical'')
        # (if avgExpenses > avgIncome * (95/100) then [insight ''Spending Near Limit''
             ''Your expenses are very close to your income. A budget plan can help you stay in control.'' ''warning''] else []))"

definition income_reasons :: "money \<Rightarrow> money \<Rightarrow> money \<Rightarrow> money \<Rightarrow> string list" where
  "income_reasons avgExpenses avgIncome avgSavings suggest =
     (let rate = avgSavings / avgIncome; monthlySaving = avgIncome - suggest in
      [if rate \<le> 20/100 then ''your savings rate is currently '' @ fmt0 (rate * 100) @
           ''% of income. we nudged the budget to '' @ fmt0 (suggest / avgExpenses * 100) @
           ''% of your average spend to build a stronger cushion.''
       else ''you're already saving '' @ fmt0 (rate * 100) @ ''% of your income '' @ em_dash @
           '' great discipline. we matched the budget to your average spend so you don't over-restrict.'',
       if monthlySaving > 0 then ''sticking to this budget means saving roughly '' @ rupee @ fmt0 monthlySaving @ ''/month '' @
           em_dash @ '' '' @ rupee @ fmt0 (monthlySaving * 12) @ '' over the year.''
       else ''this budget is close to your income '' @ em_dash @ '' keep an eye on discretionary categories to avoid dipping into savings.''])"

definition buildSuggestedBudgetReasoning :: "money \<Rightarrow> money \<Rightarrow> money \<Rightarrow> money \<Rightarrow> string list" where
  "buildSuggestedBudgetReasoning avgExpenses avgIncome avgSavings suggest =
     (if avgExpenses \<le> 0 then
        [''This is a sensible starting point for first-time budgeters.'',
         ''As you track more spending, we'll refine this suggestion based on your real patterns.'']
      else (if avgIncome > 0 then income_reasons avgExpenses avgIncome avgSavings suggest
            else [''based on your average monthly spend of '' @ rupee @ fmt0 avgExpenses @
              '', this budget gives you a realistic but slightly tighter target.'']) @
        [if avgExpenses - suggest > 50 then ''it's '' @ rupee @ fmt0 (avgExpenses - suggest) @
           '' less than what you typically spend '' @ em_dash @ '' achievable with small cuts in non-essential categories.''
         else ''this aligns closely with your typical spend '' @ em_dash @ '' no dramatic lifestyle changes needed to stay on track.''])"

definition categoryStatus :: "rat \<Rightarrow> string" where
  "categoryStatus pct = (if pct \<ge> 100 then ''critical'' else if pct \<ge> 80 then ''warning'' else ''positive'')"

definition mapActionType :: "string \<Rightarrow> string \<Rightarrow> string" where
  "mapActionType recType severity =
     (if recType \<in> {''overspending'', ''budget_exceeded''} then ''reduce_spend''
      else if recType \<in> {''reallocation'', ''transfer''} then ''reallocate''
      else if recType \<in> {''savings'', ''save_more''} then ''save_more''
      else if severity \<in> {''critical'', ''warning''} then ''reduce_spend'' else ''save_more'')"

section \<open>The cache of diagnoses\<close>

definition diagnosisCacheTTL :: int where "diagnosisCacheTTL = 24 * 3600 * second"
definition sessionTTL :: int where "sessionTTL = 24 * 3600 * second"

definition cache_delete :: "string \<Rightarrow> ttlCache \<Rightarrow> ttlCache" where
  "cache_delete k c = filter (\<lambda>(k', _). k' \<noteq> k) c"

definition cache_get :: "string \<Rightarrow> int \<Rightarrow> ttlCache \<Rightarrow> BudgetDiagnosisResponse option \<times> ttlCache" where
  "cache_get k now c = (case map_of c k of
       Some e \<Rightarrow> if now > te_exp e then (None, cache_delete k c) else (Some (te_data e), c)
     | None \<Rightarrow> (None, cache_delete k c))"

definition cache_set :: "string \<Rightarrow> BudgetDiagnosisResponse \<Rightarrow> int \<Rightarrow> int \<Rightarrow> ttlCache \<Rightarrow> ttlCache" where
  "cache_set k v ttl now c = (k, \<lparr>te_data = v, te_exp = now + ttl\<rparr>) # cache_delete k c"

end
