(* ===== verification/BudgetService.thy ===== *)
theory BudgetService
  imports BudgetPlan
begin

text \<open>
  The operations of the budget service (\<open>internal/service/budget/service.go\<close>): diagnosis,
  suggestions, setup sessions, the active budget, settings and insights. The remote model is
  the parameter \<open>ml\<close>; a call whose error the code drops is an \<open>attempt\<close>.
\<close>

section \<open>Shared steps\<close>

definition stale_index :: "cat_index option \<Rightarrow> cat_index" where
  "stale_index ci = (case ci of Some idx \<Rightarrow> idx | None \<Rightarrow> [])"

definition categoryIndex :: "(budget_db, cat_index) act" where
  "categoryIndex = bind time_now (\<lambda>now. bind (mem (\<lambda>d. (cat_cache d, cat_expires d))) (\<lambda>(ci, ex).
     if ci \<noteq> None \<and> now < ex then ret (stale_index ci)
     else bind (ignoring [] CategoryIndex) (\<lambda>idx.
       if idx = [] then ret (stale_index ci)
       else bind (set_mem (\<lambda>d. d\<lparr>cat_cache := Some idx, cat_expires := now + 10 * 60 * second\<rparr>)) (\<lambda>_. ret idx))))"

definition fetchTransactions :: "uuid \<Rightarrow> int \<Rightarrow> (budget_db, txn list) act" where
  "fetchTransactions userID monthsBack = bind time_now (\<lambda>now. GetTransactions userID (AddDate 0 (- monthsBack) 0 now) now)"

definition diag_key :: "uuid \<Rightarrow> string \<Rightarrow> string" where
  "diag_key userID month = ''diag:'' @ userID @ '':'' @ month"

definition cached_diag :: "string \<Rightarrow> (budget_db, BudgetDiagnosisResponse option) act" where
  "cached_diag k = bind time_now (\<lambda>now. bind (mem (\<lambda>d. cache_get k now (diag_cache d))) (\<lambda>(r, c).
     bind (set_mem (\<lambda>d. d\<lparr>diag_cache := c\<rparr>)) (\<lambda>_. ret r)))"

definition store_diag :: "string \<Rightarrow> BudgetDiagnosisResponse \<Rightarrow> (budget_db, unit) act" where
  "store_diag k v = bind time_now (\<lambda>now. set_mem (\<lambda>d. d\<lparr>diag_cache := cache_set k v diagnosisCacheTTL now (diag_cache d)\<rparr>))"

definition drop_diag :: "string \<Rightarrow> (budget_db, unit) act" where
  "drop_diag k = set_mem (\<lambda>d. d\<lparr>diag_cache := cache_delete k (diag_cache d)\<rparr>)"

definition decorateCategories :: "SuggestedCategory list \<Rightarrow> (budget_db, SuggestedCategory list) act" where
  "decorateCategories cats = (if cats = [] then ret cats else bind categoryIndex (\<lambda>idx. ret (map (decorate_one idx) cats)))"

text \<open>Spend of a month by canonical category, in the order the categories appear, and its total.\<close>

definition actualSpendForMonth :: "uuid \<Rightarrow> int \<Rightarrow> int \<Rightarrow> (budget_db, (string \<times> money) list \<times> money) act" where
  "actualSpendForMonth userID year month = bind (attempt (fetchTransactions userID 3)) (\<lambda>r. case r of
       Inl _ \<Rightarrow> ret ([], 0)
     | Inr txns \<Rightarrow> bind categoryIndex (\<lambda>idx.
         let ts = filter (\<lambda>t. t_type t = TxnDebit \<and> month_key (t_at t) = year * 12 + month - 1) txns;
             cat = (\<lambda>t. canon_with idx (t_category t))
         in ret (map (\<lambda>c. (c, total (filter (\<lambda>t. cat t = c) ts))) (remdups (map cat ts)), total ts)))"

section \<open>What the model learned\<close>

text \<open>The first of the keys with a value other than null; an absent document is stored as \<open>{}\<close>.\<close>

definition pick :: "(string \<times> json) list \<Rightarrow> string list \<Rightarrow> json" where
  "pick state ks = (case filter (\<lambda>k. case map_of state k of None \<Rightarrow> False | Some v \<Rightarrow> v \<noteq> JNull) ks of
     [] \<Rightarrow> JObj [] | k # _ \<Rightarrow> the (map_of state k))"

definition learned_of :: "(string \<times> json) list \<Rightarrow> LearnedParams" where
  "learned_of state = \<lparr>lp_donor = pick state [''learned_donor_ratios'', ''donor_ratios''],
     lp_relations = pick state [''learned_relationships'', ''relationships''],
     lp_adherence = pick state [''learned_adherence'', ''adherence_metrics''],
     lp_weights = pick state [''rl_state'', ''scoring_weights''],
     lp_ridge = pick state [''per_user_ridge_pred'', ''ridge_predictions''],
     lp_month = (case map_of state ''ridge_last_trained_month'' of Some (JStr s) \<Rightarrow> s | _ \<Rightarrow> '''')\<rparr>"

definition persistLearnedParams :: "uuid \<Rightarrow> (string \<times> json) list \<Rightarrow> (budget_db, unit) act" where
  "persistLearnedParams userID state = (if state = [] then ret () else ignoring () (UpsertLearnedParams userID (learned_of state)))"

text \<open>The weights sent along when they were trained on the user's latest month.\<close>

definition existing_learned :: "string \<Rightarrow> LearnedParams option \<Rightarrow> (string \<times> json) list" where
  "existing_learned latest lp = (case lp of None \<Rightarrow> []
     | Some p \<Rightarrow> if lp_month p = latest \<and> (case lp_ridge p of JObj kvs \<Rightarrow> kvs \<noteq> [] | JNull \<Rightarrow> True | _ \<Rightarrow> False)
         then [(''per_user_ridge_pred'', lp_ridge p), (''ridge_last_trained_month'', JStr (lp_month p))] else [])"

section \<open>Diagnosis\<close>

text \<open>The total, categories and insights of a diagnosis, the remote model's or the fallback's.\<close>

definition fallback_plan :: "ranging \<Rightarrow> historyBundle \<Rightarrow> money \<times> SuggestedCategory list \<times> DiagnosisInsight list" where
  "fallback_plan rg h =
     (let tight = (hb_income h > 0 \<and> hb_savings h / hb_income h \<le> 20/100);
          b = (if tight then hb_expenses h * (85/100) else hb_expenses h);
          b' = (if b \<le> 0 then 5000 else b)
      in (b', computeFallbackCategories rg b' (hb_cats h) [], buildFallbackInsights (hb_expenses h) (hb_income h) (hb_savings h)))"

definition diagnose :: "ranging \<Rightarrow> ml_service \<Rightarrow> uuid \<Rightarrow> string \<Rightarrow> historyBundle \<Rightarrow>
    (budget_db, money \<times> SuggestedCategory list \<times> DiagnosisInsight list) act" where
  "diagnose rg ml userID month h =
     (if hb_cats h = [] then ret (0, [], [])
      else bind (ignoring None (GetLearnedParams userID)) (\<lambda>lp.
        case ml_Diagnosis ml userID \<lparr>mq_user = userID, mq_month = month, mq_vitals = hb_vitals h, mq_history = hb_cats h,
            mq_learned = existing_learned (latestHistoryMonth h) lp\<rparr> of
          Inl _ \<Rightarrow> ret (fallback_plan rg h)
        | Inr resp \<Rightarrow> if mr_total resp > 0
            then bind (persistLearnedParams userID (mr_learned resp)) (\<lambda>_. ret (mr_total resp, mr_cats resp, mr_insights resp))
            else ret (fallback_plan rg h)))"

definition diagnosis_of :: "string \<Rightarrow> historyBundle \<Rightarrow> money \<Rightarrow> SuggestedCategory list \<Rightarrow> DiagnosisInsight list \<Rightarrow> int \<Rightarrow> BudgetDiagnosisResponse" where
  "diagnosis_of month h tot cats insights now =
     \<lparr>dg_month = month, dg_history = hb_history h, dg_income = round2 (hb_income h), dg_expenses = round2 (hb_expenses h),
      dg_savings = round2 (hb_savings h), dg_total = round2 tot, dg_cats = cats,
      dg_reasoning = buildSuggestedBudgetReasoning (hb_expenses h) (hb_income h) (hb_savings h) tot,
      dg_insights = insights, dg_at = now\<rparr>"

definition fresh_diagnosis :: "ranging \<Rightarrow> ml_service \<Rightarrow> uuid \<Rightarrow> string \<Rightarrow> (budget_db, BudgetDiagnosisResponse) act" where
  "fresh_diagnosis rg ml userID month = bind time_now (\<lambda>now.
     let target = (case parse_month month of Some t \<Rightarrow> t | None \<Rightarrow> now) in
     bind (fetchTransactions userID 40) (\<lambda>txns.
     bind categoryIndex (\<lambda>idx.
     let h = buildHistory rg txns target (canon_with idx) in
     bind (diagnose rg ml userID month h) (\<lambda>(tot, cats, insights).
     bind (decorateCategories cats) (\<lambda>shown.
     let resp = diagnosis_of month h tot shown insights now in
     bind (store_diag (diag_key userID month) resp) (\<lambda>_. ret resp))))))"

definition Diagnosis :: "ranging \<Rightarrow> ml_service \<Rightarrow> uuid \<Rightarrow> DiagnosisRequest \<Rightarrow> (budget_db, BudgetDiagnosisResponse) act" where
  "Diagnosis rg ml userID req = bind time_now (\<lambda>now.
     let month = (if dq_month req = [] then this_month now else dq_month req) in
     bind (if dq_force req then ret None else cached_diag (diag_key userID month)) (\<lambda>r.
     case r of Some cached \<Rightarrow> ret cached | None \<Rightarrow> fresh_diagnosis rg ml userID month))"

section \<open>Suggested categories\<close>

definition rescaled :: "rat \<Rightarrow> SuggestedCategory list \<Rightarrow> SuggestedCategory list" where
  "rescaled scale cats = map (\<lambda>c. c\<lparr>sg_amount := round2 (sg_amount c * scale)\<rparr>) cats"

definition suggestion_answer :: "money \<Rightarrow> string \<Rightarrow> SuggestedCategory list \<Rightarrow> SuggestCategoriesResponse" where
  "suggestion_answer tot version cats = \<lparr>sp_status = ''success'', sp_total = tot, sp_version = version, sp_cats = cats, sp_conflict = None\<rparr>"

text \<open>The cached split, when the cached total is the one asked for up to rounding.\<close>

definition cached_split :: "money \<Rightarrow> BudgetDiagnosisResponse \<Rightarrow> SuggestCategoriesResponse option" where
  "cached_split tot c = (if dg_cats c = [] then None
     else Some (suggestion_answer tot '''' (if dg_total c > 0 \<and> dg_total c \<noteq> tot then rescaled (tot / dg_total c) (dg_cats c) else dg_cats c)))"

definition reuse_cached :: "uuid \<Rightarrow> string \<Rightarrow> money \<Rightarrow> (budget_db, SuggestCategoriesResponse option) act" where
  "reuse_cached userID month tot = bind (cached_diag (diag_key userID month)) (\<lambda>r. case r of
       None \<Rightarrow> ret None
     | Some c \<Rightarrow> if round_away (dg_total c) = round_away tot then ret (cached_split tot c)
                else bind (drop_diag (diag_key userID month)) (\<lambda>_. ret None))"

definition local_split :: "ranging \<Rightarrow> money \<Rightarrow> string list \<Rightarrow> cat_history \<Rightarrow> (budget_db, raw_body + SuggestCategoriesResponse) act" where
  "local_split rg tot protected hist = (case protectedCommitted protected hist tot of (committed, shortfall) \<Rightarrow>
     if shortfall > 0 then ret (Inl (RawDetails \<lparr>cf_type = ''scalable_floor_exceeded'',
         cf_problem = ''protected categories exceed the new total budget'', cf_overage = round2 shortfall, cf_conflicts = protected\<rparr>))
     else bind (decorateCategories (computeFallbackCategories rg tot hist committed)) (\<lambda>cats.
       ret (Inr (suggestion_answer tot ''fallback-v1'' cats))))"

definition remote_split :: "money \<Rightarrow> SuggestCategoriesResponse \<Rightarrow> (budget_db, raw_body + SuggestCategoriesResponse) act" where
  "remote_split tot resp =
     (if sp_conflict resp \<noteq> None then ret (Inl (RawResponse resp))
      else let r = (if sp_total resp > 0 \<and> sp_total resp \<noteq> tot
                    then resp\<lparr>sp_cats := rescaled (tot / sp_total resp) (sp_cats resp), sp_total := tot\<rparr> else resp)
           in bind (decorateCategories (sp_cats r)) (\<lambda>cats. ret (Inr (r\<lparr>sp_cats := cats\<rparr>))))"

definition new_split :: "ranging \<Rightarrow> ml_service \<Rightarrow> uuid \<Rightarrow> string \<Rightarrow> SuggestCategoriesRequest \<Rightarrow>
    (budget_db, raw_body + SuggestCategoriesResponse) act" where
  "new_split rg ml userID month req = bind time_now (\<lambda>now.
     bind (ignoring [] (fetchTransactions userID 8)) (\<lambda>txns.
     bind categoryIndex (\<lambda>idx.
     let h = buildHistory rg txns now (canon_with idx) in
     if hb_cats h = [] then ret (Inr (suggestion_answer (sq_total req) '''' []))
     else bind (attempt (repo_GetSettings userID)) (\<lambda>st.
       bind (case st of Inl _ \<Rightarrow> ret [] | Inr s \<Rightarrow> bind categoryIndex (\<lambda>idx2.
           ret (normalizeList (case s of None \<Rightarrow> [] | Some x \<Rightarrow> st_bills x) (canon_with idx2)))) (\<lambda>protected.
       case ml_SuggestCategories ml userID \<lparr>mg_user = userID, mg_total = sq_total req, mg_month = month,
           mg_overrides = sq_overrides req, mg_protected = protected, mg_history = hb_cats h\<rparr> of
         Inl (MLConflict raw) \<Rightarrow> ret (Inl (RawBytes raw))
       | Inl Unavailable \<Rightarrow> local_split rg (sq_total req) protected (hb_cats h)
       | Inr resp \<Rightarrow> remote_split (sq_total req) resp)))))"

text \<open>A conflict is a result the handler passes on, not a failure: the left side of the value.\<close>

definition SuggestCategories :: "ranging \<Rightarrow> ml_service \<Rightarrow> uuid \<Rightarrow> SuggestCategoriesRequest \<Rightarrow>
    (budget_db, raw_body + SuggestCategoriesResponse) act" where
  "SuggestCategories rg ml userID req =
     (if sq_total req \<le> 0 then fail (Plain ''total_budget must be positive'')
      else bind time_now (\<lambda>now.
        let month = (if sq_month req = [] then this_month now else sq_month req) in
        bind (reuse_cached userID month (sq_total req)) (\<lambda>r. case r of
          Some out \<Rightarrow> ret (Inr out)
        | None \<Rightarrow> new_split rg ml userID month req)))"

section \<open>Setup sessions\<close>

definition CreateSession :: "uuid \<Rightarrow> string \<Rightarrow> (budget_db, SessionRow) act" where
  "CreateSession userID asked = bind time_now (\<lambda>now.
     let month = (if asked = [] then this_month now else asked) in
     bind (ExpirePendingSessions userID month) (\<lambda>_. repo_CreateSession userID month (now + sessionTTL)))"

definition GetSession :: "uuid \<Rightarrow> uuid \<Rightarrow> (budget_db, SessionRow) act" where
  "GetSession userID sessionID = repo_GetSession userID sessionID"

definition UpdateSession :: "uuid \<Rightarrow> uuid \<Rightarrow> UpdateSessionRequest \<Rightarrow> (budget_db, SessionRow) act" where
  "UpdateSession userID sessionID req = repo_UpdateSession userID sessionID (uq_total req) (uq_allocs req)"

definition DeleteSession :: "uuid \<Rightarrow> uuid \<Rightarrow> (budget_db, unit) act" where
  "DeleteSession userID sessionID = repo_DeleteSession userID sessionID"

text \<open>The tracked allocations as rows; the index is read for each, from the cache after the first.\<close>

fun finalized :: "CategoryAllocation list \<Rightarrow> (budget_db, FinalizedAllocation list) act" where
  "finalized [] = ret []"
| "finalized (a # as) =
     (if \<not> al_track a then finalized as
      else bind categoryIndex (\<lambda>idx. case meta_with idx (firstNonEmpty (al_id a) (al_name a)) of
          None \<Rightarrow> fail (Plain ''no categories configured'')
        | Some m \<Rightarrow> bind (finalized as) (\<lambda>fs. ret (\<lparr>fa_cat = cm_id m, fa_amount = al_amount a, fa_hidden = al_hidden a\<rparr> # fs))))"

definition FinalizeSession :: "uuid \<Rightarrow> uuid \<Rightarrow> (budget_db, unit) act" where
  "FinalizeSession userID sessionID = bind time_now (\<lambda>now.
     bind (repo_GetSession userID sessionID) (\<lambda>row.
     case parseYearMonth now (sr_month row) of (year, month) \<Rightarrow>
     bind (finalized (sr_allocs row)) (\<lambda>allocs.
     bind (if allocs = [] then ret () else ReplaceMonth userID year month allocs) (\<lambda>_.
     let fromCats = sum_list (map fa_amount allocs);
         tot = (case sr_total row of Some x \<Rightarrow> if x > 0 then x else fromCats | None \<Rightarrow> fromCats) in
     bind (if tot > 0 then SetSpendingLimitAndActivate userID tot else ret ()) (\<lambda>_.
     bind (ignoring () (MarkSessionFinalized userID sessionID)) (\<lambda>_.
     drop_diag (diag_key userID (sr_month row))))))))"

section \<open>The active budget\<close>

definition status_of :: "int \<Rightarrow> BudgetRow list \<Rightarrow> settings_row option \<Rightarrow> uuid option \<Rightarrow> StatusResponse" where
  "status_of now rows st rolloverID =
     (let summed = (case rows of [] \<Rightarrow> 0
            | r # _ \<Rightarrow> sum_list (map br_amount (filter (\<lambda>b. br_year b = br_year r \<and> br_month b = br_month r) rows)));
          limit = (case st of Some s \<Rightarrow> (case st_limit s of Some l \<Rightarrow> if l > 0 \<and> st_reset s \<noteq> None then Some l else None | None \<Rightarrow> None)
                   | None \<Rightarrow> None);
          tot = (case limit of Some l \<Rightarrow> l | None \<Rightarrow> summed);
          ym = (case rows of [] \<Rightarrow> (0, 0) | r # _ \<Rightarrow> (br_year r, br_month r));
          (y, m) = (if fst ym = 0 then (case civil (day_of now) of (y, m, _) \<Rightarrow> (y, int m + 1)) else ym)
      in if rows = [] \<and> limit = None
         then \<lparr>sx_active = False, sx_month = '''', sx_total = 0, sx_count = 0, sx_latest_year = 0, sx_latest_month = 0, sx_draft = rolloverID\<rparr>
         else \<lparr>sx_active = True, sx_month = month_text y (nat (m - 1)), sx_total = round2 tot, sx_count = length rows,
               sx_latest_year = y, sx_latest_month = m, sx_draft = rolloverID\<rparr>)"

definition Status :: "uuid \<Rightarrow> (budget_db, StatusResponse) act" where
  "Status userID = bind time_now (\<lambda>now.
     bind (LatestBudgets userID 100) (\<lambda>rows.
     bind (ignoring None (repo_GetSettings userID)) (\<lambda>st.
     bind (ignoring None (LatestSessionByStatus userID ''rollover_draft'')) (\<lambda>draft.
     ret (status_of now rows st (map_option sr_id draft))))))"

text \<open>The days of a month gone and left: all of them gone unless the month is the current one.\<close>

definition month_days :: "int \<Rightarrow> int \<Rightarrow> int \<Rightarrow> int \<times> int \<times> int \<times> int" where
  "month_days now year month =
     (let start = date_days year (month - 1) 1; last_day = add_date 0 1 (-1) start; n = last_day - start + 1
      in case civil (day_of now) of (y, m, d) \<Rightarrow>
        if y = year \<and> int m + 1 = month then (start, last_day, d, n - d) else (start, last_day, n, 0))"

definition budget_of :: "(string \<times> money) list \<Rightarrow> cat_index \<Rightarrow> BudgetRow \<Rightarrow> Budget" where
  "budget_of spentByCat idx r =
     (let spent = value_of spentByCat (canon_with idx (br_name r));
          pct = (if br_amount r > 0 then spent / br_amount r * 100 else 0)
      in \<lparr>bg_row = r, bg_budgeted = round2 (br_amount r), bg_spent = round2 spent, bg_remaining = round2 (br_amount r - spent),
          bg_pct = round2 pct, bg_status = categoryStatus pct\<rparr>)"

definition set_limit :: "settings_row option \<Rightarrow> money option" where
  "set_limit st = (case st of None \<Rightarrow> None | Some s \<Rightarrow> st_limit s)"

definition latest_of :: "int \<Rightarrow> BudgetRow list \<Rightarrow> settings_row option \<Rightarrow> (string \<times> money) list \<Rightarrow> money \<Rightarrow> cat_index \<Rightarrow> money \<Rightarrow> LatestBudgetResponse" where
  "latest_of now rows st spentByCat totalSpent idx income =
     (let year = br_year (hd rows); month = br_month (hd rows);
          (start, last_day, elapsed, left) = month_days now year month;
          daysInMonth = last_day - start + 1;
          summed = sum_list (map br_amount rows);
          tot = (case set_limit st of Some l \<Rightarrow> if l > 0 then l else summed | None \<Rightarrow> summed);
          projected = (if elapsed > 0 then totalSpent / of_int elapsed * of_int daysInMonth else totalSpent);
          status = (if tot > 0 \<and> totalSpent \<ge> tot then ''exceeded'' else if tot > 0 \<and> projected > tot then ''at_risk'' else ''on_track'');
          health = (if tot > 0 then max 0 (min 100 ((1 - projected / tot) * 100 + 50)) else 100)
      in \<lparr>lb_budgets = map (budget_of spentByCat idx) rows, lb_count = length rows, lb_year = year, lb_month = month,
          lb_total = round2 tot, lb_spent = round2 totalSpent, lb_income = round2 income, lb_remaining = left,
          lb_projected = round2 projected, lb_start = dateKey (start * day_ns), lb_end = dateKey (last_day * day_ns),
          lb_status = status, lb_health = round2 health, lb_updated = iso_text (br_updated (hd rows))\<rparr>)"

definition no_latest :: "settings_row option \<Rightarrow> LatestBudgetResponse" where
  "no_latest st = \<lparr>lb_budgets = [], lb_count = 0, lb_year = 0, lb_month = 0,
     lb_total = round2 (case set_limit st of Some l \<Rightarrow> l | None \<Rightarrow> 0), lb_spent = 0, lb_income = 0, lb_remaining = 0, lb_projected = 0,
     lb_start = '''', lb_end = '''', lb_status = ''positive'', lb_health = 0, lb_updated = ''''\<rparr>"

definition linked_or_diagnosed :: "uuid \<Rightarrow> settings_row option \<Rightarrow> string \<Rightarrow> (budget_db, money) act" where
  "linked_or_diagnosed userID st month =
     (let income = (case st of Some s \<Rightarrow> (case st_income s of Some x \<Rightarrow> x | None \<Rightarrow> 0) | None \<Rightarrow> 0)
      in if income \<noteq> 0 then ret income
         else bind (cached_diag (diag_key userID month)) (\<lambda>c. ret (case c of Some g \<Rightarrow> dg_income g | None \<Rightarrow> 0)))"

definition Latest :: "uuid \<Rightarrow> int \<Rightarrow> (budget_db, LatestBudgetResponse) act" where
  "Latest userID limit = bind time_now (\<lambda>now.
     bind (LatestBudgets userID limit) (\<lambda>rows.
     bind (ignoring None (repo_GetSettings userID)) (\<lambda>st.
     if rows = [] then ret (no_latest st)
     else bind (actualSpendForMonth userID (br_year (hd rows)) (br_month (hd rows))) (\<lambda>(spentByCat, totalSpent).
       bind categoryIndex (\<lambda>idx.
       bind (linked_or_diagnosed userID st (month_text (br_year (hd rows)) (nat (br_month (hd rows) - 1)))) (\<lambda>income.
       ret (latest_of now rows st spentByCat totalSpent idx income)))))))"

text \<open>\<open>parse\<close> is \<open>uuid.Parse\<close>.\<close>

definition PatchLatestCategory :: "(string \<Rightarrow> uuid option) \<Rightarrow> uuid \<Rightarrow> string \<Rightarrow> money \<Rightarrow> (budget_db, unit) act" where
  "PatchLatestCategory parse userID categoryID amount =
     bind (case parse categoryID of
         Some c \<Rightarrow> ret c
       | None \<Rightarrow> bind categoryIndex (\<lambda>idx. case meta_with idx categoryID of
            None \<Rightarrow> fail (Plain ''invalid category_id'') | Some m \<Rightarrow> ret (cm_id m))) (\<lambda>catID.
     bind (PatchCategoryAmount userID catID amount) (\<lambda>ok.
     if ok then ret () else fail (Plain ''no active budget for that category'')))"

definition ResetActive :: "uuid \<Rightarrow> (budget_db, string) act" where
  "ResetActive userID = bind time_now (\<lambda>now.
     bind (ignoring [] (LatestBudgets userID 1)) (\<lambda>rows.
     let (year, month) = (case rows of [] \<Rightarrow> (case civil (day_of now) of (y, m, _) \<Rightarrow> (y, int m + 1)) | r # _ \<Rightarrow> (br_year r, br_month r)) in
     bind (ignoring () (DeactivateMonth userID year month)) (\<lambda>_.
     bind (ignoring () (ClearActive userID)) (\<lambda>_.
     bind (drop_diag (diag_key userID (month_text year (nat (month - 1))))) (\<lambda>_.
     ret (''Budget cleared for '' @ month_names ! nat (month - 1) @ '' '' @ itoa year @ ''.''))))))"

section \<open>Settings and insights\<close>

definition limit_source :: "uuid \<Rightarrow> settings_row option \<Rightarrow> (budget_db, money \<times> string) act" where
  "limit_source userID st = (case set_limit st of
       Some l \<Rightarrow> ret (l, ''user_set'')
     | None \<Rightarrow> bind (ignoring [] (LatestBudgets userID 100)) (\<lambda>rows.
         let tot = sum_list (map br_amount rows) in ret (if tot > 0 then (round2 tot, ''active_budget'') else (0, ''none''))))"

definition income_source :: "uuid \<Rightarrow> settings_row option \<Rightarrow> (budget_db, money \<times> string) act" where
  "income_source userID st = (case (case st of Some s \<Rightarrow> st_income s | None \<Rightarrow> None) of
       Some x \<Rightarrow> ret (x, ''user_set'')
     | None \<Rightarrow> bind time_now (\<lambda>now. bind (cached_diag (diag_key userID (this_month now))) (\<lambda>c. ret (case c of
         Some g \<Rightarrow> if dg_income g > 0 then (round2 (dg_income g), ''auto_detected'') else (0, ''none'') | None \<Rightarrow> (0, ''none'')))))"

definition spent_on :: "(string \<times> money) list \<Rightarrow> cat_index \<Rightarrow> string list \<Rightarrow> money" where
  "spent_on spentByCat idx cats = round2 (sum_list (map (\<lambda>c. value_of spentByCat (canon_with idx c)) cats))"

definition settings_totals :: "uuid \<Rightarrow> string list \<Rightarrow> string list \<Rightarrow> (budget_db, money \<times> money) act" where
  "settings_totals userID bills essential =
     (if bills = [] \<and> essential = [] then ret (0, 0)
      else bind time_now (\<lambda>now. case civil (day_of now) of (y, m, _) \<Rightarrow>
        bind (actualSpendForMonth userID y (int m + 1)) (\<lambda>(spentByCat, _).
        bind categoryIndex (\<lambda>idx. ret (spent_on spentByCat idx bills, spent_on spentByCat idx essential)))))"

definition GetSettings :: "uuid \<Rightarrow> (budget_db, SettingsResponse) act" where
  "GetSettings userID = bind (repo_GetSettings userID) (\<lambda>st.
     let bills = (case st of Some s \<Rightarrow> st_bills s | None \<Rightarrow> []); essential = (case st of Some s \<Rightarrow> st_essential s | None \<Rightarrow> []) in
     bind (limit_source userID st) (\<lambda>limit.
     bind (income_source userID st) (\<lambda>income.
     bind (settings_totals userID bills essential) (\<lambda>(billsTotal, essentialTotal).
     ret \<lparr>sv_income = income, sv_limit = limit, sv_essential = essential, sv_essential_total = essentialTotal,
          sv_bills = bills, sv_bills_total = billsTotal,
          sv_reset = (case st of Some s \<Rightarrow> map_option iso_text (st_reset s) | None \<Rightarrow> None)\<rparr>))))"

definition UpdateSettings :: "uuid \<Rightarrow> UpdateSettingsRequest \<Rightarrow> (budget_db, unit) act" where
  "UpdateSettings userID req = UpsertSettings userID req"

definition GlobalCategories :: "(string \<Rightarrow> int) \<Rightarrow> (budget_db, GlobalCategory list) act" where
  "GlobalCategories coll = ListGlobalCategories coll"

definition budgetName :: "uuid \<Rightarrow> string" where
  "budgetName userID = ''astra_'' @ userID @ ''_main''"

definition insight_of :: "string \<Rightarrow> nat \<Rightarrow> MLRecommendation \<Rightarrow> BudgetInsight" where
  "insight_of uid8 i rec =
     (let t = firstNonEmpty (mc_type rec) (mc_category rec)
      in \<lparr>bi_id = ''ins_'' @ pad_zero 3 (itoa_nat (i + 1)) @ ''_'' @ uid8,
          bi_title = (if t = [] then ''Insight '' @ itoa_nat (i + 1) else t),
          bi_text = (if mc_suggestion rec = [] then firstNonEmpty (mc_message rec) (mc_reasoning rec) else mc_suggestion rec),
          bi_severity = (if mc_severity rec = [] then ''positive'' else mc_severity rec), bi_category = mc_category rec,
          bi_saving = 0, bi_action = mapActionType (mc_type rec) (mc_severity rec)\<rparr>)"

definition Insights :: "ml_service \<Rightarrow> uuid \<Rightarrow> (budget_db, BudgetInsight list \<times> int) act" where
  "Insights ml userID = bind time_now (\<lambda>now. ret (case ml_Recommendations ml userID (budgetName userID) of
       Inl _ \<Rightarrow> ([], now)
     | Inr recs \<Rightarrow> (map2 (insight_of (take 8 userID)) [0..<length recs] recs, now)))"

end
