(* ===== verification/BudgetFlow.thy ===== *)
theory BudgetFlow
  imports BudgetService
begin

text \<open>
  Reallocation, the feedback loop and the rollover to the next month
  (\<open>internal/service/budget/reallocation.go\<close> and \<open>rollover.go\<close>).
\<close>

section \<open>Reallocation\<close>

definition defaultMinRemainingRatio :: rat where "defaultMinRemainingRatio = 60/100"

definition ErrUnavailable :: goerr where
  "ErrUnavailable = Plain ''budget ML service unavailable''"

definition budgets_by :: "cat_index \<Rightarrow> BudgetRow list \<Rightarrow> (string \<times> money) list" where
  "budgets_by idx rows = (let cat = (\<lambda>r. canon_with idx (br_name r)) in
     map (\<lambda>c. (c, sum_list (map br_amount (filter (\<lambda>r. cat r = c) rows)))) (remdups (map cat rows)))"

text \<open>Every budgeted category appears among the spend, at least as zero.\<close>

definition with_zeros :: "(string \<times> money) list \<Rightarrow> (string \<times> money) list \<Rightarrow> (string \<times> money) list" where
  "with_zeros current spent = spent @ map (\<lambda>(c, _). (c, 0)) (filter (\<lambda>(c, _). map_of spent c = None) current)"

definition run_request :: "string \<Rightarrow> rat \<Rightarrow> bool \<Rightarrow> (string \<times> money) list \<Rightarrow> (string \<times> money) list \<Rightarrow> cat_history \<Rightarrow>
    LearnedParams option \<Rightarrow> MLRunReallocationRequest" where
  "run_request target ratio dbg current spent hist lp =
     \<lparr>mn_budgets = current, mn_spend = spent, mn_history = hist, mn_target = target, mn_ratio = ratio, mn_debug = dbg,
      mn_relations = (case lp of None \<Rightarrow> [] | Some p \<Rightarrow> json_floats (lp_relations p)),
      mn_donor = (case lp of None \<Rightarrow> [] | Some p \<Rightarrow> json_floats (lp_donor p)),
      mn_adherence = (case lp of None \<Rightarrow> [] | Some p \<Rightarrow> json_nested (lp_adherence p)),
      mn_weights = (case lp of None \<Rightarrow> [] | Some p \<Rightarrow> json_list (lp_weights p))\<rparr>"

text \<open>What the code stores of a run: the session with its moves, and a suggestion when there are moves.\<close>

definition store_run :: "uuid \<Rightarrow> string \<Rightarrow> rat \<Rightarrow> RunReallocationData \<Rightarrow> (budget_db, uuid) act" where
  "store_run userID target ratio d =
     bind (CreateReallocationSession userID target ratio (rd_uncovered d) (rd_overspent d) (rd_moves d)) (\<lambda>sessionID.
     bind (if rd_moves d = [] then ret []
           else ignoring [] (CreateSuggestion userID (Some sessionID) ''reallocation'' target (rd_moves d) (rd_uncovered d) 0
             (if rd_uncovered d > 0 then ''high'' else ''medium''))) (\<lambda>_. ret sessionID))"

definition RunReallocation :: "ranging \<Rightarrow> ml_service \<Rightarrow> uuid \<Rightarrow> RunReallocationRequest \<Rightarrow>
    (budget_db, uuid \<times> RunReallocationData) act" where
  "RunReallocation rg ml userID req =
     (if trim_space (rq_target req) = [] then fail (Plain ''target_category is required'')
      else if rq_ratio req < 0 \<or> rq_ratio req > 1 then fail (Plain ''min_remaining_ratio must be between 0 and 1'')
      else let ratio = (if rq_ratio req = 0 then defaultMinRemainingRatio else rq_ratio req) in
      bind time_now (\<lambda>now.
      bind categoryIndex (\<lambda>idx.
      let target = canon_with idx (rq_target req) in
      bind (LatestBudgets userID 100) (\<lambda>rows.
      if rows = [] then fail (Plain ''no active budget to rebalance'')
      else let current = budgets_by idx rows in
      bind (actualSpendForMonth userID (br_year (hd rows)) (br_month (hd rows))) (\<lambda>(spent, _).
      bind (ignoring [] (fetchTransactions userID 8)) (\<lambda>txns.
      let h = buildHistory rg txns now (canon_with idx) in
      bind (ignoring None (GetLearnedParams userID)) (\<lambda>lp.
      case ml_RunReallocation ml userID (budgetName userID)
          (run_request target ratio (rq_debug req) current (with_zeros current spent) (hb_cats h) lp) of
        Inl _ \<Rightarrow> fail ErrUnavailable
      | Inr d \<Rightarrow> bind (store_run userID target ratio d) (\<lambda>sessionID. ret (sessionID, d)))))))))"

text \<open>Each category named by an applied move is patched once, when the new budget names it.\<close>

fun apply_limits :: "uuid \<Rightarrow> (string \<times> money) list \<Rightarrow> string list \<Rightarrow> string list \<Rightarrow> (budget_db, unit) act" where
  "apply_limits userID new_budgets done_names [] = ret ()"
| "apply_limits userID new_budgets done_names (n # ns) =
     (if n \<in> set done_names then apply_limits userID new_budgets done_names ns
      else (case map_of new_budgets n of
          None \<Rightarrow> apply_limits userID new_budgets done_names ns
        | Some amt \<Rightarrow> bind categoryIndex (\<lambda>idx.
            bind (case meta_with idx n of None \<Rightarrow> ret False
                  | Some m \<Rightarrow> ignoring False (PatchCategoryAmount userID (cm_id m) amt)) (\<lambda>_.
            apply_limits userID new_budgets (n # done_names) ns))))"

definition ApplyReallocation :: "ml_service \<Rightarrow> (string \<Rightarrow> uuid option) \<Rightarrow> uuid \<Rightarrow> ApplyReallocationRequest \<Rightarrow>
    (budget_db, ApplyReallocationData) act" where
  "ApplyReallocation ml parse userID req =
     (if aq_moves req = [] then fail (Plain ''no reallocations provided'')
      else bind time_now (\<lambda>now.
      let month = (if aq_month req = [] then this_month now else aq_month req) in
      case ml_ApplyReallocation ml userID (budgetName userID) month (aq_session req) (aq_moves req) of
        Inl _ \<Rightarrow> fail ErrUnavailable
      | Inr d \<Rightarrow>
          bind (apply_limits userID (ad_budget d) [] (concat (map (\<lambda>m. [rl_from m, rl_to m]) (ad_moves d)))) (\<lambda>_.
          bind (case parse (aq_session req) of
              None \<Rightarrow> ret ()
            | Some sid \<Rightarrow> bind (ignoring () (SetReallocationSessionStatus userID sid ''applied'')) (\<lambda>_.
                ignoring () (MarkReallocationsApplied sid))) (\<lambda>_.
          bind (drop_diag (diag_key userID month)) (\<lambda>_. ret d)))))"

section \<open>Feedback\<close>

definition ListSuggestions :: "uuid \<Rightarrow> (budget_db, SuggestionRow list) act" where
  "ListSuggestions userID = ignoring [] (repo_ListSuggestions userID 20)"

definition ListCooldowns :: "uuid \<Rightarrow> (budget_db, CooldownRow list) act" where
  "ListCooldowns userID = ignoring [] (ListActiveCooldowns userID)"

definition reject_moves :: "uuid \<Rightarrow> SuggestionRow \<Rightarrow> (budget_db, unit) act" where
  "reject_moves userID sug =
     bind (foreach (\<lambda>m. ignoring () (UpsertPairCooldown userID (rl_from m) (rl_to m))) (sn_moves sug)) (\<lambda>_.
     case sn_session sug of None \<Rightarrow> ret ()
     | Some sid \<Rightarrow> ignoring () (SetReallocationSessionStatus userID sid ''rejected''))"

definition learn_from :: "ml_service \<Rightarrow> uuid \<Rightarrow> SuggestionRow \<Rightarrow> RespondSuggestionRequest \<Rightarrow> (budget_db, unit) act" where
  "learn_from ml userID sug req =
     bind (ignoring [] (LatestBudgets userID 100)) (\<lambda>rows.
     bind categoryIndex (\<lambda>idx.
     case ml_Learn ml userID \<lparr>ml_budgets = budgets_by idx rows, ml_type = sn_type sug, ml_action = pq_action req,
         ml_moves = sn_moves sug, ml_values = pq_values req\<rparr> of
       Inl _ \<Rightarrow> ret ()
     | Inr state \<Rightarrow> persistLearnedParams userID state))"

definition RespondToSuggestion :: "ml_service \<Rightarrow> uuid \<Rightarrow> uuid \<Rightarrow> RespondSuggestionRequest \<Rightarrow> (budget_db, unit) act" where
  "RespondToSuggestion ml userID suggestionID req =
     (if pq_action req \<notin> {''accepted'', ''rejected'', ''modified''} then fail (Plain ''action must be accepted, rejected or modified'')
      else bind (GetSuggestion userID suggestionID) (\<lambda>sug.
        bind (SetSuggestionResponse userID suggestionID (pq_action req) (pq_reason req)) (\<lambda>_.
        if pq_action req = ''rejected'' then reject_moves userID sug else learn_from ml userID sug req)))"

section \<open>Rollover\<close>

definition rolloverDraftTTL :: int where "rolloverDraftTTL = 7 * 24 * 3600 * second"

definition next_month :: "BudgetRow \<Rightarrow> string" where
  "next_month r = key_text (br_year r * 12 + br_month r)"

definition blocking_statuses :: "string list" where
  "blocking_statuses = [''pending'', ''rollover_draft'', ''finalized'']"

definition draft_allocs :: "BudgetDiagnosisResponse \<Rightarrow> BudgetRow list \<Rightarrow> CategoryAllocation list" where
  "draft_allocs g rows =
     (let fromDiag = map (\<lambda>c. \<lparr>al_id = sg_id c, al_name = sg_name c, al_icon = '''', al_color = sg_color c, al_amount = sg_amount c,
          al_track = True, al_hidden = False\<rparr>) (dg_cats g)
      in if fromDiag \<noteq> [] then fromDiag
         else map (\<lambda>r. \<lparr>al_id = br_name r, al_name = br_name r, al_icon = '''', al_color = '''', al_amount = br_amount r,
           al_track = True, al_hidden = False\<rparr>) rows)"

definition draft_total :: "BudgetDiagnosisResponse \<Rightarrow> BudgetRow list \<Rightarrow> money" where
  "draft_total g rows = (if dg_total g > 0 then dg_total g else sum_list (map al_amount (draft_allocs g rows)))"

definition RolloverForUser :: "ranging \<Rightarrow> ml_service \<Rightarrow> uuid \<Rightarrow> (budget_db, uuid option) act" where
  "RolloverForUser rg ml userID = bind (LatestBudgets userID 100) (\<lambda>rows. case rows of
       [] \<Rightarrow> ret None
     | r # _ \<Rightarrow>
         let month = next_month r in
         bind (ignoring False (SessionExistsForMonth userID month blocking_statuses)) (\<lambda>ex.
         if ex then ret None
         else bind (Diagnosis rg ml userID \<lparr>dq_month = month, dq_force = False\<rparr>) (\<lambda>g.
           bind time_now (\<lambda>now.
           bind (CreateDraftSession userID month ''rollover_draft'' (draft_total g rows) (draft_allocs g rows) (now + rolloverDraftTTL))
             (\<lambda>s. ret (Some (sr_id s)))))))"

fun roll_all :: "ranging \<Rightarrow> ml_service \<Rightarrow> uuid list \<Rightarrow> nat \<times> nat \<Rightarrow> (budget_db, nat \<times> nat) act" where
  "roll_all rg ml [] counts = ret counts"
| "roll_all rg ml (u # us) counts = bind (attempt (RolloverForUser rg ml u)) (\<lambda>r.
     roll_all rg ml us (case r of Inl _ \<Rightarrow> (fst counts, Suc (snd counts))
       | Inr None \<Rightarrow> counts | Inr (Some _) \<Rightarrow> (Suc (fst counts), snd counts)))"

text \<open>How many drafts were created and how many users failed.\<close>

definition RunRollover :: "ranging \<Rightarrow> ml_service \<Rightarrow> (budget_db, nat \<times> nat) act" where
  "RunRollover rg ml = bind (attempt UsersWithActiveBudgets) (\<lambda>r. case r of
     Inl _ \<Rightarrow> ret (0, 0) | Inr users \<Rightarrow> roll_all rg ml users (0, 0))"

end
