(* ===== verification/BudgetHttp.thy ===== *)
theory BudgetHttp
  imports BudgetFlow
begin

text \<open>
  The handlers of \<open>internal/handler/budget_handler.go\<close>. They answer without the usual envelope:
  a status and either an error text or the value, and for a conflict the body as it came. A
  handler's result carries the calls it made to the live-update publisher.
\<close>

datatype 'a raw_answer = RawErr int string | RawOk int 'a | RawConflict raw_body

type_synonym 'a answered = "'a raw_answer \<times> (uuid \<times> string) list"

definition budget_changed :: "bool \<Rightarrow> uuid \<Rightarrow> (uuid \<times> string) list" where
  "budget_changed on uid = (if on then [(uid, ''budget_changed'')] else [])"

definition raw_err :: "int \<Rightarrow> string \<Rightarrow> ('d, 'a answered) act" where
  "raw_err status msg = ret (RawErr status msg, [])"

definition raw_ok :: "int \<Rightarrow> (uuid \<times> string) list \<Rightarrow> 'a \<Rightarrow> ('d, 'a answered) act" where
  "raw_ok status evs a = ret (RawOk status a, evs)"

definition budgetUser :: "uuid option \<Rightarrow> (uuid \<Rightarrow> ('d, 'a answered) act) \<Rightarrow> ('d, 'a answered) act" where
  "budgetUser u k = (case u of None \<Rightarrow> raw_err 401 ''unauthorized'' | Some uid \<Rightarrow> k uid)"

text \<open>The identifier of the path, the decoded body: absent when they do not parse.\<close>

definition with_id :: "string \<Rightarrow> uuid option \<Rightarrow> (uuid \<Rightarrow> ('d, 'a answered) act) \<Rightarrow> ('d, 'a answered) act" where
  "with_id msg i k = (case i of None \<Rightarrow> raw_err 400 msg | Some sid \<Rightarrow> k sid)"

definition decoded :: "'r option \<Rightarrow> ('r \<Rightarrow> ('d, 'a answered) act) \<Rightarrow> ('d, 'a answered) act" where
  "decoded body k = (case body of None \<Rightarrow> raw_err 400 ''invalid request body'' | Some req \<Rightarrow> k req)"

definition or_status :: "(goerr \<Rightarrow> int \<times> string) \<Rightarrow> ('d, 'a) act \<Rightarrow> ('a \<Rightarrow> ('d, 'b answered) act) \<Rightarrow> ('d, 'b answered) act" where
  "or_status f m k = bind (attempt m) (\<lambda>r. case r of Inl e \<Rightarrow> raw_err (fst (f e)) (snd (f e)) | Inr a \<Rightarrow> k a)"

definition failing :: "string \<Rightarrow> goerr \<Rightarrow> int \<times> string" where
  "failing msg e = (500, msg)"

definition missing_or :: "goerr \<Rightarrow> string \<Rightarrow> string \<Rightarrow> goerr \<Rightarrow> int \<times> string" where
  "missing_or nf txt msg e = (if e = nf then (404, txt) else (500, msg))"

definition unavailable_or_text :: "(goerr \<Rightarrow> string) \<Rightarrow> goerr \<Rightarrow> int \<times> string" where
  "unavailable_or_text txt e = (if e = ErrUnavailable then (503, ''Budget Manager service unavailable'') else (400, txt e))"

section \<open>Diagnosis and suggestions\<close>

definition diagnosis :: "ranging \<Rightarrow> ml_service \<Rightarrow> uuid option \<Rightarrow> DiagnosisRequest \<Rightarrow> (budget_db, BudgetDiagnosisResponse answered) act" where
  "diagnosis rg ml u req = budgetUser u (\<lambda>uid.
     or_status (failing ''diagnosis failed'') (Diagnosis rg ml uid req) (raw_ok 200 []))"

definition suggestCategories :: "ranging \<Rightarrow> ml_service \<Rightarrow> uuid option \<Rightarrow> SuggestCategoriesRequest option \<Rightarrow>
    (budget_db, SuggestCategoriesResponse answered) act" where
  "suggestCategories rg ml u body = budgetUser u (\<lambda>uid. decoded body (\<lambda>req.
     if sq_total req \<le> 0 then raw_err 400 ''total_budget must be positive''
     else or_status (failing ''suggestion failed'') (SuggestCategories rg ml uid req) (\<lambda>r. case r of
         Inl raw \<Rightarrow> ret (RawConflict raw, []) | Inr resp \<Rightarrow> raw_ok 200 [] resp)))"

section \<open>Sessions\<close>

definition createSession :: "bool \<Rightarrow> uuid option \<Rightarrow> string \<Rightarrow> (budget_db, SessionRow answered) act" where
  "createSession on u month = budgetUser u (\<lambda>uid.
     or_status (failing ''could not create session'') (CreateSession uid month) (raw_ok 201 (budget_changed on uid)))"

definition getSession :: "uuid option \<Rightarrow> uuid option \<Rightarrow> (budget_db, SessionRow answered) act" where
  "getSession u i = budgetUser u (\<lambda>uid. with_id ''invalid session id'' i (\<lambda>sid.
     or_status (\<lambda>_. (404, ''session not found'')) (GetSession uid sid) (raw_ok 200 [])))"

definition updateSession :: "bool \<Rightarrow> uuid option \<Rightarrow> uuid option \<Rightarrow> UpdateSessionRequest option \<Rightarrow> (budget_db, SessionRow answered) act" where
  "updateSession on u i body = budgetUser u (\<lambda>uid. with_id ''invalid session id'' i (\<lambda>sid. decoded body (\<lambda>req.
     or_status (missing_or ErrBudgetSessionNotFound ''session not found'' ''could not update session'')
       (UpdateSession uid sid req) (raw_ok 200 (budget_changed on uid)))))"

definition finalizeSession :: "bool \<Rightarrow> uuid option \<Rightarrow> uuid option \<Rightarrow> (budget_db, uuid answered) act" where
  "finalizeSession on u i = budgetUser u (\<lambda>uid. with_id ''invalid session id'' i (\<lambda>sid.
     or_status (missing_or ErrBudgetSessionNotFound ''session not found'' ''could not finalize session'')
       (FinalizeSession uid sid) (\<lambda>_. raw_ok 200 (budget_changed on uid) sid)))"

definition deleteSession :: "bool \<Rightarrow> uuid option \<Rightarrow> uuid option \<Rightarrow> (budget_db, string answered) act" where
  "deleteSession on u i = budgetUser u (\<lambda>uid. with_id ''invalid session id'' i (\<lambda>sid.
     or_status (failing ''could not delete session'') (DeleteSession uid sid)
       (\<lambda>_. raw_ok 200 (budget_changed on uid) ''Session deleted successfully'')))"

section \<open>The active budget, settings, insights\<close>

definition status :: "uuid option \<Rightarrow> (budget_db, StatusResponse answered) act" where
  "status u = budgetUser u (\<lambda>uid. or_status (failing ''could not load status'') (Status uid) (raw_ok 200 []))"

text \<open>The limit of the query string, 100 when it is absent or not a number.\<close>

definition latest :: "uuid option \<Rightarrow> int option \<Rightarrow> (budget_db, LatestBudgetResponse answered) act" where
  "latest u limit = budgetUser u (\<lambda>uid.
     or_status (failing ''could not load budget'') (Latest uid (case limit of None \<Rightarrow> 100 | Some n \<Rightarrow> n)) (raw_ok 200 []))"

definition patchLatestCategory :: "(goerr \<Rightarrow> string) \<Rightarrow> (string \<Rightarrow> uuid option) \<Rightarrow> bool \<Rightarrow> uuid option \<Rightarrow> (string \<times> money) option \<Rightarrow>
    (budget_db, string answered) act" where
  "patchLatestCategory txt parse on u body = budgetUser u (\<lambda>uid. decoded body (\<lambda>(categoryID, amount).
     or_status (\<lambda>e. (400, txt e)) (PatchLatestCategory parse uid categoryID amount)
       (\<lambda>_. raw_ok 200 (budget_changed on uid) ''Category budget updated successfully'')))"

definition resetActive :: "uuid option \<Rightarrow> (budget_db, string answered) act" where
  "resetActive u = budgetUser u (\<lambda>uid. or_status (failing ''could not reset budget'') (ResetActive uid) (raw_ok 200 []))"

definition getSettings :: "uuid option \<Rightarrow> (budget_db, SettingsResponse answered) act" where
  "getSettings u = budgetUser u (\<lambda>uid. or_status (failing ''could not load settings'') (GetSettings uid) (raw_ok 200 []))"

definition updateSettings :: "bool \<Rightarrow> uuid option \<Rightarrow> UpdateSettingsRequest option \<Rightarrow> (budget_db, string answered) act" where
  "updateSettings on u body = budgetUser u (\<lambda>uid. decoded body (\<lambda>req.
     or_status (failing ''could not update settings'') (UpdateSettings uid req) (\<lambda>_. raw_ok 200 (budget_changed on uid) ''updated'')))"

definition insights :: "ml_service \<Rightarrow> uuid option \<Rightarrow> (budget_db, (BudgetInsight list \<times> int) answered) act" where
  "insights ml u = budgetUser u (\<lambda>uid. bind (Insights ml uid) (raw_ok 200 []))"

definition globalCategories :: "(string \<Rightarrow> int) \<Rightarrow> uuid option \<Rightarrow> (budget_db, GlobalCategory list answered) act" where
  "globalCategories coll u = budgetUser u (\<lambda>_. or_status (failing ''could not load categories'') (GlobalCategories coll) (raw_ok 200 []))"

section \<open>Reallocation, feedback, rollover\<close>

definition reallocationRun :: "(goerr \<Rightarrow> string) \<Rightarrow> ranging \<Rightarrow> ml_service \<Rightarrow> uuid option \<Rightarrow> RunReallocationRequest option \<Rightarrow>
    (budget_db, (uuid \<times> RunReallocationData) answered) act" where
  "reallocationRun txt rg ml u body = budgetUser u (\<lambda>uid. decoded body (\<lambda>req.
     or_status (unavailable_or_text txt) (RunReallocation rg ml uid req) (raw_ok 200 [])))"

definition reallocationApply :: "(goerr \<Rightarrow> string) \<Rightarrow> ml_service \<Rightarrow> (string \<Rightarrow> uuid option) \<Rightarrow> bool \<Rightarrow> uuid option \<Rightarrow>
    ApplyReallocationRequest option \<Rightarrow> (budget_db, ApplyReallocationData answered) act" where
  "reallocationApply txt ml parse on u body = budgetUser u (\<lambda>uid. decoded body (\<lambda>req.
     or_status (unavailable_or_text txt) (ApplyReallocation ml parse uid req) (raw_ok 200 (budget_changed on uid))))"

definition listMLSuggestions :: "uuid option \<Rightarrow> (budget_db, SuggestionRow list answered) act" where
  "listMLSuggestions u = budgetUser u (\<lambda>uid. bind (ListSuggestions uid) (raw_ok 200 []))"

definition listMLCooldowns :: "uuid option \<Rightarrow> (budget_db, CooldownRow list answered) act" where
  "listMLCooldowns u = budgetUser u (\<lambda>uid. bind (ListCooldowns uid) (raw_ok 200 []))"

definition respondMLSuggestion :: "(goerr \<Rightarrow> string) \<Rightarrow> ml_service \<Rightarrow> uuid option \<Rightarrow> uuid option \<Rightarrow> RespondSuggestionRequest option \<Rightarrow>
    (budget_db, string answered) act" where
  "respondMLSuggestion txt ml u i body = budgetUser u (\<lambda>uid. with_id ''invalid suggestion id'' i (\<lambda>sid. decoded body (\<lambda>req.
     or_status (\<lambda>e. if e = ErrBudgetSuggestionNotFound then (404, ''suggestion not found'') else (400, txt e))
       (RespondToSuggestion ml uid sid req) (\<lambda>_. raw_ok 200 [] (''Feedback recorded: '' @ pq_action req)))))"

definition triggerRollover :: "ranging \<Rightarrow> ml_service \<Rightarrow> uuid option \<Rightarrow> (budget_db, uuid option answered) act" where
  "triggerRollover rg ml u = budgetUser u (\<lambda>uid. or_status (failing ''rollover failed'') (RolloverForUser rg ml uid) (raw_ok 200 []))"

text \<open>The run itself goes on in a goroutine after the answer: a separate \<open>RunRollover\<close>.\<close>

definition retryFallbackRollovers :: "uuid option \<Rightarrow> (budget_db, string answered) act" where
  "retryFallbackRollovers u = budgetUser u (\<lambda>_. raw_ok 200 [] ''started'')"

end
