(* ===== verification/BudgetKeeps.thy ===== *)
theory BudgetKeeps
  imports BudgetFlow
begin

text \<open>
  What every budget operation keeps of the tables, whatever it answers and whatever calls fail:
  one budget row per category and month with a non-negative amount, one pending setup session
  per user and month, one row of settings, learned parameters and cooldown per user (and pair),
  and statuses within their domains.
\<close>

section \<open>Consistent tables\<close>

definition bkey :: "budget_row \<Rightarrow> uuid \<times> uuid \<times> string \<times> int \<times> int" where
  "bkey b = (bu_user b, bu_cat b, bu_type b, bu_year b, bu_month b)"

definition budget_ok :: "budget_row \<Rightarrow> bool" where
  "budget_ok b \<longleftrightarrow> 1 \<le> bu_month b \<and> bu_month b \<le> 12 \<and> paise (bu_amount b) \<and> 0 \<le> bu_amount b"

definition budgets_ok :: "budget_row list \<Rightarrow> bool" where
  "budgets_ok bs \<longleftrightarrow> distinct (map bkey bs) \<and> list_all budget_ok bs"

definition pending_in :: "uuid \<Rightarrow> string \<Rightarrow> session_row \<Rightarrow> bool" where
  "pending_in u month s \<longleftrightarrow> sr_user s = u \<and> sr_month s = month \<and> sr_status s = ''pending''"

definition sessions_ok :: "session_row list \<Rightarrow> bool" where
  "sessions_ok ss \<longleftrightarrow> (\<forall>u month. count_where (pending_in u month) ss \<le> 1)"

definition cooldowns_ok :: "CooldownRow list \<Rightarrow> bool" where
  "cooldowns_ok cs \<longleftrightarrow> distinct (map (\<lambda>c. (cd_user c, cd_from c, cd_to c)) (filter (\<lambda>c. cd_type c = ''category_pair'') cs)) \<and>
     list_all (\<lambda>c. 1 \<le> cd_count c) cs"

definition statuses_ok :: "budget_db \<Rightarrow> bool" where
  "statuses_ok d \<longleftrightarrow> list_all (\<lambda>r. rs_status r \<in> {''pending'', ''applied'', ''rejected'', ''expired''}) (reallocs d) \<and>
     list_all (\<lambda>m. mv_status m \<in> {''pending'', ''applied''}) (moves d) \<and>
     list_all (\<lambda>s. sn_response s \<in> {''pending'', ''accepted'', ''rejected'', ''modified'', ''ignored''}) (suggestions d)"

definition budget_inv :: "budget_db \<Rightarrow> bool" where
  "budget_inv d \<longleftrightarrow> budgets_ok (budgets d) \<and> sessions_ok (sessions d) \<and> distinct (map st_user (bsettings d)) \<and>
     distinct (map lp_user (learned d)) \<and> cooldowns_ok (cooldowns d) \<and> statuses_ok d"

section \<open>Single changes\<close>

lemma statuses_ok_upd [simp]:
  "statuses_ok (d\<lparr>budgets := bs\<rparr>) = statuses_ok d" "statuses_ok (d\<lparr>sessions := ss\<rparr>) = statuses_ok d"
  "statuses_ok (d\<lparr>bsettings := st\<rparr>) = statuses_ok d" "statuses_ok (d\<lparr>learned := ls\<rparr>) = statuses_ok d"
  "statuses_ok (d\<lparr>cooldowns := cs\<rparr>) = statuses_ok d"
  by (simp_all add: statuses_ok_def)

lemma budget_inv_cache [simp]:
  "budget_inv (d\<lparr>diag_cache := c\<rparr>) = budget_inv d" "budget_inv (d\<lparr>cat_cache := x, cat_expires := t\<rparr>) = budget_inv d"
  by (simp_all add: budget_inv_def statuses_ok_def)

lemma budget_inv_budgets: "budget_inv d \<Longrightarrow> budgets_ok bs \<Longrightarrow> budget_inv (d\<lparr>budgets := bs\<rparr>)"
  by (simp add: budget_inv_def statuses_ok_def)

lemma budget_inv_sessions: "budget_inv d \<Longrightarrow> sessions_ok ss \<Longrightarrow> budget_inv (d\<lparr>sessions := ss\<rparr>)"
  by (simp add: budget_inv_def statuses_ok_def)

lemma budget_inv_settings: "budget_inv d \<Longrightarrow> distinct (map st_user ss) \<Longrightarrow> budget_inv (d\<lparr>bsettings := ss\<rparr>)"
  by (simp add: budget_inv_def statuses_ok_def)

lemma budget_inv_learned: "budget_inv d \<Longrightarrow> distinct (map lp_user ls) \<Longrightarrow> budget_inv (d\<lparr>learned := ls\<rparr>)"
  by (simp add: budget_inv_def statuses_ok_def)

lemma budget_inv_cooldowns: "budget_inv d \<Longrightarrow> cooldowns_ok cs \<Longrightarrow> budget_inv (d\<lparr>cooldowns := cs\<rparr>)"
  by (simp add: budget_inv_def statuses_ok_def)

lemma budgets_ok_update:
  assumes "budgets_ok bs" "\<And>b. bkey (f b) = bkey b" "\<And>b. b \<in> set bs \<Longrightarrow> budget_ok b \<Longrightarrow> p b \<Longrightarrow> budget_ok (f b)"
  shows "budgets_ok (update_where p f bs)"
  using assms by (auto simp: budgets_ok_def map_update_where list_all_iff in_update_where)

lemma budgets_ok_append:
  "budgets_ok bs \<Longrightarrow> bkey b \<notin> bkey ` set bs \<Longrightarrow> budget_ok b \<Longrightarrow> budgets_ok (bs @ [b])"
  by (simp add: budgets_ok_def)

lemma sessions_ok_update:
  assumes "sessions_ok ss" "\<And>s. sr_user (f s) = sr_user s" "\<And>s. sr_month (f s) = sr_month s"
    "\<And>s. sr_status (f s) = ''pending'' \<Longrightarrow> sr_status s = ''pending''"
  shows "sessions_ok (update_where p f ss)"
proof -
  have "count_where (pending_in u month) (update_where p f ss) \<le> count_where (pending_in u month) ss" for u month
    by (induction ss) (use assms(2-4) in \<open>auto simp: pending_in_def\<close>)
  then show ?thesis using assms(1) unfolding sessions_ok_def by (meson order_trans)
qed

lemma sessions_ok_append: "sessions_ok ss \<Longrightarrow> sr_status s \<noteq> ''pending'' \<Longrightarrow> sessions_ok (ss @ [s])"
  by (auto simp: sessions_ok_def pending_in_def)

lemma amount_ok_paise: "amount_ok x \<Longrightarrow> paise (round2 x) \<and> 0 \<le> round2 x"
  by (simp add: amount_ok_def)

section \<open>The statements\<close>

lemma inv_deactivate: "budget_inv d \<Longrightarrow> budget_inv (deactivate u y m t d)"
  unfolding deactivate_def update_budgets_def
  by (intro budget_inv_budgets budgets_ok_update) (auto simp: budget_inv_def bkey_def budget_ok_def)

lemma inv_put_budget:
  assumes "budget_inv d" "amount_ok (fa_amount a)" "1 \<le> m" "m \<le> 12"
  shows "budget_inv (put_budget new u y m t a d)"
proof (cases "list_ex (keyed u (fa_cat a) y m) (budgets d)")
  case True
  then show ?thesis
    unfolding put_budget_def update_budgets_def using assms amount_ok_paise
    by (auto intro!: budget_inv_budgets budgets_ok_update simp: budget_inv_def bkey_def budget_ok_def)
next
  case False
  then have "bkey (new_budget new u y m t a) \<notin> bkey ` set (budgets d)"
    by (auto simp: list_ex_iff keyed_def bkey_def new_budget_def)
  then show ?thesis
    unfolding put_budget_def using assms amount_ok_paise False
    by (auto intro!: budget_inv_budgets budgets_ok_append simp: budget_inv_def budget_ok_def new_budget_def)
qed

lemma steady_ReplaceMonth [steady_intros]: "steady budget_inv (ReplaceMonth u y m allocs)"
  unfolding ReplaceMonth_def upsert_budget_def
  by (intro steady_intros) (auto simp: inv_deactivate intro: inv_put_budget split: if_splits)

lemma steady_PatchCategoryAmount [steady_intros]: "steady budget_inv (PatchCategoryAmount u c x)"
  unfolding PatchCategoryAmount_def update_budgets_def Let_def
proof (intro steady_intros, goal_cases)
  case (1 t d a d')
  then have d: "d' = d\<lparr>budgets := update_where (patched u c d) (\<lambda>b. b\<lparr>bu_amount := round2 x, bu_updated := t\<rparr>) (budgets d)\<rparr>"
    and ok: "list_ex (patched u c d) (budgets d) \<Longrightarrow> amount_ok x" by (auto split: if_splits)
  have "budgets_ok (update_where (patched u c d) (\<lambda>b. b\<lparr>bu_amount := round2 x, bu_updated := t\<rparr>) (budgets d))"
    by (rule budgets_ok_update)
      (use 1 ok amount_ok_paise in \<open>auto simp: budget_inv_def bkey_def budget_ok_def list_ex_iff\<close>)
  then show ?case unfolding d using 1 by (intro budget_inv_budgets)
qed

lemma steady_DeactivateMonth [steady_intros]: "steady budget_inv (DeactivateMonth u y m)"
  unfolding DeactivateMonth_def by (intro steady_intros inv_deactivate)

lemma inv_update_sessions:
  assumes "budget_inv d" "\<And>s. sr_user (f s) = sr_user s" "\<And>s. sr_month (f s) = sr_month s"
    "\<And>s. sr_status (f s) = ''pending'' \<Longrightarrow> sr_status s = ''pending''"
  shows "budget_inv (update_sessions p f d)"
  unfolding update_sessions_def using assms by (intro budget_inv_sessions sessions_ok_update) (auto simp: budget_inv_def)

lemma steady_session_updates [steady_intros]:
  "steady budget_inv (ExpirePendingSessions u m)" "steady budget_inv (MarkSessionFinalized u i)" "steady budget_inv (repo_DeleteSession u i)"
  unfolding ExpirePendingSessions_def MarkSessionFinalized_def repo_DeleteSession_def
  by (intro steady_intros inv_update_sessions; simp)+

lemma steady_or_not_found [steady_intros]: "steady I m \<Longrightarrow> steady I (or_not_found e m)"
  unfolding or_not_found_def by (intro steady_intros)

lemma steady_UpdateSession [steady_intros]: "steady budget_inv (repo_UpdateSession u i tot allocs)"
  unfolding repo_UpdateSession_def
  by (intro steady_intros)
    (auto intro!: inv_update_sessions simp: updated_session_def split: option.splits if_splits)

lemma steady_GetSession [steady_intros]: "steady I (repo_GetSession u i)"
  unfolding repo_GetSession_def by (intro steady_intros)

lemma steady_CreateDraftSession [steady_intros]: "status \<noteq> ''pending'' \<Longrightarrow> steady budget_inv (CreateDraftSession u m status tot allocs e)"
  unfolding CreateDraftSession_def insert_session_def Let_def
  by (intro steady_intros) (auto simp: budget_inv_def intro!: budget_inv_sessions sessions_ok_append split: if_splits)

text \<open>The pending sessions of the month are abandoned before the new one is inserted.\<close>

lemma none_pending:
  "count_where (pending_in u m) (sessions (update_sessions (\<lambda>s. sr_user s = u \<and> sr_month s = m \<and> sr_status s = ''pending'')
     (\<lambda>s. s\<lparr>sr_status := ''abandoned''\<rparr>) d)) = 0"
proof -
  have "count_where (pending_in u m) (update_where (\<lambda>s. sr_user s = u \<and> sr_month s = m \<and> sr_status s = ''pending'')
     (\<lambda>s. s\<lparr>sr_status := ''abandoned''\<rparr>) ss) = 0" for ss
    by (induction ss) (auto simp: pending_in_def)
  then show ?thesis by (simp add: update_sessions_def)
qed

lemma sessions_ok_new:
  assumes "sessions_ok ss" "count_where (pending_in (sr_user s) (sr_month s)) ss = 0"
  shows "sessions_ok (ss @ [s])"
  using assms by (auto simp: sessions_ok_def pending_in_def)

lemma wp_Expire:
  assumes "budget_inv (wdb w)"
  shows "wp (ExpirePendingSessions u m) (\<lambda>_ w'. budget_inv (wdb w') \<and> count_where (pending_in u m) (sessions (wdb w')) = 0)
    (\<lambda>_ w'. budget_inv (wdb w')) w"
proof -
  have "budget_inv (update_sessions (\<lambda>s. sr_user s = u \<and> sr_month s = m \<and> sr_status s = ''pending'') (\<lambda>s. s\<lparr>sr_status := ''abandoned''\<rparr>) (wdb w))"
    using assms by (intro inv_update_sessions) auto
  then show ?thesis using assms by (simp add: ExpirePendingSessions_def wp_simps none_pending)
qed

lemma inv_new_session:
  assumes "budget_inv d" "count_where (pending_in (sr_user s) (sr_month s)) (sessions d) = 0"
  shows "budget_inv (d\<lparr>sessions := sessions d @ [s]\<rparr>)"
  using assms by (intro budget_inv_sessions sessions_ok_new) (auto simp: budget_inv_def)

lemma wp_insert_pending:
  assumes "budget_inv (wdb w)" "count_where (pending_in u m) (sessions (wdb w)) = 0"
  shows "wp (repo_CreateSession u m e) (\<lambda>_ w'. budget_inv (wdb w')) (\<lambda>_ w'. budget_inv (wdb w')) w"
  unfolding repo_CreateSession_def insert_session_def Let_def wp_exec_id wp_exec
  using assms by (auto intro!: inv_new_session split: list.split)

lemma steady_CreateSession [steady_intros]: "steady budget_inv (CreateSession u asked)"
  by (rule steadyI)
    (auto simp: CreateSession_def Let_def wp_bind wp_time_now intro!: wp_mono[OF wp_Expire] wp_insert_pending)

lemma inv_put_settings:
  assumes "budget_inv d" "\<And>s. st_user (f s) = st_user s"
  shows "budget_inv (put_settings u f d)"
proof (cases "list_ex (\<lambda>s. st_user s = u) (bsettings d)")
  case True
  then show ?thesis using assms by (auto simp: put_settings_def map_update_where budget_inv_def intro!: budget_inv_settings)
next
  case False
  then have "u \<notin> st_user ` set (bsettings d)" by (auto simp: list_ex_iff)
  then show ?thesis using assms False by (auto simp: put_settings_def budget_inv_def intro!: budget_inv_settings)
qed

lemma steady_settings [steady_intros]:
  "steady budget_inv (UpsertSettings u p)" "steady budget_inv (SetSpendingLimitAndActivate u x)" "steady budget_inv (ClearActive u)"
  unfolding UpsertSettings_def SetSpendingLimitAndActivate_def ClearActive_def
  by (intro steady_intros inv_put_settings, simp_all)+ (auto simp: map_update_where budget_inv_def intro!: budget_inv_settings)

lemma steady_UpsertLearnedParams [steady_intros]: "steady budget_inv (UpsertLearnedParams u p)"
proof -
  have "budget_inv (d\<lparr>learned := learned d @ [LearnedParams.extend p \<lparr>lp_user = u, lp_version = 1\<rparr>]\<rparr>)"
    if "budget_inv d" "\<not> list_ex (\<lambda>r. lp_user r = u) (learned d)" for d
  proof -
    have "u \<notin> lp_user ` set (learned d)" using that(2) by (auto simp: list_ex_iff)
    then show ?thesis using that(1) by (auto simp: budget_inv_def LearnedParams.defs intro!: budget_inv_learned)
  qed
  moreover have "budget_inv (d\<lparr>learned := update_where (\<lambda>r. lp_user r = u) (\<lambda>r. LearnedParams.extend p \<lparr>lp_user = u, lp_version = lp_version r + 1\<rparr>) (learned d)\<rparr>)"
    if "budget_inv d" for d
  proof -
    have "map lp_user (update_where (\<lambda>r. lp_user r = u) (\<lambda>r. LearnedParams.extend p \<lparr>lp_user = u, lp_version = lp_version r + 1\<rparr>) (learned d)) =
      map lp_user (learned d)" by (induction "learned d") (auto simp: update_where_def LearnedParams.defs)
    then show ?thesis using that by (auto simp: budget_inv_def intro!: budget_inv_learned)
  qed
  ultimately show ?thesis unfolding UpsertLearnedParams_def Let_def by (intro steady_intros) auto
qed

lemma inv_put_cooldown:
  assumes "budget_inv d" "1 \<le> n"
  shows "budget_inv (put_cooldown new u a b t n d)"
proof (cases "list_ex (pair_of u a b) (cooldowns d)")
  case True
  have "map (\<lambda>c. (cd_user c, cd_from c, cd_to c)) (filter (\<lambda>c. cd_type c = ''category_pair'')
      (update_where (pair_of u a b) (\<lambda>c. c\<lparr>cd_until := t, cd_count := cd_count c + 1, cd_active := True\<rparr>) cs)) =
    map (\<lambda>c. (cd_user c, cd_from c, cd_to c)) (filter (\<lambda>c. cd_type c = ''category_pair'') cs)" for cs
    by (induction cs) auto
  moreover have "list_all (\<lambda>c. 1 \<le> cd_count c) (update_where (pair_of u a b) (\<lambda>c. c\<lparr>cd_until := t, cd_count := cd_count c + 1, cd_active := True\<rparr>) (cooldowns d))"
    using assms(1) by (fastforce simp: budget_inv_def cooldowns_ok_def list_all_iff in_update_where)
  ultimately show ?thesis using assms True unfolding put_cooldown_def budget_inv_def cooldowns_ok_def by simp
next
  case False
  then show ?thesis using assms
    by (auto simp: put_cooldown_def budget_inv_def cooldowns_ok_def list_ex_iff pair_of_def)
qed


lemma steady_UpsertPairCooldown [steady_intros]:
  "steady budget_inv (UpsertPairCooldown u a b)"
proof (rule steadyI)
  fix w :: "budget_db world"
  assume i: "budget_inv (wdb w)"
  have c: "1 \<le> cd_count c" if "first_row (filter (pair_of u a b) (cooldowns (wdb w))) = Some c" for c
    using first_row_filterD[OF that] i by (auto simp: budget_inv_def cooldowns_ok_def list_all_iff)
  show "wp (UpsertPairCooldown u a b) (\<lambda>_ w'. budget_inv (wdb w')) (\<lambda>_ w'. budget_inv (wdb w')) w"
    unfolding UpsertPairCooldown_def Let_def wp_bind wp_attempt wp_query_row wp_time_now wp_exec_id wp_exec
    using i c by (force intro: inv_put_cooldown split: list.split option.split)
qed

section \<open>The operations\<close>

lemma steady_ml_error [steady_intros]:
  "steady I m \<Longrightarrow> (\<And>s. steady I (f s)) \<Longrightarrow> steady I (case e of Unavailable \<Rightarrow> m | MLConflict s \<Rightarrow> f s)"
  by (cases e) auto

lemma steady_reads [steady_intros]:
  "steady I (LatestBudgets u n)" "steady I (repo_GetSettings u)" "steady I (GetLearnedParams u)" "steady I (CategoryIndex)"
  "steady I (fetchTransactions u k)" "steady I (LatestSessionByStatus u s)" "steady I (SessionExistsForMonth u mo sts)"
  "steady I UsersWithActiveBudgets" "steady I (repo_ListSuggestions u n)" "steady I (ListActiveCooldowns u)" "steady I (GetSuggestion u i)"
  "steady I (ListGlobalCategories coll)"
  unfolding LatestBudgets_def repo_GetSettings_def GetLearnedParams_def CategoryIndex_def fetchTransactions_def GetTransactions_def
    LatestSessionByStatus_def SessionExistsForMonth_def UsersWithActiveBudgets_def repo_ListSuggestions_def ListActiveCooldowns_def
    GetSuggestion_def ListGlobalCategories_def
  by (intro steady_intros)+

lemma steady_caches [steady_intros]:
  "steady budget_inv categoryIndex" "steady budget_inv (cached_diag k)" "steady budget_inv (store_diag k v)" "steady budget_inv (drop_diag k)"
  unfolding categoryIndex_def cached_diag_def store_diag_def drop_diag_def
  by (intro steady_intros, simp_all)+

lemma steady_decorate [steady_intros]: "steady budget_inv (decorateCategories cats)" "steady budget_inv (actualSpendForMonth u y m)"
  unfolding decorateCategories_def actualSpendForMonth_def by (intro steady_intros)+

lemma steady_Diagnosis [steady_intros]: "steady budget_inv (Diagnosis rg ml u req)"
  unfolding Diagnosis_def fresh_diagnosis_def diagnose_def persistLearnedParams_def by (intro steady_intros)

lemma steady_SuggestCategories [steady_intros]: "steady budget_inv (SuggestCategories rg ml u req)"
  unfolding SuggestCategories_def reuse_cached_def new_split_def local_split_def remote_split_def by (intro steady_intros)

lemma steady_finalized [steady_intros]: "steady budget_inv (finalized as)"
  by (induction as) (auto intro!: steady_intros)

lemma steady_FinalizeSession [steady_intros]: "steady budget_inv (FinalizeSession u i)"
  unfolding FinalizeSession_def by (intro steady_intros)

lemma steady_active [steady_intros]:
  "steady budget_inv (Status u)" "steady budget_inv (Latest u n)" "steady budget_inv (PatchLatestCategory parse u c x)"
  "steady budget_inv (ResetActive u)" "steady budget_inv (GetSettings u)"
  unfolding Status_def Latest_def linked_or_diagnosed_def PatchLatestCategory_def ResetActive_def GetSettings_def limit_source_def
    income_source_def settings_totals_def
  by (intro steady_intros)+

lemma inv_statuses: "budget_inv d \<Longrightarrow> statuses_ok d' \<Longrightarrow>
    budgets d' = budgets d \<Longrightarrow> sessions d' = sessions d \<Longrightarrow> bsettings d' = bsettings d \<Longrightarrow> learned d' = learned d \<Longrightarrow>
    cooldowns d' = cooldowns d \<Longrightarrow> budget_inv d'"
  by (simp add: budget_inv_def)

lemma steady_insert_move [steady_intros]: "steady budget_inv (insert_move i m)"
  unfolding insert_move_def
  by (intro steady_intros) (auto simp: statuses_ok_def budget_inv_def)

lemma steady_realloc_rows [steady_intros]:
  "steady budget_inv (CreateReallocationSession u target r unc over ms)"
  "steady budget_inv (CreateSuggestion u sid typ target ms unc conf priority)"
  unfolding CreateReallocationSession_def CreateSuggestion_def
  by (intro steady_intros; auto simp: statuses_ok_def budget_inv_def split: if_splits)+

lemma list_all_update_where:
  "list_all P xs \<Longrightarrow> (list_ex p xs \<Longrightarrow> (\<And>x. p x \<Longrightarrow> P x \<Longrightarrow> P (f x))) \<Longrightarrow> list_all P (update_where p f xs)"
  by (fastforce simp: list_all_iff list_ex_iff in_update_where)

lemma steady_statuses [steady_intros]:
  "steady budget_inv (SetReallocationSessionStatus u sid s)" "steady budget_inv (MarkReallocationsApplied sid)"
  "steady budget_inv (SetSuggestionResponse u i resp reason)"
  unfolding SetReallocationSessionStatus_def MarkReallocationsApplied_def SetSuggestionResponse_def
  by (intro steady_intros; simp add: statuses_ok_def budget_inv_def list_all_update_where)+

lemma steady_RunReallocation [steady_intros]: "steady budget_inv (RunReallocation rg ml u req)"
  unfolding RunReallocation_def store_run_def by (intro steady_intros)

lemma steady_apply_limits [steady_intros]: "steady budget_inv (apply_limits u nb seen ns)"
  by (induction u nb seen ns rule: apply_limits.induct) (auto intro!: steady_intros split: option.split)

lemma steady_ApplyReallocation [steady_intros]: "steady budget_inv (ApplyReallocation ml parse u req)"
  unfolding ApplyReallocation_def by (intro steady_intros)

lemma steady_RespondToSuggestion [steady_intros]: "steady budget_inv (RespondToSuggestion ml u i req)"
  unfolding RespondToSuggestion_def reject_moves_def learn_from_def persistLearnedParams_def by (intro steady_intros)

lemma steady_RolloverForUser [steady_intros]: "steady budget_inv (RolloverForUser rg ml u)"
  unfolding RolloverForUser_def by (intro steady_intros) simp

lemma steady_RunRollover [steady_intros]: "steady budget_inv (RunRollover rg ml)"
proof -
  have "steady budget_inv (roll_all rg ml us c)" for us c
  proof (induction us arbitrary: c)
    case (Cons u us)
    show ?case unfolding roll_all.simps by (intro steady_intros Cons.IH)
  qed (simp add: steady_intros)
  then show ?thesis unfolding RunRollover_def by (intro steady_intros)
qed

section \<open>The machine\<close>

datatype budget_op =
    BuDiagnosis uuid DiagnosisRequest
  | BuSuggest uuid SuggestCategoriesRequest
  | BuCreate uuid string
  | BuUpdate uuid uuid UpdateSessionRequest
  | BuFinalize uuid uuid
  | BuDelete uuid uuid
  | BuStatus uuid
  | BuLatest uuid int
  | BuPatch uuid string money
  | BuReset uuid
  | BuSettings uuid
  | BuSetSettings uuid UpdateSettingsRequest
  | BuRun uuid RunReallocationRequest
  | BuApply uuid ApplyReallocationRequest
  | BuRespond uuid uuid RespondSuggestionRequest
  | BuRollover uuid
  | BuRollAll

definition done_with :: "(budget_db, 'a) act \<Rightarrow> (budget_db, unit) act" where
  "done_with m = bind m (\<lambda>_. ret ())"

fun budget_step :: "ranging \<Rightarrow> ml_service \<Rightarrow> (string \<Rightarrow> uuid option) \<Rightarrow> budget_op \<Rightarrow> (budget_db, unit) act" where
  "budget_step rg ml parse (BuDiagnosis u req) = done_with (Diagnosis rg ml u req)"
| "budget_step rg ml parse (BuSuggest u req) = done_with (SuggestCategories rg ml u req)"
| "budget_step rg ml parse (BuCreate u m) = done_with (CreateSession u m)"
| "budget_step rg ml parse (BuUpdate u i req) = done_with (UpdateSession u i req)"
| "budget_step rg ml parse (BuFinalize u i) = FinalizeSession u i"
| "budget_step rg ml parse (BuDelete u i) = DeleteSession u i"
| "budget_step rg ml parse (BuStatus u) = done_with (Status u)"
| "budget_step rg ml parse (BuLatest u n) = done_with (Latest u n)"
| "budget_step rg ml parse (BuPatch u c x) = PatchLatestCategory parse u c x"
| "budget_step rg ml parse (BuReset u) = done_with (ResetActive u)"
| "budget_step rg ml parse (BuSettings u) = done_with (GetSettings u)"
| "budget_step rg ml parse (BuSetSettings u req) = UpdateSettings u req"
| "budget_step rg ml parse (BuRun u req) = done_with (RunReallocation rg ml u req)"
| "budget_step rg ml parse (BuApply u req) = done_with (ApplyReallocation ml parse u req)"
| "budget_step rg ml parse (BuRespond u i req) = RespondToSuggestion ml u i req"
| "budget_step rg ml parse (BuRollover u) = done_with (RolloverForUser rg ml u)"
| "budget_step rg ml parse BuRollAll = done_with (RunRollover rg ml)"

interpretation budgeting: invariant_service "budget_step rg ml parse" budget_inv
  for rg ml parse
proof unfold_locales
  fix oper and w :: "budget_db world"
  assume i: "budget_inv (wdb w)"
  have "steady budget_inv (budget_step rg ml parse oper)"
    by (cases oper) (simp_all add: done_with_def UpdateSession_def DeleteSession_def UpdateSettings_def steady_intros)
  then show "wp (budget_step rg ml parse oper) (\<lambda>_ w'. budget_inv (wdb w')) (\<lambda>_ w'. budget_inv (wdb w')) w"
    using i by (rule steady_wp)
qed

text \<open>
  C26. The budget tables stay consistent: from consistent tables, after any sequence of budget
  operations of any users, whatever calls fail and whatever the remote model answers, there is
  at most one row per user, category and month, its amount whole paise and not negative, and at
  most one pending setup session per user and month.
\<close>

theorem budget_consistent:
  assumes "budget_inv (wdb w)"
  shows "distinct (map bkey (budgets (wdb (run_ops (budget_step rg ml parse) w es)))) \<and>
    list_all (\<lambda>b. paise (bu_amount b) \<and> 0 \<le> bu_amount b) (budgets (wdb (run_ops (budget_step rg ml parse) w es))) \<and>
    count_where (pending_in u month) (sessions (wdb (run_ops (budget_step rg ml parse) w es))) \<le> 1"
  using budgeting.run_keeps[OF assms, of rg ml parse es]
  by (auto simp: budget_inv_def budgets_ok_def sessions_ok_def budget_ok_def list_all_iff)

definition empty_budget_db :: budget_db where
  "empty_budget_db = \<lparr>categories = [], budgets = [], sessions = [], bsettings = [], learned = [], reallocs = [], moves = [],
     suggestions = [], cooldowns = [], spend = [], cat_cache = None, cat_expires = 0, diag_cache = []\<rparr>"

definition no_model :: ml_service where
  "no_model = \<lparr>at_diagnosis = (\<lambda>_ _. NoReply), at_suggest = (\<lambda>_ _. NoReply), at_recommend = (\<lambda>_ _. NoReply),
     at_run = (\<lambda>_ _ _. NoReply), at_apply = (\<lambda>_ _ _ _ _. NoReply), at_learn = (\<lambda>_ _. NoReply)\<rparr>"

definition budget_world :: "budget_db \<Rightarrow> budget_db world" where
  "budget_world d = \<lparr>wdb = d, wfaults = [], wnow = 0, wrand = [], wuuids = []\<rparr>"

lemma empty_budget_inv [simp]: "budget_inv empty_budget_db"
  by (simp add: budget_inv_def empty_budget_db_def budgets_ok_def sessions_ok_def cooldowns_ok_def statuses_ok_def)

lemma budget_consistent_witness:
  "count_where (pending_in ''u'' ''1970-02'') (sessions (wdb (run_ops (budget_step \<lparr>rg_names = (\<lambda>ks. ks), rg_days = (\<lambda>ks. ks)\<rparr> no_model (\<lambda>_. None))
     (budget_world empty_budget_db)
     [(BuCreate ''u'' ''1970-02'', 1, [], [], [''s1'']), (BuCreate ''u'' ''1970-02'', 1, [], [], [''s2''])]))) \<le> 1"
proof -
  have "budget_inv (wdb (budget_world empty_budget_db))" by (simp add: budget_world_def)
  from budget_consistent[OF this] show ?thesis by blast
qed

end
