(* ===== verification/BudgetFacts.thy ===== *)
theory BudgetFacts
  imports BudgetKeeps SpendFacts
begin

text \<open>
  What the budget feature does: the month a finalized plan leaves, the cached diagnosis, the
  rollover, the reset, the fallback split and the floors of bills.
\<close>

section \<open>Replacing a month\<close>

text \<open>The amount of each category among the active rows of a month.\<close>

definition month_rows :: "uuid \<Rightarrow> int \<Rightarrow> int \<Rightarrow> budget_db \<Rightarrow> (uuid \<times> money) set" where
  "month_rows u y m d = {(bu_cat b, bu_amount b) | b. b \<in> set (budgets d) \<and> active_in u y m b}"

definition other_rows :: "uuid \<Rightarrow> int \<Rightarrow> int \<Rightarrow> budget_db \<Rightarrow> budget_row list" where
  "other_rows u y m d = filter (\<lambda>b. \<not> (bu_user b = u \<and> bu_year b = y \<and> bu_month b = m)) (budgets d)"

definition planned :: "FinalizedAllocation list \<Rightarrow> (uuid \<times> money) set" where
  "planned fs = {(c, x). map_of (rev (map (\<lambda>a. (fa_cat a, round2 (fa_amount a))) fs)) c = Some x}"

text \<open>The active rows of the month are those of the allocations written so far.\<close>

definition month_is :: "uuid \<Rightarrow> int \<Rightarrow> int \<Rightarrow> FinalizedAllocation list \<Rightarrow> budget_row list \<Rightarrow> budget_db \<Rightarrow> bool" where
  "month_is u y m fs others d \<longleftrightarrow> budget_inv d \<and> month_rows u y m d = planned fs \<and> other_rows u y m d = others \<and>
     (\<forall>b \<in> set (budgets d). active_in u y m b \<longrightarrow> bu_type b = ''global'')"

lemma planned_snoc: "planned (fs @ [a]) = {(c, x). if c = fa_cat a then x = round2 (fa_amount a) else (c, x) \<in> planned fs}"
  by (auto simp: planned_def split: if_splits)

lemma planned_Nil [simp]: "planned [] = {}"
  by (simp add: planned_def)

lemma month_rows_iff: "(c, x) \<in> month_rows u y m d \<longleftrightarrow> (\<exists>b \<in> set (budgets d). active_in u y m b \<and> bu_cat b = c \<and> bu_amount b = x)"
  by (auto simp: month_rows_def)

lemma month_is_deactivate:
  assumes "budget_inv d"
  shows "month_is u y m [] (other_rows u y m d) (deactivate u y m t d)"
proof -
  have a: "\<forall>b \<in> set (budgets (deactivate u y m t d)). \<not> active_in u y m b"
    unfolding deactivate_def update_budgets_def by (simp add: ball_update_where active_in_def)
  then have "month_rows u y m (deactivate u y m t d) = {}" unfolding month_rows_def by blast
  moreover have "other_rows u y m (deactivate u y m t d) = other_rows u y m d"
    unfolding other_rows_def deactivate_def update_budgets_def
    by (simp, rule filter_update_where_other) (simp add: active_in_def)
  ultimately show ?thesis using inv_deactivate[OF assms] a by (simp add: month_is_def)
qed

text \<open>Writing an allocation: the rows of its category now hold its amount.\<close>

lemma month_rows_put:
  assumes "\<And>b. b \<in> set (budgets d) \<Longrightarrow> active_in u y m b \<Longrightarrow> bu_type b = ''global''"
  shows "(c, x) \<in> month_rows u y m (put_budget new u y m t a d) \<longleftrightarrow>
    (if c = fa_cat a then x = round2 (fa_amount a) else (c, x) \<in> month_rows u y m d)"
proof (cases "list_ex (keyed u (fa_cat a) y m) (budgets d)")
  case True
  have "(c, x) \<in> month_rows u y m (put_budget new u y m t a d) \<longleftrightarrow> (\<exists>b \<in> set (budgets d).
      if keyed u (fa_cat a) y m b then c = fa_cat a \<and> x = round2 (fa_amount a) else active_in u y m b \<and> bu_cat b = c \<and> bu_amount b = x)"
    unfolding month_rows_iff put_budget_def update_budgets_def
    using True by (simp add: bex_update_where) (intro bex_cong refl if_cong, auto simp: keyed_def active_in_def)
  moreover have "keyed u (fa_cat a) y m b" if "b \<in> set (budgets d)" "active_in u y m b" "bu_cat b = fa_cat a" for b
    using that assms by (auto simp: keyed_def active_in_def)
  moreover have "bu_cat b = fa_cat a" if "keyed u (fa_cat a) y m b" for b using that by (simp add: keyed_def)
  ultimately show ?thesis using True unfolding month_rows_iff list_ex_iff by (cases "c = fa_cat a") (metis, metis)
next
  case False
  have "\<not> (\<exists>b \<in> set (budgets d). active_in u y m b \<and> bu_cat b = fa_cat a \<and> bu_amount b = x)"
    using False assms by (auto simp: list_ex_iff keyed_def active_in_def)
  then show ?thesis using False unfolding month_rows_iff put_budget_def by (auto simp: new_budget_def active_in_def)
qed

lemma other_rows_put: "other_rows u y m (put_budget new u y m t a d) = other_rows u y m d"
proof (cases "list_ex (keyed u (fa_cat a) y m) (budgets d)")
  case True
  then show ?thesis unfolding other_rows_def put_budget_def update_budgets_def
    by (simp, intro filter_update_where_other) (simp add: keyed_def)
next
  case False
  then show ?thesis unfolding other_rows_def put_budget_def by (simp add: new_budget_def)
qed

lemma month_is_put:
  assumes i: "month_is u y m fs others d" and a: "amount_ok (fa_amount a)" "1 \<le> m" "m \<le> 12"
  shows "month_is u y m (fs @ [a]) others (put_budget new u y m t a d)"
proof -
  have inv: "budget_inv d" and rows: "month_rows u y m d = planned fs" and oth: "other_rows u y m d = others"
    and glob: "\<forall>b \<in> set (budgets d). active_in u y m b \<longrightarrow> bu_type b = ''global''"
    using i by (auto simp: month_is_def)
  have "month_rows u y m (put_budget new u y m t a d) = planned (fs @ [a])"
    unfolding planned_snoc rows[symmetric] using month_rows_put[of d u y m _ _ new t a] glob by auto
  moreover have "\<forall>b \<in> set (budgets (put_budget new u y m t a d)). active_in u y m b \<longrightarrow> bu_type b = ''global''"
    using glob by (simp add: put_budget_def update_budgets_def ball_update_where keyed_def new_budget_def active_in_def)
  ultimately show ?thesis using inv_put_budget[OF inv a] oth other_rows_put by (simp add: month_is_def)
qed

lemma wp_upserts:
  assumes "month_is u y m fs others (wdb w)"
  shows "wp (foreach (upsert_budget u y m) gs) (\<lambda>_ w'. month_is u y m (fs @ gs) others (wdb w')) (\<lambda>_ _. True) w"
  using assms
proof (induction gs arbitrary: fs w)
  case Nil
  then show ?case by (simp add: wp_simps)
next
  case (Cons a gs)
  have "wp (upsert_budget u y m a) (\<lambda>_ w'. month_is u y m (fs @ [a]) others (wdb w')) (\<lambda>_ _. True) w"
    using month_is_put[OF Cons.prems, of a]
    by (auto simp: upsert_budget_def wp_simps split: list.split)
  moreover have "wp (foreach (upsert_budget u y m) gs) (\<lambda>_ w'. month_is u y m (fs @ a # gs) others (wdb w')) (\<lambda>_ _. True) v"
    if "month_is u y m (fs @ [a]) others (wdb v)" for v
    using Cons.IH[OF that] by simp
  ultimately show ?case unfolding wp_foreach_Cons by (rule wp_mono) auto
qed

lemma wp_ReplaceMonth:
  assumes "budget_inv (wdb w)"
  shows "wp (ReplaceMonth u y m fs) (\<lambda>_ w'. month_is u y m fs (other_rows u y m (wdb w)) (wdb w')) (\<lambda>_ w'. wdb w' = wdb w) w"
  unfolding ReplaceMonth_def
proof (rule tx_returns)
  show "wp (bind (wrapping ''deactivate month'' (exec_upd (\<lambda>t d. deactivate u y m t d))) (\<lambda>_. foreach (upsert_budget u y m) fs))
      (\<lambda>_ w'. month_is u y m fs (other_rows u y m (wdb w)) (wdb (tick w'))) (\<lambda>_ _. True) (tick w)"
    using assms wp_upserts[of u y m "[]" "other_rows u y m (wdb w)" _ fs] month_is_deactivate[OF assms, of u y m]
    by (simp add: wp_bind wp_wrapping wp_exec_upd)
qed

text \<open>
  C27. A month is replaced as a whole: from consistent tables, a successful replacement leaves as
  the user's active rows of that month exactly the allocations given - of two for one category
  the later -, in whole paise, and every row of another user or month as it was; a failure
  changes nothing.
\<close>

theorem ReplaceMonth_correct:
  assumes "budget_inv (wdb w)" "ReplaceMonth u y m fs w = (r, w')"
  shows "(r = Inr () \<longrightarrow> month_rows u y m (wdb w') = planned fs \<and> other_rows u y m (wdb w') = other_rows u y m (wdb w)) \<and>
    (isl r \<longrightarrow> wdb w' = wdb w)"
  using wp_ReplaceMonth[OF assms(1), of u y m fs] assms(2) by (cases r) (auto simp: wp_def month_is_def)

lemma ReplaceMonth_correct_witness:
  "(''c'', 5) \<in> month_rows ''u'' 2026 3 (wdb (snd (ReplaceMonth ''u'' 2026 3
     [\<lparr>fa_cat = ''c'', fa_amount = 7, fa_hidden = False\<rparr>, \<lparr>fa_cat = ''c'', fa_amount = 5, fa_hidden = False\<rparr>]
     ((budget_world empty_budget_db)\<lparr>wuuids := [''b1'', ''b2'']\<rparr>))))"
proof -
  let ?w = "(budget_world empty_budget_db)\<lparr>wuuids := [''b1'', ''b2'']\<rparr>"
  let ?fs = "[\<lparr>fa_cat = ''c'', fa_amount = 7, fa_hidden = False\<rparr>, \<lparr>fa_cat = ''c'', fa_amount = 5, fa_hidden = False\<rparr>]"
  have i: "budget_inv (wdb ?w)" by (simp add: budget_world_def)
  obtain r w' where r: "ReplaceMonth ''u'' 2026 3 ?fs ?w = (r, w')" by fastforce
  have "fst (ReplaceMonth ''u'' 2026 3 ?fs ?w) = Inr ()" by code_simp
  then have "month_rows ''u'' 2026 3 (wdb w') = planned ?fs" using ReplaceMonth_correct[OF i r] r by simp
  moreover have "map_of (rev (map (\<lambda>a. (fa_cat a, round2 (fa_amount a))) ?fs)) ''c'' = Some 5" by code_simp
  then have "(''c'', 5) \<in> planned ?fs" unfolding planned_def by simp
  ultimately show ?thesis using r by simp
qed

section \<open>The cached diagnosis\<close>

lemma wp_cached_diag [wp_simps]:
  "wp (cached_diag k) Q E w = Q (fst (cache_get k (wnow w) (diag_cache (wdb w))))
     (w\<lparr>wdb := (wdb w)\<lparr>diag_cache := snd (cache_get k (wnow w) (diag_cache (wdb w)))\<rparr>\<rparr>)"
  by (simp add: cached_diag_def wp_simps split: prod.split)

definition month_of_request :: "int \<Rightarrow> DiagnosisRequest \<Rightarrow> string" where
  "month_of_request now req = (if dq_month req = [] then this_month now else dq_month req)"

text \<open>What a diagnosis returns is in the cache afterwards, unless it came from there.\<close>

definition holds_diag :: "uuid \<Rightarrow> string \<Rightarrow> BudgetDiagnosisResponse \<Rightarrow> int \<Rightarrow> budget_db \<Rightarrow> bool" where
  "holds_diag u month g t d \<longleftrightarrow> (\<exists>e. map_of (diag_cache d) (diag_key u month) = Some e \<and> te_data e = g \<and> te_exp e = t)"

lemma timed_parts [clock_intros]:
  "timed categoryIndex" "timed (fetchTransactions u k)" "timed (GetLearnedParams u)" "timed (UpsertLearnedParams u p)"
  "timed (decorateCategories cats)" "timed (diagnose rg ml u month h)"
  unfolding categoryIndex_def CategoryIndex_def fetchTransactions_def GetTransactions_def GetLearnedParams_def UpsertLearnedParams_def
    decorateCategories_def diagnose_def persistLearnedParams_def
  by (intro clock_intros; intro clock_intros)+

lemma wp_timed_seq:
  assumes "timed m" "\<And>a v. wnow v = wnow w \<Longrightarrow> wp (f a) Q (\<lambda>_ _. True) v"
  shows "wp (bind m f) Q (\<lambda>_ _. True) w"
proof -
  have "wp m (\<lambda>_ v. wnow v = wnow w) (\<lambda>_ _. True) w"
    using wp_timed[OF assms(1) wp_True, of w] by (rule wp_mono) auto
  then show ?thesis unfolding wp_bind by (rule wp_mono) (auto intro: assms(2))
qed

lemma wp_fresh_diagnosis:
  "wp (fresh_diagnosis rg ml u month) (\<lambda>g w'. holds_diag u month g (wnow w + diagnosisCacheTTL) (wdb w')) (\<lambda>_ _. True) w"
proof -
  have s: "wp (bind (store_diag (diag_key u month) g) (\<lambda>_. ret g)) (\<lambda>g w'. holds_diag u month g (wnow w + diagnosisCacheTTL) (wdb w')) (\<lambda>_ _. True) v"
    if "wnow v = wnow w" for g and v :: "budget_db world"
    using that by (simp add: store_diag_def wp_simps holds_diag_def cache_set_def)
  show ?thesis
    unfolding fresh_diagnosis_def Let_def wp_bind[of time_now] wp_time_now
    by (rule wp_timed_seq, intro clock_intros, rule wp_timed_seq, intro clock_intros, rule wp_timed_seq, intro clock_intros,
        clarsimp, rule wp_timed_seq, intro clock_intros, rule s) simp
qed

lemma Diagnosis_run:
  "Diagnosis rg ml u req w = (let m = month_of_request (wnow w) req in
     if dq_force req then fresh_diagnosis rg ml u m w
     else case cached_diag (diag_key u m) w of (Inl err, v) \<Rightarrow> (Inl err, v)
      | (Inr r, v) \<Rightarrow> (case r of Some c \<Rightarrow> ret c | None \<Rightarrow> fresh_diagnosis rg ml u m) v)"
  unfolding Diagnosis_def month_of_request_def[symmetric] Let_def
  by (simp add: bind_def time_now_def ret_def)


lemma calm_Diagnosis: "calm (Diagnosis rg ml u req)"
proof -
  have m: "calm (mem f)" "calm (set_mem g)" for f g by (simp_all add: calm_def mem_def set_mem_def)
  have i: "calm m \<Longrightarrow> calm (ignoring a m)" for a m unfolding ignoring_def by (intro calm_intros calm_tame)
  show ?thesis
    unfolding Diagnosis_def fresh_diagnosis_def diagnose_def persistLearnedParams_def decorateCategories_def cached_diag_def
      store_diag_def fetchTransactions_def GetTransactions_def categoryIndex_def CategoryIndex_def GetLearnedParams_def UpsertLearnedParams_def
    by (intro calm_intros m i)
qed



section \<open>Rollover\<close>

definition latest_view :: "uuid \<Rightarrow> budget_db \<Rightarrow> BudgetRow list" where
  "latest_view u d = map (budget_view (categories d)) (take 100 (order_desc bu_updated (latest_rows u d)))"

lemma wp_LatestBudgets [wp_simps]:
  "wp (LatestBudgets u 100) Q E w \<longleftrightarrow> (faulty w \<longrightarrow> E (Wrap ''latest budgets'' (Sent ErrDB)) (tick w)) \<and>
     (\<not> faulty w \<longrightarrow> Q (latest_view u (wdb w)) (tick w))"
  by (simp add: LatestBudgets_def wp_simps latest_view_def Let_def)

text \<open>The user's next month has a session that blocks a draft, or there is nothing to roll over.\<close>

definition rolled :: "uuid \<Rightarrow> budget_db \<Rightarrow> bool" where
  "rolled u d \<longleftrightarrow> (case latest_view u d of [] \<Rightarrow> True | r # _ \<Rightarrow> session_exists u (next_month r) blocking_statuses d)"

definition same_plan :: "budget_db \<Rightarrow> budget_db \<Rightarrow> bool" where
  "same_plan d d' \<longleftrightarrow> budgets d' = budgets d \<and> categories d' = categories d \<and> sessions d' = sessions d"

lemma same_plan_refl [simp]: "same_plan d d"
  by (simp add: same_plan_def)

lemma same_plan_upd [simp]:
  "same_plan d (d'\<lparr>diag_cache := c\<rparr>) = same_plan d d'" "same_plan d (d'\<lparr>cat_cache := x, cat_expires := t\<rparr>) = same_plan d d'"
  "same_plan d (d'\<lparr>learned := ls\<rparr>) = same_plan d d'"
  by (simp_all add: same_plan_def)

lemma steady_plan:
  "steady (same_plan d) categoryIndex" "steady (same_plan d) (cached_diag k)" "steady (same_plan d) (store_diag k v)"
  "steady (same_plan d) (UpsertLearnedParams u p)"
  unfolding categoryIndex_def cached_diag_def store_diag_def UpsertLearnedParams_def Let_def
  by (intro steady_intros; simp)+

lemma steady_plan_Diagnosis: "steady (same_plan d) (Diagnosis rg ml u req)"
  unfolding Diagnosis_def fresh_diagnosis_def diagnose_def persistLearnedParams_def decorateCategories_def
  by (intro steady_intros steady_plan)

lemma same_plan_view: "same_plan d d' \<Longrightarrow> latest_view u d' = latest_view u d"
  by (simp add: same_plan_def latest_view_def latest_rows_def latest_period_def active_rows_def)

lemma wp_CreateDraft:
  "wp (CreateDraftSession u m st tot allocs e) (\<lambda>s w'. session_exists u m [st] (wdb w') \<and>
      latest_view u (wdb w') = latest_view u (wdb w)) (\<lambda>_ _. True) w"
  by (auto simp: CreateDraftSession_def insert_session_def Let_def wp_simps session_exists_def latest_view_def latest_rows_def
      latest_period_def active_rows_def split: list.split)

lemma wp_Rollover:
  "wp (RolloverForUser rg ml u) (\<lambda>r w'. (\<exists>i. r = Some i) \<longrightarrow> rolled u (wdb w')) (\<lambda>_ _. True) w"
proof -
  let ?Q = "\<lambda>r w'. (\<exists>i. r = Some i) \<longrightarrow> rolled u (wdb w')"
  have draft: "wp (CreateDraftSession u (next_month r) ''rollover_draft'' tot allocs e) (\<lambda>s. ?Q (Some (sr_id s))) (\<lambda>_ _. True) v"
    if "latest_view u (wdb v) = r # rs" for r rs tot allocs e v
    by (rule wp_mono[OF wp_CreateDraft]) (use that in \<open>auto simp: rolled_def session_exists_def blocking_statuses_def list_ex_iff\<close>)
  have diag: "wp (Diagnosis rg ml u q) (\<lambda>g v'. latest_view u (wdb v') = latest_view u (wdb v)) (\<lambda>_ _. True) v" for q v
    by (rule wp_mono[OF steady_wp[OF steady_plan_Diagnosis same_plan_refl]]) (auto dest: same_plan_view)
  have go: "wp (Diagnosis rg ml u q) (\<lambda>g. wp (bind time_now (\<lambda>now. bind (CreateDraftSession u (next_month r) ''rollover_draft''
      (tot g) (al g) (now + e)) (\<lambda>s. ret (Some (sr_id s))))) ?Q (\<lambda>_ _. True)) (\<lambda>_ _. True) v"
    if "latest_view u (wdb v) = r # rs" for q v r rs tot al e
    by (rule wp_mono[OF diag]) (use that draft in \<open>auto simp: wp_simps\<close>)
  show ?thesis
    unfolding RolloverForUser_def Let_def
    by (auto simp: wp_simps(3) wp_LatestBudgets wp_ignoring SessionExistsForMonth_def wp_query wp_ret split: list.split intro!: go)
qed


definition january :: budget_row where
  "january = \<lparr>bu_id = ''b1'', bu_user = ''u'', bu_cat = ''c'', bu_type = ''global'', bu_year = 1970, bu_month = 1, bu_amount = 7,
     bu_active = True, bu_hidden = False, bu_notes = '''', bu_created = 0, bu_updated = 0\<rparr>"

definition drafted :: budget_db where
  "drafted = empty_budget_db\<lparr>budgets := [january], diag_cache := [(diag_key ''u'' ''1970-02'', \<lparr>te_data =
     \<lparr>dg_month = ''1970-02'', dg_history = [], dg_income = 0, dg_expenses = 0, dg_savings = 0, dg_total = 9, dg_cats = [],
      dg_reasoning = [], dg_insights = [], dg_at = 0\<rparr>, te_exp = 5\<rparr>)]\<rparr>"


section \<open>Reset\<close>

lemma latest_period_Max: "active_rows u d \<noteq> [] \<Longrightarrow> latest_period u d = Some (Max (period ` set (active_rows u d)))"
  by (cases "active_rows u d") (simp_all add: latest_period_def Max.set_eq_fold[symmetric])

lemma latest_rows_nonempty:
  assumes "active_rows u d \<noteq> []"
  shows "latest_rows u d \<noteq> []"
proof -
  have "Max (period ` set (active_rows u d)) \<in> period ` set (active_rows u d)" using assms by (intro Max_in) auto
  then show ?thesis unfolding latest_rows_def latest_period_Max[OF assms] by (auto simp: filter_empty_conv)
qed

lemma latest_rows_period: "b \<in> set (latest_rows u d) \<Longrightarrow> c \<in> set (active_rows u d) \<Longrightarrow> period c \<le> period b"
  using latest_period_Max[of u d] by (cases "active_rows u d = []") (auto simp: latest_rows_def)

lemma active_after_deactivate:
  assumes "c \<in> set (active_rows u d)" "(bu_year c, bu_month c) \<noteq> (y, m)"
  shows "c \<in> set (active_rows u (deactivate u y m t d))"
  using assms by (auto simp: active_rows_def deactivate_def update_budgets_def in_update_where active_in_def)

lemma wp_ResetActive:
  assumes "wfaults w = []" "c \<in> set (active_rows u (wdb w))" "b \<in> set (active_rows u (wdb w))" "period c < period b"
  shows "wp (ResetActive u) (\<lambda>_ w'. wfaults w' = [] \<and> c \<in> set (active_rows u (wdb w'))) (\<lambda>_ _. False) w"
proof -
  let ?d = "wdb w"
  let ?rows = "map (budget_view (categories ?d)) (take 1 (order_desc bu_updated (latest_rows u ?d)))"
  have "latest_rows u ?d \<noteq> []" using assms(2) by (intro latest_rows_nonempty) auto
  then obtain r rs where r: "order_desc bu_updated (latest_rows u ?d) = r # rs" by (cases "order_desc bu_updated (latest_rows u ?d)") auto
  then have "r \<in> set (latest_rows u ?d)" by (metis list.set_intros(1) set_order_desc)
  then have "period c < period r" using latest_rows_period assms(3,4) by fastforce
  then have ne: "(bu_year c, bu_month c) \<noteq> (bu_year r, bu_month r)" by (auto simp: period_def)
  have "c \<in> set (active_rows u (d\<lparr>bsettings := st, diag_cache := k\<rparr>))" if "c \<in> set (active_rows u d)" for d st k
    using that by (simp add: active_rows_def)
  then show ?thesis
    using assms(1) r active_after_deactivate[OF assms(2) ne, of "wnow w"]
    by (simp add: ResetActive_def LatestBudgets_def DeactivateMonth_def ClearActive_def drop_diag_def wp_simps Let_def budget_view_def
        tick_no_faults active_rows_def)
qed

text \<open>
  A reset is not a reset: finalizing a new month leaves the older months' rows active, and a
  reset deactivates only the latest month, so for a user who budgeted in two months the status
  after a successful reset still reports an active budget, the older one.
\<close>

theorem reset_uncovers_older:
  assumes "wfaults w = []" "c \<in> set (active_rows u (wdb w))" "b \<in> set (active_rows u (wdb w))" "period c < period b"
  shows "\<exists>msg w1 s w2. ResetActive u w = (Inr msg, w1) \<and> Status u w1 = (Inr s, w2) \<and> sx_active s \<and> 0 < sx_count s"
proof -
  obtain msg w1 where r: "ResetActive u w = (Inr msg, w1)" "wfaults w1 = []" "c \<in> set (active_rows u (wdb w1))"
    using wp_ResetActive[OF assms] by (auto simp: wp_def split: prod.splits sum.splits)
  from r(3) have "active_rows u (wdb w1) \<noteq> []" by (cases "active_rows u (wdb w1)") auto
  then have "latest_rows u (wdb w1) \<noteq> []" by (rule latest_rows_nonempty)
  then have "order_desc bu_updated (latest_rows u (wdb w1)) \<noteq> []" by (metis set_empty set_order_desc)
  then have "latest_view u (wdb w1) \<noteq> []" by (simp add: latest_view_def)
  then have "wp (Status u) (\<lambda>s _. sx_active s \<and> 0 < sx_count s) (\<lambda>_ _. False) w1"
    using r(2) by (simp add: Status_def wp_simps tick_no_faults repo_GetSettings_def LatestSessionByStatus_def status_of_def Let_def
        split: prod.split)
  then show ?thesis using r(1) by (auto simp: wp_def split: prod.splits sum.splits)
qed

lemma reset_uncovers_older_witness:
  "\<exists>msg w1 s w2. ResetActive ''u'' (budget_world (empty_budget_db\<lparr>budgets := [january, january\<lparr>bu_month := 2\<rparr>]\<rparr>)) = (Inr msg, w1) \<and>
     Status ''u'' w1 = (Inr s, w2) \<and> sx_active s \<and> 0 < sx_count s"
proof (rule reset_uncovers_older)
  show "january \<in> set (active_rows ''u'' (wdb (budget_world (empty_budget_db\<lparr>budgets := [january, january\<lparr>bu_month := 2\<rparr>]\<rparr>))))"
    "january\<lparr>bu_month := 2\<rparr> \<in> set (active_rows ''u'' (wdb (budget_world (empty_budget_db\<lparr>budgets := [january, january\<lparr>bu_month := 2\<rparr>]\<rparr>))))"
    by (simp_all add: active_rows_def budget_world_def january_def)
qed (simp_all add: budget_world_def january_def period_def)

end
