(* ===== verification/BudgetSplit.thy ===== *)
theory BudgetSplit
  imports BudgetFacts
begin

text \<open>
  The split the budget service falls back on when the remote model is away: bills keep what they
  had, the rest of the total is shared out, and the floors of bills as the code counts them.
\<close>

section \<open>Histories\<close>

text \<open>A category occurs once and its months hold whole paise.\<close>

definition hist_ok :: "cat_history \<Rightarrow> bool" where
  "hist_ok hist \<longleftrightarrow> distinct (map fst hist) \<and> (\<forall>(c, es) \<in> set hist. \<forall>(x, m) \<in> set es. paise x \<and> 0 \<le> x)"

lemma distinct_filtered_keys: "distinct cs \<Longrightarrow> distinct (map fst (filter P (map (\<lambda>c. (c, f c)) cs)))"
  by (induction cs) (auto simp: image_iff)

lemma buildHistory_ok:
  assumes "ranging_ok rg"
  shows "hist_ok (hb_cats (buildHistory rg txns target canon))"
proof -
  have "distinct (rg_names rg (remdups ks))" for ks using assms by (simp add: ranging_ok_def)
  then have "distinct (map fst (category_history rg canon es ms))" for es ms
    unfolding category_history_def by (rule distinct_filtered_keys)
  moreover have "paise x \<and> 0 \<le> x" if "(c, es) \<in> set (category_history rg canon ts ms)" "(x, m) \<in> set es" for c es x m ts ms
    using that by (auto simp: category_history_def category_entries_def Let_def intro!: round2_nonneg[OF less_imp_le])
  ultimately show ?thesis unfolding hist_ok_def buildHistory_def Let_def by fastforce
qed

text \<open>What a category has spent, over all its months.\<close>

definition floor_of :: "cat_history \<Rightarrow> string \<Rightarrow> money" where
  "floor_of hist c = (case map_of hist c of None \<Rightarrow> 0 | Some es \<Rightarrow> spent_total es)"

lemma paise_sum: "(\<And>x. x \<in> set xs \<Longrightarrow> paise x) \<Longrightarrow> paise (sum_list xs)"
  by (induction xs) (simp_all add: paise_add)

lemma floor_of_ok:
  assumes "hist_ok hist"
  shows "0 \<le> floor_of hist c" "paise (floor_of hist c)"
proof -
  have "paise x \<and> 0 \<le> x" if "map_of hist c = Some es" "x \<in> fst ` set es" for es x
    using assms map_of_SomeD[OF that(1)] that(2) by (fastforce simp: hist_ok_def)
  then show "0 \<le> floor_of hist c" "paise (floor_of hist c)"
    by (auto simp: floor_of_def spent_total_def split: option.split intro!: sum_list_nonneg paise_sum)
qed

lemma value_of_totals: "value_of (map (\<lambda>(c, es). (c, spent_total es)) hist) = floor_of hist"
  by (rule ext) (simp add: value_of_def floor_of_def map_of_map split: option.split)

lemma keys_totals: "map fst (map (\<lambda>(c, es). (c, spent_total es)) hist) = map fst hist"
  by (induction hist) auto

lemma totals_sum:
  assumes "distinct (map fst hist)"
  shows "sum_list (map snd (map (\<lambda>(c, es). (c, spent_total es)) hist)) = (\<Sum>c \<in> fst ` set hist. floor_of hist c)"
proof -
  have "map snd (map (\<lambda>(c, es). (c, spent_total es)) hist) = map (floor_of hist) (map fst hist)"
    using assms by (auto simp: floor_of_def)
  then show ?thesis using assms by (simp only: sum_list_distinct_conv_sum_set set_map)
qed

lemma sum_set_le: "(\<And>x. 0 \<le> f x) \<Longrightarrow> sum f (set xs) \<le> sum_list (map f xs)"
  for f :: "'a \<Rightarrow> rat"
proof (induction xs)
  case (Cons x xs)
  then have "sum f (insert x (set xs)) \<le> f x + sum f (set xs)" by (cases "x \<in> set xs") (simp_all add: insert_absorb)
  then show ?case using Cons.IH[OF Cons.prems] by simp
qed simp

lemma sum_insort_key: "sum_list (map f (insort_key k x xs)) = f x + sum_list (map f xs)"
  for f :: "'a \<Rightarrow> rat" and k :: "'a \<Rightarrow> 'b::linorder"
  by (induction xs) simp_all

lemma sum_sort_key: "sum_list (map f (sort_key k xs)) = sum_list (map f xs)"
  for f :: "'a \<Rightarrow> rat" and k :: "'a \<Rightarrow> 'b::linorder"
  by (induction xs) (simp_all add: sum_insort_key)

section \<open>The split\<close>

lemma protectedCommitted_eq:
  "protectedCommitted protected hist tot =
     (let kept = filter (\<lambda>c. floor_of hist c > 0) protected; s = sum_list (map (floor_of hist) kept)
      in (map (\<lambda>c. (c, floor_of hist c)) (remdups kept), max 0 (s - tot)))"
  unfolding protectedCommitted_def floor_of_def[symmetric] Let_def by (simp add: max_def)

text \<open>The floors, the share of each other category, and the rest there is to share.\<close>

definition floored :: "ranging \<Rightarrow> cat_history \<Rightarrow> string list \<Rightarrow> SuggestedCategory list" where
  "floored rg hist protected = map (\<lambda>c. suggested c (floor_of hist c) (99/100) [floor_of hist c, floor_of hist c])
     (rg_names rg (remdups (filter (\<lambda>c. floor_of hist c > 0) protected)))"

definition sharers :: "ranging \<Rightarrow> cat_history \<Rightarrow> string list \<Rightarrow> string list" where
  "sharers rg hist protected = filter (\<lambda>c. c \<notin> set protected \<and> floor_of hist c > 0) (rg_names rg (map fst hist))"

definition shared :: "ranging \<Rightarrow> money \<Rightarrow> cat_history \<Rightarrow> string list \<Rightarrow> SuggestedCategory list" where
  "shared rg rest hist protected = (let grand = sum_list (map (floor_of hist) (sharers rg hist protected)) in
     map (\<lambda>c. let amt = round2 (rest * (floor_of hist c / grand)) in suggested c amt (85/100) [round2 (amt * (8/10)), round2 (amt * (12/10))])
       (sharers rg hist protected))"

lemma sum_list_positive_part:
  "(\<And>x. 0 \<le> f x) \<Longrightarrow> sum_list (map f (filter P xs)) = sum_list (map f (filter (\<lambda>x. P x \<and> 0 < f x) xs))"
  for f :: "'a \<Rightarrow> rat"
proof (induction xs)
  case (Cons x xs)
  have "f x = 0" if "\<not> 0 < f x" using that Cons.prems[of x] by simp
  then show ?case using Cons.IH[OF Cons.prems] by simp
qed simp

lemma fallback_parts:
  assumes "ranging_ok rg" "hist_ok hist" "fst (protectedCommitted protected hist tot) = committed" "0 < (\<Sum>c \<in> fst ` set hist. floor_of hist c)"
  shows "computeFallbackCategories rg tot hist committed =
    sort_down sg_amount (floored rg hist protected @ shared rg (max 0 (tot - sum_list (map sg_amount (floored rg hist protected)))) hist protected)"
proof -
  let ?kept = "remdups (filter (\<lambda>c. floor_of hist c > 0) protected)"
  let ?names = "rg_names rg (map fst hist)"
  have com: "committed = map (\<lambda>c. (c, floor_of hist c)) ?kept" using assms(3) by (simp add: protectedCommitted_eq Let_def)
  then have keys: "map fst committed = ?kept" by (simp add: comp_def)
  have same: "set (rg_names rg ks) = set ks" for ks using assms(1) by (simp add: ranging_ok_def)
  have val: "the (map_of committed c) = floor_of hist c" if "c \<in> set (rg_names rg ?kept)" for c
    using that unfolding com same by (simp add: map_of_map_restrict)
  have r2: "round2 (floor_of hist c) = floor_of hist c" for c using floor_of_ok(2)[OF assms(2)] by (simp add: paise_def)
  have fl: "map (\<lambda>c. suggested c (round2 (the (map_of committed c))) (99/100)
      [round2 (the (map_of committed c)), round2 (the (map_of committed c))]) (rg_names rg (map fst committed)) = floored rg hist protected"
    unfolding floored_def keys using val r2 by (intro map_cong refl) auto
  have others: "filter (\<lambda>c. floor_of hist c > 0) (filter (\<lambda>c. c \<notin> set (map fst committed)) ?names) = sharers rg hist protected"
    unfolding sharers_def keys filter_filter by (intro filter_cong refl) auto
  have grand: "sum_list (map (floor_of hist) (filter (\<lambda>c. c \<notin> set (map fst committed)) ?names)) = sum_list (map (floor_of hist) (sharers rg hist protected))"
    unfolding others[symmetric] filter_filter by (subst sum_list_positive_part) (simp_all add: floor_of_ok[OF assms(2)] conj_commute)
  have pos: "0 < sum_list (map (floor_of hist) (sharers rg hist protected))" if "c \<in> set (sharers rg hist protected)" for c
  proof -
    have "0 < floor_of hist c" using that by (simp add: sharers_def)
    also have "\<dots> \<le> sum_list (map (floor_of hist) (sharers rg hist protected))"
      using that floor_of_ok(1)[OF assms(2)] by (intro member_le_sum_list) auto
    finally show ?thesis .
  qed
  have "hist \<noteq> []" "\<not> sum_list (map snd (map (\<lambda>(c, es). (c, spent_total es)) hist)) \<le> 0"
    using assms(2,4) totals_sum[of hist] by (auto simp: hist_ok_def)
  then show ?thesis
    unfolding computeFallbackCategories_def Let_def value_of_totals keys_totals fl others grand shared_def
    using pos by (auto intro!: arg_cong[of _ _ "sort_down sg_amount"])
qed

lemma floored_sum:
  assumes "ranging_ok rg" "hist_ok hist" "snd (protectedCommitted protected hist tot) = 0"
  shows "sum_list (map sg_amount (floored rg hist protected)) \<le> tot"
proof -
  let ?kept = "filter (\<lambda>c. floor_of hist c > 0) protected"
  have "distinct (rg_names rg (remdups ?kept))" "set (rg_names rg (remdups ?kept)) = set ?kept"
    using assms(1) by (simp_all add: ranging_ok_def)
  then have "sum_list (map sg_amount (floored rg hist protected)) = sum (floor_of hist) (set ?kept)"
    by (simp add: floored_def suggested_def comp_def sum_list_distinct_conv_sum_set)
  also have "\<dots> \<le> sum_list (map (floor_of hist) ?kept)" by (rule sum_set_le) (rule floor_of_ok(1)[OF assms(2)])
  also have "\<dots> \<le> tot" using assms(3) by (simp add: protectedCommitted_eq Let_def)
  finally show ?thesis .
qed

lemma shared_sum:
  assumes "hist_ok hist" "c \<in> set (sharers rg hist protected)"
  shows "\<bar>sum_list (map sg_amount (shared rg rest hist protected)) - rest\<bar> \<le> of_nat (length (shared rg rest hist protected)) / 200"
proof -
  let ?cs = "sharers rg hist protected"
  let ?g = "sum_list (map (floor_of hist) ?cs)"
  have "0 < floor_of hist c" using assms(2) by (simp add: sharers_def)
  also have "\<dots> \<le> ?g" using assms floor_of_ok(1)[OF assms(1)] by (intro member_le_sum_list) auto
  finally have "?g \<noteq> 0" by simp
  then have "sum_list (map (\<lambda>c. rest * (floor_of hist c / ?g)) ?cs) = rest"
    using sum_list_const_mult[of "rest / ?g" "floor_of hist" ?cs] by (simp add: field_simps)
  then show ?thesis using round2_sum[of "\<lambda>c. rest * (floor_of hist c / ?g)" ?cs]
    by (simp add: shared_def Let_def suggested_def comp_def)
qed


definition two_months :: cat_history where
  "two_months = [(''utilities'', [(1000, ''2026-04''), (1000, ''2026-05'')]), (''food_dining'', [(500, ''2026-05'')])]"


section \<open>Floors of bills\<close>

text \<open>
  Floors of bills: the floor of a protected category is the sum of all its months of history
  and is counted once for every bill naming the category. So \<open>k\<close> bills in a category that cost
  \<open>B\<close> in each of \<open>n\<close> months are answered, when the remote model is away, with the conflict
  \<open>scalable_floor_exceeded\<close> and an overage of \<open>k * n * B\<close> less the total asked for, although a month
  of the category costs \<open>B\<close>.
\<close>

theorem bills_conflict:
  assumes "map_of hist c = Some es" "length es = n" "\<And>x m. (x, m) \<in> set es \<Longrightarrow> x = B" "0 < B" "0 < n" "tot < of_nat k * of_nat n * B"
  shows "local_split rg tot (replicate k c) hist w = (Inr (Inl (RawDetails
    \<lparr>cf_type = ''scalable_floor_exceeded'', cf_problem = ''protected categories exceed the new total budget'',
     cf_overage = round2 (of_nat k * of_nat n * B - tot), cf_conflicts = replicate k c\<rparr>)), w)"
proof -
  have "map fst es = replicate n B" using assms(2,3) by (intro replicate_eqI) auto
  then have fl: "floor_of hist c = of_nat n * B" using assms(1) by (simp add: floor_of_def spent_total_def sum_list_replicate)
  moreover have "0 < of_nat n * B" using assms(4,5) by simp
  ultimately have "snd (protectedCommitted (replicate k c) hist tot) = of_nat k * of_nat n * B - tot"
    using assms(6) by (simp add: protectedCommitted_eq sum_list_replicate max_def mult.assoc)
  then show ?thesis using assms(6) by (cases "protectedCommitted (replicate k c) hist tot") (simp add: local_split_def ret_def)
qed

lemma bills_conflict_witness:
  "local_split as_listed 3999 [''utilities'', ''utilities''] two_months (budget_world empty_budget_db) = (Inr (Inl (RawDetails
    \<lparr>cf_type = ''scalable_floor_exceeded'', cf_problem = ''protected categories exceed the new total budget'',
     cf_overage = 1, cf_conflicts = [''utilities'', ''utilities'']\<rparr>)), budget_world empty_budget_db)"
proof -
  have r: "round2 (of_nat 2 * of_nat 2 * 1000 - 3999) = 1" by code_simp
  have "local_split as_listed 3999 (replicate 2 ''utilities'') two_months (budget_world empty_budget_db) = (Inr (Inl (RawDetails
    \<lparr>cf_type = ''scalable_floor_exceeded'', cf_problem = ''protected categories exceed the new total budget'',
     cf_overage = round2 (of_nat 2 * of_nat 2 * 1000 - 3999), cf_conflicts = replicate 2 ''utilities''\<rparr>)), budget_world empty_budget_db)"
    by (rule bills_conflict[where es = "[(1000, ''2026-04''), (1000, ''2026-05'')]"]) (auto simp: two_months_def)
  then show ?thesis unfolding r by (simp add: numeral_2_eq_2)
qed

end
