(* ===== verification/Stocks.thy ===== *)
theory Stocks
  imports Accounts Http
begin

text \<open>
  Shares and orders: the mock exchange of \<open>internal/provider/stocks/mock.go\<close> over the tables of
  migration 2, with the wire types of \<open>internal/domain/stocks/models.go\<close>, and the fund tables of
  migrations 3, 6, 11, 14, 16 and 21, which \<open>Funds\<close> works on. \<open>rnd seed\<close> is the first \<open>Float64\<close> of the
  generator \<open>rand.New(rand.NewSource(seed))\<close>, a number of \<open>[0, 1)\<close>. Columns no code reads back
  are left out; a value that does not fit its column is a constraint error.
\<close>

section \<open>Rows\<close>

record Holding =
  ho_isin :: string
  ho_symbol :: string
  ho_exchange :: string
  ho_product :: string
  ho_qty :: int
  ho_avg :: money
  ho_last :: money
  ho_close :: money
  ho_authorized :: "int option"

record holding_row = Holding +
  ho_user :: uuid

record Order =
  od_id :: string
  od_xid :: "string option"
  od_exchange :: string
  od_symbol :: string
  od_isin :: string
  od_txn :: string
  od_qty :: int
  od_product :: string
  od_type :: string
  od_price :: "money option"
  od_trigger :: "money option"
  od_disclosed :: int
  od_validity :: string
  od_status :: string
  od_msg :: "string option"
  od_filled :: int
  od_pending :: int
  od_cancelled :: int
  od_avg :: "money option"
  od_time :: int
  od_xtime :: "int option"

record order_row = Order +
  od_user :: uuid

record fund_row =
  fu_code :: string
  fu_amc :: string
  fu_name :: string
  fu_isin :: string
  fu_category :: string
  fu_nav :: rat
  fu_min :: money
  fu_min_sip :: money
  fu_risk :: string
  fu_nav_date :: int
  fu_expense :: rat
  fu_aum :: money
  fu_one_year :: "rat option"
  fu_three_years :: "rat option"
  fu_five_years :: "rat option"
  fu_manager :: "string option"
  fu_benchmark :: "string option"
  fu_launch :: "int option"
  fu_exit_pct :: rat
  fu_exit_days :: int
  fu_band :: "string option"

record folio_row =
  fo_id :: uuid
  fo_user :: uuid
  fo_number :: string
  fo_amc :: string
  fo_code :: string
  fo_name :: string
  fo_isin :: string
  fo_category :: string
  fo_plan :: string
  fo_sip :: bool
  fo_units :: rat
  fo_cost :: money
  fo_created :: int

record mf_txn_row =
  mt_folio :: uuid
  mt_type :: string
  mt_date :: int
  mt_amount :: money
  mt_units :: rat
  mt_price :: rat

record trade_db =
  holdings :: "holding_row list"
  orders :: "order_row list"
  catalog :: "fund_row list"
  folios :: "folio_row list"
  mf_txns :: "mf_txn_row list"

text \<open>What an INTEGER column and a NUMERIC(n,s) column hold.\<close>

definition int4_ok :: "int \<Rightarrow> bool" where
  "int4_ok i \<longleftrightarrow> - (2 ^ 31) \<le> i \<and> i < 2 ^ 31"

definition decimal_fits :: "nat \<Rightarrow> nat \<Rightarrow> rat \<Rightarrow> bool" where
  "decimal_fits n s x \<longleftrightarrow> \<bar>x\<bar> * 10 ^ s < 10 ^ n"

definition price_fits :: "money option \<Rightarrow> bool" where
  "price_fits x = (case x of None \<Rightarrow> True | Some p \<Rightarrow> decimal_fits 12 2 (round2 p))"

section \<open>Instruments and prices\<close>

record instrument =
  in_token :: string
  in_isin :: string
  in_exchange :: string
  in_base :: rat
  in_lot :: nat
  in_tick :: rat
  in_company :: string
  in_sector :: string

definition instruments :: "(string \<times> instrument) list" where
  "instruments = [
   (''RELIANCE'', \<lparr>in_token = ''738561'', in_isin = ''INE002A01018'', in_exchange = ''NSE'', in_base = 292140/100, in_lot = 1, in_tick = 5/100,
      in_company = ''Reliance Industries'', in_sector = ''Energy & Conglomerate''\<rparr>),
   (''TCS'', \<lparr>in_token = ''2953217'', in_isin = ''INE467B01029'', in_exchange = ''NSE'', in_base = 415230/100, in_lot = 1, in_tick = 5/100,
      in_company = ''Tata Consultancy Services'', in_sector = ''Information Technology''\<rparr>),
   (''INFY'', \<lparr>in_token = ''408065'', in_isin = ''INE009A01021'', in_exchange = ''NSE'', in_base = 187690/100, in_lot = 1, in_tick = 5/100,
      in_company = ''Infosys'', in_sector = ''Information Technology''\<rparr>),
   (''HDFCBANK'', \<lparr>in_token = ''341249'', in_isin = ''INE040A01034'', in_exchange = ''NSE'', in_base = 168955/100, in_lot = 1, in_tick = 5/100,
      in_company = ''HDFC Bank'', in_sector = ''Financial Services''\<rparr>),
   (''ICICIBANK'', \<lparr>in_token = ''1270529'', in_isin = ''INE090A01021'', in_exchange = ''NSE'', in_base = 123475/100, in_lot = 1, in_tick = 5/100,
      in_company = ''ICICI Bank'', in_sector = ''Financial Services''\<rparr>),
   (''TATAMOTORS'', \<lparr>in_token = ''884737'', in_isin = ''INE155A01022'', in_exchange = ''NSE'', in_base = 96720/100, in_lot = 1, in_tick = 5/100,
      in_company = ''Tata Motors'', in_sector = ''Automobiles''\<rparr>),
   (''MAZDOCK'', \<lparr>in_token = ''533280'', in_isin = ''INE249Z01012'', in_exchange = ''NSE'', in_base = 230500/100, in_lot = 1, in_tick = 5/100,
      in_company = ''Mazagon Dock Shipbuilders'', in_sector = ''Defence & Shipbuilding''\<rparr>),
   (''COCHINSHIP'', \<lparr>in_token = ''540678'', in_isin = ''INE704P01017'', in_exchange = ''NSE'', in_base = 148000/100, in_lot = 1, in_tick = 5/100,
      in_company = ''Cochin Shipyard'', in_sector = ''Defence & Shipbuilding''\<rparr>),
   (''MSTCLTD'', \<lparr>in_token = ''542597'', in_isin = ''INE255X01014'', in_exchange = ''NSE'', in_base = 73000/100, in_lot = 1, in_tick = 5/100,
      in_company = ''MSTC Limited'', in_sector = ''Trading & Government Services''\<rparr>)]"

definition lookupInstrument :: "string \<Rightarrow> instrument option" where
  "lookupInstrument symbol = map_of instruments (to_upper symbol)"

text \<open>\<open>int64(h.Sum64()) + bucket\<close>, with the wrap-around of int64.\<close>

definition price_seed :: "string \<Rightarrow> int \<Rightarrow> int" where
  "price_seed symbol bucket = sint (fnv64a symbol + word_of_int bucket :: 64 word)"

definition livePrice :: "(int \<Rightarrow> rat) \<Rightarrow> rat \<Rightarrow> string \<Rightarrow> int \<Rightarrow> money" where
  "livePrice rnd base symbol now =
     (let pctMove = (rnd (price_seed symbol (now div 1000000000 div 30)) - 1/2) * (1/100) in round2 (base * (1 + pctMove)))"

definition newOrderID :: "(trade_db, string) act" where
  "newOrderID = bind later (\<lambda>t. ret (itoa t))"

section \<open>Quotes and profiles\<close>

record Quote =
  qt_token :: string
  qt_exchange :: string
  qt_symbol :: string
  qt_isin :: string
  qt_last :: money
  qt_open :: money
  qt_high :: money
  qt_low :: money
  qt_close :: rat
  qt_volume :: nat
  qt_lot :: nat
  qt_tick :: rat
  qt_time :: int

definition quote_of :: "(int \<Rightarrow> rat) \<Rightarrow> instrument \<Rightarrow> string \<Rightarrow> int \<Rightarrow> Quote" where
  "quote_of rnd inst symbol now =
     (let lastPrice = livePrice rnd (in_base inst) symbol now; openPrice = round2 (in_base inst * (995/1000))
      in \<lparr>qt_token = in_token inst, qt_exchange = in_exchange inst, qt_symbol = to_upper symbol, qt_isin = in_isin inst,
          qt_last = lastPrice, qt_open = openPrice, qt_high = round2 (max lastPrice openPrice * (1004/1000)), qt_low = round2 (min lastPrice openPrice * (996/1000)),
          qt_close = in_base inst, qt_volume = 1000000 + unat (fnv64a symbol) mod 3000000, qt_lot = in_lot inst,
          qt_tick = in_tick inst, qt_time = now\<rparr>)"

definition GetQuote :: "(int \<Rightarrow> rat) \<Rightarrow> string \<Rightarrow> string \<Rightarrow> (trade_db, Quote) act" where
  "GetQuote rnd exchange symbol = (case lookupInstrument symbol of
       None \<Rightarrow> fail (Wrap (''instrument '' @ symbol @ '' not found'') (Sent ErrNotFound))
     | Some inst \<Rightarrow>
         if exchange \<noteq> [] \<and> \<not> equal_fold exchange (in_exchange inst)
         then fail (Wrap (''instrument '' @ symbol @ '' is not listed on '' @ exchange) (Sent ErrNotFound))
         else bind time_now (\<lambda>now. ret (quote_of rnd inst symbol now)))"

text \<open>The texts of a sector; the company's name goes in front of \<open>se_text\<close>.\<close>

record sectorProfile =
  se_text :: string
  se_primary :: string
  se_secondary :: string
  se_strengths :: "string list"
  se_tradeoffs :: "string list"
  se_why :: "string list"
  se_suitable :: "string list"
  se_avoid :: "string list"
  se_impact :: string

definition sectorProfiles :: "(string \<times> sectorProfile) list" where
  "sectorProfiles = [
   (''Financial Services'', \<lparr>se_text = '' is a leading financial institution offering retail banking, corporate banking, and wealth management services, with a large branch and digital footprint across India.'',
      se_primary = ''Core Portfolio Builder'', se_secondary = ''Dividend Yield'',
      se_strengths = [''Large, sticky deposit base'', ''Strong capital adequacy'', ''Diversified loan book''],
      se_tradeoffs = [''Sensitive to interest rate cycles'', ''Regulatory and asset-quality risk''],
      se_why = [''Provides stability to your equity allocation'', ''Consistent compounder in the financial sector''],
      se_suitable = [''Long-term wealth creation'', ''Core holding in large-cap financials''],
      se_avoid = [''You already have heavy exposure to banking stocks''],
      se_impact = ''Adding this stock increases exposure to India's financial sector, a core driver of the broader economy.''\<rparr>),
   (''Information Technology'', \<lparr>se_text = '' is a major IT services company providing consulting, digital transformation, and outsourcing services to global enterprise clients.'',
      se_primary = ''Growth & Export Play'', se_secondary = ''Dollar Revenue Hedge'',
      se_strengths = [''High-margin, asset-light business'', ''Strong dollar-denominated revenue'', ''Large deal pipeline''],
      se_tradeoffs = [''Sensitive to US/Europe IT spending cycles'', ''Currency and visa-policy risk''],
      se_why = [''Adds export-oriented, dollar-earning exposure to your portfolio'', ''Historically resilient margins across cycles''],
      se_suitable = [''Diversifying away from domestic-only businesses'', ''Long-term growth allocation''],
      se_avoid = [''You need short-term stability during a global tech slowdown''],
      se_impact = ''Adding this stock increases your portfolio's exposure to global IT services demand.''\<rparr>),
   (''Energy & Conglomerate'', \<lparr>se_text = '' is a diversified conglomerate with interests spanning energy, retail, and digital services, among India's largest companies by market capitalization.'',
      se_primary = ''Core Portfolio Builder'', se_secondary = ''Diversification Anchor'',
      se_strengths = [''Diversified revenue across sectors'', ''Scale advantages'', ''Strong balance sheet''],
      se_tradeoffs = [''Complex conglomerate structure'', ''Capital-intensive expansion plans''],
      se_why = [''Gives broad exposure across energy, retail and digital in a single stock'', ''Large-cap stability with growth optionality''],
      se_suitable = [''Core, long-term large-cap holding'', ''Investors wanting diversified sector exposure''],
      se_avoid = [''You want a pure-play bet on a single sector''],
      se_impact = ''Adding this stock increases diversification across energy, retail, and digital businesses.''\<rparr>),
   (''Automobiles'', \<lparr>se_text = '' designs and manufactures commercial and passenger vehicles, with a growing footprint in electric mobility.'',
      se_primary = ''Cyclical Growth Play'', se_secondary = ''EV Transition Exposure'',
      se_strengths = [''Strong domestic market share'', ''Growing EV portfolio'', ''Improving margins''],
      se_tradeoffs = [''Cyclical demand tied to the broader economy'', ''Input cost (commodity) sensitivity''],
      se_why = [''Adds exposure to India's auto and EV transition story'', ''Benefits from rising discretionary spending''],
      se_suitable = [''Cyclical/growth allocation'', ''Investors betting on EV adoption''],
      se_avoid = [''You are looking for a defensive, low-volatility holding''],
      se_impact = ''Adding this stock increases your portfolio's exposure to the automobile and EV transition cycle.''\<rparr>),
   (''Defence & Shipbuilding'', \<lparr>se_text = '' is a defence-sector shipbuilder engaged in the construction and repair of naval vessels and commercial ships, benefiting from India's defence indigenization push.'',
      se_primary = ''Thematic Growth Play'', se_secondary = ''Order-Book Visibility'',
      se_strengths = [''Strong order book from government contracts'', ''Beneficiary of defence indigenization policy'', ''High entry barriers''],
      se_tradeoffs = [''Revenue concentrated in government contracts'', ''Execution and project-timeline risk''],
      se_why = [''Gives thematic exposure to India's defence and shipbuilding push'', ''Long revenue visibility from order backlogs''],
      se_suitable = [''Thematic/satellite allocation'', ''Investors bullish on defence indigenization''],
      se_avoid = [''You want low government-policy-dependency in your holdings''],
      se_impact = ''Adding this stock increases your portfolio's exposure to the defence and shipbuilding theme.''\<rparr>),
   (''Trading & Government Services'', \<lparr>se_text = '' operates as a government-linked trading and e-commerce services company, facilitating auctions and trade of metal scrap, e-waste, and other commodities.'',
      se_primary = ''Satellite / Tactical Holding'', se_secondary = ''Government-Policy Beneficiary'',
      se_strengths = [''Government-backed business model'', ''Low capital intensity'', ''Niche market position''],
      se_tradeoffs = [''Revenue tied to commodity/scrap trading cycles'', ''Limited pricing power''],
      se_why = [''Adds a niche, government-linked trading business to your portfolio'', ''Low capital-intensity model''],
      se_suitable = [''Small satellite allocation'', ''Investors seeking niche PSU exposure''],
      se_avoid = [''You want a core, high-conviction long-term holding''],
      se_impact = ''Adding this stock adds a niche, government-linked trading exposure to your portfolio.''\<rparr>)]"

text \<open>For a sector without a profile of its own.\<close>

definition defaultSectorProfile :: sectorProfile where
  "defaultSectorProfile = \<lparr>se_text = '' is a publicly listed company on the Indian stock exchanges.'',
    se_primary = ''Satellite Holding'', se_secondary = ''Diversification'',
    se_strengths = [''Listed on a major exchange'', ''Part of a diversified portfolio''],
    se_tradeoffs = [''Limited company-specific data available''],
    se_why = [''Adds diversification to your equity holdings''],
    se_suitable = [''Diversified equity allocation''],
    se_avoid = [''You prefer only well-covered, large-cap names''],
    se_impact = ''Adding this stock changes your sector diversification.''\<rparr>"

record Fundamentals =
  fm_cap :: money
  fm_pe :: rat
  fm_pb :: rat
  fm_yield :: rat
  fm_roe :: rat
  fm_high :: money
  fm_low :: money

record Shareholding =
  sh_promoter :: rat
  sh_fii :: rat
  sh_dii :: rat
  sh_public :: rat

record StockProfile =
  sf_quote :: Quote
  sf_company :: string
  sf_sector :: string
  sf_text :: string
  sf_points :: "(int \<times> rat) list"
  sf_fundamentals :: Fundamentals
  sf_shares :: Shareholding
  sf_profile :: sectorProfile
  sf_now_text :: string
  sf_more_text :: string

text \<open>Bits of the hash from \<open>offset\<close> on, modulo \<open>m\<close>.\<close>

definition seed_part :: "64 word \<Rightarrow> nat \<Rightarrow> nat \<Rightarrow> nat" where
  "seed_part seed offset m = unat (drop_bit offset seed) mod m"

definition share_pct :: "64 word \<Rightarrow> nat \<Rightarrow> rat \<Rightarrow> rat \<Rightarrow> rat" where
  "share_pct seed offset base spread = round2 (base + of_nat (seed_part seed offset 1000) / 1000 * spread)"

definition shareholding :: "64 word \<Rightarrow> Shareholding" where
  "shareholding seed =
     (let promoter = share_pct seed 0 35 30; fii = share_pct seed 8 8 20; dii = share_pct seed 16 8 18
      in \<lparr>sh_promoter = promoter, sh_fii = fii, sh_dii = dii, sh_public = round2 (max 0 (100 - promoter - fii - dii))\<rparr>)"

definition fundamentals :: "instrument \<Rightarrow> money \<Rightarrow> 64 word \<Rightarrow> Fundamentals" where
  "fundamentals inst lastPrice seed =
     \<lparr>fm_cap = round2 (of_nat (in_lot inst) * lastPrice * of_nat (500000 + seed_part seed 0 4500000)),
      fm_pe = round2 (10 + of_nat (seed_part seed 24 2500) / 100), fm_pb = round2 (1 + of_nat (seed_part seed 32 400) / 100),
      fm_yield = round2 (of_nat (seed_part seed 40 400) / 100), fm_roe = round2 (8 + of_nat (seed_part seed 48 2200) / 100),
      fm_high = round2 (lastPrice * (12/10)), fm_low = round2 (lastPrice * (8/10))\<rparr>"

text \<open>181 daily points, the oldest first.\<close>

definition chart_points :: "money \<Rightarrow> int \<Rightarrow> (int \<times> rat) list" where
  "chart_points base now = map (\<lambda>i. (now div 1000000000 - int i * 86400, base * (1 + (180 - of_nat i - 90) / 1000))) (rev [0..<181])"

definition GetProfile :: "(int \<Rightarrow> rat) \<Rightarrow> string \<Rightarrow> string \<Rightarrow> (trade_db, StockProfile) act" where
  "GetProfile rnd exchange symbol = bind (GetQuote rnd exchange symbol) (\<lambda>quote. case lookupInstrument symbol of
       None \<Rightarrow> fail (Sent ErrInternal)
     | Some inst \<Rightarrow> bind time_now (\<lambda>now.
         let company = (if in_company inst = [] then qt_symbol quote @ '' Limited'' else in_company inst);
             sector = (if in_sector inst = [] then ''Diversified'' else in_sector inst);
             sp = (case map_of sectorProfiles sector of Some p \<Rightarrow> p | None \<Rightarrow> defaultSectorProfile);
             seed = fnv64a (to_upper symbol)
         in ret \<lparr>sf_quote = quote, sf_company = company, sf_sector = sector, sf_text = company @ se_text sp,
              sf_points = chart_points (qt_last quote) now, sf_fundamentals = fundamentals inst (qt_last quote) seed,
              sf_shares = shareholding seed, sf_profile = sp,
              sf_now_text = ''It currently provides '' @ to_lower sector @ '' exposure within the '' @ sector @
                '' sector, based on its role as a '' @ to_lower (se_primary sp) @ ''.'',
              sf_more_text = ''Buying more will increase your concentration in '' @ sector @ '', taking your sector exposure higher.''\<rparr>))"

section \<open>Orders\<close>

record OrderRequest =
  oq_exchange :: string
  oq_symbol :: string
  oq_txn :: string
  oq_qty :: int
  oq_product :: string
  oq_type :: string
  oq_price :: "money option"
  oq_trigger :: "money option"
  oq_disclosed :: int
  oq_validity :: string

definition not_positive :: "money option \<Rightarrow> bool" where
  "not_positive x = (case x of None \<Rightarrow> True | Some p \<Rightarrow> p \<le> 0)"

definition validateOrderRequest :: "OrderRequest \<Rightarrow> goerr option" where
  "validateOrderRequest req =
     (let bad = (\<lambda>msg. Some (Wrap msg (Sent ErrValidation))) in
      if oq_exchange req = [] \<or> oq_symbol req = [] then bad ''exchange and trading_symbol are required''
      else if oq_txn req \<noteq> ''BUY'' \<and> oq_txn req \<noteq> ''SELL'' then bad ''transaction_type must be BUY or SELL''
      else if oq_qty req \<le> 0 then bad ''quantity must be positive''
      else if oq_product req = [] then bad ''product is required''
      else if oq_type req = ''MARKET'' then None
      else if oq_type req = ''LIMIT'' then
        (if not_positive (oq_price req) then bad ''price is required for LIMIT orders'' else None)
      else if oq_type req = ''SL'' then
        (if not_positive (oq_price req) \<or> not_positive (oq_trigger req) then bad ''price and trigger_price are required for SL orders'' else None)
      else if oq_type req = ''SL-M'' then
        (if not_positive (oq_trigger req) then bad ''trigger_price is required for SL-M orders'' else None)
      else bad ''order_type must be one of MARKET, LIMIT, SL, SL-M'')"

text \<open>The price an order fills at now, if it does. A LIMIT order without a price is not valid.\<close>

definition decideFill :: "Order \<Rightarrow> money \<Rightarrow> money option" where
  "decideFill ord quote =
     (if od_type ord = ''MARKET'' then Some quote
      else if od_type ord = ''LIMIT'' then (case od_price ord of None \<Rightarrow> None
        | Some limit \<Rightarrow> if od_txn ord = ''BUY'' \<and> quote \<le> limit \<or> od_txn ord = ''SELL'' \<and> quote \<ge> limit then Some quote else None)
      else None)"

definition held_by :: "uuid \<Rightarrow> string \<Rightarrow> string \<Rightarrow> holding_row \<Rightarrow> bool" where
  "held_by userID isin product h \<longleftrightarrow> ho_user h = userID \<and> ho_isin h = isin \<and> ho_product h = product"

definition update_holdings :: "(holding_row \<Rightarrow> bool) \<Rightarrow> (holding_row \<Rightarrow> holding_row) \<Rightarrow> trade_db \<Rightarrow> trade_db" where
  "update_holdings p f d = d\<lparr>holdings := update_where p f (holdings d)\<rparr>"

definition sell_holding :: "uuid \<Rightarrow> instrument \<Rightarrow> Order \<Rightarrow> (trade_db, unit) act" where
  "sell_holding userID inst ord =
     bind (attempt (query_row (\<lambda>_ d. map_option ho_qty (first_row (filter (held_by userID (in_isin inst) (od_product ord)) (holdings d)))))) (\<lambda>r.
     case r of
       Inl e \<Rightarrow> if errors_is e ErrNoRows then fail (Wrap (''no holding to sell for '' @ od_symbol ord) (Sent ErrValidation))
                else fail (Wrap ''lock holding for sell'' e)
     | Inr heldQty \<Rightarrow>
         if heldQty < od_qty ord
         then fail (Wrap (''insufficient holding quantity for '' @ od_symbol ord @ '': have '' @ itoa heldQty @ '', requested '' @ itoa (od_qty ord))
                (Sent ErrValidation))
         else wrapping ''update holding on sell'' (exec_upd (\<lambda>_ d.
                update_holdings (held_by userID (in_isin inst) (od_product ord)) (\<lambda>h. h\<lparr>ho_qty := ho_qty h - od_qty ord\<rparr>) d)))"

text \<open>The average of what was held and what is bought; \<open>NULLIF\<close> makes it null when nothing is held after.\<close>

definition bought :: "int \<Rightarrow> money \<Rightarrow> holding_row \<Rightarrow> holding_row" where
  "bought qty price h = h\<lparr>ho_avg := round2 ((of_int (ho_qty h) * ho_avg h + of_int qty * price) / of_int (ho_qty h + qty)),
     ho_qty := ho_qty h + qty, ho_last := price\<rparr>"

definition bought_ok :: "int \<Rightarrow> money \<Rightarrow> holding_row \<Rightarrow> bool" where
  "bought_ok qty price h \<longleftrightarrow> ho_qty h + qty \<noteq> 0 \<and> int4_ok (ho_qty h + qty) \<and> decimal_fits 12 2 (ho_avg (bought qty price h))"

definition new_holding :: "uuid \<Rightarrow> instrument \<Rightarrow> Order \<Rightarrow> money \<Rightarrow> holding_row" where
  "new_holding userID inst ord price = \<lparr>ho_isin = in_isin inst, ho_symbol = od_symbol ord, ho_exchange = in_exchange inst,
     ho_product = od_product ord, ho_qty = od_qty ord, ho_avg = price, ho_last = price, ho_close = price, ho_authorized = None,
     ho_user = userID\<rparr>"

definition buy_holding :: "uuid \<Rightarrow> instrument \<Rightarrow> Order \<Rightarrow> money \<Rightarrow> (trade_db, unit) act" where
  "buy_holding userID inst ord price = wrapping ''upsert holding on buy'' (exec (\<lambda>_ d.
     let mine = filter (held_by userID (in_isin inst) (od_product ord)) (holdings d) in
     if \<not> int4_ok (od_qty ord) \<or> length (od_product ord) > 10 \<or> \<not> decimal_fits 12 2 price \<or> list_ex (\<lambda>h. \<not> bought_ok (od_qty ord) price h) mine
     then Inl (Sent ErrConstraint)
     else if mine \<noteq> [] then Inr ((), update_holdings (held_by userID (in_isin inst) (od_product ord)) (bought (od_qty ord) price) d)
     else Inr ((), d\<lparr>holdings := holdings d @ [new_holding userID inst ord price]\<rparr>)))"

definition filled :: "money \<Rightarrow> int \<Rightarrow> Order \<Rightarrow> Order" where
  "filled price now ord = ord\<lparr>od_status := ''COMPLETE'', od_filled := od_qty ord, od_pending := 0, od_avg := Some price,
     od_xtime := Some now, od_xid := Some (''EXC-'' @ od_id ord)\<rparr>"

text \<open>The order as it is after a fill, or as it was.\<close>

definition attemptFill :: "uuid \<Rightarrow> instrument \<Rightarrow> money \<Rightarrow> Order \<Rightarrow> (trade_db, Order) act" where
  "attemptFill userID inst quote ord = (case decideFill ord quote of
       None \<Rightarrow> ret ord
     | Some price \<Rightarrow>
         bind (if od_txn ord = ''SELL'' then sell_holding userID inst ord else buy_holding userID inst ord price) (\<lambda>_.
         bind time_now (\<lambda>now. ret (filled price now ord))))"

section \<open>The order table\<close>

definition order_view :: "order_row \<Rightarrow> Order" where
  "order_view r = Order.truncate r"

definition own_order :: "uuid \<Rightarrow> string \<Rightarrow> order_row \<Rightarrow> bool" where
  "own_order userID orderID r \<longleftrightarrow> od_id r = orderID \<and> od_user r = userID"

text \<open>What the columns hold of an order: prices are rounded.\<close>

definition stored :: "Order \<Rightarrow> Order" where
  "stored ord = ord\<lparr>od_price := map_option round2 (od_price ord), od_trigger := map_option round2 (od_trigger ord),
     od_avg := map_option round2 (od_avg ord)\<rparr>"

text \<open>The columns INSERT and UPDATE both write.\<close>

definition updates_fit :: "Order \<Rightarrow> bool" where
  "updates_fit ord \<longleftrightarrow> (case od_xid ord of None \<Rightarrow> True | Some x \<Rightarrow> length x \<le> 20) \<and> int4_ok (od_qty ord) \<and>
     length (od_type ord) \<le> 10 \<and> price_fits (od_price ord) \<and> price_fits (od_trigger ord) \<and> length (od_validity ord) \<le> 5 \<and>
     length (od_status ord) \<le> 15 \<and> int4_ok (od_filled ord) \<and> int4_ok (od_pending ord) \<and> int4_ok (od_cancelled ord) \<and>
     price_fits (od_avg ord)"

definition order_fits :: "Order \<Rightarrow> bool" where
  "order_fits ord \<longleftrightarrow> updates_fit ord \<and> length (od_id ord) \<le> 20 \<and> length (od_exchange ord) \<le> 4 \<and> length (od_symbol ord) \<le> 20 \<and>
     length (od_isin ord) \<le> 12 \<and> length (od_txn ord) \<le> 4 \<and> length (od_product ord) \<le> 10 \<and> int4_ok (od_disclosed ord)"

definition insertOrder :: "uuid \<Rightarrow> Order \<Rightarrow> (trade_db, unit) act" where
  "insertOrder userID ord = wrapping ''insert order'' (exec_check
     (\<lambda>_ d. order_fits ord \<and> od_id ord \<notin> od_id ` set (orders d))
     (\<lambda>_ d. d\<lparr>orders := orders d @ [Order.extend (stored ord) \<lparr>od_user = userID\<rparr>]\<rparr>))"

definition rewritten :: "Order \<Rightarrow> order_row \<Rightarrow> order_row" where
  "rewritten ord r = r\<lparr>od_xid := od_xid ord, od_qty := od_qty ord, od_type := od_type ord, od_price := map_option round2 (od_price ord),
     od_trigger := map_option round2 (od_trigger ord), od_validity := od_validity ord, od_status := od_status ord,
     od_filled := od_filled ord, od_pending := od_pending ord, od_cancelled := od_cancelled ord,
     od_avg := map_option round2 (od_avg ord), od_xtime := od_xtime ord\<rparr>"

definition updateOrder :: "uuid \<Rightarrow> Order \<Rightarrow> (trade_db, unit) act" where
  "updateOrder userID ord = wrapping ''update order'' (exec_check
     (\<lambda>_ d. list_ex (own_order userID (od_id ord)) (orders d) \<longrightarrow> updates_fit ord)
     (\<lambda>_ d. d\<lparr>orders := update_where (own_order userID (od_id ord)) (rewritten ord) (orders d)\<rparr>))"

definition loadOrder :: "uuid \<Rightarrow> string \<Rightarrow> (trade_db, Order) act" where
  "loadOrder userID orderID =
     bind (attempt (wrapping ''scan order'' (query_row (\<lambda>_ d. map_option order_view (first_row (filter (own_order userID orderID) (orders d))))))) (\<lambda>r.
     case r of Inl e \<Rightarrow> if errors_is e ErrNoRows then fail (Wrap (''order '' @ orderID @ '' not found'') (Sent ErrNotFound)) else fail e
     | Inr ord \<Rightarrow> ret ord)"

section \<open>Operations\<close>

text \<open>\<open>coll\<close>: the place of a text in the collation order of the database.\<close>

definition GetHoldings :: "(string \<Rightarrow> int) \<Rightarrow> uuid \<Rightarrow> (trade_db, Holding list) act" where
  "GetHoldings coll userID = wrapping ''query holdings'' (query (\<lambda>_ d.
     map Holding.truncate (sort_key (\<lambda>h. coll (ho_symbol h)) (filter (\<lambda>h. ho_user h = userID \<and> ho_qty h > 0) (holdings d)))))"

definition placed :: "string \<Rightarrow> instrument \<Rightarrow> OrderRequest \<Rightarrow> int \<Rightarrow> Order" where
  "placed oid inst req now = \<lparr>od_id = oid, od_xid = None, od_exchange = in_exchange inst, od_symbol = to_upper (oq_symbol req),
     od_isin = in_isin inst, od_txn = oq_txn req, od_qty = oq_qty req, od_product = oq_product req, od_type = oq_type req,
     od_price = oq_price req, od_trigger = oq_trigger req, od_disclosed = oq_disclosed req,
     od_validity = (if oq_validity req = [] then ''DAY'' else oq_validity req), od_status = ''OPEN'', od_msg = None, od_filled = 0,
     od_pending = oq_qty req, od_cancelled = 0, od_avg = None, od_time = now, od_xtime = None\<rparr>"

text \<open>The quote is asked for under the symbol as it was typed.\<close>

definition PlaceOrder :: "(int \<Rightarrow> rat) \<Rightarrow> uuid \<Rightarrow> OrderRequest \<Rightarrow> (trade_db, Order) act" where
  "PlaceOrder rnd userID req = (case validateOrderRequest req of Some e \<Rightarrow> fail e | None \<Rightarrow>
     (case lookupInstrument (oq_symbol req) of
       None \<Rightarrow> fail (Wrap (''instrument '' @ oq_symbol req @ '' not found'') (Sent ErrNotFound))
     | Some inst \<Rightarrow> tx (Wrap ''begin place order tx'') (\<lambda>_. Wrap ''commit place order'')
         (bind newOrderID (\<lambda>oid. bind time_now (\<lambda>now.
          bind (attemptFill userID inst (livePrice rnd (in_base inst) (oq_symbol req) now) (placed oid inst req now)) (\<lambda>ord.
          bind (insertOrder userID ord) (\<lambda>_. ret ord)))))))"

definition modified :: "OrderRequest \<Rightarrow> Order \<Rightarrow> Order" where
  "modified req ord = ord\<lparr>od_qty := (if oq_qty req > 0 then oq_qty req else od_qty ord),
     od_pending := (if oq_qty req > 0 then oq_qty req else od_pending ord),
     od_type := (if oq_type req \<noteq> [] then oq_type req else od_type ord),
     od_price := (if oq_price req \<noteq> None then oq_price req else od_price ord),
     od_trigger := (if oq_trigger req \<noteq> None then oq_trigger req else od_trigger ord),
     od_validity := (if oq_validity req \<noteq> [] then oq_validity req else od_validity ord)\<rparr>"

definition merged :: "Order \<Rightarrow> OrderRequest" where
  "merged ord = \<lparr>oq_exchange = od_exchange ord, oq_symbol = od_symbol ord, oq_txn = od_txn ord, oq_qty = od_qty ord,
     oq_product = od_product ord, oq_type = od_type ord, oq_price = od_price ord, oq_trigger = od_trigger ord, oq_disclosed = 0,
     oq_validity = []\<rparr>"

definition ModifyOrder :: "(int \<Rightarrow> rat) \<Rightarrow> uuid \<Rightarrow> string \<Rightarrow> OrderRequest \<Rightarrow> (trade_db, Order) act" where
  "ModifyOrder rnd userID orderID req = tx (Wrap ''begin modify order tx'') (\<lambda>_. Wrap ''commit modify order'')
     (bind (loadOrder userID orderID) (\<lambda>ord0.
      if od_status ord0 \<noteq> ''OPEN''
      then fail (Wrap (''order '' @ orderID @ '' is '' @ od_status ord0 @ '' and cannot be modified'') (Sent ErrConflict))
      else (case lookupInstrument (od_symbol ord0) of
        None \<Rightarrow> fail (Wrap (''instrument '' @ od_symbol ord0 @ '' no longer tradable'') (Sent ErrInternal))
      | Some inst \<Rightarrow>
          let ord = modified req ord0 in
          (case validateOrderRequest (merged ord) of Some e \<Rightarrow> fail e | None \<Rightarrow>
           bind time_now (\<lambda>now.
           bind (attemptFill userID inst (livePrice rnd (in_base inst) (od_symbol ord) now) ord) (\<lambda>ord1.
           bind (updateOrder userID ord1) (\<lambda>_. ret ord1)))))))"

definition CancelOrder :: "uuid \<Rightarrow> string \<Rightarrow> (trade_db, Order) act" where
  "CancelOrder userID orderID = tx (Wrap ''begin cancel order tx'') (\<lambda>_. Wrap ''commit cancel order'')
     (bind (loadOrder userID orderID) (\<lambda>ord.
      if od_status ord \<noteq> ''OPEN''
      then fail (Wrap (''order '' @ orderID @ '' is '' @ od_status ord @ '' and cannot be cancelled'') (Sent ErrConflict))
      else let ord1 = ord\<lparr>od_status := ''CANCELLED'', od_cancelled := od_pending ord, od_pending := 0\<rparr> in
        bind (updateOrder userID ord1) (\<lambda>_. ret ord1)))"

definition GetOrder :: "uuid \<Rightarrow> string \<Rightarrow> (trade_db, Order) act" where
  "GetOrder userID orderID = loadOrder userID orderID"

definition ListOrders :: "uuid \<Rightarrow> string \<Rightarrow> (trade_db, Order list) act" where
  "ListOrders userID statusFilter = wrapping ''list orders'' (query (\<lambda>_ d.
     map order_view (order_desc od_time (filter (\<lambda>r. od_user r = userID \<and> (statusFilter = [] \<or> od_status r = statusFilter)) (orders d)))))"

end
