(* ===== verification/Funds.thy ===== *)
theory Funds
  imports Stocks Deposits
begin

text \<open>
  Mutual funds: the folios of \<open>internal/provider/mf/mock.go\<close>. Units, prices and amounts are exact
  rationals; an annualised return is a real. A fund's price is positive (no purchase divides by
  zero); the unique key of migration 11 makes a folio of a user and a scheme one row.
\<close>

section \<open>Prices\<close>

definition round4 :: "rat \<Rightarrow> rat" where
  "round4 v = of_int (round_away (v * 10000)) / 10000"

text \<open>What a NUMERIC(n,3) column keeps of a number of units.\<close>

definition round3 :: "rat \<Rightarrow> rat" where
  "round3 v = of_int (round_away (v * 1000)) / 1000"

definition navOnDate :: "(int \<Rightarrow> rat) \<Rightarrow> string \<Rightarrow> rat \<Rightarrow> int \<Rightarrow> rat" where
  "navOnDate rnd schemeCode baseNAV t =
     (let pctMove = (rnd (price_seed schemeCode (day_of t)) - 1/2) * (2/100) in round4 (baseNAV * (1 + pctMove)))"

section \<open>Holdings\<close>

record Folio =
  fl_number :: string
  fl_amc :: string
  fl_code :: string
  fl_name :: string
  fl_isin :: string
  fl_category :: string
  fl_plan :: string
  fl_sip :: bool
  fl_units :: rat
  fl_nav :: rat
  fl_nav_date :: int
  fl_invested :: money
  fl_current :: money
  fl_returns :: money
  fl_returns_pct :: rat
  fl_day :: money
  fl_day_pct :: rat
  fl_xirr :: real
  fl_since :: int

text \<open>\<open>((current/invested)^(365/daysHeld) - 1) * 100\<close>, for at least a day.\<close>

definition approxAnnualizedReturnPct :: "money \<Rightarrow> money \<Rightarrow> int \<Rightarrow> int \<Rightarrow> real" where
  "approxAnnualizedReturnPct invested current since_t now =
     (let daysHeld = real_of_int (now - since_t) / real_of_int day_ns in
      if invested \<le> 0 \<or> current \<le> 0 \<or> daysHeld < 1 then 0
      else round2r ((of_rat (current / invested) powr (365 / daysHeld) - 1) * 100))"

definition computeFolio :: "(int \<Rightarrow> rat) \<Rightarrow> folio_row \<Rightarrow> rat \<Rightarrow> int \<Rightarrow> Folio" where
  "computeFolio rnd fr baseNAV now =
     (let todayNAV = navOnDate rnd (fo_code fr) baseNAV now;
          yesterdayNAV = navOnDate rnd (fo_code fr) baseNAV (AddDate 0 0 (-1) now);
          currentValue = round2 (fo_units fr * todayNAV);
          yesterdayValue = round2 (fo_units fr * yesterdayNAV);
          invested = round2 (fo_cost fr);
          day = round2 (currentValue - yesterdayValue);
          returns = round2 (currentValue - invested)
      in \<lparr>fl_number = fo_number fr, fl_amc = fo_amc fr, fl_code = fo_code fr, fl_name = fo_name fr, fl_isin = fo_isin fr,
          fl_category = fo_category fr, fl_plan = fo_plan fr, fl_sip = fo_sip fr, fl_units = fo_units fr, fl_nav = todayNAV,
          fl_nav_date = now, fl_invested = invested, fl_current = currentValue, fl_returns = returns,
          fl_returns_pct = (if invested > 0 then round2 (returns / invested * 100) else 0), fl_day = day,
          fl_day_pct = (if yesterdayValue > 0 then round2 (day / yesterdayValue * 100) else 0),
          fl_xirr = approxAnnualizedReturnPct invested currentValue (fo_created fr) now, fl_since = fo_created fr\<rparr>)"

record HoldingsSummary =
  hs_invested :: money
  hs_current :: money
  hs_returns :: money
  hs_returns_pct :: rat
  hs_xirr :: real
  hs_day :: money
  hs_day_pct :: rat
  hs_count :: nat

definition weighted_xirr :: "money \<Rightarrow> Folio list \<Rightarrow> real" where
  "weighted_xirr current fs = (if fs = [] then 0
     else round2r (sum_list (map (\<lambda>f. if current > 0 then fl_xirr f * of_rat (fl_current f / current) else 0) fs)))"

definition summary_of :: "Folio list \<Rightarrow> HoldingsSummary" where
  "summary_of fs =
     (let invested = round2 (sum_list (map fl_invested fs)); current = round2 (sum_list (map fl_current fs));
          day = round2 (sum_list (map fl_day fs)); returns = round2 (current - invested); prevValue = current - day
      in \<lparr>hs_invested = invested, hs_current = current, hs_returns = returns,
          hs_returns_pct = (if invested > 0 then round2 (returns / invested * 100) else 0), hs_xirr = weighted_xirr current fs,
          hs_day = day, hs_day_pct = (if prevValue > 0 then round2 (day / prevValue * 100) else 0), hs_count = length fs\<rparr>)"

text \<open>A folio with the catalogue's price of its scheme: the join of the two tables.\<close>

definition with_nav :: "trade_db \<Rightarrow> folio_row list \<Rightarrow> (folio_row \<times> rat) list" where
  "with_nav d fs = concat (map (\<lambda>f. map (\<lambda>c. (f, fu_nav c)) (filter (\<lambda>c. fu_code c = fo_code f) (catalog d))) fs)"

definition mf_GetHoldings :: "(int \<Rightarrow> rat) \<Rightarrow> (string \<Rightarrow> int) \<Rightarrow> uuid \<Rightarrow> (trade_db, HoldingsSummary \<times> Folio list) act" where
  "mf_GetHoldings rnd coll userID = bind (wrapping ''query mf holdings'' (query (\<lambda>_ d.
       sort_key (\<lambda>(f, _). coll (fo_name f)) (with_nav d (filter (\<lambda>f. fo_user f = userID \<and> fo_units f > 0) (folios d)))))) (\<lambda>rows.
     bind time_now (\<lambda>now. let fs = map (\<lambda>(f, nav). computeFolio rnd f nav now) rows in ret (summary_of fs, fs)))"

definition mf_GetHolding :: "(int \<Rightarrow> rat) \<Rightarrow> uuid \<Rightarrow> string \<Rightarrow> (trade_db, Folio option) act" where
  "mf_GetHolding rnd userID schemeCode = bind (get_row (''lookup mf holding for '' @ schemeCode) (\<lambda>_ d.
       first_row (with_nav d (filter (\<lambda>f. fo_user f = userID \<and> fo_code f = schemeCode \<and> fo_units f > 0) (folios d))))) (\<lambda>r.
     bind time_now (\<lambda>now. ret (map_option (\<lambda>(f, nav). computeFolio rnd f nav now) r)))"

section \<open>Buying\<close>

record PurchaseRequest =
  pu_code :: string
  pu_amount :: money
  pu_sip :: bool

record Transaction =
  tr_code :: string
  tr_name :: string
  tr_type :: string
  tr_date :: int
  tr_amount :: money
  tr_units :: rat
  tr_price :: rat

definition own_folio :: "uuid \<Rightarrow> string \<Rightarrow> folio_row \<Rightarrow> bool" where
  "own_folio userID schemeCode f \<longleftrightarrow> fo_user f = userID \<and> fo_code f = schemeCode"

definition update_folios :: "(folio_row \<Rightarrow> bool) \<Rightarrow> (folio_row \<Rightarrow> folio_row) \<Rightarrow> trade_db \<Rightarrow> trade_db" where
  "update_folios p f d = d\<lparr>folios := update_where p f (folios d)\<rparr>"

definition units_fit :: "rat \<Rightarrow> bool" where
  "units_fit x \<longleftrightarrow> decimal_fits 15 3 (round3 x)"

definition cost_fits :: "money \<Rightarrow> bool" where
  "cost_fits x \<longleftrightarrow> decimal_fits 18 2 (round2 x)"

definition nav_fits :: "rat \<Rightarrow> bool" where
  "nav_fits x \<longleftrightarrow> decimal_fits 10 4 (round4 x)"

text \<open>The columns of a folio are narrower than those of the catalogue since migration 14.\<close>

definition folio_fits :: "fund_row \<Rightarrow> rat \<Rightarrow> money \<Rightarrow> rat \<Rightarrow> bool" where
  "folio_fits fu units amount price \<longleftrightarrow> length (fu_amc fu) \<le> 100 \<and> length (fu_code fu) \<le> 20 \<and> length (fu_name fu) \<le> 150 \<and>
     length (fu_isin fu) \<le> 12 \<and> length (fu_category fu) \<le> 30 \<and> units_fit units \<and> nav_fits price \<and> cost_fits amount"

definition create_folio :: "uuid \<Rightarrow> fund_row \<Rightarrow> PurchaseRequest \<Rightarrow> rat \<Rightarrow> rat \<Rightarrow> (trade_db, uuid) act" where
  "create_folio userID fu req units price = bind later (\<lambda>t. wrapping ''create folio'' (exec_id (\<lambda>new now d.
     if \<not> folio_fits fu units (pu_amount req) price \<or> list_ex (own_folio userID (fu_code fu)) (folios d) \<or> new \<in> fo_id ` set (folios d) then Inl (Sent ErrConstraint)
     else Inr (new, d\<lparr>folios := folios d @ [\<lparr>fo_id = new, fo_user = userID, fo_number = ''FOLIO'' @ itoa (t mod 1000000000),
       fo_amc = fu_amc fu, fo_code = fu_code fu, fo_name = fu_name fu, fo_isin = fu_isin fu, fo_category = fu_category fu,
       fo_plan = ''GROWTH'', fo_sip = pu_sip req, fo_units = round3 units, fo_cost = round2 (pu_amount req), fo_created = now\<rparr>]\<rparr>))))"

definition top_up :: "rat \<Rightarrow> money \<Rightarrow> bool \<Rightarrow> folio_row \<Rightarrow> folio_row" where
  "top_up units amount sip f = f\<lparr>fo_units := round3 (fo_units f + units), fo_cost := round2 (fo_cost f + amount), fo_sip := fo_sip f \<or> sip\<rparr>"

definition add_to_folio :: "uuid \<Rightarrow> PurchaseRequest \<Rightarrow> rat \<Rightarrow> rat \<Rightarrow> (trade_db, uuid) act" where
  "add_to_folio i req units price = bind (wrapping ''update folio on purchase'' (exec_check
     (\<lambda>_ d. list_all (\<lambda>f. fo_id f = i \<longrightarrow> units_fit (fo_units f + units) \<and> cost_fits (fo_cost f + pu_amount req) \<and> nav_fits price) (folios d))
     (\<lambda>_ d. update_folios (\<lambda>f. fo_id f = i) (top_up units (pu_amount req) (pu_sip req)) d))) (\<lambda>_. ret i)"

definition insert_mf_txn :: "string \<Rightarrow> uuid \<Rightarrow> string \<Rightarrow> int \<Rightarrow> money \<Rightarrow> rat \<Rightarrow> rat \<Rightarrow> (trade_db, unit) act" where
  "insert_mf_txn msg folioID typ now amount units price = wrapping msg (exec_check
     (\<lambda>_ _. cost_fits amount \<and> units_fit units \<and> nav_fits price)
     (\<lambda>_ d. d\<lparr>mf_txns := mf_txns d @ [\<lparr>mt_folio = folioID, mt_type = typ, mt_date = day_of now, mt_amount = round2 amount,
        mt_units = round3 units, mt_price = round4 price\<rparr>]\<rparr>))"

definition purchase_type :: "bool \<Rightarrow> string" where
  "purchase_type sip = (if sip then ''SIP'' else ''PURCHASE'')"

definition Purchase :: "(int \<Rightarrow> rat) \<Rightarrow> uuid \<Rightarrow> PurchaseRequest \<Rightarrow> (trade_db, Transaction) act" where
  "Purchase rnd userID req =
     (if pu_code req = [] then fail (Validation ''scheme_code is required'')
      else if pu_amount req \<le> 0 then fail (Validation ''amount must be positive'')
      else bind (get_row ''lookup fund'' (\<lambda>_ d. first_row (filter (\<lambda>c. fu_code c = pu_code req) (catalog d)))) (\<lambda>r. case r of
        None \<Rightarrow> fail (NotFound (''fund '' @ pu_code req @ '' not found''))
      | Some fu \<Rightarrow>
          let minRequired = (if pu_sip req then fu_min_sip fu else fu_min fu) in
          if pu_amount req < minRequired then fail (Validation (''amount must be at least '' @ fmt2 minRequired @ '' for this fund''))
          else bind time_now (\<lambda>now.
            let price = navOnDate rnd (pu_code req) (fu_nav fu) now; units = round4 (pu_amount req / price) in
            tx (Wrap ''begin purchase tx'') (\<lambda>_. Wrap ''commit purchase'')
              (bind (get_row ''lock folio'' (\<lambda>_ d. map_option fo_id (first_row (filter (own_folio userID (pu_code req)) (folios d))))) (\<lambda>found.
               bind (case found of None \<Rightarrow> create_folio userID fu req units price | Some i \<Rightarrow> add_to_folio i req units price) (\<lambda>folioID.
               bind (insert_mf_txn ''insert purchase txn'' folioID (purchase_type (pu_sip req)) now (pu_amount req) units price) (\<lambda>_.
               ret \<lparr>tr_code = pu_code req, tr_name = fu_name fu, tr_type = purchase_type (pu_sip req), tr_date = now,
                    tr_amount = round2 (pu_amount req), tr_units = units, tr_price = price\<rparr>)))))))"

section \<open>Redeeming\<close>

record RedeemResult =
  rr_code :: string
  rr_units :: rat
  rr_amount :: money
  rr_remaining :: rat
  rr_status :: string

text \<open>\<open>%.4f\<close>\<close>

definition fmt4 :: "rat \<Rightarrow> string" where
  "fmt4 x = (let n = round_away (x * 10000); k = nat \<bar>n\<bar>
     in (if n < 0 then ''-'' else []) @ itoa_nat (k div 10000) @ ''.'' @ pad_zero 4 (itoa_nat (k mod 10000)))"

definition remaining_cost :: "folio_row \<Rightarrow> rat \<Rightarrow> money" where
  "remaining_cost f remaining = (if fo_units f > 0 then round2 (fo_cost f * (remaining / fo_units f)) else fo_cost f)"

definition Redeem :: "(int \<Rightarrow> rat) \<Rightarrow> uuid \<Rightarrow> string \<Rightarrow> rat option \<Rightarrow> (trade_db, RedeemResult) act" where
  "Redeem rnd userID schemeCode asked =
     (if schemeCode = [] then fail (Validation ''scheme_code is required'')
      else tx (Wrap ''begin redeem tx'') (\<lambda>_. Wrap ''commit redeem'')
        (bind (get_row ''lock folio for redeem'' (\<lambda>_ d. first_row (with_nav d (filter (own_folio userID schemeCode) (folios d))))) (\<lambda>r. case r of
          None \<Rightarrow> fail (NotFound (''no holding found for '' @ schemeCode))
        | Some (f, baseNAV) \<Rightarrow>
            let redeemUnits = (case asked of None \<Rightarrow> fo_units f | Some u \<Rightarrow> u) in
            if redeemUnits \<le> 0 \<or> redeemUnits > fo_units f
            then fail (Validation (''units to redeem must be between 0 and '' @ fmt4 (fo_units f)))
            else bind time_now (\<lambda>now.
              let price = navOnDate rnd schemeCode baseNAV now; amount = round2 (redeemUnits * price);
                  remaining = round4 (fo_units f - redeemUnits); cost = remaining_cost f remaining in
              bind (wrapping ''update folio on redeem'' (exec_check
                 (\<lambda>_ _. units_fit remaining \<and> cost_fits cost \<and> nav_fits price)
                 (\<lambda>_ d. update_folios (\<lambda>g. fo_id g = fo_id f) (\<lambda>g. g\<lparr>fo_units := round3 remaining, fo_cost := round2 cost\<rparr>) d))) (\<lambda>_.
              bind (insert_mf_txn ''insert redeem txn'' (fo_id f) ''REDEEM'' now amount redeemUnits price) (\<lambda>_.
              ret \<lparr>rr_code = schemeCode, rr_units = redeemUnits, rr_amount = amount, rr_remaining = remaining, rr_status = ''SUCCESS''\<rparr>))))))"

text \<open>The join of a user's transactions with their folios; a DATE is read back as its midnight.\<close>

definition mf_GetTransactions :: "uuid \<Rightarrow> string \<Rightarrow> (trade_db, Transaction list) act" where
  "mf_GetTransactions userID schemeCode = wrapping ''list mf transactions'' (query (\<lambda>_ d.
     map (\<lambda>(t, f). \<lparr>tr_code = fo_code f, tr_name = fo_name f, tr_type = mt_type t, tr_date = mt_date t * day_ns, tr_amount = mt_amount t,
        tr_units = mt_units t, tr_price = mt_price t\<rparr>)
       (order_desc (\<lambda>(t, _). mt_date t) (concat (map (\<lambda>t. map (\<lambda>f. (t, f))
          (filter (\<lambda>f. fo_id f = mt_folio t \<and> fo_user f = userID \<and> (schemeCode = [] \<or> fo_code f = schemeCode)) (folios d))) (mf_txns d))))))"

end
