(* ===== verification/TradeHttp.thy ===== *)
theory TradeHttp
  imports Funds Hub
begin

text \<open>
  The handlers of shares and funds: \<open>internal/handler/stocks_handler.go\<close> and
  \<open>internal/handler/mf_handler.go\<close>, over services that only pass calls on. \<open>on\<close> says whether a
  live-update publisher is attached; a path or query parameter is its text.
\<close>

definition TypePortfolioChanged :: string where "TypePortfolioChanged = ''portfolio_changed''"

type_synonym 'a trade_handler = "(trade_db, 'a http \<times> notices) act"

section \<open>Shares\<close>

definition getHoldings :: "(string \<Rightarrow> int) \<Rightarrow> uuid option \<Rightarrow> Holding list trade_handler" where
  "getHoldings coll u = with_user u (\<lambda>userID. or_error [] (GetHoldings coll userID) (reply_ok []))"

definition with_symbol :: "string \<Rightarrow> 'a trade_handler \<Rightarrow> 'a trade_handler" where
  "with_symbol symbol m = (if symbol = [] then ret (HErr (Validation ''trading_symbol query parameter is required''), []) else m)"

definition getQuote :: "(int \<Rightarrow> rat) \<Rightarrow> string \<Rightarrow> string \<Rightarrow> Quote trade_handler" where
  "getQuote rnd exchange symbol = with_symbol symbol (or_error [] (GetQuote rnd exchange symbol) (reply_ok []))"

definition getProfile :: "(int \<Rightarrow> rat) \<Rightarrow> string \<Rightarrow> string \<Rightarrow> StockProfile trade_handler" where
  "getProfile rnd exchange symbol = with_symbol symbol (or_error [] (GetProfile rnd exchange symbol) (reply_ok []))"

definition placeOrder :: "bool \<Rightarrow> (int \<Rightarrow> rat) \<Rightarrow> uuid option \<Rightarrow> string + OrderRequest \<Rightarrow> Order trade_handler" where
  "placeOrder on rnd u body = with_user u (\<lambda>userID. with_body body (\<lambda>req.
     or_error [] (PlaceOrder rnd userID req) (reply_created (notify on userID TypePortfolioChanged))))"

definition modifyOrder :: "bool \<Rightarrow> (int \<Rightarrow> rat) \<Rightarrow> uuid option \<Rightarrow> string \<Rightarrow> string + OrderRequest \<Rightarrow> Order trade_handler" where
  "modifyOrder on rnd u orderID body = with_user u (\<lambda>userID. with_body body (\<lambda>req.
     or_error [] (ModifyOrder rnd userID orderID req) (reply_ok (notify on userID TypePortfolioChanged))))"

definition cancelOrder :: "bool \<Rightarrow> uuid option \<Rightarrow> string \<Rightarrow> Order trade_handler" where
  "cancelOrder on u orderID = with_user u (\<lambda>userID.
     or_error [] (CancelOrder userID orderID) (reply_ok (notify on userID TypePortfolioChanged)))"

definition listOrders :: "uuid option \<Rightarrow> string \<Rightarrow> Order list trade_handler" where
  "listOrders u statusFilter = with_user u (\<lambda>userID. or_error [] (ListOrders userID statusFilter) (reply_ok []))"

definition getOrder :: "uuid option \<Rightarrow> string \<Rightarrow> Order trade_handler" where
  "getOrder u orderID = with_user u (\<lambda>userID. or_error [] (GetOrder userID orderID) (reply_ok []))"

section \<open>Funds\<close>

definition notConfigured :: "unit trade_handler" where
  "notConfigured = ret (HErr (NotImplemented ''MF Central/CAS import provider is not yet configured''), [])"

definition mf_getHoldings :: "(int \<Rightarrow> rat) \<Rightarrow> (string \<Rightarrow> int) \<Rightarrow> uuid option \<Rightarrow> (HoldingsSummary \<times> Folio list) trade_handler" where
  "mf_getHoldings rnd coll u = with_user u (\<lambda>userID. or_error [] (mf_GetHoldings rnd coll userID) (reply_ok []))"

definition purchase :: "bool \<Rightarrow> (int \<Rightarrow> rat) \<Rightarrow> uuid option \<Rightarrow> string + PurchaseRequest \<Rightarrow> Transaction trade_handler" where
  "purchase on rnd u body = with_user u (\<lambda>userID. with_body body (\<lambda>req.
     or_error [] (Purchase rnd userID req) (reply_created (notify on userID TypePortfolioChanged))))"

definition redeem :: "bool \<Rightarrow> (int \<Rightarrow> rat) \<Rightarrow> uuid option \<Rightarrow> string + (string \<times> rat option) \<Rightarrow> RedeemResult trade_handler" where
  "redeem on rnd u body = with_user u (\<lambda>userID. with_body body (\<lambda>(schemeCode, units).
     or_error [] (Redeem rnd userID schemeCode units) (reply_ok (notify on userID TypePortfolioChanged))))"

definition mf_getTransactions :: "uuid option \<Rightarrow> string \<Rightarrow> Transaction list trade_handler" where
  "mf_getTransactions u schemeCode = with_user u (\<lambda>userID. or_error [] (mf_GetTransactions userID schemeCode) (reply_ok []))"

end
