(* ===== verification/TradeFacts.thy ===== *)
theory TradeFacts
  imports TradeHttp
begin

text \<open>
  What trading does: no order is ever filled, because the identifier a fill writes is too long
  for its column; folios stay consistent; and redemptions too small to be seen are paid for.
\<close>

section \<open>Services that rely on the clock\<close>

text \<open>As \<open>invariant_service\<close>, for operations that keep the invariant from a point in time on.\<close>

locale clocked_service =
  fixes step :: "'op \<Rightarrow> ('d, 'r) act"
    and since :: int
    and inv :: "'d \<Rightarrow> bool"
  assumes step_timed: "timed (step oper)"
    and step_inv: "since \<le> wnow w \<Longrightarrow> inv (wdb w) \<Longrightarrow> wp (step oper) (\<lambda>_ w'. inv (wdb w')) (\<lambda>_ w'. inv (wdb w')) w"
begin

lemma run_keeps: "since \<le> wnow w \<Longrightarrow> inv (wdb w) \<Longrightarrow> inv (wdb (run_ops step w es))"
proof (induction es arbitrary: w)
  case (Cons x es)
  obtain oper dt fs rs us where x: "x = (oper, dt, fs, rs, us)" by (cases x)
  let ?v = "next_world w (dt, fs, rs, us)"
  have "inv (wdb (snd (step oper ?v)))"
    using step_inv[of ?v oper] Cons.prems wp_result[of "step oper" "\<lambda>w. inv (wdb w)" ?v] by simp
  moreover have "wnow (snd (step oper ?v)) = wnow ?v" using step_timed[of oper] by (simp add: timed_def)
  ultimately show ?case using Cons.prems(1) by (simp add: x Cons.IH)
qed simp

end

section \<open>The operations\<close>

datatype trade_op =
    OpPlace uuid OrderRequest | OpModify uuid string OrderRequest | OpCancel uuid string
  | OpPurchase uuid PurchaseRequest | OpRedeem uuid string "rat option" | OpHoldings uuid | OpOrders uuid string | OpOrder uuid string

definition quietly :: "('d, 'a) act \<Rightarrow> ('d, unit) act" where
  "quietly m = bind m (\<lambda>_. ret ())"

fun trade_step :: "(int \<Rightarrow> rat) \<Rightarrow> trade_op \<Rightarrow> (trade_db, unit) act" where
  "trade_step rnd (OpPlace u req) = quietly (PlaceOrder rnd u req)"
| "trade_step rnd (OpModify u i req) = quietly (ModifyOrder rnd u i req)"
| "trade_step rnd (OpCancel u i) = quietly (CancelOrder u i)"
| "trade_step rnd (OpPurchase u req) = quietly (Purchase rnd u req)"
| "trade_step rnd (OpRedeem u c x) = quietly (Redeem rnd u c x)"
| "trade_step rnd (OpHoldings u) = quietly (GetHoldings (\<lambda>_. 0) u)"
| "trade_step rnd (OpOrders u f) = quietly (ListOrders u f)"
| "trade_step rnd (OpOrder u i) = quietly (GetOrder u i)"

lemmas trade_defs = PlaceOrder_def ModifyOrder_def CancelOrder_def GetOrder_def ListOrders_def GetHoldings_def attemptFill_def
  sell_holding_def buy_holding_def insertOrder_def updateOrder_def loadOrder_def newOrderID_def Purchase_def Redeem_def
  create_folio_def add_to_folio_def insert_mf_txn_def

lemma timed_trade_parts [clock_intros]:
  "timed (attemptFill u inst q ord)" "timed (loadOrder u i)" "timed newOrderID" "timed (insertOrder u ord)" "timed (updateOrder u ord)"
  "timed (create_folio u fu req units price)" "timed (add_to_folio f req units price)" "timed (insert_mf_txn msg f typ t a n p)"
  by (auto simp: trade_defs Let_def intro!: clock_intros split: option.split)

lemma timed_trade_step: "timed (trade_step rnd oper)"
  by (cases oper) (auto simp: PlaceOrder_def ModifyOrder_def CancelOrder_def GetOrder_def ListOrders_def GetHoldings_def Purchase_def
      Redeem_def quietly_def Let_def intro!: clock_intros split: option.split)

section \<open>Nothing is ever filled\<close>

definition unfilled :: "trade_db \<Rightarrow> trade_db \<Rightarrow> bool" where
  "unfilled d0 d \<longleftrightarrow> holdings d = holdings d0 \<and>
     (\<forall>r \<in> set (orders d). (od_status r = ''OPEN'' \<longrightarrow> 17 \<le> length (od_id r)) \<and> (od_status r = ''COMPLETE'' \<longrightarrow> r \<in> set (orders d0)))"

lemma itoa_nat_long: "10 ^ k \<le> n \<Longrightarrow> k < length (itoa_nat n)"
proof (induction k arbitrary: n)
  case 0
  then show ?case by (subst itoa_nat.simps) simp
next
  case (Suc k)
  then have "10 ^ k \<le> n div 10" by (simp add: less_eq_div_iff_mult_less_eq)
  moreover have "\<not> n < 10" using Suc.prems by (metis le_trans not_less one_le_power one_le_numeral power_Suc mult_le_mono2 mult.right_neutral)
  ultimately show ?case using Suc.IH[of "n div 10"] by (subst itoa_nat.simps) simp
qed

lemma itoa_long: "10 ^ k \<le> i \<Longrightarrow> k < length (itoa i)"
proof -
  assume le: "10 ^ k \<le> i"
  have "(0::int) \<le> 10 ^ k" by simp
  then have "0 \<le> i" using le by linarith
  have "nat (10 ^ k) \<le> nat i" using le by (rule nat_mono)
  then have "10 ^ k \<le> nat i" by (simp add: nat_power_eq)
  from itoa_nat_long[OF this] show ?thesis using \<open>0 \<le> i\<close> by (simp add: itoa_def)
qed

text \<open>A fill makes an order that fits no column.\<close>

lemma filled_never_fits: "17 \<le> length (od_id ord) \<Longrightarrow> \<not> updates_fit (filled price now ord)"
  by (simp add: filled_def updates_fit_def)

lemma steady_fill_parts [steady_intros]:
  "steady (\<lambda>d. orders d = X) (sell_holding u inst ord)" "steady (\<lambda>d. orders d = X) (buy_holding u inst ord price)"
  by (auto simp: sell_holding_def buy_holding_def update_holdings_def Let_def intro!: steady_intros split: if_splits sum.split)

lemma wp_attemptFill:
  assumes "17 \<le> length (od_id ord)"
  shows "wp (attemptFill u inst quote ord) (\<lambda>ord' w'. ord' = ord \<and> w' = w \<or>
    \<not> updates_fit ord' \<and> od_id ord' = od_id ord \<and> orders (wdb w') = orders (wdb w)) (\<lambda>_ _. True) w"
proof (cases "decideFill ord quote")
  case (Some price)
  let ?m = "if od_txn ord = ''SELL'' then sell_holding u inst ord else buy_holding u inst ord price"
  have "wp ?m (\<lambda>_ w'. orders (wdb w') = orders (wdb w)) (\<lambda>_ w'. orders (wdb w') = orders (wdb w)) w"
    by (rule steady_wp[where I = "\<lambda>d. orders d = orders (wdb w)"]) (auto intro!: steady_intros)
  then show ?thesis unfolding attemptFill_def Some option.case wp_bind wp_fun
    by (rule wp_mono) (simp_all add: filled_never_fits[OF assms], simp add: filled_def)
qed (simp add: attemptFill_def wp_ret)

lemma wp_insertOrder_misfit: "\<not> updates_fit ord \<Longrightarrow> wp (insertOrder u ord) (\<lambda>_ _. False) (\<lambda>_ _. True) w"
  by (simp add: insertOrder_def wp_simps order_fits_def)

lemma unfilled_insert:
  "unfilled d0 d \<Longrightarrow> 17 \<le> length (od_id ord) \<Longrightarrow> od_status ord = ''OPEN'' \<Longrightarrow>
   unfilled d0 (d\<lparr>orders := orders d @ [Order.extend (stored ord) \<lparr>od_user = u\<rparr>]\<rparr>)"
  by (auto simp: unfilled_def stored_def Order.extend_def)

lemma wp_insertOrder:
  assumes "unfilled d0 (wdb w)" "17 \<le> length (od_id ord)" "od_status ord = ''OPEN''"
  shows "wp (insertOrder u ord) (\<lambda>_ w'. unfilled d0 (wdb w')) (\<lambda>_ _. True) w"
  using unfilled_insert[OF assms] by (simp add: insertOrder_def wp_simps)

text \<open>A transaction keeps what its body establishes when it returns.\<close>

lemma wp_tx_keeps:
  assumes "I (wdb w)" "\<And>v. wdb v = wdb w \<Longrightarrow> wnow v = wnow w \<Longrightarrow> wp m (\<lambda>_ w'. I (wdb w')) (\<lambda>_ _. True) v"
  shows "wp (tx bw cw m) (\<lambda>_ w'. I (wdb w')) (\<lambda>_ w'. I (wdb w')) w"
proof -
  have "wp m (\<lambda>_ w'. I (wdb w')) (\<lambda>_ _. True) (tick w)" by (rule assms(2)) simp_all
  then have "wp m (\<lambda>_ w'. (faulty w' \<longrightarrow> I (wdb w)) \<and> (\<not> faulty w' \<longrightarrow> I (wdb w'))) (\<lambda>_ _. I (wdb w)) (tick w)"
    by (rule wp_mono) (simp_all add: assms(1))
  then show ?thesis using assms(1) by (simp add: wp_tx)
qed

lemma wp_place:
  assumes "unfilled d0 (wdb w)" "10 ^ 18 \<le> wnow w"
  shows "wp (PlaceOrder rnd u req) (\<lambda>_ w'. unfilled d0 (wdb w')) (\<lambda>_ w'. unfilled d0 (wdb w')) w"
proof -
  have body: "wp (bind newOrderID (\<lambda>oid. bind time_now (\<lambda>now.
          bind (attemptFill u inst (livePrice rnd (in_base inst) (oq_symbol req) now) (placed oid inst req now)) (\<lambda>ord.
          bind (insertOrder u ord) (\<lambda>_. ret ord))))) (\<lambda>_ w'. unfilled d0 (wdb w')) (\<lambda>_ _. True) v"
    if v: "wdb v = wdb w" "wnow v = wnow w" for v inst
  proof -
    have tail: "wp (attemptFill u inst q (placed (itoa t) inst req now)) (\<lambda>ord. wp (insertOrder u ord) (\<lambda>_ w'. unfilled d0 (wdb w')) (\<lambda>_ _. True))
        (\<lambda>_ _. True) x" if x: "wdb x = wdb w" "10 ^ 18 \<le> t" for x t q now
    proof -
      have len: "17 \<le> length (od_id (placed (itoa t) inst req now))" using itoa_long[OF x(2)] by (simp add: placed_def)
      show ?thesis
        by (rule wp_mono[OF wp_attemptFill[OF len]])
          (use x assms(1) len in \<open>auto intro: wp_insertOrder wp_mono[OF wp_insertOrder_misfit] simp: placed_def\<close>)
    qed
    show ?thesis using v assms(2) by (simp add: newOrderID_def wp_simps wp_later tail split: list.split)
  qed
  show ?thesis unfolding PlaceOrder_def
    using assms(1) by (auto simp: wp_fail split: option.split intro!: wp_tx_keeps body)
qed

lemma wp_loadOrder:
  "wp (loadOrder u i) (\<lambda>ord w'. wdb w' = wdb w \<and> wnow w' = wnow w \<and> (\<exists>r \<in> set (orders (wdb w)). ord = order_view r \<and> own_order u i r)) (\<lambda>_ _. True) w"
  by (auto simp: loadOrder_def wp_simps wp_True dest!: first_row_filterD split: option.split)

lemma unfilled_rewrite:
  assumes "unfilled d0 d" "od_status ord \<noteq> ''COMPLETE''" "17 \<le> length (od_id ord)"
  shows "unfilled d0 (d\<lparr>orders := update_where (own_order u (od_id ord)) (rewritten ord) (orders d)\<rparr>)"
  using assms by (auto simp: unfilled_def set_update_where rewritten_def own_order_def)

lemma wp_updateOrder:
  assumes "unfilled d0 (wdb w)" "od_status ord \<noteq> ''COMPLETE''" "17 \<le> length (od_id ord)"
  shows "wp (updateOrder u ord) (\<lambda>_ w'. unfilled d0 (wdb w')) (\<lambda>_ _. True) w"
  using unfilled_rewrite[OF assms] by (simp add: updateOrder_def wp_simps)

lemma wp_updateOrder_misfit:
  "\<not> updates_fit ord \<Longrightarrow> list_ex (own_order u (od_id ord)) (orders (wdb w)) \<Longrightarrow> wp (updateOrder u ord) (\<lambda>_ _. False) (\<lambda>_ _. True) w"
  by (simp add: updateOrder_def wp_simps)

lemma wp_cancel:
  assumes "unfilled d0 (wdb w)"
  shows "wp (CancelOrder u i) (\<lambda>_ w'. unfilled d0 (wdb w')) (\<lambda>_ w'. unfilled d0 (wdb w')) w"
  unfolding CancelOrder_def
proof (rule wp_tx_keeps[where I = "unfilled d0", OF assms], unfold wp_bind, rule wp_mono[OF wp_loadOrder])
  fix ord and v v' :: "trade_db world"
  assume v: "wdb v = wdb w"
    and o: "wdb v' = wdb v \<and> wnow v' = wnow v \<and> (\<exists>r \<in> set (orders (wdb v)). ord = order_view r \<and> own_order u i r)"
  then have len: "17 \<le> length (od_id ord)" if "od_status ord = ''OPEN''"
    using that assms by (auto simp: unfilled_def order_view_def Order.truncate_def)
  show "wp (if od_status ord \<noteq> ''OPEN'' then fail (Wrap (''order '' @ i @ '' is '' @ od_status ord @ '' and cannot be cancelled'') (Sent ErrConflict))
      else let ord1 = ord\<lparr>od_status := ''CANCELLED'', od_cancelled := od_pending ord, od_pending := 0\<rparr> in
        bind (updateOrder u ord1) (\<lambda>_. ret ord1)) (\<lambda>_ w'. unfilled d0 (wdb w')) (\<lambda>_ _. True) v'"
    using v o assms len by (auto simp: Let_def wp_fail wp_bind wp_ret wp_fun intro!: wp_updateOrder)
qed simp

lemma wp_modify:
  assumes "unfilled d0 (wdb w)"
  shows "wp (ModifyOrder rnd u i req) (\<lambda>_ w'. unfilled d0 (wdb w')) (\<lambda>_ w'. unfilled d0 (wdb w')) w"
  unfolding ModifyOrder_def
proof (rule wp_tx_keeps[where I = "unfilled d0", OF assms], unfold wp_bind, rule wp_mono[OF wp_loadOrder], goal_cases)
  case (1 v ord v')
  then have len: "17 \<le> length (od_id (modified req ord))" if "od_status ord = ''OPEN''"
    using that assms by (auto simp: unfilled_def order_view_def Order.truncate_def modified_def)
  have tail: "wp (attemptFill u inst q (modified req ord)) (\<lambda>ord1. wp (updateOrder u ord1) (\<lambda>_ w'. unfilled d0 (wdb w')) (\<lambda>_ _. True))
      (\<lambda>_ _. True) v'" if op: "od_status ord = ''OPEN''" for inst q
  proof (rule wp_mono[OF wp_attemptFill[OF len[OF op]]], elim disjE conjE)
    fix ord1 and x :: "trade_db world"
    assume "ord1 = modified req ord" "x = v'"
    then show "wp (updateOrder u ord1) (\<lambda>_ w'. unfilled d0 (wdb w')) (\<lambda>_ _. True) x"
      using 1 assms len[OF op] op by (intro wp_updateOrder) (simp_all add: modified_def)
  next
    fix ord1 and x :: "trade_db world"
    assume x: "\<not> updates_fit ord1" "od_id ord1 = od_id (modified req ord)" "orders (wdb x) = orders (wdb v')"
    then have "list_ex (own_order u (od_id ord1)) (orders (wdb x))"
      using 1 by (auto simp: modified_def order_view_def Order.truncate_def own_order_def list_ex_iff)
    from wp_updateOrder_misfit[OF x(1) this] show "wp (updateOrder u ord1) (\<lambda>_ w'. unfilled d0 (wdb w')) (\<lambda>_ _. True) x"
      by (rule wp_mono) simp_all
  qed simp
  then show ?case
    by (auto simp: Let_def wp_fail wp_bind wp_ret wp_fun wp_time_now split: option.split)
qed simp_all

lemma steady_unfilled_funds [steady_intros]:
  "steady (unfilled d0) (Purchase rnd u preq)" "steady (unfilled d0) (Redeem rnd u c x)"
  by (auto simp: Purchase_def Redeem_def create_folio_def add_to_folio_def insert_mf_txn_def update_folios_def unfilled_def
      intro!: steady_intros split: if_splits)

lemma steady_unfilled_reads [steady_intros]:
  "steady (unfilled d0) (GetHoldings coll u)" "steady (unfilled d0) (ListOrders u s)" "steady (unfilled d0) (GetOrder u i)"
  by (auto simp: GetHoldings_def ListOrders_def GetOrder_def loadOrder_def intro!: steady_intros)

lemma trade_step_unfilled:
  assumes "10 ^ 18 \<le> wnow w" "unfilled d0 (wdb w)"
  shows "wp (trade_step rnd oper) (\<lambda>_ w'. unfilled d0 (wdb w')) (\<lambda>_ w'. unfilled d0 (wdb w')) w"
proof (cases oper)
  case (OpPlace u req)
  then show ?thesis using wp_place[OF assms(2,1)] by (simp add: quietly_def wp_bind wp_fun)
next
  case (OpModify u i req)
  then show ?thesis using wp_modify[OF assms(2)] by (simp add: quietly_def wp_bind wp_fun)
next
  case (OpCancel u i)
  then show ?thesis using wp_cancel[OF assms(2)] by (simp add: quietly_def wp_bind wp_fun)
qed (use assms(2) in \<open>auto simp: quietly_def wp_bind wp_fun intro: steady_wp steady_unfilled_funds steady_unfilled_reads\<close>)

interpretation trading: clocked_service "trade_step rnd" "10 ^ 18" "unfilled d0" for rnd d0
  by unfold_locales (rule timed_trade_step, rule trade_step_unfilled)

lemma wp_fills:
  assumes "17 \<le> length (od_id ord)" "od_type ord = ''MARKET''"
  shows "wp (attemptFill u inst quote ord) (\<lambda>ord' _. \<not> updates_fit ord') (\<lambda>_ _. True) w"
  using assms by (simp add: attemptFill_def decideFill_def wp_bind wp_fun filled_never_fits)

lemma market_order_fails:
  assumes "10 ^ 18 \<le> wnow w" "oq_type req = ''MARKET''"
  shows "isl (fst (PlaceOrder rnd u req w))"
proof -
  have tail: "wp (attemptFill u inst q (placed (itoa t) inst req now)) (\<lambda>ord. wp (insertOrder u ord) (\<lambda>_ _. False) (\<lambda>_ _. True)) (\<lambda>_ _. True) x"
    if "10 ^ 18 \<le> t" for inst q t now and x :: "trade_db world"
    by (rule wp_mono[OF wp_fills]) (use itoa_long[OF that] assms(2) in \<open>auto simp: placed_def intro: wp_insertOrder_misfit\<close>)
  have "wp (bind newOrderID (\<lambda>oid. bind time_now (\<lambda>now.
          bind (attemptFill u inst (livePrice rnd (in_base inst) (oq_symbol req) now) (placed oid inst req now)) (\<lambda>ord.
          bind (insertOrder u ord) (\<lambda>_. ret ord))))) (\<lambda>_ _. False) (\<lambda>_ _. True) (tick w)" for inst
    using assms(1) by (simp add: newOrderID_def wp_bind wp_ret wp_fun wp_time_now wp_later tail split: list.split)
  then have "wp (PlaceOrder rnd u req) (\<lambda>_ _. False) (\<lambda>_ _. True) w" unfolding PlaceOrder_def
    by (auto simp: wp_fail wp_tx split: option.split intro: wp_mono)
  then show ?thesis by (auto simp: wp_def split: prod.splits sum.splits)
qed

text \<open>
  C31. No order is ever filled: a fill writes \<open>"EXC-"\<close> and the order's identifier into a
  VARCHAR(20), and every identifier the program makes has at least 17 characters. So since
  September 2001 (a clock of at least \<open>10^18\<close> nanoseconds) every market order is answered with
  an error, and over any sequence of orders, changes, cancellations, purchases and redemptions,
  whatever calls fail, no share changes hands and no order becomes \<open>COMPLETE\<close>.
\<close>

theorem no_order_fills:
  assumes "10 ^ 18 \<le> wnow w" "\<forall>r \<in> set (orders (wdb w)). od_status r = ''OPEN'' \<longrightarrow> 17 \<le> length (od_id r)"
  shows "holdings (wdb (run_ops (trade_step rnd) w es)) = holdings (wdb w) \<and>
    (\<forall>r \<in> set (orders (wdb (run_ops (trade_step rnd) w es))). od_status r = ''COMPLETE'' \<longrightarrow> r \<in> set (orders (wdb w))) \<and>
    (\<forall>u req. oq_type req = ''MARKET'' \<longrightarrow> isl (fst (PlaceOrder rnd u req w)))"
proof -
  have "unfilled (wdb w) (wdb w)" using assms(2) by (auto simp: unfilled_def)
  from trading.run_keeps[OF assms(1) this, of rnd es] show ?thesis
    using market_order_fails[OF assms(1)] by (auto simp: unfilled_def)
qed

definition flat :: "int \<Rightarrow> rat" where "flat seed = 1/2"

definition market_order :: OrderRequest where
  "market_order = \<lparr>oq_exchange = ''NSE'', oq_symbol = ''TCS'', oq_txn = ''BUY'', oq_qty = 1, oq_product = ''CNC'', oq_type = ''MARKET'',
     oq_price = None, oq_trigger = None, oq_disclosed = 0, oq_validity = []\<rparr>"

definition trade_world :: "trade_db \<Rightarrow> trade_db world" where
  "trade_world d = \<lparr>wdb = d, wfaults = [], wnow = 1780000000000000000, wrand = [], wuuids = [''f1'', ''f2'']\<rparr>"

definition empty_trade_db :: trade_db where
  "empty_trade_db = \<lparr>holdings = [], orders = [], catalog = [], folios = [], mf_txns = []\<rparr>"

lemma no_order_fills_witness:
  "holdings (wdb (run_ops (trade_step flat) (trade_world empty_trade_db) [(OpPlace ''u'' market_order, 0, [], [], [])])) = [] \<and>
   isl (fst (PlaceOrder flat ''u'' market_order (trade_world empty_trade_db))) \<and> validateOrderRequest market_order = None"
  using no_order_fills[of "trade_world empty_trade_db" flat "[(OpPlace ''u'' market_order, 0, [], [], [])]"]
  by (simp add: trade_world_def empty_trade_db_def market_order_def validateOrderRequest_def)

section \<open>Folios\<close>

definition rnd_ok :: "(int \<Rightarrow> rat) \<Rightarrow> bool" where
  "rnd_ok rnd \<longleftrightarrow> (\<forall>s. 0 \<le> rnd s \<and> rnd s < 1)"

definition folio_ok :: "folio_row \<Rightarrow> bool" where
  "folio_ok f \<longleftrightarrow> 0 \<le> fo_units f \<and> round3 (fo_units f) = fo_units f \<and> 0 \<le> fo_cost f \<and> paise (fo_cost f)"

definition folio_inv :: "trade_db \<Rightarrow> bool" where
  "folio_inv d \<longleftrightarrow> distinct (map fo_id (folios d)) \<and> distinct (map (\<lambda>f. (fo_user f, fo_code f)) (folios d)) \<and>
     (\<forall>f \<in> set (folios d). folio_ok f) \<and> (\<forall>c \<in> set (catalog d). 0 \<le> fu_nav c)"

lemma round_away_nonneg: "0 \<le> x \<Longrightarrow> 0 \<le> round_away x"
  using round_away_mono[of 0 x] by simp

lemma round34_nonneg: "0 \<le> x \<Longrightarrow> 0 \<le> round3 x" "0 \<le> x \<Longrightarrow> 0 \<le> round4 x"
  by (simp_all add: round3_def round4_def round_away_nonneg)

lemma round3_idem [simp]: "round3 (round3 x) = round3 x"
  by (simp add: round3_def)

lemma nav_nonneg: "rnd_ok rnd \<Longrightarrow> 0 \<le> base \<Longrightarrow> 0 \<le> navOnDate rnd c base t"
  unfolding navOnDate_def Let_def
  by (intro round34_nonneg mult_nonneg_nonneg) (auto simp: rnd_ok_def algebra_simps dest: spec[of _ "price_seed c (day_of t)"])

lemma folio_inv_other [simp]:
  "folio_inv (d\<lparr>holdings := h\<rparr>) = folio_inv d" "folio_inv (d\<lparr>orders := os\<rparr>) = folio_inv d" "folio_inv (d\<lparr>mf_txns := ts\<rparr>) = folio_inv d"
  by (simp_all add: folio_inv_def)

lemma folio_inv_update:
  assumes "folio_inv d" "\<And>f. folio_ok f \<Longrightarrow> p f \<Longrightarrow> folio_ok (g f)"
    "\<And>f. fo_id (g f) = fo_id f" "\<And>f. fo_user (g f) = fo_user f" "\<And>f. fo_code (g f) = fo_code f"
  shows "folio_inv (update_folios p g d)"
  using assms by (simp add: folio_inv_def update_folios_def map_update_where ball_update_where)

lemma folio_inv_redeem:
  assumes "folio_inv d" "f \<in> set (folios d)" "0 \<le> r"
  shows "folio_inv (update_folios (\<lambda>g. fo_id g = fo_id f) (\<lambda>g. g\<lparr>fo_units := round3 r, fo_cost := round2 (remaining_cost f r)\<rparr>) d)"
proof (rule folio_inv_update[OF assms(1)])
  have "folio_ok f" using assms by (simp add: folio_inv_def)
  then have "0 \<le> remaining_cost f r" using assms(3) by (auto simp: remaining_cost_def folio_ok_def intro!: round2_nonneg mult_nonneg_nonneg divide_nonneg_pos)
  then show "folio_ok (g\<lparr>fo_units := round3 r, fo_cost := round2 (remaining_cost f r)\<rparr>)" for g
    using assms(3) by (simp add: folio_ok_def round34_nonneg round2_nonneg)
qed simp_all

lemma folio_inv_top_up:
  assumes "folio_inv d" "0 \<le> units" "0 \<le> amount"
  shows "folio_inv (update_folios p (top_up units amount sip) d)"
  by (rule folio_inv_update[OF assms(1)]) (use assms in \<open>auto simp: folio_ok_def top_up_def intro!: round34_nonneg round2_nonneg\<close>)


lemma folio_inv_create:
  assumes "folio_inv d" "0 \<le> units" "0 \<le> amount" "\<not> list_ex (own_folio (fo_user f) (fo_code f)) (folios d)"
    "fo_id f \<notin> fo_id ` set (folios d)" "fo_units f = round3 units" "fo_cost f = round2 amount"
  shows "folio_inv (d\<lparr>folios := folios d @ [f]\<rparr>)"
  using assms by (auto simp: folio_inv_def folio_ok_def own_folio_def list_ex_iff round34_nonneg round2_nonneg)

lemma steady_create_folio [steady_intros]:
  "0 \<le> units \<Longrightarrow> 0 \<le> pu_amount req \<Longrightarrow> steady folio_inv (create_folio u fu req units price)"
  unfolding create_folio_def
  by (intro steady_intros) (auto split: if_splits intro!: folio_inv_create[of _ units "pu_amount req"])

lemma steady_add_to_folio [steady_intros]:
  "0 \<le> units \<Longrightarrow> 0 \<le> pu_amount req \<Longrightarrow> steady folio_inv (add_to_folio i req units price)"
  unfolding add_to_folio_def by (intro steady_intros folio_inv_top_up)

lemma steady_insert_mf_txn [steady_intros]: "steady folio_inv (insert_mf_txn msg i typ now a n p)"
  unfolding insert_mf_txn_def by (intro steady_intros) simp

lemma wp_Purchase:
  assumes "rnd_ok rnd" "folio_inv (wdb w)"
  shows "wp (Purchase rnd u req) (\<lambda>_ w'. folio_inv (wdb w')) (\<lambda>_ w'. folio_inv (wdb w')) w"
proof -
  have nn: "0 \<le> round4 (pu_amount req / navOnDate rnd c (fu_nav fu) t)" if "fu \<in> set (catalog (wdb w))" "0 < pu_amount req" for fu c t
    using that assms by (intro round34_nonneg divide_nonneg_nonneg nav_nonneg) (auto simp: folio_inv_def)
  show ?thesis unfolding Purchase_def Let_def
    using assms(2) by (auto simp: wp_fail wp_if wp_option wp_bind wp_fun wp_get_row wp_time_now not_le nn dest!: first_row_filterD
        intro!: steady_wp[OF steady_tx] steady_intros split: option.splits)
qed

lemma with_nav_mem: "(f, nav) \<in> set (with_nav d fs) \<Longrightarrow> f \<in> set fs \<and> nav \<in> fu_nav ` set (catalog d)"
  by (auto simp: with_nav_def)

lemma wp_Redeem:
  assumes "rnd_ok rnd" "folio_inv (wdb w)"
  shows "wp (Redeem rnd u c asked) (\<lambda>_ w'. folio_inv (wdb w')) (\<lambda>_ w'. folio_inv (wdb w')) w"
proof (cases "c = []")
  case False
  show ?thesis unfolding Redeem_def Let_def if_not_P[OF False]
  proof (rule wp_tx_keeps[where I = folio_inv, OF assms(2)], goal_cases)
    case (1 v)
    have keep: "folio_inv (update_folios (\<lambda>g. fo_id g = fo_id f) (\<lambda>g. g\<lparr>fo_units := round3 r, fo_cost := round2 (remaining_cost f r)\<rparr>) (wdb w))"
      if "f \<in> set (folios (wdb w))" "0 \<le> r" for f r
      by (rule folio_inv_redeem[OF assms(2) that])
    have ins: "wp (insert_mf_txn msg i k t a n p) (\<lambda>_ w'. folio_inv (wdb w')) (\<lambda>_ _. True) x" if "folio_inv (wdb x)"
      for msg i k t a n p x
      using steady_wp[OF steady_insert_mf_txn that] by (rule wp_mono) simp_all
    show ?case using 1
      by (auto simp: wp_fail wp_ret wp_if wp_option wp_prod wp_bind wp_fun wp_get_row wp_time_now wp_wrapping wp_exec_check not_le not_less
          dest!: first_row_SomeD with_nav_mem intro!: ins keep round34_nonneg split: option.splits prod.splits)
  qed
qed (simp add: Redeem_def wp_fail assms(2))

lemma steady_folio_shares [steady_intros]:
  "steady folio_inv (PlaceOrder rnd u req)" "steady folio_inv (ModifyOrder rnd u i req)" "steady folio_inv (CancelOrder u i)"
  "steady folio_inv (GetHoldings coll u)" "steady folio_inv (ListOrders u s)" "steady folio_inv (GetOrder u i)"
  by (auto simp: PlaceOrder_def ModifyOrder_def CancelOrder_def GetHoldings_def ListOrders_def GetOrder_def loadOrder_def newOrderID_def
      attemptFill_def sell_holding_def buy_holding_def insertOrder_def updateOrder_def update_holdings_def Let_def
      intro!: steady_intros split: if_splits)

lemma trade_step_folios:
  assumes "rnd_ok rnd" "folio_inv (wdb w)"
  shows "wp (trade_step rnd oper) (\<lambda>_ w'. folio_inv (wdb w')) (\<lambda>_ w'. folio_inv (wdb w')) w"
  using wp_Purchase[OF assms] wp_Redeem[OF assms] assms(2)
  by (cases oper) (auto simp: quietly_def wp_bind wp_fun intro: steady_wp steady_folio_shares)

interpretation funds: guarded_service "trade_step rnd" "\<lambda>_. rnd_ok rnd" folio_inv for rnd
  by unfold_locales (rule trade_step_folios)

text \<open>
  C32. Folios stay consistent: over any sequence of purchases, redemptions and orders, whatever
  calls fail, a user has at most one folio of a scheme, no folio has a negative number of units
  or a negative cost, units are whole thousandths, costs whole paise, and identifiers distinct.
\<close>

theorem folios_consistent:
  assumes "rnd_ok rnd" "folio_inv (wdb w)"
  shows "folio_inv (wdb (run_ops (trade_step rnd) w es))"
  using funds.run_keeps[of rnd es w] assms by (simp add: list_all_iff)

definition liquid_fund :: fund_row where
  "liquid_fund = \<lparr>fu_code = ''F1'', fu_amc = ''A'', fu_name = ''Fund'', fu_isin = ''INF1'', fu_category = ''LIQUID'',
     fu_nav = 1000, fu_min = 500, fu_min_sip = 100, fu_risk = ''Low'', fu_nav_date = 20000, fu_expense = 35/10000, fu_aum = 1000000,
     fu_one_year = Some (69/10), fu_three_years = None, fu_five_years = None, fu_manager = None, fu_benchmark = None,
     fu_launch = None, fu_exit_pct = 0, fu_exit_days = 0, fu_band = None\<rparr>"

definition liquid_folio :: folio_row where
  "liquid_folio = \<lparr>fo_id = ''i1'', fo_user = ''u'', fo_number = ''FOLIO1'', fo_amc = ''A'', fo_code = ''F1'', fo_name = ''Fund'',
     fo_isin = ''INF1'', fo_category = ''LIQUID'', fo_plan = ''GROWTH'', fo_sip = False, fo_units = 2, fo_cost = 2000, fo_created = 0\<rparr>"

definition fund_world :: "trade_db world" where
  "fund_world = trade_world (empty_trade_db\<lparr>catalog := [liquid_fund], folios := [liquid_folio]\<rparr>)"

lemma rnd_ok_flat: "rnd_ok flat"
  by (simp add: rnd_ok_def flat_def)

lemma fund_world_inv: "folio_inv (wdb fund_world)"
  by code_simp

lemma folios_consistent_witness:
  "folio_inv (wdb (run_ops (trade_step flat) fund_world [(OpRedeem ''u'' ''F1'' (Some 1), 0, [], [], []), (OpRedeem ''u'' ''F1'' None, 0, [], [], [])]))"
  by (rule folios_consistent[OF rnd_ok_flat fund_world_inv])

section \<open>Redemptions\<close>

definition redeemed :: "(int \<Rightarrow> rat) \<Rightarrow> string \<Rightarrow> int \<Rightarrow> folio_row \<Rightarrow> rat \<Rightarrow> trade_db \<Rightarrow> RedeemResult \<Rightarrow> trade_db \<Rightarrow> bool" where
  "redeemed rnd c now f nav d r d' \<longleftrightarrow> 0 < rr_units r \<and> rr_units r \<le> fo_units f \<and>
     rr_amount r = round2 (rr_units r * navOnDate rnd c nav now) \<and> rr_remaining r = round4 (fo_units f - rr_units r) \<and>
     folios d' = update_where (\<lambda>g. fo_id g = fo_id f)
       (\<lambda>g. g\<lparr>fo_units := round3 (rr_remaining r), fo_cost := round2 (remaining_cost f (rr_remaining r))\<rparr>) (folios d)"

definition redeems :: "(int \<Rightarrow> rat) \<Rightarrow> uuid \<Rightarrow> string \<Rightarrow> int \<Rightarrow> trade_db \<Rightarrow> RedeemResult \<Rightarrow> trade_db \<Rightarrow> bool" where
  "redeems rnd u c now d r d' \<longleftrightarrow> (\<exists>f nav. (f, nav) \<in> set (with_nav d (filter (own_folio u c) (folios d))) \<and> redeemed rnd c now f nav d r d')"

lemma redeemsI:
  "(f, nav) \<in> set (with_nav d (filter (own_folio u c) (folios d))) \<Longrightarrow> redeemed rnd c now f nav d r d' \<Longrightarrow> redeems rnd u c now d r d'"
  by (auto simp: redeems_def)

lemma wp_redeems:
  "wp (Redeem rnd u c asked) (\<lambda>r w'. redeems rnd u c (wnow w) (wdb w) r (wdb w') \<and> (\<forall>x. asked = Some x \<longrightarrow> rr_units r = x)) (\<lambda>_ w'. wdb w' = wdb w) w"
proof (cases "c = []")
  case False
  show ?thesis unfolding Redeem_def Let_def if_not_P[OF False]
    by (rule tx_returns) (auto simp: redeemed_def insert_mf_txn_def update_folios_def wp_simps not_le not_less
        dest!: first_row_SomeD intro: redeemsI split: option.splits prod.splits)
qed (simp add: Redeem_def wp_fail)

lemma round34_mono: "x \<le> y \<Longrightarrow> round3 x \<le> round3 y" "x \<le> y \<Longrightarrow> round4 x \<le> round4 y"
  by (simp_all add: round3_def round4_def round_away_mono)

text \<open>Half a thousandth less rounds to the same thousandth.\<close>

lemma round34_half:
  assumes "round3 x = x" "0 < x"
  shows "round3 (x - 1/2000) = x" "round4 (x - 1/2000) = x - 1/2000"
proof -
  from assms(1) obtain i where x: "x = of_int i / 1000" by (metis round3_def)
  with assms(2) have "1 \<le> i" by simp
  then have "(1::rat) \<le> of_int i" by simp
  then have "round_away (of_int i - 1/2) = i" by (simp add: round_away_def)
  moreover have "(x - 1/2000) * 1000 = of_int i - 1/2" by (simp add: x)
  ultimately show "round3 (x - 1/2000) = x" by (simp only: round3_def x)
  have e: "(x - 1/2000) * 10000 = of_int (10 * i - 5)" by (simp add: x field_simps)
  show "round4 (x - 1/2000) = x - 1/2000" unfolding round4_def e round_away_int by (simp add: x field_simps)
qed

lemma round4_of_3: "round3 x = x \<Longrightarrow> round4 x = x"
proof -
  assume "round3 x = x"
  then obtain i where "x = of_int i / 1000" by (metis round3_def)
  then have e: "x * 10000 = of_int (10 * i)" "x = of_int (10 * i) / 10000" by simp_all
  show ?thesis unfolding round4_def e(1) round_away_int using e(2) by simp
qed

lemma dust_rounds_away:
  assumes "folio_ok f" "0 < y" "y \<le> 1/2000" "y \<le> fo_units f"
  shows "round3 (round4 (fo_units f - y)) = fo_units f"
proof (rule antisym)
  have f: "round3 (fo_units f) = fo_units f" "0 < fo_units f" using assms by (auto simp: folio_ok_def)
  have "round4 (fo_units f - y) \<le> round4 (fo_units f)" using assms(2) by (intro round34_mono) simp
  also have "round4 (fo_units f) = fo_units f" using round4_of_3[OF f(1)] .
  finally show "round3 (round4 (fo_units f - y)) \<le> fo_units f" using round34_mono(1) f(1) by metis
  have "fo_units f - 1/2000 \<le> round4 (fo_units f - y)"
    using round34_mono(2)[of "fo_units f - 1/2000" "fo_units f - y"] round34_half(2)[OF f] assms(3) by simp
  from round34_mono(1)[OF this] show "fo_units f \<le> round3 (round4 (fo_units f - y))" using round34_half(1)[OF f] by simp
qed

text \<open>
  A redemption of at most half a thousandth of a unit is answered as a success, with its
  amount at the day's price, and takes nothing: the units of every folio are what they were,
  because the column keeps three decimals of what the program rounds to four.
\<close>

theorem dust_redemption:
  assumes "folio_inv (wdb w)" "x \<le> 1/2000" "Redeem rnd u c (Some x) w = (Inr r, w')"
  shows "map (\<lambda>f. (fo_id f, fo_units f)) (folios (wdb w')) = map (\<lambda>f. (fo_id f, fo_units f)) (folios (wdb w)) \<and>
    (\<exists>f nav. (f, nav) \<in> set (with_nav (wdb w) (filter (own_folio u c) (folios (wdb w)))) \<and>
       rr_amount r = round2 (x * navOnDate rnd c nav (wnow w)))"
proof -
  from wp_returns[OF wp_redeems assms(3)] obtain f nav where
    f: "(f, nav) \<in> set (with_nav (wdb w) (filter (own_folio u c) (folios (wdb w))))"
      "redeemed rnd c (wnow w) f nav (wdb w) r (wdb w')" and x: "rr_units r = x"
    by (auto simp: redeems_def)
  have mem: "f \<in> set (folios (wdb w))" using f(1) by (auto dest: with_nav_mem)
  have inv: "distinct (map fo_id (folios (wdb w)))" "folio_ok f" using assms(1) mem by (auto simp: folio_inv_def)
  have "round3 (rr_remaining r) = fo_units f"
    using f(2) x dust_rounds_away[OF inv(2), of x] assms(2) by (simp add: redeemed_def)
  moreover have "g = f" if "g \<in> set (folios (wdb w))" "fo_id g = fo_id f" for g
    using inv(1) mem that by (auto simp: distinct_map dest: inj_onD)
  ultimately have "map (\<lambda>f. (fo_id f, fo_units f)) (folios (wdb w')) = map (\<lambda>f. (fo_id f, fo_units f)) (folios (wdb w))"
    using f(2) by (auto simp: redeemed_def update_where_def)
  then show ?thesis using f x by (auto simp: redeemed_def)
qed

lemma navOnDate_flat: "navOnDate flat c base t = round4 base"
  by (simp add: navOnDate_def flat_def Let_def)

lemma dust_redemption_witness:
  "map (\<lambda>f. (fo_id f, fo_units f)) (folios (wdb (snd (Redeem flat ''u'' ''F1'' (Some (1/2000)) fund_world)))) = [(''i1'', 2)]"
proof -
  obtain r w' where r: "Redeem flat ''u'' ''F1'' (Some (1/2000)) fund_world = (Inr r, w')" "folios (wdb fund_world) = [liquid_folio]"
  proof -
    have "\<lfloor>(20000001::rat) / 2\<rfloor> = 10000000" "\<lfloor>(39991::rat) / 2\<rfloor> = 19995" "\<lfloor>(1::rat) / 2\<rfloor> = 0" "\<lfloor>(101::rat) / 2\<rfloor> = 50"
      by (simp_all add: floor_eq_iff)
    then have "wp (Redeem flat ''u'' ''F1'' (Some (1/2000))) (\<lambda>_ _. True) (\<lambda>_ _. False) fund_world"
      by (simp add: Redeem_def Let_def insert_mf_txn_def navOnDate_flat fund_world_def trade_world_def empty_trade_db_def liquid_folio_def
          liquid_fund_def own_folio_def with_nav_def remaining_cost_def units_fit_def cost_fits_def nav_fits_def decimal_fits_def
          round2_def round3_def round4_def round_away_def wp_simps faulty_def)
    moreover have "folios (wdb fund_world) = [liquid_folio]" by (simp add: fund_world_def trade_world_def)
    ultimately show thesis by (cases "Redeem flat ''u'' ''F1'' (Some (1/2000)) fund_world") (auto simp: wp_def intro: that split: sum.splits)
  qed
  from dust_redemption[OF fund_world_inv _ r(1)] show ?thesis using r by (simp add: liquid_folio_def)
qed

end
