(* ===== verification/IdbiMap.thy ===== *)
theory IdbiMap
  imports GoStrings GoTime Money
begin

text \<open>
  What the bank's documents mean: \<open>internal/idbimap\<close>, the one place where texts of the gateway become
  amounts, instants, kinds and categories, with the parts of \<open>strconv.ParseFloat\<close> and \<open>time.Parse\<close>
  it uses. Amounts are exact rationals. The spellings of infinity, of no number and of
  hexadecimal fractions, which \<open>ParseFloat\<close> also accepts, count as malformed here.
\<close>

section \<open>Amounts\<close>

definition digit_of :: "char \<Rightarrow> nat" where
  "digit_of c = code_of c - 48"

definition digits_value :: "string \<Rightarrow> nat" where
  "digits_value = foldl (\<lambda>n c. 10 * n + digit_of c) 0"

text \<open>An underscore must stand between two digits.\<close>

fun underscores_ok :: "char option \<Rightarrow> string \<Rightarrow> bool" where
  "underscores_ok prev [] = (prev \<noteq> Some CHR ''_'')"
| "underscores_ok prev (c # s) =
     (if c = CHR ''_'' then (case prev of Some p \<Rightarrow> is_digit p | None \<Rightarrow> False) \<and> underscores_ok (Some c) s
      else (prev \<noteq> Some CHR ''_'' \<or> is_digit c) \<and> underscores_ok (Some c) s)"

definition split_sign :: "string \<Rightarrow> bool \<times> string" where
  "split_sign s = (case s of [] \<Rightarrow> (False, []) | c # r \<Rightarrow> if c = CHR ''-'' then (True, r) else if c = CHR ''+'' then (False, r) else (False, s))"

text \<open>The value of \<open>e\<close>, a sign and digits; no exponent is \<open>0\<close>.\<close>

definition exponent :: "string \<Rightarrow> int option" where
  "exponent s = (case s of [] \<Rightarrow> Some 0
     | c # r \<Rightarrow> if c \<noteq> CHR ''e'' \<and> c \<noteq> CHR ''E'' then None
         else (case split_sign r of (neg, ds) \<Rightarrow> if ds = [] \<or> \<not> list_all is_digit ds then None
           else Some (if neg then - int (digits_value ds) else int (digits_value ds))))"

definition pow10 :: "int \<Rightarrow> rat" where
  "pow10 k = (if k < 0 then 1 / 10 ^ nat (- k) else 10 ^ nat k)"

definition read_decimal :: "string \<Rightarrow> rat option" where
  "read_decimal s =
     (let whole = takeWhile is_digit s; r = dropWhile is_digit s;
          (frac, r') = (case r of [] \<Rightarrow> ([], []) | c # t \<Rightarrow> if c = CHR ''.'' then (takeWhile is_digit t, dropWhile is_digit t) else ([], r))
      in if whole = [] \<and> frac = [] then None
         else map_option (\<lambda>k. of_nat (digits_value (whole @ frac)) * pow10 (k - int (length frac))) (exponent r'))"

text \<open>A value beyond the largest float64 is a range error.\<close>

definition float_max :: rat where
  "float_max = 2 ^ 1024 - 2 ^ 970"

definition ParseFloat :: "string \<Rightarrow> rat option" where
  "ParseFloat s = (case split_sign s of (neg, r) \<Rightarrow>
     if \<not> underscores_ok None r then None
     else (case read_decimal (filter (\<lambda>c. c \<noteq> CHR ''_'') r) of
        None \<Rightarrow> None
      | Some x \<Rightarrow> if x \<ge> float_max then None else Some (if neg then - x else x)))"

text \<open>\<open>ParseAmount\<close> with its error dropped: the callers take the zero that comes with it.\<close>

definition ParseAmount :: "string \<Rightarrow> rat" where
  "ParseAmount s0 = (let s = trim_space s0 in
     if s \<in> {[], ''NULL'', ''null''} then 0
     else (case ParseFloat (filter (\<lambda>c. c \<noteq> CHR '','') s) of None \<Rightarrow> 0 | Some x \<Rightarrow> x))"

section \<open>Instants\<close>

text \<open>The pieces of the layouts in use.\<close>

datatype piece = Year | Month | MonthName | Day | Hour | Minute | Secs | Millis | Lit char

record stamp =
  st_year :: int
  st_month :: int
  st_day :: int
  st_hour :: int
  st_min :: int
  st_sec :: int
  st_ns :: int

definition fixed_num :: "nat \<Rightarrow> string \<Rightarrow> (int \<times> string) option" where
  "fixed_num n s = (let ds = take n s in if length ds = n \<and> list_all is_digit ds then Some (int (digits_value ds), drop n s) else None)"

definition hour_num :: "string \<Rightarrow> (int \<times> string) option" where
  "hour_num s = (case fixed_num 2 s of Some r \<Rightarrow> Some r | None \<Rightarrow> fixed_num 1 s)"

definition months :: "string list" where
  "months = [''jan'', ''feb'', ''mar'', ''apr'', ''may'', ''jun'', ''jul'', ''aug'', ''sep'', ''oct'', ''nov'', ''dec'']"

definition month_name :: "string \<Rightarrow> (int \<times> string) option" where
  "month_name s = map_option (\<lambda>(m, _). (m, drop 3 s))
     (List.find (\<lambda>(_, n). to_lower (take 3 s) = n) (zip [1, 2, 3, 4, 5, 6, 7, 8, 9, 10, 11, 12] months))"

definition is_point :: "char \<Rightarrow> bool" where
  "is_point c \<longleftrightarrow> c = CHR ''.'' \<or> c = CHR '',''"

text \<open>The digits after the point, to nanoseconds; what follows the ninth is dropped.\<close>

definition fraction_ns :: "string \<Rightarrow> int" where
  "fraction_ns ds = int (digits_value (take 9 ds)) * 10 ^ (9 - length (take 9 ds))"

definition skip_point :: "string \<Rightarrow> string option" where
  "skip_point s = (case s of [] \<Rightarrow> None | c # r \<Rightarrow> if is_point c then Some r else None)"

text \<open>A fraction may follow the seconds even when the layout has none.\<close>

definition free_fraction :: "string \<Rightarrow> int \<times> string" where
  "free_fraction s = (case skip_point s of None \<Rightarrow> (0, s)
     | Some r \<Rightarrow> let ds = takeWhile is_digit r in if ds = [] then (0, s) else (fraction_ns ds, dropWhile is_digit r))"

definition in_range :: "int \<Rightarrow> int \<Rightarrow> (int \<times> string) option \<Rightarrow> (int \<times> string) option" where
  "in_range a b r = (case r of None \<Rightarrow> None | Some (n, s) \<Rightarrow> if a \<le> n \<and> n \<le> b then Some (n, s) else None)"

fun parse_pieces :: "piece list \<Rightarrow> string \<Rightarrow> stamp \<Rightarrow> stamp option" where
  "parse_pieces [] s t = (if s = [] then Some t else None)"
| "parse_pieces (Lit c # ps) s t = (case s of [] \<Rightarrow> None | x # r \<Rightarrow> if x = c then parse_pieces ps r t else None)"
| "parse_pieces (Year # ps) s t = (case fixed_num 4 s of None \<Rightarrow> None | Some (n, r) \<Rightarrow> parse_pieces ps r (t\<lparr>st_year := n\<rparr>))"
| "parse_pieces (Month # ps) s t = (case in_range 1 12 (fixed_num 2 s) of None \<Rightarrow> None | Some (n, r) \<Rightarrow> parse_pieces ps r (t\<lparr>st_month := n\<rparr>))"
| "parse_pieces (MonthName # ps) s t = (case month_name s of None \<Rightarrow> None | Some (n, r) \<Rightarrow> parse_pieces ps r (t\<lparr>st_month := n\<rparr>))"
| "parse_pieces (Day # ps) s t = (case fixed_num 2 s of None \<Rightarrow> None | Some (n, r) \<Rightarrow> parse_pieces ps r (t\<lparr>st_day := n\<rparr>))"
| "parse_pieces (Hour # ps) s t = (case in_range 0 23 (hour_num s) of None \<Rightarrow> None | Some (n, r) \<Rightarrow> parse_pieces ps r (t\<lparr>st_hour := n\<rparr>))"
| "parse_pieces (Minute # ps) s t = (case in_range 0 59 (fixed_num 2 s) of None \<Rightarrow> None | Some (n, r) \<Rightarrow> parse_pieces ps r (t\<lparr>st_min := n\<rparr>))"
| "parse_pieces (Secs # ps) s t = (case in_range 0 59 (fixed_num 2 s) of None \<Rightarrow> None
     | Some (n, r) \<Rightarrow> (case (if ps \<noteq> [] \<and> hd ps = Millis then (0, r) else free_fraction r) of
         (f, r') \<Rightarrow> parse_pieces ps r' (t\<lparr>st_sec := n, st_ns := f\<rparr>)))"
| "parse_pieces (Millis # ps) s t = (case skip_point s of None \<Rightarrow> None
     | Some r \<Rightarrow> (case fixed_num 3 r of None \<Rightarrow> None | Some (n, r') \<Rightarrow> parse_pieces ps r' (t\<lparr>st_ns := n * 1000000\<rparr>)))"

definition stamp_instant :: "stamp \<Rightarrow> int" where
  "stamp_instant t = date_days (st_year t) (st_month t - 1) (st_day t) * day_ns
     + ((st_hour t * 60 + st_min t) * 60 + st_sec t) * 1000000000 + st_ns t"

definition time_Parse :: "piece list \<Rightarrow> string \<Rightarrow> int option" where
  "time_Parse layout s =
     (case parse_pieces layout s \<lparr>st_year = 0, st_month = 1, st_day = 1, st_hour = 0, st_min = 0, st_sec = 0, st_ns = 0\<rparr> of
        None \<Rightarrow> None
      | Some t \<Rightarrow> if 1 \<le> st_day t \<and> st_day t \<le> month_len (st_year t) (nat (st_month t - 1)) then Some (stamp_instant t) else None)"

definition ymd :: "piece list" where
  "ymd = [Year, Lit CHR ''-'', Month, Lit CHR ''-'', Day]"

definition hms :: "piece list" where
  "hms = [Lit CHR ''T'', Hour, Lit CHR '':'', Minute, Lit CHR '':'', Secs]"

definition idbiTimeLayouts :: "piece list list" where
  "idbiTimeLayouts = [ymd @ hms @ [Millis, Lit CHR ''Z''], ymd @ hms @ [Millis], ymd @ hms @ [Lit CHR ''Z''], ymd @ hms, ymd,
     [Day, Lit CHR ''-'', Month, Lit CHR ''-'', Year], [Day, Lit CHR ''-'', MonthName, Lit CHR ''-'', Year]]"

text \<open>Go's zero time, the first instant of year 1.\<close>

definition zero_time :: int where
  "zero_time = - 62135596800 * 1000000000"

text \<open>The first layout that fits; absent and malformed texts are the zero time.\<close>

definition MustParseTime :: "string \<Rightarrow> int" where
  "MustParseTime s0 = (let s = trim_space s0 in
     if s \<in> {[], ''NULL'', ''null''} then zero_time
     else (case List.map_filter (\<lambda>l. time_Parse l s) idbiTimeLayouts of [] \<Rightarrow> zero_time | t # _ \<Rightarrow> t))"

section \<open>Transactions\<close>

fun map_firstNonEmpty :: "string list \<Rightarrow> string" where
  "map_firstNonEmpty [] = []"
| "map_firstNonEmpty (s # ss) = (if trim_space s \<noteq> [] \<and> s \<noteq> ''NULL'' then s else map_firstNonEmpty ss)"

definition txnType :: "string \<Rightarrow> string" where
  "txnType code = (if to_upper (trim_space code) \<in> {''C'', ''CREDIT'', ''CR''} then ''CREDIT'' else ''DEBIT'')"

definition containsAny :: "string \<Rightarrow> string list \<Rightarrow> bool" where
  "containsAny s subs = list_ex (contains s) subs"

text \<open>The first bucket one of whose words the narration contains.\<close>

definition buckets :: "(string list \<times> string) list" where
  "buckets = [
    ([''swiggy'', ''zomato'', ''restaurant'', ''cafe'', ''food'', ''eatery'', ''dominos'', ''mcdonald''], ''Food & Dining''),
    ([''uber'', ''ola'', ''rapido'', ''irctc'', ''petrol'', ''fuel'', ''metro'', ''fastag'', ''toll''], ''Transport''),
    ([''amazon'', ''flipkart'', ''myntra'', ''ajio'', ''shopping'', ''retail'', ''mall'', ''store''], ''Shopping''),
    ([''electricity'', ''water bill'', ''gas bill'', ''broadband'', ''recharge'', ''dth'', ''bill pay'', ''sms charges'', ''acct charges'',
      ''account charges''], ''Bills & Utilities''),
    ([''rent'', ''maintenance'', ''society''], ''Rent & Housing''),
    ([''salary'', ''sal cr'', ''payroll''], ''Income''),
    ([''sip'', ''mutual fund'', ''zerodha'', ''groww'', ''invest''], ''Investments''),
    ([''pharma'', ''hospital'', ''medical'', ''apollo'', ''clinic'', ''chemist''], ''Health''),
    ([''netflix'', ''spotify'', ''hotstar'', ''prime'', ''subscription''], ''Entertainment''),
    ([''atm'', ''cash withdrawal'', ''cash wdl''], ''Cash''),
    ([''upi'', ''imps'', ''neft'', ''rtgs'', ''transfer'', ''to transfer'', ''by transfer''], ''Transfers'')]"

definition Categorise :: "string \<Rightarrow> string" where
  "Categorise narration = (case List.find (\<lambda>(ws, _). containsAny (to_lower narration) ws) buckets of Some (_, b) \<Rightarrow> b | None \<Rightarrow> ''Other'')"

record SpendRow =
  sr_ext :: string
  sr_ref :: string
  sr_amount :: rat
  sr_type :: string
  sr_cat :: string
  sr_merchant :: string
  sr_at :: int

record AAStatementTxn =
  at_mode :: string
  at_type :: string
  at_id :: string
  at_amount :: string
  at_text :: string
  at_stamp :: string
  at_value :: string

record AAStatementAccount =
  ac_ref :: string
  ac_txns :: "AAStatementTxn list"

definition AAStatementSpendRows :: "AAStatementAccount \<Rightarrow> SpendRow list" where
  "AAStatementSpendRows acc = map (\<lambda>r. let merchant = trim_space (at_text r) in
     \<lparr>sr_ext = at_id r, sr_ref = ac_ref acc, sr_amount = ParseAmount (at_amount r), sr_type = txnType (at_type r),
      sr_cat = Categorise (trim_space (at_mode r @ '' '' @ merchant)), sr_merchant = merchant,
      sr_at = MustParseTime (map_firstNonEmpty [at_stamp r, at_value r])\<rparr>) (ac_txns acc)"

definition AAStatementAllSpendRows :: "AAStatementAccount list \<Rightarrow> SpendRow list" where
  "AAStatementAllSpendRows data = concat (map AAStatementSpendRows data)"

record StatementTxn =
  sx_posted :: string
  sx_amount :: string
  sx_date :: string
  sx_text :: string
  sx_type :: string
  sx_balance :: "string \<times> string"
  sx_id :: string
  sx_serial :: string
  sx_value :: string

record FullStatementResponse =
  fs_more :: string
  fs_txns :: "StatementTxn list"

definition FullStatementSpendRows :: "string \<Rightarrow> FullStatementResponse \<Rightarrow> SpendRow list" where
  "FullStatementSpendRows acctID resp = map (\<lambda>r. let merchant = trim_space (sx_text r) in
     \<lparr>sr_ext = sx_id r, sr_ref = acctID, sr_amount = ParseAmount (sx_amount r), sr_type = txnType (sx_type r),
      sr_cat = Categorise merchant, sr_merchant = merchant,
      sr_at = MustParseTime (map_firstNonEmpty [sx_date r, sx_value r, sx_posted r])\<rparr>) (fs_txns resp)"

section \<open>Facts\<close>

lemma txnType_kinds: "txnType c \<in> {''DEBIT'', ''CREDIT''}"
  by (simp add: txnType_def)

lemma Categorise_known: "Categorise n \<in> insert ''Other'' (snd ` set buckets)"
proof (cases "List.find (\<lambda>(ws, _). containsAny (to_lower n) ws) buckets")
  case (Some p)
  then have "p \<in> set buckets" by (metis find_Some_iff nth_mem)
  moreover have "Categorise n = snd p" using Some by (simp add: Categorise_def split: prod.split)
  ultimately show ?thesis by simp
qed (simp add: Categorise_def)

end
