(* ===== verification/IdbiStore.thy ===== *)
theory IdbiStore
  imports IdbiMap Http
begin

text \<open>
  The mirror of the bank's data: the tables of migrations 7, 27, 28 and 32 and the statements of
  \<open>internal/repository/idbi_repo.go\<close> and \<open>idbi_aa_repo.go\<close> over the queries of \<open>internal/db/query\<close>. The
  rows a process keeps in memory (the cache of account lists and the set of running refreshes)
  are fields, too. A numeric column rounds to two decimals what \<open>%f\<close> rounded to six.
\<close>

section \<open>Tables\<close>

record CustomerLink =
  ln_user :: uuid
  ln_cif :: string
  ln_cust :: string
  ln_source :: string
  ln_linked :: int

record MirroredAccount =
  mi_number :: string
  mi_type :: string
  mi_currency :: string
  mi_holder :: string
  mi_status :: string
  mi_branch :: string
  mi_branch_name :: string
  mi_ledger :: money
  mi_available :: money
  mi_effective :: money
  mi_lien :: money
  mi_synced :: int

record mirror_row = MirroredAccount +
  mi_user :: uuid
  mi_cif :: string
  mi_cust :: string
  mi_opened :: "int option"

record spend_row =
  sp_user :: uuid
  sp_amount :: money
  sp_type :: string
  sp_cat :: string
  sp_merchant :: string
  sp_at :: int
  sp_source :: string
  sp_ext :: "string option"
  sp_ref :: "string option"

record AAConsentRow =
  cs_handle :: string
  cs_user :: uuid
  cs_id :: string
  cs_status :: string
  cs_ptype :: string
  cs_pvalue :: string
  cs_vua :: string
  cs_product :: string
  cs_account :: string
  cs_redirect :: string
  cs_web :: string
  cs_approved :: "int option"
  cs_expires :: "int option"
  cs_fetched :: "int option"
  cs_created :: int
  cs_updated :: int

record AALinkedAccountRow =
  la_handle :: string
  la_ref :: string
  la_fip :: string
  la_fip_name :: string
  la_type :: string
  la_fi :: string
  la_masked :: string
  la_linked :: int

text \<open>What the accounts service shows of an account.\<close>

record AccountView =
  av_number :: string
  av_type :: string
  av_currency :: string
  av_holder :: string
  av_status :: string
  av_branch_name :: string
  av_ledger :: money
  av_available :: money
  av_effective :: money
  av_lien :: money
  av_synced :: int

record idbi_db =
  cust_links :: "CustomerLink list"
  mirror :: "mirror_row list"
  spends :: "spend_row list"
  consents :: "AAConsentRow list"
  linked :: "AALinkedAccountRow list"
  phones :: "(uuid \<times> string) list"
  acct_cache :: "(uuid \<times> (AccountView list \<times> int)) list"
  inflight :: "uuid list"

section \<open>The customer link\<close>

definition ErrNoCustomerLink :: goerr where
  "ErrNoCustomerLink = Plain ''no idbi customer link for user''"

definition GetCustomerLink :: "uuid \<Rightarrow> (idbi_db, CustomerLink) act" where
  "GetCustomerLink userID = bind (get_row ''get idbi customer link'' (\<lambda>_ d. first_row (filter (\<lambda>l. ln_user l = userID) (cust_links d)))) (\<lambda>r.
     case r of None \<Rightarrow> fail ErrNoCustomerLink | Some l \<Rightarrow> ret l)"

definition relinked :: "string \<Rightarrow> string \<Rightarrow> string \<Rightarrow> CustomerLink \<Rightarrow> CustomerLink" where
  "relinked cif cust source l = l\<lparr>ln_cif := cif, ln_cust := (if cust \<noteq> [] then cust else ln_cust l), ln_source := source\<rparr>"

definition UpsertCustomerLink :: "uuid \<Rightarrow> string \<Rightarrow> string \<Rightarrow> string \<Rightarrow> (idbi_db, unit) act" where
  "UpsertCustomerLink userID cifID custID source = wrapping ''upsert idbi customer link'' (exec_upd (\<lambda>now d.
     d\<lparr>cust_links := (if list_ex (\<lambda>l. ln_user l = userID) (cust_links d)
        then update_where (\<lambda>l. ln_user l = userID) (relinked cifID custID source) (cust_links d)
        else cust_links d @ [\<lparr>ln_user = userID, ln_cif = cifID, ln_cust = custID, ln_source = source, ln_linked = now\<rparr>])\<rparr>))"

definition ListLinkedUserIDs :: "(idbi_db, uuid list) act" where
  "ListLinkedUserIDs = wrapping ''list idbi linked users'' (query (\<lambda>_ d. map ln_user (cust_links d)))"

text \<open>The link and the mirror go together.\<close>

definition DeleteCustomerLink :: "uuid \<Rightarrow> (idbi_db, unit) act" where
  "DeleteCustomerLink userID = tx (Wrap ''revoke idbi link: begin'') (\<lambda>_ e. e)
     (bind (wrapping ''revoke idbi link: delete accounts'' (exec_upd (\<lambda>_ d. d\<lparr>mirror := filter (\<lambda>a. mi_user a \<noteq> userID) (mirror d)\<rparr>))) (\<lambda>_.
      wrapping ''revoke idbi link: delete link'' (exec_upd (\<lambda>_ d. d\<lparr>cust_links := filter (\<lambda>l. ln_user l \<noteq> userID) (cust_links d)\<rparr>))))"

text \<open>Two sort keys; \<open>coll\<close> is the place of a text in the collation order of the database.\<close>

definition idbi_ListAccounts :: "(string \<Rightarrow> int) \<Rightarrow> uuid \<Rightarrow> (idbi_db, MirroredAccount list) act" where
  "idbi_ListAccounts coll userID = wrapping ''list idbi accounts'' (query (\<lambda>_ d.
     map MirroredAccount.truncate (sort_key (\<lambda>a. coll (mi_type a)) (sort_key (\<lambda>a. coll (mi_number a)) (filter (\<lambda>a. mi_user a = userID) (mirror d))))))"

section \<open>Transactions\<close>

definition round6 :: "rat \<Rightarrow> rat" where
  "round6 x = of_int (round_away (x * 1000000)) / 1000000"

definition numericFromFloat :: "rat \<Rightarrow> money" where
  "numericFromFloat x = round2 (round6 x)"

definition spend_of :: "uuid \<Rightarrow> string \<Rightarrow> SpendRow \<Rightarrow> spend_row" where
  "spend_of userID source r = \<lparr>sp_user = userID, sp_amount = numericFromFloat (sr_amount r),
     sp_type = (if sr_type r = [] then ''DEBIT'' else sr_type r), sp_cat = (if sr_cat r = [] then ''Other'' else sr_cat r),
     sp_merchant = take 100 (sr_merchant r), sp_at = sr_at r, sp_source = source, sp_ext = Some (sr_ext r),
     sp_ref = (if sr_ref r = [] then None else Some (sr_ref r))\<rparr>"

definition spend_fits :: "spend_row \<Rightarrow> bool" where
  "spend_fits s \<longleftrightarrow> numeric_fits 18 (sp_amount s) \<and> length (sp_type s) \<le> 6 \<and> length (sp_cat s) \<le> 40 \<and> length (sp_merchant s) \<le> 100 \<and>
     length (sp_source s) \<le> 8 \<and> (case sp_ext s of None \<Rightarrow> True | Some x \<Rightarrow> length x \<le> 64) \<and>
     (case sp_ref s of None \<Rightarrow> True | Some x \<Rightarrow> length x \<le> 64)"

text \<open>The unique index of migration 28: rows with an external identifier.\<close>

definition same_spend :: "spend_row \<Rightarrow> spend_row \<Rightarrow> bool" where
  "same_spend s r \<longleftrightarrow> sp_ext s \<noteq> None \<and> sp_user r = sp_user s \<and> sp_source r = sp_source s \<and> sp_ext r = sp_ext s"

definition put_spend :: "spend_row \<Rightarrow> spend_row list \<Rightarrow> spend_row list" where
  "put_spend s rs = (if list_ex (same_spend s) rs then update_where (same_spend s) (\<lambda>_. s) rs else rs @ [s])"

definition spend_usable :: "SpendRow \<Rightarrow> bool" where
  "spend_usable r \<longleftrightarrow> sr_ext r \<noteq> [] \<and> sr_at r \<noteq> zero_time"

definition write_spend :: "uuid \<Rightarrow> string \<Rightarrow> SpendRow \<Rightarrow> (idbi_db, unit) act" where
  "write_spend userID source r = (if \<not> spend_usable r then ret ()
     else wrapping (''upsert spend txn '' @ sr_ext r) (exec_check (\<lambda>_ _. spend_fits (spend_of userID source r))
       (\<lambda>_ d. d\<lparr>spends := put_spend (spend_of userID source r) (spends d)\<rparr>)))"

definition UpsertSpendTransactions :: "uuid \<Rightarrow> string \<Rightarrow> SpendRow list \<Rightarrow> (idbi_db, nat) act" where
  "UpsertSpendTransactions userID source rows = (if rows = [] then ret 0
     else tx (Wrap ''upsert spend txns: begin'') (\<lambda>_. Wrap ''upsert spend txns: commit'')
       (bind (foreach (write_spend userID source) rows) (\<lambda>_. ret (length (filter spend_usable rows)))))"

text \<open>\<open>COALESCE(MAX(occurred_at), '1970-01-01')\<close>\<close>

definition LatestSpendSync :: "uuid \<Rightarrow> string \<Rightarrow> (idbi_db, int) act" where
  "LatestSpendSync userID source = wrapping ''latest spend sync'' (query (\<lambda>_ d.
     let ts = map sp_at (filter (\<lambda>s. sp_user s = userID \<and> sp_source s = source) (spends d)) in if ts = [] then 0 else Max (set ts)))"

section \<open>Consents\<close>

definition own_handle :: "string \<Rightarrow> AAConsentRow \<Rightarrow> bool" where
  "own_handle handle c \<longleftrightarrow> cs_handle c = handle"

definition consent_of :: "string \<Rightarrow> idbi_db \<Rightarrow> AAConsentRow option" where
  "consent_of handle d = first_row (filter (own_handle handle) (consents d))"

text \<open>A handle that is known keeps its owner; a pending one takes the new status.\<close>

definition again :: "AAConsentRow \<Rightarrow> int \<Rightarrow> AAConsentRow \<Rightarrow> AAConsentRow" where
  "again r now c = c\<lparr>cs_id := (if cs_id r \<noteq> [] then cs_id r else cs_id c),
     cs_status := (if cs_status c = ''PENDING'' then cs_status r else cs_status c),
     cs_redirect := (if cs_redirect r \<noteq> [] then cs_redirect r else cs_redirect c),
     cs_web := (if cs_web r \<noteq> [] then cs_web r else cs_web c), cs_updated := now\<rparr>"

definition repo_CreateConsent :: "AAConsentRow \<Rightarrow> (idbi_db, unit) act" where
  "repo_CreateConsent row0 =
     (let row = row0\<lparr>cs_ptype := (if cs_ptype row0 = [] then ''MOBILE'' else cs_ptype row0),
            cs_status := (if cs_status row0 = [] then ''PENDING'' else cs_status row0)\<rparr> in
      wrapping ''aa create consent'' (exec_upd (\<lambda>now d.
        if list_ex (own_handle (cs_handle row)) (consents d)
        then d\<lparr>consents := update_where (own_handle (cs_handle row)) (again row now) (consents d)\<rparr>
        else d\<lparr>consents := consents d @
          [row\<lparr>cs_approved := None, cs_expires := None, cs_fetched := None, cs_created := now, cs_updated := now\<rparr>]\<rparr>)))"

definition with_status :: "string \<Rightarrow> string \<Rightarrow> int option \<Rightarrow> int \<Rightarrow> AAConsentRow \<Rightarrow> AAConsentRow" where
  "with_status status consentID approvedAt now c = c\<lparr>cs_status := status, cs_id := (if consentID \<noteq> [] then consentID else cs_id c),
     cs_approved := (if approvedAt \<noteq> None then approvedAt else cs_approved c), cs_updated := now\<rparr>"

definition UpdateConsentStatus :: "string \<Rightarrow> string \<Rightarrow> string \<Rightarrow> int option \<Rightarrow> (idbi_db, unit) act" where
  "UpdateConsentStatus handle status consentID approvedAt =
     bind (wrapping ''aa update consent status'' (exec (\<lambda>now d. Inr (count_where (own_handle handle) (consents d),
       d\<lparr>consents := update_where (own_handle handle) (with_status status consentID approvedAt now) (consents d)\<rparr>)))) (\<lambda>n.
     if n = 0 then fail (Sent ErrNoConsent) else ret ())"

definition MarkFetched :: "string \<Rightarrow> (idbi_db, unit) act" where
  "MarkFetched handle = wrapping ''aa mark fetched'' (exec_upd (\<lambda>now d.
     d\<lparr>consents := update_where (own_handle handle) (\<lambda>c. c\<lparr>cs_fetched := Some now, cs_updated := now\<rparr>) (consents d)\<rparr>))"

definition repo_GetConsent :: "string \<Rightarrow> (idbi_db, AAConsentRow option) act" where
  "repo_GetConsent handle = get_row ''aa get consent'' (\<lambda>_ d. consent_of handle d)"

definition repo_ListConsents :: "uuid \<Rightarrow> (idbi_db, AAConsentRow list) act" where
  "repo_ListConsents userID = wrapping ''aa list consents'' (query (\<lambda>_ d. order_desc cs_created (filter (\<lambda>c. cs_user c = userID) (consents d))))"

definition same_link :: "AALinkedAccountRow \<Rightarrow> AALinkedAccountRow \<Rightarrow> bool" where
  "same_link a b \<longleftrightarrow> la_handle b = la_handle a \<and> la_ref b = la_ref a"

definition put_link :: "AALinkedAccountRow \<Rightarrow> AALinkedAccountRow list \<Rightarrow> AALinkedAccountRow list" where
  "put_link a bs = (if list_ex (same_link a) bs then update_where (same_link a) (\<lambda>b. a\<lparr>la_linked := la_linked b\<rparr>) bs else bs @ [a])"

definition upsert_link :: "string \<Rightarrow> AALinkedAccountRow \<Rightarrow> (idbi_db, unit) act" where
  "upsert_link handle a = wrapping (''aa replace linked: upsert '' @ la_ref a) (exec_check
     (\<lambda>_ d. list_ex (own_handle handle) (consents d))
     (\<lambda>now d. d\<lparr>linked := put_link (a\<lparr>la_handle := handle, la_linked := now\<rparr>) (linked d)\<rparr>))"

definition pruned :: "string \<Rightarrow> string list \<Rightarrow> idbi_db \<Rightarrow> idbi_db" where
  "pruned handle keep d = d\<lparr>linked := filter (\<lambda>a. la_handle a \<noteq> handle \<or> la_ref a \<in> set keep) (linked d)\<rparr>"

definition ReplaceLinkedAccounts :: "string \<Rightarrow> AALinkedAccountRow list \<Rightarrow> (idbi_db, unit) act" where
  "ReplaceLinkedAccounts handle accs = tx (Wrap ''aa replace linked: begin'') (\<lambda>_ e. e)
     (let known = filter (\<lambda>a. la_ref a \<noteq> []) accs in
      bind (foreach (upsert_link handle) known) (\<lambda>_.
      wrapping ''aa replace linked: prune'' (exec_upd (\<lambda>_ d. pruned handle (map la_ref known) d))))"

definition ListLinkedAccounts :: "(string \<Rightarrow> int) \<Rightarrow> string \<Rightarrow> (idbi_db, AALinkedAccountRow list) act" where
  "ListLinkedAccounts coll handle = wrapping ''aa list linked'' (query (\<lambda>_ d.
     sort_key (\<lambda>a. coll (la_ref a)) (filter (\<lambda>a. la_handle a = handle) (linked d))))"

end
