(* ===== verification/Consents.thy ===== *)
theory Consents
  imports IdbiStore
begin

text \<open>
  Account Aggregator consents: \<open>internal/service/idbiaa/service.go\<close> and the consent endpoints and
  webhooks of \<open>internal/handler/aa_handler.go\<close>. The gateway is a parameter: \<open>aa_provider\<close> holds what
  each of its calls answers to a request (an operation makes each call at most once). The order
  \<open>coll\<close> of texts is the database's.
\<close>

section \<open>The gateway\<close>

record RequestConsentRequest =
  rq_ptype :: string
  rq_pvalue :: string
  rq_product :: string
  rq_account :: string
  rq_vua :: string
  rq_txn :: string

record GetConsentListRequest =
  gl_ptype :: string
  gl_pvalue :: string
  gl_product :: string
  gl_account :: string
  gl_vua :: string

record ConsentLinkedAccount =
  cl_fip_name :: string
  cl_fip :: string
  cl_type :: string
  cl_ref :: string
  cl_masked :: string
  cl_fi :: string

record Consent =
  co_id :: string
  co_status :: string
  co_handle :: string
  co_created :: string
  co_accounts :: "ConsentLinkedAccount list"

text \<open>
  590: status and handle; 591: consents; 592: redirection addresses; 593: handle, error code and
  status; 595 and 739: statements of the accounts asked for.
\<close>

record aa_provider =
  pv_request :: "RequestConsentRequest \<Rightarrow> goerr + string \<times> string"
  pv_list :: "GetConsentListRequest \<Rightarrow> goerr + Consent list"
  pv_redirect :: "string \<Rightarrow> string \<Rightarrow> goerr + string list"
  pv_decrypt :: "string \<Rightarrow> string \<Rightarrow> string \<Rightarrow> goerr + string \<times> string \<times> string"
  pv_statement :: "string \<Rightarrow> string list \<Rightarrow> goerr + AAStatementAccount list"
  pv_finpro :: "string \<Rightarrow> string list \<Rightarrow> goerr + AAStatementAccount list"

record aa_config =
  ca_redirect_mode :: string
  ca_vua_suffix :: string
  ca_product :: string
  ca_callback :: string
  ca_source :: string

definition stubMode :: "aa_config \<Rightarrow> bool" where
  "stubMode cfg \<longleftrightarrow> \<not> equal_fold (ca_redirect_mode cfg) ''live''"

section \<open>Views\<close>

record LinkedAccount =
  lv_ref :: string
  lv_fip :: string
  lv_fip_name :: string
  lv_type :: string
  lv_fi :: string
  lv_masked :: string

record ConsentView =
  cv_handle :: string
  cv_id :: string
  cv_status :: string
  cv_vua :: string
  cv_account :: string
  cv_redirect :: string
  cv_linked :: "LinkedAccount list"
  cv_approved :: "int option"
  cv_created :: int

definition link_view :: "AALinkedAccountRow \<Rightarrow> LinkedAccount" where
  "link_view l = \<lparr>lv_ref = la_ref l, lv_fip = la_fip l, lv_fip_name = la_fip_name l, lv_type = la_type l, lv_fi = la_fi l,
     lv_masked = la_masked l\<rparr>"

definition viewOf :: "AAConsentRow \<Rightarrow> AALinkedAccountRow list \<Rightarrow> ConsentView" where
  "viewOf r ls = \<lparr>cv_handle = cs_handle r, cv_id = cs_id r, cv_status = cs_status r, cv_vua = cs_vua r, cv_account = cs_account r,
     cv_redirect = cs_web r, cv_linked = map link_view ls, cv_approved = cs_approved r, cv_created = cs_created r\<rparr>"

text \<open>The zero value of a row, which a dropped error leaves.\<close>

definition no_consent :: AAConsentRow where
  "no_consent = \<lparr>cs_handle = [], cs_user = uuid_nil, cs_id = [], cs_status = [], cs_ptype = [], cs_pvalue = [], cs_vua = [],
     cs_product = [], cs_account = [], cs_redirect = [], cs_web = [], cs_approved = None, cs_expires = None, cs_fetched = None,
     cs_created = zero_time, cs_updated = zero_time\<rparr>"

definition pickConsent :: "Consent list \<Rightarrow> string \<Rightarrow> Consent option" where
  "pickConsent data handle = (case List.find (\<lambda>c. co_handle c = handle) data of
       Some c \<Rightarrow> Some c
     | None \<Rightarrow> (case data of [c] \<Rightarrow> if co_handle c = [] then Some c else None | _ \<Rightarrow> None))"

definition consentStatusFromEvent :: "string \<Rightarrow> string" where
  "consentStatusFromEvent e = (let s = to_upper (trim_space e) in
     if s \<in> {''CONSENT_APPROVED'', ''ACTIVE'', ''APPROVED''} then ''ACTIVE''
     else if s \<in> {''CONSENT_REJECTED'', ''REJECTED'', ''DENIED''} then ''REJECTED''
     else if s \<in> {''CONSENT_REVOKED'', ''REVOKED''} then ''REVOKED''
     else if s \<in> {''CONSENT_EXPIRED'', ''EXPIRED''} then ''EXPIRED''
     else if s \<in> {''CONSENT_PAUSED'', ''PAUSED''} then ''PAUSED''
     else ''PENDING'')"

definition numericID :: "('d, string) act" where
  "numericID = bind (attempt rand_nat) (\<lambda>r. ret (case r of Inl _ \<Rightarrow> ''1000000'' | Inr n \<Rightarrow> itoa (int (n mod 9000000) + 1000000)))"

section \<open>Operations\<close>

definition linked_row :: "string \<Rightarrow> ConsentLinkedAccount \<Rightarrow> AALinkedAccountRow" where
  "linked_row handle a = \<lparr>la_handle = handle, la_ref = cl_ref a, la_fip = cl_fip a, la_fip_name = cl_fip_name a, la_type = cl_type a,
     la_fi = cl_fi a, la_masked = cl_masked a, la_linked = zero_time\<rparr>"

text \<open>When a consent counts as approved: the gateway's date, or now.\<close>

definition approval :: "string \<Rightarrow> string \<Rightarrow> int \<Rightarrow> int option" where
  "approval status created now = (if status \<noteq> ''ACTIVE'' then None
     else let t = MustParseTime created in Some (if t \<noteq> zero_time then t else now))"

definition stored_view :: "(string \<Rightarrow> int) \<Rightarrow> string \<Rightarrow> AAConsentRow \<Rightarrow> (idbi_db, ConsentView) act" where
  "stored_view coll handle row = bind (ignoring [] (ListLinkedAccounts coll handle)) (\<lambda>ls. ret (viewOf row ls))"

definition list_request :: "aa_config \<Rightarrow> AAConsentRow \<Rightarrow> GetConsentListRequest" where
  "list_request cfg row = \<lparr>gl_ptype = cs_ptype row, gl_pvalue = cs_pvalue row,
     gl_product = first_non_empty [cs_product row, ca_product cfg], gl_account = cs_account row, gl_vua = cs_vua row\<rparr>"

definition take_over :: "(string \<Rightarrow> int) \<Rightarrow> string \<Rightarrow> AAConsentRow \<Rightarrow> Consent \<Rightarrow> (idbi_db, ConsentView) act" where
  "take_over coll handle row match =
     (let status = to_upper (first_non_empty [co_status match, cs_status row]) in
      bind time_now (\<lambda>now.
      bind (UpdateConsentStatus handle status (co_id match) (approval status (co_created match) now)) (\<lambda>_.
      bind (ReplaceLinkedAccounts handle (map (linked_row handle) (co_accounts match))) (\<lambda>_.
      bind (ignoring None (repo_GetConsent handle)) (\<lambda>r.
      stored_view coll handle (case r of None \<Rightarrow> no_consent | Some c \<Rightarrow> c))))))"

definition Refresh :: "(string \<Rightarrow> int) \<Rightarrow> aa_config \<Rightarrow> aa_provider \<Rightarrow> uuid \<Rightarrow> string \<Rightarrow> (idbi_db, ConsentView) act" where
  "Refresh coll cfg pv userID handle = bind (repo_GetConsent handle) (\<lambda>r. case r of
       None \<Rightarrow> fail (Sent ErrNoConsent)
     | Some row \<Rightarrow> if cs_user row \<noteq> userID then fail (Sent ErrNoConsent)
         else bind (wrapping ''idbiaa: 591 getConsentList'' (given (pv_list pv (list_request cfg row)))) (\<lambda>data.
           case pickConsent data handle of
             None \<Rightarrow> stored_view coll handle row
           | Some match \<Rightarrow> take_over coll handle row match))"

definition consent_row :: "aa_config \<Rightarrow> uuid \<Rightarrow> string \<Rightarrow> string \<Rightarrow> string \<Rightarrow> string \<Rightarrow> AAConsentRow" where
  "consent_row cfg userID handle status mobile accountID = no_consent\<lparr>cs_handle := handle, cs_user := userID, cs_status := status,
     cs_ptype := ''MOBILE'', cs_pvalue := mobile, cs_vua := mobile @ ca_vua_suffix cfg, cs_product := ca_product cfg,
     cs_account := accountID\<rparr>"

text \<open>Live mode: the address to open is stored and returned.\<close>

definition live_consent :: "aa_config \<Rightarrow> aa_provider \<Rightarrow> AAConsentRow \<Rightarrow> (idbi_db, ConsentView) act" where
  "live_consent cfg pv row = bind (wrapping ''idbiaa: 592 getWebRedirectionURL'' (given (pv_redirect pv (cs_handle row) (ca_callback cfg)))) (\<lambda>urls.
     let row' = row\<lparr>cs_web := (case urls of [] \<Rightarrow> cs_web row | u # _ \<Rightarrow> u), cs_redirect := ca_callback cfg\<rparr> in
     bind (repo_CreateConsent row') (\<lambda>_.
     bind time_now (\<lambda>now. ret \<lparr>cv_handle = cs_handle row', cv_id = [], cv_status = cs_status row', cv_vua = cs_vua row',
       cv_account = cs_account row', cv_redirect = cs_web row', cv_linked = [], cv_approved = None, cv_created = now\<rparr>)))"

text \<open>Stub mode: the gateway's list confirms it; when that fails, the stored row is the answer.\<close>

definition stub_consent :: "(string \<Rightarrow> int) \<Rightarrow> aa_config \<Rightarrow> aa_provider \<Rightarrow> uuid \<Rightarrow> AAConsentRow \<Rightarrow> (idbi_db, ConsentView) act" where
  "stub_consent coll cfg pv userID row = bind (repo_CreateConsent row) (\<lambda>_.
     bind (attempt (Refresh coll cfg pv userID (cs_handle row))) (\<lambda>r. case r of
       Inr view \<Rightarrow> ret view
     | Inl e \<Rightarrow> bind (ignoring None (repo_GetConsent (cs_handle row))) (\<lambda>s. case s of
         None \<Rightarrow> fail e
       | Some c \<Rightarrow> ret (viewOf c []))))"

definition RequestConsent :: "(string \<Rightarrow> int) \<Rightarrow> aa_config \<Rightarrow> aa_provider \<Rightarrow> uuid \<Rightarrow> string \<Rightarrow> string \<Rightarrow> (idbi_db, ConsentView) act" where
  "RequestConsent coll cfg pv userID mobile0 accountID =
     (let mobile = trim_space mobile0 in
      if mobile = [] then fail (Plain ''idbiaa: mobile is required to request consent'')
      else bind numericID (\<lambda>txn.
        bind (wrapping ''idbiaa: 590 requestConsent'' (given (pv_request pv
          \<lparr>rq_ptype = ''MOBILE'', rq_pvalue = mobile, rq_product = ca_product cfg, rq_account = accountID,
           rq_vua = mobile @ ca_vua_suffix cfg, rq_txn = txn\<rparr>))) (\<lambda>(status0, handle).
        if handle = [] then fail (Plain ''idbiaa: 590 returned no consent handle'')
        else let row = consent_row cfg userID handle (first_non_empty [status0, ''PENDING'']) mobile accountID in
          if \<not> stubMode cfg then live_consent cfg pv row else stub_consent coll cfg pv userID row)))"

fun views_of :: "(string \<Rightarrow> int) \<Rightarrow> AAConsentRow list \<Rightarrow> (idbi_db, ConsentView list) act" where
  "views_of coll [] = ret []"
| "views_of coll (r # rs) = bind (ListLinkedAccounts coll (cs_handle r)) (\<lambda>ls. bind (views_of coll rs) (\<lambda>vs. ret (viewOf r ls # vs)))"

definition aa_List :: "(string \<Rightarrow> int) \<Rightarrow> uuid \<Rightarrow> (idbi_db, ConsentView list) act" where
  "aa_List coll userID = bind (repo_ListConsents userID) (views_of coll)"

definition CompleteRedirect :: "(string \<Rightarrow> int) \<Rightarrow> aa_config \<Rightarrow> aa_provider \<Rightarrow> uuid \<Rightarrow> string \<Rightarrow> string \<Rightarrow> string \<Rightarrow> (idbi_db, ConsentView) act" where
  "CompleteRedirect coll cfg pv userID ecres resdate fi =
     bind (wrapping ''idbiaa: 593 generateDecryptedResponse'' (given (pv_decrypt pv ecres resdate fi))) (\<lambda>(handle, code, status).
     if handle = [] then fail (Plain ''idbiaa: 593 decode carried no srcref (consent handle)'')
     else bind (repo_GetConsent handle) (\<lambda>r.
       if (case r of None \<Rightarrow> True | Some row \<Rightarrow> cs_user row \<noteq> userID) then fail (Sent ErrNoConsent)
       else if code = ''0'' \<and> equal_fold status ''S'' then Refresh coll cfg pv userID handle
       else bind (UpdateConsentStatus handle ''REJECTED'' [] None) (\<lambda>_.
         bind (ignoring None (repo_GetConsent handle)) (\<lambda>s. ret (viewOf (case s of None \<Rightarrow> no_consent | Some c \<Rightarrow> c) [])))))"

section \<open>Statements\<close>

definition pull_statement :: "aa_config \<Rightarrow> aa_provider \<Rightarrow> string \<Rightarrow> string list \<Rightarrow> (idbi_db, AAStatementAccount list) act" where
  "pull_statement cfg pv consentID refs = (if equal_fold (ca_source cfg) ''finpro''
     then wrapping ''idbiaa: 739 getAccountStatementFromFinPro'' (given (pv_finpro pv consentID refs))
     else wrapping ''idbiaa: 595 getAccountStatement'' (given (pv_statement pv consentID refs)))"

definition land_statement :: "uuid \<Rightarrow> string \<Rightarrow> AAStatementAccount list \<Rightarrow> (idbi_db, nat) act" where
  "land_statement userID handle stmt = bind (UpsertSpendTransactions userID ''aa'' (AAStatementAllSpendRows stmt)) (\<lambda>n.
     bind (ignoring () (MarkFetched handle)) (\<lambda>_. ret n))"

text \<open>Neither the status of the consent nor its expiry is looked at.\<close>

definition FetchStatements :: "(string \<Rightarrow> int) \<Rightarrow> aa_config \<Rightarrow> aa_provider \<Rightarrow> uuid \<Rightarrow> string \<Rightarrow> (idbi_db, nat) act" where
  "FetchStatements coll cfg pv userID handle = bind (repo_GetConsent handle) (\<lambda>r. case r of
       None \<Rightarrow> fail (Sent ErrNoConsent)
     | Some row \<Rightarrow> if cs_user row \<noteq> userID then fail (Sent ErrNoConsent)
         else bind (ListLinkedAccounts coll handle) (\<lambda>ls.
           let refs = filter (\<lambda>x. x \<noteq> []) (map la_ref ls) in
           if refs = [] then fail (Plain (''idbiaa: consent '' @ handle @ '' has no linked accounts to fetch''))
           else if cs_id row = [] then fail (Plain (''idbiaa: consent '' @ handle @ '' has no consent_id yet '' @ em_dash @ '' refresh it first''))
           else bind (pull_statement cfg pv (cs_id row) refs) (land_statement userID handle)))"

section \<open>Notifications\<close>

record PushConsentNotification =
  pn_handle :: string
  pn_status :: string
  pn_id :: string

definition HandleConsentNotification :: "(string \<Rightarrow> int) \<Rightarrow> aa_config \<Rightarrow> aa_provider \<Rightarrow> PushConsentNotification \<Rightarrow> (idbi_db, unit) act" where
  "HandleConsentNotification coll cfg pv n =
     (if pn_handle n = [] then ret ()
      else bind (repo_GetConsent (pn_handle n)) (\<lambda>r. case r of
        None \<Rightarrow> ret ()
      | Some row \<Rightarrow> let status = consentStatusFromEvent (pn_status n) in
          bind time_now (\<lambda>now.
          bind (UpdateConsentStatus (pn_handle n) status (pn_id n) (if status = ''ACTIVE'' then Some now else None)) (\<lambda>_.
          if status = ''ACTIVE'' then bind (attempt (Refresh coll cfg pv (cs_user row) (pn_handle n))) (\<lambda>_. ret ()) else ret ()))))"

definition HandleDataNotification :: "(string \<Rightarrow> int) \<Rightarrow> aa_config \<Rightarrow> aa_provider \<Rightarrow> string \<Rightarrow> string \<Rightarrow> (idbi_db, unit) act" where
  "HandleDataNotification coll cfg pv handle status =
     (if handle = [] \<or> \<not> equal_fold status ''DATA_READY'' then ret ()
      else bind (repo_GetConsent handle) (\<lambda>r. case r of
        None \<Rightarrow> ret ()
      | Some row \<Rightarrow> bind (attempt (FetchStatements coll cfg pv (cs_user row) handle)) (\<lambda>_. ret ())))"

section \<open>Handlers\<close>

text \<open>
  The consent endpoints exist only when the service is wired. A webhook is acknowledged at
  once, whatever its body; what it starts runs afterwards, without the sender's identity.
\<close>

type_synonym 'a aa_handler = "(idbi_db, 'a http \<times> notices) act"

definition userPhone :: "uuid \<Rightarrow> (idbi_db, string) act" where
  "userPhone userID = ignoring [] (query_row (\<lambda>_ d. map_of (phones d) userID))"

definition CreateConsent :: "(string \<Rightarrow> int) \<Rightarrow> aa_config \<Rightarrow> aa_provider \<Rightarrow> uuid option \<Rightarrow> string \<times> string \<Rightarrow> ConsentView aa_handler" where
  "CreateConsent coll cfg pv u body = with_user u (\<lambda>userID. case body of (mobile0, accountID) \<Rightarrow>
     bind (if mobile0 = [] then userPhone userID else ret mobile0) (\<lambda>mobile.
     or_error [] (RequestConsent coll cfg pv userID mobile accountID) (reply_ok [])))"

text \<open>Without the service: a made-up identifier and nothing stored.\<close>

definition CreateConsent_unwired :: "uuid \<Rightarrow> (string \<times> string) aa_handler" where
  "CreateConsent_unwired fresh = reply_ok [] (''CONSENT-'' @ take 8 fresh, ''ACTIVE'')"

definition ListConsents :: "(string \<Rightarrow> int) \<Rightarrow> uuid option \<Rightarrow> ConsentView list aa_handler" where
  "ListConsents coll u = with_user u (\<lambda>userID. or_error [] (aa_List coll userID) (reply_ok []))"

definition refreshOrGet :: "(string \<Rightarrow> int) \<Rightarrow> aa_config \<Rightarrow> aa_provider \<Rightarrow> uuid option \<Rightarrow> string \<Rightarrow> ConsentView aa_handler" where
  "refreshOrGet coll cfg pv u handle = with_user u (\<lambda>userID. or_error [] (Refresh coll cfg pv userID handle) (reply_ok []))"

definition ConsentCallback :: "(string \<Rightarrow> int) \<Rightarrow> aa_config \<Rightarrow> aa_provider \<Rightarrow> uuid option \<Rightarrow> string + string \<times> string \<times> string \<Rightarrow> ConsentView aa_handler" where
  "ConsentCallback coll cfg pv u body = with_user u (\<lambda>userID. with_body body (\<lambda>(ecres, resdate, fi).
     if ecres = [] then ret (HErr (Validation ''ecres is required''), [])
     else or_error [] (CompleteRedirect coll cfg pv userID ecres resdate fi) (reply_ok [])))"

definition FetchConsentData :: "(string \<Rightarrow> int) \<Rightarrow> aa_config \<Rightarrow> aa_provider \<Rightarrow> uuid option \<Rightarrow> string \<Rightarrow> (string \<times> nat) aa_handler" where
  "FetchConsentData coll cfg pv u handle = with_user u (\<lambda>userID.
     or_error [] (FetchStatements coll cfg pv userID handle) (\<lambda>n. reply_ok [] (handle, n)))"

definition consentNotification :: "(string \<Rightarrow> int) \<Rightarrow> aa_config \<Rightarrow> aa_provider \<Rightarrow> string + PushConsentNotification \<Rightarrow> unit aa_handler" where
  "consentNotification coll cfg pv body = (case body of Inl _ \<Rightarrow> reply_ok [] ()
     | Inr n \<Rightarrow> bind (attempt (HandleConsentNotification coll cfg pv n)) (\<lambda>_. reply_ok [] ()))"

definition dataNotification :: "(string \<Rightarrow> int) \<Rightarrow> aa_config \<Rightarrow> aa_provider \<Rightarrow> string + string \<times> string \<Rightarrow> unit aa_handler" where
  "dataNotification coll cfg pv body = (case body of Inl _ \<Rightarrow> reply_ok [] ()
     | Inr (handle, status) \<Rightarrow> bind (attempt (HandleDataNotification coll cfg pv handle status)) (\<lambda>_. reply_ok [] ()))"

end
