(* ===== verification/IdbiAccounts.thy ===== *)
theory IdbiAccounts
  imports IdbiStore
begin

text \<open>
  The mirror of a customer's deposit accounts: \<open>internal/idbimap/accounts.go\<close>, the replacement of
  the mirror in \<open>internal/repository/idbi_repo.go\<close> and \<open>internal/service/idbiaccounts\<close>. The gateway's
  answers to 365, 394 and 428 are parameters. A refresh is what it pulls followed by what it
  stores, so that other operations can come in between.
\<close>

section \<open>The gateway's documents\<close>

record PersonName =
  nm_first :: string
  nm_middle :: string
  nm_last :: string
  nm_joined :: string

record PerformAccountEnquiryResponse =
  en_acct :: string
  en_schm :: string
  en_curr :: string
  en_cust :: string
  en_person :: PersonName
  en_opened :: string
  en_status :: string
  en_branch :: string
  en_branch_name :: string
  en_balances :: "(string \<times> string) list"

record CustomerAccountInfo =
  ci_curr :: string
  ci_number :: string
  ci_balance :: string
  ci_type :: string

record LienDetails =
  ld_new :: string
  ld_old :: string
  ld_start :: string
  ld_end :: string
  ld_reason :: string
  ld_remarks :: string
  ld_deleted :: string
  ld_id :: string

record idbi_gateway =
  gw_accounts :: "string \<Rightarrow> goerr + string \<times> CustomerAccountInfo list"
  gw_enquiry :: "string \<Rightarrow> goerr + PerformAccountEnquiryResponse"
  gw_lien :: "string \<Rightarrow> string \<Rightarrow> string \<Rightarrow> string \<Rightarrow> string \<Rightarrow> goerr + string \<times> LienDetails"

definition Balance :: "PerformAccountEnquiryResponse \<Rightarrow> string \<Rightarrow> string" where
  "Balance r balType = (case map_of (en_balances r) balType of None \<Rightarrow> [] | Some a \<Rightarrow> a)"

section \<open>Accounts\<close>

record Account =
  an_number :: string
  an_type :: string
  an_currency :: string
  an_cust :: string
  an_cif :: string
  an_holder :: string
  an_status :: string
  an_branch :: string
  an_branch_name :: string
  an_opened :: string
  an_ledger :: rat
  an_available :: rat
  an_effective :: rat
  an_lien :: rat

definition join_words :: "string list \<Rightarrow> string" where
  "join_words ws = (case ws of [] \<Rightarrow> [] | w # r \<Rightarrow> foldl (\<lambda>s x. s @ '' '' @ x) w r)"

definition displayName :: "PersonName \<Rightarrow> string" where
  "displayName n = (let parts = filter (\<lambda>s. s \<noteq> []) (map trim_space [nm_first n, nm_middle n, nm_last n])
     in if parts = [] then trim_space (nm_joined n) else join_words parts)"

text \<open>The ledger balance falls back on \<open>ACCBAL\<close> when it is zero.\<close>

definition AccountFromEnquiry :: "PerformAccountEnquiryResponse \<Rightarrow> Account" where
  "AccountFromEnquiry r = (let ledger = ParseAmount (Balance r ''LEDGER'') in
     \<lparr>an_number = en_acct r, an_type = map_firstNonEmpty [en_schm r, []], an_currency = en_curr r, an_cust = en_cust r, an_cif = [],
      an_holder = displayName (en_person r), an_status = en_status r, an_branch = en_branch r, an_branch_name = en_branch_name r,
      an_opened = en_opened r, an_ledger = (if ledger = 0 then ParseAmount (Balance r ''ACCBAL'') else ledger),
      an_available = ParseAmount (Balance r ''AVAIL''), an_effective = ParseAmount (Balance r ''EFFAVL''),
      an_lien = ParseAmount (Balance r ''LIEN'')\<rparr>)"

definition AccountsFromCustomerList :: "string \<Rightarrow> CustomerAccountInfo list \<Rightarrow> Account list" where
  "AccountsFromCustomerList cif infos = map (\<lambda>ai. let bal = ParseAmount (ci_balance ai) in
     \<lparr>an_number = ci_number ai, an_type = ci_type ai, an_currency = ci_curr ai, an_cust = [], an_cif = cif, an_holder = [],
      an_status = [], an_branch = [], an_branch_name = [], an_opened = [], an_ledger = bal, an_available = bal, an_effective = 0,
      an_lien = 0\<rparr>) infos"

definition or_text :: "string \<Rightarrow> string \<Rightarrow> string" where
  "or_text new old = (if new \<noteq> [] then new else old)"

definition or_amount :: "rat \<Rightarrow> rat \<Rightarrow> rat" where
  "or_amount new old = (if new \<noteq> 0 then new else old)"

definition MergeAccount :: "Account \<Rightarrow> Account \<Rightarrow> Account" where
  "MergeAccount base enrich = base\<lparr>an_cust := or_text (an_cust enrich) (an_cust base), an_cif := or_text (an_cif enrich) (an_cif base),
     an_holder := or_text (an_holder enrich) (an_holder base), an_status := or_text (an_status enrich) (an_status base),
     an_branch := or_text (an_branch enrich) (an_branch base), an_branch_name := or_text (an_branch_name enrich) (an_branch_name base),
     an_opened := or_text (an_opened enrich) (an_opened base), an_type := or_text (an_type enrich) (an_type base),
     an_ledger := or_amount (an_ledger enrich) (an_ledger base), an_available := or_amount (an_available enrich) (an_available base),
     an_effective := or_amount (an_effective enrich) (an_effective base), an_lien := or_amount (an_lien enrich) (an_lien base)\<rparr>"

record LienInfo =
  li_account :: string
  li_active :: bool
  li_amount :: rat
  li_previous :: rat
  li_reason :: string
  li_remarks :: string
  li_id :: string
  li_start :: string
  li_end :: string

definition LienFromResponse :: "string \<Rightarrow> LienDetails \<Rightarrow> LienInfo" where
  "LienFromResponse acct d = \<lparr>li_account = acct, li_active = equal_fold (trim_space (ld_deleted d)) ''N'', li_amount = ParseAmount (ld_new d),
     li_previous = ParseAmount (ld_old d), li_reason = ld_reason d, li_remarks = ld_remarks d, li_id = ld_id d,
     li_start = ld_start d, li_end = ld_end d\<rparr>"

section \<open>The mirror\<close>

definition defaultStr :: "string \<Rightarrow> string \<Rightarrow> string" where
  "defaultStr v fallback = (if v = [] then fallback else v)"

definition mirror_of :: "uuid \<Rightarrow> Account \<Rightarrow> int \<Rightarrow> mirror_row" where
  "mirror_of userID a now = \<lparr>mi_number = an_number a, mi_type = an_type a, mi_currency = defaultStr (an_currency a) ''INR'',
     mi_holder = an_holder a, mi_status = an_status a, mi_branch = an_branch a, mi_branch_name = an_branch_name a,
     mi_ledger = numericFromFloat (an_ledger a), mi_available = numericFromFloat (an_available a),
     mi_effective = numericFromFloat (an_effective a), mi_lien = numericFromFloat (an_lien a), mi_synced = now, mi_user = userID,
     mi_cif = an_cif a, mi_cust = an_cust a,
     mi_opened = (let t = MustParseTime (an_opened a) in if t = zero_time then None else Some t)\<rparr>"

text \<open>What the new row takes over from the one it replaces: texts that came empty, and the opening date.\<close>

definition keep_old :: "mirror_row \<Rightarrow> mirror_row \<Rightarrow> mirror_row" where
  "keep_old new old = new\<lparr>mi_cif := or_text (mi_cif new) (mi_cif old), mi_cust := or_text (mi_cust new) (mi_cust old),
     mi_holder := or_text (mi_holder new) (mi_holder old), mi_branch := or_text (mi_branch new) (mi_branch old),
     mi_branch_name := or_text (mi_branch_name new) (mi_branch_name old),
     mi_opened := (if mi_opened new = None then mi_opened old else mi_opened new)\<rparr>"

definition own_mirror :: "uuid \<Rightarrow> string \<Rightarrow> mirror_row \<Rightarrow> bool" where
  "own_mirror userID number a \<longleftrightarrow> mi_user a = userID \<and> mi_number a = number"

definition mirror_fits :: "mirror_row \<Rightarrow> bool" where
  "mirror_fits a \<longleftrightarrow> numeric_fits 18 (mi_ledger a) \<and> numeric_fits 18 (mi_available a) \<and> numeric_fits 18 (mi_effective a) \<and>
     numeric_fits 18 (mi_lien a)"

definition put_mirror :: "mirror_row \<Rightarrow> mirror_row list \<Rightarrow> mirror_row list" where
  "put_mirror a as = (if list_ex (own_mirror (mi_user a) (mi_number a)) as
     then update_where (own_mirror (mi_user a) (mi_number a)) (keep_old a) as else as @ [a])"

definition upsert_account :: "uuid \<Rightarrow> Account \<Rightarrow> (idbi_db, unit) act" where
  "upsert_account userID a = wrapping (''replace idbi accounts: upsert '' @ an_number a) (exec_check
     (\<lambda>now _. mirror_fits (mirror_of userID a now)) (\<lambda>now d. d\<lparr>mirror := put_mirror (mirror_of userID a now) (mirror d)\<rparr>))"

definition ReplaceAccounts :: "uuid \<Rightarrow> Account list \<Rightarrow> (idbi_db, unit) act" where
  "ReplaceAccounts userID accs = tx (Wrap ''replace idbi accounts: begin'') (\<lambda>_ e. e)
     (bind (foreach (upsert_account userID) accs) (\<lambda>_.
      wrapping ''replace idbi accounts: prune'' (exec_upd (\<lambda>_ d.
        d\<lparr>mirror := filter (\<lambda>a. mi_user a \<noteq> userID \<or> mi_number a \<in> set (map an_number accs)) (mirror d)\<rparr>))))"

section \<open>The service\<close>

record acct_config =
  ac_ttl :: int
  ac_stale :: int
  ac_skip :: bool

definition acct_defaults :: "acct_config \<Rightarrow> acct_config" where
  "acct_defaults cfg = cfg\<lparr>ac_ttl := (if ac_ttl cfg = 0 then 3 * 60 * second else ac_ttl cfg),
     ac_stale := (if ac_stale cfg = 0 then 30 * 60 * second else ac_stale cfg)\<rparr>"

definition SeedLink :: "uuid \<Rightarrow> string \<Rightarrow> string \<Rightarrow> (idbi_db, unit) act" where
  "SeedLink userID cifID custID = (if cifID = [] then fail (Plain ''idbiaccounts: SeedLink requires a cifId'')
     else UpsertCustomerLink userID cifID custID ''seed'')"

definition ResolveLinkByAccount :: "idbi_gateway \<Rightarrow> uuid \<Rightarrow> string \<Rightarrow> (idbi_db, string) act" where
  "ResolveLinkByAccount gw userID accountNumber =
     bind (wrapping (''idbiaccounts: resolve by account '' @ accountNumber) (given (gw_enquiry gw accountNumber))) (\<lambda>resp.
     if en_cust resp = [] then fail (Plain (''idbiaccounts: 365 returned no custId for '' @ accountNumber))
     else bind (UpsertCustomerLink userID [] (en_cust resp) ''account_lookup'') (\<lambda>_. ret (en_cust resp)))"

definition drop_cached :: "uuid \<Rightarrow> (idbi_db, unit) act" where
  "drop_cached userID = set_mem (\<lambda>d. d\<lparr>acct_cache := filter (\<lambda>(k, _). k \<noteq> userID) (acct_cache d)\<rparr>)"

definition Revoke :: "uuid \<Rightarrow> (idbi_db, unit) act" where
  "Revoke userID = bind (DeleteCustomerLink userID) (\<lambda>_. drop_cached userID)"

definition enriched :: "idbi_gateway \<Rightarrow> Account \<Rightarrow> Account" where
  "enriched gw a = (case gw_enquiry gw (an_number a) of Inl _ \<Rightarrow> a | Inr enq \<Rightarrow> MergeAccount a (AccountFromEnquiry enq))"

definition pull_accounts :: "acct_config \<Rightarrow> idbi_gateway \<Rightarrow> uuid \<Rightarrow> (idbi_db, Account list) act" where
  "pull_accounts cfg gw userID = bind (GetCustomerLink userID) (\<lambda>link.
     if ln_cif link = [] then fail (Plain (''idbiaccounts: user '' @ userID @ '' has a custId but no cifId '' @ em_dash @ '' cannot call 394''))
     else bind (wrapping (''idbiaccounts: 394 for cif '' @ ln_cif link) (given (gw_accounts gw (ln_cif link)))) (\<lambda>(cif, infos).
       let accs = AccountsFromCustomerList cif infos in ret (if ac_skip cfg then accs else map (enriched gw) accs)))"

definition store_accounts :: "uuid \<Rightarrow> Account list \<Rightarrow> (idbi_db, unit) act" where
  "store_accounts userID accs = bind (ReplaceAccounts userID accs) (\<lambda>_. drop_cached userID)"

definition acct_Refresh :: "acct_config \<Rightarrow> idbi_gateway \<Rightarrow> uuid \<Rightarrow> (idbi_db, unit) act" where
  "acct_Refresh cfg gw userID = bind (pull_accounts cfg gw userID) (store_accounts userID)"

definition account_view :: "MirroredAccount \<Rightarrow> AccountView" where
  "account_view r = \<lparr>av_number = mi_number r, av_type = mi_type r, av_currency = mi_currency r, av_holder = mi_holder r,
     av_status = mi_status r, av_branch_name = mi_branch_name r, av_ledger = mi_ledger r, av_available = mi_available r,
     av_effective = mi_effective r, av_lien = mi_lien r, av_synced = mi_synced r\<rparr>"

text \<open>A background refresh starts unless one of this user is running; the answer says whether it did.\<close>

definition refreshInBackground :: "uuid \<Rightarrow> (idbi_db, bool) act" where
  "refreshInBackground userID = bind (mem inflight) (\<lambda>busy. if userID \<in> set busy then ret False
     else bind (set_mem (\<lambda>d. d\<lparr>inflight := userID # inflight d\<rparr>)) (\<lambda>_. ret True))"

definition background_refresh :: "acct_config \<Rightarrow> idbi_gateway \<Rightarrow> uuid \<Rightarrow> (idbi_db, unit) act" where
  "background_refresh cfg gw userID = bind (attempt (acct_Refresh cfg gw userID)) (\<lambda>_.
     set_mem (\<lambda>d. d\<lparr>inflight := filter (\<lambda>u. u \<noteq> userID) (inflight d)\<rparr>))"

definition cached_accounts :: "uuid \<Rightarrow> int \<Rightarrow> idbi_db \<Rightarrow> AccountView list option" where
  "cached_accounts userID now d = (case map_of (acct_cache d) userID of None \<Rightarrow> None
     | Some (v, expires) \<Rightarrow> if now > expires then None else Some v)"

definition acct_List :: "(string \<Rightarrow> int) \<Rightarrow> acct_config \<Rightarrow> uuid \<Rightarrow> (idbi_db, AccountView list \<times> bool) act" where
  "acct_List coll cfg userID = bind time_now (\<lambda>now. bind (mem (cached_accounts userID now)) (\<lambda>hit. case hit of
       Some v \<Rightarrow> ret (v, False)
     | None \<Rightarrow> bind (drop_cached userID) (\<lambda>_. bind (idbi_ListAccounts coll userID) (\<lambda>rows.
         let out = map account_view rows; newest = Max (insert zero_time (set (map mi_synced rows))) in
         bind (set_mem (\<lambda>d. d\<lparr>acct_cache := (userID, (out, now + ac_ttl cfg)) # filter (\<lambda>(k, _). k \<noteq> userID) (acct_cache d)\<rparr>)) (\<lambda>_.
         if ac_stale cfg > 0 \<and> (newest = zero_time \<or> now - newest > ac_stale cfg)
         then bind (refreshInBackground userID) (\<lambda>b. ret (out, b)) else ret (out, False))))))"

definition AccountLien :: "(string \<Rightarrow> int) \<Rightarrow> idbi_gateway \<Rightarrow> uuid \<Rightarrow> string \<Rightarrow> (idbi_db, LienInfo) act" where
  "AccountLien coll gw userID accountNumber = bind (idbi_ListAccounts coll userID) (\<lambda>rows.
     case List.find (\<lambda>r. mi_number r = accountNumber) rows of
       None \<Rightarrow> fail (Plain (''idbiaccounts: account '' @ accountNumber @ '' not synced for user '' @ userID))
     | Some acc \<Rightarrow> bind (wrapping (''idbiaccounts: 428 for '' @ accountNumber) (given (gw_lien gw accountNumber
         (defaultStr (mi_currency acc) ''INR'') (mi_type acc) (mi_branch acc) (mi_branch_name acc)))) (\<lambda>(acct, d).
         ret (LienFromResponse acct d)))"

end
