(* ===== verification/IdbiSync.thy ===== *)
theory IdbiSync
  imports IdbiStore
begin

text \<open>
  Pulling a customer's statements into the analytics table: \<open>internal/service/statementsync\<close>. The
  gateway's statement call is a parameter of the request, pagination included; the page loop
  recurses on the number of pages left. The server's clock is in UTC.
\<close>

record FullStatementRequest =
  fq_acct :: string
  fq_branch :: string
  fq_from :: string
  fq_to :: string
  fq_sort :: string
  fq_balance :: "string \<times> string"
  fq_posted :: string
  fq_date :: string
  fq_txn :: string
  fq_serial :: string

type_synonym statement_api = "FullStatementRequest \<Rightarrow> goerr + FullStatementResponse"

record sync_config =
  sy_lookback :: int
  sy_overlap :: int
  sy_pages :: nat

definition sync_defaults :: "sync_config \<Rightarrow> sync_config" where
  "sync_defaults cfg = cfg\<lparr>sy_lookback := (if sy_lookback cfg = 0 then 180 * day_ns else sy_lookback cfg),
     sy_overlap := (if sy_overlap cfg = 0 then 3 * day_ns else sy_overlap cfg),
     sy_pages := (if sy_pages cfg = 0 then 20 else sy_pages cfg)\<rparr>"

text \<open>\<open>t.Format("2006-01-02T15:04:05.000")\<close>: what is below a millisecond is cut off.\<close>

definition format_ms :: "int \<Rightarrow> string" where
  "format_ms t = (case civil (day_of t) of (y, m, d) \<Rightarrow> let ms = t mod day_ns div 1000000; two = (\<lambda>i. pad_zero 2 (itoa i)) in
     pad_zero 4 (itoa y) @ ''-'' @ two (int m + 1) @ ''-'' @ two d @ ''T'' @ two (ms div 3600000) @ '':'' @ two (ms div 60000 mod 60)
       @ '':'' @ two (ms div 1000 mod 60) @ ''.'' @ pad_zero 3 (itoa (ms mod 1000)))"

definition sync_request :: "MirroredAccount \<Rightarrow> int \<Rightarrow> int \<Rightarrow> FullStatementRequest" where
  "sync_request a from_t to_t = \<lparr>fq_acct = mi_number a, fq_branch = mi_branch a, fq_from = format_ms from_t, fq_to = format_ms to_t,
     fq_sort = ''D'', fq_balance = ([], []), fq_posted = [], fq_date = [], fq_txn = [], fq_serial = []\<rparr>"

definition next_page :: "StatementTxn \<Rightarrow> FullStatementRequest \<Rightarrow> FullStatementRequest" where
  "next_page x req = req\<lparr>fq_txn := sx_id x, fq_serial := sx_serial x, fq_posted := sx_posted x, fq_date := sx_value x, fq_balance := sx_balance x\<rparr>"

fun sync_pages :: "statement_api \<Rightarrow> uuid \<Rightarrow> string \<Rightarrow> nat \<Rightarrow> nat \<Rightarrow> FullStatementRequest \<Rightarrow> nat \<Rightarrow> (idbi_db, nat) act" where
  "sync_pages api userID acct page 0 req written = ret written"
| "sync_pages api userID acct page (Suc k) req written =
     bind (wrapping (''393 '' @ acct @ '' page '' @ itoa (int page)) (given (api req))) (\<lambda>resp.
     bind (UpsertSpendTransactions userID ''idbi'' (FullStatementSpendRows acct resp)) (\<lambda>n.
     if fs_more resp \<noteq> ''Y'' \<or> fs_txns resp = [] then ret (written + n)
     else sync_pages api userID acct (page + 1) k (next_page (List.last (fs_txns resp)) req) (written + n)))"

definition syncAccount :: "statement_api \<Rightarrow> sync_config \<Rightarrow> uuid \<Rightarrow> MirroredAccount \<Rightarrow> int \<Rightarrow> int \<Rightarrow> (idbi_db, nat) act" where
  "syncAccount api cfg userID a from_t to_t = sync_pages api userID (mi_number a) 0 (sy_pages cfg) (sync_request a from_t to_t) 0"

text \<open>An account that fails is skipped.\<close>

fun sync_accounts :: "statement_api \<Rightarrow> sync_config \<Rightarrow> uuid \<Rightarrow> int \<Rightarrow> int \<Rightarrow> MirroredAccount list \<Rightarrow> nat \<Rightarrow> (idbi_db, nat) act" where
  "sync_accounts api cfg userID from_t to_t [] tot = ret tot"
| "sync_accounts api cfg userID from_t to_t (a # as) tot =
     bind (ignoring 0 (syncAccount api cfg userID a from_t to_t)) (\<lambda>n. sync_accounts api cfg userID from_t to_t as (tot + n))"

text \<open>Where the sync starts: before the newest row that is there, or the look-back before now.\<close>

definition sync_start :: "sync_config \<Rightarrow> int \<Rightarrow> int \<Rightarrow> int" where
  "sync_start cfg latest now = (if latest \<noteq> zero_time then latest - sy_overlap cfg else now - sy_lookback cfg)"

definition SyncUser :: "(string \<Rightarrow> int) \<Rightarrow> statement_api \<Rightarrow> sync_config \<Rightarrow> uuid \<Rightarrow> (idbi_db, nat) act" where
  "SyncUser coll api cfg userID = bind (GetCustomerLink userID) (\<lambda>_. bind (idbi_ListAccounts coll userID) (\<lambda>accts.
     if accts = [] then fail (Plain (''statementsync: no mirrored accounts for user '' @ userID @ '' (run account refresh first)''))
     else bind (LatestSpendSync userID ''idbi'') (\<lambda>latest. bind time_now (\<lambda>now.
       sync_accounts api cfg userID (sync_start cfg latest now) now accts 0))))"

fun sync_users :: "(string \<Rightarrow> int) \<Rightarrow> statement_api \<Rightarrow> sync_config \<Rightarrow> uuid list \<Rightarrow> nat \<times> nat \<Rightarrow> (idbi_db, nat \<times> nat) act" where
  "sync_users coll api cfg [] acc = ret acc"
| "sync_users coll api cfg (u # us) (users, rows) = bind (attempt (SyncUser coll api cfg u)) (\<lambda>r. case r of
       Inl _ \<Rightarrow> sync_users coll api cfg us (users, rows)
     | Inr n \<Rightarrow> sync_users coll api cfg us (users + 1, rows + n))"

definition SyncAllLinkedUsers :: "(string \<Rightarrow> int) \<Rightarrow> statement_api \<Rightarrow> sync_config \<Rightarrow> (idbi_db, nat \<times> nat) act" where
  "SyncAllLinkedUsers coll api cfg = bind (attempt ListLinkedUserIDs) (\<lambda>r. case r of
       Inl _ \<Rightarrow> ret (0, 0)
     | Inr ids \<Rightarrow> sync_users coll api cfg ids (0, 0))"

end
