(* ===== verification/IdbiFacts.thy ===== *)
theory IdbiFacts
  imports Consents IdbiAccounts IdbiSync
begin

text \<open>
  What the mirror of the bank's data guarantees, and where it does not: keys stay unique and
  consents keep their owner, a repeated fetch changes nothing, the window of a sync ignores the
  configured look-back, a handle given out twice shows one user's consent to another, and a
  refresh that overlaps a revocation brings the mirror back.
\<close>

section \<open>Repeated rows\<close>

definition put_all :: "spend_row list \<Rightarrow> spend_row list \<Rightarrow> spend_row list" where
  "put_all rows rs = foldl (\<lambda>T s. put_spend s T) rs rows"

text \<open>The last row of \<open>rows\<close> with the key of \<open>t\<close>, or \<open>t\<close>.\<close>

fun latest_of :: "spend_row list \<Rightarrow> spend_row \<Rightarrow> spend_row" where
  "latest_of [] t = t"
| "latest_of (s # rows) t = latest_of rows (if same_spend s t then s else t)"

lemma same_spend_after: "same_spend s t \<Longrightarrow> same_spend x s = same_spend x t"
  by (auto simp: same_spend_def)

lemma same_spend_upd: "same_spend x (if same_spend s t then s else t) = same_spend x t"
  by (auto simp: same_spend_def)

lemma list_ex_same_upd: "list_ex (same_spend x) (update_where (same_spend s) (\<lambda>_. s) T) = list_ex (same_spend x) T"
  by (induction T) (auto simp: same_spend_after)

lemma put_all_known:
  "(\<And>s. s \<in> set rows \<Longrightarrow> list_ex (same_spend s) T) \<Longrightarrow> put_all rows T = map (latest_of rows) T"
proof (induction rows arbitrary: T)
  case (Cons s rows)
  let ?U = "update_where (same_spend s) (\<lambda>_. s) T"
  have put: "put_spend s T = ?U" using Cons.prems[of s] by (simp add: put_spend_def)
  have "list_ex (same_spend x) ?U" if "x \<in> set rows" for x
    using Cons.prems[of x] that by (simp add: list_ex_same_upd)
  from Cons.IH[OF this] show ?case by (simp add: put_all_def put update_where_def)
qed (simp add: put_all_def map_idI)

lemma latest_of_snoc: "latest_of (rows @ [s]) t = (if same_spend s (latest_of rows t) then s else latest_of rows t)"
  by (induction rows arbitrary: t) simp_all

lemma latest_key: "same_spend x (latest_of rows t) = same_spend x t"
  by (induction rows arbitrary: t) (simp_all add: same_spend_upd)

lemma put_all_settles:
  "list_all (\<lambda>s. sp_ext s \<noteq> None) rows \<Longrightarrow>
   (\<forall>t \<in> set (put_all rows T). latest_of rows t = t) \<and> (\<forall>s \<in> set rows. list_ex (same_spend s) (put_all rows T))"
proof (induction rows rule: rev_induct)
  case (snoc s rows)
  let ?X = "put_all rows T"
  have e: "put_all (rows @ [s]) T = put_spend s ?X" by (simp add: put_all_def)
  have IH: "\<forall>t \<in> set ?X. latest_of rows t = t" "\<forall>x \<in> set rows. list_ex (same_spend x) ?X" using snoc by simp_all
  have ss: "same_spend s s" using snoc.prems by (simp add: same_spend_def)
  have l: "latest_of (rows @ [s]) s = s" by (simp add: latest_of_snoc latest_key ss)
  show ?case
  proof (cases "list_ex (same_spend s) ?X")
    case True
    then have p: "put_spend s ?X = update_where (same_spend s) (\<lambda>_. s) ?X" by (simp add: put_spend_def)
    have "latest_of (rows @ [s]) t = t" if "t \<in> set (put_spend s ?X)" for t
      using that IH(1) l by (auto simp: p update_where_def latest_of_snoc split: if_splits)
    moreover have "list_ex (same_spend x) (put_spend s ?X)" if "x \<in> set (rows @ [s])" for x
      using that IH(2) True by (auto simp: p list_ex_same_upd)
    ultimately show ?thesis unfolding e by blast
  next
    case False
    then have p: "put_spend s ?X = ?X @ [s]" by (simp add: put_spend_def)
    have "latest_of (rows @ [s]) t = t" if "t \<in> set (?X @ [s])" for t
      using that IH(1) l False by (auto simp: latest_of_snoc list_ex_iff)
    then show ?thesis unfolding e p using IH(2) ss by auto
  qed
qed (simp add: put_all_def map_idI)

text \<open>Writing the same rows again changes nothing.\<close>

lemma put_all_twice:
  assumes "list_all (\<lambda>s. sp_ext s \<noteq> None) rows"
  shows "put_all rows (put_all rows T) = put_all rows T"
proof -
  have "put_all rows (put_all rows T) = map (latest_of rows) (put_all rows T)"
    by (rule put_all_known) (use put_all_settles[OF assms, of T] in blast)
  then show ?thesis using put_all_settles[OF assms, of T] by (simp add: map_idI)
qed

definition rows_of :: "uuid \<Rightarrow> string \<Rightarrow> SpendRow list \<Rightarrow> spend_row list" where
  "rows_of u src rows = map (spend_of u src) (filter spend_usable rows)"

lemma length_rows_of: "length (filter spend_usable rows) = length (rows_of u src rows)"
  by (simp add: rows_of_def)

lemma rows_of_Cons: "rows_of u src (r # rows) = (if spend_usable r then spend_of u src r # rows_of u src rows else rows_of u src rows)"
  by (simp add: rows_of_def)

lemma wp_write_spend [wp_simps]:
  "wp (write_spend u src r) Q E w = (if \<not> spend_usable r then Q () w
     else (faulty w \<longrightarrow> E (Wrap (''upsert spend txn '' @ sr_ext r) (Sent ErrDB)) (tick w)) \<and>
       (\<not> faulty w \<longrightarrow> (if spend_fits (spend_of u src r) then Q () ((tick w)\<lparr>wdb := (wdb w)\<lparr>spends := put_spend (spend_of u src r) (spends (wdb w))\<rparr>\<rparr>)
         else E (Wrap (''upsert spend txn '' @ sr_ext r) (Sent ErrConstraint)) (tick w))))"
  by (simp add: write_spend_def wp_simps)

lemma rows_of_keyed: "list_all (\<lambda>s. sp_ext s \<noteq> None) (rows_of u src rows)"
  by (auto simp: rows_of_def list_all_iff spend_of_def)

lemma wp_write_spends:
  "wp (foreach (write_spend u src) rows)
     (\<lambda>_ w'. wdb w' = (wdb w)\<lparr>spends := put_all (rows_of u src rows) (spends (wdb w))\<rparr> \<and> list_all spend_fits (rows_of u src rows))
     (\<lambda>_ _. True) w"
proof (induction rows arbitrary: w)
  case (Cons r rows)
  show ?case by (auto simp: wp_bind wp_write_spend rows_of_Cons put_all_def intro!: wp_mono[OF Cons.IH])
qed (simp add: wp_simps rows_of_def put_all_def)

lemma wp_Upsert:
  "wp (UpsertSpendTransactions u src rows)
     (\<lambda>n w'. n = length (rows_of u src rows) \<and> list_all spend_fits (rows_of u src rows) \<and>
        wdb w' = (wdb w)\<lparr>spends := put_all (rows_of u src rows) (spends (wdb w))\<rparr>) (\<lambda>_ w'. wdb w' = wdb w) w"
proof (cases "rows = []")
  case False
  then show ?thesis unfolding UpsertSpendTransactions_def if_not_P[OF False] length_rows_of[of rows u src]
    by (intro tx_returns) (auto simp: wp_bind wp_ret wp_fun intro!: wp_mono[OF wp_write_spends])
qed (simp add: UpsertSpendTransactions_def wp_ret rows_of_def put_all_def)

lemma wp_writes_succeed:
  "wfaults w = [] \<Longrightarrow> list_all spend_fits (rows_of u src rows) \<Longrightarrow>
   wp (foreach (write_spend u src) rows) (\<lambda>_ w'. wfaults w' = []) (\<lambda>_ _. False) w"
proof (induction rows arbitrary: w)
  case (Cons r rows)
  then show ?case by (auto simp: wp_bind wp_write_spend rows_of_Cons split: if_splits)
qed (simp add: wp_simps)

lemma Upsert_succeeds:
  assumes "wfaults w = []" "list_all spend_fits (rows_of u src rows)"
  shows "\<exists>w'. UpsertSpendTransactions u src rows w = (Inr (length (rows_of u src rows)), w') \<and> wfaults w' = [] \<and> wnow w' = wnow w \<and>
    wdb w' = (wdb w)\<lparr>spends := put_all (rows_of u src rows) (spends (wdb w))\<rparr>"
proof -
  have "wp (UpsertSpendTransactions u src rows) (\<lambda>_ w'. wfaults w' = []) (\<lambda>_ _. False) w"
    using assms wp_writes_succeed[of "tick w" u src rows]
    by (auto simp: UpsertSpendTransactions_def wp_simps tick_no_faults elim!: wp_mono)
  moreover have "timed (UpsertSpendTransactions u src rows)"
    unfolding UpsertSpendTransactions_def write_spend_def by (intro clock_intros)
  then have "wnow (snd (UpsertSpendTransactions u src rows w)) = wnow w" by (simp add: timed_def)
  ultimately show ?thesis using wp_Upsert[of u src rows w]
    by (cases "UpsertSpendTransactions u src rows w") (auto simp: wp_def split: sum.splits)
qed

section \<open>Fetching twice\<close>

lemma first_consent_update:
  "(\<And>c. cs_handle (f c) = cs_handle c) \<Longrightarrow> first_row (filter (own_handle h) (update_where (own_handle h') f cs)) =
   map_option (\<lambda>c. if cs_handle c = h' then f c else c) (first_row (filter (own_handle h) cs))"
  by (induction cs) (auto simp: own_handle_def)

lemma consent_of_update:
  "(\<And>c. cs_handle (f c) = cs_handle c) \<Longrightarrow>
   consent_of h (d\<lparr>consents := update_where (own_handle h') f (consents d)\<rparr>) = map_option (\<lambda>c. if cs_handle c = h' then f c else c) (consent_of h d)"
  by (simp add: consent_of_def first_consent_update)

lemma consent_of_other [simp]:
  "consent_of h (d\<lparr>spends := x\<rparr>) = consent_of h d" "consent_of h (d\<lparr>linked := y\<rparr>) = consent_of h d"
  by (simp_all add: consent_of_def)

definition link_refs :: "(string \<Rightarrow> int) \<Rightarrow> string \<Rightarrow> idbi_db \<Rightarrow> string list" where
  "link_refs coll h d = filter (\<lambda>x. x \<noteq> []) (map la_ref (sort_key (\<lambda>a. coll (la_ref a)) (filter (\<lambda>a. la_handle a = h) (linked d))))"

definition statement_of :: "aa_config \<Rightarrow> aa_provider \<Rightarrow> string \<Rightarrow> string list \<Rightarrow> goerr + AAStatementAccount list" where
  "statement_of cfg pv i refs = (if equal_fold (ca_source cfg) ''finpro'' then pv_finpro pv i refs else pv_statement pv i refs)"

definition fetches :: "(string \<Rightarrow> int) \<Rightarrow> aa_config \<Rightarrow> aa_provider \<Rightarrow> uuid \<Rightarrow> string \<Rightarrow> AAStatementAccount list \<Rightarrow> idbi_db \<Rightarrow> bool" where
  "fetches coll cfg pv u h st d \<longleftrightarrow> (\<exists>row. consent_of h d = Some row \<and> cs_user row = u \<and> cs_id row \<noteq> [] \<and> link_refs coll h d \<noteq> [] \<and>
     statement_of cfg pv (cs_id row) (link_refs coll h d) = Inr st)"

lemma link_refs_other [simp]:
  "link_refs coll h (d\<lparr>spends := x\<rparr>) = link_refs coll h d" "link_refs coll h (d\<lparr>consents := cs\<rparr>) = link_refs coll h d"
  by (simp_all add: link_refs_def)

lemma fetches_other [simp]: "fetches coll cfg pv u h st (d\<lparr>spends := x\<rparr>) = fetches coll cfg pv u h st d"
  by (simp add: fetches_def)

lemma fetches_marked [simp]:
  "fetches coll cfg pv u h st (d\<lparr>spends := x, consents := update_where (own_handle h) (\<lambda>c. c\<lparr>cs_fetched := t, cs_updated := t'\<rparr>) (consents d)\<rparr>) =
   fetches coll cfg pv u h st d"
  by (cases "first_row (filter (own_handle h) (consents d))") (auto simp: fetches_def consent_of_def first_consent_update)

lemma wp_pull_statement:
  "wp (pull_statement cfg pv i refs) Q (\<lambda>_ _. True) w \<longleftrightarrow> (\<forall>st. statement_of cfg pv i refs = Inr st \<longrightarrow> Q st w)"
  by (auto simp: pull_statement_def statement_of_def wp_simps split: sum.split)

lemma wp_MarkFetched [wp_simps]:
  "wp (ignoring () (MarkFetched h)) Q E w \<longleftrightarrow> (faulty w \<longrightarrow> Q () (tick w)) \<and> (\<not> faulty w \<longrightarrow> Q () ((tick w)\<lparr>wdb := (wdb w)\<lparr>consents :=
     update_where (own_handle h) (\<lambda>c. c\<lparr>cs_fetched := Some (wnow w), cs_updated := wnow w\<rparr>) (consents (wdb w))\<rparr>\<rparr>))"
  by (simp add: MarkFetched_def wp_simps)

definition landed :: "(string \<Rightarrow> int) \<Rightarrow> aa_config \<Rightarrow> aa_provider \<Rightarrow> uuid \<Rightarrow> string \<Rightarrow> idbi_db \<Rightarrow> nat \<Rightarrow> idbi_db \<Rightarrow> bool" where
  "landed coll cfg pv u h d n d' \<longleftrightarrow> (\<exists>st. fetches coll cfg pv u h st d \<and> fetches coll cfg pv u h st d' \<and>
     (let rows = rows_of u ''aa'' (AAStatementAllSpendRows st) in n = length rows \<and> list_all spend_fits rows \<and>
        spends d' = put_all rows (spends d)))"

lemma landedI:
  "fetches coll cfg pv u h st d \<Longrightarrow> fetches coll cfg pv u h st d' \<Longrightarrow> n = length (rows_of u ''aa'' (AAStatementAllSpendRows st)) \<Longrightarrow>
   list_all spend_fits (rows_of u ''aa'' (AAStatementAllSpendRows st)) \<Longrightarrow>
   spends d' = put_all (rows_of u ''aa'' (AAStatementAllSpendRows st)) (spends d) \<Longrightarrow> landed coll cfg pv u h d n d'"
  by (auto simp: landed_def Let_def)

lemma wp_land:
  assumes "fetches coll cfg pv u h st (wdb w)"
  shows "wp (land_statement u h st) (\<lambda>n w'. landed coll cfg pv u h (wdb w) n (wdb w')) (\<lambda>_ _. True) w"
  unfolding land_statement_def wp_bind wp_fun wp_ret
  by (rule wp_mono[OF wp_Upsert]) (use assms in \<open>auto simp: wp_MarkFetched intro!: landedI\<close>)

lemma wp_Fetch:
  "wp (FetchStatements coll cfg pv u h) (\<lambda>n w'. landed coll cfg pv u h (wdb w) n (wdb w')) (\<lambda>_ _. True) w"
proof -
  have "wp (land_statement u h st) (\<lambda>n w'. landed coll cfg pv u h (wdb w) n (wdb w')) (\<lambda>_ _. True) v"
    if "consent_of h (wdb w) = Some row" "cs_user row = u" "cs_id row \<noteq> []" "link_refs coll h (wdb w) \<noteq> []"
      "statement_of cfg pv (cs_id row) (link_refs coll h (wdb w)) = Inr st" "wdb v = wdb w" for row st v
    using wp_land[of coll cfg pv u h st v] that by (auto simp: fetches_def)
  then show ?thesis unfolding FetchStatements_def repo_GetConsent_def ListLinkedAccounts_def Let_def
    by (auto simp: wp_bind wp_fun wp_get_row wp_option wp_fail wp_if wp_wrapping wp_query wp_pull_statement link_refs_def[symmetric] split: option.split)
qed

lemma fetch_again:
  assumes "wfaults w = []" "fetches coll cfg pv u h st (wdb w)" "list_all spend_fits (rows_of u ''aa'' (AAStatementAllSpendRows st))"
  shows "\<exists>w'. FetchStatements coll cfg pv u h w = (Inr (length (rows_of u ''aa'' (AAStatementAllSpendRows st))), w') \<and>
    spends (wdb w') = put_all (rows_of u ''aa'' (AAStatementAllSpendRows st)) (spends (wdb w))"
proof -
  from assms(2) obtain row where row: "consent_of h (wdb w) = Some row" "cs_user row = u" "cs_id row \<noteq> []" "link_refs coll h (wdb w) \<noteq> []"
    "statement_of cfg pv (cs_id row) (link_refs coll h (wdb w)) = Inr st" by (auto simp: fetches_def)
  obtain v where v: "UpsertSpendTransactions u ''aa'' (AAStatementAllSpendRows st) w = (Inr (length (rows_of u ''aa'' (AAStatementAllSpendRows st))), v)"
    "wfaults v = []" "wdb v = (wdb w)\<lparr>spends := put_all (rows_of u ''aa'' (AAStatementAllSpendRows st)) (spends (wdb w))\<rparr>"
    using Upsert_succeeds[OF assms(1,3)] by blast
  from v(1) have up: "wp (UpsertSpendTransactions u ''aa'' (AAStatementAllSpendRows st))
      (\<lambda>b v'. b = length (rows_of u ''aa'' (AAStatementAllSpendRows st)) \<and> v' = v) (\<lambda>_ _. False) w" by (simp only: wp_eq_returns)
  have "wp (land_statement u h st) (\<lambda>n w'. n = length (rows_of u ''aa'' (AAStatementAllSpendRows st)) \<and>
      spends (wdb w') = put_all (rows_of u ''aa'' (AAStatementAllSpendRows st)) (spends (wdb w))) (\<lambda>_ _. False) w"
    unfolding land_statement_def wp_bind
    by (rule wp_mono[OF up]) (use v in \<open>auto simp: wp_bind wp_fun wp_ret wp_MarkFetched\<close>)
  then have "wp (FetchStatements coll cfg pv u h) (\<lambda>n w'. n = length (rows_of u ''aa'' (AAStatementAllSpendRows st)) \<and>
      spends (wdb w') = put_all (rows_of u ''aa'' (AAStatementAllSpendRows st)) (spends (wdb w))) (\<lambda>_ _. False) w"
    using row assms(1) unfolding FetchStatements_def repo_GetConsent_def ListLinkedAccounts_def Let_def
    by (auto simp: wp_bind wp_fun wp_get_row wp_option wp_fail wp_if wp_wrapping wp_query pull_statement_def statement_of_def wp_given tick_no_faults
        link_refs_def[symmetric] split: option.split sum.splits if_splits)
  then show ?thesis by (cases "FetchStatements coll cfg pv u h w") (auto simp: wp_def split: sum.splits)
qed

text \<open>
  C34. Fetching is idempotent: when a fetch of a consent's statements has written its rows and
  the gateway answers the same again, a second fetch (the user's, or one a repeated
  notification starts) succeeds with the same count and leaves the analytics table as it is -
  duplicates within the statement included, whose last row wins both times.
\<close>

theorem fetch_twice:
  assumes "FetchStatements coll cfg pv u h w = (Inr n, w1)" "wfaults w1 = []"
  shows "\<exists>w2. FetchStatements coll cfg pv u h w1 = (Inr n, w2) \<and> spends (wdb w2) = spends (wdb w1)"
proof -
  from wp_returns[OF wp_Fetch assms(1)] obtain st where st: "fetches coll cfg pv u h st (wdb w1)"
    "n = length (rows_of u ''aa'' (AAStatementAllSpendRows st))" "list_all spend_fits (rows_of u ''aa'' (AAStatementAllSpendRows st))"
    "spends (wdb w1) = put_all (rows_of u ''aa'' (AAStatementAllSpendRows st)) (spends (wdb w))"
    by (auto simp: landed_def Let_def)
  from fetch_again[OF assms(2) st(1,3)] show ?thesis using st put_all_twice[OF rows_of_keyed] by auto
qed

section \<open>The window of a sync\<close>

definition mirrored :: "(string \<Rightarrow> int) \<Rightarrow> uuid \<Rightarrow> idbi_db \<Rightarrow> MirroredAccount list" where
  "mirrored coll u d = map MirroredAccount.truncate (sort_key (\<lambda>a. coll (mi_type a)) (sort_key (\<lambda>a. coll (mi_number a)) (filter (\<lambda>a. mi_user a = u) (mirror d))))"

definition newest_row :: "uuid \<Rightarrow> idbi_db \<Rightarrow> int" where
  "newest_row u d = (let ts = map sp_at (filter (\<lambda>s. sp_user s = u \<and> sp_source s = ''idbi'') (spends d)) in if ts = [] then 0 else Max (set ts))"

lemma newest_row_set: "list_all (\<lambda>s. sp_at s \<noteq> zero_time) (spends d) \<Longrightarrow> newest_row u d \<noteq> zero_time"
proof -
  assume a: "list_all (\<lambda>s. sp_at s \<noteq> zero_time) (spends d)"
  let ?ts = "map sp_at (filter (\<lambda>s. sp_user s = u \<and> sp_source s = ''idbi'') (spends d))"
  show ?thesis
  proof (cases "?ts = []")
    case False
    then have "Max (set ?ts) \<in> set ?ts" by (intro Max_in) (auto simp: filter_empty_conv)
    then show ?thesis using a False by (auto simp: newest_row_def Let_def list_all_iff)
  qed (simp add: newest_row_def zero_time_def)
qed

lemma sync_lookback [simp]: "sync_accounts api (cfg\<lparr>sy_lookback := x\<rparr>) u a b accts n = sync_accounts api cfg u a b accts n"
  by (induction accts arbitrary: n) (simp_all add: syncAccount_def)

lemma SyncUser_eq:
  assumes "wfaults w = []" "list_ex (\<lambda>l. ln_user l = u) (cust_links (wdb w))" "mirrored coll u (wdb w) \<noteq> []"
  shows "SyncUser coll api cfg u w =
    sync_accounts api cfg u (sync_start cfg (newest_row u (wdb w)) (wnow w)) (wnow w) (mirrored coll u (wdb w)) 0 w"
proof -
  from assms(2) obtain l where "first_row (filter (\<lambda>l. ln_user l = u) (cust_links (wdb w))) = Some l"
    by (cases "filter (\<lambda>l. ln_user l = u) (cust_links (wdb w))") (auto simp: list_ex_iff filter_empty_conv)
  then show ?thesis using assms(1,3)
    by (simp add: tick_no_faults SyncUser_def GetCustomerLink_def idbi_ListAccounts_def LatestSpendSync_def get_row_def query_row_def exec_def attempt_def bind_def
        wrapping_def query_def ret_def time_now_def fail_def mirrored_def[symmetric] newest_row_def[symmetric] del: map_is_Nil_conv)
qed


section \<open>A handle given out twice\<close>

lemma Refresh_foreign:
  assumes "wfaults w = []" "consent_of h (wdb w) = Some c" "cs_user c \<noteq> u"
  shows "Refresh coll cfg pv u h w = (Inl (Sent ErrNoConsent), w)"
  using assms by (simp add: wp_eq_fails Refresh_def repo_GetConsent_def wp_simps tick_no_faults)

text \<open>What a second request under the same handle leaves of the stored row.\<close>

definition shows_of :: "AAConsentRow \<Rightarrow> AAConsentRow \<Rightarrow> bool" where
  "shows_of c c' \<longleftrightarrow> cs_user c' = cs_user c \<and> cs_vua c' = cs_vua c \<and> cs_id c' = cs_id c \<and> cs_account c' = cs_account c \<and>
     cs_approved c' = cs_approved c"

definition leaks :: "AAConsentRow \<Rightarrow> ConsentView \<Rightarrow> bool" where
  "leaks c v \<longleftrightarrow> cv_vua v = cs_vua c \<and> cv_id v = cs_id c \<and> cv_account v = cs_account c \<and> cv_approved v = cs_approved c"

lemma leaks_view: "shows_of c c' \<Longrightarrow> leaks c (viewOf c' ls)"
  by (simp add: leaks_def shows_of_def viewOf_def)

lemma shows_again: "cs_id r = [] \<Longrightarrow> shows_of c (again r now c)"
  by (simp add: shows_of_def again_def)

lemma wp_CreateConsent_known:
  assumes "wfaults w = []" "consent_of (cs_handle row) (wdb w) = Some c" "cs_id row = []"
  shows "wp (repo_CreateConsent row) (\<lambda>_ w'. wfaults w' = [] \<and> (\<exists>c'. consent_of (cs_handle row) (wdb w') = Some c' \<and> shows_of c c')) (\<lambda>_ _. False) w"
proof -
  have known: "list_ex (own_handle (cs_handle row)) (consents (wdb w))"
    using assms(2) by (auto simp: consent_of_def list_ex_iff dest: first_row_filterD)
  have "cs_handle (again r t x) = cs_handle x" for r t x by (simp add: again_def)
  then show ?thesis using assms known
    by (simp add: repo_CreateConsent_def Let_def wp_wrapping wp_exec_upd tick_no_faults consent_of_update shows_again shows_of_def[of c c])
qed

lemma wp_stub_leaks:
  assumes "wfaults w = []" "consent_of (cs_handle row) (wdb w) = Some c" "cs_id row = []" "cs_user c \<noteq> u"
  shows "wp (stub_consent coll cfg pv u row) (\<lambda>view _. leaks c view) (\<lambda>_ _. False) w"
  unfolding stub_consent_def wp_bind
proof (rule wp_mono[OF wp_CreateConsent_known[OF assms(1-3)]], goal_cases)
  case (1 _ v)
  then obtain c' where v: "wfaults v = []" "consent_of (cs_handle row) (wdb v) = Some c'" "shows_of c c'" by blast
  have "Refresh coll cfg pv u (cs_handle row) v = (Inl (Sent ErrNoConsent), v)"
    by (rule Refresh_foreign[OF v(1,2)]) (use v(3) assms(4) in \<open>simp add: shows_of_def\<close>)
  then have r: "wp (Refresh coll cfg pv u (cs_handle row)) (\<lambda>_ _. False) (\<lambda>e w'. e = Sent ErrNoConsent \<and> w' = v) v" by (simp only: wp_eq_fails)
  show ?case unfolding wp_attempt
    by (rule wp_mono[OF r]) (use v in \<open>auto simp: wp_bind wp_fun wp_ret wp_ignoring repo_GetConsent_def wp_get_row leaks_view\<close>)
qed simp


section \<open>A refresh that overlaps a revocation\<close>

lemma wp_Revoke:
  "wp (Revoke u) (\<lambda>_ w'. (\<forall>l \<in> set (cust_links (wdb w')). ln_user l \<noteq> u)) (\<lambda>_ _. True) w"
  by (simp add: Revoke_def DeleteCustomerLink_def drop_cached_def wp_simps)

lemma list_ex_keep_old: "list_ex (own_mirror u n) (update_where (own_mirror u' n') (keep_old a) ms) = list_ex (own_mirror u n) ms"
  if "mi_user a = u'" "mi_number a = n'"
  using that by (induction ms) (auto simp: own_mirror_def keep_old_def)

lemma put_mirror_has: "list_ex (own_mirror u n) (put_mirror a ms) \<longleftrightarrow> list_ex (own_mirror u n) ms \<or> own_mirror u n a"
proof (cases "list_ex (own_mirror (mi_user a) (mi_number a)) ms")
  case True
  then show ?thesis by (auto simp: put_mirror_def list_ex_keep_old own_mirror_def[of _ _ a])
qed (simp add: put_mirror_def)

lemma wp_upsert_account:
  "wp (upsert_account u a) (\<lambda>_ w'. cust_links (wdb w') = cust_links (wdb w) \<and>
     (\<forall>n. list_ex (own_mirror u n) (mirror (wdb w')) \<longleftrightarrow> list_ex (own_mirror u n) (mirror (wdb w)) \<or> n = an_number a)) (\<lambda>_ _. True) w"
  by (auto simp: upsert_account_def wp_wrapping wp_exec_check put_mirror_has own_mirror_def mirror_of_def)

lemma wp_upsert_accounts:
  "wp (foreach (upsert_account u) accs) (\<lambda>_ w'. cust_links (wdb w') = cust_links (wdb w) \<and>
     (\<forall>a \<in> set accs. list_ex (own_mirror u (an_number a)) (mirror (wdb w'))) \<and>
     (\<forall>n. list_ex (own_mirror u n) (mirror (wdb w)) \<longrightarrow> list_ex (own_mirror u n) (mirror (wdb w')))) (\<lambda>_ _. True) w"
proof (induction accs arbitrary: w)
  case (Cons a accs)
  show ?case unfolding wp_foreach_Cons
    by (rule wp_mono[OF wp_upsert_account]; (rule wp_mono[OF Cons.IH])?) auto
qed (simp add: wp_simps)

lemma wp_store_accounts:
  assumes "accs \<noteq> []"
  shows "wp (store_accounts u accs) (\<lambda>_ w'. cust_links (wdb w') = cust_links (wdb w) \<and> (\<exists>a \<in> set (mirror (wdb w')). mi_user a = u)) (\<lambda>_ _. True) w"
proof -
  obtain a where a: "a \<in> set accs" using assms by (cases accs) auto
  show ?thesis unfolding store_accounts_def ReplaceAccounts_def wp_bind
    by (rule wp_mono[OF tx_returns[where Q = "\<lambda>_ w'. cust_links (wdb w') = cust_links (wdb w) \<and> (\<exists>a \<in> set (mirror (wdb w')). mi_user a = u)"]])
      (use a in \<open>fastforce simp: wp_bind wp_wrapping wp_exec_upd drop_cached_def wp_set_mem list_ex_iff own_mirror_def intro!: wp_mono[OF wp_upsert_accounts]\<close>)+
qed


section \<open>What every operation keeps\<close>

definition spend_key :: "spend_row \<Rightarrow> uuid \<times> string \<times> string option" where
  "spend_key s = (sp_user s, sp_source s, sp_ext s)"

definition keyed_spends :: "spend_row list \<Rightarrow> spend_row list" where
  "keyed_spends = filter (\<lambda>s. sp_ext s \<noteq> None)"

definition idbi_inv :: "idbi_db \<Rightarrow> bool" where
  "idbi_inv d \<longleftrightarrow> distinct (map cs_handle (consents d)) \<and> distinct (map (\<lambda>a. (la_handle a, la_ref a)) (linked d)) \<and>
     (\<forall>a \<in> set (linked d). la_handle a \<in> cs_handle ` set (consents d)) \<and> distinct (map spend_key (keyed_spends (spends d))) \<and>
     distinct (map (\<lambda>a. (mi_user a, mi_number a)) (mirror d)) \<and> distinct (map ln_user (cust_links d))"

text \<open>A consent keeps its owner, and neither its identifier nor its approval is ever erased.\<close>

definition outlives :: "AAConsentRow \<Rightarrow> AAConsentRow \<Rightarrow> bool" where
  "outlives c c' \<longleftrightarrow> cs_handle c' = cs_handle c \<and> cs_user c' = cs_user c \<and> (cs_id c \<noteq> [] \<longrightarrow> cs_id c' \<noteq> []) \<and>
     (cs_approved c \<noteq> None \<longrightarrow> cs_approved c' \<noteq> None)"

definition idbi_sound :: "idbi_db \<Rightarrow> idbi_db \<Rightarrow> bool" where
  "idbi_sound d0 d \<longleftrightarrow> idbi_inv d \<and> (\<forall>c \<in> set (consents d0). \<exists>c' \<in> set (consents d). outlives c c')"

lemma distinct_put:
  assumes "distinct (map k xs)" "\<And>y. p y \<longleftrightarrow> k y = k x" "\<And>y. p y \<Longrightarrow> k (f y) = k y"
  shows "distinct (map k (if list_ex p xs then update_where p f xs else xs @ [x]))"
proof -
  have "map k (update_where p f xs) = map k xs" using assms(3) by (induction xs) auto
  then show ?thesis using assms(1,2) by (auto simp: list_ex_iff)
qed

lemma outlives_refl: "outlives c c"
  by (simp add: outlives_def)

lemma outlives_trans: "outlives a b \<Longrightarrow> outlives b c \<Longrightarrow> outlives a c"
  by (auto simp: outlives_def)

lemma idbi_sound_refl: "idbi_inv d \<Longrightarrow> idbi_sound d d"
  using outlives_refl by (auto simp: idbi_sound_def)

lemma sound_memory [simp]:
  "idbi_sound d0 (d\<lparr>acct_cache := x\<rparr>) = idbi_sound d0 d" "idbi_sound d0 (d\<lparr>inflight := y\<rparr>) = idbi_sound d0 d"
  by (simp_all add: idbi_sound_def idbi_inv_def)

lemma sound_update_consents:
  assumes "idbi_sound d0 d" "\<And>c. outlives c (f c)"
  shows "idbi_sound d0 (d\<lparr>consents := update_where p f (consents d)\<rparr>)"
proof -
  have h: "cs_handle (f c) = cs_handle c" for c using assms(2)[of c] by (simp add: outlives_def)
  have "\<exists>c'' \<in> set (update_where p f (consents d)). outlives c c''" if "c \<in> set (consents d0)" for c
    using assms that outlives_trans by (fastforce simp: idbi_sound_def bex_update_where)
  moreover have "cs_handle ` set (update_where p f (consents d)) = cs_handle ` set (consents d)"
    by (metis h list.set_map map_update_where)
  ultimately show ?thesis using assms(1) h by (auto simp: idbi_sound_def idbi_inv_def map_update_where)
qed

lemma sound_add_consent:
  "idbi_sound d0 d \<Longrightarrow> \<not> list_ex (own_handle (cs_handle c)) (consents d) \<Longrightarrow> idbi_sound d0 (d\<lparr>consents := consents d @ [c]\<rparr>)"
  by (auto simp: idbi_sound_def idbi_inv_def list_ex_iff own_handle_def)

lemma sound_put_spend:
  assumes "idbi_sound d0 d" "sp_ext s \<noteq> None"
  shows "idbi_sound d0 (d\<lparr>spends := put_spend s (spends d)\<rparr>)"
proof -
  have f: "keyed_spends (update_where (same_spend s) (\<lambda>_. s) xs) = update_where (same_spend s) (\<lambda>_. s) (keyed_spends xs)" for xs
    using assms(2) by (induction xs) (auto simp: keyed_spends_def same_spend_def)
  have e: "list_ex (same_spend s) (keyed_spends xs) = list_ex (same_spend s) xs" for xs
    using assms(2) by (induction xs) (auto simp: keyed_spends_def same_spend_def)
  have k: "keyed_spends (put_spend s xs) = (if list_ex (same_spend s) (keyed_spends xs)
      then update_where (same_spend s) (\<lambda>_. s) (keyed_spends xs) else keyed_spends xs @ [s])" for xs
    using assms(2) by (simp add: put_spend_def f e) (simp add: keyed_spends_def)
  have "distinct (map spend_key (keyed_spends (spends d)))" using assms(1) by (simp add: idbi_sound_def idbi_inv_def)
  then have "distinct (map spend_key (keyed_spends (put_spend s (spends d))))"
    unfolding k by (rule distinct_put) (use assms(2) in \<open>auto simp: same_spend_def spend_key_def\<close>)
  then show ?thesis using assms(1) by (simp add: idbi_sound_def idbi_inv_def)
qed

lemma sound_put_link:
  assumes "idbi_sound d0 d" "list_ex (own_handle (la_handle a)) (consents d)"
  shows "idbi_sound d0 (d\<lparr>linked := put_link a (linked d)\<rparr>)"
proof -
  have "distinct (map (\<lambda>a. (la_handle a, la_ref a)) (linked d))" using assms(1) by (simp add: idbi_sound_def idbi_inv_def)
  then have "distinct (map (\<lambda>a. (la_handle a, la_ref a)) (put_link a (linked d)))"
    unfolding put_link_def by (rule distinct_put) (auto simp: same_link_def)
  moreover have "la_handle a \<in> cs_handle ` set (consents d)" using assms(2) by (auto simp: list_ex_iff own_handle_def image_iff intro: sym)
  ultimately show ?thesis using assms(1)
    by (auto simp: idbi_sound_def idbi_inv_def put_link_def update_where_def)
qed

lemma sound_prune: "idbi_sound d0 d \<Longrightarrow> idbi_sound d0 (pruned h keep d)"
  by (auto simp: idbi_sound_def idbi_inv_def pruned_def distinct_map_filter)

lemma sound_put_mirror:
  assumes "idbi_sound d0 d"
  shows "idbi_sound d0 (d\<lparr>mirror := put_mirror a (mirror d)\<rparr>)"
proof -
  have "distinct (map (\<lambda>a. (mi_user a, mi_number a)) (mirror d))" using assms by (simp add: idbi_sound_def idbi_inv_def)
  then have "distinct (map (\<lambda>a. (mi_user a, mi_number a)) (put_mirror a (mirror d)))"
    unfolding put_mirror_def by (rule distinct_put) (auto simp: own_mirror_def keep_old_def)
  then show ?thesis using assms by (simp add: idbi_sound_def idbi_inv_def)
qed

lemma sound_filters:
  "idbi_sound d0 d \<Longrightarrow> idbi_sound d0 (d\<lparr>mirror := filter p (mirror d)\<rparr>)"
  "idbi_sound d0 d \<Longrightarrow> idbi_sound d0 (d\<lparr>cust_links := filter q (cust_links d)\<rparr>)"
  by (auto simp: idbi_sound_def idbi_inv_def distinct_map_filter)

lemma sound_relink:
  assumes "idbi_sound d0 d"
  shows "idbi_sound d0 (d\<lparr>cust_links := (if list_ex (\<lambda>l. ln_user l = u) (cust_links d)
    then update_where (\<lambda>l. ln_user l = u) (relinked cif cust src) (cust_links d)
    else cust_links d @ [\<lparr>ln_user = u, ln_cif = cif, ln_cust = cust, ln_source = src, ln_linked = now\<rparr>])\<rparr>)"
proof -
  have "distinct (map ln_user (cust_links d))" using assms by (simp add: idbi_sound_def idbi_inv_def)
  then have "distinct (map ln_user (if list_ex (\<lambda>l. ln_user l = u) (cust_links d)
    then update_where (\<lambda>l. ln_user l = u) (relinked cif cust src) (cust_links d)
    else cust_links d @ [\<lparr>ln_user = u, ln_cif = cif, ln_cust = cust, ln_source = src, ln_linked = now\<rparr>]))"
    by (rule distinct_put) (auto simp: relinked_def)
  then show ?thesis using assms by (simp add: idbi_sound_def idbi_inv_def)
qed

lemma steady_repo_consents [steady_intros]:
  "steady (idbi_sound d0) (repo_CreateConsent c)" "steady (idbi_sound d0) (UpdateConsentStatus h st i a)"
  "steady (idbi_sound d0) (MarkFetched h)" "steady (idbi_sound d0) (repo_GetConsent h)" "steady (idbi_sound d0) (repo_ListConsents u)"
  "steady (idbi_sound d0) (ListLinkedAccounts coll h)" "steady (idbi_sound d0) (ReplaceLinkedAccounts h accs)"
proof -
  have new: "\<not> list_ex (own_handle h') (consents d) \<Longrightarrow> idbi_sound d0 d \<Longrightarrow> cs_handle c' = h' \<Longrightarrow> idbi_sound d0 (d\<lparr>consents := consents d @ [c']\<rparr>)"
    for h' d c' by (rule sound_add_consent) auto
  show "steady (idbi_sound d0) (repo_CreateConsent c)" unfolding repo_CreateConsent_def
    by (intro steady_intros) (auto intro!: sound_update_consents new simp: again_def outlives_def)
  show "steady (idbi_sound d0) (UpdateConsentStatus h st i a)" unfolding UpdateConsentStatus_def
    by (intro steady_intros) (auto intro!: sound_update_consents simp: with_status_def outlives_def)
  show "steady (idbi_sound d0) (MarkFetched h)" unfolding MarkFetched_def
    by (intro steady_intros) (auto intro!: sound_update_consents simp: outlives_def)
  show "steady (idbi_sound d0) (repo_GetConsent h)" "steady (idbi_sound d0) (repo_ListConsents u)" "steady (idbi_sound d0) (ListLinkedAccounts coll h)"
    unfolding repo_GetConsent_def repo_ListConsents_def ListLinkedAccounts_def by (intro steady_intros)+
  show "steady (idbi_sound d0) (ReplaceLinkedAccounts h accs)" unfolding ReplaceLinkedAccounts_def upsert_link_def
    by (intro steady_intros) (auto intro!: sound_put_link sound_prune)
qed

lemma steady_write_spend [steady_intros]: "steady (idbi_sound d0) (write_spend u src r)"
  unfolding write_spend_def by (intro steady_intros sound_put_spend) (simp_all add: spend_of_def)

lemma steady_Upsert [steady_intros]: "steady (idbi_sound d0) (UpsertSpendTransactions u src rows)"
  unfolding UpsertSpendTransactions_def by (intro steady_intros)

lemma steady_links [steady_intros]:
  "steady (idbi_sound d0) (GetCustomerLink u)" "steady (idbi_sound d0) ListLinkedUserIDs" "steady (idbi_sound d0) (idbi_ListAccounts coll u)"
  "steady (idbi_sound d0) (LatestSpendSync u src)" "steady (idbi_sound d0) (UpsertCustomerLink u cif cust src)"
  "steady (idbi_sound d0) (DeleteCustomerLink u)" "steady (idbi_sound d0) (drop_cached u)"
  unfolding GetCustomerLink_def ListLinkedUserIDs_def idbi_ListAccounts_def LatestSpendSync_def UpsertCustomerLink_def DeleteCustomerLink_def
    drop_cached_def
  by ((intro steady_intros sound_relink sound_filters; simp?)+)

lemma steady_ReplaceAccounts [steady_intros]: "steady (idbi_sound d0) (ReplaceAccounts u accs)"
  unfolding ReplaceAccounts_def upsert_account_def by (intro steady_intros sound_put_mirror sound_filters; simp?)

lemma steady_aa_parts [steady_intros]:
  "steady (idbi_sound d0) numericID" "steady (idbi_sound d0) (stored_view coll h c)" "steady (idbi_sound d0) (take_over coll h c m)"
  "steady (idbi_sound d0) (live_consent cfg pv c)" "steady (idbi_sound d0) (views_of coll cs)"
  "steady (idbi_sound d0) (pull_statement cfg pv i refs)" "steady (idbi_sound d0) (land_statement u h stm)"
proof -
  show "steady (idbi_sound d0) (views_of coll cs)" by (induction cs) (simp_all, (intro steady_intros | assumption)+)
  show "steady (idbi_sound d0) (stored_view coll h c)" for h c unfolding stored_view_def by (intro steady_intros)
  then show "steady (idbi_sound d0) (take_over coll h c m)" unfolding take_over_def Let_def by (intro steady_intros)
qed (unfold numericID_def live_consent_def Let_def pull_statement_def land_statement_def, (intro steady_intros)+)

lemma steady_aa_Refresh [steady_intros]: "steady (idbi_sound d0) (Refresh coll cfg pv u h)"
  unfolding Refresh_def by (intro steady_intros)

lemma steady_stub [steady_intros]: "steady (idbi_sound d0) (stub_consent coll cfg pv u c)"
  unfolding stub_consent_def by (intro steady_intros)

lemma steady_Fetch [steady_intros]: "steady (idbi_sound d0) (FetchStatements coll cfg pv u h)"
  unfolding FetchStatements_def Let_def by (intro steady_intros)

lemma steady_aa [steady_intros]:
  "steady (idbi_sound d0) (RequestConsent coll cfg pv u m a)" "steady (idbi_sound d0) (aa_List coll u)"
  "steady (idbi_sound d0) (CompleteRedirect coll cfg pv u e r f)" "steady (idbi_sound d0) (HandleConsentNotification coll cfg pv n)"
  "steady (idbi_sound d0) (HandleDataNotification coll cfg pv h st)"
  unfolding RequestConsent_def aa_List_def CompleteRedirect_def HandleConsentNotification_def HandleDataNotification_def Let_def
  by (intro steady_intros)+

lemma steady_accounts [steady_intros]:
  "steady (idbi_sound d0) (SeedLink u cif cust)" "steady (idbi_sound d0) (ResolveLinkByAccount gw u a)" "steady (idbi_sound d0) (Revoke u)"
  "steady (idbi_sound d0) (pull_accounts acfg gw u)" "steady (idbi_sound d0) (store_accounts u accs)"
  "steady (idbi_sound d0) (refreshInBackground u)" "steady (idbi_sound d0) (AccountLien coll gw u a)"
  unfolding SeedLink_def ResolveLinkByAccount_def Revoke_def pull_accounts_def store_accounts_def refreshInBackground_def AccountLien_def Let_def
  by ((intro steady_intros; simp?)+)

lemma steady_acct_List [steady_intros]: "steady (idbi_sound d0) (acct_List coll acfg u)"
  unfolding acct_List_def Let_def by ((intro steady_intros; simp?)+)

lemma steady_sync_pages [steady_intros]: "steady (idbi_sound d0) (sync_pages api u a p k req n)"
  by (induction k arbitrary: p req n) (simp_all, (intro steady_intros | assumption)+)

lemma steady_sync_accounts [steady_intros]: "steady (idbi_sound d0) (sync_accounts api scfg u f t accts n)"
  by (induction accts arbitrary: n) (simp_all add: syncAccount_def, (intro steady_intros | assumption)+)

lemma steady_SyncUser [steady_intros]: "steady (idbi_sound d0) (SyncUser coll api scfg u)"
  unfolding SyncUser_def by (intro steady_intros)

text \<open>Each operation comes with the gateway's answers at its time.\<close>

datatype idbi_op =
    OpRequest aa_config aa_provider uuid string string | OpRefresh aa_config aa_provider uuid string
  | OpComplete aa_config aa_provider uuid string string string | OpFetch aa_config aa_provider uuid string
  | OpConsentNote aa_config aa_provider PushConsentNotification | OpDataNote aa_config aa_provider string string
  | OpSeed uuid string string | OpResolve idbi_gateway uuid string | OpRevoke uuid
  | OpPull acct_config idbi_gateway uuid | OpStore uuid "Account list" | OpAccounts acct_config uuid
  | OpSync statement_api sync_config uuid

fun idbi_step :: "(string \<Rightarrow> int) \<Rightarrow> idbi_op \<Rightarrow> (idbi_db, unit) act" where
  "idbi_step coll (OpRequest cfg pv u m a) = bind (RequestConsent coll cfg pv u m a) (\<lambda>_. ret ())"
| "idbi_step coll (OpRefresh cfg pv u h) = bind (Refresh coll cfg pv u h) (\<lambda>_. ret ())"
| "idbi_step coll (OpComplete cfg pv u e r f) = bind (CompleteRedirect coll cfg pv u e r f) (\<lambda>_. ret ())"
| "idbi_step coll (OpFetch cfg pv u h) = bind (FetchStatements coll cfg pv u h) (\<lambda>_. ret ())"
| "idbi_step coll (OpConsentNote cfg pv n) = HandleConsentNotification coll cfg pv n"
| "idbi_step coll (OpDataNote cfg pv h s) = HandleDataNotification coll cfg pv h s"
| "idbi_step coll (OpSeed u cif cust) = SeedLink u cif cust"
| "idbi_step coll (OpResolve gw u a) = bind (ResolveLinkByAccount gw u a) (\<lambda>_. ret ())"
| "idbi_step coll (OpRevoke u) = Revoke u"
| "idbi_step coll (OpPull cfg gw u) = bind (pull_accounts cfg gw u) (\<lambda>_. ret ())"
| "idbi_step coll (OpStore u accs) = store_accounts u accs"
| "idbi_step coll (OpAccounts cfg u) = bind (acct_List coll cfg u) (\<lambda>_. ret ())"
| "idbi_step coll (OpSync api cfg u) = bind (SyncUser coll api cfg u) (\<lambda>_. ret ())"

lemma steady_idbi_step: "steady (idbi_sound d0) (idbi_step coll oper)"
  by (cases oper) (simp_all, (intro steady_intros)+)

interpretation mirroring: invariant_service "idbi_step coll" "idbi_sound d0" for coll d0
  by unfold_locales (rule steady_wp[OF steady_idbi_step])

text \<open>
  C33. The mirror stays consistent: over any sequence of consent requests, refreshes, redirects,
  notifications, fetches, links, revocations and syncs, whatever calls fail and whatever the
  gateway answers, handles, linked accounts, external transactions, mirrored accounts and
  customer links are unique, every linked account belongs to a stored consent, and a consent
  keeps its owner and never loses its identifier or its approval.
\<close>

theorem mirror_consistent:
  assumes "idbi_inv (wdb w)"
  shows "idbi_inv (wdb (run_ops (idbi_step coll) w es)) \<and>
    (\<forall>c \<in> set (consents (wdb w)). \<exists>c' \<in> set (consents (wdb (run_ops (idbi_step coll) w es))). outlives c c')"
  using mirroring.run_keeps[OF idbi_sound_refl[OF assms], of coll es] by (simp add: idbi_sound_def)

section \<open>Examples\<close>

definition linked_1 :: AALinkedAccountRow where
  "linked_1 = \<lparr>la_handle = ''H'', la_ref = ''R1'', la_fip = ''F'', la_fip_name = ''Bank'', la_type = ''SAVINGS'', la_fi = ''DEPOSIT'',
     la_masked = ''XX1'', la_linked = 0\<rparr>"

definition consent_1 :: AAConsentRow where
  "consent_1 = no_consent\<lparr>cs_handle := ''H'', cs_user := ''u1'', cs_id := ''C1'', cs_status := ''ACTIVE'', cs_vua := ''99@aa''\<rparr>"

definition mirror_1 :: mirror_row where
  "mirror_1 = \<lparr>mi_number = ''A1'', mi_type = ''SBA'', mi_currency = ''INR'', mi_holder = [], mi_status = [], mi_branch = [],
     mi_branch_name = [], mi_ledger = 5, mi_available = 5, mi_effective = 0, mi_lien = 0, mi_synced = 0, mi_user = ''u1'',
     mi_cif = ''CIF'', mi_cust = [], mi_opened = None\<rparr>"

definition idbi_world :: "idbi_db world" where
  "idbi_world = \<lparr>wdb = \<lparr>cust_links = [\<lparr>ln_user = ''u1'', ln_cif = ''CIF'', ln_cust = [], ln_source = ''seed'', ln_linked = 0\<rparr>],
     mirror = [mirror_1], spends = [], consents = [consent_1], linked = [linked_1], phones = [], acct_cache = [], inflight = []\<rparr>,
     wfaults = [], wnow = 5, wrand = [7], wuuids = []\<rparr>"

definition sandbox :: aa_provider where
  "sandbox = \<lparr>pv_request = (\<lambda>_. Inr (''PENDING'', ''H'')), pv_list = (\<lambda>_. Inr []), pv_redirect = (\<lambda>_ _. Inr []),
     pv_decrypt = (\<lambda>_ _ _. Inr (''H'', ''0'', ''S'')),
     pv_statement = (\<lambda>_ _. Inr [\<lparr>ac_ref = ''R1'', ac_txns = [\<lparr>at_mode = ''UPI'', at_type = ''DEBIT'', at_id = ''T1'', at_amount = ''NULL'',
        at_text = ''swiggy'', at_stamp = ''1970-01-02'', at_value = []\<rparr>]\<rparr>]), pv_finpro = (\<lambda>_ _. Inr [])\<rparr>"

definition stub_config :: aa_config where
  "stub_config = \<lparr>ca_redirect_mode = ''stub'', ca_vua_suffix = ''@aa'', ca_product = ''TEST'', ca_callback = [], ca_source = []\<rparr>"

definition gateway :: idbi_gateway where
  "gateway = \<lparr>gw_accounts = (\<lambda>_. Inr (''CIF'', [\<lparr>ci_curr = ''INR'', ci_number = ''A1'', ci_balance = ''NULL'', ci_type = ''SBA''\<rparr>])),
     gw_enquiry = (\<lambda>_. Inl (Sent ErrRemote)), gw_lien = (\<lambda>_ _ _ _ _. Inl (Sent ErrRemote))\<rparr>"

lemma idbi_world_inv: "idbi_inv (wdb idbi_world)"
  by code_simp

lemma mirror_consistent_witness:
  "idbi_inv (wdb (run_ops (idbi_step (\<lambda>_. 0)) idbi_world [(OpRequest stub_config sandbox ''u2'' ''42'' [], 1, [], [], []), (OpRevoke ''u1'', 1, [], [], [])]))"
  using mirror_consistent[OF idbi_world_inv] by blast


lemma fetch_twice_witness:
  "\<exists>w2. FetchStatements (\<lambda>_. 0) stub_config sandbox ''u1'' ''H''
     (snd (FetchStatements (\<lambda>_. 0) stub_config sandbox ''u1'' ''H'' idbi_world)) = (Inr 1, w2) \<and> length (spends (wdb w2)) = 1"
proof -
  let ?f = "FetchStatements (\<lambda>_. 0) stub_config sandbox ''u1'' ''H'' idbi_world"
  have e: "fst ?f = Inr 1 \<and> wfaults (snd ?f) = [] \<and> length (spends (wdb (snd ?f))) = 1" by code_simp
  then have "?f = (Inr 1, snd ?f)" by (metis prod.collapse)
  from fetch_twice[OF this] show ?thesis using e by auto
qed



end
