(* ===== verification/Wealth.thy ===== *)
theory Wealth
  imports Funds SpendBase IdbiAccounts
begin

text \<open>
  The tables the portfolio views read together (those of banking, of trading and of the bank mirror,
  and the reference data, snapshots, goals and bookmarks of migrations 3, 8, 12, 13, 15, 18 and 21), and
  how an action of one area runs on them. A JSONB column holds the value its text decodes to.
\<close>

section \<open>Tables\<close>

record allocation_row =
  al_code :: string
  al_equity :: rat
  al_debt :: rat
  al_other :: rat
  al_sectors :: "(string \<times> rat) list"
  al_top :: "(string \<times> rat) list"

record security_row =
  sc_symbol :: string
  sc_sector :: string
  sc_band :: string

record nfo_row =
  nf_id :: string
  nf_name :: string
  nf_amc :: string
  nf_category :: string
  nf_open :: int
  nf_close :: int
  nf_price :: rat
  nf_min :: money
  nf_allot :: "int option"

record watch_row =
  wi_user :: uuid
  wi_code :: string
  wi_created :: int

record goal_row =
  go_id :: uuid
  go_user :: uuid
  go_name :: string
  go_target :: money
  go_current :: money
  go_deadline :: "int option"
  go_status :: string
  go_created :: int

record snapshot_row =
  sn_user :: uuid
  sn_date :: int
  sn_total :: money
  sn_mf :: money
  sn_stocks :: money
  sn_fd :: money
  sn_bank :: money

text \<open>The seven axes of a portfolio's genome, and again as a list.\<close>

record PortfolioGenome =
  ge_growth :: rat
  ge_income :: rat
  ge_preservation :: rat
  ge_inflation :: rat
  ge_liquidity :: rat
  ge_sustainability :: rat
  ge_real :: rat
  ge_values :: "rat list"

record SectorExposure =
  sx_sector :: string
  sx_amount :: money
  sx_pct :: rat

record VolatilityBucket =
  vb_label :: string
  vb_amount :: money
  vb_share :: rat

record dna_row =
  dn_user :: uuid
  dn_date :: int
  dn_level :: string
  dn_total :: money
  dn_equity :: rat
  dn_debt :: rat
  dn_other :: rat
  dn_genome :: PortfolioGenome
  dn_sectors :: "SectorExposure list"
  dn_buckets :: "VolatilityBucket list"

record wealth_db =
  banking :: bank_db
  trading :: trade_db
  mirroring :: idbi_db
  allocations :: "allocation_row list"
  securities :: "security_row list"
  nfos :: "nfo_row list"
  watches :: "watch_row list"
  goals :: "goal_row list"
  snapshots :: "snapshot_row list"
  dna_rows :: "dna_row list"

section \<open>Actions of one area\<close>

definition moved :: "'a world \<Rightarrow> 'b \<Rightarrow> 'b world" where
  "moved w d = \<lparr>wdb = d, wfaults = wfaults w, wnow = wnow w, wrand = wrand w, wuuids = wuuids w\<rparr>"

definition zoom :: "('d \<Rightarrow> 'a) \<Rightarrow> ('a \<Rightarrow> 'd \<Rightarrow> 'd) \<Rightarrow> ('a, 'r) act \<Rightarrow> ('d, 'r) act" where
  "zoom get put m = (\<lambda>w. case m (moved w (get (wdb w))) of (r, v) \<Rightarrow> (r, moved v (put (wdb v) (wdb w))))"

definition on_bank :: "(bank_db, 'r) act \<Rightarrow> (wealth_db, 'r) act" where
  "on_bank = zoom banking (\<lambda>b d. d\<lparr>banking := b\<rparr>)"

definition on_trade :: "(trade_db, 'r) act \<Rightarrow> (wealth_db, 'r) act" where
  "on_trade = zoom trading (\<lambda>t d. d\<lparr>trading := t\<rparr>)"

definition on_mirror :: "(idbi_db, 'r) act \<Rightarrow> (wealth_db, 'r) act" where
  "on_mirror = zoom mirroring (\<lambda>m d. d\<lparr>mirroring := m\<rparr>)"

lemma moved_world_sel [simp]:
  "wdb (moved w d) = d" "wfaults (moved w d) = wfaults w" "wnow (moved w d) = wnow w" "wrand (moved w d) = wrand w"
  "wuuids (moved w d) = wuuids w" "moved (moved w d) d' = moved w d'" "moved w (wdb w) = w" "moved (tick w) d = tick (moved w d)"
  "faulty (moved w d) = faulty w"
  by (simp_all add: moved_def tick_def faulty_def)

lemma moved_same_type: "moved w d = w\<lparr>wdb := d\<rparr>"
  by (simp add: moved_def)

lemma wp_zoom:
  "wp (zoom get put m) Q E w = wp m (\<lambda>a v. Q a (moved v (put (wdb v) (wdb w)))) (\<lambda>e v. E e (moved v (put (wdb v) (wdb w))))
     (moved w (get (wdb w)))"
  by (auto simp: wp_def zoom_def split: prod.splits sum.splits)

lemma timed_zoom [clock_intros]: "timed m \<Longrightarrow> timed (zoom get put m)"
  by (rule timedI) (auto simp: zoom_def split: prod.splits dest: timedD)

lemma steady_zoom:
  assumes "steady J m" "\<And>d. I d \<Longrightarrow> J (get d)" "\<And>d a. I d \<Longrightarrow> J a \<Longrightarrow> I (put a d)"
  shows "steady I (zoom get put m)"
  by (rule steadyI) (auto simp: wp_zoom assms intro!: wp_mono[OF steady_wp[OF assms(1)]])

text \<open>An action that writes nothing in its area writes nothing.\<close>

definition reads :: "('d, 'a) act \<Rightarrow> bool" where
  "reads m \<longleftrightarrow> (\<forall>d. steady (\<lambda>d'. d' = d) m)"

lemma reads_wp: "reads m \<Longrightarrow> wp m (\<lambda>_ v. wdb v = wdb w) (\<lambda>_ v. wdb v = wdb w) w"
  using steady_wp[of "\<lambda>d'. d' = wdb w" m w] by (simp add: reads_def)

lemma readsI: "(\<And>d. steady (\<lambda>d'. d' = d) m) \<Longrightarrow> reads m"
  by (simp add: reads_def)

lemma reads_steady: "reads m \<Longrightarrow> steady I m"
  by (rule steadyI) (auto intro: wp_mono[OF reads_wp])

lemma reads_zoom: "reads m \<Longrightarrow> (\<And>d. put (get d) d = d) \<Longrightarrow> reads (zoom get put m)"
  unfolding reads_def by (auto intro!: steady_zoom[where J = "\<lambda>a. a = get d" for d])

lemma reads_areas: "reads m \<Longrightarrow> reads (on_bank m)" "reads m' \<Longrightarrow> reads (on_trade m')"
  by (auto simp: on_bank_def on_trade_def intro!: reads_zoom)

lemma reads_holdings: "reads (GetHoldings coll u)" "reads (mf_GetHoldings rnd coll u)" "reads (ListFDs u)" "reads (GetBankAccounts u)"
  by (auto simp: GetHoldings_def mf_GetHoldings_def ListFDs_def GetBankAccounts_def intro!: readsI steady_intros)

end
