(* ===== verification/Portfolio.thy ===== *)
theory Portfolio
  imports Wealth
begin

text \<open>
  The allocation of a portfolio: \<open>Allocation\<close> of \<open>internal/service/portfolio_analysis.go\<close>, its genome and the
  simulation of a purchase, and the recorded history of \<open>portfolio_dna_history.go\<close>. A Go map of amounts is the list of the amounts
  added to it under their keys; \<open>rg\<close> is the order a range over it takes.
\<close>

section \<open>Amounts under a key\<close>

definition amount_under :: "(string \<times> rat) list \<Rightarrow> string \<Rightarrow> rat" where
  "amount_under ps k = sum_list (map snd (filter (\<lambda>p. fst p = k) ps))"

section \<open>Reference data\<close>

definition loadSecurityRef :: "(wealth_db, string \<Rightarrow> (string \<times> string) option) act" where
  "loadSecurityRef = ignoring Map.empty (query (\<lambda>_ d. map_of (map (\<lambda>s. (sc_symbol s, sc_sector s, sc_band s)) (securities d))))"

text \<open>The company-size band of a fund's category, and whether the fund is spread over the bands.\<close>

definition marketCapForFund :: "string \<Rightarrow> string \<times> bool" where
  "marketCapForFund category = (let c = to_lower category in
     if \<not> contains c ''equity'' then ([], False)
     else if contains c ''micro cap'' then (''Micro Cap'', False)
     else if contains c ''small cap'' then (''Small Cap'', False)
     else if contains c ''large & mid'' \<or> contains c ''large and mid'' \<or> contains c ''flexi cap'' \<or> contains c ''multi cap''
       \<or> contains c ''large-mid'' then ([], True)
     else if contains c ''mid cap'' then (''Mid Cap'', False)
     else (''Large Cap'', False))"

definition diversifiedEquitySplit :: "(string \<times> rat) list" where
  "diversifiedEquitySplit = [(''Large Cap'', 60/100), (''Mid Cap'', 25/100), (''Small Cap'', 15/100)]"

definition isIndexFund :: "string \<Rightarrow> string \<Rightarrow> bool" where
  "isIndexFund category schemeName = (let s = to_lower (category @ '' '' @ schemeName) in
     contains s ''index'' \<or> contains s ''nifty'' \<or> contains s ''sensex'')"

definition volatilityForRiskLevel :: "string \<Rightarrow> string" where
  "volatilityForRiskLevel risk = (if risk = ''Low'' then ''LOW'' else if risk = ''High'' then ''HIGH'' else ''MEDIUM'')"

record fundMeta =
  fm_risk :: string
  fm_equity :: rat
  fm_debt :: rat
  fm_other :: rat
  fm_sectors :: "(string \<times> rat) list"
  fm_band :: string

text \<open>A fund with its row of the split, when it has one: the left join.\<close>

definition meta_of :: "wealth_db \<Rightarrow> fund_row \<Rightarrow> fundMeta" where
  "meta_of d c = (let r = first_row (filter (\<lambda>a. al_code a = fu_code c) (allocations d)) in
     \<lparr>fm_risk = fu_risk c, fm_equity = (case r of None \<Rightarrow> 100 | Some a \<Rightarrow> al_equity a),
      fm_debt = (case r of None \<Rightarrow> 0 | Some a \<Rightarrow> al_debt a), fm_other = (case r of None \<Rightarrow> 0 | Some a \<Rightarrow> al_other a),
      fm_sectors = (case r of None \<Rightarrow> [] | Some a \<Rightarrow> al_sectors a), fm_band = (case fu_band c of None \<Rightarrow> [] | Some b \<Rightarrow> b)\<rparr>)"

definition loadFundMeta :: "string list \<Rightarrow> (wealth_db, string \<Rightarrow> fundMeta option) act" where
  "loadFundMeta schemeCodes = (if schemeCodes = [] then ret Map.empty
     else wrapping ''load fund allocation metadata'' (query (\<lambda>_ d.
       map_of (map (\<lambda>c. (fu_code c, meta_of d c)) (filter (\<lambda>c. fu_code c \<in> set schemeCodes) (catalog (trading d)))))))"

text \<open>A holding without a row counts as equity of medium risk.\<close>

definition meta_or_equity :: "(string \<Rightarrow> fundMeta option) \<Rightarrow> Folio \<Rightarrow> fundMeta" where
  "meta_or_equity meta f = (case meta (fl_code f) of Some m \<Rightarrow> m
     | None \<Rightarrow> \<lparr>fm_risk = ''Medium'', fm_equity = 100, fm_debt = 0, fm_other = 0, fm_sectors = [], fm_band = []\<rparr>)"

section \<open>The genome\<close>

definition unit_axis :: "rat \<Rightarrow> rat" where
  "unit_axis x = round2 (max 0 (min 1 x))"

definition genome_of :: "rat list \<Rightarrow> PortfolioGenome" where
  "genome_of vs = \<lparr>ge_growth = vs ! 0, ge_income = vs ! 1, ge_preservation = vs ! 2, ge_inflation = vs ! 3, ge_liquidity = vs ! 4,
     ge_sustainability = vs ! 5, ge_real = vs ! 6, ge_values = vs\<rparr>"

definition ComputeQuantitativeGenome :: "money \<Rightarrow> money \<Rightarrow> money \<Rightarrow> money \<Rightarrow> PortfolioGenome" where
  "ComputeQuantitativeGenome equityAmt debtAmt otherAmt totalVal =
     (if totalVal \<le> 0 then genome_of [0, 0, 0, 0, 0, 0, 0]
      else let eq = equityAmt / totalVal; debt = debtAmt / totalVal; other = otherAmt / totalVal;
               hhi = eq * eq + debt * debt + other * other
           in genome_of (map unit_axis
             [eq * (95/100), debt * (85/100) + eq * (12/100), debt * (92/100) + other * (20/100),
              other * (90/100) + eq * (25/100), debt * (90/100) + eq * (70/100), min (95/100) ((1 - hhi) * (3/2)),
              other * (95/100)]))"

definition allocationLevel :: "money \<Rightarrow> money \<Rightarrow> string" where
  "allocationLevel totalValue high = (if totalValue \<le> 0 then ''BALANCED''
     else let pct = high / totalValue * 100 in
       if pct < 10 then ''CONSERVATIVE'' else if pct < 30 then ''MODERATE_CONSERVATIVE'' else if pct < 55 then ''BALANCED''
       else if pct < 80 then ''AGGRESSIVE'' else ''VERY_AGGRESSIVE'')"

section \<open>Sorting by amount\<close>

text \<open>An element moves down past the smaller ones before it; \<open>sink\<close> works on the sorted part in reverse.\<close>

fun sink :: "SectorExposure \<Rightarrow> SectorExposure list \<Rightarrow> SectorExposure list" where
  "sink x [] = [x]"
| "sink x (y # ys) = (if sx_amount x > sx_amount y then y # sink x ys else x # y # ys)"

definition sortSectorsDesc :: "SectorExposure list \<Rightarrow> SectorExposure list" where
  "sortSectorsDesc xs = rev (foldl (\<lambda>acc x. sink x acc) [] xs)"

section \<open>What is held\<close>

record HoldingBreakdown =
  hb_name :: string
  hb_subtitle :: string
  hb_type :: string
  hb_value :: money
  hb_pct :: rat
  hb_volatility :: string

record MarketCapSlice =
  mc_label :: string
  mc_value :: money
  mc_pct :: rat

record EquityExposure =
  ee_total :: money
  ee_index :: money
  ee_index_pct :: rat
  ee_peer_pct :: rat
  ee_caps :: "MarketCapSlice list"

record AllocationResult =
  ar_level :: string
  ar_total :: money
  ar_equity :: money
  ar_debt :: money
  ar_other :: money
  ar_equity_pct :: rat
  ar_debt_pct :: rat
  ar_other_pct :: rat
  ar_buckets :: "VolatilityBucket list"
  ar_sectors :: "SectorExposure list"
  ar_genome :: PortfolioGenome
  ar_holdings :: "HoldingBreakdown list"
  ar_exposure :: "EquityExposure option"

definition pct_of :: "rat \<Rightarrow> rat \<Rightarrow> rat" where
  "pct_of x tot = (if tot > 0 then round2 (x / tot * 100) else 0)"

definition stock_value :: "Holding \<Rightarrow> money" where
  "stock_value h = of_int (ho_qty h) * ho_last h"

definition active :: "Deposits.Account list \<Rightarrow> Deposits.Account list" where
  "active fds = filter (\<lambda>a. fa_status a = ''ACTIVE'') fds"

section \<open>Allocation\<close>

text \<open>What each holding adds to equity, to the risk buckets, to the sectors and to the bands.\<close>

definition folio_part :: "(fundMeta \<Rightarrow> rat) \<Rightarrow> (string \<Rightarrow> fundMeta option) \<Rightarrow> Folio \<Rightarrow> money" where
  "folio_part share meta f = fl_current f * share (meta_or_equity meta f) / 100"

definition equity_amount :: "(string \<Rightarrow> fundMeta option) \<Rightarrow> Folio list \<Rightarrow> Holding list \<Rightarrow> money" where
  "equity_amount meta fs hs = sum_list (map (folio_part fm_equity meta) fs) + sum_list (map stock_value hs)"

definition debt_amount :: "(string \<Rightarrow> fundMeta option) \<Rightarrow> Folio list \<Rightarrow> money" where
  "debt_amount meta fs = sum_list (map (folio_part fm_debt meta) fs)"

definition other_amount :: "(string \<Rightarrow> fundMeta option) \<Rightarrow> Folio list \<Rightarrow> Deposits.Account list \<Rightarrow> money" where
  "other_amount meta fs fds = sum_list (map (folio_part fm_other meta) fs) + sum_list (map fa_principal (active fds))"

definition volatility_parts :: "(string \<Rightarrow> fundMeta option) \<Rightarrow> Folio list \<Rightarrow> Holding list \<Rightarrow> Deposits.Account list \<Rightarrow> (string \<times> rat) list" where
  "volatility_parts meta fs hs fds =
     map (\<lambda>f. (volatilityForRiskLevel (fm_risk (meta_or_equity meta f)), fl_current f)) fs @
     map (\<lambda>h. (''HIGH'', stock_value h)) hs @ map (\<lambda>a. (''STABLE'', fa_principal a)) (active fds)"

definition stock_sector :: "(string \<Rightarrow> (string \<times> string) option) \<Rightarrow> Holding \<Rightarrow> string" where
  "stock_sector refs h = (case refs (ho_symbol h) of None \<Rightarrow> ''Other Equity'' | Some (sec, _) \<Rightarrow> if sec \<noteq> [] then sec else ''Other Equity'')"

definition sector_parts :: "(string \<Rightarrow> fundMeta option) \<Rightarrow> (string \<Rightarrow> (string \<times> string) option) \<Rightarrow> Folio list \<Rightarrow> Holding list \<Rightarrow>
    (string \<times> rat) list" where
  "sector_parts meta refs fs hs =
     concat (map (\<lambda>f. map (\<lambda>(t, p). (t, fl_current f * p / 100)) (fm_sectors (meta_or_equity meta f))) fs) @
     map (\<lambda>h. (stock_sector refs h, stock_value h)) hs"

definition volatility_labels :: "string list" where
  "volatility_labels = [''STABLE'', ''LOW'', ''MEDIUM'', ''HIGH'']"

definition buckets_of :: "money \<Rightarrow> (string \<times> rat) list \<Rightarrow> VolatilityBucket list" where
  "buckets_of tot vols = map (\<lambda>l. let amt = round2 (amount_under vols l) in \<lparr>vb_label = l, vb_amount = amt, vb_share = pct_of amt tot\<rparr>)
     volatility_labels"

definition exposures_of :: "ranging \<Rightarrow> money \<Rightarrow> (string \<times> rat) list \<Rightarrow> SectorExposure list" where
  "exposures_of rg tot parts = sortSectorsDesc (map (\<lambda>s. let amt = round2 (amount_under parts s) in
       \<lparr>sx_sector = s, sx_amount = amt, sx_pct = pct_of amt tot\<rparr>)
     (filter (\<lambda>s. round2 (amount_under parts s) > 0) (rg_names rg (remdups (map fst parts)))))"

text \<open>The band of a fund's equity: its own column, or the category's when the column is empty.\<close>

definition fund_bands :: "fundMeta \<Rightarrow> string \<Rightarrow> money \<Rightarrow> (string \<times> rat) list" where
  "fund_bands m category eq = (case (if fm_band m = [] then marketCapForFund category else (fm_band m, fm_band m = ''Diversified'')) of
     (band, split) \<Rightarrow> if split then map (\<lambda>(b, w). (b, eq * w)) diversifiedEquitySplit
       else if band \<noteq> [] \<and> band \<noteq> ''Diversified'' then [(band, eq)] else [(''Large Cap'', eq)])"

definition stock_band :: "(string \<Rightarrow> (string \<times> string) option) \<Rightarrow> Holding \<Rightarrow> string" where
  "stock_band refs h = (case refs (ho_symbol h) of None \<Rightarrow> ''Large Cap'' | Some (_, band) \<Rightarrow> if band \<noteq> [] then band else ''Large Cap'')"

text \<open>The holdings with equity of their own: funds with an equity part, shares worth something.\<close>

definition equity_funds :: "(string \<Rightarrow> fundMeta option) \<Rightarrow> Folio list \<Rightarrow> Folio list" where
  "equity_funds meta fs = filter (\<lambda>f. folio_part fm_equity meta f > 0) fs"

definition worth_shares :: "Holding list \<Rightarrow> Holding list" where
  "worth_shares hs = filter (\<lambda>h. stock_value h > 0) hs"

definition cap_parts :: "(string \<Rightarrow> fundMeta option) \<Rightarrow> (string \<Rightarrow> (string \<times> string) option) \<Rightarrow> Folio list \<Rightarrow> Holding list \<Rightarrow>
    (string \<times> rat) list" where
  "cap_parts meta refs fs hs =
     concat (map (\<lambda>f. fund_bands (meta_or_equity meta f) (fl_category f) (folio_part fm_equity meta f)) (equity_funds meta fs)) @
     map (\<lambda>h. (stock_band refs h, stock_value h)) (worth_shares hs)"

definition equity_total :: "(string \<Rightarrow> fundMeta option) \<Rightarrow> Folio list \<Rightarrow> Holding list \<Rightarrow> money" where
  "equity_total meta fs hs = sum_list (map (folio_part fm_equity meta) (equity_funds meta fs)) + sum_list (map stock_value (worth_shares hs))"

definition cap_labels :: "string list" where
  "cap_labels = [''Large Cap'', ''Mid Cap'', ''Small Cap'', ''Micro Cap'']"

definition exposure_of :: "(string \<Rightarrow> fundMeta option) \<Rightarrow> (string \<Rightarrow> (string \<times> string) option) \<Rightarrow> Folio list \<Rightarrow> Holding list \<Rightarrow>
    rat \<Rightarrow> EquityExposure" where
  "exposure_of meta refs fs hs peer = (let tot = equity_total meta fs hs;
       idx = sum_list (map (folio_part fm_equity meta) (filter (\<lambda>f. isIndexFund (fl_category f) (fl_name f)) (equity_funds meta fs)))
     in \<lparr>ee_total = round2 tot, ee_index = round2 idx, ee_index_pct = pct_of idx tot, ee_peer_pct = peer,
         ee_caps = map (\<lambda>l. let amt = round2 (amount_under (cap_parts meta refs fs hs) l) in
           \<lparr>mc_label = l, mc_value = amt, mc_pct = pct_of amt tot\<rparr>) cap_labels\<rparr>)"

text \<open>The flat list: accounts with money in them, active deposits, funds, shares worth something.\<close>

definition last_four :: "string \<Rightarrow> string" where
  "last_four s = (if length s > 4 then bullet @ bullet @ '' '' @ drop (length s - 4) s else s)"

definition held_items :: "(string \<times> string \<times> money) list \<Rightarrow> (string \<Rightarrow> fundMeta option) \<Rightarrow> Folio list \<Rightarrow> Holding list \<Rightarrow>
    Deposits.Account list \<Rightarrow> HoldingBreakdown list" where
  "held_items bank meta fs hs fds =
     map (\<lambda>(name, kind, bal). \<lparr>hb_name = name, hb_subtitle = kind, hb_type = ''BANK'', hb_value = round2 bal, hb_pct = 0, hb_volatility = ''STABLE''\<rparr>)
       (filter (\<lambda>(_, _, bal). bal > 0) bank) @
     map (\<lambda>a. \<lparr>hb_name = ''Fixed Deposit'', hb_subtitle = last_four (fa_number a), hb_type = ''FD'', hb_value = round2 (fa_principal a),
        hb_pct = 0, hb_volatility = ''STABLE''\<rparr>) (active fds) @
     map (\<lambda>f. \<lparr>hb_name = fl_name f, hb_subtitle = fl_code f, hb_type = ''MF'', hb_value = round2 (fl_current f), hb_pct = 0,
        hb_volatility = volatilityForRiskLevel (fm_risk (meta_or_equity meta f))\<rparr>) fs @
     map (\<lambda>h. \<lparr>hb_name = ho_symbol h, hb_subtitle = ho_exchange h, hb_type = ''STOCK'', hb_value = round2 (stock_value h), hb_pct = 0,
        hb_volatility = ''HIGH''\<rparr>) (worth_shares hs)"

definition with_shares :: "HoldingBreakdown list \<Rightarrow> HoldingBreakdown list" where
  "with_shares xs = (let tot = sum_list (map hb_value xs) in map (\<lambda>x. x\<lparr>hb_pct := pct_of (hb_value x) tot\<rparr>) xs)"

definition allocation_of :: "ranging \<Rightarrow> Folio list \<Rightarrow> Holding list \<Rightarrow> Deposits.Account list \<Rightarrow> (string \<Rightarrow> fundMeta option) \<Rightarrow>
    (string \<Rightarrow> (string \<times> string) option) \<Rightarrow> (string \<times> string \<times> money) list \<Rightarrow> rat \<Rightarrow> AllocationResult" where
  "allocation_of rg fs hs fds meta refs bank peer =
     (let eq = equity_amount meta fs hs; debt = debt_amount meta fs; other = other_amount meta fs fds;
          tot = round2 (eq + debt + other); vols = volatility_parts meta fs hs fds; secs = sector_parts meta refs fs hs
      in \<lparr>ar_level = allocationLevel tot (amount_under vols ''HIGH''), ar_total = tot, ar_equity = round2 eq, ar_debt = round2 debt,
          ar_other = round2 other, ar_equity_pct = pct_of (round2 eq) tot, ar_debt_pct = pct_of (round2 debt) tot,
          ar_other_pct = pct_of (round2 other) tot, ar_buckets = buckets_of tot vols, ar_sectors = exposures_of rg tot secs,
          ar_genome = ComputeQuantitativeGenome (round2 eq) (round2 debt) (round2 other) tot,
          ar_holdings = with_shares (held_items bank meta fs hs fds),
          ar_exposure = Some (exposure_of meta refs fs hs peer)\<rparr>)"

text \<open>The share of index funds over all users' folios; a failed query, or nothing held, is 0.\<close>

definition peer_index :: "fund_row \<Rightarrow> folio_row \<Rightarrow> bool" where
  "peer_index c f \<longleftrightarrow> contains (to_lower (fu_category c)) ''index'' \<or> contains (to_lower (fo_name f)) ''index'' \<or>
     contains (to_lower (fo_name f)) ''nifty'' \<or> contains (to_lower (fo_name f)) ''sensex''"

definition peer_sums :: "wealth_db \<Rightarrow> rat \<times> rat" where
  "peer_sums d = (let rows = concat (map (\<lambda>f. map (\<lambda>c. (f, c)) (filter (\<lambda>c. fu_code c = fo_code f) (catalog (trading d)))) (folios (trading d)))
     in (sum_list (map (\<lambda>(f, c). if peer_index c f then fo_units f * fu_nav c else 0) rows),
         sum_list (map (\<lambda>(f, c). if fm_equity (meta_of d c) \<ge> 50 then fo_units f * fu_nav c else 0) rows)))"

definition peerIndexFundPct :: "(wealth_db, rat) act" where
  "peerIndexFundPct = bind (ignoring (0, 0) (query (\<lambda>_. peer_sums))) (\<lambda>(idx, tot). ret (if tot \<le> 0 then 0 else round2 (idx / tot * 100)))"

definition bank_items :: "uuid \<Rightarrow> (wealth_db, (string \<times> string \<times> money) list) act" where
  "bank_items userID = ignoring [] (query (\<lambda>_ d. map (\<lambda>a. (ba_name a, ba_type a, ba_balance a))
     (filter (\<lambda>a. ba_user a = userID \<and> ba_unlinked a = None) (accounts (banking d)))))"

definition Allocation :: "ranging \<Rightarrow> (int \<Rightarrow> rat) \<Rightarrow> (string \<Rightarrow> int) \<Rightarrow> uuid \<Rightarrow> (wealth_db, AllocationResult) act" where
  "Allocation rg rnd coll userID =
     bind (wrapping ''load mf for allocation'' (on_trade (mf_GetHoldings rnd coll userID))) (\<lambda>(_, fs).
     bind (wrapping ''load stocks for allocation'' (on_trade (GetHoldings coll userID))) (\<lambda>hs.
     bind (wrapping ''load fd for allocation'' (on_bank (ListFDs userID))) (\<lambda>fds.
     bind (loadFundMeta (map fl_code fs)) (\<lambda>meta.
     bind loadSecurityRef (\<lambda>refs.
     bind (bank_items userID) (\<lambda>bank.
     bind peerIndexFundPct (\<lambda>peer.
     ret (allocation_of rg fs hs fds meta refs bank peer))))))))"

section \<open>Simulating a purchase\<close>

record SimulationResult =
  sm_current :: AllocationResult
  sm_projected :: AllocationResult
  sm_code :: string
  sm_amount :: money

definition fund_or_equity :: "fundMeta option \<Rightarrow> fundMeta" where
  "fund_or_equity r = (case r of Some m \<Rightarrow> m
     | None \<Rightarrow> \<lparr>fm_risk = ''High'', fm_equity = 100, fm_debt = 0, fm_other = 0, fm_sectors = [], fm_band = []\<rparr>)"

definition added_amount :: "string \<Rightarrow> money \<Rightarrow> VolatilityBucket \<Rightarrow> money" where
  "added_amount vol amount b = (if vb_label b = vol then vb_amount b + amount else vb_amount b)"

text \<open>The amount of the last bucket with the label, or 0.\<close>

definition last_bucket :: "string \<Rightarrow> string \<Rightarrow> money \<Rightarrow> VolatilityBucket list \<Rightarrow> money" where
  "last_bucket label vol amount bs = foldl (\<lambda>acc b. if vb_label b = label then added_amount vol amount b else acc) 0 bs"

text \<open>The handler asks for a positive amount, so the new total is positive; the sectors stay the old ones.\<close>

definition projected :: "AllocationResult \<Rightarrow> fundMeta \<Rightarrow> money \<Rightarrow> AllocationResult" where
  "projected cur fund amount =
     (let newTotal = ar_total cur + amount; eq = ar_equity cur + amount * (fm_equity fund / 100);
          debt = ar_debt cur + amount * (fm_debt fund / 100); other = ar_other cur + amount * (fm_other fund / 100);
          vol = volatilityForRiskLevel (fm_risk fund)
      in \<lparr>ar_level = allocationLevel newTotal (last_bucket ''HIGH'' vol amount (ar_buckets cur)), ar_total = round2 newTotal,
          ar_equity = round2 eq, ar_debt = round2 debt, ar_other = round2 other, ar_equity_pct = round2 (eq / newTotal * 100),
          ar_debt_pct = round2 (debt / newTotal * 100), ar_other_pct = round2 (other / newTotal * 100),
          ar_buckets = map (\<lambda>b. let amt = added_amount vol amount b in \<lparr>vb_label = vb_label b, vb_amount = round2 amt, vb_share = pct_of amt newTotal\<rparr>)
            (ar_buckets cur),
          ar_sectors = ar_sectors cur, ar_genome = ComputeQuantitativeGenome eq debt other newTotal, ar_holdings = [], ar_exposure = None\<rparr>)"

definition SimulatePurchase :: "ranging \<Rightarrow> (int \<Rightarrow> rat) \<Rightarrow> (string \<Rightarrow> int) \<Rightarrow> uuid \<Rightarrow> string \<Rightarrow> money \<Rightarrow> (wealth_db, SimulationResult) act" where
  "SimulatePurchase rg rnd coll userID schemeCode amount =
     bind (wrapping ''simulate: load current allocation'' (Allocation rg rnd coll userID)) (\<lambda>cur.
     bind (wrapping ''simulate: load fund metadata'' (loadFundMeta [schemeCode])) (\<lambda>meta.
     ret \<lparr>sm_current = cur, sm_projected = projected cur (fund_or_equity (meta schemeCode)) amount, sm_code = schemeCode, sm_amount = amount\<rparr>))"

section \<open>The recorded history\<close>

definition dna_of :: "uuid \<Rightarrow> int \<Rightarrow> AllocationResult \<Rightarrow> dna_row" where
  "dna_of userID today res = \<lparr>dn_user = userID, dn_date = today, dn_level = ar_level res, dn_total = ar_total res,
     dn_equity = ar_equity_pct res, dn_debt = ar_debt_pct res, dn_other = ar_other_pct res, dn_genome = ar_genome res,
     dn_sectors = ar_sectors res, dn_buckets = ar_buckets res\<rparr>"

definition own_dna :: "uuid \<Rightarrow> int \<Rightarrow> dna_row \<Rightarrow> bool" where
  "own_dna userID day r \<longleftrightarrow> dn_user r = userID \<and> dn_date r = day"

definition dna_fits :: "dna_row \<Rightarrow> bool" where
  "dna_fits r \<longleftrightarrow> decimal_fits 18 2 (dn_total r) \<and> decimal_fits 6 2 (dn_equity r) \<and> decimal_fits 6 2 (dn_debt r) \<and> decimal_fits 6 2 (dn_other r)"

text \<open>Insert, or replace the row of the same user and day: \<open>put_row own r\<close> over a table.\<close>

definition put_row :: "('r \<Rightarrow> bool) \<Rightarrow> ('r \<Rightarrow> 'r) \<Rightarrow> 'r \<Rightarrow> 'r list \<Rightarrow> 'r list" where
  "put_row own upd r rs = (if list_ex own rs then update_where own upd rs else rs @ [r])"

text \<open>The result that comes with an error of the write is dropped by the only caller.\<close>

definition RecordDNASnapshot :: "ranging \<Rightarrow> (int \<Rightarrow> rat) \<Rightarrow> (string \<Rightarrow> int) \<Rightarrow> uuid \<Rightarrow> (wealth_db, AllocationResult) act" where
  "RecordDNASnapshot rg rnd coll userID = bind (Allocation rg rnd coll userID) (\<lambda>res.
     bind (wrapping ''record dna snapshot'' (exec_check (\<lambda>now _. dna_fits (dna_of userID (day_of now) res))
       (\<lambda>now d. let r = dna_of userID (day_of now) res in d\<lparr>dna_rows := put_row (own_dna userID (day_of now)) (\<lambda>_. r) r (dna_rows d)\<rparr>))) (\<lambda>_.
     ret res))"

record DNAHistoryPoint =
  hp_date :: int
  hp_level :: string
  hp_total :: money
  hp_equity :: rat
  hp_debt :: rat
  hp_other :: rat
  hp_genome :: PortfolioGenome
  hp_sectors :: "SectorExposure list"
  hp_buckets :: "VolatilityBucket list"

definition dna_point :: "dna_row \<Rightarrow> DNAHistoryPoint" where
  "dna_point r = \<lparr>hp_date = date_epoch (dn_date r), hp_level = dn_level r, hp_total = dn_total r, hp_equity = dn_equity r, hp_debt = dn_debt r,
     hp_other = dn_other r, hp_genome = dn_genome r, hp_sectors = dn_sectors r, hp_buckets = dn_buckets r\<rparr>"

definition days_or :: "int \<Rightarrow> int \<Rightarrow> nat" where
  "days_or dflt days = nat (if days \<le> 0 \<or> days > 3650 then dflt else days)"

definition DNAHistory :: "uuid \<Rightarrow> int \<Rightarrow> (wealth_db, DNAHistoryPoint list) act" where
  "DNAHistory userID days = wrapping ''query dna snapshots'' (query (\<lambda>_ d.
     rev (map dna_point (take (days_or 365 days) (order_desc dn_date (filter (\<lambda>r. dn_user r = userID) (dna_rows d)))))))"

end
