(* ===== verification/Bookmarks.thy ===== *)
theory Bookmarks
  imports Wealth Http
begin

text \<open>
  Goals and bookmarked funds: \<open>internal/provider/goals/postgres.go\<close>, \<open>internal/provider/watchlist/postgres.go\<close>, the
  services that pass calls on, and their handlers. A conversion of a number beyond the range of \<open>int64\<close> gives the
  least \<open>int64\<close>, as on amd64.
\<close>

section \<open>Goals\<close>

record CreateGoalRequest =
  cg_name :: string
  cg_target :: money
  cg_current :: money
  cg_deadline :: "int option"

record Goal =
  gl_id :: uuid
  gl_name :: string
  gl_target :: money
  gl_current :: money
  gl_deadline :: "int option"
  gl_status :: string
  gl_progress :: rat
  gl_days :: "int option"
  gl_created :: int

definition to_int64 :: "rat \<Rightarrow> int" where
  "to_int64 x = (let n = (if 0 \<le> x then \<lfloor>x\<rfloor> else \<lceil>x\<rceil>) in if - (2 ^ 63) \<le> n \<and> n < 2 ^ 63 then n else - (2 ^ 63))"

definition progressPct :: "money \<Rightarrow> money \<Rightarrow> rat" where
  "progressPct cur target = (if target \<le> 0 then 0 else of_int (to_int64 (cur / target * 100 * 100 + 1/2)) / 100)"

text \<open>Whole days until the instant, rounded towards zero.\<close>

definition days_until :: "int \<Rightarrow> int \<Rightarrow> int" where
  "days_until now t = (if t \<ge> now then (t - now) div day_ns else - ((now - t) div day_ns))"

definition scanGoal :: "int \<Rightarrow> goal_row \<Rightarrow> Goal" where
  "scanGoal now r = \<lparr>gl_id = go_id r, gl_name = go_name r, gl_target = go_target r, gl_current = go_current r,
     gl_deadline = map_option (\<lambda>d. d * day_ns) (go_deadline r), gl_status = go_status r,
     gl_progress = progressPct (go_current r) (go_target r), gl_days = map_option (\<lambda>d. days_until now (d * day_ns)) (go_deadline r),
     gl_created = go_created r\<rparr>"

definition validateCreateRequest :: "CreateGoalRequest \<Rightarrow> goerr + int option" where
  "validateCreateRequest req =
     (if cg_name req = [] then Inl (Validation ''name is required'')
      else if cg_target req \<le> 0 then Inl (Validation ''target_amount must be positive'')
      else if cg_current req < 0 then Inl (Validation ''current_amount cannot be negative'')
      else Inr (map_option FromEpoch (cg_deadline req)))"

definition goal_fits :: "goal_row \<Rightarrow> bool" where
  "goal_fits r \<longleftrightarrow> varchar 100 (go_name r) \<and> decimal_fits 18 2 (go_target r) \<and> decimal_fits 18 2 (go_current r)"

definition CreateGoal :: "uuid \<Rightarrow> CreateGoalRequest \<Rightarrow> (wealth_db, Goal) act" where
  "CreateGoal userID req = bind (given (validateCreateRequest req)) (\<lambda>deadline.
     wrapping ''scan goal'' (exec_id (\<lambda>new now d.
       let r = \<lparr>go_id = new, go_user = userID, go_name = cg_name req, go_target = round2 (cg_target req), go_current = round2 (cg_current req),
                go_deadline = map_option day_of deadline, go_status = ''ACTIVE'', go_created = now\<rparr>
       in if \<not> goal_fits r \<or> new \<in> go_id ` set (goals d) then Inl (Sent ErrConstraint)
          else Inr (scanGoal now r, d\<lparr>goals := goals d @ [r]\<rparr>))))"

definition ListGoals :: "uuid \<Rightarrow> (wealth_db, Goal list) act" where
  "ListGoals userID = wrapping ''list goals'' (query (\<lambda>now d.
     map (scanGoal now) (order_desc go_created (filter (\<lambda>r. go_user r = userID) (goals d)))))"

definition GetGoal :: "(string \<Rightarrow> uuid option) \<Rightarrow> uuid \<Rightarrow> string \<Rightarrow> (wealth_db, Goal) act" where
  "GetGoal parse userID goalID = (case parse goalID of
       None \<Rightarrow> fail (NotFound (''goal '' @ goalID @ '' not found''))
     | Some gid \<Rightarrow> bind (get_row ''scan goal'' (\<lambda>now d.
         map_option (scanGoal now) (first_row (filter (\<lambda>r. go_id r = gid \<and> go_user r = userID) (goals d))))) (\<lambda>r. case r of
           None \<Rightarrow> fail (NotFound (''goal '' @ goalID @ '' not found'')) | Some g \<Rightarrow> ret g))"

record GoalsSummary =
  gs_target :: money
  gs_current :: money
  gs_active :: nat
  gs_completed :: nat
  gs_inactive :: nat

definition GoalSummary :: "uuid \<Rightarrow> (wealth_db, GoalsSummary) act" where
  "GoalSummary userID = wrapping ''goals summary'' (query (\<lambda>_ d. let rs = filter (\<lambda>r. go_user r = userID) (goals d) in
     \<lparr>gs_target = sum_list (map go_target rs), gs_current = sum_list (map go_current rs),
      gs_active = count_where (\<lambda>r. go_status r = ''ACTIVE'') rs, gs_completed = count_where (\<lambda>r. go_status r = ''COMPLETED'') rs,
      gs_inactive = count_where (\<lambda>r. go_status r = ''INACTIVE'') rs\<rparr>))"

section \<open>Bookmarks\<close>

definition own_watch :: "uuid \<Rightarrow> string \<Rightarrow> watch_row \<Rightarrow> bool" where
  "own_watch userID code w \<longleftrightarrow> wi_user w = userID \<and> wi_code w = code"

definition in_catalogue :: "string \<Rightarrow> wealth_db \<Rightarrow> bool" where
  "in_catalogue code d = list_ex (\<lambda>c. fu_code c = code) (catalog (trading d))"

definition watch_Add :: "uuid \<Rightarrow> string \<Rightarrow> (wealth_db, unit) act" where
  "watch_Add userID code = bind (wrapping ''verify fund exists'' (query (\<lambda>_. in_catalogue code))) (\<lambda>exists.
     if \<not> exists then fail (NotFound (''fund '' @ code @ '' not found''))
     else wrapping ''add watchlist item'' (exec_check (\<lambda>_. in_catalogue code) (\<lambda>now d.
       if list_ex (own_watch userID code) (watches d) then d
       else d\<lparr>watches := watches d @ [\<lparr>wi_user = userID, wi_code = code, wi_created = now\<rparr>]\<rparr>)))"

definition watch_Remove :: "uuid \<Rightarrow> string \<Rightarrow> (wealth_db, unit) act" where
  "watch_Remove userID code = wrapping ''remove watchlist item'' (exec_upd (\<lambda>_ d.
     d\<lparr>watches := filter (\<lambda>w. \<not> own_watch userID code w) (watches d)\<rparr>))"

definition IsWatched :: "uuid \<Rightarrow> string \<Rightarrow> (wealth_db, bool) act" where
  "IsWatched userID code = wrapping ''check watchlist item'' (query (\<lambda>_ d. list_ex (own_watch userID code) (watches d)))"

record WatchItem =
  wv_code :: string
  wv_name :: string
  wv_amc :: string
  wv_category :: string
  wv_risk :: string
  wv_nav :: rat
  wv_one_year :: "rat option"
  wv_added :: int

definition watch_items :: "uuid \<Rightarrow> wealth_db \<Rightarrow> WatchItem list" where
  "watch_items userID d = concat (map (\<lambda>w. map (\<lambda>c. \<lparr>wv_code = fu_code c, wv_name = fu_name c, wv_amc = fu_amc c,
       wv_category = fu_category c, wv_risk = fu_risk c, wv_nav = fu_nav c, wv_one_year = fu_one_year c, wv_added = wi_created w\<rparr>)
     (filter (\<lambda>c. fu_code c = wi_code w) (catalog (trading d))))
     (order_desc wi_created (filter (\<lambda>w. wi_user w = userID) (watches d))))"

definition watch_List :: "uuid \<Rightarrow> (wealth_db, WatchItem list) act" where
  "watch_List userID = wrapping ''list watchlist items'' (query (\<lambda>_. watch_items userID))"

section \<open>Handlers\<close>

type_synonym 'a mark_handler = "(wealth_db, 'a http \<times> notices) act"

definition createGoal :: "uuid option \<Rightarrow> string + CreateGoalRequest \<Rightarrow> Goal mark_handler" where
  "createGoal u body = with_user u (\<lambda>userID. with_body body (\<lambda>req. or_error [] (CreateGoal userID req) (reply_created [])))"

definition listGoals :: "uuid option \<Rightarrow> Goal list mark_handler" where
  "listGoals u = with_user u (\<lambda>userID. or_error [] (ListGoals userID) (reply_ok []))"

definition getGoal :: "(string \<Rightarrow> uuid option) \<Rightarrow> uuid option \<Rightarrow> string \<Rightarrow> Goal mark_handler" where
  "getGoal parse u goalID = with_user u (\<lambda>userID. or_error [] (GetGoal parse userID goalID) (reply_ok []))"

definition goals_summary :: "uuid option \<Rightarrow> GoalsSummary mark_handler" where
  "goals_summary u = with_user u (\<lambda>userID. or_error [] (GoalSummary userID) (reply_ok []))"

definition watch_list :: "uuid option \<Rightarrow> WatchItem list mark_handler" where
  "watch_list u = with_user u (\<lambda>userID. or_error [] (watch_List userID) (reply_ok []))"

text \<open>The answer says whether the fund is watched now.\<close>

definition watch_add :: "uuid option \<Rightarrow> string \<Rightarrow> bool mark_handler" where
  "watch_add u code = with_user u (\<lambda>userID. or_error [] (watch_Add userID code) (\<lambda>_. reply_ok [] True))"

definition watch_remove :: "uuid option \<Rightarrow> string \<Rightarrow> bool mark_handler" where
  "watch_remove u code = with_user u (\<lambda>userID. or_error [] (watch_Remove userID code) (\<lambda>_. reply_ok [] False))"

end
