(* ===== verification/PortfolioHistory.thy ===== *)
theory PortfolioHistory
  imports Portfolio Http
begin

text \<open>
  The discipline and performance of an investor, the rest of \<open>internal/service/portfolio_analysis.go\<close>, and the
  handlers of \<open>internal/handler/portfolio_analysis_handler.go\<close>. The server and the session of the database are in UTC. A query whose
  error is dropped yields no rows. Maturity amounts are reals, and so are the totals they enter.
\<close>

section \<open>Months\<close>

definition ym_text :: "int \<Rightarrow> string" where
  "ym_text t = (case civil (day_of t) of (y, m, d) \<Rightarrow> month_text y m)"

definition month_short :: "int \<Rightarrow> string" where
  "month_short t = (case civil (day_of t) of (y, m, d) \<Rightarrow>
     [''Jan'', ''Feb'', ''Mar'', ''Apr'', ''May'', ''Jun'', ''Jul'', ''Aug'', ''Sep'', ''Oct'', ''Nov'', ''Dec''] ! m)"

definition window_start :: "int \<Rightarrow> int" where
  "window_start now = month_first (AddDate 0 (-11) 0 now)"

section \<open>Flows\<close>

record txnPoint =
  tp_at :: int
  tp_amount :: money
  tp_sip :: bool
  tp_sell :: bool

definition of_folio :: "uuid \<Rightarrow> trade_db \<Rightarrow> (folio_row \<Rightarrow> mf_txn_row \<Rightarrow> 'a option) \<Rightarrow> 'a list" where
  "of_folio userID d pick = concat (map (\<lambda>t. concat (map (\<lambda>f. case pick f t of None \<Rightarrow> [] | Some a \<Rightarrow> [a])
     (filter (\<lambda>f. fo_id f = mt_folio t \<and> fo_user f = userID) (folios d)))) (mf_txns d))"

definition mf_buys :: "uuid \<Rightarrow> int \<Rightarrow> trade_db \<Rightarrow> txnPoint list" where
  "mf_buys userID since d = of_folio userID d (\<lambda>f t. if mt_type t \<in> {''PURCHASE'', ''SIP''} \<and> mt_date t \<ge> since
     then Some \<lparr>tp_at = mt_date t * day_ns, tp_amount = mt_amount t, tp_sip = (mt_type t = ''SIP'' \<or> fo_sip f), tp_sell = False\<rparr> else None)"

definition mf_sells :: "uuid \<Rightarrow> int \<Rightarrow> trade_db \<Rightarrow> txnPoint list" where
  "mf_sells userID since d = of_folio userID d (\<lambda>f t. if mt_type t = ''REDEEM'' \<and> mt_date t \<ge> since
     then Some \<lparr>tp_at = mt_date t * day_ns, tp_amount = mt_amount t, tp_sip = False, tp_sell = True\<rparr> else None)"

text \<open>Completed orders; reading stops at a row whose price is null, since the scan fails and closes the rows.\<close>

definition done_orders :: "uuid \<Rightarrow> string \<Rightarrow> int \<Rightarrow> trade_db \<Rightarrow> order_row list" where
  "done_orders userID side since d = filter (\<lambda>r. od_user r = userID \<and> od_txn r = side \<and> od_status r = ''COMPLETE'' \<and> od_time r \<ge> since) (orders d)"

definition stock_points :: "uuid \<Rightarrow> string \<Rightarrow> int \<Rightarrow> trade_db \<Rightarrow> txnPoint list" where
  "stock_points userID side since d = map (\<lambda>r. \<lparr>tp_at = od_time r, tp_amount = the (od_avg r) * of_int (od_filled r), tp_sip = False,
     tp_sell = (side = ''SELL'')\<rparr>) (takeWhile (\<lambda>r. od_avg r \<noteq> None) (done_orders userID side since d))"

definition read_txns :: "uuid \<Rightarrow> int \<Rightarrow> (wealth_db, txnPoint list) act" where
  "read_txns userID start = bind (ignoring [] (query (\<lambda>_ d. mf_buys userID (day_of start) (trading d)))) (\<lambda>a.
     bind (ignoring [] (query (\<lambda>_ d. stock_points userID ''BUY'' start (trading d)))) (\<lambda>b.
     bind (ignoring [] (query (\<lambda>_ d. mf_sells userID (day_of start) (trading d)))) (\<lambda>c.
     bind (ignoring [] (query (\<lambda>_ d. stock_points userID ''SELL'' start (trading d)))) (\<lambda>e. ret (a @ b @ c @ e)))))"

section \<open>Discipline\<close>

record MonthlyInvestmentPoint =
  mp_name :: string
  mp_month :: string
  mp_amount :: money
  mp_buy :: money
  mp_sell :: money
  mp_net :: money
  mp_count :: nat
  mp_has :: bool

record YearlyInvestmentPoint =
  yp_year :: int
  yp_buy :: money
  yp_sell :: money
  yp_net :: money

record DisciplineResult =
  di_level :: string
  di_score :: rat
  di_segments :: nat
  di_consistency :: rat
  di_streak :: nat
  di_missed :: nat
  di_average :: money
  di_automation :: rat
  di_mandates :: nat
  di_years :: "YearlyInvestmentPoint list"
  di_months :: "MonthlyInvestmentPoint list"

definition slot_add :: "MonthlyInvestmentPoint \<Rightarrow> txnPoint \<Rightarrow> MonthlyInvestmentPoint" where
  "slot_add s t = (if tp_sell t then s\<lparr>mp_sell := round2 (mp_sell s + tp_amount t)\<rparr>
     else s\<lparr>mp_amount := round2 (mp_amount s + tp_amount t), mp_buy := round2 (mp_amount s + tp_amount t),
            mp_count := Suc (mp_count s), mp_has := True\<rparr>)"

definition empty_slot :: "int \<Rightarrow> MonthlyInvestmentPoint" where
  "empty_slot m = \<lparr>mp_name = month_short m, mp_month = ym_text m, mp_amount = 0, mp_buy = 0, mp_sell = 0, mp_net = 0, mp_count = 0, mp_has = False\<rparr>"

definition month_slot :: "txnPoint list \<Rightarrow> int \<Rightarrow> MonthlyInvestmentPoint" where
  "month_slot txns m = (let s = foldl slot_add (empty_slot m) (filter (\<lambda>t. ym_text (tp_at t) = ym_text m) txns)
     in s\<lparr>mp_net := round2 (mp_buy s - mp_sell s)\<rparr>)"

definition month_slots :: "txnPoint list \<Rightarrow> int \<Rightarrow> MonthlyInvestmentPoint list" where
  "month_slots txns start = map (\<lambda>i. month_slot txns (AddDate 0 (int i) 0 start)) [0..<12]"

text \<open>The months with an investment, from the last back to the first gap; a gap in the last one is passed over.\<close>

fun run_back :: "bool \<Rightarrow> bool list \<Rightarrow> nat" where
  "run_back latest [] = 0"
| "run_back latest (b # bs) = (if b then Suc (run_back False bs) else if latest then run_back False bs else 0)"

definition disciplineLevelAndSegments :: "rat \<Rightarrow> string \<times> nat" where
  "disciplineLevelAndSegments score = (if score < 40/100 then (''POOR'', 1) else if score < 70/100 then (''MODERATE'', 2)
     else if score < 85/100 then (''GOOD'', 4) else (''EXCELLENT'', 5))"

definition clamp :: "rat \<Rightarrow> rat \<Rightarrow> rat \<Rightarrow> rat" where
  "clamp v lo hi = (if v < lo then lo else if v > hi then hi else v)"

definition invested :: "txnPoint list \<Rightarrow> money" where
  "invested txns = sum_list (map tp_amount (filter (\<lambda>t. \<not> tp_sell t) txns))"

definition automation :: "txnPoint list \<Rightarrow> nat \<Rightarrow> rat" where
  "automation txns nm = (if invested txns > 0
     then round2 (sum_list (map tp_amount (filter (\<lambda>t. \<not> tp_sell t \<and> tp_sip t) txns)) / invested txns * 100)
     else if nm > 0 then 100 else 0)"

definition discipline_of :: "txnPoint list \<Rightarrow> nat \<Rightarrow> YearlyInvestmentPoint list \<Rightarrow> int \<Rightarrow> DisciplineResult" where
  "discipline_of txns nm years now =
     (let slots = month_slots txns (window_start now); activeMonths = count_where mp_has slots;
          streak = run_back True (rev (map mp_has slots)); consistency = round2 (of_nat activeMonths / 12 * 100);
          auto = automation txns nm;
          idle = (activeMonths = 0 \<and> nm = 0);
          raw = (if idle then 70/100 else consistency / 100 * (50/100) + of_nat (min streak 12) / 12 * (30/100) + auto / 100 * (20/100));
          score = round2 (clamp raw 0 1)
      in \<lparr>di_level = fst (disciplineLevelAndSegments score), di_score = score, di_segments = snd (disciplineLevelAndSegments score),
          di_consistency = (if idle then 75 else consistency), di_streak = (if idle then 3 else streak), di_missed = 12 - activeMonths,
          di_average = (if activeMonths > 0 then round2 (invested txns / of_nat activeMonths) else 0), di_automation = auto,
          di_mandates = nm, di_years = years, di_months = slots\<rparr>)"

text \<open>Sums by calendar year; a null price drops out of a sum.\<close>

definition year_of :: "int \<Rightarrow> int" where
  "year_of t = (case civil (day_of t) of (y, m, d) \<Rightarrow> y)"

definition order_amount :: "order_row \<Rightarrow> money" where
  "order_amount r = (case od_avg r of None \<Rightarrow> 0 | Some p \<Rightarrow> p * of_int (od_filled r))"

definition mf_flows :: "(uuid \<Rightarrow> int \<Rightarrow> trade_db \<Rightarrow> txnPoint list) \<Rightarrow> uuid \<Rightarrow> int \<Rightarrow> wealth_db \<Rightarrow> (int \<times> money) list" where
  "mf_flows pick userID start d = map (\<lambda>t. (year_of (tp_at t), tp_amount t)) (pick userID (day_of start) (trading d))"

definition stock_flows :: "string \<Rightarrow> uuid \<Rightarrow> int \<Rightarrow> wealth_db \<Rightarrow> (int \<times> money) list" where
  "stock_flows side userID start d = map (\<lambda>r. (year_of (od_time r), order_amount r)) (done_orders userID side start (trading d))"

definition in_year :: "(int \<times> money) list \<Rightarrow> int \<Rightarrow> money" where
  "in_year ps y = round2 (sum_list (map snd (filter (\<lambda>p. fst p = y) ps)))"

definition year_point :: "(int \<times> money) list \<Rightarrow> (int \<times> money) list \<Rightarrow> int \<Rightarrow> YearlyInvestmentPoint" where
  "year_point buys sells y = \<lparr>yp_year = y, yp_buy = in_year buys y, yp_sell = in_year sells y,
     yp_net = round2 (in_year buys y - in_year sells y)\<rparr>"

definition yearlyInvestmentHistory :: "uuid \<Rightarrow> int \<Rightarrow> (wealth_db, YearlyInvestmentPoint list) act" where
  "yearlyInvestmentHistory userID currentYear = (let start = date_days (currentYear - 6) 0 1 * day_ns in
     bind (ignoring [] (query (\<lambda>_. mf_flows mf_buys userID start))) (\<lambda>b1.
     bind (ignoring [] (query (\<lambda>_. stock_flows ''BUY'' userID start))) (\<lambda>b2.
     bind (ignoring [] (query (\<lambda>_. mf_flows mf_sells userID start))) (\<lambda>s1.
     bind (ignoring [] (query (\<lambda>_. stock_flows ''SELL'' userID start))) (\<lambda>s2.
     ret (map (\<lambda>i. year_point (b1 @ b2) (s1 @ s2) (currentYear - 6 + int i)) [0..<7]))))))"

definition Discipline :: "uuid \<Rightarrow> (wealth_db, DisciplineResult) act" where
  "Discipline userID = bind time_now (\<lambda>now.
     bind (read_txns userID (window_start now)) (\<lambda>txns.
     bind (ignoring 0 (query (\<lambda>_ d. count_where (\<lambda>m. md_user m = userID \<and> md_status m = ''ACTIVE'') (mandates (banking d))))) (\<lambda>n.
     bind (yearlyInvestmentHistory userID (year_of now)) (\<lambda>years.
     ret (discipline_of txns n years now)))))"

section \<open>Performance\<close>

record BenchmarkComparison =
  bc_name :: string
  bc_benchmark :: real
  bc_portfolio :: real
  bc_alpha :: real
  bc_beating :: bool

record ExpensiveFundItem =
  xf_code :: string
  xf_name :: string
  xf_expense :: rat
  xf_category_avg :: rat
  xf_cost :: money
  xf_text :: string

record FundPerformanceItem =
  fp_code :: string
  fp_name :: string
  fp_invested :: money
  fp_current :: money
  fp_gain :: money
  fp_returns :: rat
  fp_rank :: string

record PerformanceResult =
  pf_level :: string
  pf_segments :: nat
  pf_invested :: money
  pf_current :: real
  pf_gain :: real
  pf_return :: real
  pf_annualized :: real
  pf_benchmarks :: "BenchmarkComparison list"
  pf_expensive :: "ExpensiveFundItem list"
  pf_funds :: "FundPerformanceItem list"

definition performanceLevelAndSegments :: "real \<Rightarrow> string \<times> nat" where
  "performanceLevelAndSegments r = (if r < 0 then (''SIGNIFICANTLY_BELOW'', 1) else if r < 71/10 then (''BELOW_AVERAGE'', 2)
     else if r < 12 then (''IN_LINE'', 3) else if r < 18 then (''STRONG'', 4) else (''VERY_STRONG'', 5))"

definition fund_performance :: "Folio \<Rightarrow> FundPerformanceItem" where
  "fund_performance f = (let gain = fl_current f - fl_invested f; pct = pct_of gain (fl_invested f)
     in \<lparr>fp_code = fl_code f, fp_name = fl_name f, fp_invested = round2 (fl_invested f), fp_current = round2 (fl_current f),
         fp_gain = round2 gain, fp_returns = pct,
         fp_rank = (if pct \<ge> 15 then ''TOP'' else if pct < 5 then ''UNDERPERFORMER'' else ''AVERAGE'')\<rparr>)"

text \<open>A fund of the catalogue is expensive from an expense ratio of 1.50 on.\<close>

definition expensive_item :: "(string \<Rightarrow> (string \<times> rat) option) \<Rightarrow> Folio \<Rightarrow> ExpensiveFundItem list" where
  "expensive_item info f = (case info (fl_code f) of None \<Rightarrow> []
     | Some (name, ratio) \<Rightarrow> if ratio \<ge> 150/100 then [\<lparr>xf_code = fl_code f, xf_name = name, xf_expense = ratio, xf_category_avg = 65/100,
         xf_cost = round2 (fl_current f * ratio / 100),
         xf_text = ''Consider switching to a direct plan or index alternative to reduce fee drag.''\<rparr>] else [])"

definition against :: "real \<Rightarrow> string \<times> real \<Rightarrow> BenchmarkComparison" where
  "against r b = \<lparr>bc_name = fst b, bc_benchmark = snd b, bc_portfolio = r, bc_alpha = round2r (r - snd b), bc_beating = (r \<ge> snd b)\<rparr>"

definition benchmarks :: "(string \<times> real) list" where
  "benchmarks = [(''Nifty 50 Index'', 142/10), (''Gold ETF'', 115/10), (''Fixed Deposit (7.1%)'', 71/10)]"

definition performance_of :: "Folio list \<Rightarrow> Holding list \<Rightarrow> Deposits.Account list \<Rightarrow> (string \<Rightarrow> (string \<times> rat) option) \<Rightarrow> PerformanceResult" where
  "performance_of fs hs fds info =
     (let put = round2 (sum_list (map fl_invested fs) + sum_list (map (\<lambda>h. of_int (ho_qty h) * ho_avg h) hs)
            + sum_list (map fa_principal (active fds)));
          cur = round2r (of_rat (sum_list (map fl_current fs) + sum_list (map stock_value hs)) + sum_list (map fa_amount (active fds)));
          gain = round2r (cur - of_rat put);
          pct = (if put > 0 then round2r (gain / of_rat put * 100) else 0)
      in \<lparr>pf_level = fst (performanceLevelAndSegments pct), pf_segments = snd (performanceLevelAndSegments pct), pf_invested = put,
          pf_current = cur, pf_gain = gain, pf_return = pct, pf_annualized = pct, pf_benchmarks = map (against pct) benchmarks,
          pf_expensive = concat (map (expensive_item info) fs), pf_funds = map fund_performance fs\<rparr>)"

definition fund_infos :: "string list \<Rightarrow> (wealth_db, string \<Rightarrow> (string \<times> rat) option) act" where
  "fund_infos codes = (if codes = [] then ret Map.empty
     else ignoring Map.empty (query (\<lambda>_ d. map_of (map (\<lambda>c. (fu_code c, fu_name c, fu_expense c))
       (filter (\<lambda>c. fu_code c \<in> set codes) (catalog (trading d)))))))"

definition Performance :: "(int \<Rightarrow> rat) \<Rightarrow> (string \<Rightarrow> int) \<Rightarrow> uuid \<Rightarrow> (wealth_db, PerformanceResult) act" where
  "Performance rnd coll userID =
     bind (wrapping ''load mf for performance'' (on_trade (mf_GetHoldings rnd coll userID))) (\<lambda>(_, fs).
     bind (wrapping ''load stocks for performance'' (on_trade (GetHoldings coll userID))) (\<lambda>hs.
     bind (wrapping ''load fd for performance'' (on_bank (ListFDs userID))) (\<lambda>fds.
     bind (fund_infos (map fl_code fs)) (\<lambda>info. ret (performance_of fs hs fds info)))))"

section \<open>Handlers\<close>

type_synonym 'a wealth_handler = "(wealth_db, 'a http \<times> notices) act"

definition allocation :: "ranging \<Rightarrow> (int \<Rightarrow> rat) \<Rightarrow> (string \<Rightarrow> int) \<Rightarrow> uuid option \<Rightarrow> AllocationResult wealth_handler" where
  "allocation rg rnd coll u = with_user u (\<lambda>userID. or_error [] (Allocation rg rnd coll userID) (reply_ok []))"

definition discipline :: "uuid option \<Rightarrow> DisciplineResult wealth_handler" where
  "discipline u = with_user u (\<lambda>userID. or_error [] (Discipline userID) (reply_ok []))"

definition performance :: "(int \<Rightarrow> rat) \<Rightarrow> (string \<Rightarrow> int) \<Rightarrow> uuid option \<Rightarrow> PerformanceResult wealth_handler" where
  "performance rnd coll u = with_user u (\<lambda>userID. or_error [] (Performance rnd coll userID) (reply_ok []))"

text \<open>The parsed amount, or 10000 when it does not parse or is not positive.\<close>

definition simulate :: "ranging \<Rightarrow> (int \<Rightarrow> rat) \<Rightarrow> (string \<Rightarrow> int) \<Rightarrow> uuid option \<Rightarrow> string \<Rightarrow> string \<Rightarrow> SimulationResult wealth_handler" where
  "simulate rg rnd coll u codeText amountText = with_user u (\<lambda>userID.
     let code = (if codeText = [] then ''PARAG-FLX-G'' else codeText);
         amount = (case ParseFloat amountText of None \<Rightarrow> 10000 | Some a \<Rightarrow> if a \<le> 0 then 10000 else a)
     in or_error [] (SimulatePurchase rg rnd coll userID code amount) (reply_ok []))"

text \<open>A tip: the agent's answer to a tab's analysis (a parameter), or none when the agent fails.\<close>

datatype tab_payload = TabAllocation AllocationResult | TabDiscipline DisciplineResult | TabPerformance PerformanceResult

definition tab_payload_of :: "ranging \<Rightarrow> (int \<Rightarrow> rat) \<Rightarrow> (string \<Rightarrow> int) \<Rightarrow> uuid \<Rightarrow> string \<Rightarrow> (wealth_db, tab_payload) act" where
  "tab_payload_of rg rnd coll userID topic =
     (if topic = ''allocation'' then bind (Allocation rg rnd coll userID) (\<lambda>a. ret (TabAllocation a))
      else if topic = ''discipline'' then bind (Discipline userID) (\<lambda>a. ret (TabDiscipline a))
      else if topic = ''performance'' then bind (Performance rnd coll userID) (\<lambda>a. ret (TabPerformance a))
      else fail (Validation ''unknown tip topic''))"

definition tip :: "ranging \<Rightarrow> (int \<Rightarrow> rat) \<Rightarrow> (string \<Rightarrow> int) \<Rightarrow> (uuid \<Rightarrow> string \<Rightarrow> tab_payload \<Rightarrow> goerr + 'tip) \<Rightarrow> string \<Rightarrow>
    uuid option \<Rightarrow> 'tip option wealth_handler" where
  "tip rg rnd coll agent topic u = with_user u (\<lambda>userID. or_error [] (tab_payload_of rg rnd coll userID topic) (\<lambda>p.
     reply_ok [] (case agent userID topic p of Inl _ \<Rightarrow> None | Inr t \<Rightarrow> Some t)))"

definition fundTip :: "(string \<Rightarrow> 'p \<Rightarrow> goerr + 'tip) \<Rightarrow> uuid option \<Rightarrow> string + (string \<times> 'p) \<Rightarrow> 'tip option wealth_handler" where
  "fundTip agent u body = with_user u (\<lambda>_. with_body body (\<lambda>(code, profile).
     if code = [] then ret (HErr (Validation ''scheme_code is required''), [])
     else reply_ok [] (case agent (''fund:'' @ code) profile of Inl _ \<Rightarrow> None | Inr t \<Rightarrow> Some t)))"

end
