(* ===== verification/Dashboard.thy ===== *)
theory Dashboard
  imports PortfolioHistory BankHttp
begin

text \<open>
  The home screen: \<open>internal/service/dashboard.go\<close> and \<open>internal/handler/dashboard_handler.go\<close>. The four (or, with the bank
  mirror, five) sources are read one after the other in the order the code starts them; the first failure ends the
  request. \<open>gauss seed k\<close> is the \<open>k\<close>-th \<open>NormFloat64\<close> of the generator of that seed; what is computed from it is rounded to
  paise at every step.
\<close>

section \<open>Inputs\<close>

record PortfolioInputs =
  pi_holdings :: "Holding list"
  pi_mf :: HoldingsSummary
  pi_folios :: "Folio list"
  pi_fds :: "Deposits.Account list"
  pi_banks :: "BankAccount list"

definition mirror_account :: "AccountView \<Rightarrow> BankAccount" where
  "mirror_account a = \<lparr>bv_id = uuid_nil, bv_name = ''IDBI Bank'', bv_type = av_type a,
     bv_balance = (if av_ledger a = 0 then av_available a else av_ledger a)\<rparr>"

text \<open>The mirror's list, when one is wired (\<open>idbi\<close>); a failure to read it is no accounts.\<close>

definition mirror_accounts :: "(string \<Rightarrow> int) \<Rightarrow> acct_config option \<Rightarrow> uuid \<Rightarrow> (wealth_db, BankAccount list) act" where
  "mirror_accounts coll idbi userID = (case idbi of None \<Rightarrow> ret []
     | Some cfg \<Rightarrow> ignoring [] (bind (on_mirror (acct_List coll cfg userID)) (\<lambda>(views, _). ret (map mirror_account views))))"

definition FetchInputs :: "(int \<Rightarrow> rat) \<Rightarrow> (string \<Rightarrow> int) \<Rightarrow> acct_config option \<Rightarrow> uuid \<Rightarrow> (wealth_db, PortfolioInputs) act" where
  "FetchInputs rnd coll idbi userID =
     bind (wrapping ''load stocks for dashboard'' (on_trade (GetHoldings coll userID))) (\<lambda>hs.
     bind (wrapping ''load mf for dashboard'' (on_trade (mf_GetHoldings rnd coll userID))) (\<lambda>(mf, fs).
     bind (wrapping ''load fd for dashboard'' (on_bank (ListFDs userID))) (\<lambda>fds.
     bind (wrapping ''load bank accounts for dashboard'' (on_bank (GetBankAccounts userID))) (\<lambda>banks.
     bind (mirror_accounts coll idbi userID) (\<lambda>more.
     ret \<lparr>pi_holdings = hs, pi_mf = mf, pi_folios = fs, pi_fds = fds, pi_banks = banks @ more\<rparr>)))))"

section \<open>The summary\<close>

record AssetBucket =
  ab_value :: money
  ab_invested :: money
  ab_returns :: money
  ab_returns_pct :: rat
  ab_day :: money
  ab_day_pct :: rat
  ab_share :: rat

record Summary =
  su_total :: money
  su_day :: money
  su_day_pct :: rat
  su_mf :: AssetBucket
  su_stocks :: AssetBucket
  su_fd :: AssetBucket
  su_bank :: AssetBucket

definition fillDerivedFields :: "money \<Rightarrow> money \<Rightarrow> money \<Rightarrow> AssetBucket" where
  "fillDerivedFields val put day = (let v = round2 val; i = round2 put; c = round2 day; ret_amt = round2 (v - i)
     in \<lparr>ab_value = v, ab_invested = i, ab_returns = ret_amt, ab_returns_pct = pct_of ret_amt i, ab_day = c,
         ab_day_pct = pct_of c (v - c), ab_share = 0\<rparr>)"

definition shareOf :: "money \<Rightarrow> AssetBucket \<Rightarrow> AssetBucket" where
  "shareOf tot b = (if tot > 0 then b\<lparr>ab_share := round2 (ab_value b / tot * 100)\<rparr> else b)"

definition stocks_bucket :: "Holding list \<Rightarrow> AssetBucket" where
  "stocks_bucket hs = fillDerivedFields (sum_list (map stock_value hs)) (sum_list (map (\<lambda>h. of_int (ho_qty h) * ho_avg h) hs))
     (sum_list (map (\<lambda>h. of_int (ho_qty h) * (ho_last h - ho_close h)) hs))"

definition mf_bucket :: "HoldingsSummary \<Rightarrow> AssetBucket" where
  "mf_bucket s = fillDerivedFields (hs_current s) (hs_invested s) (hs_day s)"

definition fd_bucket :: "Deposits.Account list \<Rightarrow> AssetBucket" where
  "fd_bucket fds = (let p = sum_list (map fa_principal (active fds)) in fillDerivedFields p p 0)"

definition bank_bucket :: "BankAccount list \<Rightarrow> AssetBucket" where
  "bank_bucket bs = fillDerivedFields (sum_list (map bv_balance bs)) 0 0"

definition summary_from :: "PortfolioInputs \<Rightarrow> Summary" where
  "summary_from inp = (let st = stocks_bucket (pi_holdings inp); mf = mf_bucket (pi_mf inp); fd = fd_bucket (pi_fds inp);
       bk = bank_bucket (pi_banks inp); tot = round2 (ab_value st + ab_value mf + ab_value fd + ab_value bk);
       day = round2 (ab_day st + ab_day mf)
     in \<lparr>su_total = tot, su_day = day, su_day_pct = pct_of day (tot - day), su_mf = shareOf tot mf, su_stocks = shareOf tot st,
         su_fd = shareOf tot fd, su_bank = shareOf tot bk\<rparr>)"

definition own_snapshot :: "uuid \<Rightarrow> int \<Rightarrow> snapshot_row \<Rightarrow> bool" where
  "own_snapshot userID day r \<longleftrightarrow> sn_user r = userID \<and> sn_date r = day"

definition snapshot_fits :: "snapshot_row \<Rightarrow> bool" where
  "snapshot_fits r \<longleftrightarrow> list_all (decimal_fits 18 2) [sn_total r, sn_mf r, sn_stocks r, sn_fd r, sn_bank r]"

definition snapshot_for :: "uuid \<Rightarrow> int \<Rightarrow> money \<Rightarrow> money \<Rightarrow> money \<Rightarrow> money \<Rightarrow> money \<Rightarrow> snapshot_row" where
  "snapshot_for userID day tot mf st fd bk = \<lparr>sn_user = userID, sn_date = day, sn_total = round2 tot, sn_mf = round2 mf,
     sn_stocks = round2 st, sn_fd = round2 fd, sn_bank = round2 bk\<rparr>"

definition recordSnapshot :: "uuid \<Rightarrow> money \<Rightarrow> money \<Rightarrow> money \<Rightarrow> money \<Rightarrow> money \<Rightarrow> (wealth_db, unit) act" where
  "recordSnapshot userID tot mf st fd bk = exec_check (\<lambda>now _. snapshot_fits (snapshot_for userID (day_of now) tot mf st fd bk))
     (\<lambda>now d. let r = snapshot_for userID (day_of now) tot mf st fd bk
        in d\<lparr>snapshots := put_row (own_snapshot userID (day_of now)) (\<lambda>_. r) r (snapshots d)\<rparr>)"

definition Summarize :: "uuid \<Rightarrow> PortfolioInputs \<Rightarrow> (wealth_db, Summary) act" where
  "Summarize userID inp = (let s = summary_from inp in
     bind (wrapping ''record portfolio snapshot'' (recordSnapshot userID (su_total s) (ab_value (su_mf s)) (ab_value (su_stocks s))
       (ab_value (su_fd s)) (ab_value (su_bank s)))) (\<lambda>_. ret s))"

definition dash_Summary :: "(int \<Rightarrow> rat) \<Rightarrow> (string \<Rightarrow> int) \<Rightarrow> acct_config option \<Rightarrow> uuid \<Rightarrow> (wealth_db, Summary) act" where
  "dash_Summary rnd coll idbi userID = bind (FetchInputs rnd coll idbi userID) (Summarize userID)"

section \<open>Growth\<close>

record SnapshotPoint =
  gp_date :: int
  gp_total :: money

text \<open>\<open>math.Round(v*100) / 100\<close> of a real.\<close>

definition to_paise :: "real \<Rightarrow> rat" where
  "to_paise v = of_int (if 0 \<le> v then \<lfloor>v * 100 + 1/2\<rfloor> else \<lceil>v * 100 - 1/2\<rceil>) / 100"

text \<open>From the last value back, one day per step, the oldest first.\<close>

fun backtrack :: "(nat \<Rightarrow> real) \<Rightarrow> nat \<Rightarrow> rat \<Rightarrow> nat \<Rightarrow> rat list" where
  "backtrack f k v 0 = [v]"
| "backtrack f k v (Suc n) = backtrack f (Suc k) (to_paise (of_rat v / f k)) n @ [v]"

definition growth_rates :: "money \<Rightarrow> money \<Rightarrow> money \<Rightarrow> real \<times> real" where
  "growth_rates mf st fd = (if mf > 0 \<and> st > 0 then (18/100, 9/1000) else if mf > 0 \<and> fd > 0 then (10/100, 3/1000) else (14/100, 6/1000))"

definition totalDays :: nat where "totalDays = 365"

definition daily_factor :: "(int \<Rightarrow> nat \<Rightarrow> real) \<Rightarrow> uuid \<Rightarrow> real \<times> real \<Rightarrow> nat \<Rightarrow> real" where
  "daily_factor gauss userID rates k = (case rates of (cagr, volatility) \<Rightarrow>
     1 + ((1 + cagr) powr (1 / 365) - 1) + gauss (sint (fnv64a userID)) k * volatility)"

definition simulated :: "(int \<Rightarrow> nat \<Rightarrow> real) \<Rightarrow> uuid \<Rightarrow> real \<times> real \<Rightarrow> money \<Rightarrow> rat list" where
  "simulated gauss userID rates cur = backtrack (daily_factor gauss userID rates) 0 cur (totalDays - 1)"

definition day_back :: "int \<Rightarrow> nat \<Rightarrow> int" where
  "day_back today i = today - int (totalDays - 1 - i)"

definition backfill_row :: "uuid \<Rightarrow> int \<Rightarrow> rat \<Rightarrow> snapshot_row" where
  "backfill_row userID day v = snapshot_for userID day v (v * (65/100)) (v * (25/100)) (v * (10/100)) 0"

definition put_backfill :: "snapshot_row \<Rightarrow> snapshot_row list \<Rightarrow> snapshot_row list" where
  "put_backfill r rs = put_row (own_snapshot (sn_user r) (sn_date r)) (\<lambda>s. s\<lparr>sn_total := sn_total r\<rparr>) r rs"

definition backfill_rows :: "uuid \<Rightarrow> int \<Rightarrow> rat list \<Rightarrow> snapshot_row list" where
  "backfill_rows userID today vs = map (\<lambda>i. backfill_row userID (day_back today i) (vs ! i)) [0..<totalDays]"

definition backfill :: "uuid \<Rightarrow> rat list \<Rightarrow> (wealth_db, unit) act" where
  "backfill userID vs = wrapping ''batch insert growth backfill'' (exec_check
     (\<lambda>now _. list_all snapshot_fits (backfill_rows userID (day_of now) vs))
     (\<lambda>now d. d\<lparr>snapshots := foldl (\<lambda>rs r. put_backfill r rs) (snapshots d) (backfill_rows userID (day_of now) vs)\<rparr>))"

definition recorded_points :: "uuid \<Rightarrow> nat \<Rightarrow> (wealth_db, SnapshotPoint list) act" where
  "recorded_points userID days = wrapping ''query portfolio snapshots'' (query (\<lambda>_ d.
     rev (map (\<lambda>r. \<lparr>gp_date = sn_date r * day_ns, gp_total = sn_total r\<rparr>)
       (take days (order_desc sn_date (filter (\<lambda>r. sn_user r = userID) (snapshots d)))))))"

definition GrowthHistory :: "(int \<Rightarrow> nat \<Rightarrow> real) \<Rightarrow> (int \<Rightarrow> rat) \<Rightarrow> (string \<Rightarrow> int) \<Rightarrow> acct_config option \<Rightarrow> uuid \<Rightarrow> int \<Rightarrow>
    PortfolioInputs option \<Rightarrow> (wealth_db, SnapshotPoint list) act" where
  "GrowthHistory gauss rnd coll idbi userID days0 prefetched = (let days = days_or 180 days0 in
     bind (recorded_points userID days) (\<lambda>points.
     if length points > 30 then ret points
     else bind (wrapping ''compute current wealth for growth backfill'' (case prefetched of
           Some inp \<Rightarrow> Summarize userID inp | None \<Rightarrow> dash_Summary rnd coll idbi userID)) (\<lambda>s.
       let cur = (if su_total s \<le> 0 then 245000 else su_total s);
           vs = simulated gauss userID (growth_rates (ab_value (su_mf s)) (ab_value (su_stocks s)) (ab_value (su_fd s))) cur in
       bind (backfill userID vs) (\<lambda>_.
       bind time_now (\<lambda>now.
       let allPoints = map (\<lambda>i. \<lparr>gp_date = day_back (day_of now) i * day_ns, gp_total = vs ! i\<rparr>) [0..<totalDays]
       in ret (if days < totalDays \<and> days > 0 then drop (totalDays - days) allPoints else allPoints))))))"

section \<open>Handlers\<close>

text \<open>\<open>strconv.Atoi\<close>\<close>

definition Atoi :: "string \<Rightarrow> int option" where
  "Atoi s = (case s of [] \<Rightarrow> None
     | c # cs \<Rightarrow>
       (case (if c = CHR ''-'' then if cs = [] then None else map_option uminus (atoi_digits cs 0)
              else if c = CHR ''+'' then if cs = [] then None else atoi_digits cs 0
              else atoi_digits s 0) of
          None \<Rightarrow> None | Some n \<Rightarrow> if - (2 ^ 63) \<le> n \<and> n < 2 ^ 63 then Some n else None))"

definition summary :: "(int \<Rightarrow> rat) \<Rightarrow> (string \<Rightarrow> int) \<Rightarrow> acct_config option \<Rightarrow> uuid option \<Rightarrow> Summary wealth_handler" where
  "summary rnd coll idbi u = with_user u (\<lambda>userID. or_error [] (dash_Summary rnd coll idbi userID) (reply_ok []))"

definition growth :: "(int \<Rightarrow> nat \<Rightarrow> real) \<Rightarrow> (int \<Rightarrow> rat) \<Rightarrow> (string \<Rightarrow> int) \<Rightarrow> acct_config option \<Rightarrow> uuid option \<Rightarrow> string \<Rightarrow>
    SnapshotPoint list wealth_handler" where
  "growth gauss rnd coll idbi u daysText = with_user u (\<lambda>userID.
     let go = (\<lambda>days. or_error [] (GrowthHistory gauss rnd coll idbi userID days None) (reply_ok [])) in
     if daysText = [] then go 180
     else (case Atoi daysText of None \<Rightarrow> ret (HErr (Validation ''days must be a positive integer''), [])
           | Some n \<Rightarrow> if n < 1 then ret (HErr (Validation ''days must be a positive integer''), []) else go n))"

end
