(* ===== verification/Catalog.thy ===== *)
theory Catalog
  imports Portfolio Bookmarks Dashboard
begin

text \<open>
  The fund catalogue: \<open>internal/provider/catalog/mock.go\<close>, \<open>internal/service/catalog.go\<close> and
  \<open>internal/handler/catalog_handler.go\<close>. \<open>coll\<close> is the collation order of the database, \<open>rnd\<close> the first \<open>Float64\<close> of a
  seed. A fund has not lost all its value within a year (no division by zero in its chart).
\<close>

section \<open>Funds\<close>

record Fund =
  fn_code :: string
  fn_name :: string
  fn_amc :: string
  fn_isin :: string
  fn_category :: string
  fn_risk :: string
  fn_nav :: rat
  fn_nav_date :: int
  fn_expense :: rat
  fn_aum :: money
  fn_min :: money
  fn_min_sip :: money
  fn_one_year :: "rat option"
  fn_three_years :: "rat option"
  fn_five_years :: "rat option"
  fn_manager :: "string option"
  fn_benchmark :: "string option"
  fn_launch :: "int option"
  fn_exit_pct :: rat
  fn_exit_days :: int

definition scanFund :: "fund_row \<Rightarrow> Fund" where
  "scanFund c = \<lparr>fn_code = fu_code c, fn_name = fu_name c, fn_amc = fu_amc c, fn_isin = fu_isin c, fn_category = fu_category c,
     fn_risk = fu_risk c, fn_nav = fu_nav c, fn_nav_date = fu_nav_date c * day_ns, fn_expense = fu_expense c, fn_aum = fu_aum c,
     fn_min = fu_min c, fn_min_sip = fu_min_sip c, fn_one_year = fu_one_year c, fn_three_years = fu_three_years c,
     fn_five_years = fu_five_years c, fn_manager = fu_manager c, fn_benchmark = fu_benchmark c,
     fn_launch = map_option (\<lambda>d. d * day_ns) (fu_launch c), fn_exit_pct = fu_exit_pct c, fn_exit_days = fu_exit_days c\<rparr>"

record SearchParams =
  sq_category :: string
  sq_risk :: string
  sq_max :: "rat option"
  sq_page :: int
  sq_limit :: int

definition matching :: "SearchParams \<Rightarrow> fund_row \<Rightarrow> bool" where
  "matching q c \<longleftrightarrow> (sq_category q = [] \<or> fu_category c = sq_category q) \<and> (sq_risk q = [] \<or> fu_risk c = sq_risk q) \<and>
     (case sq_max q of None \<Rightarrow> True | Some m \<Rightarrow> fu_min c \<le> m)"

definition page_of :: "SearchParams \<Rightarrow> int" where
  "page_of q = (if sq_page q < 1 then 1 else sq_page q)"

definition limit_of :: "SearchParams \<Rightarrow> int" where
  "limit_of q = (if sq_limit q \<le> 0 \<or> sq_limit q > 100 then 20 else sq_limit q)"

text \<open>The offset is a product of 64-bit integers; the database refuses a negative one.\<close>

definition offset_of :: "SearchParams \<Rightarrow> int" where
  "offset_of q = sint (word_of_int ((page_of q - 1) * limit_of q) :: 64 word)"

definition SearchFunds :: "(string \<Rightarrow> int) \<Rightarrow> SearchParams \<Rightarrow> (wealth_db, Fund list) act" where
  "SearchFunds coll q = wrapping ''search funds'' (if offset_of q < 0 then bind (query (\<lambda>_ _. ())) (\<lambda>_. fail (Sent ErrDB))
     else query (\<lambda>_ d. map scanFund (take (nat (limit_of q)) (drop (nat (offset_of q))
       (sort_key (\<lambda>c. coll (fu_name c)) (filter (matching q) (catalog (trading d))))))))"

text \<open>LIKE: \<open>%\<close> is any text, \<open>_\<close> any character, a backslash takes the next one literally.\<close>

fun like :: "string \<Rightarrow> string \<Rightarrow> bool" where
  "like s [] = (s = [])"
| "like [] (p # ps) = (p = CHR ''%'' \<and> like [] ps)"
| "like (c # s) (p # ps) =
     (if p = CHR ''%'' then like (c # s) ps \<or> like s (p # ps)
      else if p = CHR ''_'' then like s ps
      else if p = CHR 0x5C then (case ps of [] \<Rightarrow> False | e # es \<Rightarrow> c = e \<and> like s es)
      else c = p \<and> like s ps)"

definition ilike :: "string \<Rightarrow> string \<Rightarrow> bool" where
  "ilike s p = like (to_lower s) (to_lower p)"

definition resembles :: "string \<Rightarrow> fund_row \<Rightarrow> bool" where
  "resembles p c \<longleftrightarrow> ilike (fu_code c) p \<or> ilike (fu_name c) (''%'' @ p @ ''%'') \<or> ilike (fu_amc c) (''%'' @ p @ ''%'')"

definition GetFund :: "(string \<Rightarrow> int) \<Rightarrow> string \<Rightarrow> (wealth_db, Fund) act" where
  "GetFund coll code = bind (attempt (wrapping ''scan fund'' (query_row (\<lambda>_ d.
       map_option scanFund (first_row (filter (\<lambda>c. fu_code c = code) (catalog (trading d)))))))) (\<lambda>r. case r of
       Inr f \<Rightarrow> ret f
     | Inl e \<Rightarrow> if \<not> errors_is e ErrNoRows then fail e
         else bind (attempt (query_row (\<lambda>_ d. map_option scanFund (first_row (sort_key (\<lambda>c. coll (fu_code c))
           (filter (resembles code) (catalog (trading d)))))))) (\<lambda>r2. case r2 of
             Inr f \<Rightarrow> ret f | Inl _ \<Rightarrow> fail (NotFound (''fund '' @ code @ '' not found''))))"

section \<open>What a fund is\<close>

definition has_any :: "string \<Rightarrow> string list \<Rightarrow> bool" where
  "has_any s ws = list_ex (contains s) ws"

record DeepDiveInfo =
  dd_primary :: string
  dd_secondary :: string
  dd_strengths :: string
  dd_tradeoffs :: string
  dd_contribution :: string

definition deriveFundDeepDive :: "string \<Rightarrow> string \<Rightarrow> DeepDiveInfo" where
  "deriveFundDeepDive category schemeName = (let lower = to_lower (category @ '' '' @ schemeName) in
     if has_any lower [''small'', ''mid''] then \<lparr>dd_primary = ''High Alpha Growth'', dd_secondary = ''Capital Compounding'',
       dd_strengths = ''High compounding runway and market-beating alpha during expansion cycles.'',
       dd_tradeoffs = ''Elevated near-term volatility and sharper market corrections.'',
       dd_contribution = ''Targets fast-growing emerging companies to accelerate long-term capital compounding.''\<rparr>
     else if has_any lower [''tech'', ''semi'', ''energy'', ''thematic'', ''auto''] then \<lparr>dd_primary = ''Thematic Growth'', dd_secondary = ''Sector Alpha'',
       dd_strengths = ''Concentrated capital efficiency in high-conviction secular mega-trends.'',
       dd_tradeoffs = ''Cyclical sector dependence and higher tracking risk.'',
       dd_contribution = ''Provides high-conviction exposure to industry tailwinds in '' @ category @ ''.''\<rparr>
     else if has_any lower [''debt'', ''liquid'', ''hybrid'', ''bond'', ''conservative''] then \<lparr>dd_primary = ''Income & Stability'', dd_secondary = ''Downside Protection'',
       dd_strengths = ''Predictable yields, low drawdown risk, and high capital security.'',
       dd_tradeoffs = ''Lower long-term compounding rate compared to pure equity.'',
       dd_contribution = ''Provides steady yield generation and cushions overall equity portfolio drawdowns.''\<rparr>
     else if has_any lower [''gold'', ''reit'', ''silver''] then \<lparr>dd_primary = ''Inflation Defense'', dd_secondary = ''Real Asset Hedge'',
       dd_strengths = ''Uncorrelated returns with fiat currency and equity market volatility.'',
       dd_tradeoffs = ''No regular corporate cash flows or dividend yields.'',
       dd_contribution = ''Acts as an inflation hedge and provides uncorrelated asset protection during volatile markets.''\<rparr>
     else \<lparr>dd_primary = ''Core Growth'', dd_secondary = ''Capital Preservation'',
       dd_strengths = ''High return on capital, dominant moat, and resilient free cash flows.'',
       dd_tradeoffs = ''Tracks broader benchmark returns with moderate upside beta.'',
       dd_contribution = ''Provides stability and consistent growth by investing in established market leaders.''\<rparr>)"

definition fund_beta :: "string \<Rightarrow> rat" where
  "fund_beta lower = (if has_any lower [''small''] then 125/100 else if has_any lower [''mid''] then 110/100
     else if has_any lower [''tech'', ''semi''] then 120/100 else if has_any lower [''debt'', ''bond'', ''liquid''] then 5/100
     else if has_any lower [''gold'', ''silver'', ''reit''] then 10/100 else 1)"

definition unit_share :: "rat \<Rightarrow> rat" where
  "unit_share p = max 0 (min 1 (p / 100))"

definition ComputeFundVector :: "string \<Rightarrow> string \<Rightarrow> rat \<Rightarrow> rat \<Rightarrow> rat \<Rightarrow> rat list" where
  "ComputeFundVector category schemeName equityPct debtPct otherPct =
     (let lower = to_lower (category @ '' '' @ schemeName); eq = unit_share equityPct; debt = unit_share debtPct; other = unit_share otherPct
      in map unit_axis
        [min (98/100) (eq * fund_beta lower), debt * (88/100) + eq * (10/100), debt * (92/100) + other * (15/100),
         other * (92/100) + eq * (22/100),
         (if has_any lower [''liquid'', ''overnight''] then 98/100 else if has_any lower [''large''] then 85/100 else 70/100),
         (if has_any lower [''green'', ''energy''] then 80/100 else 50/100), other * (95/100)])"

text \<open>Why, for whom, for whom not, impact, what it does now, what more of it does.\<close>

definition insight_texts :: "string \<Rightarrow> string \<times> string \<times> string \<times> string \<times> string \<times> string" where
  "insight_texts lower =
     (if has_any lower [''small'', ''mid'', ''thematic'', ''tech'', ''semi''] then (''Delivers high alpha potential and outsized long-term capital compounding.'',
       ''Long-term investors with 5+ year time horizon seeking high wealth creation.'',
       ''Investors seeking short-term liquidity or low risk tolerance.'',
       ''Increases growth beta and expected annualized portfolio returns.'',
       ''Currently provides aggressive compounding, maximizing long-term wealth appreciation.'',
       ''Adding more will tilt your portfolio towards higher alpha and thematic expansion.'')
     else if has_any lower [''debt'', ''bond'', ''liquid'', ''corporate''] then (''Generates consistent accrual yield and preserves capital across market downturns.'',
       ''Conservative investors seeking stable cash flow and portfolio defensiveness.'',
       ''Aggressive growth investors targeting maximum equity alpha.'',
       ''Reduces portfolio standard deviation and downside drawdown.'',
       ''Currently provides consistent yield and capital preservation, anchoring the portfolio against market volatility.'',
       ''Adding more will pull your overall portfolio towards Capital Preservation and Income.'')
     else if has_any lower [''gold'', ''reit'', ''silver'', ''energy''] then (''Protects purchasing power against currency debasement and stagflation.'',
       ''All portfolios requiring 5-10% hard asset diversification.'',
       ''Short-term speculative trades.'',
       ''Lowers total portfolio correlation with equity indices.'',
       ''Currently protects against inflation and market downturns through hard commodity diversification.'',
       ''Adding more will strengthen your Inflation Defense and Real Asset vectors.'')
     else if has_any lower [''hybrid'', ''balanced''] then (''Delivers steady asset-allocated compounding with built-in volatility dampening.'',
       ''Investors wanting equity upside with reduced downside drawdowns.'',
       ''Extreme risk-seeking aggressive alpha mandates.'',
       ''Stabilizes risk metrics while participating in equity growth.'',
       ''Currently provides balanced equity and fixed-income diversification.'',
       ''Adding more will balance your portfolio across growth and capital preservation.'')
     else (''Provides solid, resilient equity exposure across India's largest and most established bluechip companies.'',
       ''Core long-term compounding with low tracking error.'',
       ''Investors expecting triple-digit short-term returns.'',
       ''Anchors the core portfolio and maintains balanced risk exposure.'',
       ''Currently provides large-cap equity exposure, balancing out the volatility of higher growth holdings.'',
       ''Adding more will pull your overall portfolio slightly towards Capital Preservation while maintaining steady compound growth.''))"

record FundInsights =
  ix_texts :: "string \<times> string \<times> string \<times> string \<times> string \<times> string"
  ix_current :: "rat list"
  ix_projected :: "rat list"

definition blend :: "rat \<Rightarrow> rat \<Rightarrow> rat \<Rightarrow> rat" where
  "blend w cur fund = (1 - w) * cur + w * fund"

definition baseline :: "rat list" where
  "baseline = [72/100, 45/100, 50/100, 35/100, 75/100, 55/100, 25/100]"

definition deriveFundInsights :: "string \<Rightarrow> string \<Rightarrow> rat \<Rightarrow> rat \<Rightarrow> rat \<Rightarrow> FundInsights" where
  "deriveFundInsights category schemeName equityPct debtPct otherPct =
     \<lparr>ix_texts = insight_texts (to_lower (category @ '' '' @ schemeName)), ix_current = baseline,
      ix_projected = map (\<lambda>(c, v). round2 (max (5/100) (min (98/100) (blend (35/100) c v))))
        (zip baseline (ComputeFundVector category schemeName equityPct debtPct otherPct))\<rparr>"

section \<open>A fund's profile\<close>

record ChartPoint =
  cp_date :: int
  cp_nav :: rat

record UserHolding =
  uh_units :: rat
  uh_invested :: money
  uh_current :: money
  uh_returns :: rat

record FundProfile =
  pr_fund :: Fund
  pr_equity :: rat
  pr_debt :: rat
  pr_other :: rat
  pr_sectors :: "(string \<times> rat) list"
  pr_top :: "(string \<times> rat) list"
  pr_chart :: "ChartPoint list"
  pr_deep :: DeepDiveInfo
  pr_insights :: FundInsights
  pr_holding :: "UserHolding option"
  pr_watched :: bool

definition dayJitter :: "(int \<Rightarrow> rat) \<Rightarrow> string \<Rightarrow> rat \<Rightarrow> int \<Rightarrow> rat" where
  "dayJitter rnd code base t = round2 (base + (rnd (sint (fnv64a (code @ '':'' @ dateKey t))) - 1/2) * (2/100) * base)"

definition start_nav :: "rat \<Rightarrow> rat \<Rightarrow> rat" where
  "start_nav nav oneYear = (let s = nav / (1 + oneYear / 100) in if s \<le> 0 then nav * (8/10) else s)"

text \<open>One point a day up to today, which has the price itself.\<close>

definition chartPoints :: "(int \<Rightarrow> rat) \<Rightarrow> string \<Rightarrow> rat \<Rightarrow> rat \<Rightarrow> nat \<Rightarrow> int \<Rightarrow> ChartPoint list" where
  "chartPoints rnd code nav oneYear days now = map (\<lambda>i. let t = of_nat i / of_nat (days - 1); start = start_nav nav oneYear;
       date = AddDate 0 0 (- int (days - 1 - i)) (midnight now)
     in \<lparr>cp_date = date, cp_nav = (if i = days - 1 then nav else dayJitter rnd code (start + (nav - start) * t) date)\<rparr>) [0..<days]"

definition profile_from :: "(int \<Rightarrow> rat) \<Rightarrow> string \<Rightarrow> Fund \<Rightarrow> allocation_row option \<Rightarrow> int \<Rightarrow> FundProfile" where
  "profile_from rnd code f r now =
     (let eq = (case r of None \<Rightarrow> 0 | Some a \<Rightarrow> al_equity a); debt = (case r of None \<Rightarrow> 0 | Some a \<Rightarrow> al_debt a);
          other = (case r of None \<Rightarrow> 0 | Some a \<Rightarrow> al_other a)
      in \<lparr>pr_fund = f, pr_equity = eq, pr_debt = debt, pr_other = other, pr_sectors = (case r of None \<Rightarrow> [] | Some a \<Rightarrow> al_sectors a),
          pr_top = (case r of None \<Rightarrow> [] | Some a \<Rightarrow> al_top a),
          pr_chart = chartPoints rnd code (fn_nav f) (case fn_one_year f of None \<Rightarrow> 0 | Some x \<Rightarrow> x) 180 now,
          pr_deep = deriveFundDeepDive (fn_category f) (fn_name f), pr_insights = deriveFundInsights (fn_category f) (fn_name f) eq debt other,
          pr_holding = None, pr_watched = False\<rparr>)"

text \<open>The profile the provider gives; its chart is drawn for the requested text, not for the fund's code.\<close>

definition provider_GetFundProfile :: "(int \<Rightarrow> rat) \<Rightarrow> (string \<Rightarrow> int) \<Rightarrow> string \<Rightarrow> (wealth_db, FundProfile) act" where
  "provider_GetFundProfile rnd coll code = bind (GetFund coll code) (\<lambda>f.
     bind (get_row ''lookup fund allocation'' (\<lambda>_ d. first_row (filter (\<lambda>a. al_code a = fn_code f) (allocations d)))) (\<lambda>r.
     bind time_now (\<lambda>now. ret (profile_from rnd code f r now))))"

definition zero_axes :: "rat list" where
  "zero_axes = [0, 0, 0, 0, 0, 0, 0]"

definition sim_weight :: "Fund \<Rightarrow> money \<Rightarrow> rat" where
  "sim_weight f totalValue = (let amount = (if fn_min f \<le> 0 then 10000 else fn_min f); w = amount / (totalValue + amount)
     in if w < 15/100 then 20/100 else if w > 35/100 then 35/100 else w)"

definition live_values :: "PortfolioGenome \<Rightarrow> rat list" where
  "live_values g = (if length (ge_values g) = 7 then ge_values g
     else [ge_growth g, ge_income g, ge_preservation g, ge_inflation g, ge_liquidity g, ge_sustainability g, ge_real g])"

definition enrichFundInsightsWithLiveDNA :: "FundProfile \<Rightarrow> AllocationResult \<Rightarrow> FundProfile" where
  "enrichFundInsightsWithLiveDNA p alloc =
     (let fv = ComputeFundVector (fn_category (pr_fund p)) (fn_name (pr_fund p)) (pr_equity p) (pr_debt p) (pr_other p)
      in if ar_total alloc \<le> 0 then p\<lparr>pr_insights := (pr_insights p)\<lparr>ix_current := zero_axes, ix_projected := fv\<rparr>\<rparr>
         else let cur = live_values (ar_genome alloc); w = sim_weight (pr_fund p) (ar_total alloc)
              in p\<lparr>pr_insights := (pr_insights p)\<lparr>ix_current := cur, ix_projected := map (\<lambda>(c, v). unit_axis (blend w c v)) (zip cur fv)\<rparr>\<rparr>)"

definition holding_of :: "Folio \<Rightarrow> UserHolding" where
  "holding_of f = \<lparr>uh_units = fl_units f, uh_invested = fl_invested f, uh_current = fl_current f, uh_returns = fl_returns_pct f\<rparr>"

definition GetFundProfile :: "ranging \<Rightarrow> (int \<Rightarrow> rat) \<Rightarrow> (string \<Rightarrow> int) \<Rightarrow> uuid \<Rightarrow> string \<Rightarrow> (wealth_db, FundProfile) act" where
  "GetFundProfile rg rnd coll userID code = bind (provider_GetFundProfile rnd coll code) (\<lambda>p.
     bind (on_trade (mf_GetHolding rnd userID code)) (\<lambda>h.
     bind (IsWatched userID code) (\<lambda>watched.
     let p1 = p\<lparr>pr_holding := map_option holding_of h, pr_watched := watched\<rparr> in
     bind (attempt (Allocation rg rnd coll userID)) (\<lambda>r. ret (case r of Inl _ \<Rightarrow> p1 | Inr alloc \<Rightarrow> enrichFundInsightsWithLiveDNA p1 alloc)))))"

section \<open>New fund offers\<close>

definition ListNFOs :: "(wealth_db, nfo_row list) act" where
  "ListNFOs = wrapping ''list nfos'' (query (\<lambda>_ d. map (\<lambda>n. n\<lparr>nf_open := nf_open n * day_ns, nf_close := nf_close n * day_ns,
     nf_allot := map_option (\<lambda>x. x * day_ns) (nf_allot n)\<rparr>) (sort_key nf_open (nfos d))))"

section \<open>Handlers\<close>

definition bad_query :: "string \<Rightarrow> 'a wealth_handler" where
  "bad_query msg = ret (HErr (Validation msg), [])"

text \<open>A query parameter: absent, or a number that passes the test, or a refusal.\<close>

definition with_number :: "string \<Rightarrow> (string \<Rightarrow> 'n option) \<Rightarrow> ('n \<Rightarrow> bool) \<Rightarrow> string \<Rightarrow> ('n option \<Rightarrow> 'a wealth_handler) \<Rightarrow> 'a wealth_handler" where
  "with_number t parse ok msg k = (if t = [] then k None
     else case parse t of None \<Rightarrow> bad_query msg | Some n \<Rightarrow> if ok n then k (Some n) else bad_query msg)"

definition searchFunds :: "(string \<Rightarrow> int) \<Rightarrow> string \<Rightarrow> string \<Rightarrow> string \<Rightarrow> string \<Rightarrow> string \<Rightarrow> Fund list wealth_handler" where
  "searchFunds coll category risk maxText pageText limitText =
     with_number maxText ParseFloat (\<lambda>_. True) ''min_investment_max must be a number'' (\<lambda>m.
     with_number pageText Atoi (\<lambda>n. n \<ge> 1) ''page must be a positive integer'' (\<lambda>p.
     with_number limitText Atoi (\<lambda>n. n \<ge> 1) ''limit must be a positive integer'' (\<lambda>l.
     or_error [] (SearchFunds coll \<lparr>sq_category = category, sq_risk = risk, sq_max = m, sq_page = (case p of None \<Rightarrow> 0 | Some n \<Rightarrow> n),
       sq_limit = (case l of None \<Rightarrow> 0 | Some n \<Rightarrow> n)\<rparr>) (reply_ok []))))"

definition getFund :: "(string \<Rightarrow> int) \<Rightarrow> string \<Rightarrow> Fund wealth_handler" where
  "getFund coll code = or_error [] (GetFund coll code) (reply_ok [])"

definition getFundProfile :: "ranging \<Rightarrow> (int \<Rightarrow> rat) \<Rightarrow> (string \<Rightarrow> int) \<Rightarrow> uuid option \<Rightarrow> string \<Rightarrow> FundProfile wealth_handler" where
  "getFundProfile rg rnd coll u code = with_user u (\<lambda>userID. or_error [] (GetFundProfile rg rnd coll userID code) (reply_ok []))"

definition listNFOs :: "nfo_row list wealth_handler" where
  "listNFOs = or_error [] ListNFOs (reply_ok [])"

end
