(* ===== verification/WealthFacts.thy ===== *)
theory WealthFacts
  imports Catalog "HOL-Library.Multiset"
begin

text \<open>
  What the portfolio views guarantee: allocations that add up, a genome within its bounds, sectors in
  order, a window of months that drifts at the end of a month, and pages that share out a search.
\<close>

section \<open>Reading changes nothing\<close>

lemma reads_fun: "reads (ret a)" "reads (fail e)" "reads (query q)" "reads time_now"
  by (auto intro!: readsI steady_intros)

lemma reads_seq: "reads m \<Longrightarrow> (\<And>a. reads (f a)) \<Longrightarrow> reads (bind m f)"
  by (auto simp: reads_def intro!: steady_intros)

lemma reads_frame: "reads m \<Longrightarrow> reads (wrapping s m)" "reads m' \<Longrightarrow> reads (ignoring a m')" "reads m'' \<Longrightarrow> reads (attempt m'')"
  by (auto simp: reads_def intro!: steady_intros)

lemmas reads_rules = reads_fun reads_seq reads_frame reads_areas reads_holdings

lemma reads_loads: "reads (loadFundMeta codes)" "reads loadSecurityRef" "reads (bank_items u)" "reads peerIndexFundPct" "reads (fund_infos codes)"
  by (auto simp: loadFundMeta_def loadSecurityRef_def bank_items_def peerIndexFundPct_def fund_infos_def split: prod.split intro!: reads_rules)

lemma reads_Allocation: "reads (Allocation rg rnd coll u)"
  by (auto simp: Allocation_def split: prod.split intro!: reads_rules reads_loads)

lemma reads_tabs: "reads (Performance rnd coll u)" "reads (SimulatePurchase rg rnd coll u c x)" "reads (Discipline u)" "reads (DNAHistory u n)"
  by (auto simp: Performance_def SimulatePurchase_def Discipline_def read_txns_def yearlyInvestmentHistory_def DNAHistory_def Let_def
      split: prod.split intro!: reads_rules reads_loads reads_Allocation)

section \<open>Sorting\<close>

lemma sink_mset [simp]: "mset (sink x ys) = add_mset x (mset ys)"
  by (induction ys) auto

lemma sink_sorted: "sorted_wrt (\<lambda>a b. sx_amount a \<le> sx_amount b) ys \<Longrightarrow> sorted_wrt (\<lambda>a b. sx_amount a \<le> sx_amount b) (sink x ys)"
proof (induction ys)
  case (Cons y ys)
  then have "sorted_wrt (\<lambda>a b. sx_amount a \<le> sx_amount b) (sink x ys)" by simp
  moreover have "set (sink x ys) = insert x (set ys)" by (metis sink_mset set_mset_add_mset_insert set_mset_mset)
  ultimately show ?case using Cons.prems by auto
qed simp

lemma sink_filter: "sorted_wrt (\<lambda>a b. sx_amount a \<le> sx_amount b) ys \<Longrightarrow>
   filter (\<lambda>e. sx_amount e = k) (sink x ys) = (if sx_amount x = k then x # filter (\<lambda>e. sx_amount e = k) ys else filter (\<lambda>e. sx_amount e = k) ys)"
  by (induction ys) auto

lemma sinks:
  "sorted_wrt (\<lambda>a b. sx_amount a \<le> sx_amount b) acc \<Longrightarrow>
   sorted_wrt (\<lambda>a b. sx_amount a \<le> sx_amount b) (foldl (\<lambda>acc x. sink x acc) acc xs) \<and>
   mset (foldl (\<lambda>acc x. sink x acc) acc xs) = mset acc + mset xs \<and>
   filter (\<lambda>e. sx_amount e = k) (foldl (\<lambda>acc x. sink x acc) acc xs) = rev (filter (\<lambda>e. sx_amount e = k) xs) @ filter (\<lambda>e. sx_amount e = k) acc"
proof (induction xs arbitrary: acc)
  case (Cons x xs)
  then show ?case using sink_sorted[OF Cons.prems, of x] by (simp add: sink_filter)
qed simp

lemma sort_sectors_eq: "sortSectorsDesc xs = sort_key (\<lambda>e. - sx_amount e) xs"
proof (rule properties_for_sort_key[symmetric])
  let ?s = "foldl (\<lambda>acc x. sink x acc) [] xs"
  note s = sinks[where acc = "[]" and xs = xs, simplified]
  show "mset (sortSectorsDesc xs) = mset xs" using s by (simp add: sortSectorsDesc_def)
  show "filter (\<lambda>e. - sx_amount k = - sx_amount e) (sortSectorsDesc xs) = filter (\<lambda>e. - sx_amount k = - sx_amount e) xs" for k
    using s[of "sx_amount k"] by (simp add: sortSectorsDesc_def rev_filter[symmetric] eq_commute[of "sx_amount k"])
  have "sorted_wrt (\<lambda>a b. sx_amount b \<le> sx_amount a) (rev ?s)" using s by (simp add: sorted_wrt_rev)
  then show "sorted (map (\<lambda>e. - sx_amount e) (sortSectorsDesc xs))" by (simp add: sortSectorsDesc_def sorted_map)
qed

section \<open>What an allocation is made of\<close>

definition known_meta :: "wealth_db \<Rightarrow> (string \<Rightarrow> fundMeta option) \<Rightarrow> bool" where
  "known_meta d meta \<longleftrightarrow> (\<forall>k m. meta k = Some m \<longrightarrow> (\<exists>c \<in> set (catalog (trading d)). m = meta_of d c))"

definition known_refs :: "wealth_db \<Rightarrow> (string \<Rightarrow> (string \<times> string) option) \<Rightarrow> bool" where
  "known_refs d refs \<longleftrightarrow> (\<forall>k s b. refs k = Some (s, b) \<longrightarrow> (\<exists>x \<in> set (securities d). sc_sector x = s \<and> sc_band x = b))"

lemma wp_loadFundMeta:
  "wp (loadFundMeta codes) (\<lambda>meta v. known_meta (wdb w) meta \<and> wdb v = wdb w) (\<lambda>_ v. wdb v = wdb w) w"
  by (auto simp: loadFundMeta_def wp_simps known_meta_def dest!: map_of_SomeD)

lemma wp_loadSecurityRef:
  "wp loadSecurityRef (\<lambda>refs v. known_refs (wdb w) refs \<and> wdb v = wdb w) (\<lambda>_ v. wdb v = wdb w) w"
  by (auto simp: loadSecurityRef_def wp_simps known_refs_def dest!: map_of_SomeD)

lemma wp_reads_bind:
  assumes "reads m" "\<And>a v. wdb v = wdb w \<Longrightarrow> wp (f a) Q E v" "\<And>e v. wdb v = wdb w \<Longrightarrow> E e v"
  shows "wp (bind m f) Q E w"
  unfolding wp_bind by (rule wp_mono[OF reads_wp[OF assms(1)]]) (use assms in auto)

lemma wp_known_bind:
  assumes "wp m (\<lambda>a v. K a \<and> wdb v = wdb w) (\<lambda>_ v. wdb v = wdb w) w"
    and "\<And>a v. K a \<Longrightarrow> wdb v = wdb w \<Longrightarrow> wp (f a) Q E v" "\<And>e v. wdb v = wdb w \<Longrightarrow> E e v"
  shows "wp (bind m f) Q E w"
  unfolding wp_bind by (rule wp_mono[OF assms(1)]) (use assms in auto)

lemma wp_Allocation:
  assumes "\<And>fs hs fds meta refs bank peer. known_meta (wdb w) meta \<Longrightarrow> known_refs (wdb w) refs \<Longrightarrow> Q (allocation_of rg fs hs fds meta refs bank peer)"
  shows "wp (Allocation rg rnd coll u) (\<lambda>r v. Q r \<and> wdb v = wdb w) (\<lambda>_ v. wdb v = wdb w) w"
  unfolding Allocation_def
  apply (rule wp_reads_bind, intro reads_rules, clarsimp, rename_tac fs v, rule wp_reads_bind, intro reads_rules)
    apply (rule wp_reads_bind, intro reads_rules)
      apply (rule wp_known_bind[OF wp_loadFundMeta], rule wp_known_bind[OF wp_loadSecurityRef])
        apply (rule wp_reads_bind, rule reads_loads, rule wp_reads_bind, rule reads_loads)
          apply (auto simp: wp_simps intro: assms)
  done

section \<open>The genome\<close>

definition genome_ok :: "PortfolioGenome \<Rightarrow> bool" where
  "genome_ok g \<longleftrightarrow> length (ge_values g) = 7 \<and> list_all (\<lambda>x. 0 \<le> x \<and> x \<le> 1 \<and> paise x) (ge_values g) \<and>
     ge_values g = [ge_growth g, ge_income g, ge_preservation g, ge_inflation g, ge_liquidity g, ge_sustainability g, ge_real g]"

lemma paise_1 [simp]: "paise 1"
  unfolding paise_iff by (rule exI[of _ 100]) simp

lemma unit_axis_bounds [simp]: "0 \<le> unit_axis x" "unit_axis x \<le> 1" "paise (unit_axis x)"
  by (auto simp: unit_axis_def intro!: round2_nonneg round2_le_paise)

lemma genome_of_ok: "length vs = 7 \<Longrightarrow> list_all (\<lambda>x. 0 \<le> x \<and> x \<le> 1 \<and> paise x) vs \<Longrightarrow> genome_ok (genome_of vs)"
  by (auto simp: genome_ok_def genome_of_def eval_nat_numeral length_Suc_conv)

lemma genome_bounds: "genome_ok (ComputeQuantitativeGenome a b c t)"
  unfolding ComputeQuantitativeGenome_def by (auto simp: Let_def intro!: genome_of_ok)

section \<open>Parts and their sum\<close>

lemma amount_under_simps [simp]:
  "amount_under [] k = 0" "amount_under (p # ps) k = (if fst p = k then snd p else 0) + amount_under ps k"
  "amount_under (ps @ qs) k = amount_under ps k + amount_under qs k"
  by (simp_all add: amount_under_def)

lemma amounts_share_out:
  "distinct ls \<Longrightarrow> fst ` set ps \<subseteq> set ls \<Longrightarrow> sum_list (map (amount_under ps) ls) = sum_list (map snd ps)"
proof (induction ps)
  case (Cons p ps)
  have "sum_list (map (\<lambda>l. if fst p = l then snd p else 0) ls) = snd p"
    using Cons.prems by (simp add: sum_list_distinct_conv_sum_set)
  moreover have "sum_list (map (amount_under (p # ps)) ls) = sum_list (map (\<lambda>l. if fst p = l then snd p else 0) ls) + sum_list (map (amount_under ps) ls)"
    using sum_list_addf[of "\<lambda>l. if fst p = l then snd p else 0" "amount_under ps" ls] by (simp add: amount_under_simps(2)[abs_def])
  ultimately have "sum_list (map (amount_under (p # ps)) ls) = snd p + sum_list (map snd ps)"
    using Cons.IH Cons.prems by simp
  then show ?case by (simp only: list.map sum_list.Cons)
qed (induction ls, simp_all)

lemma rounded_sum: "\<bar>sum_list (map (\<lambda>x. round2 (f x)) xs) - sum_list (map f xs)\<bar> \<le> of_nat (length xs) / 200"
proof (induction xs)
  case (Cons x xs)
  have "\<bar>round2 (f x) - f x\<bar> \<le> 1 / 200" by (rule round2_error)
  moreover have "(of_nat (length (x # xs)) :: rat) / 200 = 1 / 200 + of_nat (length xs) / 200" by (simp add: add_divide_distrib)
  ultimately show ?case using Cons.IH unfolding abs_le_iff by (simp only: list.map sum_list.Cons) linarith
qed simp

definition splits_whole :: "wealth_db \<Rightarrow> bool" where
  "splits_whole d \<longleftrightarrow> list_all (\<lambda>a. al_equity a + al_debt a + al_other a = 100) (allocations d)"

definition meta_whole :: "(string \<Rightarrow> fundMeta option) \<Rightarrow> bool" where
  "meta_whole meta \<longleftrightarrow> (\<forall>f. fm_equity (meta_or_equity meta f) + fm_debt (meta_or_equity meta f) + fm_other (meta_or_equity meta f) = 100)"

lemma known_whole: "known_meta d meta \<Longrightarrow> splits_whole d \<Longrightarrow> meta_whole meta"
proof (unfold meta_whole_def, rule allI)
  fix f assume k: "known_meta d meta" and s: "splits_whole d"
  have "fm_equity (meta_of d c) + fm_debt (meta_of d c) + fm_other (meta_of d c) = 100" for c
    using s by (auto simp: splits_whole_def meta_of_def Let_def list_all_iff split: option.split dest: first_row_filterD)
  then show "fm_equity (meta_or_equity meta f) + fm_debt (meta_or_equity meta f) + fm_other (meta_or_equity meta f) = 100"
    using k by (cases "meta (fl_code f)") (auto simp: meta_or_equity_def known_meta_def)
qed

lemma volatility_labelled: "fst ` set (volatility_parts meta fs hs fds) \<subseteq> set volatility_labels"
  by (auto simp: volatility_parts_def volatility_labels_def volatilityForRiskLevel_def split: if_splits)

lemma classes_add_up:
  assumes "meta_whole meta"
  shows "equity_amount meta fs hs + debt_amount meta fs + other_amount meta fs fds = sum_list (map snd (volatility_parts meta fs hs fds))"
proof -
  have "sum_list (map (folio_part fm_equity meta) fs) + sum_list (map (folio_part fm_debt meta) fs) + sum_list (map (folio_part fm_other meta) fs)
      = sum_list (map fl_current fs)"
  proof (induction fs)
    case (Cons f fs)
    have "folio_part fm_equity meta f + folio_part fm_debt meta f + folio_part fm_other meta f = fl_current f"
      using assms by (simp add: folio_part_def meta_whole_def add_divide_distrib[symmetric] distrib_left[symmetric])
    then show ?case using Cons by simp
  qed simp
  then show ?thesis by (simp add: equity_amount_def debt_amount_def other_amount_def volatility_parts_def comp_def)
qed

definition adds_up :: "AllocationResult \<Rightarrow> bool" where
  "adds_up r \<longleftrightarrow> \<bar>sum_list (map vb_amount (ar_buckets r)) - ar_total r\<bar> \<le> 25/1000 \<and>
     \<bar>ar_equity r + ar_debt r + ar_other r - ar_total r\<bar> \<le> 2/100 \<and> map vb_label (ar_buckets r) = volatility_labels"

lemma allocation_adds_up_pure:
  assumes "meta_whole meta"
  shows "adds_up (allocation_of rg fs hs fds meta refs bank peer)"
proof -
  let ?v = "volatility_parts meta fs hs fds"
  let ?s = "equity_amount meta fs hs + debt_amount meta fs + other_amount meta fs fds"
  have "sum_list (map (amount_under ?v) volatility_labels) = ?s"
    using amounts_share_out[OF _ volatility_labelled, of meta fs hs fds] classes_add_up[OF assms, of fs hs fds] by (simp add: volatility_labels_def)
  then have "\<bar>sum_list (map (\<lambda>l. round2 (amount_under ?v l)) volatility_labels) - ?s\<bar> \<le> 4 / 200"
    using rounded_sum[of "amount_under ?v" volatility_labels] by (simp add: volatility_labels_def)
  moreover have "\<bar>round2 ?s - ?s\<bar> \<le> 1/200" by (rule round2_error)
  ultimately have 1: "\<bar>sum_list (map (\<lambda>l. round2 (amount_under ?v l)) volatility_labels) - round2 ?s\<bar> \<le> 25/1000"
    unfolding abs_le_iff by linarith
  have "\<bar>round2 x + round2 y + round2 z - round2 (x + y + z)\<bar> \<le> 2/100" for x y z :: rat
    using round2_error[of x] round2_error[of y] round2_error[of z] round2_error[of "x + y + z"] unfolding abs_le_iff by linarith
  with 1 show ?thesis by (simp add: adds_up_def allocation_of_def Let_def buckets_of_def comp_def)
qed

text \<open>Sectors in order, each once, with what rounds to a positive amount.\<close>

definition sectors_ok :: "SectorExposure list \<Rightarrow> bool" where
  "sectors_ok xs \<longleftrightarrow> sorted (map (\<lambda>e. - sx_amount e) xs) \<and> distinct (map sx_sector xs) \<and> list_all (\<lambda>e. sx_amount e > 0) xs"

lemma exposures_ok:
  assumes "ranging_ok rg"
  shows "sectors_ok (exposures_of rg tot parts)"
proof -
  define ks where "ks = filter (\<lambda>s. round2 (amount_under parts s) > 0) (rg_names rg (remdups (map fst parts)))"
  define f where "f = (\<lambda>s. \<lparr>sx_sector = s, sx_amount = round2 (amount_under parts s), sx_pct = pct_of (round2 (amount_under parts s)) tot\<rparr>)"
  have e: "exposures_of rg tot parts = sort_key (\<lambda>e. - sx_amount e) (map f ks)"
    by (simp add: exposures_of_def sort_sectors_eq ks_def f_def Let_def)
  have d: "distinct ks" using assms by (simp add: ranging_ok_def ks_def)
  have "mset (map sx_sector (sort_key (\<lambda>e. - sx_amount e) (map f ks))) = mset (map sx_sector (map f ks))" by (simp add: multiset.map_comp)
  also have "map sx_sector (map f ks) = ks" by (simp add: f_def comp_def)
  finally have "distinct (map sx_sector (exposures_of rg tot parts))" using d unfolding e by (metis mset_eq_imp_distinct_iff)
  moreover have "sorted (map (\<lambda>e. - sx_amount e) (exposures_of rg tot parts))" unfolding e by (rule sorted_sort_key)
  moreover have "list_all (\<lambda>x. sx_amount x > 0) (exposures_of rg tot parts)" unfolding e by (simp add: list_all_iff f_def ks_def)
  ultimately show ?thesis by (simp add: sectors_ok_def)
qed

text \<open>Equity by company size: the bands share out the equity when every band is one the code knows.\<close>

definition bands_known :: "wealth_db \<Rightarrow> bool" where
  "bands_known d \<longleftrightarrow> list_all (\<lambda>s. sc_band s \<in> set cap_labels) (securities d) \<and>
     list_all (\<lambda>c. fu_band c = None \<or> the (fu_band c) \<in> set (''Diversified'' # cap_labels)) (catalog (trading d))"

lemma category_band: "fst (marketCapForFund c) \<in> set ([] # cap_labels)"
  by (simp add: marketCapForFund_def Let_def cap_labels_def)

lemma split_bands: "fst ` set (map (\<lambda>(b, w). (b, eq * w)) diversifiedEquitySplit) \<subseteq> set cap_labels"
  "sum_list (map snd (map (\<lambda>(b, w). (b, eq * w)) diversifiedEquitySplit)) = (eq :: rat)"
  by (simp_all add: diversifiedEquitySplit_def cap_labels_def field_simps)

lemma fund_bands_parts:
  assumes "fm_band m = [] \<or> fm_band m \<in> set (''Diversified'' # cap_labels)"
  shows "fst ` set (fund_bands m cat eq) \<subseteq> set cap_labels" "sum_list (map snd (fund_bands m cat eq)) = eq"
proof -
  obtain band split where b: "(if fm_band m = [] then marketCapForFund cat else (fm_band m, fm_band m = ''Diversified'')) = (band, split)" by fastforce
  have k: "band = [] \<or> band = ''Diversified'' \<or> band \<in> set cap_labels"
  proof (cases "fm_band m = []")
    case True
    then have "fst (marketCapForFund cat) = band" using b by simp
    then show ?thesis using category_band[of cat] by auto
  qed (use b assms in auto)
  have large: "''Large Cap'' \<in> set cap_labels" by (simp add: cap_labels_def)
  have e: "fund_bands m cat eq = (if split then map (\<lambda>(b, w). (b, eq * w)) diversifiedEquitySplit
     else if band \<noteq> [] \<and> band \<noteq> ''Diversified'' then [(band, eq)] else [(''Large Cap'', eq)])"
    by (simp add: fund_bands_def b)
  show "fst ` set (fund_bands m cat eq) \<subseteq> set cap_labels"
    unfolding e using k large split_bands(1)[of eq] by (cases split) (auto simp del: set_map)
  show "sum_list (map snd (fund_bands m cat eq)) = eq"
    unfolding e using split_bands(2)[of eq] by (cases split) simp_all
qed

definition caps_add_up :: "AllocationResult \<Rightarrow> bool" where
  "caps_add_up r \<longleftrightarrow> (case ar_exposure r of None \<Rightarrow> False
     | Some x \<Rightarrow> \<bar>sum_list (map mc_value (ee_caps x)) - ee_total x\<bar> \<le> 25/1000 \<and> map mc_label (ee_caps x) = cap_labels)"

lemma caps_labelled:
  assumes "known_meta d meta" "known_refs d refs" "bands_known d"
  shows "fst ` set (cap_parts meta refs fs hs) \<subseteq> set cap_labels"
    and "sum_list (map snd (cap_parts meta refs fs hs)) = equity_total meta fs hs"
proof -
  have m: "fm_band (meta_or_equity meta f) = [] \<or> fm_band (meta_or_equity meta f) \<in> set (''Diversified'' # cap_labels)" for f
  proof (cases "meta (fl_code f)")
    case (Some x)
    then obtain c where c: "c \<in> set (catalog (trading d))" "x = meta_of d c" using assms(1) by (auto simp: known_meta_def)
    then show ?thesis using assms(3) Some
      by (cases "fu_band c") (auto simp: bands_known_def list_all_iff meta_or_equity_def meta_of_def Let_def)
  qed (simp add: meta_or_equity_def)
  have s: "stock_band refs h \<in> set cap_labels" for h
    using assms by (auto simp: stock_band_def known_refs_def bands_known_def list_all_iff cap_labels_def split: option.split prod.split)
  show "fst ` set (cap_parts meta refs fs hs) \<subseteq> set cap_labels"
    using fund_bands_parts(1)[OF m] s by (fastforce simp: cap_parts_def)
  have "sum_list (map snd (concat (map (\<lambda>f. fund_bands (meta_or_equity meta f) (fl_category f) (folio_part fm_equity meta f)) xs)))
      = sum_list (map (folio_part fm_equity meta) xs)" for xs
    by (induction xs) (simp_all add: fund_bands_parts(2)[OF m])
  then show "sum_list (map snd (cap_parts meta refs fs hs)) = equity_total meta fs hs"
    by (simp add: cap_parts_def equity_total_def comp_def)
qed

lemma caps_add_up_pure:
  assumes "known_meta d meta" "known_refs d refs" "bands_known d"
  shows "caps_add_up (allocation_of rg fs hs fds meta refs bank peer)"
proof -
  let ?p = "cap_parts meta refs fs hs"
  have "sum_list (map (amount_under ?p) cap_labels) = equity_total meta fs hs"
    using amounts_share_out[OF _ caps_labelled(1)[OF assms]] caps_labelled(2)[OF assms] by (simp add: cap_labels_def)
  then have "\<bar>sum_list (map (\<lambda>l. round2 (amount_under ?p l)) cap_labels) - equity_total meta fs hs\<bar> \<le> 4/200"
    using rounded_sum[of "amount_under ?p" cap_labels] by (simp add: cap_labels_def)
  moreover have "\<bar>round2 (equity_total meta fs hs) - equity_total meta fs hs\<bar> \<le> 1/200" by (rule round2_error)
  ultimately have "\<bar>sum_list (map (\<lambda>l. round2 (amount_under ?p l)) cap_labels) - round2 (equity_total meta fs hs)\<bar> \<le> 25/1000"
    unfolding abs_le_iff by linarith
  then show ?thesis by (simp add: caps_add_up_def allocation_of_def Let_def exposure_of_def comp_def)
qed

text \<open>
  C38. An allocation adds up. When every stored split of a fund adds to 100 and every stored size
  band is one the code knows, then whatever a user holds: the risk buckets are the four labels in
  order and sum to the total within two and a half paise, the three asset classes sum to it
  within two paise, the size bands sum to the equity within two and a half paise, the sectors come in
  falling order, once each and positive, the genome's seven axes lie between 0 and 1; and nothing is written.
\<close>

theorem allocation_adds_up:
  assumes "ranging_ok rg" "splits_whole (wdb w)" "bands_known (wdb w)"
  shows "wp (Allocation rg rnd coll u) (\<lambda>r v. (adds_up r \<and> caps_add_up r \<and> sectors_ok (ar_sectors r) \<and> genome_ok (ar_genome r)) \<and> wdb v = wdb w)
     (\<lambda>_ v. wdb v = wdb w) w"
  by (rule wp_Allocation) (simp add: allocation_adds_up_pure[OF known_whole[OF _ assms(2)]] caps_add_up_pure[OF _ _ assms(3)],
      simp add: allocation_of_def Let_def exposures_ok[OF assms(1)] genome_bounds)

section \<open>A small portfolio\<close>

definition in_order :: ranging where
  "in_order = \<lparr>rg_names = (\<lambda>ks. ks), rg_days = (\<lambda>ks. ks)\<rparr>"

lemma in_order_ok: "ranging_ok in_order"
  by (simp add: ranging_ok_def in_order_def)

definition flexi_fund :: fund_row where
  "flexi_fund = \<lparr>fu_code = ''FLX'', fu_amc = ''A'', fu_name = ''Flexi'', fu_isin = ''INF1'', fu_category = ''Equity - Flexi Cap'',
     fu_nav = 100, fu_min = 500, fu_min_sip = 100, fu_risk = ''Medium'', fu_nav_date = 20000, fu_expense = 1, fu_aum = 1000000,
     fu_one_year = Some 20, fu_three_years = None, fu_five_years = None, fu_manager = None, fu_benchmark = None,
     fu_launch = None, fu_exit_pct = 1, fu_exit_days = 365, fu_band = Some ''Diversified''\<rparr>"

definition flexi_folio :: folio_row where
  "flexi_folio = \<lparr>fo_id = ''i1'', fo_user = ''u'', fo_number = ''FOLIO1'', fo_amc = ''A'', fo_code = ''FLX'', fo_name = ''Flexi'',
     fo_isin = ''INF1'', fo_category = ''Equity - Flexi Cap'', fo_plan = ''GROWTH'', fo_sip = False, fo_units = 10, fo_cost = 900, fo_created = 0\<rparr>"

definition small_db :: wealth_db where
  "small_db = \<lparr>banking = \<lparr>accounts = [], payments = [], mandates = [], executions = [], deposits = []\<rparr>,
     trading = \<lparr>holdings = [], orders = [], catalog = [flexi_fund], folios = [flexi_folio], mf_txns = []\<rparr>,
     mirroring = \<lparr>cust_links = [], mirror = [], spends = [], consents = [], linked = [], phones = [], acct_cache = [], inflight = []\<rparr>,
     allocations = [\<lparr>al_code = ''FLX'', al_equity = 901/10, al_debt = 34/10, al_other = 65/10, al_sectors = [(''Technology'', 196/10)], al_top = []\<rparr>],
     securities = [\<lparr>sc_symbol = ''TCS'', sc_sector = ''Technology'', sc_band = ''Large Cap''\<rparr>], nfos = [], watches = [], goals = [],
     snapshots = [], dna_rows = []\<rparr>"

definition small_world :: "wealth_db world" where
  "small_world = \<lparr>wdb = small_db, wfaults = [], wnow = 1738281600000000000, wrand = [], wuuids = [''g1'']\<rparr>"

lemma small_world_ok: "splits_whole (wdb small_world)" "bands_known (wdb small_world)"
  by code_simp+

lemma allocation_adds_up_witness:
  "wp (Allocation in_order (\<lambda>_. 1/2) (\<lambda>_. 0) ''u'') (\<lambda>r v. (adds_up r \<and> caps_add_up r \<and> sectors_ok (ar_sectors r) \<and> genome_ok (ar_genome r)) \<and>
     wdb v = small_db) (\<lambda>_ v. wdb v = small_db) small_world"
  using allocation_adds_up[OF in_order_ok small_world_ok, of "\<lambda>_. 1/2" "\<lambda>_. 0" "''u''"] by (simp add: small_world_def)

end
