(* ===== verification/DisciplineFacts.thy ===== *)
theory DisciplineFacts
  imports WealthFacts SpendFacts
begin

text \<open>
  What the discipline of an investor reports: which twelve months it looks at, and that their buckets share
  out what was bought. Months are counted from January of the year 0.
\<close>

section \<open>Months by number\<close>

definition month_no :: "int \<Rightarrow> int" where
  "month_no n = (case civil n of (y, m, d) \<Rightarrow> 12 * y + int m)"

definition first_day :: "int \<Rightarrow> int" where
  "first_day k = date_days 0 k 1"

definition month_name_of :: "int \<Rightarrow> string" where
  "month_name_of k = month_text (k div 12) (nat (k mod 12))"

lemma date_days_month: "date_days y m d = first_day (12 * y + m) + (d - 1)"
proof -
  have "(12 * y + m) div 12 = y + m div 12" "(12 * y + m) mod 12 = m mod 12" by simp_all
  then show ?thesis by (simp add: first_day_def date_days_def Let_def)
qed

lemma civil_first_day: "civil (first_day k) = (k div 12, nat (k mod 12), 1)"
  by (simp add: first_day_def date_days_first)

lemma month_no_first [simp]: "month_no (first_day k) = k"
  by (simp add: month_no_def civil_first_day)

lemma first_day_next: "first_day (k + 1) = first_day k + month_len (k div 12) (nat (k mod 12))"
  using date_days_next_month[of "nat (k mod 12)" "k div 12" 1]
  by (simp add: date_days_month[of "k div 12"] nat_less_iff add.assoc[symmetric])

lemma month_len_28: "m < 12 \<Longrightarrow> 28 \<le> month_len y m \<and> month_len y m \<le> 31"
  using months_span_bounds(1)[of m y] by (auto simp: eval_nat_numeral)

lemma first_day_step: "first_day k + 28 \<le> first_day (k + 1)" "first_day (k + 1) \<le> first_day k + 31"
  using month_len_28[of "nat (k mod 12)" "k div 12"] by (auto simp: first_day_next nat_less_iff)

lemma first_day_mono: "k \<le> l \<Longrightarrow> first_day k \<le> first_day l"
proof -
  have "first_day k \<le> first_day (k + int j)" for j
  proof (induction j)
    case (Suc j)
    then show ?case using first_day_step(1)[of "k + int j"] by (simp add: algebra_simps)
  qed simp
  from this[of "nat (l - k)"] show "k \<le> l \<Longrightarrow> ?thesis" by simp
qed

lemma in_month: "first_day (month_no n) \<le> n" "n < first_day (month_no n + 1)"
proof -
  obtain y m d where c: "civil n = (y, m, d)" by (cases "civil n")
  have n: "n = first_day (12 * y + int m) + (d - 1)" using date_days_civil[OF c] by (simp add: date_days_month)
  have k: "month_no n = 12 * y + int m" by (simp add: month_no_def c)
  show "first_day (month_no n) \<le> n" unfolding k using n civil_props(2)[OF c] by linarith
  have "first_day (12 * y + int m + 1) = first_day (12 * y + int m) + month_len y m"
    using first_day_next[of "12 * y + int m"] civil_props(1)[OF c] by simp
  then show "n < first_day (month_no n + 1)" unfolding k using n civil_props(3)[OF c] by linarith
qed

lemma month_no_unique: "first_day k \<le> n \<Longrightarrow> n < first_day (k + 1) \<Longrightarrow> month_no n = k"
  using in_month[of n] first_day_mono[of "k + 1" "month_no n"] first_day_mono[of "month_no n + 1" k] by linarith

lemma month_no_mono: "n \<le> n' \<Longrightarrow> month_no n \<le> month_no n'"
  using in_month[of n] in_month[of n'] first_day_mono[of "month_no n' + 1" "month_no n"] by linarith

lemma ym_text_no: "ym_text t = month_name_of (month_no (day_of t))"
proof -
  obtain y m d where c: "civil (day_of t) = (y, m, d)" by (cases "civil (day_of t)")
  then show ?thesis using civil_props(1)[OF c] by (simp add: ym_text_def month_no_def month_name_of_def)
qed

text \<open>The last two characters tell apart the months of a year.\<close>

lemma two_digits:
  assumes "n < 100"
  shows "pad_zero 2 (itoa_nat n) = [digit_char (n div 10), digit_char n]"
proof (cases "n < 10")
  case False
  then have "n div 10 < 10" using assms by simp
  then show ?thesis using False by (simp add: itoa_nat.simps[of n] itoa_nat.simps[of "n div 10"] pad_zero_def)
next
  case True
  have "CHR ''0'' = digit_char 0" by code_simp
  then show ?thesis using True by (simp add: itoa_nat.simps pad_zero_def)
qed

lemma two_digits_month:
  assumes "m < 12" "m' < 12" "pad_zero 2 (itoa_nat (m + 1)) = pad_zero 2 (itoa_nat (m' + 1))"
  shows "m = m'"
proof -
  have c: "of_char (digit_char a) = 48 + a mod 10" for a :: nat by (simp add: digit_char_def)
  have inj: "digit_char a = digit_char b \<Longrightarrow> a mod 10 = b mod 10" for a b
    using c[of a] c[of b] by simp
  have e: "digit_char ((m + 1) div 10) = digit_char ((m' + 1) div 10)" "digit_char (m + 1) = digit_char (m' + 1)"
    using assms by (simp_all add: two_digits)
  have "(m + 1) div 10 < 10" "(m' + 1) div 10 < 10" using assms by simp_all
  then have "(m + 1) div 10 = (m' + 1) div 10" using inj[OF e(1)] by (metis mod_less)
  then have "m + 1 = m' + 1" using inj[OF e(2)] by (metis div_mult_mod_eq)
  then show ?thesis by simp
qed

lemma month_name_inj:
  assumes "month_name_of k = month_name_of l" "k \<le> l" "l < k + 12"
  shows "k = l"
proof -
  have "nat (k mod 12) < 12" "nat (l mod 12) < 12" by (auto simp: nat_less_iff)
  then have "nat (k mod 12) = nat (l mod 12)"
    using assms(1) by (intro two_digits_month) (auto simp: month_name_of_def month_text_def two_digits)
  then have "l mod 12 = k mod 12" by simp
  then have "12 dvd l - k" by (simp add: mod_eq_dvd_iff)
  then show ?thesis using assms zdvd_imp_le[of 12 "l - k"] by linarith
qed

section \<open>The window\<close>

definition window_first :: "int \<Rightarrow> int" where
  "window_first n = (case civil n of (y, m, d) \<Rightarrow>
     if d \<le> first_day (month_no n - 10) - first_day (month_no n - 11) then month_no n - 11 else month_no n - 10)"

lemma window_start_no: "window_start now = first_day (window_first (day_of now)) * day_ns"
proof -
  obtain y m d where c: "civil (day_of now) = (y, m, d)" by (cases "civil (day_of now)")
  let ?k = "month_no (day_of now)"
  have k: "?k = 12 * y + int m" by (simp add: month_no_def c)
  define n where "n = add_date 0 (-11) 0 (day_of now)"
  have n: "n = first_day (?k - 11) + (d - 1)" by (simp add: n_def add_date_def c date_days_month k add_diff_eq)
  have d: "1 \<le> d" "d \<le> 31" using civil_props[OF c] month_len_28[of m y] by auto
  have "month_no n = window_first (day_of now)"
    unfolding window_first_def c using n d first_day_step[of "?k - 11"] first_day_step[of "?k - 10"]
    by (auto intro!: month_no_unique)
  moreover have "day_of (AddDate 0 (-11) 0 now) = n" by (simp add: AddDate_def n_def day_of_def)
  moreover obtain y' m' d' where c': "civil n = (y', m', d')" by (cases "civil n")
  ultimately show ?thesis by (simp add: window_start_def month_first_def c' date_days_month month_no_def)
qed

lemma window_day [simp]: "day_of (first_day k * day_ns) = first_day k"
  by (simp add: day_of_def)

lemma slot_month: "ym_text (AddDate 0 (int i) 0 (first_day k * day_ns)) = month_name_of (k + int i)"
  using AddDate_first[of "int i" 0 k] by (simp add: first_day_def[symmetric] ym_text_no)

definition window_names :: "int \<Rightarrow> string list" where
  "window_names k = map (\<lambda>i. month_name_of (k + int i)) [0..<12]"

lemma distinct_window: "distinct (window_names k)"
  unfolding window_names_def distinct_map
proof (intro conjI inj_onI)
  fix i j assume "i \<in> set [0..<12]" "j \<in> set [0..<12]" "month_name_of (k + int i) = month_name_of (k + int j)"
  then show "i = j" using month_name_inj[of "k + int i" "k + int j"] month_name_inj[of "k + int j" "k + int i"]
    by (cases "i \<le> j") auto
qed simp

lemma in_window:
  assumes "first_day (window_first (day_of now)) \<le> day_of t" "t \<le> now"
  shows "ym_text t \<in> set (window_names (window_first (day_of now)))"
proof -
  let ?k = "window_first (day_of now)"
  have "?k \<le> month_no (day_of t)" using month_no_mono[OF assms(1)] by simp
  moreover have "day_of t \<le> day_of now" using assms(2) by (simp add: day_of_def zdiv_mono1)
  then have "month_no (day_of t) \<le> month_no (day_of now)" by (rule month_no_mono)
  moreover have "month_no (day_of now) \<le> ?k + 11" by (simp add: window_first_def split: prod.split)
  ultimately obtain i where i: "month_no (day_of t) = ?k + int i" "i < 12"
    by (intro that[of "nat (month_no (day_of t) - ?k)"]) linarith+
  show ?thesis unfolding ym_text_no window_names_def i(1) set_map by (rule imageI) (use i(2) in simp)
qed

section \<open>What a month holds\<close>

abbreviation buys :: "txnPoint list \<Rightarrow> txnPoint list" where
  "buys \<equiv> filter (\<lambda>t. \<not> tp_sell t)"

lemma slot_fold:
  assumes "list_all (\<lambda>t. paise (tp_amount t)) ts" "paise (mp_buy s)" "mp_amount s = mp_buy s" "mp_has s \<longleftrightarrow> mp_count s > 0"
  shows "mp_buy (foldl slot_add s ts) = mp_buy s + sum_list (map tp_amount (buys ts)) \<and>
    mp_count (foldl slot_add s ts) = mp_count s + length (buys ts) \<and>
    (mp_has (foldl slot_add s ts) \<longleftrightarrow> mp_count (foldl slot_add s ts) > 0) \<and>
    mp_month (foldl slot_add s ts) = mp_month s"
  using assms
proof (induction ts arbitrary: s)
  case (Cons t ts)
  have p: "paise (mp_buy s + tp_amount t)" if "\<not> tp_sell t" using Cons.prems by (intro paise_add) auto
  then have r: "\<not> tp_sell t \<Longrightarrow> round2 (mp_buy s + tp_amount t) = mp_buy s + tp_amount t" by (simp add: paise_def)
  have "list_all (\<lambda>t. paise (tp_amount t)) ts" using Cons.prems by simp
  moreover have "paise (mp_buy (slot_add s t))" "mp_amount (slot_add s t) = mp_buy (slot_add s t)"
    "mp_has (slot_add s t) \<longleftrightarrow> mp_count (slot_add s t) > 0"
    using Cons.prems by (auto simp: slot_add_def)
  ultimately show ?case using Cons.IH[of "slot_add s t"] Cons.prems(3) r by (auto simp: slot_add_def)
qed simp

lemma month_slot_holds:
  assumes "list_all (\<lambda>t. paise (tp_amount t)) txns"
  shows "mp_buy (PortfolioHistory.month_slot txns m) = sum_list (map tp_amount (buys (filter (\<lambda>t. ym_text (tp_at t) = ym_text m) txns)))"
    and "mp_count (PortfolioHistory.month_slot txns m) = length (buys (filter (\<lambda>t. ym_text (tp_at t) = ym_text m) txns))"
    and "mp_has (PortfolioHistory.month_slot txns m) \<longleftrightarrow> mp_count (PortfolioHistory.month_slot txns m) > 0"
proof -
  have "list_all (\<lambda>t. paise (tp_amount t)) (filter (\<lambda>t. ym_text (tp_at t) = ym_text m) txns)"
    using assms by (auto simp: list_all_iff)
  note f = slot_fold[OF this, of "empty_slot m"]
  show "mp_buy (PortfolioHistory.month_slot txns m) = sum_list (map tp_amount (buys (filter (\<lambda>t. ym_text (tp_at t) = ym_text m) txns)))"
    "mp_count (PortfolioHistory.month_slot txns m) = length (buys (filter (\<lambda>t. ym_text (tp_at t) = ym_text m) txns))"
    "mp_has (PortfolioHistory.month_slot txns m) \<longleftrightarrow> mp_count (PortfolioHistory.month_slot txns m) > 0"
    using f by (simp_all add: PortfolioHistory.month_slot_def Let_def empty_slot_def)
qed

lemma slot_name: "mp_month (PortfolioHistory.month_slot txns m) = ym_text m"
proof -
  have "mp_month (foldl slot_add s ts) = mp_month s" for s ts
    by (induction ts arbitrary: s) (auto simp: slot_add_def)
  then show ?thesis by (simp add: PortfolioHistory.month_slot_def Let_def empty_slot_def)
qed

lemma slots_named: "map mp_month (month_slots txns (first_day k * day_ns)) = window_names k"
  by (simp add: month_slots_def window_names_def slot_name slot_month comp_def)

text \<open>Every purchase of the window is in one month.\<close>

lemma slots_share_out:
  assumes "list_all (\<lambda>t. paise (tp_amount t)) txns" "\<forall>t \<in> set (buys txns). ym_text (tp_at t) \<in> set (window_names k)"
  shows "sum_list (map mp_buy (month_slots txns (first_day k * day_ns))) = sum_list (map tp_amount (buys txns))"
    and "sum_list (map mp_count (month_slots txns (first_day k * day_ns))) = length (buys txns)"
proof -
  define ps where "ps = map (\<lambda>t. (ym_text (tp_at t), tp_amount t)) (buys txns)"
  define qs where "qs = map (\<lambda>t. (ym_text (tp_at t), 1 :: rat)) (buys txns)"
  have f: "filter (\<lambda>t. ym_text (tp_at t) = nm) (buys ts) = buys (filter (\<lambda>t. ym_text (tp_at t) = nm) ts)" for nm ts
    by (simp add: conj_commute)
  have "mp_buy (PortfolioHistory.month_slot txns m) = amount_under ps (ym_text m)" for m
    by (simp add: month_slot_holds[OF assms(1)] ps_def amount_under_def filter_map comp_def f[symmetric] del: filter_filter)
  then have "map mp_buy (month_slots txns (first_day k * day_ns)) = map (amount_under ps) (window_names k)"
    by (simp add: month_slots_def window_names_def slot_month)
  moreover have "fst ` set ps \<subseteq> set (window_names k)" "fst ` set qs \<subseteq> set (window_names k)" using assms(2) by (auto simp: ps_def qs_def)
  moreover note amounts_share_out[OF distinct_window this(1)] amounts_share_out[OF distinct_window this(2)]
  ultimately show "sum_list (map mp_buy (month_slots txns (first_day k * day_ns))) = sum_list (map tp_amount (buys txns))"
    by (simp add: ps_def comp_def)
  have of_nat_sum: "(of_nat (sum_list xs) :: rat) = sum_list (map of_nat xs)" for xs by (induction xs) simp_all
  have one: "sum_list (map (\<lambda>_. 1 :: rat) xs) = of_nat (length xs)" for xs :: "'a list" by (induction xs) simp_all
  have "of_nat (mp_count (PortfolioHistory.month_slot txns m)) = amount_under qs (ym_text m)" for m
    by (simp add: month_slot_holds[OF assms(1)] qs_def amount_under_def filter_map comp_def f[symmetric] one del: filter_filter)
  then have "of_nat (sum_list (map mp_count (month_slots txns (first_day k * day_ns)))) = sum_list (map (amount_under qs) (window_names k))"
    by (simp add: month_slots_def window_names_def slot_month of_nat_sum comp_def)
  also have "\<dots> = of_nat (length (buys txns))"
    using amounts_share_out[OF distinct_window \<open>fst ` set qs \<subseteq> set (window_names k)\<close>] by (simp add: qs_def comp_def one)
  finally show "sum_list (map mp_count (month_slots txns (first_day k * day_ns))) = length (buys txns)" by simp
qed

section \<open>The report\<close>

definition purchases :: "uuid \<Rightarrow> int \<Rightarrow> trade_db \<Rightarrow> txnPoint list" where
  "purchases u now d = mf_buys u (day_of (window_start now)) d @ stock_points u ''BUY'' (window_start now) d"

text \<open>Amounts in whole paise, nothing dated in the future, every completed order with a price.\<close>

definition flows_ok :: "int \<Rightarrow> trade_db \<Rightarrow> bool" where
  "flows_ok now d \<longleftrightarrow> list_all (\<lambda>t. paise (mt_amount t) \<and> 0 \<le> mt_amount t \<and> mt_date t \<le> day_of now) (mf_txns d) \<and>
     list_all (\<lambda>r. od_status r = ''COMPLETE'' \<longrightarrow> 0 \<le> od_filled r \<and> od_time r \<le> now \<and>
       (case od_avg r of None \<Rightarrow> False | Some p \<Rightarrow> paise p \<and> 0 \<le> p)) (orders d)"

definition point_ok :: "int \<Rightarrow> txnPoint \<Rightarrow> bool" where
  "point_ok now t \<longleftrightarrow> paise (tp_amount t) \<and> 0 \<le> tp_amount t \<and> first_day (window_first (day_of now)) \<le> day_of (tp_at t) \<and> tp_at t \<le> now"

lemma paise_times: "paise p \<Longrightarrow> paise (p * of_int k)"
  unfolding paise_iff by (metis of_int_mult times_divide_eq_left)

lemma day_on [simp]: "day_of (d * day_ns) = d"
  by (simp add: day_of_def)

lemma midnight_le: "d \<le> day_of now \<Longrightarrow> d * day_ns \<le> now"
  using date_after[of now d] by linarith

lemma of_folio_in: "x \<in> set (of_folio u d pick) \<Longrightarrow> \<exists>t \<in> set (mf_txns d). \<exists>f. pick f t = Some x"
  by (auto simp: of_folio_def split: option.splits) metis

lemma points_ok:
  assumes "flows_ok now d"
  shows "t \<in> set (mf_buys u (day_of (window_start now)) d) \<Longrightarrow> point_ok now t \<and> \<not> tp_sell t"
    and "t \<in> set (mf_sells u (day_of (window_start now)) d) \<Longrightarrow> point_ok now t \<and> tp_sell t"
    and "t \<in> set (stock_points u side (window_start now) d) \<Longrightarrow> point_ok now t \<and> (tp_sell t \<longleftrightarrow> side = ''SELL'')"
proof -
  have m: "m \<in> set (mf_txns d) \<Longrightarrow> paise (mt_amount m) \<and> 0 \<le> mt_amount m \<and> mt_date m \<le> day_of now" for m
    using assms by (auto simp: flows_ok_def list_all_iff)
  show "t \<in> set (mf_buys u (day_of (window_start now)) d) \<Longrightarrow> point_ok now t \<and> \<not> tp_sell t"
    unfolding mf_buys_def by (drule of_folio_in) (auto simp: point_ok_def window_start_no midnight_le m split: if_splits)
  show "t \<in> set (mf_sells u (day_of (window_start now)) d) \<Longrightarrow> point_ok now t \<and> tp_sell t"
    unfolding mf_sells_def by (drule of_folio_in) (auto simp: point_ok_def window_start_no midnight_le m split: if_splits)
  have day: "x * day_ns \<le> t \<Longrightarrow> x \<le> day_of t" for x t
    using zdiv_mono1[of "x * day_ns" t day_ns] by (simp add: day_of_def)
  show "t \<in> set (stock_points u side (window_start now) d) \<Longrightarrow> point_ok now t \<and> (tp_sell t \<longleftrightarrow> side = ''SELL'')"
    using assms by (auto simp: flows_ok_def list_all_iff stock_points_def done_orders_def point_ok_def window_start_no day paise_times
      dest!: set_takeWhileD split: option.splits)
qed

definition quiet :: "'d world \<Rightarrow> 'd world \<Rightarrow> bool" where
  "quiet w v \<longleftrightarrow> wdb v = wdb w \<and> wnow v = wnow w \<and> (wfaults w = [] \<longrightarrow> wfaults v = [])"

lemma quiet_refl [simp]: "quiet w w" "quiet w (tick w)"
  by (simp_all add: quiet_def tick_def)

lemma quiet_trans: "quiet w v \<Longrightarrow> quiet v x \<Longrightarrow> quiet w x"
  by (simp add: quiet_def)

text \<open>A query whose error is dropped: its rows or the default, and its rows when nothing fails.\<close>

lemma wp_dropped:
  assumes "\<And>r v. quiet w v \<Longrightarrow> r = a \<or> r = q (wnow w) (wdb w) \<Longrightarrow> (wfaults w = [] \<longrightarrow> r = q (wnow w) (wdb w)) \<Longrightarrow> Q r v"
  shows "wp (ignoring a (query q)) Q E w"
  using assms by (auto simp: wp_simps faulty_def)

definition txns_ok :: "uuid \<Rightarrow> int \<Rightarrow> trade_db \<Rightarrow> txnPoint list \<Rightarrow> bool \<Rightarrow> bool" where
  "txns_ok u now d txns fine \<longleftrightarrow> list_all (point_ok now) txns \<and>
     sum_list (map tp_amount (buys txns)) \<le> sum_list (map tp_amount (purchases u now d)) \<and>
     (fine \<longrightarrow> buys txns = purchases u now d)"

lemma flow_lists:
  assumes "flows_ok now d"
  shows "list_all (point_ok now) (mf_buys u (day_of (window_start now)) d)" "buys (mf_buys u (day_of (window_start now)) d) = mf_buys u (day_of (window_start now)) d"
    and "list_all (point_ok now) (mf_sells u (day_of (window_start now)) d)" "buys (mf_sells u (day_of (window_start now)) d) = []"
    and "list_all (point_ok now) (stock_points u side (window_start now) d)"
    and "buys (stock_points u ''BUY'' (window_start now) d) = stock_points u ''BUY'' (window_start now) d"
    and "buys (stock_points u ''SELL'' (window_start now) d) = []"
  using points_ok[OF assms] by (auto simp: list_all_iff filter_id_conv filter_empty_conv)

lemma amounts_nonneg: "list_all (point_ok now) ts \<Longrightarrow> 0 \<le> sum_list (map tp_amount ts)"
  by (induction ts) (auto simp: point_ok_def)

lemma txns_ok_parts:
  assumes "flows_ok now d"
    and "a = [] \<or> a = mf_buys u (day_of (window_start now)) d" "b = [] \<or> b = stock_points u ''BUY'' (window_start now) d"
    and "c = [] \<or> c = mf_sells u (day_of (window_start now)) d" "e = [] \<or> e = stock_points u ''SELL'' (window_start now) d"
    and "fine \<longrightarrow> a = mf_buys u (day_of (window_start now)) d \<and> b = stock_points u ''BUY'' (window_start now) d"
  shows "txns_ok u now d (a @ b @ c @ e) fine"
proof -
  note l = flow_lists[OF assms(1), of u]
  have "list_all (point_ok now) (a @ b @ c @ e)" using assms(2-5) l(1,3,5) by auto
  moreover have b: "buys (a @ b @ c @ e) = a @ b" using assms(2-5) l by auto
  moreover have "sum_list (map tp_amount a) \<le> sum_list (map tp_amount (mf_buys u (day_of (window_start now)) d))"
    using assms(2) amounts_nonneg[OF l(1)] by auto
  moreover have "sum_list (map tp_amount b) \<le> sum_list (map tp_amount (stock_points u ''BUY'' (window_start now) d))"
    using assms(3) amounts_nonneg[OF l(5)] by auto
  ultimately have "list_all (point_ok now) (a @ b @ c @ e) \<and> sum_list (map tp_amount (buys (a @ b @ c @ e))) \<le> sum_list (map tp_amount (purchases u now d))"
    unfolding b purchases_def map_append sum_list_append by (blast intro: add_mono)
  then show ?thesis unfolding txns_ok_def b using assms(6) by (simp add: purchases_def)
qed

lemma wp_read_txns:
  assumes "flows_ok (wnow w) (trading (wdb w))"
    and "\<And>txns v. quiet w v \<Longrightarrow> txns_ok u (wnow w) (trading (wdb w)) txns (wfaults w = []) \<Longrightarrow> Q txns v"
  shows "wp (read_txns u (window_start (wnow w))) Q E w"
  unfolding read_txns_def
  apply (simp only: wp_bind, rule wp_dropped)+
  apply (simp only: wp_ret)
  apply (rule assms(2))
   apply (metis quiet_trans)
  apply (rule txns_ok_parts[OF assms(1)])
  apply (auto simp: quiet_def)
  done

text \<open>What a report says.\<close>

definition reports :: "wealth_db world \<Rightarrow> uuid \<Rightarrow> DisciplineResult \<Rightarrow> bool" where
  "reports w u r \<longleftrightarrow>
     map mp_month (di_months r) = window_names (window_first (day_of (wnow w))) \<and>
     sum_list (map mp_buy (di_months r)) \<le> sum_list (map tp_amount (purchases u (wnow w) (trading (wdb w)))) \<and>
     (wfaults w = [] \<longrightarrow> sum_list (map mp_buy (di_months r)) = sum_list (map tp_amount (purchases u (wnow w) (trading (wdb w)))) \<and>
        sum_list (map mp_count (di_months r)) = length (purchases u (wnow w) (trading (wdb w)))) \<and>
     di_missed r = count_where (\<lambda>m. mp_count m = 0) (di_months r) \<and> 0 \<le> di_score r \<and> di_score r \<le> 1 \<and>
     (list_all (\<lambda>m. mp_count m = 0) (di_months r) \<and> di_mandates r = 0 \<longrightarrow> di_score r = 7/10 \<and> di_level r = ''GOOD'')"

lemma slots_counted:
  assumes "list_all (\<lambda>t. paise (tp_amount t)) txns"
  shows "12 - count_where mp_has (month_slots txns start) = count_where (\<lambda>m. mp_count m = 0) (month_slots txns start)"
    and "list_all (\<lambda>m. mp_count m = 0) (month_slots txns start) \<Longrightarrow> count_where mp_has (month_slots txns start) = 0"
proof -
  have h: "m \<in> set (month_slots txns start) \<Longrightarrow> mp_has m \<longleftrightarrow> mp_count m \<noteq> 0" for m
    using month_slot_holds(3)[OF assms] by (auto simp: month_slots_def)
  then have "filter mp_has (month_slots txns start) = filter (\<lambda>m. mp_count m \<noteq> 0) (month_slots txns start)" by (auto intro: filter_cong)
  moreover have "length (filter (\<lambda>m. mp_count m = 0) (month_slots txns start)) + length (filter (\<lambda>m. mp_count m \<noteq> 0) (month_slots txns start)) = 12"
    by (subst sum_length_filter_compl) (simp add: month_slots_def)
  ultimately show "12 - count_where mp_has (month_slots txns start) = count_where (\<lambda>m. mp_count m = 0) (month_slots txns start)"
    by (simp add: count_where_def)
  show "list_all (\<lambda>m. mp_count m = 0) (month_slots txns start) \<Longrightarrow> count_where mp_has (month_slots txns start) = 0"
    using h by (auto simp: count_where_def list_all_iff filter_empty_conv)
qed

lemma report_of:
  assumes "txns_ok u (wnow w) (trading (wdb w)) txns (wfaults w = [])"
  shows "reports w u (discipline_of txns n years (wnow w))"
proof -
  let ?k = "window_first (day_of (wnow w))"
  have p: "list_all (\<lambda>t. paise (tp_amount t)) txns" using assms by (auto simp: txns_ok_def list_all_iff point_ok_def)
  have "\<forall>t \<in> set (buys txns). ym_text (tp_at t) \<in> set (window_names ?k)"
    using assms by (auto simp: txns_ok_def list_all_iff point_ok_def in_window)
  note s = slots_share_out[OF p this]
  have c: "0 \<le> round2 (clamp x 0 1)" "round2 (clamp x 0 1) \<le> 1" for x
    by (auto simp: clamp_def intro!: round2_nonneg round2_le_paise)
  have idle: "round2 (clamp (7/10) 0 1) = 7/10" "disciplineLevelAndSegments (round2 (clamp (7/10) 0 1)) = (''GOOD'', 4)"
    by (code_simp, code_simp)
  show ?thesis
    using assms s c slots_counted[OF p, of "first_day ?k * day_ns"] idle
    by (simp add: reports_def discipline_of_def Let_def window_start_no slots_named txns_ok_def)
qed


text \<open>On 31 January 2025 with one purchase, in May 2024: the twelve months run from March 2024 to February 2025.\<close>

definition saving_world :: "wealth_db world" where
  "saving_world = small_world\<lparr>wdb := small_db\<lparr>trading := (trading small_db)\<lparr>mf_txns :=
     [\<lparr>mt_folio = ''i1'', mt_type = ''PURCHASE'', mt_date = 19853, mt_amount = 900, mt_units = 10, mt_price = 90\<rparr>]\<rparr>\<rparr>\<rparr>"

lemma saving_world_eval:
  "flows_ok (wnow saving_world) (trading (wdb saving_world))"
  "window_first (day_of (wnow saving_world)) = 12 * 2024 + 2"
  "sum_list (map tp_amount (purchases ''u'' (wnow saving_world) (trading (wdb saving_world)))) = 900"
  "wfaults saving_world = []"
  by (code_simp, code_simp, code_simp, simp add: saving_world_def small_world_def)


end
