(* ===== verification/GrowthFacts.thy ===== *)
theory GrowthFacts
  imports WealthFacts
begin

text \<open>
  What a look at the growth curve does to the recorded history of a user's wealth.
\<close>

definition recorded_total :: "uuid \<Rightarrow> int \<Rightarrow> snapshot_row list \<Rightarrow> money option" where
  "recorded_total u d rs = map_option sn_total (first_row (filter (own_snapshot u d) rs))"

section \<open>The simulated path\<close>

lemma backtrack_length [simp]: "length (backtrack f k v n) = Suc n"
  by (induction f k v n rule: backtrack.induct) simp_all

lemma backtrack_last: "backtrack f k v n ! n = v"
proof (cases n)
  case (Suc m)
  then show ?thesis by (simp add: nth_append)
qed simp

lemma to_paise_paise [simp]: "paise (to_paise x)"
  unfolding paise_iff to_paise_def by blast

lemma backtrack_paise: "paise v \<Longrightarrow> x \<in> set (backtrack f k v n) \<Longrightarrow> paise x"
  by (induction f k v n rule: backtrack.induct) auto

lemma to_paise_rat: "paise v \<Longrightarrow> to_paise (of_rat v) = v"
proof -
  assume "paise v"
  then obtain i where v: "v = of_int i / 100" by (auto simp: paise_iff)
  have "real_of_rat v * 100 = of_int i" unfolding v by (simp add: of_rat_divide)
  moreover have "\<lfloor>real_of_int i + 1/2\<rfloor> = i" "\<lceil>real_of_int i - 1/2\<rceil> = i" by linarith+
  ultimately show ?thesis by (simp add: to_paise_def v)
qed

lemma backtrack_still: "paise v \<Longrightarrow> (\<And>k. f k = 1) \<Longrightarrow> backtrack f k v n = replicate (Suc n) v"
proof (induction n arbitrary: k)
  case (Suc n)
  then show ?case by (simp add: to_paise_rat replicate_append_same)
qed simp

section \<open>The backfill\<close>

lemma first_row_update:
  "(\<And>r. q (f r) = q r) \<Longrightarrow>
   first_row (filter q (update_where p f rs)) = map_option (\<lambda>r. if p r then f r else r) (first_row (filter q rs))"
  by (induction rs) auto

lemma total_put_backfill:
  "recorded_total u d (put_backfill r rs) = (if sn_user r = u \<and> sn_date r = d then Some (sn_total r) else recorded_total u d rs)"
proof (cases "list_ex (own_snapshot (sn_user r) (sn_date r)) rs")
  case True
  then have e: "put_backfill r rs = update_where (own_snapshot (sn_user r) (sn_date r)) (\<lambda>s. s\<lparr>sn_total := sn_total r\<rparr>) rs"
    by (simp add: put_backfill_def put_row_def)
  have "filter (own_snapshot (sn_user r) (sn_date r)) rs \<noteq> []" using True by (auto simp: list_ex_iff filter_empty_conv)
  moreover have "first_row (filter (own_snapshot u d) (update_where (own_snapshot (sn_user r) (sn_date r)) (\<lambda>s. s\<lparr>sn_total := sn_total r\<rparr>) rs)) =
    map_option (\<lambda>s. if own_snapshot (sn_user r) (sn_date r) s then s\<lparr>sn_total := sn_total r\<rparr> else s) (first_row (filter (own_snapshot u d) rs))"
    by (rule first_row_update) (simp_all add: own_snapshot_def)
  ultimately show ?thesis unfolding recorded_total_def e
    by (cases "first_row (filter (own_snapshot u d) rs)") (auto simp: own_snapshot_def dest!: first_row_filterD)
next
  case False
  then have e: "put_backfill r rs = rs @ [r]" by (simp add: put_backfill_def put_row_def)
  show ?thesis
  proof (cases "sn_user r = u \<and> sn_date r = d")
    case True
    then have "filter (own_snapshot u d) rs = []" using False by (auto simp: list_ex_iff filter_empty_conv)
    then show ?thesis using True unfolding recorded_total_def e by (simp add: own_snapshot_def)
  next
    case no: False
    then have "\<not> own_snapshot u d r" by (simp add: own_snapshot_def)
    then show ?thesis using no unfolding recorded_total_def e by auto
  qed
qed

lemma total_put_backfills:
  "distinct (map sn_date xs) \<Longrightarrow> list_all (\<lambda>r. sn_user r = u) xs \<Longrightarrow>
   recorded_total u' d (foldl (\<lambda>rs r. put_backfill r rs) rs xs) =
     (if u' = u then case map_of (map (\<lambda>r. (sn_date r, sn_total r)) xs) d of None \<Rightarrow> recorded_total u d rs | Some t \<Rightarrow> Some t else recorded_total u' d rs)"
proof (induction xs arbitrary: rs)
  case (Cons x xs)
  have "d = sn_date x \<Longrightarrow> map_of (map (\<lambda>r. (sn_date r, sn_total r)) xs) d = None"
    using Cons.prems by (auto simp: map_of_eq_None_iff)
  then show ?case using Cons by (auto simp: total_put_backfill split: option.split)
qed simp

lemma backfill_total:
  assumes "length vs = totalDays" "list_all paise vs" "i < totalDays"
  shows "recorded_total u (day_back today i) (foldl (\<lambda>rs r. put_backfill r rs) rs (backfill_rows u today vs)) = Some (vs ! i)"
    and "u' \<noteq> u \<or> day \<le> today - int totalDays \<or> day > today \<Longrightarrow>
      recorded_total u' day (foldl (\<lambda>rs r. put_backfill r rs) rs (backfill_rows u today vs)) = recorded_total u' day rs"
proof -
  have m: "map (\<lambda>r. (sn_date r, sn_total r)) (backfill_rows u today vs) = map (\<lambda>i. (day_back today i, vs ! i)) [0..<totalDays]"
    using assms(1,2) by (auto simp: backfill_rows_def backfill_row_def snapshot_for_def list_all_length paise_def)
  have d: "distinct (map (day_back today) [0..<totalDays])"
    by (auto simp: distinct_map inj_on_def day_back_def)
  then have d': "distinct (map sn_date (backfill_rows u today vs))"
    using arg_cong[OF m, of "map fst"] by (simp add: comp_def)
  have a: "list_all (\<lambda>r. sn_user r = u) (backfill_rows u today vs)"
    by (auto simp: list_all_iff backfill_rows_def backfill_row_def snapshot_for_def)
  have "map_of (map (\<lambda>i. (day_back today i, vs ! i)) [0..<totalDays]) (day_back today i) = Some (vs ! i)"
    using d assms(3) by (intro map_of_is_SomeI) (auto simp: comp_def)
  then show "recorded_total u (day_back today i) (foldl (\<lambda>rs r. put_backfill r rs) rs (backfill_rows u today vs)) = Some (vs ! i)"
    by (simp add: total_put_backfills[OF d' a] m)
  have "map_of (map (\<lambda>i. (day_back today i, vs ! i)) [0..<totalDays]) day = None" if "day \<le> today - int totalDays \<or> day > today"
    using that by (auto simp: map_of_eq_None_iff day_back_def)
  then show "u' \<noteq> u \<or> day \<le> today - int totalDays \<or> day > today \<Longrightarrow>
      recorded_total u' day (foldl (\<lambda>rs r. put_backfill r rs) rs (backfill_rows u today vs)) = recorded_total u' day rs"
    by (auto simp: total_put_backfills[OF d' a] m)
qed

section \<open>A look at the curve\<close>

text \<open>The path that is stored and shown, and what the stored history is afterwards.\<close>

definition growth_path :: "(int \<Rightarrow> nat \<Rightarrow> real) \<Rightarrow> uuid \<Rightarrow> PortfolioInputs \<Rightarrow> rat list" where
  "growth_path gauss u inp = (let s = summary_from inp in
     simulated gauss u (growth_rates (ab_value (su_mf s)) (ab_value (su_stocks s)) (ab_value (su_fd s)))
       (if su_total s \<le> 0 then 245000 else su_total s))"

definition history_is :: "uuid \<Rightarrow> int \<Rightarrow> rat list \<Rightarrow> snapshot_row list \<Rightarrow> snapshot_row list \<Rightarrow> bool" where
  "history_is u today vs old new \<longleftrightarrow> length vs = 365 \<and> (\<forall>i < 365. recorded_total u (today - 364 + int i) new = Some (vs ! i)) \<and>
     (\<forall>u' day. u' \<noteq> u \<or> day < today - 364 \<or> day > today \<longrightarrow> recorded_total u' day new = recorded_total u' day old)"

definition curve :: "int \<Rightarrow> rat list \<Rightarrow> SnapshotPoint list" where
  "curve today vs = map (\<lambda>i. \<lparr>gp_date = (today - 364 + int i) * day_ns, gp_total = vs ! i\<rparr>) [0..<365]"

lemma growth_path_props: "length (growth_path gauss u inp) = 365" "list_all paise (growth_path gauss u inp)"
  "growth_path gauss u inp ! 364 = (if su_total (summary_from inp) \<le> 0 then 245000 else su_total (summary_from inp))"
proof -
  have "paise 245000" unfolding paise_iff by (rule exI[of _ 24500000]) simp
  then have "paise (if su_total (summary_from inp) \<le> 0 then 245000 else su_total (summary_from inp))"
    by (simp add: summary_from_def Let_def)
  note p = backtrack_paise[OF this]
  show "length (growth_path gauss u inp) = 365" by (simp add: growth_path_def Let_def simulated_def totalDays_def)
  show "list_all paise (growth_path gauss u inp)"
    unfolding growth_path_def Let_def simulated_def list_all_iff using p by blast
  show "growth_path gauss u inp ! 364 = (if su_total (summary_from inp) \<le> 0 then 245000 else su_total (summary_from inp))"
    using backtrack_last[of _ _ _ 364] by (simp add: growth_path_def Let_def simulated_def totalDays_def)
qed

lemma snapshot_elsewhere:
  assumes "u' \<noteq> u \<or> day \<noteq> today"
  shows "recorded_total u' day (put_row (own_snapshot u today) (\<lambda>_. snapshot_for u today t a b c e) (snapshot_for u today t a b c e) rs) = recorded_total u' day rs"
proof -
  let ?r = "snapshot_for u today t a b c e"
  have r: "sn_user ?r = u" "sn_date ?r = today" by (simp_all add: snapshot_for_def)
  have "filter (own_snapshot u' day) (update_where (own_snapshot u today) (\<lambda>_. ?r) rs) = filter (own_snapshot u' day) rs"
    by (induction rs) (use assms r in \<open>auto simp: own_snapshot_def\<close>)
  moreover have "\<not> own_snapshot u' day ?r" using assms r by (auto simp: own_snapshot_def)
  ultimately show ?thesis by (simp add: recorded_total_def put_row_def)
qed

lemma history_written:
  assumes "\<And>u' day. u' \<noteq> u \<or> day < today - 364 \<or> day > today \<Longrightarrow> recorded_total u' day rs = recorded_total u' day old"
  shows "history_is u today (growth_path gauss u inp) old (foldl (\<lambda>rs r. put_backfill r rs) rs (backfill_rows u today (growth_path gauss u inp)))"
proof -
  note g = growth_path_props[of gauss u inp]
  have l: "length (growth_path gauss u inp) = totalDays" using g(1) by (simp add: totalDays_def)
  have b: "day_back today i = today - 364 + int i" if "i < 365" for i using that by (simp add: day_back_def totalDays_def)
  have "recorded_total u (today - 364 + int i) (foldl (\<lambda>rs r. put_backfill r rs) rs (backfill_rows u today (growth_path gauss u inp))) = Some (growth_path gauss u inp ! i)"
    if "i < 365" for i
    using backfill_total(1)[OF l g(2), of i u today rs] that by (simp add: b totalDays_def)
  moreover have "recorded_total u' day (foldl (\<lambda>rs r. put_backfill r rs) rs (backfill_rows u today (growth_path gauss u inp))) = recorded_total u' day rs"
    if "u' \<noteq> u \<or> day < today - 364 \<or> day > today" for u' day
    using backfill_total(2)[OF l g(2), of 0 u' u day today rs] that by (auto simp: totalDays_def)
  ultimately show ?thesis using assms g(1) by (auto simp: history_is_def)
qed

lemma steady_FetchInputs: "steady (\<lambda>d. snapshots d = rs) (FetchInputs rnd coll idbi u)"
proof -
  have "steady (\<lambda>d. snapshots d = rs) (on_mirror m)" for m :: "(idbi_db, 'a) act"
    unfolding on_mirror_def by (rule steadyI) (auto simp: wp_def zoom_def split: prod.splits sum.split)
  then show ?thesis
    unfolding FetchInputs_def mirror_accounts_def
    by (auto simp: split_beta intro!: steady_intros reads_steady[OF reads_areas(1)] reads_steady[OF reads_areas(2)] reads_holdings split: option.split prod.split)
qed

lemma timed_acct_List: "timed (acct_List coll cfg u)"
  by (auto simp: acct_List_def drop_cached_def idbi_ListAccounts_def refreshInBackground_def Let_def intro!: clock_intros split: option.split)

lemma timed_FetchInputs: "timed (FetchInputs rnd coll idbi u)"
  unfolding FetchInputs_def mirror_accounts_def on_bank_def on_trade_def on_mirror_def
  by (auto simp: GetHoldings_def mf_GetHoldings_def ListFDs_def GetBankAccounts_def intro!: clock_intros timed_zoom timed_acct_List split: option.split prod.split)

lemma wp_FetchInputs:
  "wp (FetchInputs rnd coll idbi u) (\<lambda>_ v. snapshots (wdb v) = snapshots (wdb w) \<and> wnow v = wnow w)
     (\<lambda>_ v. snapshots (wdb v) = snapshots (wdb w) \<and> wnow v = wnow w) w"
  using steady_FetchInputs[of "snapshots (wdb w)" rnd coll idbi u] timedD[OF timed_FetchInputs[of rnd coll idbi u]]
  by (auto simp: steady_def wp_def split: prod.split sum.split)

text \<open>The inputs: those handed over, or those of the tables.\<close>

definition inputs_of :: "(int \<Rightarrow> rat) \<Rightarrow> (string \<Rightarrow> int) \<Rightarrow> acct_config option \<Rightarrow> uuid \<Rightarrow> PortfolioInputs option \<Rightarrow> (wealth_db, PortfolioInputs) act" where
  "inputs_of rnd coll idbi u prefetched = (case prefetched of Some inp \<Rightarrow> ret inp | None \<Rightarrow> FetchInputs rnd coll idbi u)"

lemma summary_steps: "(case prefetched of Some inp \<Rightarrow> Summarize u inp | None \<Rightarrow> dash_Summary rnd coll idbi u) = bind (inputs_of rnd coll idbi u prefetched) (Summarize u)"
  by (simp add: inputs_of_def dash_Summary_def bind_def ret_def split: option.split)

lemma wp_inputs_of:
  "wp (inputs_of rnd coll idbi u p) (\<lambda>inp v. fst (inputs_of rnd coll idbi u p w) = Inr inp \<and> snapshots (wdb v) = snapshots (wdb w) \<and> wnow v = wnow w)
     (\<lambda>_ v. snapshots (wdb v) = snapshots (wdb w) \<and> wnow v = wnow w) w"
  using wp_FetchInputs[of rnd coll idbi u w] by (cases p) (auto simp: inputs_of_def ret_def wp_def split: prod.splits sum.splits)

lemma wp_Summarize:
  "wp (Summarize u inp) (\<lambda>s v. s = summary_from inp \<and> wnow v = wnow w \<and>
      (\<forall>u' day. u' \<noteq> u \<or> day \<noteq> day_of (wnow w) \<longrightarrow> recorded_total u' day (snapshots (wdb v)) = recorded_total u' day (snapshots (wdb w))))
     (\<lambda>_ v. wnow v = wnow w \<and> snapshots (wdb v) = snapshots (wdb w)) w"
  by (auto simp: Summarize_def recordSnapshot_def wp_simps Let_def snapshot_elsewhere)

lemma wp_next:
  assumes "wp m P (\<lambda>_ _. True) w" "\<And>a v. P a v \<Longrightarrow> wp (f a) Q (\<lambda>_ _. True) v"
  shows "wp (bind m f) Q (\<lambda>_ _. True) w"
  unfolding wp_bind by (rule wp_mono[OF assms(1)]) (use assms(2) in auto)

lemma wp_recorded: "wp (recorded_points u n) (\<lambda>pts v. length pts \<le> n \<and> v = tick w) (\<lambda>_ _. True) w"
  by (simp add: recorded_points_def wp_simps)

lemma wp_backfill: "wp (backfill u vs) (\<lambda>_ v. wnow v = wnow w \<and>
    snapshots (wdb v) = foldl (\<lambda>rs r. put_backfill r rs) (snapshots (wdb w)) (backfill_rows u (day_of (wnow w)) vs)) (\<lambda>_ _. True) w"
  by (simp add: backfill_def wp_simps)

lemma wp_wealth:
  "wp (wrapping msg (case p of Some inp \<Rightarrow> Summarize u inp | None \<Rightarrow> dash_Summary rnd coll idbi u))
     (\<lambda>s v. \<exists>inp. fst (inputs_of rnd coll idbi u p w) = Inr inp \<and> s = summary_from inp \<and> wnow v = wnow w \<and>
        (\<forall>u' day. u' \<noteq> u \<or> day \<noteq> day_of (wnow w) \<longrightarrow> recorded_total u' day (snapshots (wdb v)) = recorded_total u' day (snapshots (wdb w))))
     (\<lambda>_ _. True) w"
  unfolding summary_steps wp_wrapping
  by (rule wp_next[OF wp_mono[OF wp_inputs_of]], assumption, simp, rule wp_mono[OF wp_Summarize]) auto

lemma curve_points: "map (\<lambda>i. \<lparr>gp_date = day_back today i * day_ns, gp_total = vs ! i\<rparr>) [0..<totalDays] = curve today vs"
  by (auto simp: curve_def day_back_def totalDays_def)

text \<open>
  C40. A look at the growth curve over at most thirty days replaces the user's recorded history. Whatever was stored, once it
  is answered every one of the last 365 days holds a value of the simulated path, the curve shows the end of that path, and the path ends
  at today's wealth, or at 245000 for a user who has none. Older days and other users keep their rows.
\<close>

theorem growth_rewrites_history:
  assumes "1 \<le> days" "days \<le> 30"
  shows "wp (GrowthHistory gauss rnd coll idbi u days prefetched)
     (\<lambda>points v. \<exists>inp. fst (inputs_of rnd coll idbi u prefetched (tick w)) = Inr inp \<and>
        history_is u (day_of (wnow w)) (growth_path gauss u inp) (snapshots (wdb w)) (snapshots (wdb v)) \<and>
        points = drop (365 - nat days) (curve (day_of (wnow w)) (growth_path gauss u inp)) \<and>
        growth_path gauss u inp ! 364 = (if su_total (summary_from inp) \<le> 0 then 245000 else su_total (summary_from inp)))
     (\<lambda>_ _. True) w"
proof (unfold GrowthHistory_def Let_def, rule wp_next[OF wp_recorded], goal_cases)
  case (1 points v)
  then have v: "v = tick w" "wdb v = wdb w" "wnow v = wnow w" by simp_all
  have n: "days_or 180 days = nat days" "0 < nat days" "nat days < totalDays" "nat days \<le> 30"
    using assms by (simp_all add: days_or_def totalDays_def)
  then have few: "\<not> 30 < length points" using 1 by simp
  show ?case
  proof (simp only: few if_False, rule wp_next[OF wp_wealth], elim exE conjE, goal_cases)
    case (1 s x inp)
    then have p: "simulated gauss u (growth_rates (ab_value (su_mf s)) (ab_value (su_stocks s)) (ab_value (su_fd s)))
        (if su_total s \<le> 0 then 245000 else su_total s) = growth_path gauss u inp"
      by (simp add: growth_path_def Let_def)
    have h: "history_is u (day_of (wnow w)) (growth_path gauss u inp) (snapshots (wdb w))
        (foldl (\<lambda>rs r. put_backfill r rs) (snapshots (wdb x)) (backfill_rows u (day_of (wnow w)) (growth_path gauss u inp)))"
      by (rule history_written) (use 1 v in auto)
    show ?case
      unfolding p
      by (rule wp_next[OF wp_backfill])
        (use 1 v h n growth_path_props(3)[of gauss u inp] in \<open>auto simp: wp_simps curve_points[unfolded totalDays_def] totalDays_def intro!: exI[of _ inp]\<close>)
  qed
qed

text \<open>A user without money whose wealth of yesterday is recorded as 5: a look at the last 30 days stores 245000 for that day.\<close>

definition idle_db :: wealth_db where
  "idle_db = \<lparr>banking = \<lparr>accounts = [], payments = [], mandates = [], executions = [], deposits = []\<rparr>,
     trading = \<lparr>holdings = [], orders = [], catalog = [], folios = [], mf_txns = []\<rparr>,
     mirroring = \<lparr>cust_links = [], mirror = [], spends = [], consents = [], linked = [], phones = [], acct_cache = [], inflight = []\<rparr>,
     allocations = [], securities = [], nfos = [], watches = [], goals = [],
     snapshots = [\<lparr>sn_user = ''u'', sn_date = 19999, sn_total = 5, sn_mf = 0, sn_stocks = 0, sn_fd = 0, sn_bank = 5\<rparr>], dna_rows = []\<rparr>"

definition idle_world :: "wealth_db world" where
  "idle_world = \<lparr>wdb = idle_db, wfaults = [], wnow = 20000 * day_ns, wrand = [], wuuids = []\<rparr>"

text \<open>Normal numbers that cancel the growth of a day.\<close>

definition flat :: "int \<Rightarrow> nat \<Rightarrow> real" where
  "flat seed k = - ((1 + 14/100) powr (1 / 365) - 1) / (6/1000)"

definition idle_inputs :: PortfolioInputs where
  "idle_inputs = \<lparr>pi_holdings = [], pi_mf = summary_of [], pi_folios = [], pi_fds = [], pi_banks = []\<rparr>"

lemma idle_tick [simp]: "tick idle_world = idle_world"
  by (simp add: tick_def idle_world_def)

lemma idle_sel [simp]: "wdb idle_world = idle_db" "wfaults idle_world = []" "wnow idle_world = 20000 * day_ns" "\<not> faulty idle_world"
  by (simp_all add: idle_world_def faulty_def)

lemma idle_fetch: "FetchInputs rnd coll None ''u'' idle_world = (Inr idle_inputs, idle_world)"
  unfolding wp_eq_returns FetchInputs_def mirror_accounts_def on_bank_def on_trade_def
  by (simp add: wp_simps wp_zoom split_beta GetHoldings_def mf_GetHoldings_def ListFDs_def GetBankAccounts_def Let_def with_nav_def
      idle_inputs_def idle_db_def moved_same_type Bank.linked_def)

lemma idle_summary: "su_total (summary_from idle_inputs) = 0" "ab_value (su_mf (summary_from idle_inputs)) = 0"
  "ab_value (su_stocks (summary_from idle_inputs)) = 0" "ab_value (su_fd (summary_from idle_inputs)) = 0" "ab_value (su_bank (summary_from idle_inputs)) = 0"
  by (simp_all add: summary_from_def Let_def idle_inputs_def stocks_bucket_def mf_bucket_def fd_bucket_def bank_bucket_def fillDerivedFields_def
      summary_of_def shareOf_def active_def paise_0[unfolded paise_def])

lemma flat_path: "simulated flat ''u'' (growth_rates 0 0 0) 245000 = replicate 365 245000"
proof -
  have "paise 245000" unfolding paise_iff by (rule exI[of _ 24500000]) simp
  moreover have "daily_factor flat ''u'' (growth_rates 0 0 0) k = 1" for k
    by (simp add: daily_factor_def growth_rates_def flat_def field_simps)
  ultimately show ?thesis unfolding simulated_def by (subst backtrack_still) (simp_all add: totalDays_def)
qed

lemma flat_fits: "list_all snapshot_fits (backfill_rows ''u'' d (replicate 365 245000))"
proof -
  have "snapshot_fits (backfill_row ''u'' day 245000)" for day
  proof -
    have "list_all (decimal_fits 18 2) [round2 245000, round2 (245000 * (65/100)), round2 (245000 * (25/100)), round2 (245000 * (10/100)), round2 0]"
      by code_simp
    then show ?thesis by (simp only: snapshot_fits_def backfill_row_def snapshot_for_def snapshot_row.select_convs)
  qed
  then show ?thesis by (simp add: backfill_rows_def list_all_iff totalDays_def)
qed

lemma wp_idle_fetch: "wp (FetchInputs rnd coll None ''u'') Q E idle_world \<longleftrightarrow> Q idle_inputs idle_world"
  by (simp add: wp_def idle_fetch)

lemma idle_snapshot_fits: "snapshot_fits (snapshot_for ''u'' d 0 0 0 0 0)"
  by (simp add: snapshot_fits_def snapshot_for_def decimal_fits_def paise_0[unfolded paise_def])

lemma idle_growth: "wp (GrowthHistory flat rnd coll None ''u'' 30 None) (\<lambda>_ _. True) (\<lambda>_ _. False) idle_world"
proof -
  have "wp (dash_Summary rnd coll None ''u'') (\<lambda>s v. s = summary_from idle_inputs \<and> wfaults v = []) (\<lambda>_ _. False) idle_world"
    by (simp add: wp_simps dash_Summary_def wp_idle_fetch Summarize_def Let_def recordSnapshot_def idle_summary idle_snapshot_fits)
  note s = wp_mono[OF this]
  have few: "\<not> 30 < length (rev (map f (take (days_or 180 30) rs)))" for f :: "snapshot_row \<Rightarrow> SnapshotPoint" and rs
    by (simp add: days_or_def)
  show ?thesis
    unfolding GrowthHistory_def Let_def recorded_points_def
    apply (simp add: wp_simps few del: length_rev length_map length_take)
    apply (rule s)
     apply (auto simp: idle_summary flat_path backfill_def wp_simps flat_fits faulty_def)
    done
qed

lemma idle_path: "growth_path flat ''u'' idle_inputs = replicate 365 245000"
  by (simp add: growth_path_def Let_def idle_summary flat_path)

lemma growth_rewrites_history_witness:
  "recorded_total ''u'' 19999 (snapshots idle_db) = Some 5 \<and>
   (\<exists>points v. GrowthHistory flat (\<lambda>_. 0) (\<lambda>_. 0) None ''u'' 30 None idle_world = (Inr points, v) \<and>
      recorded_total ''u'' 19999 (snapshots (wdb v)) = Some 245000)"
proof
  show "recorded_total ''u'' 19999 (snapshots idle_db) = Some 5" by (simp add: recorded_total_def idle_db_def own_snapshot_def)
  obtain points v where g: "GrowthHistory flat (\<lambda>_. 0) (\<lambda>_. 0) None ''u'' 30 None idle_world = (Inr points, v)"
    using idle_growth[of "\<lambda>_. 0" "\<lambda>_. 0"] by (auto simp: wp_def split: prod.splits sum.splits)
  have "history_is ''u'' 20000 (replicate 365 245000) (snapshots idle_db) (snapshots (wdb v))"
    using wp_returns[OF growth_rewrites_history g] by (auto simp: inputs_of_def idle_fetch idle_path day_of_def)
  then have "recorded_total ''u'' (20000 - 364 + int 363) (snapshots (wdb v)) = Some (replicate 365 245000 ! 363)"
    unfolding history_is_def by (elim conjE allE[where x = 363]) simp
  then show "\<exists>points v. GrowthHistory flat (\<lambda>_. 0) (\<lambda>_. 0) None ''u'' 30 None idle_world = (Inr points, v) \<and>
      recorded_total ''u'' 19999 (snapshots (wdb v)) = Some 245000"
    using g by simp
qed

end
